(* ===== verification/Prelude.thy ===== *)
theory Prelude
  imports Main "HOL-Library.Word"
begin

text \<open>
  Shared vocabulary of the development: the Rust integer types as words, the saturating and
  checked operations of the standard library, results as sums, the string operations of
  \<^verbatim>\<open>str\<close> the gateway uses, association lists as the model of \<^verbatim>\<open>HashMap\<close> and
  \<^verbatim>\<open>DashMap\<close> where their size or their iteration order matters, and the interface of a
  counter that admits a bounded number of requests, which the rate limiters and the circuit
  breaker implement.
\<close>

named_theorems unat_simps \<open>word facts moved to the natural numbers\<close>
named_theorems str_simps \<open>evaluation of the string operations\<close>

section \<open>Machine integers\<close>

type_synonym u8 = "8 word"
type_synonym u16 = "16 word"
type_synonym u32 = "32 word"
type_synonym u64 = "64 word"

text \<open>A Rust \<^verbatim>\<open>Duration\<close> is a number of nanoseconds; \<open>as_millis\<close> and \<open>as_micros\<close> round
  down, and a cast to u64 wraps.\<close>

type_synonym duration = nat

definition as_millis :: "duration \<Rightarrow> nat" where
  "as_millis d = d div 1000000"

definition as_micros :: "duration \<Rightarrow> nat" where
  "as_micros d = d div 1000"

definition from_secs :: "nat \<Rightarrow> duration" where
  "from_secs s = s * 1000000000"

definition from_millis :: "nat \<Rightarrow> duration" where
  "from_millis s = s * 1000000"

definition u64_max :: nat where
  "u64_max = 18446744073709551615"

definition saturating_sub :: "'a::len word \<Rightarrow> 'a word \<Rightarrow> 'a word" where
  "saturating_sub a b = (if a < b then 0 else a - b)"

definition saturating_add :: "'a::len word \<Rightarrow> 'a word \<Rightarrow> 'a word" where
  "saturating_add a b = (if unat a + unat b < 2 ^ LENGTH('a) then a + b else - 1)"

definition saturating_mul :: "'a::len word \<Rightarrow> 'a word \<Rightarrow> 'a word" where
  "saturating_mul a b = (if unat a * unat b < 2 ^ LENGTH('a) then a * b else - 1)"

definition checked_sub :: "'a::len word \<Rightarrow> 'a word \<Rightarrow> 'a word option" where
  "checked_sub a b = (if a < b then None else Some (a - b))"

definition checked_div :: "'a::len word \<Rightarrow> 'a word \<Rightarrow> 'a word option" where
  "checked_div a b = (if b = 0 then None else Some (a div b))"

lemma unat_word_minus_one [unat_simps]: "unat (- 1 :: 'a::len word) = 2 ^ LENGTH('a) - 1"
  by (simp add: unsigned_minus_1_eq_mask mask_eq_exp_minus_1)

lemma unat_inc [unat_simps]: "x < (y :: 'a::len word) \<Longrightarrow> unat (x + 1) = unat x + 1"
proof -
  assume "x < y"
  then have "unat x < unat y" by (simp add: word_less_nat_alt)
  moreover have "unat y < 2 ^ LENGTH('a)" by (rule unsigned_less)
  ultimately have "unat x + 1 < 2 ^ LENGTH('a)" by linarith
  then show ?thesis
    by (simp add: unat_word_ariths)
qed

lemma unat_saturating_sub [unat_simps]: "unat (saturating_sub a b) = unat a - unat b"
  by (auto simp: saturating_sub_def word_less_nat_alt unat_sub_if')

lemma unat_saturating_add [unat_simps]:
  "unat (saturating_add a (b :: 'a::len word)) = min (unat a + unat b) (2 ^ LENGTH('a) - 1)"
  by (auto simp: saturating_add_def unat_simps unat_word_ariths)

lemma unat_saturating_mul [unat_simps]:
  "unat (saturating_mul a (b :: 'a::len word)) = min (unat a * unat b) (2 ^ LENGTH('a) - 1)"
  by (auto simp: saturating_mul_def unat_simps unat_word_ariths)

lemma checked_sub_Some:
  "checked_sub a b = Some c \<longleftrightarrow> unat b \<le> unat a \<and> c = a - b"
  by (auto simp: checked_sub_def word_less_nat_alt)

lemma checked_sub_None: "checked_sub a b = None \<longleftrightarrow> unat a < unat b"
  by (auto simp: checked_sub_def word_less_nat_alt)

lemma unat_checked_sub: "checked_sub a b = Some c \<Longrightarrow> unat c + unat b = unat a"
  by (auto simp: checked_sub_Some unat_sub_if')

lemma unat_min_word [unat_simps]: "unat (min a b) = min (unat a) (unat (b :: 'a::len word))"
  by (auto simp: min_def word_le_nat_alt)

lemma unat_max_word [unat_simps]: "unat (max a b) = max (unat a) (unat (b :: 'a::len word))"
  by (auto simp: max_def word_le_nat_alt)

section \<open>Results\<close>

text \<open>\<^verbatim>\<open>Result<T, E>\<close>: \<open>Ok\<close> and \<open>Err\<close> are the two injections of a sum.\<close>

type_synonym ('e, 'a) result = "'e + 'a"

abbreviation Ok :: "'a \<Rightarrow> ('e, 'a) result" where
  "Ok \<equiv> Inr"

abbreviation Err :: "'e \<Rightarrow> ('e, 'a) result" where
  "Err \<equiv> Inl"

definition is_ok :: "('e, 'a) result \<Rightarrow> bool" where
  "is_ok r = (case r of Ok _ \<Rightarrow> True | Err _ \<Rightarrow> False)"

definition map_err :: "('e \<Rightarrow> 'f) \<Rightarrow> ('e, 'a) result \<Rightarrow> ('f, 'a) result" where
  "map_err f r = (case r of Ok x \<Rightarrow> Ok x | Err e \<Rightarrow> Err (f e))"

lemma is_ok_simps [simp]: "is_ok (Ok x) = True" "is_ok (Err e) = False"
  by (simp_all add: is_ok_def)

lemma map_err_simps [simp]: "map_err f (Ok x) = Ok x" "map_err f (Err e) = Err (f e)"
  by (simp_all add: map_err_def)

lemma map_err_Ok_iff [simp]: "map_err f r = Ok x \<longleftrightarrow> r = Ok x"
  by (cases r) simp_all

lemma is_ok_map_err [simp]: "is_ok (map_err f r) = is_ok r"
  by (cases r) simp_all

lemma is_ok_iff: "is_ok r \<longleftrightarrow> (\<exists>x. r = Ok x)"
  by (cases r) simp_all

definition is_some_and :: "'a option \<Rightarrow> ('a \<Rightarrow> bool) \<Rightarrow> bool" where
  "is_some_and m p = (case m of None \<Rightarrow> False | Some x \<Rightarrow> p x)"

lemma is_some_and_simps [simp]:
  "is_some_and None p = False" "is_some_and (Some x) p = p x"
  by (simp_all add: is_some_and_def)

definition unwrap_or :: "'a option \<Rightarrow> 'a \<Rightarrow> 'a" where
  "unwrap_or m d = (case m of None \<Rightarrow> d | Some x \<Rightarrow> x)"

lemma unwrap_or_simps [simp]: "unwrap_or None d = d" "unwrap_or (Some x) d = x"
  by (simp_all add: unwrap_or_def)

definition or_else :: "'a option \<Rightarrow> 'a option \<Rightarrow> 'a option" where
  "or_else m n = (case m of None \<Rightarrow> n | Some x \<Rightarrow> Some x)"

lemma or_else_simps [simp]: "or_else None n = n" "or_else (Some x) n = Some x"
  by (simp_all add: or_else_def)

section \<open>Strings\<close>

text \<open>
  A Rust \<^verbatim>\<open>String\<close> is its UTF-8 byte sequence, a list of 8-bit characters. Searching,
  splitting and prefix tests on UTF-8 agree with the same operations on bytes.
  \<^verbatim>\<open>trim\<close> and \<^verbatim>\<open>split_whitespace\<close> are modelled on the ASCII white space characters;
  \<^verbatim>\<open>to_ascii_lowercase\<close> is exact. The Unicode \<^verbatim>\<open>to_lowercase\<close> is a parameter wherever the
  code calls it.
\<close>

definition starts_with :: "string \<Rightarrow> string \<Rightarrow> bool" where
  "starts_with p s = (take (length p) s = p)"

definition ends_with :: "string \<Rightarrow> string \<Rightarrow> bool" where
  "ends_with p s = starts_with (rev p) (rev s)"

definition strip_prefix :: "string \<Rightarrow> string \<Rightarrow> string option" where
  "strip_prefix p s = (if starts_with p s then Some (drop (length p) s) else None)"

text \<open>\<^verbatim>\<open>haystack.find(needle)\<close>: the index of the leftmost occurrence.\<close>

fun str_find :: "string \<Rightarrow> string \<Rightarrow> nat option" where
  "str_find p [] = (if p = [] then Some 0 else None)"
| "str_find p (c # s) = (if starts_with p (c # s) then Some 0 else map_option Suc (str_find p s))"

definition str_contains :: "string \<Rightarrow> string \<Rightarrow> bool" where
  "str_contains p s = (str_find p s \<noteq> None)"

fun split_char :: "char \<Rightarrow> string \<Rightarrow> string list" where
  "split_char c [] = [[]]"
| "split_char c (x # xs) =
     (if x = c then [] # split_char c xs
      else (case split_char c xs of [] \<Rightarrow> [[x]] | y # ys \<Rightarrow> (x # y) # ys))"

fun join :: "string \<Rightarrow> string list \<Rightarrow> string" where
  "join sep [] = []"
| "join sep [x] = x"
| "join sep (x # y # ys) = x @ sep @ join sep (y # ys)"

definition is_space :: "char \<Rightarrow> bool" where
  "is_space c = (c \<in> set [CHR '' '', CHR 0x09, CHR 0x0A, CHR 0x0B, CHR 0x0C, CHR 0x0D])"

definition trim_start :: "string \<Rightarrow> string" where
  "trim_start s = dropWhile is_space s"

definition trim :: "string \<Rightarrow> string" where
  "trim s = rev (trim_start (rev (trim_start s)))"

definition to_ascii_lowercase :: "string \<Rightarrow> string" where
  "to_ascii_lowercase s =
     map (\<lambda>c. let n = (of_char c :: nat) in if 65 \<le> n \<and> n \<le> 90 then char_of (n + 32) else c) s"

text \<open>The pieces between runs of white space, without empty pieces.\<close>

fun split_whitespace_aux :: "string \<Rightarrow> string \<Rightarrow> string list" where
  "split_whitespace_aux acc [] = (if acc = [] then [] else [rev acc])"
| "split_whitespace_aux acc (c # s) =
     (if is_space c then (if acc = [] then [] else [rev acc]) @ split_whitespace_aux [] s
      else split_whitespace_aux (c # acc) s)"

definition split_whitespace :: "string \<Rightarrow> string list" where
  "split_whitespace s = split_whitespace_aux [] s"

text \<open>Decimal rendering of an unsigned integer, as \<^verbatim>\<open>format!("{}", n)\<close>.\<close>

fun show_nat :: "nat \<Rightarrow> string" where
  "show_nat n = (if n < 10 then [char_of (48 + n)] else show_nat (n div 10) @ [char_of (48 + n mod 10)])"

declare show_nat.simps [simp del]

text \<open>A value between single quotes, as the error messages print identifiers.\<close>

definition quoted :: "string \<Rightarrow> string" where
  "quoted s = [CHR 0x27] @ s @ [CHR 0x27]"

lemma starts_with_Nil [simp]: "starts_with [] s"
  by (simp add: starts_with_def)

lemma starts_with_iff: "starts_with p s \<longleftrightarrow> (\<exists>t. s = p @ t)"
  unfolding starts_with_def by (metis append_eq_conv_conj append_take_drop_id)

lemma ends_with_iff: "ends_with p s \<longleftrightarrow> (\<exists>t. s = t @ p)"
  unfolding ends_with_def starts_with_iff
  by (metis rev_append rev_rev_ident)

lemma starts_with_Cons [simp]: "starts_with (a # p) s \<longleftrightarrow> (\<exists>t. s = a # t \<and> starts_with p t)"
  by (auto simp: starts_with_iff)

lemma strip_prefix_Some: "strip_prefix p s = Some t \<longleftrightarrow> s = p @ t"
  by (auto simp: strip_prefix_def starts_with_iff)

lemma str_find_Some:
  "str_find p s = Some i \<longleftrightarrow>
     i \<le> length s \<and> starts_with p (drop i s) \<and> (\<forall>j<i. \<not> starts_with p (drop j s))"
proof (induction s arbitrary: i)
  case Nil
  then show ?case by (auto simp: starts_with_iff)
next
  case (Cons c s)
  show ?case
  proof (cases "starts_with p (c # s)")
    case True
    then show ?thesis by (auto simp: gr0_conv_Suc dest: spec [of _ 0])
  next
    case False
    then show ?thesis
      by (cases i) (auto simp: Cons.IH less_Suc_eq_0_disj)
  qed
qed

lemma str_find_None: "str_find p s = None \<longleftrightarrow> (\<forall>j\<le>length s. \<not> starts_with p (drop j s))"
proof (induction s)
  case Nil
  then show ?case by (auto simp: starts_with_iff)
next
  case (Cons c s)
  have split: "(\<forall>j<Suc (Suc (length s)). \<not> starts_with p (drop j (c # s))) \<longleftrightarrow>
      \<not> starts_with p (c # s) \<and> (\<forall>j<Suc (length s). \<not> starts_with p (drop j s))"
    by (subst All_less_Suc2) simp
  with Cons.IH show ?case by (simp add: less_Suc_eq_le)
qed

lemma str_contains_iff: "str_contains p s \<longleftrightarrow> (\<exists>a b. s = a @ p @ b)"
proof -
  have "str_contains p s \<longleftrightarrow> (\<exists>j\<le>length s. starts_with p (drop j s))"
    by (auto simp: str_contains_def str_find_None simp del: not_None_eq)
  also have "\<dots> \<longleftrightarrow> (\<exists>a b. s = a @ p @ b)"
    unfolding starts_with_iff
    by (metis append_eq_conv_conj append_take_drop_id length_append le_add1)
  finally show ?thesis .
qed

lemma split_char_not_Nil [simp]: "split_char c s \<noteq> []"
  by (induction s) (auto split: list.splits)

lemma split_char_no_sep: "c \<notin> set s \<Longrightarrow> split_char c s = [s]"
  by (induction s) auto

lemma split_char_parts: "x \<in> set (split_char c s) \<Longrightarrow> c \<notin> set x"
  by (induction s arbitrary: x) (force split: list.splits if_splits)+

lemma join_Cons: "ys \<noteq> [] \<Longrightarrow> join sep (y # ys) = y @ sep @ join sep ys"
  by (cases ys) auto

lemma join_split_char: "join [c] (split_char c s) = s"
proof (induction s)
  case Nil
  then show ?case by simp
next
  case (Cons x s)
  then show ?case
    by (cases "split_char c s"; cases "tl (split_char c s)") (auto simp: join_Cons)
qed

lemma show_nat_not_Nil [simp]: "show_nat n \<noteq> []"
  by (subst show_nat.simps) simp

lemma show_nat_chars: "c \<in> set (show_nat n) \<Longrightarrow> 48 \<le> (of_char c :: nat) \<and> (of_char c :: nat) \<le> 57"
  by (induction n rule: show_nat.induct) (subst (asm) (2) show_nat.simps, auto split: if_splits)

lemma hd_show_nat: "0 < n \<Longrightarrow> hd (show_nat n) \<noteq> CHR ''0''"
proof (induction n rule: show_nat.induct)
  case (1 n)
  have "char_of (48 + n) \<noteq> CHR ''0''" if "n < 10"
  proof
    assume "char_of (48 + n) = CHR ''0''"
    then have "(of_char (char_of (48 + n) :: char) :: nat) = of_char (CHR ''0'')" by simp
    then show False using that 1(2) by simp
  qed
  then show ?case
    using 1 by (subst show_nat.simps) (auto simp: hd_append)
qed

lemma length_show_nat: "n < 10 ^ k \<Longrightarrow> 0 < k \<Longrightarrow> length (show_nat n) \<le> k"
proof (induction n arbitrary: k rule: show_nat.induct)
  case (1 n)
  show ?case
  proof (cases "n < 10")
    case True
    with 1(3) show ?thesis by (subst show_nat.simps) simp
  next
    case False
    then have k: "1 < k" using 1(2,3) by (cases k; cases "k - 1") auto
    then have "n div 10 < 10 ^ (k - 1)" using 1(2) by (cases k) auto
    from 1(1) [OF False this] k False show ?thesis by (subst show_nat.simps) simp
  qed
qed

lemma split_char_app: "split_char c (s @ c # t) = split_char c s @ split_char c t"
  by (induction s) (auto split: list.split)

lemma takeWhile_stop: "\<forall>x\<in>set s. P x \<Longrightarrow> t = [] \<or> \<not> P (hd t) \<Longrightarrow> takeWhile P (s @ t) = s"
  by (cases t) (auto simp: takeWhile_append)

lemma trim_Nil [simp]: "trim [] = []"
  by (simp add: trim_def trim_start_def)

section \<open>Association lists\<close>

text \<open>
  Where the size or the iteration order of a hash map matters, the map is an association list
  with distinct keys: \<open>map_of\<close> is lookup, \<open>al_put\<close> inserts or overwrites, \<open>al_del\<close> removes.
  The order of the list stands for the iteration order of the map.
\<close>

type_synonym ('k, 'v) al = "('k \<times> 'v) list"

fun al_put :: "'k \<Rightarrow> 'v \<Rightarrow> ('k, 'v) al \<Rightarrow> ('k, 'v) al" where
  "al_put k v [] = [(k, v)]"
| "al_put k v ((a, b) # m) = (if a = k then (k, v) # m else (a, b) # al_put k v m)"

definition al_del :: "'k \<Rightarrow> ('k, 'v) al \<Rightarrow> ('k, 'v) al" where
  "al_del k m = filter (\<lambda>(a, _). a \<noteq> k) m"

definition al_wf :: "('k, 'v) al \<Rightarrow> bool" where
  "al_wf m = distinct (map fst m)"

lemma map_of_al_put [simp]: "map_of (al_put k v m) = (map_of m)(k \<mapsto> v)"
  by (induction k v m rule: al_put.induct) (auto simp: fun_eq_iff)

lemma map_of_al_del [simp]: "map_of (al_del k m) = (map_of m)(k := None)"
  by (induction m) (auto simp: al_del_def fun_eq_iff)

lemma fst_al_put: "fst ` set (al_put k v m) = insert k (fst ` set m)"
  by (induction k v m rule: al_put.induct) auto

lemma al_wf_Nil [simp]: "al_wf []"
  by (simp add: al_wf_def)

lemma al_wf_put [simp]: "al_wf m \<Longrightarrow> al_wf (al_put k v m)"
  by (induction m) (auto simp: al_wf_def fst_al_put)

lemma al_wf_del [simp]: "al_wf m \<Longrightarrow> al_wf (al_del k m)"
  by (auto simp: al_wf_def al_del_def distinct_map inj_on_def)

lemma length_al_put:
  "length (al_put k v m) = (if map_of m k = None then Suc (length m) else length m)"
  by (induction m) auto

lemma length_al_del:
  "al_wf m \<Longrightarrow> length (al_del k m) = (if map_of m k = None then length m else length m - 1)"
proof (induction m)
  case Nil
  then show ?case by (simp add: al_del_def)
next
  case (Cons x m)
  then have IH: "length (al_del k m) = (if map_of m k = None then length m else length m - 1)"
    and fresh: "fst x \<notin> fst ` set m"
    by (auto simp: al_wf_def)
  have pos: "map_of m k \<noteq> None \<Longrightarrow> 0 < length m" by (cases m) auto
  show ?case
  proof (cases "fst x = k")
    case True
    with fresh have "map_of m k = None" by (simp add: map_of_eq_None_iff)
    with IH True show ?thesis by (cases x) (simp add: al_del_def)
  next
    case False
    with IH pos show ?thesis by (cases x) (auto simp: al_del_def)
  qed
qed

section \<open>Bounded admission\<close>

text \<open>
  The interface of anything that admits requests against a budget: \<open>admit e s\<close> decides one
  request under the environment reading \<open>e\<close> (a clock value) and returns the next state.
\<close>

fun run_admit :: "('e \<Rightarrow> 's \<Rightarrow> bool \<times> 's) \<Rightarrow> 's \<Rightarrow> 'e list \<Rightarrow> bool list \<times> 's" where
  "run_admit admit s [] = ([], s)"
| "run_admit admit s (e # es) =
     (let (b, s') = admit e s; (bs, s'') = run_admit admit s' es in (b # bs, s''))"

definition admitted :: "('e \<Rightarrow> 's \<Rightarrow> bool \<times> 's) \<Rightarrow> 's \<Rightarrow> 'e list \<Rightarrow> nat" where
  "admitted admit s es = length (filter id (fst (run_admit admit s es)))"

lemma admitted_Nil [simp]: "admitted admit s [] = 0"
  by (simp add: admitted_def)

lemma admitted_Cons [simp]:
  "admitted admit s (e # es) =
     (if fst (admit e s) then 1 else 0) + admitted admit (snd (admit e s)) es"
  by (auto simp: admitted_def Let_def split: prod.splits)

locale bounded_admission =
  fixes admit :: "'e \<Rightarrow> 's \<Rightarrow> bool \<times> 's"
    and usable :: "'e \<Rightarrow> bool"
    and invar :: "'s \<Rightarrow> bool"
    and budget :: "'s \<Rightarrow> nat"
  assumes invar_admit: "invar s \<Longrightarrow> usable e \<Longrightarrow> invar (snd (admit e s))"
    and admit_spends:
      "invar s \<Longrightarrow> usable e \<Longrightarrow> fst (admit e s) \<Longrightarrow> budget (snd (admit e s)) < budget s"
    and refuse_keeps: "invar s \<Longrightarrow> usable e \<Longrightarrow> budget (snd (admit e s)) \<le> budget s"
begin

lemma admissions_bounded: "invar s \<Longrightarrow> \<forall>e\<in>set es. usable e \<Longrightarrow> admitted admit s es \<le> budget s"
proof (induction es arbitrary: s)
  case Nil
  then show ?case by simp
next
  case (Cons e es)
  let ?s' = "snd (admit e s)"
  from Cons have IH: "admitted admit ?s' es \<le> budget ?s'" by (simp add: invar_admit)
  from Cons.prems admit_spends [of s e] refuse_keeps [of s e] show ?case
    using IH by auto
qed

end

locale exact_admission = bounded_admission +
  assumes admit_iff: "invar s \<Longrightarrow> usable e \<Longrightarrow> fst (admit e s) \<longleftrightarrow> 0 < budget s"
    and admit_one: "invar s \<Longrightarrow> usable e \<Longrightarrow> budget (snd (admit e s)) = budget s - 1"
begin

lemma admissions_exact:
  "invar s \<Longrightarrow> \<forall>e\<in>set es. usable e \<Longrightarrow> admitted admit s es = min (length es) (budget s)"
proof (induction es arbitrary: s)
  case Nil
  then show ?case by simp
next
  case (Cons e es)
  let ?s' = "snd (admit e s)"
  from Cons have "admitted admit ?s' es = min (length es) (budget ?s')"
    by (simp add: invar_admit)
  with Cons.prems show ?case by (auto simp: admit_iff admit_one)
qed

end

end
