(* ===== verification/Circuit_Breaker.thy ===== *)
theory Circuit_Breaker
  imports Prelude
begin

text \<open>
  The per-endpoint circuit breaker, \<^verbatim>\<open>crates/himadri-circuitbreaker/src/lib.rs\<close>. The state
  behind the mutex is the record \<open>BreakerInner\<close> with the counters at their width (u64); every
  method is one function on the breaker that takes the clock reading \<^verbatim>\<open>now_millis()\<close> where the
  code reads it. The abstract machine \<open>abreaker\<close> has unbounded counters; the refinement lemmas
  show that the code implements it and in particular never wraps a counter.
\<close>

section \<open>State and operations\<close>

definition STATE_CLOSED :: u8 where
  "STATE_CLOSED = 0"

definition STATE_OPEN :: u8 where
  "STATE_OPEN = 1"

definition STATE_HALF_OPEN :: u8 where
  "STATE_HALF_OPEN = 2"

lemmas state_consts = STATE_CLOSED_def STATE_OPEN_def STATE_HALF_OPEN_def

record CircuitBreakerConfig =
  failure_threshold :: u64
  recovery_timeout :: duration
  half_open_max_calls :: u64

definition CircuitBreakerConfig_default :: CircuitBreakerConfig where
  "CircuitBreakerConfig_default =
     \<lparr>failure_threshold = 5, recovery_timeout = from_secs 30, half_open_max_calls = 3\<rparr>"

datatype CircuitState = Closed | Open | HalfOpen

record BreakerInner =
  bi_state :: u8
  bi_failure_count :: u64
  bi_success_count :: u64
  bi_half_open_admitted :: u64
  bi_last_failure_time :: u64

record CircuitBreaker =
  cb_inner :: BreakerInner
  cb_config :: CircuitBreakerConfig

definition cb_new :: "CircuitBreakerConfig \<Rightarrow> CircuitBreaker" where
  "cb_new config =
     \<lparr>cb_inner = \<lparr>bi_state = STATE_CLOSED, bi_failure_count = 0, bi_success_count = 0,
        bi_half_open_admitted = 0, bi_last_failure_time = 0\<rparr>,
      cb_config = config\<rparr>"

text \<open>\<^verbatim>\<open>recovery_timeout.as_millis() as u64\<close>.\<close>

definition timeout_millis :: "CircuitBreakerConfig \<Rightarrow> u64" where
  "timeout_millis config = of_nat (as_millis (recovery_timeout config))"

definition cb_allow :: "u64 \<Rightarrow> CircuitBreaker \<Rightarrow> bool \<times> CircuitBreaker" where
  "cb_allow now cb = (let inner = cb_inner cb in
     if bi_state inner = STATE_CLOSED then (True, cb)
     else if bi_state inner = STATE_OPEN then
       (if timeout_millis (cb_config cb) \<le> saturating_sub now (bi_last_failure_time inner)
        then (True, cb\<lparr>cb_inner := inner\<lparr>bi_state := STATE_HALF_OPEN, bi_success_count := 0,
               bi_half_open_admitted := 1\<rparr>\<rparr>)
        else (False, cb))
     else if bi_state inner = STATE_HALF_OPEN \<and>
             bi_half_open_admitted inner < half_open_max_calls (cb_config cb) then
       (True, cb\<lparr>cb_inner := inner\<lparr>bi_half_open_admitted := bi_half_open_admitted inner + 1\<rparr>\<rparr>)
     else (False, cb))"

definition cb_record_success :: "CircuitBreaker \<Rightarrow> CircuitBreaker" where
  "cb_record_success cb = (let inner = cb_inner cb in
     if bi_state inner = STATE_CLOSED then cb\<lparr>cb_inner := inner\<lparr>bi_failure_count := 0\<rparr>\<rparr>
     else if bi_state inner = STATE_HALF_OPEN then
       (let inner = inner\<lparr>bi_success_count := bi_success_count inner + 1\<rparr> in
        if half_open_max_calls (cb_config cb) \<le> bi_success_count inner
        then cb\<lparr>cb_inner := inner\<lparr>bi_state := STATE_CLOSED, bi_failure_count := 0\<rparr>\<rparr>
        else cb\<lparr>cb_inner := inner\<rparr>)
     else cb)"

definition cb_record_failure :: "u64 \<Rightarrow> CircuitBreaker \<Rightarrow> CircuitBreaker" where
  "cb_record_failure now cb = (let inner = (cb_inner cb)\<lparr>bi_last_failure_time := now\<rparr> in
     if bi_state inner = STATE_CLOSED then
       (let inner = inner\<lparr>bi_failure_count := bi_failure_count inner + 1\<rparr> in
        if failure_threshold (cb_config cb) \<le> bi_failure_count inner
        then cb\<lparr>cb_inner := inner\<lparr>bi_state := STATE_OPEN\<rparr>\<rparr>
        else cb\<lparr>cb_inner := inner\<rparr>)
     else if bi_state inner = STATE_HALF_OPEN then cb\<lparr>cb_inner := inner\<lparr>bi_state := STATE_OPEN\<rparr>\<rparr>
     else cb\<lparr>cb_inner := inner\<rparr>)"

definition cb_state :: "CircuitBreaker \<Rightarrow> CircuitState" where
  "cb_state cb =
     (if bi_state (cb_inner cb) = STATE_OPEN then Open
      else if bi_state (cb_inner cb) = STATE_HALF_OPEN then HalfOpen else Closed)"

definition cb_failure_count :: "CircuitBreaker \<Rightarrow> u64" where
  "cb_failure_count cb = bi_failure_count (cb_inner cb)"

definition cb_reset :: "CircuitBreaker \<Rightarrow> CircuitBreaker" where
  "cb_reset cb = cb\<lparr>cb_inner := (cb_inner cb)\<lparr>bi_state := STATE_CLOSED, bi_failure_count := 0,
      bi_success_count := 0, bi_half_open_admitted := 0\<rparr>\<rparr>"

lemmas cb_op_defs = cb_allow_def cb_record_success_def cb_record_failure_def cb_reset_def

section \<open>Well-formedness\<close>

text \<open>
  What the code keeps true of its counters: a closed breaker is below its failure threshold, a
  half-open one below its number of successes and within its number of probes.
\<close>

definition cb_wf :: "CircuitBreaker \<Rightarrow> bool" where
  "cb_wf cb = (let inner = cb_inner cb; cfg = cb_config cb in
     (bi_state inner = STATE_CLOSED \<or> bi_state inner = STATE_OPEN \<or> bi_state inner = STATE_HALF_OPEN) \<and>
     (bi_state inner = STATE_CLOSED \<longrightarrow>
        bi_failure_count inner = 0 \<or> bi_failure_count inner < failure_threshold cfg) \<and>
     (bi_state inner = STATE_HALF_OPEN \<longrightarrow>
        (bi_half_open_admitted inner \<le> half_open_max_calls cfg \<or> bi_half_open_admitted inner = 1) \<and>
        (bi_success_count inner = 0 \<or> bi_success_count inner < half_open_max_calls cfg)))"

lemma cb_wf_new [simp]: "cb_wf (cb_new config)"
  by (simp add: cb_wf_def cb_new_def state_consts)

lemma cb_wf_allow: "cb_wf cb \<Longrightarrow> cb_wf (snd (cb_allow now cb))"
  by (auto simp: cb_wf_def cb_allow_def Let_def state_consts inc_le)

lemma cb_wf_record_success: "cb_wf cb \<Longrightarrow> cb_wf (cb_record_success cb)"
  by (auto simp: cb_wf_def cb_record_success_def Let_def state_consts)

lemma cb_wf_record_failure: "cb_wf cb \<Longrightarrow> cb_wf (cb_record_failure now cb)"
  by (auto simp: cb_wf_def cb_record_failure_def Let_def state_consts)

lemma cb_wf_reset: "cb_wf cb \<Longrightarrow> cb_wf (cb_reset cb)"
  by (auto simp: cb_wf_def cb_reset_def Let_def state_consts)

lemma cb_config_ops [simp]:
  "cb_config (snd (cb_allow now cb)) = cb_config cb"
  "cb_config (cb_record_success cb) = cb_config cb"
  "cb_config (cb_record_failure now cb) = cb_config cb"
  "cb_config (cb_reset cb) = cb_config cb"
  "cb_config (cb_new cfg) = cfg"
  by (auto simp: cb_op_defs Let_def cb_new_def)

section \<open>The abstract breaker\<close>

text \<open>
  The contract of the breaker as a three-state machine over natural numbers: \<open>AClosed n\<close> has
  seen \<open>n\<close> consecutive failures, \<open>AOpen t\<close> has failed last at time \<open>t\<close>, \<open>AHalfOpen a s\<close> has
  admitted \<open>a\<close> probes of which \<open>s\<close> have succeeded. The parameters are the failure threshold
  \<open>K\<close>, the recovery timeout \<open>T\<close> and the number of probes \<open>M\<close>.
\<close>

datatype abreaker = AClosed nat | AOpen nat | AHalfOpen nat nat

datatype 't cb_event = EvAllow 't | EvSuccess | EvFailure 't | EvReset

fun a_exec :: "nat \<Rightarrow> nat \<Rightarrow> nat \<Rightarrow> nat cb_event \<Rightarrow> abreaker \<Rightarrow> bool \<times> abreaker" where
  "a_exec K T M (EvAllow now) (AClosed n) = (True, AClosed n)"
| "a_exec K T M (EvAllow now) (AOpen t) =
     (if T \<le> now - t then (True, AHalfOpen 1 0) else (False, AOpen t))"
| "a_exec K T M (EvAllow now) (AHalfOpen a s) =
     (if a < M then (True, AHalfOpen (Suc a) s) else (False, AHalfOpen a s))"
| "a_exec K T M EvSuccess (AClosed n) = (True, AClosed 0)"
| "a_exec K T M EvSuccess (AOpen t) = (True, AOpen t)"
| "a_exec K T M EvSuccess (AHalfOpen a s) =
     (True, if M \<le> Suc s then AClosed 0 else AHalfOpen a (Suc s))"
| "a_exec K T M (EvFailure now) (AClosed n) =
     (True, if K \<le> Suc n then AOpen now else AClosed (Suc n))"
| "a_exec K T M (EvFailure now) (AOpen t) = (True, AOpen now)"
| "a_exec K T M (EvFailure now) (AHalfOpen a s) = (True, AOpen now)"
| "a_exec K T M EvReset _ = (True, AClosed 0)"

text \<open>One call on the breaker; the calls without a result answer \<open>True\<close>.\<close>

fun cb_exec :: "u64 cb_event \<Rightarrow> CircuitBreaker \<Rightarrow> bool \<times> CircuitBreaker" where
  "cb_exec (EvAllow now) cb = cb_allow now cb"
| "cb_exec EvSuccess cb = (True, cb_record_success cb)"
| "cb_exec (EvFailure now) cb = (True, cb_record_failure now cb)"
| "cb_exec EvReset cb = (True, cb_reset cb)"

definition cb_abs :: "CircuitBreaker \<Rightarrow> abreaker" where
  "cb_abs cb = (let inner = cb_inner cb in
     if bi_state inner = STATE_OPEN then AOpen (unat (bi_last_failure_time inner))
     else if bi_state inner = STATE_HALF_OPEN then
       AHalfOpen (unat (bi_half_open_admitted inner)) (unat (bi_success_count inner))
     else AClosed (unat (bi_failure_count inner)))"

abbreviation a_exec_of :: "CircuitBreakerConfig \<Rightarrow> nat cb_event \<Rightarrow> abreaker \<Rightarrow> bool \<times> abreaker" where
  "a_exec_of cfg \<equiv> a_exec (unat (failure_threshold cfg)) (unat (timeout_millis cfg))
     (unat (half_open_max_calls cfg))"

lemma cb_wf_exec: "cb_wf cb \<Longrightarrow> cb_wf (snd (cb_exec e cb))"
  by (cases e) (simp_all add: cb_wf_allow cb_wf_record_success cb_wf_record_failure cb_wf_reset)

lemma cb_config_exec [simp]: "cb_config (snd (cb_exec e cb)) = cb_config cb"
  by (cases e) simp_all

lemma inc_counter:
  "c = 0 \<or> c < (m :: u64) \<Longrightarrow> unat (c + 1) = Suc (unat c) \<and> (m \<le> c + 1 \<longleftrightarrow> unat m \<le> Suc (unat c))"
  by (auto simp: word_le_nat_alt unat_inc)

lemma cb_allow_refines:
  "cb_wf cb \<Longrightarrow> cb_allow now cb = (b, cb') \<Longrightarrow>
     a_exec_of (cb_config cb) (EvAllow (unat now)) (cb_abs cb) = (b, cb_abs cb')"
  by (auto simp: cb_wf_def cb_allow_def cb_abs_def Let_def state_consts word_le_nat_alt
      word_less_nat_alt unat_saturating_sub unat_inc split: if_splits)

lemma cb_success_refines:
  "cb_wf cb \<Longrightarrow>
     a_exec_of (cb_config cb) EvSuccess (cb_abs cb) = (True, cb_abs (cb_record_success cb))"
  using inc_counter [of "bi_success_count (cb_inner cb)" "half_open_max_calls (cb_config cb)"]
  by (auto simp: cb_wf_def cb_record_success_def cb_abs_def Let_def state_consts split: if_splits)

lemma cb_failure_refines:
  "cb_wf cb \<Longrightarrow>
     a_exec_of (cb_config cb) (EvFailure (unat now)) (cb_abs cb) =
       (True, cb_abs (cb_record_failure now cb))"
  using inc_counter [of "bi_failure_count (cb_inner cb)" "failure_threshold (cb_config cb)"]
  by (auto simp: cb_wf_def cb_record_failure_def cb_abs_def Let_def state_consts split: if_splits)

lemma cb_reset_refines:
  "cb_abs (cb_reset cb) = AClosed 0"
  by (simp add: cb_reset_def cb_abs_def state_consts)

lemma cb_exec_refines:
  "cb_wf cb \<Longrightarrow>
     a_exec_of (cb_config cb) (map_cb_event unat e) (cb_abs cb) =
       (fst (cb_exec e cb), cb_abs (snd (cb_exec e cb)))"
  by (cases e)
    (simp_all add: cb_success_refines cb_failure_refines cb_reset_refines cb_allow_refines [of _ _ "fst (cb_allow _ _)" "snd (cb_allow _ _)"])

section \<open>Runs\<close>

text \<open>A sequence of calls in the order in which the mutex serialises them.\<close>

fun cb_run :: "u64 cb_event list \<Rightarrow> CircuitBreaker \<Rightarrow> bool list \<times> CircuitBreaker" where
  "cb_run [] cb = ([], cb)"
| "cb_run (e # es) cb =
     (let (b, cb') = cb_exec e cb; (bs, cb'') = cb_run es cb' in (b # bs, cb''))"

fun a_run :: "CircuitBreakerConfig \<Rightarrow> nat cb_event list \<Rightarrow> abreaker \<Rightarrow> bool list \<times> abreaker" where
  "a_run cfg [] a = ([], a)"
| "a_run cfg (e # es) a =
     (let (b, a') = a_exec_of cfg e a; (bs, a'') = a_run cfg es a' in (b # bs, a''))"

lemma cb_run_Cons_snd: "snd (cb_run (e # es) cb) = snd (cb_run es (snd (cb_exec e cb)))"
  by (simp add: Let_def split: prod.split)

lemma cb_wf_run: "cb_wf cb \<Longrightarrow> cb_wf (snd (cb_run es cb))"
  by (induction es arbitrary: cb) (simp_all add: cb_run_Cons_snd cb_wf_exec del: cb_run.simps(2))

lemma cb_config_run [simp]: "cb_config (snd (cb_run es cb)) = cb_config cb"
  by (induction es arbitrary: cb) (simp_all add: cb_run_Cons_snd del: cb_run.simps(2))

text \<open>The states a breaker can be in: what some sequence of calls leads to.\<close>

inductive cb_reachable :: "CircuitBreakerConfig \<Rightarrow> CircuitBreaker \<Rightarrow> bool" for cfg where
  cb_start: "cb_reachable cfg (cb_new cfg)"
| cb_step: "cb_reachable cfg cb \<Longrightarrow> cb_reachable cfg (snd (cb_exec e cb))"

lemma cb_reachable_wf: "cb_reachable cfg cb \<Longrightarrow> cb_wf cb \<and> cb_config cb = cfg"
  by (induction rule: cb_reachable.induct) (simp_all add: cb_wf_exec)

lemma cb_run_refines:
  "cb_wf cb \<Longrightarrow> a_run (cb_config cb) (map (map_cb_event unat) es) (cb_abs cb) =
     (fst (cb_run es cb), cb_abs (snd (cb_run es cb)))"
proof (induction es arbitrary: cb)
  case Nil
  then show ?case by simp
next
  case (Cons e es)
  let ?cb' = "snd (cb_exec e cb)"
  from Cons have "a_run (cb_config cb) (map (map_cb_event unat) es) (cb_abs ?cb') =
      (fst (cb_run es ?cb'), cb_abs (snd (cb_run es ?cb')))"
    using Cons.IH [of ?cb'] by (simp add: cb_wf_exec)
  with Cons.prems show ?case
    by (simp add: cb_exec_refines Let_def case_prod_beta)
qed

text \<open>How many more successes the abstract machine needs before it can be closed.\<close>

fun successes_needed :: "nat \<Rightarrow> abreaker \<Rightarrow> nat" where
  "successes_needed M (AClosed n) = 0"
| "successes_needed M (AOpen t) = max 1 M"
| "successes_needed M (AHalfOpen a s) = max 1 M - s"

lemma needed_step:
  "e \<noteq> EvReset \<Longrightarrow> successes_needed M a \<le>
     (if e = EvSuccess then 1 else 0) + successes_needed M (snd (a_exec K T M e a))"
  by (cases e; cases a) auto

lemma cb_needed_run:
  "cb_wf cb \<Longrightarrow> EvReset \<notin> set es \<Longrightarrow>
     successes_needed (unat (half_open_max_calls (cb_config cb))) (cb_abs cb) \<le>
       count_list es EvSuccess +
       successes_needed (unat (half_open_max_calls (cb_config cb))) (cb_abs (snd (cb_run es cb)))"
proof (induction es arbitrary: cb)
  case Nil
  then show ?case by simp
next
  case (Cons e es)
  let ?M = "unat (half_open_max_calls (cb_config cb))"
  let ?cb' = "snd (cb_exec e cb)"
  from Cons have IH: "successes_needed ?M (cb_abs ?cb') \<le> count_list es EvSuccess +
      successes_needed ?M (cb_abs (snd (cb_run es ?cb')))"
    using Cons.IH [of ?cb'] by (simp add: cb_wf_exec)
  have "cb_abs ?cb' = snd (a_exec_of (cb_config cb) (map_cb_event unat e) (cb_abs cb))"
    using Cons.prems by (simp add: cb_exec_refines)
  moreover have "map_cb_event unat e \<noteq> EvReset" "map_cb_event unat e = EvSuccess \<longleftrightarrow> e = EvSuccess"
    using Cons.prems by (cases e; auto)+
  ultimately have "successes_needed ?M (cb_abs cb) \<le>
      (if e = EvSuccess then 1 else 0) + successes_needed ?M (cb_abs ?cb')"
    using needed_step [of "map_cb_event unat e" ?M "cb_abs cb"] by simp
  with IH show ?case
    by (auto simp: cb_run_Cons_snd simp del: cb_run.simps(2))
qed

text \<open>Half-open admissions are a counter in the sense of \<open>exact_admission\<close>.\<close>

definition half_open :: "CircuitBreaker \<Rightarrow> bool" where
  "half_open cb = (cb_wf cb \<and> cb_state cb = HalfOpen)"

definition probes_left :: "CircuitBreaker \<Rightarrow> nat" where
  "probes_left cb =
     unat (half_open_max_calls (cb_config cb)) - unat (bi_half_open_admitted (cb_inner cb))"

lemma half_open_state: "half_open cb \<Longrightarrow> bi_state (cb_inner cb) = STATE_HALF_OPEN"
  by (auto simp: half_open_def cb_state_def split: if_splits)

interpretation probes: exact_admission cb_allow "\<lambda>_. True" half_open probes_left
proof unfold_locales
  fix cb now
  assume ho: "half_open cb"
  then have st: "bi_state (cb_inner cb) = STATE_HALF_OPEN" by (rule half_open_state)
  have wf: "cb_wf (snd (cb_allow now cb))" using ho by (simp add: half_open_def cb_wf_allow)
  with st show "half_open (snd (cb_allow now cb))"
    by (auto simp: half_open_def cb_state_def cb_allow_def state_consts Let_def)
  show iff: "fst (cb_allow now cb) \<longleftrightarrow> 0 < probes_left cb"
    using st by (auto simp: cb_allow_def probes_left_def state_consts Let_def word_less_nat_alt)
  show one: "probes_left (snd (cb_allow now cb)) = probes_left cb - 1"
    using st by (auto simp: cb_allow_def probes_left_def state_consts Let_def word_less_nat_alt unat_inc)
  then show "probes_left (snd (cb_allow now cb)) \<le> probes_left cb" by simp
  assume "fst (cb_allow now cb)"
  with one iff show "probes_left (snd (cb_allow now cb)) < probes_left cb" by simp
qed

section \<open>Properties\<close>

text \<open>C10: The breaker refines the abstract three-state machine. From a new breaker, any
  sequence of calls (admissions, successes, failures, resets, with any clock readings) gives the
  answers of the abstract machine with unbounded counters, and ends in the state it ends in: no
  u64 counter ever wraps.\<close>

theorem breaker_refines_machine:
  "a_run cfg (map (map_cb_event unat) es) (AClosed 0) =
     (fst (cb_run es (cb_new cfg)), cb_abs (snd (cb_run es (cb_new cfg))))"
proof -
  have "cb_abs (cb_new cfg) = AClosed 0" by (simp add: cb_abs_def cb_new_def state_consts)
  with cb_run_refines [of "cb_new cfg"] show ?thesis by simp
qed

text \<open>The counters of a reachable breaker stay within their configured limits: closed
  means fewer than \<open>failure_threshold\<close> consecutive failures (or none), half-open means at most
  \<open>half_open_max_calls\<close> admitted probes (or the first one) and fewer successes than close it.\<close>

theorem breaker_counters_bounded:
  assumes "cb_reachable cfg cb"
  shows "case cb_state cb of
       Closed \<Rightarrow> unat (cb_failure_count cb) < max 1 (unat (failure_threshold cfg))
     | HalfOpen \<Rightarrow>
         unat (bi_half_open_admitted (cb_inner cb)) \<le> max 1 (unat (half_open_max_calls cfg)) \<and>
         unat (bi_success_count (cb_inner cb)) < max 1 (unat (half_open_max_calls cfg))
     | Open \<Rightarrow> True"
  using cb_reachable_wf [OF assms]
  by (auto simp: cb_wf_def cb_state_def cb_failure_count_def Let_def state_consts word_le_nat_alt
      word_less_nat_alt split: if_splits)

theorem breaker_counters_bounded_witness:
  "cb_state (snd (cb_exec (EvFailure 7) (cb_new CircuitBreakerConfig_default))) = Closed \<and>
   unat (cb_failure_count (snd (cb_exec (EvFailure 7) (cb_new CircuitBreakerConfig_default)))) < 5"
proof -
  let ?cb = "snd (cb_exec (EvFailure 7) (cb_new CircuitBreakerConfig_default))"
  have r: "cb_reachable CircuitBreakerConfig_default ?cb"
    by (rule cb_reachable.intros)+
  have "cb_state ?cb = Closed"
    by (simp add: cb_record_failure_def cb_new_def cb_state_def CircuitBreakerConfig_default_def
        state_consts Let_def word_le_nat_alt)
  with breaker_counters_bounded [OF r] show ?thesis
    by (simp add: CircuitBreakerConfig_default_def)
qed

text \<open>While half-open, exactly the remaining probes are admitted, whatever the clock:
  of any sequence of \<open>allow\<close> calls with no outcome recorded in between, the first
  \<open>probes_left\<close> are admitted and no other.\<close>

theorem half_open_admits_exactly_probes:
  assumes "cb_reachable cfg cb" and "cb_state cb = HalfOpen"
  shows "admitted cb_allow cb ts = min (length ts)
     (unat (half_open_max_calls cfg) - unat (bi_half_open_admitted (cb_inner cb)))"
  using probes.admissions_exact [of cb ts] cb_reachable_wf [OF assms(1)] assms(2)
  by (simp add: half_open_def probes_left_def)

definition probe_config :: CircuitBreakerConfig where
  "probe_config = \<lparr>failure_threshold = 1, recovery_timeout = from_millis 1, half_open_max_calls = 2\<rparr>"

definition probing :: CircuitBreaker where
  "probing = snd (cb_exec (EvAllow 20) (snd (cb_exec (EvFailure 10) (cb_new probe_config))))"

lemma probing_reachable: "cb_reachable probe_config probing"
  unfolding probing_def by (rule cb_reachable.intros)+

lemma probing_eq: "probing = \<lparr>cb_inner = \<lparr>bi_state = STATE_HALF_OPEN, bi_failure_count = 1,
    bi_success_count = 0, bi_half_open_admitted = 1, bi_last_failure_time = 10\<rparr>, cb_config = probe_config\<rparr>"
  by (simp add: probing_def probe_config_def cb_record_failure_def cb_allow_def cb_new_def
      state_consts Let_def saturating_sub_def timeout_millis_def from_millis_def as_millis_def)

theorem half_open_admits_exactly_probes_witness:
  "admitted cb_allow probing [21, 22, 23] = 1"
  using half_open_admits_exactly_probes [OF probing_reachable, of "[21, 22, 23]"]
  by (simp add: probing_eq cb_state_def state_consts probe_config_def)

text \<open>Only successful probes close an open breaker: a run of calls without a reset that
  takes a reachable breaker from open to closed contains at least \<open>half_open_max_calls\<close> recorded
  successes (and at least one); admissions alone never close it.\<close>

theorem closing_needs_successes:
  assumes "cb_reachable cfg cb" and "cb_state cb = Open"
    and "EvReset \<notin> set es" and "cb_state (snd (cb_run es cb)) = Closed"
  shows "max 1 (unat (half_open_max_calls cfg)) \<le> count_list es EvSuccess"
proof -
  from cb_reachable_wf [OF assms(1)] have wf: "cb_wf cb" and cfg: "cb_config cb = cfg" by auto
  have "\<exists>n. cb_abs (snd (cb_run es cb)) = AClosed n" and "\<exists>t. cb_abs cb = AOpen t"
    using assms(2,4) by (auto simp: cb_abs_def cb_state_def Let_def split: if_splits)
  with cb_needed_run [OF wf assms(3)] show ?thesis by (auto simp: cfg)
qed

theorem closing_needs_successes_witness:
  "max 1 (unat (half_open_max_calls probe_config)) \<le>
     count_list [EvAllow 20, EvAllow 21, EvSuccess, EvSuccess :: u64 cb_event] EvSuccess"
proof (rule closing_needs_successes)
  show "cb_reachable probe_config (snd (cb_exec (EvFailure 10) (cb_new probe_config)))"
    by (rule cb_reachable.intros)+
qed (simp_all add: probe_config_def cb_record_failure_def cb_record_success_def cb_allow_def
    cb_new_def cb_state_def state_consts Let_def saturating_sub_def timeout_millis_def
    from_millis_def as_millis_def)

text \<open>An open breaker refuses every request until \<open>recovery_timeout\<close> has passed since
  the last failure, and its state does not change; the first request after that is admitted as
  the first probe of a half-open breaker.\<close>

theorem open_until_timeout:
  assumes "cb_reachable cfg cb" and "cb_state cb = Open"
  shows "cb_allow now cb =
    (if unat now - unat (bi_last_failure_time (cb_inner cb)) < unat (timeout_millis cfg)
     then (False, cb)
     else (True, cb\<lparr>cb_inner := (cb_inner cb)\<lparr>bi_state := STATE_HALF_OPEN,
             bi_success_count := 0, bi_half_open_admitted := 1\<rparr>\<rparr>))"
  using cb_reachable_wf [OF assms(1)] assms(2)
  by (auto simp: cb_allow_def cb_state_def Let_def state_consts word_le_nat_alt unat_saturating_sub
      split: if_splits)

theorem open_until_timeout_witness:
  "fst (cb_allow 10 (snd (cb_exec (EvFailure 10) (cb_new probe_config)))) = False \<and>
   fst (cb_allow 11 (snd (cb_exec (EvFailure 10) (cb_new probe_config)))) = True"
proof -
  let ?cb = "snd (cb_exec (EvFailure 10) (cb_new probe_config))"
  have r: "cb_reachable probe_config ?cb" by (rule cb_reachable.intros)+
  have o: "cb_state ?cb = Open" and "bi_last_failure_time (cb_inner ?cb) = 10"
    by (simp_all add: cb_record_failure_def cb_new_def cb_state_def probe_config_def state_consts Let_def)
  then show ?thesis
    using open_until_timeout [OF r o, of 10] open_until_timeout [OF r o, of 11]
    by (simp add: probe_config_def timeout_millis_def from_millis_def as_millis_def)
qed



end
