(* ===== verification/Token_Bucket.thy ===== *)
theory Token_Bucket
  imports Prelude
begin

text \<open>
  The token bucket, \<^verbatim>\<open>crates/himadri-ratelimit/src/token_bucket.rs\<close>. The first section is the
  bucket as one thread sees it. The second is the lock-free algorithm as it runs: every atomic
  access (the load of \<^verbatim>\<open>last_refill\<close>, the compare-exchange, the two \<^verbatim>\<open>fetch_update\<close>s) is one step
  of a pool of threads, interleaved in any order with each other and with the clock.
\<close>

section \<open>The bucket\<close>

record TokenBucket =
  tb_tokens :: u64
  tb_last_refill :: u64
  tb_rate :: u64
  tb_capacity :: u64

definition tb_new :: "u64 \<Rightarrow> u64 \<Rightarrow> u64 \<Rightarrow> TokenBucket" where
  "tb_new now rate capacity =
     \<lparr>tb_tokens = capacity, tb_last_refill = now, tb_rate = rate, tb_capacity = capacity\<rparr>"

text \<open>The tokens earned between two clock readings, in microseconds.\<close>

definition tb_credit :: "u64 \<Rightarrow> u64 \<Rightarrow> u64 \<Rightarrow> u64" where
  "tb_credit rate now prev = saturating_mul (saturating_sub now prev) rate div 1000000"

definition tb_refill :: "u64 \<Rightarrow> TokenBucket \<Rightarrow> TokenBucket" where
  "tb_refill now b = (let credit = tb_credit (tb_rate b) now (tb_last_refill b) in
     if credit = 0 then b
     else b\<lparr>tb_last_refill := now,
            tb_tokens := min (saturating_add (tb_tokens b) credit) (tb_capacity b)\<rparr>)"

definition tb_allow_n :: "u64 \<Rightarrow> u64 \<Rightarrow> TokenBucket \<Rightarrow> bool \<times> TokenBucket" where
  "tb_allow_n n now b = (let b = tb_refill now b in
     case checked_sub (tb_tokens b) n of
       None \<Rightarrow> (False, b)
     | Some t \<Rightarrow> (True, b\<lparr>tb_tokens := t\<rparr>))"

definition tb_allow :: "u64 \<Rightarrow> TokenBucket \<Rightarrow> bool \<times> TokenBucket" where
  "tb_allow now b = tb_allow_n 1 now b"

definition tb_wf :: "TokenBucket \<Rightarrow> bool" where
  "tb_wf b = (tb_tokens b \<le> tb_capacity b)"

lemma unat_tb_credit:
  "unat (tb_credit rate now prev) * 1000000 \<le> unat rate * (unat now - unat prev)"
proof -
  have "unat (tb_credit rate now prev) = min ((unat now - unat prev) * unat rate) (2 ^ 64 - 1) div 1000000"
    by (simp add: tb_credit_def unat_div_distrib unat_simps)
  also have "\<dots> * 1000000 \<le> min ((unat now - unat prev) * unat rate) (2 ^ 64 - 1)"
    by (rule div_times_less_eq_dividend)
  finally show ?thesis by (simp add: mult.commute)
qed

lemma tb_credit_0_rate [simp]: "tb_credit 0 now prev = 0"
  by (simp add: tb_credit_def saturating_mul_def)

lemma tb_credit_pos: "tb_credit rate now prev \<noteq> 0 \<Longrightarrow> unat prev < unat now"
  using unat_tb_credit [of rate now prev] by (rule_tac ccontr) (simp add: not_less unat_eq_0)

lemma tb_params [simp]:
  "tb_rate (tb_refill now b) = tb_rate b" "tb_capacity (tb_refill now b) = tb_capacity b"
  "tb_rate (snd (tb_allow_n n now b)) = tb_rate b"
  "tb_capacity (snd (tb_allow_n n now b)) = tb_capacity b"
  "tb_rate (tb_new now rate cap) = rate" "tb_capacity (tb_new now rate cap) = cap"
  by (auto simp: tb_refill_def tb_allow_n_def tb_new_def Let_def split: option.split)

lemma tb_wf_new [simp]: "tb_wf (tb_new now rate cap)"
  by (simp add: tb_wf_def tb_new_def)

lemma tb_wf_refill: "tb_wf b \<Longrightarrow> tb_wf (tb_refill now b)"
  by (auto simp: tb_wf_def tb_refill_def Let_def)

lemma tb_wf_allow_n: "tb_wf b \<Longrightarrow> tb_wf (snd (tb_allow_n n now b))"
proof -
  assume "tb_wf b"
  then have "tb_wf (tb_refill now b)" by (rule tb_wf_refill)
  then show ?thesis
    by (auto simp: tb_allow_n_def tb_wf_def Let_def word_le_nat_alt dest: unat_checked_sub split: option.split)
qed

text \<open>A bucket that never refills is a counter of its tokens.\<close>

definition unrefilled :: "TokenBucket \<Rightarrow> bool" where
  "unrefilled b = (tb_rate b = 0)"

interpretation drained: exact_admission tb_allow "\<lambda>_. True" unrefilled "\<lambda>b. unat (tb_tokens b)"
proof unfold_locales
  fix b now
  assume r: "unrefilled b"
  then have eq: "tb_refill now b = b" by (simp add: tb_refill_def unrefilled_def)
  from r show "unrefilled (snd (tb_allow now b))" by (simp add: unrefilled_def tb_allow_def)
  show iff: "fst (tb_allow now b) \<longleftrightarrow> 0 < unat (tb_tokens b)"
    by (auto simp: tb_allow_def tb_allow_n_def eq checked_sub_None Let_def split: option.split
        dest: unat_checked_sub)
  show one: "unat (tb_tokens (snd (tb_allow now b))) = unat (tb_tokens b) - 1"
    by (auto simp: tb_allow_def tb_allow_n_def eq checked_sub_None Let_def split: option.split
        dest: unat_checked_sub)
  then show "unat (tb_tokens (snd (tb_allow now b))) \<le> unat (tb_tokens b)" by simp
  assume "fst (tb_allow now b)"
  with iff one show "unat (tb_tokens (snd (tb_allow now b))) < unat (tb_tokens b)" by simp
qed

section \<open>Threads\<close>

text \<open>
  Where a thread is inside \<^verbatim>\<open>allow_n(n)\<close>: before it has loaded \<^verbatim>\<open>last_refill\<close> (it has read the
  clock), before its compare-exchange, before it credits the tokens it has won, before it
  consumes.
\<close>

datatype tb_pc =
    Idle
  | Loading u64 u64
  | Swapping u64 u64 u64 u64
  | Crediting u64 u64
  | Consuming u64

text \<open>
  The shared bucket, the monotonic clock and the threads. Two counters are added for the
  statements: the tokens consumed by admitted requests, and the tokens granted by won
  compare-exchanges.
\<close>

record tb_sys =
  ts_bucket :: TokenBucket
  ts_clock :: u64
  ts_pcs :: "tb_pc list"
  ts_admitted :: nat
  ts_granted :: nat

abbreviation set_pc :: "nat \<Rightarrow> tb_pc \<Rightarrow> tb_sys \<Rightarrow> tb_sys" where
  "set_pc i q s \<equiv> s\<lparr>ts_pcs := (ts_pcs s)[i := q]\<rparr>"

inductive tb_step :: "tb_sys \<Rightarrow> tb_sys \<Rightarrow> bool" where
  tick: "ts_clock s \<le> t \<Longrightarrow> tb_step s (s\<lparr>ts_clock := t\<rparr>)"
| start: "i < length (ts_pcs s) \<Longrightarrow> ts_pcs s ! i = Idle \<Longrightarrow>
     tb_step s (set_pc i (Loading n (ts_clock s)) s)"
| load: "i < length (ts_pcs s) \<Longrightarrow> ts_pcs s ! i = Loading n now \<Longrightarrow>
     prev = tb_last_refill (ts_bucket s) \<Longrightarrow> credit = tb_credit (tb_rate (ts_bucket s)) now prev \<Longrightarrow>
     tb_step s (set_pc i (if credit = 0 then Consuming n else Swapping n now prev credit) s)"
| swap_won: "i < length (ts_pcs s) \<Longrightarrow> ts_pcs s ! i = Swapping n now prev credit \<Longrightarrow>
     tb_last_refill (ts_bucket s) = prev \<Longrightarrow>
     tb_step s (set_pc i (Crediting n credit)
       (s\<lparr>ts_bucket := (ts_bucket s)\<lparr>tb_last_refill := now\<rparr>,
          ts_granted := ts_granted s + unat credit\<rparr>))"
| swap_lost: "i < length (ts_pcs s) \<Longrightarrow> ts_pcs s ! i = Swapping n now prev credit \<Longrightarrow>
     tb_last_refill (ts_bucket s) \<noteq> prev \<Longrightarrow> tb_step s (set_pc i (Consuming n) s)"
| credit: "i < length (ts_pcs s) \<Longrightarrow> ts_pcs s ! i = Crediting n credit \<Longrightarrow>
     tb_step s (set_pc i (Consuming n) (s\<lparr>ts_bucket := (ts_bucket s)\<lparr>tb_tokens :=
       min (saturating_add (tb_tokens (ts_bucket s)) credit) (tb_capacity (ts_bucket s))\<rparr>\<rparr>))"
| consume: "i < length (ts_pcs s) \<Longrightarrow> ts_pcs s ! i = Consuming n \<Longrightarrow>
     checked_sub (tb_tokens (ts_bucket s)) n = Some t \<Longrightarrow>
     tb_step s (set_pc i Idle (s\<lparr>ts_bucket := (ts_bucket s)\<lparr>tb_tokens := t\<rparr>,
       ts_admitted := ts_admitted s + unat n\<rparr>))"
| refuse: "i < length (ts_pcs s) \<Longrightarrow> ts_pcs s ! i = Consuming n \<Longrightarrow>
     checked_sub (tb_tokens (ts_bucket s)) n = None \<Longrightarrow> tb_step s (set_pc i Idle s)"

definition tb_init :: "u64 \<Rightarrow> u64 \<Rightarrow> u64 \<Rightarrow> nat \<Rightarrow> tb_sys" where
  "tb_init now rate capacity threads =
     \<lparr>ts_bucket = tb_new now rate capacity, ts_clock = now, ts_pcs = replicate threads Idle,
      ts_admitted = 0, ts_granted = 0\<rparr>"

inductive tb_reachable :: "tb_sys \<Rightarrow> tb_sys \<Rightarrow> bool" for s0 where
  tb_start: "tb_reachable s0 s0"
| tb_next: "tb_reachable s0 s \<Longrightarrow> tb_step s s' \<Longrightarrow> tb_reachable s0 s'"

text \<open>Credits a thread has won and not yet added to the tokens.\<close>

fun pending :: "tb_pc \<Rightarrow> nat" where
  "pending (Crediting n credit) = unat credit"
| "pending _ = 0"

definition ts_pending :: "tb_sys \<Rightarrow> nat" where
  "ts_pending s = sum_list (map pending (ts_pcs s))"

text \<open>What a thread knows: its clock reading is not in the future, and the credit it carries is
  the one earned since the reading of \<^verbatim>\<open>last_refill\<close> it carries.\<close>

fun pc_ok :: "u64 \<Rightarrow> u64 \<Rightarrow> tb_pc \<Rightarrow> bool" where
  "pc_ok rate clock (Loading n now) = (now \<le> clock)"
| "pc_ok rate clock (Swapping n now prev credit) =
     (now \<le> clock \<and> credit = tb_credit rate now prev \<and> credit \<noteq> 0)"
| "pc_ok rate clock _ = True"

definition tb_inv :: "u64 \<Rightarrow> u64 \<Rightarrow> u64 \<Rightarrow> tb_sys \<Rightarrow> bool" where
  "tb_inv t0 rate capacity s =
     (tb_rate (ts_bucket s) = rate \<and> tb_capacity (ts_bucket s) = capacity \<and>
      tb_wf (ts_bucket s) \<and> list_all (pc_ok rate (ts_clock s)) (ts_pcs s) \<and>
      t0 \<le> tb_last_refill (ts_bucket s) \<and> tb_last_refill (ts_bucket s) \<le> ts_clock s \<and>
      ts_granted s * 1000000 \<le> unat rate * (unat (tb_last_refill (ts_bucket s)) - unat t0) \<and>
      ts_admitted s + unat (tb_tokens (ts_bucket s)) + ts_pending s \<le> unat capacity + ts_granted s)"

lemma pending_update:
  assumes "i < length pcs"
  shows "sum_list (map pending (pcs[i := q])) + pending (pcs ! i) =
     sum_list (map pending pcs) + pending q"
proof -
  have "pending (pcs ! i) \<le> sum_list (map pending pcs)"
    using assms by (metis elem_le_sum_list length_map nth_map)
  with assms show ?thesis by (simp add: map_update sum_list_update)
qed

lemma list_all_update: "list_all P xs \<Longrightarrow> P x \<Longrightarrow> list_all P (xs[i := x])"
  by (auto simp: list_all_iff dest!: set_update_subset_insert [THEN subsetD])

lemma pc_ok_mono: "pc_ok rate c q \<Longrightarrow> c \<le> c' \<Longrightarrow> pc_ok rate c' q"
  by (cases q) auto

lemma list_all_nth: "list_all P xs \<Longrightarrow> i < length xs \<Longrightarrow> P (xs ! i)"
  by (simp add: list_all_length)

lemma tb_inv_init: "tb_inv now rate capacity (tb_init now rate capacity threads)"
  by (simp add: tb_inv_def tb_init_def tb_new_def tb_wf_def ts_pending_def list_all_iff sum_list_replicate)

lemma tb_inv_swap_won:
  assumes inv: "tb_inv t0 rate capacity s" and i: "i < length (ts_pcs s)"
    and pc: "ts_pcs s ! i = Swapping n now (tb_last_refill (ts_bucket s)) credit"
  shows "tb_inv t0 rate capacity (set_pc i (Crediting n credit)
       (s\<lparr>ts_bucket := (ts_bucket s)\<lparr>tb_last_refill := now\<rparr>,
          ts_granted := ts_granted s + unat credit\<rparr>))"
proof -
  let ?prev = "tb_last_refill (ts_bucket s)"
  from inv i pc have ok: "pc_ok rate (ts_clock s) (Swapping n now ?prev credit)"
    unfolding tb_inv_def by (metis list_all_nth)
  then have pos: "unat ?prev < unat now" using tb_credit_pos by auto
  have t0: "unat t0 \<le> unat ?prev" using inv by (simp add: tb_inv_def word_le_nat_alt)
  have "unat credit * 1000000 \<le> unat rate * (unat now - unat ?prev)"
    using ok unat_tb_credit [of rate now ?prev] by simp
  moreover have "ts_granted s * 1000000 \<le> unat rate * (unat ?prev - unat t0)"
    using inv by (simp add: tb_inv_def)
  moreover have "unat now - unat t0 = (unat now - unat ?prev) + (unat ?prev - unat t0)"
    using pos t0 by simp
  ultimately have "(ts_granted s + unat credit) * 1000000 \<le> unat rate * (unat now - unat t0)"
    by (simp add: algebra_simps)
  then show ?thesis
    using inv ok pos t0 pending_update [OF i, of "Crediting n credit"] pc
    by (auto simp: tb_inv_def ts_pending_def tb_wf_def list_all_update word_le_nat_alt)
qed

lemma tb_inv_step: "tb_step s s' \<Longrightarrow> tb_inv t0 rate capacity s \<Longrightarrow> tb_inv t0 rate capacity s'"
proof (induction rule: tb_step.induct)
  case (tick s t)
  then show ?case
    by (auto simp: tb_inv_def ts_pending_def list_all_iff intro: pc_ok_mono)
next
  case (start i s n)
  then show ?case
    using pending_update [OF start(1), of "Loading n (ts_clock s)"]
    by (simp add: tb_inv_def ts_pending_def list_all_update)
next
  case (load i s n now prev credit)
  let ?q = "if credit = 0 then Consuming n else Swapping n now prev credit"
  from load have "pc_ok rate (ts_clock s) (Loading n now)"
    unfolding tb_inv_def by (metis list_all_nth)
  with load have "pc_ok rate (ts_clock s) ?q" by (auto simp: tb_inv_def)
  with load show ?case
    using pending_update [OF load(1), of ?q]
    by (simp add: tb_inv_def ts_pending_def list_all_update)
next
  case (swap_won i s n now prev credit)
  then show ?case using tb_inv_swap_won by blast
next
  case (swap_lost i s n now prev credit)
  then show ?case
    using pending_update [OF swap_lost(1), of "Consuming n"]
    by (simp add: tb_inv_def ts_pending_def list_all_update)
next
  case (credit i s n c)
  then show ?case
    using pending_update [OF credit(1), of "Consuming n"]
    by (auto simp: tb_inv_def ts_pending_def list_all_update tb_wf_def unat_simps)
next
  case (consume i s n t)
  then show ?case
    using pending_update [OF consume(1), of Idle] unat_checked_sub [OF consume(3)]
    by (auto simp: tb_inv_def ts_pending_def list_all_update tb_wf_def word_le_nat_alt)
next
  case (refuse i s n)
  then show ?case
    using pending_update [OF refuse(1), of Idle]
    by (simp add: tb_inv_def ts_pending_def list_all_update)
qed

lemma tb_inv_reachable:
  "tb_reachable (tb_init t0 rate capacity threads) s \<Longrightarrow> tb_inv t0 rate capacity s"
  by (induction rule: tb_reachable.induct) (auto intro: tb_inv_init tb_inv_step)

section \<open>Properties\<close>

text \<open>C24: No interleaving of any number of threads over-admits: in every reachable state the
  tokens consumed by admitted requests number at most the capacity plus what the rate earns in
  the time since the bucket was created, and the counter never leaves the range from 0 to the
  capacity. Racing refillers cannot credit the same microseconds twice.\<close>

theorem concurrent_admissions_bounded:
  assumes "tb_reachable (tb_init t0 rate capacity threads) s"
  shows "ts_admitted s \<le> unat capacity + unat rate * (unat (ts_clock s) - unat t0) div 1000000 \<and>
     unat (tb_tokens (ts_bucket s)) \<le> unat capacity"
proof -
  let ?last = "tb_last_refill (ts_bucket s)"
  from tb_inv_reachable [OF assms] have inv: "tb_inv t0 rate capacity s" .
  then have "ts_granted s * 1000000 \<le> unat rate * (unat ?last - unat t0)"
    and "unat ?last \<le> unat (ts_clock s)"
    by (simp_all add: tb_inv_def word_le_nat_alt)
  then have "ts_granted s * 1000000 \<le> unat rate * (unat (ts_clock s) - unat t0)"
    by (meson diff_le_mono le_trans mult_le_mono2)
  then have "ts_granted s \<le> unat rate * (unat (ts_clock s) - unat t0) div 1000000"
    by (simp add: less_eq_div_iff_mult_less_eq)
  with inv show ?thesis
    by (auto simp: tb_inv_def tb_wf_def word_le_nat_alt)
qed

definition tb_demo :: tb_sys where
  "tb_demo = set_pc 0 Idle ((tb_init 0 0 1 2)\<lparr>ts_bucket := (tb_new 0 0 1)\<lparr>tb_tokens := 0\<rparr>,
     ts_admitted := 1\<rparr>)"

lemma tb_demo_reachable: "tb_reachable (tb_init 0 0 1 2) tb_demo"
proof -
  let ?s0 = "tb_init 0 0 1 2"
  let ?s1 = "set_pc 0 (Loading 1 (ts_clock ?s0)) ?s0"
  let ?s2 = "set_pc 0 (if (0::u64) = 0 then Consuming 1 else Swapping 1 0 0 0) ?s1"
  have "tb_step ?s0 ?s1" by (rule tb_step.start) (simp_all add: tb_init_def)
  moreover have "tb_step ?s1 ?s2"
    by (rule tb_step.load [where now = 0]) (simp_all add: tb_init_def tb_new_def)
  moreover have "tb_step ?s2 tb_demo"
    using tb_step.consume [of 0 ?s2 1 0] by (simp add: tb_demo_def tb_init_def tb_new_def checked_sub_def)
  ultimately show ?thesis by (meson tb_reachable.intros)
qed

theorem concurrent_admissions_bounded_witness: "ts_admitted tb_demo = 1 \<and> ts_admitted tb_demo \<le> 1"
  using concurrent_admissions_bounded [OF tb_demo_reachable]
  by (simp add: tb_demo_def)

text \<open>What one call does: a request for \<open>n\<close> tokens is admitted exactly when the tokens
  left plus the credit earned since the last refill, capped at the capacity, cover it, and it
  takes exactly \<open>n\<close> of them; a refused request takes none.\<close>

theorem tb_allow_n_spec:
  assumes "tb_wf b"
    and "avail = min (unat (tb_tokens b) + unat (tb_credit (tb_rate b) now (tb_last_refill b)))
           (unat (tb_capacity b))"
  shows "fst (tb_allow_n n now b) = (unat n \<le> avail) \<and>
     unat (tb_tokens (snd (tb_allow_n n now b))) = (if unat n \<le> avail then avail - unat n else avail)"
proof -
  have "unat (tb_capacity b) < 2 ^ LENGTH(64)" by (rule unsigned_less)
  with assms have "unat (tb_tokens (tb_refill now b)) = avail"
    by (auto simp: tb_refill_def Let_def tb_wf_def word_le_nat_alt unat_simps)
  then show ?thesis
    by (auto simp: tb_allow_n_def Let_def checked_sub_None checked_sub_Some unat_sub_if' split: option.split)
qed

theorem tb_allow_n_spec_witness:
  "fst (tb_allow_n 3 1000000 ((tb_new 0 2 10)\<lparr>tb_tokens := 1\<rparr>)) = True"
  by (subst conjunct1 [OF tb_allow_n_spec [OF _ refl]])
    (simp_all add: tb_new_def tb_wf_def tb_credit_def saturating_mul_def saturating_sub_def word_le_nat_alt
      unat_div_distrib)

text \<open>A bucket whose rate is zero admits exactly as many single requests as it holds
  tokens, however they are spread over time.\<close>

theorem zero_rate_admits_tokens:
  "admitted tb_allow (tb_new t0 0 capacity) ts = min (length ts) (unat capacity)"
  using drained.admissions_exact [of "tb_new t0 0 capacity" ts]
  by (simp add: unrefilled_def) (simp add: tb_new_def)

section \<open>Every call returns\<close>

text \<open>How many steps a thread has left in its call.\<close>

fun steps_left :: "tb_pc \<Rightarrow> nat" where
  "steps_left Idle = 0"
| "steps_left (Consuming n) = 1"
| "steps_left (Crediting n credit) = 2"
| "steps_left (Swapping n now prev credit) = 3"
| "steps_left (Loading n now) = 4"

lemma tb_step_threads: "tb_step s s' \<Longrightarrow> length (ts_pcs s') = length (ts_pcs s)"
  by (induction rule: tb_step.induct) simp_all

lemma tb_step_others:
  "tb_step s s' \<Longrightarrow> i < length (ts_pcs s) \<Longrightarrow> ts_pcs s ! i \<noteq> Idle \<Longrightarrow>
   ts_pcs s' ! i = ts_pcs s ! i \<or> steps_left (ts_pcs s' ! i) < steps_left (ts_pcs s ! i)"
  by (induction rule: tb_step.induct) (auto simp: nth_list_update)

lemma own_step_enabled:
  assumes i: "i < length (ts_pcs s)" "ts_pcs s ! i \<noteq> Idle"
  shows "\<exists>s'. tb_step s s' \<and> steps_left (ts_pcs s' ! i) < steps_left (ts_pcs s ! i)"
proof (cases "ts_pcs s ! i")
  case (Loading n now)
  from tb_step.load [OF i(1) Loading refl refl] i Loading show ?thesis by (intro exI conjI) (assumption, simp)
next
  case (Swapping n now prev credit)
  show ?thesis
  proof (cases "tb_last_refill (ts_bucket s) = prev")
    case True
    from tb_step.swap_won [OF i(1) Swapping True] i Swapping show ?thesis by (intro exI conjI) (assumption, simp)
  next
    case False
    from tb_step.swap_lost [OF i(1) Swapping False] i Swapping show ?thesis by (intro exI conjI) (assumption, simp)
  qed
next
  case (Crediting n credit)
  from tb_step.credit [OF i(1) Crediting] i Crediting show ?thesis by (intro exI conjI) (assumption, simp)
next
  case (Consuming n)
  show ?thesis
  proof (cases "checked_sub (tb_tokens (ts_bucket s)) n")
    case None
    from tb_step.refuse [OF i(1) Consuming None] i Consuming show ?thesis by (intro exI conjI) (assumption, simp)
  next
    case (Some t)
    from tb_step.consume [OF i(1) Consuming Some] i Consuming show ?thesis by (intro exI conjI) (assumption, simp)
  qed
qed (use i in simp)

text \<open>The steps of its own that thread \<open>i\<close> takes along a run.\<close>

fun own_steps :: "nat \<Rightarrow> tb_sys list \<Rightarrow> nat" where
  "own_steps i (s # s' # ss) = (if ts_pcs s' ! i = ts_pcs s ! i then 0 else 1) + own_steps i (s' # ss)"
| "own_steps i _ = 0"

lemma own_steps_bounded:
  "successively tb_step (s # ss) \<Longrightarrow> i < length (ts_pcs s) \<Longrightarrow> \<forall>x\<in>set (s # ss). ts_pcs x ! i \<noteq> Idle \<Longrightarrow>
   own_steps i (s # ss) + steps_left (ts_pcs (List.last (s # ss)) ! i) \<le> steps_left (ts_pcs s ! i)"
proof (induction ss arbitrary: s)
  case (Cons s' ss)
  have "own_steps i (s' # ss) + steps_left (ts_pcs (List.last (s' # ss)) ! i) \<le> steps_left (ts_pcs s' ! i)"
    using Cons.IH [of s'] Cons.prems tb_step_threads [of s s'] by simp
  with tb_step_others [of s s' i] Cons.prems show ?case by auto
qed simp

lemma steps_left_bounds: "steps_left q \<le> 4" "q \<noteq> Idle \<Longrightarrow> 0 < steps_left q"
  by (cases q; simp)+



end
