(* ===== verification/Sharded_Map.thy ===== *)
theory Sharded_Map
  imports Prelude
begin

text \<open>
  The store both limiters use: a vector of hash maps, a key living in the map its hash selects.
  The hash (\<^verbatim>\<open>ahash::AHasher\<close>) is code outside the repository and a parameter. The locale
  \<open>keyed_map\<close> is what the limiters rely on; it is interpreted on the vector of maps.
\<close>

locale keyed_map =
  fixes get :: "'m \<Rightarrow> 'k \<Rightarrow> 'v option"
    and put :: "'k \<Rightarrow> 'v \<Rightarrow> 'm \<Rightarrow> 'm"
    and wf :: "'m \<Rightarrow> bool"
  assumes get_put: "wf m \<Longrightarrow> get (put k v m) = (get m)(k \<mapsto> v)"
    and wf_put: "wf m \<Longrightarrow> wf (put k v m)"
begin

text \<open>Updating the value under a key in place, creating it when absent: the key's value is
  updated, every other key is untouched, and updates of different keys commute.\<close>

lemma get_update: "wf m \<Longrightarrow> get (put k (f (get m k)) m) k' = (if k' = k then Some (f (get m k)) else get m k')"
  by (simp add: get_put)

lemma put_commute:
  "wf m \<Longrightarrow> k \<noteq> k' \<Longrightarrow> get (put k v (put k' v' m)) = get (put k' v' (put k v m))"
  by (simp add: get_put wf_put fun_upd_twist)

end

type_synonym 'v shards = "(string, 'v) al list"

definition shard_index :: "(string \<Rightarrow> u64) \<Rightarrow> nat \<Rightarrow> string \<Rightarrow> nat" where
  "shard_index hash num_shards key = unat (hash key) mod num_shards"

definition shard_get :: "(string \<Rightarrow> u64) \<Rightarrow> 'v shards \<Rightarrow> string \<Rightarrow> 'v option" where
  "shard_get hash shards key = map_of (shards ! shard_index hash (length shards) key) key"

definition shard_put :: "(string \<Rightarrow> u64) \<Rightarrow> string \<Rightarrow> 'v \<Rightarrow> 'v shards \<Rightarrow> 'v shards" where
  "shard_put hash key v shards =
     (let i = shard_index hash (length shards) key in shards[i := al_put key v (shards ! i)])"

definition shards_clear :: "'v shards \<Rightarrow> 'v shards" where
  "shards_clear shards = map (\<lambda>_. []) shards"

definition shards_wf :: "'v shards \<Rightarrow> bool" where
  "shards_wf shards = (shards \<noteq> [] \<and> list_all al_wf shards)"

lemma shard_index_less: "0 < n \<Longrightarrow> shard_index hash n key < n"
  by (simp add: shard_index_def)

lemma length_shard_put [simp]: "length (shard_put hash key v shards) = length shards"
  by (simp add: shard_put_def Let_def)

lemma length_shards_clear [simp]: "length (shards_clear shards) = length shards"
  by (simp add: shards_clear_def)

lemma shards_wf_clear [simp]: "shards_wf shards \<Longrightarrow> shards_wf (shards_clear shards)"
  by (auto simp: shards_wf_def shards_clear_def list_all_iff)

lemma shards_wf_replicate [simp]: "0 < n \<Longrightarrow> shards_wf (replicate n [])"
  by (simp add: shards_wf_def list_all_iff)

lemma shard_get_clear [simp]: "shards_wf shards \<Longrightarrow> shard_get hash (shards_clear shards) = Map.empty"
  by (auto simp: shard_get_def shards_clear_def shards_wf_def fun_eq_iff shard_index_less)

lemma shard_get_replicate [simp]: "0 < n \<Longrightarrow> shard_get hash (replicate n []) = Map.empty"
  by (auto simp: shard_get_def fun_eq_iff shard_index_less)

interpretation sharded: keyed_map "shard_get hash" "shard_put hash" shards_wf for hash
proof unfold_locales
  fix m :: "'v shards" and k v
  assume wf: "shards_wf m"
  then have i: "shard_index hash (length m) k' < length m" for k'
    by (simp add: shards_wf_def shard_index_less)
  show "shard_get hash (shard_put hash k v m) = (shard_get hash m)(k \<mapsto> v)"
    using i by (auto simp: shard_get_def shard_put_def Let_def fun_eq_iff nth_list_update)
  have "al_wf (m ! shard_index hash (length m) k)"
    using wf i by (simp add: shards_wf_def list_all_length)
  then show "shards_wf (shard_put hash k v m)"
    using wf by (auto simp: shards_wf_def shard_put_def Let_def list_all_iff
        dest!: set_update_subset_insert [THEN subsetD])
qed

end
