(* ===== verification/Rate_Limiter.thy ===== *)
theory Rate_Limiter
  imports Token_Bucket Sharded_Map
begin

text \<open>
  The gateway's rate limiter: \<open>ShardedRateLimiter\<close> of
  \<^verbatim>\<open>crates/himadri-ratelimit/src/token_bucket.rs\<close> (token buckets by key) and \<open>RateLimiter\<close> of
  \<^verbatim>\<open>crates/himadri-ratelimit/src/lib.rs\<close> (the global bucket and the buckets of keys and
  organisations). Operations run one after the other here; the races inside one bucket are in
  \<open>Token_Bucket\<close>. The clock readings of one call are one argument.
\<close>

section \<open>Buckets by key\<close>

record ShardedRateLimiter =
  srl_shards :: "TokenBucket shards"
  srl_num_shards :: nat
  srl_rate :: u64
  srl_capacity :: u64

definition srl_new :: "u64 \<Rightarrow> u64 \<Rightarrow> nat \<Rightarrow> ShardedRateLimiter" where
  "srl_new rate capacity num_shards =
     \<lparr>srl_shards = replicate num_shards [], srl_num_shards = num_shards, srl_rate = rate,
      srl_capacity = capacity\<rparr>"

definition srl_shard_index :: "(string \<Rightarrow> u64) \<Rightarrow> ShardedRateLimiter \<Rightarrow> string \<Rightarrow> nat" where
  "srl_shard_index hash s key = shard_index hash (srl_num_shards s) key"

text \<open>The fast path under the read lock, then the slow path under the write lock.\<close>

definition srl_allow_with_params ::
    "(string \<Rightarrow> u64) \<Rightarrow> u64 \<Rightarrow> string \<Rightarrow> u64 \<Rightarrow> u64 \<Rightarrow> ShardedRateLimiter \<Rightarrow> bool \<times> ShardedRateLimiter" where
  "srl_allow_with_params hash now key rate capacity s =
     (let idx = srl_shard_index hash s key; shard = srl_shards s ! idx;
          store = (\<lambda>b. s\<lparr>srl_shards := (srl_shards s)[idx := al_put key b shard]\<rparr>);
          slow = (let bucket = (case map_of shard key of Some b \<Rightarrow> b | None \<Rightarrow> tb_new now rate capacity);
                      bucket = (if tb_rate bucket \<noteq> rate \<or> tb_capacity bucket \<noteq> capacity
                                then tb_new now rate capacity else bucket);
                      (ok, bucket) = tb_allow now bucket
                  in (ok, store bucket))
      in case map_of shard key of
           Some bucket \<Rightarrow>
             (if tb_rate bucket = rate \<and> tb_capacity bucket = capacity
              then (let (ok, bucket) = tb_allow now bucket in (ok, store bucket)) else slow)
         | None \<Rightarrow> slow)"

definition srl_allow :: "(string \<Rightarrow> u64) \<Rightarrow> u64 \<Rightarrow> string \<Rightarrow> ShardedRateLimiter \<Rightarrow> bool \<times> ShardedRateLimiter" where
  "srl_allow hash now key s = srl_allow_with_params hash now key (srl_rate s) (srl_capacity s) s"

definition srl_clear :: "ShardedRateLimiter \<Rightarrow> ShardedRateLimiter" where
  "srl_clear s = s\<lparr>srl_shards := shards_clear (srl_shards s)\<rparr>"

definition srl_wf :: "ShardedRateLimiter \<Rightarrow> bool" where
  "srl_wf s = (shards_wf (srl_shards s) \<and> length (srl_shards s) = srl_num_shards s)"

text \<open>The limiter as one flat map, and what a check does on it: a bucket whose parameters are
  not the requested ones is replaced by a new one first.\<close>

definition srl_map :: "(string \<Rightarrow> u64) \<Rightarrow> ShardedRateLimiter \<Rightarrow> string \<rightharpoonup> TokenBucket" where
  "srl_map hash s = shard_get hash (srl_shards s)"

definition current_bucket :: "u64 \<Rightarrow> u64 \<Rightarrow> u64 \<Rightarrow> TokenBucket option \<Rightarrow> TokenBucket" where
  "current_bucket now rate capacity b = (case b of
       Some b \<Rightarrow> if tb_rate b = rate \<and> tb_capacity b = capacity then b else tb_new now rate capacity
     | None \<Rightarrow> tb_new now rate capacity)"

lemma srl_allow_with_params_eq:
  "srl_wf s \<Longrightarrow> srl_allow_with_params hash now key rate capacity s =
     (let (ok, b) = tb_allow now (current_bucket now rate capacity (srl_map hash s key))
      in (ok, s\<lparr>srl_shards := shard_put hash key b (srl_shards s)\<rparr>))"
  by (auto simp: srl_allow_with_params_def srl_shard_index_def srl_wf_def srl_map_def shard_get_def
      shard_put_def current_bucket_def Let_def split: option.splits prod.splits)

lemma srl_wf_new [simp]: "0 < n \<Longrightarrow> srl_wf (srl_new rate capacity n)"
  by (simp add: srl_wf_def srl_new_def)

lemma srl_map_new [simp]: "0 < n \<Longrightarrow> srl_map hash (srl_new rate capacity n) = Map.empty"
  by (simp add: srl_map_def srl_new_def)

lemma srl_wf_allow_with_params:
  "srl_wf s \<Longrightarrow> srl_wf (snd (srl_allow_with_params hash now key rate capacity s))"
  by (simp add: srl_allow_with_params_eq Let_def case_prod_beta) (simp add: srl_wf_def sharded.wf_put)

lemma srl_wf_clear: "srl_wf s \<Longrightarrow> srl_wf (srl_clear s)"
  by (simp add: srl_wf_def srl_clear_def)

lemma srl_map_allow_with_params:
  "srl_wf s \<Longrightarrow> srl_map hash (snd (srl_allow_with_params hash now key rate capacity s)) =
     (srl_map hash s)(key \<mapsto> snd (tb_allow now (current_bucket now rate capacity (srl_map hash s key))))"
  by (simp add: srl_allow_with_params_eq Let_def case_prod_beta)
    (simp add: srl_map_def srl_wf_def sharded.get_put)

lemma srl_allow_with_params_fst:
  "srl_wf s \<Longrightarrow> fst (srl_allow_with_params hash now key rate capacity s) =
     fst (tb_allow now (current_bucket now rate capacity (srl_map hash s key)))"
  by (simp add: srl_allow_with_params_eq Let_def case_prod_beta)

section \<open>The limiter of the gateway\<close>

record RateLimiter =
  rl_global :: ShardedRateLimiter
  rl_per_entity :: ShardedRateLimiter
  rl_default_rate :: u64
  rl_default_burst :: u64

definition rl_new :: "u64 \<Rightarrow> u64 \<Rightarrow> RateLimiter" where
  "rl_new default_rate default_burst =
     \<lparr>rl_global = srl_new default_rate default_burst 64,
      rl_per_entity = srl_new default_rate default_burst 64,
      rl_default_rate = default_rate, rl_default_burst = default_burst\<rparr>"

definition rl_set_defaults :: "u64 \<Rightarrow> u64 \<Rightarrow> RateLimiter \<Rightarrow> RateLimiter" where
  "rl_set_defaults rate burst rl = rl\<lparr>rl_default_rate := rate, rl_default_burst := burst\<rparr>"

definition rl_check_global :: "(string \<Rightarrow> u64) \<Rightarrow> u64 \<Rightarrow> RateLimiter \<Rightarrow> bool \<times> RateLimiter" where
  "rl_check_global hash now rl =
     (let (ok, g) = srl_allow_with_params hash now ''global'' (rl_default_rate rl) (rl_default_burst rl)
                      (rl_global rl)
      in (ok, rl\<lparr>rl_global := g\<rparr>))"

definition entity_key :: "string \<Rightarrow> string \<Rightarrow> string" where
  "entity_key prefix ident = prefix @ '':'' @ ident"

definition rl_check_entity ::
    "(string \<Rightarrow> u64) \<Rightarrow> u64 \<Rightarrow> string \<Rightarrow> string \<Rightarrow> u64 option \<Rightarrow> u64 option \<Rightarrow> RateLimiter \<Rightarrow> bool \<times> RateLimiter" where
  "rl_check_entity hash now prefix ident rate burst rl =
     (let r = unwrap_or rate (rl_default_rate rl); b = unwrap_or burst (rl_default_burst rl);
          (ok, e) = srl_allow_with_params hash now (entity_key prefix ident) r b (rl_per_entity rl)
      in (ok, rl\<lparr>rl_per_entity := e\<rparr>))"

definition rl_check_org ::
    "(string \<Rightarrow> u64) \<Rightarrow> u64 \<Rightarrow> string \<Rightarrow> u64 option \<Rightarrow> u64 option \<Rightarrow> RateLimiter \<Rightarrow> bool \<times> RateLimiter" where
  "rl_check_org hash now org_id rate burst rl = rl_check_entity hash now ''org'' org_id rate burst rl"

definition rl_check_key ::
    "(string \<Rightarrow> u64) \<Rightarrow> u64 \<Rightarrow> string \<Rightarrow> u64 option \<Rightarrow> u64 option \<Rightarrow> RateLimiter \<Rightarrow> bool \<times> RateLimiter" where
  "rl_check_key hash now key_id rate burst rl = rl_check_entity hash now ''key'' key_id rate burst rl"

definition rl_clear :: "RateLimiter \<Rightarrow> RateLimiter" where
  "rl_clear rl = rl\<lparr>rl_global := srl_clear (rl_global rl), rl_per_entity := srl_clear (rl_per_entity rl)\<rparr>"

definition rl_wf :: "RateLimiter \<Rightarrow> bool" where
  "rl_wf rl = (srl_wf (rl_global rl) \<and> srl_wf (rl_per_entity rl))"

lemma rl_wf_new [simp]: "rl_wf (rl_new rate burst)"
  by (simp add: rl_wf_def rl_new_def)

lemma rl_wf_ops:
  "rl_wf rl \<Longrightarrow> rl_wf (rl_set_defaults r b rl)"
  "rl_wf rl \<Longrightarrow> rl_wf (snd (rl_check_global hash now rl))"
  "rl_wf rl \<Longrightarrow> rl_wf (snd (rl_check_entity hash now prefix ident rate burst rl))"
  "rl_wf rl \<Longrightarrow> rl_wf (rl_clear rl)"
  by (simp_all add: rl_wf_def rl_set_defaults_def rl_check_global_def rl_check_entity_def rl_clear_def
      Let_def case_prod_beta srl_wf_allow_with_params srl_wf_clear)

lemma entity_key_inject [simp]:
  "entity_key ''org'' a \<noteq> entity_key ''key'' b" "entity_key ''key'' b \<noteq> entity_key ''org'' a"
  "entity_key p a = entity_key p b \<longleftrightarrow> a = b"
  by (simp_all add: entity_key_def)

section \<open>Properties\<close>

text \<open>C26: The sharded limiter implements a flat map of token buckets: a check answers and
  updates as one token bucket under its key would, starting from a new bucket when the key is
  unknown or its parameters have changed, and leaves every other key's bucket as it was, whatever
  the hash function.\<close>

theorem sharded_limiter_refines_map:
  assumes "srl_wf s"
  shows "(fst (srl_allow_with_params hash now key rate capacity s),
          srl_map hash (snd (srl_allow_with_params hash now key rate capacity s))) =
     (let (ok, b) = tb_allow now (current_bucket now rate capacity (srl_map hash s key))
      in (ok, (srl_map hash s)(key \<mapsto> b)))"
  using assms
  by (simp add: srl_allow_with_params_fst srl_map_allow_with_params Let_def case_prod_beta)

theorem sharded_limiter_refines_map_witness:
  "fst (srl_allow_with_params (\<lambda>k. of_nat (length k)) 5 ''k1'' 0 0 (srl_new 100 200 4)) = False"
proof -
  have wf: "srl_wf (srl_new 100 200 4)" by simp
  show ?thesis
    using sharded_limiter_refines_map [OF wf, of "\<lambda>k. of_nat (length k)" 5 "''k1''" 0 0]
    by (simp add: current_bucket_def tb_allow_def tb_allow_n_def tb_refill_def tb_new_def
        checked_sub_def Let_def)
qed

text \<open>The limits of different principals are independent: a check of one API key leaves
  the bucket of every other key, of every organisation and the global bucket untouched, so no
  sequence of checks by one key can use up another's allowance.\<close>

theorem key_checks_isolated:
  assumes "rl_wf rl" and "rl_check_key hash now key_id rate burst rl = (ok, rl')"
  shows "rl_global rl' = rl_global rl \<and>
     (\<forall>org. srl_map hash (rl_per_entity rl') (entity_key ''org'' org) =
            srl_map hash (rl_per_entity rl) (entity_key ''org'' org)) \<and>
     (\<forall>k. k \<noteq> key_id \<longrightarrow> srl_map hash (rl_per_entity rl') (entity_key ''key'' k) =
            srl_map hash (rl_per_entity rl) (entity_key ''key'' k))"
  using assms
  by (auto simp: rl_check_key_def rl_check_entity_def rl_wf_def Let_def case_prod_beta
      srl_map_allow_with_params)

theorem key_checks_isolated_witness:
  "rl_global (snd (rl_check_key (\<lambda>k. 0) 7 ''k1'' None (Some 2) (rl_new 1 1))) = rl_global (rl_new 1 1)"
  using key_checks_isolated [OF rl_wf_new [of 1 1] surjective_pairing, of "\<lambda>k. 0" 7 "''k1''" None "Some 2"]
  by blast

text \<open>New defaults take effect on the next check: after \<open>set_defaults\<close> to a burst
  that differs from the one the bucket of a key was built with, the next check of that key
  without an override starts from a full bucket of the new size.\<close>

theorem set_defaults_takes_effect:
  assumes "rl_wf rl"
    and "\<forall>b. srl_map hash (rl_per_entity rl) (entity_key ''key'' k) = Some b \<longrightarrow> tb_capacity b \<noteq> burst"
  shows "fst (rl_check_key hash now k None None (rl_set_defaults rate burst rl)) = (0 < burst)"
proof -
  have "current_bucket now rate burst (srl_map hash (rl_per_entity rl) (entity_key ''key'' k)) =
      tb_new now rate burst"
    using assms(2) by (auto simp: current_bucket_def split: option.split)
  with assms(1) show ?thesis
    by (auto simp: rl_check_key_def rl_check_entity_def rl_set_defaults_def rl_wf_def Let_def case_prod_beta
        srl_allow_with_params_fst tb_allow_def tb_allow_n_def tb_refill_def tb_credit_def saturating_mul_def
        saturating_sub_def tb_new_def checked_sub_def word_less_nat_alt split: option.split)
qed

theorem set_defaults_takes_effect_witness:
  "fst (rl_check_key (\<lambda>k. 0) 9 ''k'' None None (rl_set_defaults 0 5 (rl_new 0 2))) = True"
  using set_defaults_takes_effect [OF rl_wf_new [of 0 2], of "\<lambda>k. 0" "''k''" 5 9 0]
  by (simp add: rl_new_def)

end
