(* ===== verification/Core_Types.thy ===== *)
theory Core_Types
  imports Complex_Main Prelude
begin

text \<open>
  The request and response types of \<^verbatim>\<open>himadri-core/src/types.rs\<close> and the errors of
  \<^verbatim>\<open>himadri-core/src/error.rs\<close>. A struct is a record whose fields carry a short prefix, an enum
  a datatype. The floating point fields (sampling parameters, weights, prices, budgets) are rational
  numbers: a finite \<^verbatim>\<open>f64\<close> is one, and the properties stated over them do not depend on how the
  last bit is rounded. \<^verbatim>\<open>serde_json::Value\<close> is the datatype \<open>json\<close>, whose objects list their
  members in order.
\<close>

datatype json =
    JNull
  | JBool bool
  | JNum rat
  | JStr string
  | JArr "json list"
  | JObj "(string \<times> json) list"

fun as_str :: "json \<Rightarrow> string option" where
  "as_str (JStr s) = Some s"
| "as_str _ = None"

fun as_obj :: "json \<Rightarrow> (string \<times> json) list option" where
  "as_obj (JObj m) = Some m"
| "as_obj _ = None"

section \<open>Requests\<close>

datatype Role = System | User | Assistant | Tool_role

record ToolFunction =
  tf_name :: string
  tf_description :: "string option"
  tf_parameters :: "json option"

record Tool =
  tool_type :: string
  tool_function :: ToolFunction

record FunctionCall =
  fc_name :: string
  fc_arguments :: string

record ToolCall =
  tc_id :: string
  tc_type :: string
  tc_function :: FunctionCall

record ImageUrlDetail =
  iu_url :: string
  iu_detail :: "string option"

datatype ContentPart =
    TextPart string
  | ImageUrl ImageUrlDetail

datatype MessageContent =
    Text string
  | Parts "ContentPart list"

record Message =
  msg_role :: Role
  msg_content :: "MessageContent option"
  msg_name :: "string option"
  msg_tool_calls :: "ToolCall list option"
  msg_tool_call_id :: "string option"

record ChatCompletionRequest =
  cr_model :: string
  cr_messages :: "Message list"
  cr_stream :: bool
  cr_temperature :: "rat option"
  cr_top_p :: "rat option"
  cr_max_tokens :: "u32 option"
  cr_stop :: "string list option"
  cr_presence_penalty :: "rat option"
  cr_frequency_penalty :: "rat option"
  cr_user :: "string option"
  cr_tools :: "Tool list option"
  cr_tool_choice :: "json option"
  cr_extra :: "(string, json) al"

text \<open>\<^verbatim>\<open>#[derive(Default)]\<close> on the request, and \<^verbatim>\<open>Message::user\<close>.\<close>

definition ChatCompletionRequest_default :: ChatCompletionRequest where
  "ChatCompletionRequest_default =
     \<lparr>cr_model = [], cr_messages = [], cr_stream = False, cr_temperature = None, cr_top_p = None,
      cr_max_tokens = None, cr_stop = None, cr_presence_penalty = None, cr_frequency_penalty = None,
      cr_user = None, cr_tools = None, cr_tool_choice = None, cr_extra = []\<rparr>"

definition Role_default :: Role where
  "Role_default = Assistant"

definition message_user :: "string \<Rightarrow> Message" where
  "message_user content =
     \<lparr>msg_role = User, msg_content = Some (Text content), msg_name = None,
      msg_tool_calls = None, msg_tool_call_id = None\<rparr>"

fun as_text :: "MessageContent \<Rightarrow> string option" where
  "as_text (Text s) = Some s"
| "as_text (Parts _) = None"

fun part_text :: "ContentPart \<Rightarrow> string option" where
  "part_text (TextPart t) = Some t"
| "part_text (ImageUrl _) = None"

definition flat_text :: "MessageContent \<Rightarrow> string" where
  "flat_text mc =
     (case mc of
        Text s \<Rightarrow> s
      | Parts parts \<Rightarrow> concat (List.map_filter part_text parts))"

lemma flat_text_as_text: "as_text mc = Some s \<Longrightarrow> flat_text mc = s"
  by (cases mc) (simp_all add: flat_text_def)

section \<open>Responses and stream chunks\<close>

record Usage =
  prompt_tokens :: u32
  completion_tokens :: u32
  total_tokens :: u32

record ResponseMessage =
  rm_role :: Role
  rm_content :: "string option"
  rm_tool_calls :: "ToolCall list option"

record Choice =
  ch_index :: u32
  ch_message :: ResponseMessage
  ch_finish_reason :: "string option"

record ChatCompletionResponse =
  cp_id :: string
  cp_object :: string
  cp_created :: u64
  cp_model :: string
  cp_choices :: "Choice list"
  cp_usage :: "Usage option"
  cp_system_fingerprint :: "string option"

record FunctionCallDelta =
  fcd_name :: "string option"
  fcd_arguments :: "string option"

record ToolCallDelta =
  tcd_index :: u32
  tcd_id :: "string option"
  tcd_type :: "string option"
  tcd_function :: "FunctionCallDelta option"

record Delta =
  dl_role :: "Role option"
  dl_content :: "string option"
  dl_tool_calls :: "ToolCallDelta list option"

record StreamChoice =
  sc_index :: u32
  sc_delta :: Delta
  sc_finish_reason :: "string option"

record StreamChunk =
  sk_id :: string
  sk_object :: string
  sk_created :: u64
  sk_model :: string
  sk_choices :: "StreamChoice list"
  sk_usage :: "Usage option"
  sk_system_fingerprint :: "string option"

section \<open>Embeddings\<close>

datatype EmbeddingInput =
    Single string
  | Multiple "string list"

record EmbeddingRequest =
  er_model :: string
  er_input :: EmbeddingInput
  er_encoding_format :: "string option"
  er_dimensions :: "u32 option"
  er_user :: "string option"
  er_extra :: "(string, json) al"

record EmbeddingData =
  ed_object :: string
  ed_index :: u32
  ed_embedding :: "rat list"

record EmbeddingUsage =
  eu_prompt_tokens :: u32
  eu_total_tokens :: u32

record EmbeddingResponse =
  ep_object :: string
  ep_data :: "EmbeddingData list"
  ep_model :: string
  ep_usage :: EmbeddingUsage

section \<open>Targets and principals\<close>

record Target =
  tg_id :: "string option"
  tg_provider :: string
  tg_weight :: rat
  tg_models :: "string list option"
  tg_api_key_env :: "string option"
  tg_base_url :: "string option"

datatype AuthScope = Admin_scope | ReadOnly_scope | ApiKey_scope

record RateLimitOverride =
  ro_requests_per_second :: "u64 option"
  ro_burst_size :: "u64 option"

record AuthContext =
  au_api_key :: string
  au_key_id :: "string option"
  au_scope :: AuthScope
  au_org_id :: "string option"
  au_team_id :: "string option"
  au_user_id :: "string option"
  au_rate_limit_override :: "RateLimitOverride option"
  au_roles :: "string list"
  au_budget_limit_usd :: "rat option"

definition AuthContext_default :: AuthContext where
  "AuthContext_default =
     \<lparr>au_api_key = [], au_key_id = None, au_scope = ApiKey_scope, au_org_id = None,
      au_team_id = None, au_user_id = None, au_rate_limit_override = None, au_roles = [],
      au_budget_limit_usd = None\<rparr>"

definition auth_anonymous :: AuthContext where
  "auth_anonymous = AuthContext_default\<lparr>au_api_key := ''anonymous'', au_scope := Admin_scope\<rparr>"

definition org_id_or_empty :: "AuthContext \<Rightarrow> string" where
  "org_id_or_empty a = unwrap_or (au_org_id a) []"

definition team_id_or_empty :: "AuthContext \<Rightarrow> string" where
  "team_id_or_empty a = unwrap_or (au_team_id a) []"

definition has_role :: "AuthContext \<Rightarrow> string \<Rightarrow> bool" where
  "has_role a role = (\<exists>r\<in>set (au_roles a). r = role)"

definition has_any_role :: "AuthContext \<Rightarrow> string list \<Rightarrow> bool" where
  "has_any_role a roles = (\<exists>r\<in>set roles. has_role a r)"

lemma has_any_role_iff: "has_any_role a roles \<longleftrightarrow> set roles \<inter> set (au_roles a) \<noteq> {}"
  by (auto simp: has_any_role_def has_role_def)

section \<open>Errors\<close>

datatype ConfigError =
    InvalidStrategy string
  | MissingField string
  | InvalidValue string string
  | Io string
  | Parse string

datatype GatewayError =
    ProviderNotFound string
  | CircuitOpen string
  | RateLimited u64
  | QuotaExceeded string
  | Unauthorized
  | Forbidden string
  | NotFound string
  | BadRequest string
  | Provider string
  | Config_error ConfigError
  | Internal string
  | ServiceUnavailable string

fun status_code :: "GatewayError \<Rightarrow> nat" where
  "status_code (ProviderNotFound _) = 404"
| "status_code (CircuitOpen _) = 503"
| "status_code (RateLimited _) = 429"
| "status_code (QuotaExceeded _) = 429"
| "status_code Unauthorized = 401"
| "status_code (Forbidden _) = 403"
| "status_code (NotFound _) = 404"
| "status_code (BadRequest _) = 400"
| "status_code (Provider _) = 500"
| "status_code (Config_error _) = 400"
| "status_code (Internal _) = 500"
| "status_code (ServiceUnavailable _) = 503"

definition retryable :: "GatewayError \<Rightarrow> bool" where
  "retryable e = (case e of CircuitOpen _ \<Rightarrow> True | RateLimited _ \<Rightarrow> True
                  | ServiceUnavailable _ \<Rightarrow> True | _ \<Rightarrow> False)"

text \<open>Every retryable error has a status a client backs off on (429 or 503); the converse fails
  only for an exhausted quota.\<close>

lemma retryable_iff_status:
  "retryable e \<longleftrightarrow> status_code e \<in> {429, 503} \<and> (\<forall>m. e \<noteq> QuotaExceeded m)"
  by (cases e) (simp_all add: retryable_def)

end
