(* ===== verification/Plugin.thy ===== *)
theory Plugin
  imports Core_Types
begin

text \<open>
  The plugin framework (crate \<^verbatim>\<open>himadri-plugin\<close>): the context a request carries through the
  pipeline (\<^verbatim>\<open>context.rs\<close>), the plugin and response-guardrail traits (\<^verbatim>\<open>traits.rs\<close>), the manager
  that runs them (\<^verbatim>\<open>manager.rs\<close>) and the registry of shared stores (\<^verbatim>\<open>registry.rs\<close>). A trait object
  is a record with its methods; \<open>'w\<close> is the type of the state the plugins share (stores, counters,
  clocks), which \<open>execute\<close> threads through.
\<close>

section \<open>Context\<close>

record PluginContext =
  ctx_request_id :: string
  ctx_request :: ChatCompletionRequest
  ctx_auth :: "AuthContext option"
  ctx_metadata :: "(string, json) al"
  ctx_provider :: "string option"
  ctx_latency :: "duration option"
  ctx_tokens_used :: "u32 option"
  ctx_error :: "string option"
  ctx_response :: "ChatCompletionResponse option"
  ctx_response_text :: "string option"
  ctx_response_chunks :: "string list"
  ctx_remote_ip :: "string option"

text \<open>The fresh request id is an argument.\<close>

definition from_request :: "string \<Rightarrow> ChatCompletionRequest \<Rightarrow> AuthContext option \<Rightarrow> PluginContext" where
  "from_request uuid request auth =
     \<lparr>ctx_request_id = uuid, ctx_request = request, ctx_auth = auth, ctx_metadata = [],
      ctx_provider = None, ctx_latency = None, ctx_tokens_used = None, ctx_error = None,
      ctx_response = None, ctx_response_text = None, ctx_response_chunks = [], ctx_remote_ip = None\<rparr>"

definition set_provider :: "string \<Rightarrow> PluginContext \<Rightarrow> PluginContext" where
  "set_provider p ctx = ctx\<lparr>ctx_provider := Some p\<rparr>"

definition set_latency :: "duration \<Rightarrow> PluginContext \<Rightarrow> PluginContext" where
  "set_latency d ctx = ctx\<lparr>ctx_latency := Some d\<rparr>"

definition set_tokens :: "u32 \<Rightarrow> PluginContext \<Rightarrow> PluginContext" where
  "set_tokens t ctx = ctx\<lparr>ctx_tokens_used := Some t\<rparr>"

definition set_error :: "string \<Rightarrow> PluginContext \<Rightarrow> PluginContext" where
  "set_error e ctx = ctx\<lparr>ctx_error := Some e\<rparr>"

definition set_metadata :: "string \<Rightarrow> json \<Rightarrow> PluginContext \<Rightarrow> PluginContext" where
  "set_metadata k v ctx = ctx\<lparr>ctx_metadata := al_put k v (ctx_metadata ctx)\<rparr>"

definition get_metadata :: "PluginContext \<Rightarrow> string \<Rightarrow> json option" where
  "get_metadata ctx k = map_of (ctx_metadata ctx) k"

definition ctx_org_id :: "PluginContext \<Rightarrow> string option" where
  "ctx_org_id ctx = Option.bind (ctx_auth ctx) au_org_id"

definition ctx_team_id :: "PluginContext \<Rightarrow> string option" where
  "ctx_team_id ctx = Option.bind (ctx_auth ctx) au_team_id"

definition ctx_user_id :: "PluginContext \<Rightarrow> string option" where
  "ctx_user_id ctx = Option.bind (ctx_auth ctx) au_user_id"

definition ctx_key_id :: "PluginContext \<Rightarrow> string option" where
  "ctx_key_id ctx = Option.bind (ctx_auth ctx) au_key_id"

definition set_response :: "ChatCompletionResponse \<Rightarrow> PluginContext \<Rightarrow> PluginContext" where
  "set_response r ctx = ctx\<lparr>ctx_response := Some r\<rparr>"

definition set_response_text :: "string \<Rightarrow> PluginContext \<Rightarrow> PluginContext" where
  "set_response_text t ctx = ctx\<lparr>ctx_response_text := Some t\<rparr>"

definition push_response_chunk :: "string \<Rightarrow> PluginContext \<Rightarrow> PluginContext" where
  "push_response_chunk c ctx = ctx\<lparr>ctx_response_chunks := ctx_response_chunks ctx @ [c]\<rparr>"

definition get_full_response_text :: "PluginContext \<Rightarrow> string" where
  "get_full_response_text ctx =
     (case ctx_response_text ctx of
        Some t \<Rightarrow> t
      | None \<Rightarrow> concat (ctx_response_chunks ctx))"

lemma get_set_metadata: "get_metadata (set_metadata k v ctx) k' = (if k' = k then Some v else get_metadata ctx k')"
  by (simp add: get_metadata_def set_metadata_def)

lemma full_text_of_chunks:
  "ctx_response_text ctx = None \<Longrightarrow>
   get_full_response_text (fold push_response_chunk cs ctx) =
     get_full_response_text ctx @ concat cs"
  by (induction cs arbitrary: ctx) (simp_all add: push_response_chunk_def get_full_response_text_def)

section \<open>Plugins and their errors\<close>

datatype PluginType = Guardrail | Middleware | Cache | Logger

datatype Stage = BeforeRequest | AfterRequest | AfterResponse | OnError

datatype RejectKind =
    BadRequest_kind
  | RateLimited_kind u64
  | BudgetExceeded
  | Forbidden_kind

datatype PluginError =
    Rejected string string RejectKind
  | Internal_plugin string

definition plugin_rejected :: "string \<Rightarrow> string \<Rightarrow> PluginError" where
  "plugin_rejected name reason = Rejected name reason BadRequest_kind"

datatype ResponseAction = Allow | Reject string | Redact string

type_synonym 'w outcome = "(PluginError, unit) result \<times> PluginContext \<times> 'w"

record 'w Plugin =
  pl_name :: string
  pl_plugin_type :: PluginType
  pl_stage :: Stage
  pl_also_after_request :: bool
  pl_execute :: "PluginContext \<Rightarrow> 'w \<Rightarrow> 'w outcome"

record 'w ResponseGuardrail =
  rg_name :: string
  rg_check_response :: "PluginContext \<Rightarrow> string \<Rightarrow> 'w \<Rightarrow> (PluginError, ResponseAction) result \<times> 'w"

section \<open>Manager\<close>

record 'w PluginManager =
  pm_before_request :: "'w Plugin list"
  pm_after_request :: "'w Plugin list"
  pm_after_response :: "'w Plugin list"
  pm_on_error :: "'w Plugin list"
  pm_response_guardrails :: "'w ResponseGuardrail list"

definition pm_new :: "'w PluginManager" where
  "pm_new = \<lparr>pm_before_request = [], pm_after_request = [], pm_after_response = [],
             pm_on_error = [], pm_response_guardrails = []\<rparr>"

definition pm_register :: "'w Plugin \<Rightarrow> 'w PluginManager \<Rightarrow> 'w PluginManager" where
  "pm_register p m =
     (let m = (if pl_also_after_request p \<and> pl_stage p \<noteq> AfterRequest
               then m\<lparr>pm_after_request := pm_after_request m @ [p]\<rparr> else m)
      in case pl_stage p of
           BeforeRequest \<Rightarrow> m\<lparr>pm_before_request := pm_before_request m @ [p]\<rparr>
         | AfterRequest \<Rightarrow> m\<lparr>pm_after_request := pm_after_request m @ [p]\<rparr>
         | AfterResponse \<Rightarrow> m\<lparr>pm_after_response := pm_after_response m @ [p]\<rparr>
         | OnError \<Rightarrow> m\<lparr>pm_on_error := pm_on_error m @ [p]\<rparr>)"

definition pm_register_response_guardrail :: "'w ResponseGuardrail \<Rightarrow> 'w PluginManager \<Rightarrow> 'w PluginManager" where
  "pm_register_response_guardrail g m =
     m\<lparr>pm_response_guardrails := pm_response_guardrails m @ [g]\<rparr>"

definition stage_names :: "'w PluginManager \<Rightarrow> Stage \<Rightarrow> string list" where
  "stage_names m st =
     map pl_name (case st of
        BeforeRequest \<Rightarrow> pm_before_request m
      | AfterRequest \<Rightarrow> pm_after_request m
      | AfterResponse \<Rightarrow> pm_after_response m
      | OnError \<Rightarrow> pm_on_error m)"

definition response_guardrail_names :: "'w PluginManager \<Rightarrow> string list" where
  "response_guardrail_names m = map rg_name (pm_response_guardrails m)"

text \<open>\<^verbatim>\<open>run_before\<close> stops at the first error; the observer stages run every plugin and drop errors.\<close>

fun run_plugins :: "'w Plugin list \<Rightarrow> PluginContext \<Rightarrow> 'w \<Rightarrow> 'w outcome" where
  "run_plugins [] ctx w = (Ok (), ctx, w)"
| "run_plugins (p # ps) ctx w =
     (case pl_execute p ctx w of
        (Err e, ctx', w') \<Rightarrow> (Err e, ctx', w')
      | (Ok _, ctx', w') \<Rightarrow> run_plugins ps ctx' w')"

definition run_before :: "'w PluginManager \<Rightarrow> PluginContext \<Rightarrow> 'w \<Rightarrow> 'w outcome" where
  "run_before m ctx w = run_plugins (pm_before_request m) ctx w"

fun run_logged :: "'w Plugin list \<Rightarrow> PluginContext \<Rightarrow> 'w \<Rightarrow> PluginContext \<times> 'w" where
  "run_logged [] ctx w = (ctx, w)"
| "run_logged (p # ps) ctx w = (case pl_execute p ctx w of (_, ctx', w') \<Rightarrow> run_logged ps ctx' w')"

definition run_after :: "'w PluginManager \<Rightarrow> PluginContext \<Rightarrow> 'w \<Rightarrow> PluginContext \<times> 'w" where
  "run_after m ctx w = run_logged (pm_after_request m) ctx w"

definition run_after_response :: "'w PluginManager \<Rightarrow> PluginContext \<Rightarrow> 'w \<Rightarrow> PluginContext \<times> 'w" where
  "run_after_response m ctx w = run_logged (pm_after_response m) ctx w"

definition run_on_error :: "'w PluginManager \<Rightarrow> PluginContext \<Rightarrow> 'w \<Rightarrow> PluginContext \<times> 'w" where
  "run_on_error m ctx w = run_logged (pm_on_error m) ctx w"

fun check_guardrails ::
  "'w ResponseGuardrail list \<Rightarrow> PluginContext \<Rightarrow> string \<Rightarrow> 'w \<Rightarrow> (PluginError, ResponseAction) result \<times> 'w" where
  "check_guardrails [] ctx response w = (Ok Allow, w)"
| "check_guardrails (g # gs) ctx response w =
     (case rg_check_response g ctx response w of
        (Err e, w') \<Rightarrow> (Err e, w')
      | (Ok Allow, w') \<Rightarrow> check_guardrails gs ctx response w'
      | (Ok action, w') \<Rightarrow> (Ok action, w'))"

definition run_response_guardrails ::
  "'w PluginManager \<Rightarrow> PluginContext \<Rightarrow> string \<Rightarrow> 'w \<Rightarrow> (PluginError, ResponseAction) result \<times> 'w" where
  "run_response_guardrails m ctx response w = check_guardrails (pm_response_guardrails m) ctx response w"

section \<open>Store registry\<close>

text \<open>Stores are shared by name and never dropped, so a plugin's handle on a store is its name and
  the registry is a map from names to store states.\<close>

type_synonym 't StoreRegistry = "string \<rightharpoonup> 't"

definition get_or_create :: "'t StoreRegistry \<Rightarrow> string \<Rightarrow> 't \<Rightarrow> 't \<times> 't StoreRegistry" where
  "get_or_create reg store_id fresh =
     (case reg store_id of
        Some s \<Rightarrow> (s, reg)
      | None \<Rightarrow> (fresh, reg(store_id \<mapsto> fresh)))"

definition with_store :: "'t StoreRegistry \<Rightarrow> string \<Rightarrow> ('t \<Rightarrow> 't) \<Rightarrow> 't StoreRegistry" where
  "with_store reg store_id f =
     (case reg store_id of Some s \<Rightarrow> reg(store_id \<mapsto> f s) | None \<Rightarrow> reg)"

lemma get_or_create_shares:
  "get_or_create reg i a = (s, reg') \<Longrightarrow> get_or_create reg' i b = (s, reg')"
  by (auto simp: get_or_create_def split: option.splits)

section \<open>Properties of the pipeline\<close>

lemma run_plugins_append:
  "run_plugins (ps @ qs) ctx w =
     (case run_plugins ps ctx w of
        (Err e, ctx', w') \<Rightarrow> (Err e, ctx', w')
      | (Ok _, ctx', w') \<Rightarrow> run_plugins qs ctx' w')"
  by (induction ps arbitrary: ctx w) (auto split: prod.splits sum.splits)

lemma run_logged_append:
  "run_logged (ps @ qs) ctx w = (case run_logged ps ctx w of (ctx', w') \<Rightarrow> run_logged qs ctx' w')"
  by (induction ps arbitrary: ctx w) (auto split: prod.splits)

lemma run_plugins_Ok_logged: "run_plugins ps ctx w = (Ok u, ctx', w') \<Longrightarrow> run_logged ps ctx w = (ctx', w')"
  by (induction ps arbitrary: ctx w) (auto split: prod.splits sum.splits)

text \<open>The before-request stage fails closed: when a plugin rejects, the pipeline answers with
  that plugin's error, in the state it left, and no plugin registered after it runs; when it
  succeeds, every registered plugin has run, in registration order.\<close>

theorem run_before_fails_closed:
  assumes "run_before m ctx w = (r, ctx', w')"
  shows "case r of
      Err e \<Rightarrow> \<exists>earlier p rest ctx0 w0. pm_before_request m = earlier @ p # rest
        \<and> run_plugins earlier ctx w = (Ok (), ctx0, w0) \<and> pl_execute p ctx0 w0 = (Err e, ctx', w')
    | Ok _ \<Rightarrow> (ctx', w') = run_logged (pm_before_request m) ctx w"
proof (cases r)
  case (Inl e)
  have "\<exists>earlier p rest ctx0 w0. ps = earlier @ p # rest
        \<and> run_plugins earlier c0 v0 = (Ok (), ctx0, w0) \<and> pl_execute p ctx0 w0 = (Err e, ctx', w')"
    if "run_plugins ps c0 v0 = (Err e, ctx', w')" for ps c0 v0
    using that
  proof (induction ps arbitrary: c0 v0)
    case (Cons p ps)
    obtain r1 c1 v1 where x: "pl_execute p c0 v0 = (r1, c1, v1)" by (cases "pl_execute p c0 v0") auto
    show ?case
    proof (cases r1)
      case (Inl e1)
      with Cons.prems x have "pl_execute p c0 v0 = (Err e, ctx', w')" by simp
      then have "p # ps = [] @ p # ps \<and> run_plugins [] c0 v0 = (Ok (), c0, v0) \<and>
          pl_execute p c0 v0 = (Err e, ctx', w')" by simp
      then show ?thesis by blast
    next
      case (Inr u)
      with Cons.prems x have "run_plugins ps c1 v1 = (Err e, ctx', w')" by simp
      from Cons.IH [OF this] obtain earlier q rest ctx0 w0 where
        "ps = earlier @ q # rest" "run_plugins earlier c1 v1 = (Ok (), ctx0, w0)"
        "pl_execute q ctx0 w0 = (Err e, ctx', w')" by blast
      with Inr x have "p # ps = (p # earlier) @ q # rest \<and> run_plugins (p # earlier) c0 v0 = (Ok (), ctx0, w0)
          \<and> pl_execute q ctx0 w0 = (Err e, ctx', w')" by simp
      then show ?thesis by blast
    qed
  qed simp
  with Inl assms show ?thesis by (simp add: run_before_def)
next
  case (Inr u)
  with assms show ?thesis by (simp add: run_before_def run_plugins_Ok_logged)
qed

definition count_plugin :: "string \<Rightarrow> bool \<Rightarrow> nat Plugin" where
  "count_plugin name ok =
     \<lparr>pl_name = name, pl_plugin_type = Middleware, pl_stage = BeforeRequest, pl_also_after_request = False,
      pl_execute = (\<lambda>ctx w. (if ok then Ok () else Err (plugin_rejected name ''no''), ctx, w + 1))\<rparr>"

theorem run_before_fails_closed_witness:
  "snd (snd (run_before (fold pm_register [count_plugin ''a'' True, count_plugin ''b'' False,
      count_plugin ''c'' True] pm_new) (from_request ''r'' ChatCompletionRequest_default None) 0)) = (2 :: nat)"
proof -
  let ?m = "fold pm_register [count_plugin ''a'' True, count_plugin ''b'' False, count_plugin ''c'' True] pm_new"
  let ?ctx = "from_request ''r'' ChatCompletionRequest_default None"
  have "run_before ?m ?ctx 0 = (Err (plugin_rejected ''b'' ''no''), ?ctx, 2)"
    by (simp add: run_before_def pm_register_def count_plugin_def pm_new_def)
  from run_before_fails_closed [OF this] this show ?thesis by simp
qed

text \<open>A plugin that gates a request and records its outcome is wired into both stages: after
  registration of any list of plugins, the before-request stage holds exactly the before-request
  plugins in order, and the after-request stage exactly those that belong there or ask to run there
  as well, each once.\<close>

theorem registration_stages:
  "pm_before_request (fold pm_register ps pm_new) = filter (\<lambda>p. pl_stage p = BeforeRequest) ps \<and>
   pm_after_request (fold pm_register ps pm_new) =
     filter (\<lambda>p. pl_stage p = AfterRequest \<or> pl_also_after_request p) ps"
proof -
  have "pm_before_request (fold pm_register ps m) =
          pm_before_request m @ filter (\<lambda>p. pl_stage p = BeforeRequest) ps \<and>
        pm_after_request (fold pm_register ps m) =
          pm_after_request m @ filter (\<lambda>p. pl_stage p = AfterRequest \<or> pl_also_after_request p) ps" for m
    by (induction ps arbitrary: m) (auto simp: pm_register_def Let_def split: Stage.split)
  from this [of pm_new] show ?thesis by (simp add: pm_new_def)
qed

end
