(* ===== verification/Net_Guard.thy ===== *)
theory Net_Guard
  imports Prelude
begin

unbundle bit_operations_syntax

text \<open>
  Environment parsing (\<^verbatim>\<open>himadri-core/src/env.rs\<close>), the advertised provider types
  (\<^verbatim>\<open>provider_registry.rs\<close>) and the SSRF guard on provider URLs (\<^verbatim>\<open>net_guard.rs\<close>), with the
  parser of IP literals the guard takes from the standard library. The process environment is an
  argument: a map from variable names to values.
\<close>

section \<open>Environment\<close>

type_synonym env_vars = "string \<rightharpoonup> string"

definition parse_var :: "(string \<Rightarrow> 'a option) \<Rightarrow> env_vars \<Rightarrow> string \<Rightarrow> 'a option" where
  "parse_var from_str env name = Option.bind (env name) (\<lambda>v. from_str (trim v))"

definition truthy :: "string \<Rightarrow> bool" where
  "truthy v = (to_ascii_lowercase (trim v) \<in> set [''1'', ''true'', ''yes''])"

definition flag_is_truthy :: "env_vars \<Rightarrow> string \<Rightarrow> bool" where
  "flag_is_truthy env name = unwrap_or (map_option truthy (env name)) False"

definition split_csv :: "string \<Rightarrow> string list" where
  "split_csv raw = filter (\<lambda>i. i \<noteq> []) (map trim (split_char (CHR '','') raw))"

definition allow_private_provider_urls :: "env_vars \<Rightarrow> bool" where
  "allow_private_provider_urls env =
     unwrap_or (map_option truthy (env ''ALLOW_PRIVATE_PROVIDER_URLS'')) False"

section \<open>Provider types\<close>

definition KNOWN_PROVIDER_TYPES :: "string list" where
  "KNOWN_PROVIDER_TYPES =
     [''openai'', ''anthropic'', ''gemini'', ''openrouter'', ''together'', ''groq'', ''fireworks'',
      ''deepinfra'', ''cerebras'', ''novita'']"

definition is_known_provider_type :: "string \<Rightarrow> bool" where
  "is_known_provider_type t = (t \<in> set KNOWN_PROVIDER_TYPES)"

definition endpoint_is_routable :: "string \<Rightarrow> string option \<Rightarrow> bool" where
  "endpoint_is_routable t base_url =
     (is_known_provider_type t \<or> is_some_and (map_option trim base_url) (\<lambda>s. s \<noteq> []))"

section \<open>IP literals\<close>

text \<open>\<^verbatim>\<open>str::parse::<IpAddr>\<close> of the standard library: four decimal octets without leading
  zeros, or eight groups of up to four hexadecimal digits with at most one \<^verbatim>\<open>::\<close> that stands for
  at least one group and an optional dotted quad in place of the last two groups.\<close>

datatype IpAddr = V4 u8 u8 u8 u8 | V6 "u16 list"

definition digit_val :: "char \<Rightarrow> nat option" where
  "digit_val c = (let n = of_char c in
     if 48 \<le> n \<and> n \<le> 57 then Some (n - 48)
     else if 97 \<le> n \<and> n \<le> 102 then Some (n - 87)
     else if 65 \<le> n \<and> n \<le> 70 then Some (n - 55)
     else None)"

fun read_number :: "nat \<Rightarrow> nat \<Rightarrow> string \<Rightarrow> nat option" where
  "read_number base acc [] = Some acc"
| "read_number base acc (c # s) =
     (case digit_val c of
        None \<Rightarrow> None
      | Some d \<Rightarrow> if d < base then read_number base (acc * base + d) s else None)"

definition parse_octet :: "string \<Rightarrow> u8 option" where
  "parse_octet s =
     (if s = [] \<or> 3 < length s \<or> (1 < length s \<and> hd s = CHR ''0'') then None
      else case read_number 10 0 s of
             None \<Rightarrow> None
           | Some n \<Rightarrow> if n \<le> 255 then Some (of_nat n) else None)"

definition parse_ipv4 :: "string \<Rightarrow> (u8 \<times> u8 \<times> u8 \<times> u8) option" where
  "parse_ipv4 s =
     (case map parse_octet (split_char (CHR ''.'') s) of
        [Some a, Some b, Some c, Some d] \<Rightarrow> Some (a, b, c, d)
      | _ \<Rightarrow> None)"

definition parse_group :: "string \<Rightarrow> u16 option" where
  "parse_group s =
     (if s = [] \<or> 4 < length s then None else map_option of_nat (read_number 16 0 s))"

definition ipv4_groups :: "u8 \<times> u8 \<times> u8 \<times> u8 \<Rightarrow> u16 list" where
  "ipv4_groups q = (case q of (a, b, c, d) \<Rightarrow>
     [of_nat (unat a * 256 + unat b), of_nat (unat c * 256 + unat d)])"

fun parse_groups :: "bool \<Rightarrow> string list \<Rightarrow> u16 list option" where
  "parse_groups quad [] = Some []"
| "parse_groups quad [g] =
     (case parse_group g of
        Some v \<Rightarrow> Some [v]
      | None \<Rightarrow> if quad then map_option ipv4_groups (parse_ipv4 g) else None)"
| "parse_groups quad (g # gs) =
     (case parse_group g of
        Some v \<Rightarrow> map_option (\<lambda>vs. v # vs) (parse_groups quad gs)
      | None \<Rightarrow> None)"

definition groups_of :: "string \<Rightarrow> string list" where
  "groups_of s = (if s = [] then [] else split_char (CHR '':'') s)"

definition parse_ipv6 :: "string \<Rightarrow> u16 list option" where
  "parse_ipv6 s =
     (case str_find ''::'' s of
        None \<Rightarrow>
          (case parse_groups True (groups_of s) of
             Some vs \<Rightarrow> if length vs = 8 then Some vs else None
           | None \<Rightarrow> None)
      | Some i \<Rightarrow>
          (case (parse_groups False (groups_of (take i s)), parse_groups True (groups_of (drop (i + 2) s))) of
             (Some hs, Some ts) \<Rightarrow>
               if length hs + length ts \<le> 7
               then Some (hs @ replicate (8 - length hs - length ts) 0 @ ts) else None
           | _ \<Rightarrow> None))"

definition parse_ip :: "string \<Rightarrow> IpAddr option" where
  "parse_ip s =
     (case parse_ipv4 s of
        Some (a, b, c, d) \<Rightarrow> Some (V4 a b c d)
      | None \<Rightarrow> map_option V6 (parse_ipv6 s))"

section \<open>Internal addresses\<close>

definition v4_is_private :: "u8 \<Rightarrow> u8 \<Rightarrow> bool" where
  "v4_is_private a b = (a = 10 \<or> (a = 172 \<and> 16 \<le> b \<and> b \<le> 31) \<or> (a = 192 \<and> b = 168))"

definition v4_is_documentation :: "u8 \<Rightarrow> u8 \<Rightarrow> u8 \<Rightarrow> bool" where
  "v4_is_documentation a b c =
     ((a = 192 \<and> b = 0 \<and> c = 2) \<or> (a = 198 \<and> b = 51 \<and> c = 100) \<or> (a = 203 \<and> b = 0 \<and> c = 113))"

fun ip_is_internal :: "IpAddr \<Rightarrow> bool" where
  "ip_is_internal (V4 a b c d) =
     (a = 127
      \<or> v4_is_private a b
      \<or> (a = 169 \<and> b = 254)
      \<or> (a = 0 \<and> b = 0 \<and> c = 0 \<and> d = 0)
      \<or> (a = 255 \<and> b = 255 \<and> c = 255 \<and> d = 255)
      \<or> v4_is_documentation a b c
      \<or> (a = 100 \<and> (b AND 0xC0) = 64))"
| "ip_is_internal (V6 gs) =
     (gs = [0, 0, 0, 0, 0, 0, 0, 1]
      \<or> gs = [0, 0, 0, 0, 0, 0, 0, 0]
      \<or> (hd gs AND 0xFE00) = 0xFC00
      \<or> (hd gs AND 0xFFC0) = 0xFE80)"

section \<open>Provider URLs\<close>

definition url_rest :: "string \<Rightarrow> string option" where
  "url_rest url = or_else (strip_prefix ''http://'' url) (strip_prefix ''https://'' url)"

definition url_host :: "string \<Rightarrow> string" where
  "url_host rest =
     (let authority = takeWhile (\<lambda>c. c \<notin> set ''/?#'') rest;
          host_port = last (split_char (CHR ''@'') authority)
      in case strip_prefix ''['' host_port of
           Some after_bracket \<Rightarrow> takeWhile (\<lambda>c. c \<noteq> CHR '']'') after_bracket
         | None \<Rightarrow> takeWhile (\<lambda>c. c \<noteq> CHR '':'') host_port)"

definition provider_url_is_allowed :: "string \<Rightarrow> bool \<Rightarrow> (string, unit) result" where
  "provider_url_is_allowed url allow_private =
     (case url_rest url of
        None \<Rightarrow> Err ''base_url must use http or https''
      | Some rest \<Rightarrow>
          let host = url_host rest; lowered = to_ascii_lowercase host in
          if host = [] then Err ''base_url has no host''
          else if allow_private then Ok ()
          else if lowered = ''metadata'' \<or> lowered = ''metadata.google.internal''
            then Err (''base_url host '' @ quoted host @ '' is not allowed'')
          else if is_some_and (parse_ip host) ip_is_internal
            then Err (''base_url points to an internal address '' @ quoted host @
                      ''; set ALLOW_PRIVATE_PROVIDER_URLS=1 to permit private backends'')
          else Ok ())"

definition show_ipv4 :: "u8 \<Rightarrow> u8 \<Rightarrow> u8 \<Rightarrow> u8 \<Rightarrow> string" where
  "show_ipv4 a b c d = join ''.'' (map (\<lambda>x. show_nat (unat x)) [a, b, c, d])"

section \<open>Properties\<close>

lemma digit_val_char: "d < 10 \<Longrightarrow> digit_val (char_of (48 + d)) = Some d"
  by (simp add: digit_val_def Let_def)

lemma read_number_append:
  "read_number base acc (s @ t) = Option.bind (read_number base acc s) (\<lambda>n. read_number base n t)"
  by (induction s arbitrary: acc) (auto split: option.split)

lemma read_number_show_nat: "read_number 10 0 (show_nat n) = Some n"
proof (induction n rule: show_nat.induct)
  case (1 n)
  then show ?case
    by (subst show_nat.simps) (simp add: read_number_append digit_val_char)
qed

lemma parse_octet_show: "parse_octet (show_nat (unat (x :: u8))) = Some x"
proof -
  have "unat x < 2 ^ LENGTH(8)" by (rule unsigned_less)
  then have le: "unat x \<le> 255" by simp
  have len: "length (show_nat (unat x)) \<le> 3" using length_show_nat [of "unat x" 3] le by simp
  have "hd (show_nat (unat x)) \<noteq> CHR ''0''" if "1 < length (show_nat (unat x))"
  proof (rule hd_show_nat)
    show "0 < unat x" using that by (cases "unat x = 0") (simp_all add: show_nat.simps)
  qed
  with le len show ?thesis by (auto simp: parse_octet_def read_number_show_nat)
qed

lemma show_nat_no_sep: "c \<in> set ''.:/?#@[]'' \<Longrightarrow> c \<notin> set (show_nat n)"
  using show_nat_chars [of c n] by auto

lemma parse_ipv4_show: "parse_ipv4 (show_ipv4 a b c d) = Some (a, b, c, d)"
proof -
  have "split_char (CHR ''.'') (show_ipv4 a b c d) = map (\<lambda>x. show_nat (unat x)) [a, b, c, d]"
    by (simp add: show_ipv4_def split_char_app split_char_no_sep show_nat_no_sep)
  then show ?thesis by (simp add: parse_ipv4_def parse_octet_show)
qed

lemma show_ipv4_chars:
  "c \<in> set (show_ipv4 w x y z) \<Longrightarrow> 46 \<le> (of_char c :: nat) \<and> (of_char c :: nat) \<noteq> 47 \<and> (of_char c :: nat) \<le> 57"
  by (auto simp: show_ipv4_def dest: show_nat_chars)

lemma show_ipv4_no_sep: "c \<in> set '':/?#@[]'' \<Longrightarrow> c \<notin> set (show_ipv4 w x y z)"
  using show_ipv4_chars [of c w x y z] by auto

lemma show_ipv4_not_Nil [simp]: "show_ipv4 a b c d \<noteq> []"
  by (simp add: show_ipv4_def)

text \<open>The host survives the decorations of a URL: user information before it, a port after it and
  a path, query or fragment at the end.\<close>

lemma url_host_decorated:
  assumes user: "user = [] \<or> (\<exists>u. user = u @ ''@'' \<and> set u \<inter> set ''/?#'' = {})"
    and port: "port = [] \<or> (\<exists>p. port = CHR '':'' # p \<and> set p \<inter> set ''/?#@'' = {})"
    and tail: "tail = [] \<or> hd tail \<in> set ''/?#''"
    and host: "set host \<inter> set '':/?#@[]'' = {}" "host \<noteq> []"
  shows "url_host (user @ host @ port @ tail) = host"
proof -
  have auth: "takeWhile (\<lambda>c. c \<notin> set ''/?#'') (user @ host @ port @ tail) = user @ host @ port"
  proof -
    have "\<forall>c\<in>set (user @ host @ port). c \<notin> set ''/?#''" using user port host by auto
    from takeWhile_stop [OF this, of tail] tail show ?thesis by auto
  qed
  have "CHR ''@'' \<notin> set (host @ port)" using port host by auto
  with user have "last (split_char (CHR ''@'') (user @ host @ port)) = host @ port"
    by (auto simp: split_char_no_sep split_char_app)
  moreover have "strip_prefix ''['' (host @ port) = None"
    using host by (cases host) (auto simp: strip_prefix_def)
  moreover have "takeWhile (\<lambda>c. c \<noteq> CHR '':'') (host @ port) = host"
    using port host by (intro takeWhile_stop) auto
  ultimately show ?thesis using auth by (simp add: url_host_def Let_def)
qed

text \<open>The SSRF guard finds an internal IPv4 address wherever it stands in the authority of a
  URL: with private addresses not allowed, an \<^verbatim>\<open>http\<close> or \<^verbatim>\<open>https\<close> URL whose host is the decimal form
  of an internal address is rejected, whatever user information precedes the host and whatever port,
  path, query or fragment follows it.\<close>

theorem internal_ipv4_rejected:
  assumes "scheme \<in> set [''http://'', ''https://'']"
    and "user = [] \<or> (\<exists>u. user = u @ ''@'' \<and> set u \<inter> set ''/?#'' = {})"
    and "port = [] \<or> (\<exists>p. port = CHR '':'' # p \<and> set p \<inter> set ''/?#@'' = {})"
    and "tail = [] \<or> hd tail \<in> set ''/?#''"
    and "ip_is_internal (V4 a b c d)"
  shows "\<not> is_ok (provider_url_is_allowed (scheme @ user @ show_ipv4 a b c d @ port @ tail) False)"
proof -
  let ?rest = "user @ show_ipv4 a b c d @ port @ tail"
  have "url_rest (scheme @ ?rest) = Some ?rest"
    using assms(1) by (auto simp: url_rest_def strip_prefix_def)
  moreover have "url_host ?rest = show_ipv4 a b c d"
    using assms(2-4) show_ipv4_no_sep [of _ a b c d] by (intro url_host_decorated) auto
  moreover have "parse_ip (show_ipv4 a b c d) = Some (V4 a b c d)"
    by (simp add: parse_ip_def parse_ipv4_show)
  ultimately show ?thesis
    using assms(5) by (simp add: provider_url_is_allowed_def Let_def)
qed

theorem internal_ipv4_rejected_witness:
  "\<not> is_ok (provider_url_is_allowed (''http://'' @ ''user:pass@'' @ show_ipv4 169 254 169 254 @ '':80'' @ ''/latest'') False)"
  by (rule internal_ipv4_rejected) auto

text \<open>The guard reads IPv6 literals through \<open>ip_is_internal\<close>, which has no case for an IPv4
  address mapped into IPv6: the metadata address passes in that form.\<close>

lemma mapped_ipv4_parse:
  "parse_ip ''::ffff:169.254.169.254'' = Some (V6 [0, 0, 0, 0, 0, 0xFFFF, 0xA9FE, 0xA9FE])"
  by (simp add: parse_ip_def parse_ipv4_def parse_ipv6_def groups_of_def parse_octet_def parse_group_def
      digit_val_def ipv4_groups_def)
    (simp add: eval_nat_numeral)

lemma mapped_ipv4_not_rejected:
  "ip_is_internal (V4 169 254 169 254) \<and>
   provider_url_is_allowed ''http://[::ffff:169.254.169.254]/latest/meta-data/'' False = Ok ()"
proof -
  have "url_host ''[::ffff:169.254.169.254]/latest/meta-data/'' = ''::ffff:169.254.169.254''"
    by (simp add: url_host_def strip_prefix_def)
  moreover have "url_rest ''http://[::ffff:169.254.169.254]/latest/meta-data/'' =
      Some ''[::ffff:169.254.169.254]/latest/meta-data/''"
    by (simp add: url_rest_def strip_prefix_def)
  moreover have "\<not> ip_is_internal (V6 [0, 0, 0, 0, 0, 0xFFFF, 0xA9FE, 0xA9FE])" by simp
  ultimately show ?thesis
    by (simp add: provider_url_is_allowed_def Let_def mapped_ipv4_parse to_ascii_lowercase_def)
qed

end
