(* ===== verification/Fixed_Window.thy ===== *)
theory Fixed_Window
  imports Plugin Sharded_Map Net_Guard
begin

text \<open>
  The rate-limit plugin (\<^verbatim>\<open>himadri-plugins/src/rate_limit.rs\<close>): the fixed-window counter with window and
  count packed in one 64-bit word, the sharded store of counters with its random eviction, and the
  plugin over them. Clock readings and random draws are arguments. Each operation on a counter is one
  atomic update of the packed word, so a concurrent run is a sequence of them, in which the clock
  readings need not come in order.
\<close>

unbundle bit_operations_syntax

section \<open>Fixed window counter\<close>

definition COUNT_MASK :: u64 where
  "COUNT_MASK = 0xFFFFFFFF"

record FixedWindowCounter =
  fw_packed :: u64
  fw_window_us :: u64
  fw_max_requests :: u64

definition fw_new :: "u64 \<Rightarrow> duration \<Rightarrow> FixedWindowCounter" where
  "fw_new max_requests window =
     \<lparr>fw_packed = 0, fw_window_us = max (of_nat (as_micros window)) 1,
      fw_max_requests = min max_requests COUNT_MASK\<rparr>"

definition fw_window_index :: "FixedWindowCounter \<Rightarrow> u64 \<Rightarrow> u64" where
  "fw_window_index c now_us = (now_us div fw_window_us c) AND COUNT_MASK"

definition fw_allow_n :: "u64 \<Rightarrow> u64 \<Rightarrow> FixedWindowCounter \<Rightarrow> bool \<times> FixedWindowCounter" where
  "fw_allow_n n now c =
     (let w = fw_window_index c now;
          count = (if drop_bit 32 (fw_packed c) = w then fw_packed c AND COUNT_MASK else 0);
          nxt = saturating_add count n
      in if nxt \<le> fw_max_requests c then (True, c\<lparr>fw_packed := push_bit 32 w OR nxt\<rparr>)
         else (False, c))"

definition fw_allow :: "u64 \<Rightarrow> FixedWindowCounter \<Rightarrow> bool \<times> FixedWindowCounter" where
  "fw_allow now c = fw_allow_n 1 now c"

definition fw_count :: "u64 \<Rightarrow> FixedWindowCounter \<Rightarrow> u64" where
  "fw_count now c =
     (if drop_bit 32 (fw_packed c) = fw_window_index c now then fw_packed c AND COUNT_MASK else 0)"

definition fw_reset :: "u64 \<Rightarrow> FixedWindowCounter \<Rightarrow> FixedWindowCounter" where
  "fw_reset now c = c\<lparr>fw_packed := push_bit 32 (fw_window_index c now)\<rparr>"

definition fw_wf :: "FixedWindowCounter \<Rightarrow> bool" where
  "fw_wf c = (0 < fw_window_us c \<and> fw_max_requests c \<le> COUNT_MASK)"

lemma COUNT_MASK_mask: "COUNT_MASK = mask 32"
  by (simp add: COUNT_MASK_def mask_eq_exp_minus_1)

lemma le_COUNT_MASK_bit: "x \<le> COUNT_MASK \<Longrightarrow> bit x i \<Longrightarrow> i < 32"
proof (rule ccontr)
  assume le: "x \<le> COUNT_MASK" and b: "bit x i" and i: "\<not> i < 32"
  from le have "unat x < 2 ^ 32" by (simp add: COUNT_MASK_def word_le_nat_alt)
  then have "unat (take_bit 32 x) = unat x" by (simp add: unsigned_take_bit_eq take_bit_nat_eq_self)
  then have "take_bit 32 x = x" by (rule unsigned_word_eqI)
  with b have "bit (take_bit 32 x) i" by simp
  with i show False by (simp add: bit_take_bit_iff)
qed

lemma unpack_window:
  assumes "w \<le> COUNT_MASK" "c \<le> COUNT_MASK"
  shows "drop_bit 32 (push_bit 32 w OR c) = w"
  using assms le_COUNT_MASK_bit
  by (intro bit_word_eqI) (force simp: bit_simps)

lemma unpack_count:
  assumes "c \<le> COUNT_MASK"
  shows "(push_bit 32 w OR c) AND COUNT_MASK = c"
  using assms le_COUNT_MASK_bit [OF assms]
  by (intro bit_word_eqI) (auto simp: bit_simps COUNT_MASK_mask)

lemma fw_window_index_le: "fw_window_index c now \<le> COUNT_MASK"
  by (simp add: fw_window_index_def word_and_le1)

lemma unat_COUNT_MASK: "unat COUNT_MASK = 4294967295"
  by (simp add: COUNT_MASK_def)

lemma fw_allow_n_keeps [simp]:
  "fw_window_us (snd (fw_allow_n n now c)) = fw_window_us c"
  "fw_max_requests (snd (fw_allow_n n now c)) = fw_max_requests c"
  "fw_wf (snd (fw_allow_n n now c)) = fw_wf c"
  "fw_window_index (snd (fw_allow_n n now c)) = fw_window_index c"
  by (auto simp: fw_allow_n_def Let_def fw_wf_def fw_window_index_def fun_eq_iff)

text \<open>The requests recorded in window \<open>w\<close>, and one call seen on that count.\<close>

definition fw_used :: "u64 \<Rightarrow> FixedWindowCounter \<Rightarrow> nat" where
  "fw_used w c = (if drop_bit 32 (fw_packed c) = w then unat (fw_packed c AND COUNT_MASK) else 0)"

lemma fw_count_used: "unat (fw_count now c) = fw_used (fw_window_index c now) c"
  by (simp add: fw_count_def fw_used_def)

lemma fw_allow_n_used:
  assumes "fw_wf c" and w: "w = fw_window_index c now"
  shows "fst (fw_allow_n n now c) \<longleftrightarrow> fw_used w c + unat n \<le> unat (fw_max_requests c)" (is ?A)
    and "fw_used w (snd (fw_allow_n n now c)) =
      (if fst (fw_allow_n n now c) then fw_used w c + unat n else fw_used w c)" (is ?B)
proof -
  let ?nxt = "saturating_add (fw_count now c) n"
  have max: "unat (fw_max_requests c) \<le> 4294967295"
    using assms(1) by (simp add: fw_wf_def word_le_nat_alt unat_COUNT_MASK)
  have step: "fw_allow_n n now c =
      (if ?nxt \<le> fw_max_requests c then (True, c\<lparr>fw_packed := push_bit 32 w OR ?nxt\<rparr>) else (False, c))"
    by (simp add: fw_allow_n_def Let_def fw_count_def w)
  have nxt: "?nxt \<le> fw_max_requests c \<longleftrightarrow> fw_used w c + unat n \<le> unat (fw_max_requests c)"
    using max by (auto simp: word_le_nat_alt unat_simps fw_count_used w)
  then show ?A by (simp add: step)
  have "fw_used w (c\<lparr>fw_packed := push_bit 32 w OR ?nxt\<rparr>) = fw_used w c + unat n"
    if le: "?nxt \<le> fw_max_requests c"
  proof -
    have m: "?nxt \<le> COUNT_MASK" using assms(1) le by (auto simp: fw_wf_def intro: order_trans)
    have "unat ?nxt = fw_used w c + unat n"
      using le nxt max by (simp add: unat_simps fw_count_used w)
    then show ?thesis
      using unpack_window [OF fw_window_index_le m] unpack_count [OF m] by (simp add: fw_used_def w)
  qed
  then show ?B by (simp add: step)
qed

interpretation window: exact_admission fw_allow
  "\<lambda>now. (now div us) AND COUNT_MASK = w" "\<lambda>c. fw_wf c \<and> fw_window_us c = us"
  "\<lambda>c. unat (fw_max_requests c) - fw_used w c" for us w
proof unfold_locales
  fix c e
  assume inv: "fw_wf c \<and> fw_window_us c = us" and e: "(e div us) AND COUNT_MASK = w"
  then have w: "w = fw_window_index c e" by (simp add: fw_window_index_def)
  note used = fw_allow_n_used [OF conjunct1 [OF inv] w, of 1]
  show "fw_wf (snd (fw_allow e c)) \<and> fw_window_us (snd (fw_allow e c)) = us"
    using inv by (simp add: fw_allow_def)
  show adm: "fst (fw_allow e c) \<longleftrightarrow> 0 < unat (fw_max_requests c) - fw_used w c"
    using used(1) by (auto simp: fw_allow_def)
  show one: "unat (fw_max_requests (snd (fw_allow e c))) - fw_used w (snd (fw_allow e c)) =
      unat (fw_max_requests c) - fw_used w c - 1"
    using used by (auto simp: fw_allow_def)
  show "fst (fw_allow e c) \<Longrightarrow>
      unat (fw_max_requests (snd (fw_allow e c))) - fw_used w (snd (fw_allow e c)) <
      unat (fw_max_requests c) - fw_used w c"
    using adm one by linarith
  show "unat (fw_max_requests (snd (fw_allow e c))) - fw_used w (snd (fw_allow e c)) \<le>
      unat (fw_max_requests c) - fw_used w c"
    using one by linarith
qed

text \<open>A reading of an older window that reaches the counter after a newer one starts that older
  window afresh, and the newer window's count is gone.\<close>

lemma fw_stale_reading_wipes:
  assumes "fw_wf c" and "0 < fw_max_requests c" and "fw_window_index c old \<noteq> w"
    and "drop_bit 32 (fw_packed c) = w"
  shows "fst (fw_allow old c) \<and> fw_used w (snd (fw_allow old c)) = 0"
proof -
  have one: "saturating_add 0 1 = (1 :: u64)" by (simp add: saturating_add_def)
  have "1 \<le> COUNT_MASK" by (simp add: COUNT_MASK_def word_le_nat_alt)
  from unpack_window [OF fw_window_index_le this, of c old] assms show ?thesis
    by (auto simp: fw_allow_def fw_allow_n_def Let_def fw_used_def one word_less_nat_alt word_le_nat_alt)
qed

section \<open>Counters by key\<close>

record RateLimiterStore =
  rs_shards :: "FixedWindowCounter shards"
  rs_num_shards :: nat
  rs_rate :: u64
  rs_window :: duration
  rs_max_keys :: nat

definition rs_new :: "u64 \<Rightarrow> duration \<Rightarrow> nat \<Rightarrow> nat \<Rightarrow> RateLimiterStore" where
  "rs_new rate window max_keys num_shards =
     \<lparr>rs_shards = replicate num_shards [], rs_num_shards = num_shards, rs_rate = rate,
      rs_window = window, rs_max_keys = max_keys\<rparr>"

definition rs_shard_index :: "(string \<Rightarrow> u64) \<Rightarrow> RateLimiterStore \<Rightarrow> string \<Rightarrow> nat" where
  "rs_shard_index hash s key = shard_index hash (rs_num_shards s) key"

text \<open>The random draw of the eviction is the argument \<open>rnd\<close>.\<close>

definition evict_random :: "nat \<Rightarrow> nat \<Rightarrow> (string, 'v) al \<Rightarrow> (string, 'v) al" where
  "evict_random max_keys rnd m =
     (if 0 < max_keys \<and> max_keys \<le> length m
      then al_del (fst (m ! (rnd mod length m))) m else m)"

definition rs_allow ::
    "(string \<Rightarrow> u64) \<Rightarrow> u64 \<Rightarrow> nat \<Rightarrow> string \<Rightarrow> RateLimiterStore \<Rightarrow> bool \<times> RateLimiterStore" where
  "rs_allow hash now rnd key s =
     (let i = rs_shard_index hash s key; m = rs_shards s ! i in
      case map_of m key of
        Some c \<Rightarrow> (let (ok, c') = fw_allow now c
                   in (ok, s\<lparr>rs_shards := (rs_shards s)[i := al_put key c' m]\<rparr>))
      | None \<Rightarrow>
          (let m' = evict_random (rs_max_keys s) rnd m;
               (ok, c') = fw_allow now (fw_new (rs_rate s) (rs_window s))
           in (ok, s\<lparr>rs_shards := (rs_shards s)[i := al_put key c' m']\<rparr>)))"

definition rs_get_count :: "(string \<Rightarrow> u64) \<Rightarrow> u64 \<Rightarrow> string \<Rightarrow> RateLimiterStore \<Rightarrow> u64" where
  "rs_get_count hash now key s =
     unwrap_or (map_option (fw_count now) (map_of (rs_shards s ! rs_shard_index hash s key) key)) 0"

definition rs_reset :: "(string \<Rightarrow> u64) \<Rightarrow> u64 \<Rightarrow> string \<Rightarrow> RateLimiterStore \<Rightarrow> RateLimiterStore" where
  "rs_reset hash now key s =
     (let i = rs_shard_index hash s key; m = rs_shards s ! i in
      case map_of m key of
        Some c \<Rightarrow> s\<lparr>rs_shards := (rs_shards s)[i := al_put key (fw_reset now c) m]\<rparr>
      | None \<Rightarrow> s)"

definition rs_reset_all :: "RateLimiterStore \<Rightarrow> RateLimiterStore" where
  "rs_reset_all s = s\<lparr>rs_shards := shards_clear (rs_shards s)\<rparr>"

definition rs_map :: "(string \<Rightarrow> u64) \<Rightarrow> RateLimiterStore \<Rightarrow> string \<rightharpoonup> FixedWindowCounter" where
  "rs_map hash s = shard_get hash (rs_shards s)"

definition shard_ok :: "nat \<Rightarrow> (string, FixedWindowCounter) al \<Rightarrow> bool" where
  "shard_ok max_keys m = (al_wf m \<and> (0 < max_keys \<longrightarrow> length m \<le> max_keys) \<and> list_all (fw_wf \<circ> snd) m)"

definition rs_wf :: "RateLimiterStore \<Rightarrow> bool" where
  "rs_wf s = (shards_wf (rs_shards s) \<and> length (rs_shards s) = rs_num_shards s \<and>
     list_all (shard_ok (rs_max_keys s)) (rs_shards s))"

lemma fw_wf_new [simp]: "fw_wf (fw_new r d)"
  by (simp add: fw_wf_def fw_new_def word_less_nat_alt unat_simps)

lemma fw_wf_allow [simp]: "fw_wf (snd (fw_allow now c)) = fw_wf c"
  by (simp add: fw_allow_def)

lemma fw_wf_reset [simp]: "fw_wf (fw_reset now c) = fw_wf c"
  by (simp add: fw_wf_def fw_reset_def)

lemma evict_random_length:
  "al_wf m \<Longrightarrow> 0 < max_keys \<Longrightarrow> length m \<le> max_keys \<Longrightarrow> length (evict_random max_keys rnd m) < max_keys"
proof (cases "max_keys \<le> length m")
  case True
  assume wf: "al_wf m" and pos: "0 < max_keys" and "length m \<le> max_keys"
  let ?i = "rnd mod length m"
  from True pos have "0 < length m" by linarith
  then have i: "?i < length m" by simp
  then have "m ! ?i \<in> set m" by simp
  then have "map_of m (fst (m ! ?i)) \<noteq> None" by (metis map_of_eq_None_iff image_eqI)
  with wf True pos \<open>length m \<le> max_keys\<close> show ?thesis
    by (simp add: evict_random_def length_al_del)
qed (simp add: evict_random_def)

lemma list_all_al_put: "list_all (P \<circ> snd) m \<Longrightarrow> P v \<Longrightarrow> list_all (P \<circ> snd) (al_put k v m)"
  by (induction k v m rule: al_put.induct) auto

lemma shard_ok_evict: "shard_ok n m \<Longrightarrow> shard_ok n (evict_random n rnd m)"
  by (auto simp: shard_ok_def evict_random_def al_del_def list_all_iff length_filter_le
      intro: le_trans al_wf_del [unfolded al_del_def])

lemma shard_ok_put:
  assumes "shard_ok n m" "fw_wf c" "map_of m k = None \<Longrightarrow> 0 < n \<Longrightarrow> length m < n"
  shows "shard_ok n (al_put k c m)"
  using assms by (auto simp: shard_ok_def list_all_al_put length_al_put)

lemma rs_wf_update:
  assumes "rs_wf s" "shard_ok (rs_max_keys s) m"
  shows "rs_wf (s\<lparr>rs_shards := (rs_shards s)[i := m]\<rparr>)"
proof -
  have "al_wf m" using assms(2) by (simp add: shard_ok_def)
  with assms set_update_subset_insert [of "rs_shards s" i m] show ?thesis
    by (auto simp: rs_wf_def shards_wf_def list_all_iff)
qed

lemma rs_wf_new [simp]: "0 < n \<Longrightarrow> rs_wf (rs_new rate window max_keys n)"
  by (simp add: rs_wf_def rs_new_def list_all_iff shard_ok_def)

lemma rs_wf_shard: "rs_wf s \<Longrightarrow> shard_ok (rs_max_keys s) (rs_shards s ! rs_shard_index hash s key)"
  by (auto simp: rs_wf_def shards_wf_def list_all_length rs_shard_index_def intro!: shard_index_less)

lemma map_of_fw_wf: "shard_ok n m \<Longrightarrow> map_of m k = Some c \<Longrightarrow> fw_wf c"
  by (force simp: shard_ok_def list_all_iff dest: map_of_SomeD)

lemma rs_wf_allow: "rs_wf s \<Longrightarrow> rs_wf (snd (rs_allow hash now rnd key s))"
proof -
  assume wf: "rs_wf s"
  let ?m = "rs_shards s ! rs_shard_index hash s key"
  note ok = rs_wf_shard [OF wf, of hash key]
  have put: "shard_ok (rs_max_keys s) (al_put key (snd (fw_allow now c)) ?m)" if "map_of ?m key = Some c" for c
    using that map_of_fw_wf [OF ok that] by (intro shard_ok_put [OF ok]) auto
  have fresh: "shard_ok (rs_max_keys s) (al_put key (snd (fw_allow now (fw_new r d)))
      (evict_random (rs_max_keys s) rnd ?m))" for r d
    using ok by (intro shard_ok_put [OF shard_ok_evict [OF ok]]) (auto simp: shard_ok_def intro: evict_random_length)
  show ?thesis
    using rs_wf_update [OF wf put] rs_wf_update [OF wf fresh]
    by (auto simp: rs_allow_def Let_def case_prod_beta split: option.split)
qed

lemma rs_wf_reset: "rs_wf s \<Longrightarrow> rs_wf (rs_reset hash now key s)"
proof -
  assume wf: "rs_wf s"
  note ok = rs_wf_shard [OF wf, of hash key]
  have "shard_ok (rs_max_keys s) (al_put key (fw_reset now c) (rs_shards s ! rs_shard_index hash s key))"
    if "map_of (rs_shards s ! rs_shard_index hash s key) key = Some c" for c
    using that map_of_fw_wf [OF ok that] by (intro shard_ok_put [OF ok]) auto
  from rs_wf_update [OF wf this] wf show ?thesis
    by (auto simp: rs_reset_def Let_def split: option.split)
qed

lemma rs_wf_reset_all: "rs_wf s \<Longrightarrow> rs_wf (rs_reset_all s)"
  by (auto simp: rs_wf_def rs_reset_all_def shards_clear_def shards_wf_def list_all_iff shard_ok_def)

section \<open>The rate limit plugin\<close>

definition get_or_create_store ::
    "RateLimiterStore StoreRegistry \<Rightarrow> string \<Rightarrow> u64 \<Rightarrow> duration \<Rightarrow> nat \<Rightarrow> RateLimiterStore StoreRegistry" where
  "get_or_create_store reg store_id rate window max_keys =
     snd (get_or_create reg store_id (rs_new rate window max_keys 64))"

definition rate_reset_store_key ::
    "(string \<Rightarrow> u64) \<Rightarrow> u64 \<Rightarrow> string \<Rightarrow> string \<Rightarrow> RateLimiterStore StoreRegistry \<Rightarrow> RateLimiterStore StoreRegistry" where
  "rate_reset_store_key hash now store_id key reg = with_store reg store_id (rs_reset hash now key)"

definition rate_reset_store :: "string \<Rightarrow> RateLimiterStore StoreRegistry \<Rightarrow> RateLimiterStore StoreRegistry" where
  "rate_reset_store store_id reg = with_store reg store_id rs_reset_all"

definition get_request_count ::
    "(string \<Rightarrow> u64) \<Rightarrow> u64 \<Rightarrow> string \<Rightarrow> string \<Rightarrow> RateLimiterStore StoreRegistry \<Rightarrow> u64" where
  "get_request_count hash now store_id key reg =
     unwrap_or (map_option (rs_get_count hash now key) (reg store_id)) 0"

definition DEFAULT_MAX_KEYS :: nat where
  "DEFAULT_MAX_KEYS = 100000"

record RateLimitConfig =
  rlc_store_id :: "string option"
  rlc_requests_per_second :: "u64 option"
  rlc_key_rpm :: "u64 option"
  rlc_user_rpm :: "u64 option"
  rlc_ip_rpm :: "u64 option"
  rlc_max_keys :: "nat option"

record RateLimitPlugin =
  rp_global_limiter :: "FixedWindowCounter option"
  rp_key_store :: "string option"
  rp_user_store :: "string option"
  rp_ip_store :: "string option"

definition scope_store_id :: "string \<Rightarrow> string \<Rightarrow> string" where
  "scope_store_id scope store_id = scope @ ''-'' @ store_id"

definition make_store ::
    "string \<Rightarrow> nat \<Rightarrow> string \<Rightarrow> u64 option \<Rightarrow> RateLimiterStore StoreRegistry \<Rightarrow>
     string option \<times> RateLimiterStore StoreRegistry" where
  "make_store store_id max_keys scope rpm reg =
     (case rpm of
        None \<Rightarrow> (None, reg)
      | Some rpm \<Rightarrow>
          (let i = scope_store_id scope store_id
           in (Some i, get_or_create_store reg i rpm (from_secs 60) max_keys)))"

definition rp_new ::
    "RateLimitConfig \<Rightarrow> RateLimiterStore StoreRegistry \<Rightarrow> RateLimitPlugin \<times> RateLimiterStore StoreRegistry" where
  "rp_new config reg =
     (let max_keys = unwrap_or (rlc_max_keys config) DEFAULT_MAX_KEYS;
          global_limiter = map_option (\<lambda>rps. fw_new rps (from_secs 1)) (rlc_requests_per_second config);
          store_id = unwrap_or (rlc_store_id config) ''default'';
          (key_store, reg) = make_store store_id max_keys ''key'' (rlc_key_rpm config) reg;
          (user_store, reg) = make_store store_id max_keys ''user'' (rlc_user_rpm config) reg;
          (ip_store, reg) = make_store store_id max_keys ''ip'' (rlc_ip_rpm config) reg
      in (\<lparr>rp_global_limiter = global_limiter, rp_key_store = key_store, rp_user_store = user_store,
           rp_ip_store = ip_store\<rparr>, reg))"

definition rp_rejected :: "string \<Rightarrow> PluginError" where
  "rp_rejected reason = Rejected ''rate-limit'' reason (RateLimited_kind 60)"

definition get_api_key :: "PluginContext \<Rightarrow> string option" where
  "get_api_key ctx =
     (let fallback = Option.bind (ctx_auth ctx) (\<lambda>a. or_else (au_key_id a) (au_user_id a)) in
      case Option.bind (get_metadata ctx ''api_key'') as_str of
        Some s \<Rightarrow> if s \<noteq> [] then Some s else fallback
      | None \<Rightarrow> fallback)"

definition get_user_id :: "PluginContext \<Rightarrow> string option" where
  "get_user_id ctx =
     or_else (Option.bind (get_metadata ctx ''user_id'') as_str) (Option.bind (ctx_auth ctx) au_key_id)"

text \<open>What a call reads from outside: one clock reading and one random draw per counter it
  touches, in the order global, key, user, IP.\<close>

record rp_env =
  env_now_global :: u64
  env_now_key :: u64
  env_now_user :: u64
  env_now_ip :: u64
  env_rnd_key :: nat
  env_rnd_user :: nat
  env_rnd_ip :: nat

text \<open>A check of one scope: skipped when the scope is not configured or the request has no
  identity for it.\<close>

definition check_scope ::
    "(string \<Rightarrow> u64) \<Rightarrow> u64 \<Rightarrow> nat \<Rightarrow> string option \<Rightarrow> string option \<Rightarrow> RateLimiterStore StoreRegistry \<Rightarrow>
     bool \<times> RateLimiterStore StoreRegistry" where
  "check_scope hash now rnd store identity reg =
     (case (store, identity) of
        (Some i, Some k) \<Rightarrow>
          (case reg i of
             Some s \<Rightarrow> (let (ok, s') = rs_allow hash now rnd k s in (ok, reg(i \<mapsto> s')))
           | None \<Rightarrow> (True, reg))
      | _ \<Rightarrow> (True, reg))"

text \<open>The peer address, when it parses as an IP address.\<close>

definition valid_ip :: "PluginContext \<Rightarrow> string option" where
  "valid_ip ctx = (case ctx_remote_ip ctx of
     Some ip \<Rightarrow> if parse_ip ip \<noteq> None then Some ip else None | None \<Rightarrow> None)"

definition rp_execute ::
    "(string \<Rightarrow> u64) \<Rightarrow> rp_env \<Rightarrow> PluginContext \<Rightarrow> RateLimitPlugin \<Rightarrow> RateLimiterStore StoreRegistry \<Rightarrow>
     (PluginError, unit) result \<times> RateLimitPlugin \<times> RateLimiterStore StoreRegistry" where
  "rp_execute hash env ctx p reg =
     (let (ok, p) = (case rp_global_limiter p of
             None \<Rightarrow> (True, p)
           | Some g \<Rightarrow> (let (ok, g') = fw_allow (env_now_global env) g
                        in (ok, p\<lparr>rp_global_limiter := Some g'\<rparr>)))
      in if \<not> ok then (Err (rp_rejected ''rate limit exceeded''), p, reg) else
      let (ok, reg) = check_scope hash (env_now_key env) (env_rnd_key env) (rp_key_store p) (get_api_key ctx) reg
      in if \<not> ok then (Err (rp_rejected ''per-key rate limit exceeded''), p, reg) else
      let (ok, reg) = check_scope hash (env_now_user env) (env_rnd_user env) (rp_user_store p) (get_user_id ctx) reg
      in if \<not> ok then (Err (rp_rejected ''per-user rate limit exceeded''), p, reg) else
      let (ok, reg) = check_scope hash (env_now_ip env) (env_rnd_ip env) (rp_ip_store p) (valid_ip ctx) reg
      in if \<not> ok then (Err (rp_rejected ''per-IP rate limit exceeded''), p, reg)
      else (Ok (), p, reg))"

section \<open>Properties\<close>

text \<open>Within one window a counter admits exactly what its limit leaves: the calls whose clock
  readings fall in window \<open>w\<close> are admitted until the requests recorded in \<open>w\<close> reach the limit, and
  refused from then on. The packing of window and count in one word loses neither.\<close>

theorem fixed_window_exact:
  assumes "fw_wf c" and "\<forall>now\<in>set nows. fw_window_index c now = w"
  shows "admitted fw_allow c nows = min (length nows) (unat (fw_max_requests c) - fw_used w c)"
  using window.admissions_exact [of c "fw_window_us c" nows w] assms
  by (simp add: fw_window_index_def)

theorem fixed_window_exact_witness:
  "admitted fw_allow (fw_new 2 (from_secs 1)) [5000000, 5000001, 5999999] = 2"
proof -
  have us: "fw_window_us (fw_new 2 (from_secs 1)) = 1000000"
    by (simp add: fw_new_def from_secs_def as_micros_def max_def word_le_nat_alt)
  have w: "\<forall>now\<in>set [5000000, 5000001, 5999999]. fw_window_index (fw_new 2 (from_secs 1)) now = 5"
    unfolding fw_window_index_def us by (simp add: COUNT_MASK_def)
  show ?thesis
    using fixed_window_exact [OF fw_wf_new w]
    by (simp add: fw_used_def fw_new_def COUNT_MASK_def min_def word_le_nat_alt)
qed

text \<open>The memory of a store is bounded, by shard.\<close>

datatype rs_op = Op_allow u64 nat string | Op_reset u64 string | Op_reset_all

fun rs_exec :: "(string \<Rightarrow> u64) \<Rightarrow> rs_op \<Rightarrow> RateLimiterStore \<Rightarrow> RateLimiterStore" where
  "rs_exec hash (Op_allow now rnd key) s = snd (rs_allow hash now rnd key s)"
| "rs_exec hash (Op_reset now key) s = rs_reset hash now key s"
| "rs_exec hash Op_reset_all s = rs_reset_all s"

lemma rs_exec_params [simp]:
  "rs_max_keys (rs_exec hash op s) = rs_max_keys s" "rs_num_shards (rs_exec hash op s) = rs_num_shards s"
  by (cases op; auto simp: rs_allow_def rs_reset_def rs_reset_all_def Let_def case_prod_beta split: option.split)+

lemma rs_wf_exec: "rs_wf s \<Longrightarrow> rs_wf (rs_exec hash op s)"
  by (cases op) (simp_all add: rs_wf_allow rs_wf_reset rs_wf_reset_all)

lemma rs_wf_run: "rs_wf s \<Longrightarrow> rs_wf (fold (rs_exec hash) ops s)
    \<and> rs_max_keys (fold (rs_exec hash) ops s) = rs_max_keys s
    \<and> rs_num_shards (fold (rs_exec hash) ops s) = rs_num_shards s"
  by (induction ops arbitrary: s) (simp_all add: rs_wf_exec)

text \<open>A store never outgrows its key limit: after any sequence of checks and resets, whatever
  the random evictions, every shard holds at most \<open>max_keys\<close> counters, all of them well formed, and
  no key twice.\<close>

theorem store_keys_bounded:
  assumes "0 < max_keys" and "0 < n" and "m \<in> set (rs_shards (fold (rs_exec hash) ops (rs_new rate window max_keys n)))"
  shows "length m \<le> max_keys \<and> distinct (map fst m) \<and> (\<forall>(k, c)\<in>set m. fw_wf c)"
proof -
  let ?s = "fold (rs_exec hash) ops (rs_new rate window max_keys n)"
  have "rs_wf ?s" "rs_max_keys ?s = max_keys"
    using rs_wf_run [OF rs_wf_new [OF assms(2)], of hash ops rate window max_keys] by (simp_all add: rs_new_def)
  with assms have "shard_ok max_keys m" by (simp add: rs_wf_def list_all_iff)
  with assms(1) show ?thesis by (auto simp: shard_ok_def al_wf_def list_all_iff)
qed

theorem store_keys_bounded_witness:
  "length (rs_shards (fold (rs_exec (\<lambda>_. 0)) [Op_allow 1 0 ''a'', Op_allow 2 7 ''b''] (rs_new 5 60 1 1)) ! 0) \<le> 1"
proof -
  let ?s = "fold (rs_exec (\<lambda>_. 0)) [Op_allow 1 0 ''a'', Op_allow 2 7 ''b''] (rs_new 5 60 1 1)"
  have "rs_wf ?s \<and> rs_num_shards ?s = rs_num_shards (rs_new 5 60 1 1)"
    using rs_wf_run [OF rs_wf_new [OF zero_less_one]] by blast
  then have "rs_wf ?s \<and> 0 < rs_num_shards ?s" by (simp only: rs_new_def) simp
  then have "rs_shards ?s ! 0 \<in> set (rs_shards ?s)" by (simp add: rs_wf_def)
  from store_keys_bounded [OF _ _ this] show ?thesis by simp
qed

lemma check_scope_other: "check_scope hash now rnd store k reg = (ok, reg') \<Longrightarrow> store \<noteq> Some i \<Longrightarrow> reg' i = reg i"
  by (auto simp: check_scope_def Let_def case_prod_beta split: option.splits)

lemma check_scope_verdict:
  "(\<And>i. store = Some i \<Longrightarrow> reg i = reg' i) \<Longrightarrow>
   fst (check_scope hash now rnd store k reg) = fst (check_scope hash now rnd store k reg')"
  by (auto simp: check_scope_def Let_def case_prod_beta split: option.split)

lemma make_store_id: "fst (make_store sid mk scope rpm reg) \<in> {None, Some (scope_store_id scope sid)}"
  by (simp add: make_store_def Let_def split: option.split)

lemma rp_new_stores:
  "rp_new config reg0 = (p, reg1) \<Longrightarrow> \<exists>sid.
     rp_key_store p \<in> {None, Some (scope_store_id ''key'' sid)} \<and>
     rp_user_store p \<in> {None, Some (scope_store_id ''user'' sid)} \<and>
     rp_ip_store p \<in> {None, Some (scope_store_id ''ip'' sid)}"
  by (intro exI [of _ "unwrap_or (rlc_store_id config) ''default''"])
    (use make_store_id in \<open>force simp: rp_new_def Let_def case_prod_beta\<close>)

text \<open>A plugin built from a configuration lets a request pass exactly when the global counter
  and each configured scope for which the request has an identity admit it, each judged on the state
  before the request (the scopes never share a counter); a refusal is a rate-limit rejection that
  asks to retry after 60 seconds.\<close>

theorem rate_limit_plugin_verdict:
  assumes "rp_new config reg0 = (p0, reg1)" and "p = p0\<lparr>rp_global_limiter := g\<rparr>"
    and "rp_execute hash env ctx p reg = (r, p', reg')"
  shows "(is_ok r \<longleftrightarrow>
       (case g of None \<Rightarrow> True | Some c \<Rightarrow> fst (fw_allow (env_now_global env) c))
       \<and> fst (check_scope hash (env_now_key env) (env_rnd_key env) (rp_key_store p) (get_api_key ctx) reg)
       \<and> fst (check_scope hash (env_now_user env) (env_rnd_user env) (rp_user_store p) (get_user_id ctx) reg)
       \<and> fst (check_scope hash (env_now_ip env) (env_rnd_ip env) (rp_ip_store p) (valid_ip ctx) reg))
     \<and> (\<forall>e. r = Err e \<longrightarrow> (\<exists>reason. e = Rejected ''rate-limit'' reason (RateLimited_kind 60)))"
proof -
  let ?key = "check_scope hash (env_now_key env) (env_rnd_key env) (rp_key_store p) (get_api_key ctx)"
  let ?user = "check_scope hash (env_now_user env) (env_rnd_user env) (rp_user_store p) (get_user_id ctx)"
  let ?ip = "check_scope hash (env_now_ip env) (env_rnd_ip env) (rp_ip_store p) (valid_ip ctx)"
  obtain sid where st: "rp_key_store p \<in> {None, Some (scope_store_id ''key'' sid)}"
    "rp_user_store p \<in> {None, Some (scope_store_id ''user'' sid)}"
    "rp_ip_store p \<in> {None, Some (scope_store_id ''ip'' sid)}"
    using rp_new_stores [OF assms(1)] assms(2) by auto
  have u: "fst (?user (snd (?key reg))) = fst (?user reg)"
    using st by (intro check_scope_verdict check_scope_other [OF prod.collapse [symmetric]])
      (auto simp: scope_store_id_def)
  have "fst (?ip (snd (?user (snd (?key reg))))) = fst (?ip (snd (?key reg)))"
    using st by (intro check_scope_verdict check_scope_other [OF prod.collapse [symmetric]])
      (auto simp: scope_store_id_def)
  also have "\<dots> = fst (?ip reg)"
    using st by (intro check_scope_verdict check_scope_other [OF prod.collapse [symmetric]])
      (auto simp: scope_store_id_def)
  finally have i: "fst (?ip (snd (?user (snd (?key reg))))) = fst (?ip reg)" .
  show ?thesis
    using assms(3) assms(2) u i
    by (auto simp: rp_execute_def Let_def case_prod_beta rp_rejected_def
        split: option.splits if_splits)
qed

definition demo_limits :: RateLimitConfig where
  "demo_limits = \<lparr>rlc_store_id = None, rlc_requests_per_second = Some 0, rlc_key_rpm = Some 10,
     rlc_user_rpm = None, rlc_ip_rpm = None, rlc_max_keys = None\<rparr>"

definition demo_env :: rp_env where
  "demo_env = \<lparr>env_now_global = 1, env_now_key = 2, env_now_user = 3, env_now_ip = 4,
     env_rnd_key = 0, env_rnd_user = 0, env_rnd_ip = 0\<rparr>"

theorem rate_limit_plugin_verdict_witness:
  "\<not> is_ok (fst (rp_execute (\<lambda>_. 0) demo_env (from_request ''r'' ChatCompletionRequest_default None)
      (fst (rp_new demo_limits Map.empty)) (snd (rp_new demo_limits Map.empty))))"
proof -
  let ?p = "fst (rp_new demo_limits Map.empty)"
  have g: "rp_global_limiter ?p = Some (fw_new 0 (from_secs 1))"
    by (simp add: rp_new_def demo_limits_def Let_def case_prod_beta)
  have "\<not> fst (fw_allow 1 (fw_new 0 (from_secs 1)))"
    by (simp add: fw_allow_def fw_allow_n_def fw_new_def Let_def saturating_add_def word_le_nat_alt)
  moreover have "rp_new demo_limits Map.empty = (?p, snd (rp_new demo_limits Map.empty))"
    and "?p = ?p\<lparr>rp_global_limiter := rp_global_limiter ?p\<rparr>"
    and "rp_execute h env ctx ?p reg = (fst (rp_execute h env ctx ?p reg),
      fst (snd (rp_execute h env ctx ?p reg)), snd (snd (rp_execute h env ctx ?p reg)))" for h env ctx reg
    by simp_all
  note rate_limit_plugin_verdict [OF this, of "\<lambda>_. 0" demo_env]
  ultimately show ?thesis by (simp add: g demo_env_def)
qed

text \<open>The two atomic steps of \<open>fw_allow_n\<close> (the clock reading and the update) can be separated by
  other threads. Of three calls on a counter with limit 1, two read window 5 and one, delayed, reads
  window 4; in the order 5, 4, 5 all three are admitted, two of them in window 5.\<close>

lemma stale_reading_over_admits:
  "fst (run_admit fw_allow (fw_new 1 (from_secs 1)) [5000000, 4999999, 5000001]) = [True, True, True]"
proof -
  have us: "fw_new 1 (from_secs 1) = \<lparr>fw_packed = 0, fw_window_us = 1000000, fw_max_requests = 1\<rparr>"
    by (simp add: fw_new_def from_secs_def as_micros_def max_def min_def word_le_nat_alt COUNT_MASK_def)
  show ?thesis
    unfolding us
    by (simp add: fw_allow_def fw_allow_n_def fw_window_index_def COUNT_MASK_def Let_def
        saturating_add_def push_bit_eq_mult drop_bit_eq_div)
qed

end
