(* ===== verification/Budget.thy ===== *)
theory Budget
  imports Plugin
begin

text \<open>
  The budget plugin (\<^verbatim>\<open>himadri-plugins/src/budget.rs\<close>): the spend store in whole micro-dollars with its
  least-recently-updated eviction, and the plugin that checks the spend before a request and records
  the cost after it. Amounts in dollars are rational numbers; a clock reading is a natural number.
  The time of an update and the iteration order of the map are arguments or the order of the list.
\<close>

section \<open>Spend store\<close>

record SpendEntry =
  se_micro_usd :: u64
  se_last_update :: nat

record SpendStore =
  ss_spend :: "(string, SpendEntry) al"
  ss_max_keys :: nat

text \<open>\<^verbatim>\<open>(usd * 1e6).round().max(0.0) as u64\<close>: the cast saturates.\<close>

definition usd_to_micro :: "rat \<Rightarrow> u64" where
  "usd_to_micro usd = of_nat (min (nat (max (round (usd * 1000000)) 0)) u64_max)"

definition micro_to_usd :: "u64 \<Rightarrow> rat" where
  "micro_to_usd micro = of_nat (unat micro) / 1000000"

definition ss_new :: "nat \<Rightarrow> SpendStore" where
  "ss_new max_keys = \<lparr>ss_spend = [], ss_max_keys = max_keys\<rparr>"

text \<open>The first entry with the smallest time stamp, as \<^verbatim>\<open>min_by_key\<close> returns it.\<close>

fun min_by_update :: "(string, SpendEntry) al \<Rightarrow> (string \<times> SpendEntry) option" where
  "min_by_update [] = None"
| "min_by_update (e # es) =
     (case min_by_update es of
        None \<Rightarrow> Some e
      | Some f \<Rightarrow> if se_last_update (snd e) \<le> se_last_update (snd f) then Some e else Some f)"

definition ss_evict :: "string \<Rightarrow> SpendStore \<Rightarrow> (string, SpendEntry) al" where
  "ss_evict key s =
     (if map_of (ss_spend s) key = None \<and> 0 < ss_max_keys s \<and> ss_max_keys s \<le> length (ss_spend s)
      then (case min_by_update (ss_spend s) of
              Some (lru_key, _) \<Rightarrow> al_del lru_key (ss_spend s)
            | None \<Rightarrow> ss_spend s)
      else ss_spend s)"

definition ss_add :: "nat \<Rightarrow> string \<Rightarrow> rat \<Rightarrow> SpendStore \<Rightarrow> SpendStore" where
  "ss_add now key usd s =
     (let spend = ss_evict key s;
          entry = (case map_of spend key of
                     Some e \<Rightarrow> e
                   | None \<Rightarrow> \<lparr>se_micro_usd = 0, se_last_update = now\<rparr>);
          entry = \<lparr>se_micro_usd = saturating_add (se_micro_usd entry) (usd_to_micro usd),
                   se_last_update = now\<rparr>
      in s\<lparr>ss_spend := al_put key entry spend\<rparr>)"

definition ss_get :: "string \<Rightarrow> SpendStore \<Rightarrow> rat" where
  "ss_get key s = unwrap_or (map_option (\<lambda>e. micro_to_usd (se_micro_usd e)) (map_of (ss_spend s) key)) 0"

definition ss_reset :: "string \<Rightarrow> SpendStore \<Rightarrow> SpendStore" where
  "ss_reset key s = s\<lparr>ss_spend := al_del key (ss_spend s)\<rparr>"

definition ss_reset_all :: "SpendStore \<Rightarrow> SpendStore" where
  "ss_reset_all s = s\<lparr>ss_spend := []\<rparr>"

definition budget_reset_store_key :: "string \<Rightarrow> string \<Rightarrow> SpendStore StoreRegistry \<Rightarrow> SpendStore StoreRegistry" where
  "budget_reset_store_key store_id api_key reg = with_store reg store_id (ss_reset api_key)"

definition budget_reset_store :: "string \<Rightarrow> SpendStore StoreRegistry \<Rightarrow> SpendStore StoreRegistry" where
  "budget_reset_store store_id reg = with_store reg store_id ss_reset_all"

definition get_spend :: "string \<Rightarrow> string \<Rightarrow> SpendStore StoreRegistry \<Rightarrow> rat" where
  "get_spend store_id api_key reg = unwrap_or (map_option (ss_get api_key) (reg store_id)) 0"

definition get_all_spend :: "string \<Rightarrow> SpendStore StoreRegistry \<Rightarrow> (string \<times> rat) list" where
  "get_all_spend store_id reg =
     unwrap_or (map_option (\<lambda>s. map (\<lambda>(k, e). (k, micro_to_usd (se_micro_usd e))) (ss_spend s))
       (reg store_id)) []"

section \<open>Budget plugin\<close>

definition BUDGET_DEFAULT_MAX_KEYS :: nat where
  "BUDGET_DEFAULT_MAX_KEYS = 10000"

record BudgetConfig =
  bc_store_id :: "string option"
  bc_spend_limit_usd :: "rat option"
  bc_input_per_m_tokens :: "rat option"
  bc_output_per_m_tokens :: "rat option"
  bc_max_keys :: "nat option"

record BudgetPlugin =
  bp_store_id :: string
  bp_spend_limit_usd :: rat
  bp_input_per_m_tokens :: rat
  bp_output_per_m_tokens :: rat

definition bp_new ::
    "BudgetConfig \<Rightarrow> SpendStore StoreRegistry \<Rightarrow> (string, BudgetPlugin) result \<times> SpendStore StoreRegistry" where
  "bp_new config reg =
     (let store_id = unwrap_or (bc_store_id config) ''default'';
          limit = unwrap_or (bc_spend_limit_usd config) 0;
          inp = unwrap_or (bc_input_per_m_tokens config) 0;
          outp = unwrap_or (bc_output_per_m_tokens config) 0;
          max_keys = unwrap_or (bc_max_keys config) BUDGET_DEFAULT_MAX_KEYS
      in if limit < 0 then (Err ''spend_limit_usd must be >= 0'', reg)
         else if limit > 0 \<and> inp = 0 \<and> outp = 0
         then (Err ''spend_limit_usd is set but both input_per_m_tokens and output_per_m_tokens are 0; cost will always be 0 and the budget limit will never be enforced'', reg)
         else (Ok \<lparr>bp_store_id = store_id, bp_spend_limit_usd = limit, bp_input_per_m_tokens = inp,
                   bp_output_per_m_tokens = outp\<rparr>,
               snd (get_or_create reg store_id (ss_new max_keys))))"

definition calculate_cost :: "BudgetPlugin \<Rightarrow> Usage \<Rightarrow> rat" where
  "calculate_cost p u =
     (of_nat (unat (prompt_tokens u)) / 1000000) * bp_input_per_m_tokens p
     + (of_nat (unat (completion_tokens u)) / 1000000) * bp_output_per_m_tokens p"

definition spend_key :: "PluginContext \<Rightarrow> string option" where
  "spend_key ctx =
     or_else (Option.bind (ctx_auth ctx) (\<lambda>a. or_else (au_key_id a) (au_user_id a)))
       (case Option.bind (get_metadata ctx ''api_key'') as_str of
          Some s \<Rightarrow> if s \<noteq> [] then Some s else None
        | None \<Rightarrow> None)"

definition effective_limit :: "BudgetPlugin \<Rightarrow> rat option \<Rightarrow> rat" where
  "effective_limit p per_principal =
     (case per_principal of
        Some limit \<Rightarrow> if limit > 0 then limit else bp_spend_limit_usd p
      | None \<Rightarrow> bp_spend_limit_usd p)"

text \<open>The message formats the amounts with a fixed number of decimals, rounding half to even.\<close>

definition round_even :: "rat \<Rightarrow> int" where
  "round_even x =
     (let f = \<lfloor>x\<rfloor>; d = x - of_int f
      in if d < 1/2 then f else if d > 1/2 then f + 1 else if even f then f else f + 1)"

definition show_fixed :: "nat \<Rightarrow> rat \<Rightarrow> string" where
  "show_fixed d x =
     (let n = nat (round_even (x * 10 ^ d)); frac = show_nat (n mod 10 ^ d)
      in show_nat (n div 10 ^ d) @ ''.'' @ replicate (d - length frac) (CHR ''0'') @ frac)"

definition check_budget ::
    "BudgetPlugin \<Rightarrow> string \<Rightarrow> rat option \<Rightarrow> SpendStore \<Rightarrow> (PluginError, unit) result" where
  "check_budget p key per_principal store =
     (let limit = effective_limit p per_principal in
      if limit \<le> 0 then Ok ()
      else let current = ss_get key store in
        if limit \<le> current
        then Err (Rejected ''budget''
               (''budget exceeded: spent $'' @ show_fixed 4 current @ '' of $'' @ show_fixed 2 limit @ '' limit'')
               BudgetExceeded)
        else Ok ())"

definition record_cost :: "nat \<Rightarrow> BudgetPlugin \<Rightarrow> PluginContext \<Rightarrow> string \<Rightarrow> SpendStore \<Rightarrow> SpendStore" where
  "record_cost now p ctx key store =
     (case ctx_response ctx of
        Some response \<Rightarrow>
          (case cp_usage response of
             Some usage \<Rightarrow>
               (let cost = calculate_cost p usage in if cost > 0 then ss_add now key cost store else store)
           | None \<Rightarrow> store)
      | None \<Rightarrow> store)"

definition bp_execute ::
    "nat \<Rightarrow> BudgetPlugin \<Rightarrow> PluginContext \<Rightarrow> SpendStore \<Rightarrow> (PluginError, unit) result \<times> SpendStore" where
  "bp_execute now p ctx store =
     (case spend_key ctx of
        None \<Rightarrow> (Ok (), store)
      | Some key \<Rightarrow>
          if ctx_response ctx \<noteq> None then (Ok (), record_cost now p ctx key store)
          else (check_budget p key (Option.bind (ctx_auth ctx) au_budget_limit_usd) store, store))"

text \<open>The plugin as the manager sees it: registered before the request, and after it as well.\<close>

definition budget_plugin :: "BudgetPlugin \<Rightarrow> (nat \<times> SpendStore) Plugin" where
  "budget_plugin p =
     \<lparr>pl_name = ''budget'', pl_plugin_type = Middleware, pl_stage = BeforeRequest,
      pl_also_after_request = True,
      pl_execute = (\<lambda>ctx (now, store). case bp_execute now p ctx store of (r, store') \<Rightarrow> (r, ctx, (now, store')))\<rparr>"

section \<open>Invariant\<close>

definition ss_wf :: "SpendStore \<Rightarrow> bool" where
  "ss_wf s = (al_wf (ss_spend s) \<and> (0 < ss_max_keys s \<longrightarrow> length (ss_spend s) \<le> ss_max_keys s))"

lemma min_by_update_None [simp]: "min_by_update m = None \<longleftrightarrow> m = []"
  by (cases m) (auto split: option.split)

lemma min_by_update_Some:
  "min_by_update m = Some e \<Longrightarrow> e \<in> set m \<and> (\<forall>f\<in>set m. se_last_update (snd e) \<le> se_last_update (snd f))"
  by (induction m arbitrary: e) (fastforce split: option.splits if_splits)+

abbreviation ss_full :: "string \<Rightarrow> SpendStore \<Rightarrow> bool" where
  "ss_full key s \<equiv> map_of (ss_spend s) key = None \<and> 0 < ss_max_keys s \<and> ss_max_keys s \<le> length (ss_spend s)"

lemma ss_evict_full:
  assumes "ss_full key s"
  obtains k e where "(k, e) \<in> set (ss_spend s)" "ss_evict key s = al_del k (ss_spend s)"
    "\<forall>f\<in>set (ss_spend s). se_last_update e \<le> se_last_update (snd f)"
proof -
  from assms have "ss_spend s \<noteq> []" by auto
  then obtain k e where m: "min_by_update (ss_spend s) = Some (k, e)"
    by (cases "min_by_update (ss_spend s)") auto
  with assms have "ss_evict key s = al_del k (ss_spend s)" by (simp add: ss_evict_def)
  with min_by_update_Some [OF m] that show thesis by auto
qed

lemma ss_evict_wf:
  assumes "ss_wf s"
  shows "al_wf (ss_evict key s) \<and>
    (0 < ss_max_keys s \<longrightarrow> length (al_put key v (ss_evict key s)) \<le> ss_max_keys s)"
proof (cases "ss_full key s")
  case True
  then obtain k e where e: "(k, e) \<in> set (ss_spend s)" "ss_evict key s = al_del k (ss_spend s)"
    by (rule ss_evict_full)
  then have "map_of (ss_spend s) k \<noteq> None" by (metis fst_conv image_eqI map_of_eq_None_iff)
  with True e assms show ?thesis by (auto simp: ss_wf_def length_al_put length_al_del)
next
  case False
  then have "ss_evict key s = ss_spend s" by (auto simp: ss_evict_def)
  with False assms show ?thesis by (auto simp: ss_wf_def length_al_put)
qed

lemma ss_wf_add: "ss_wf s \<Longrightarrow> ss_wf (ss_add now key usd s)"
  using ss_evict_wf [of s key] by (auto simp: ss_add_def Let_def ss_wf_def)

lemma ss_wf_new [simp]: "ss_wf (ss_new n)"
  by (simp add: ss_wf_def ss_new_def)

section \<open>Properties\<close>

text \<open>The spend of a principal is the exact sum of what was recorded for it: as long as the
  store is not full and nothing saturates, recording a list of costs for one key adds the sum of the
  costs, each rounded to a whole micro-dollar, to that key and leaves every other key's spend as it
  was.\<close>

theorem spend_is_sum:
  assumes "ss_max_keys s = 0 \<or> map_of (ss_spend s) key \<noteq> None \<or> length (ss_spend s) < ss_max_keys s"
    and "micro = (case map_of (ss_spend s) key of Some e \<Rightarrow> unat (se_micro_usd e) | None \<Rightarrow> 0)"
    and "micro + sum_list (map (\<lambda>c. unat (usd_to_micro c)) costs) \<le> u64_max"
  shows "ss_get key (fold (ss_add now key) costs s) =
       ss_get key s + of_nat (sum_list (map (\<lambda>c. unat (usd_to_micro c)) costs)) / 1000000
     \<and> (\<forall>k. k \<noteq> key \<longrightarrow> ss_get k (fold (ss_add now key) costs s) = ss_get k s)"
  using assms
proof (induction costs arbitrary: s micro)
  case Nil
  then show ?case by simp
next
  case (Cons c costs)
  let ?s = "ss_add now key c s"
  have ev: "ss_evict key s = ss_spend s" using Cons.prems(1) by (auto simp: ss_evict_def)
  define v where "v = saturating_add (case map_of (ss_spend s) key of Some e \<Rightarrow> se_micro_usd e | None \<Rightarrow> 0)
      (usd_to_micro c)"
  from ev have sp: "map_of (ss_spend ?s) = (map_of (ss_spend s))(key \<mapsto> \<lparr>se_micro_usd = v, se_last_update = now\<rparr>)"
    by (auto simp: ss_add_def Let_def v_def split: option.split)
  have u: "unat v = micro + unat (usd_to_micro c)"
    using Cons.prems(2,3) by (auto simp: v_def unat_simps u64_max_def split: option.split)
  have "ss_get key (fold (ss_add now key) costs ?s) =
       ss_get key ?s + of_nat (sum_list (map (\<lambda>c. unat (usd_to_micro c)) costs)) / 1000000
     \<and> (\<forall>k. k \<noteq> key \<longrightarrow> ss_get k (fold (ss_add now key) costs ?s) = ss_get k ?s)"
  proof (rule Cons.IH)
    show "ss_max_keys ?s = 0 \<or> map_of (ss_spend ?s) key \<noteq> None \<or> length (ss_spend ?s) < ss_max_keys ?s"
      by (simp add: sp)
    show "micro + unat (usd_to_micro c) =
        (case map_of (ss_spend ?s) key of Some e \<Rightarrow> unat (se_micro_usd e) | None \<Rightarrow> 0)"
      by (simp add: sp u)
    show "micro + unat (usd_to_micro c) + sum_list (map (\<lambda>c. unat (usd_to_micro c)) costs) \<le> u64_max"
      using Cons.prems(3) by simp
  qed
  moreover have "ss_get key ?s = ss_get key s + of_nat (unat (usd_to_micro c)) / 1000000"
  proof -
    have "(unsigned v :: rat) = of_nat micro + unsigned (usd_to_micro c)"
      using arg_cong [OF u, of "of_nat :: nat \<Rightarrow> rat"] by simp
    then show ?thesis
      using Cons.prems(2)
      by (cases "map_of (ss_spend s) key") (simp_all add: ss_get_def sp micro_to_usd_def add_divide_distrib)
  qed
  moreover have "ss_get k ?s = ss_get k s" if "k \<noteq> key" for k
    using that by (simp add: ss_get_def sp)
  ultimately show ?case by (simp add: add_divide_distrib)
qed

theorem spend_is_sum_witness:
  "ss_get ''k'' (fold (ss_add 7 ''k'') [1, 1/2] (ss_new 0)) = 3/2"
  using spend_is_sum [of "ss_new 0" "''k''" 0 "[1, 1/2]" 7]
  by (simp add: ss_new_def usd_to_micro_def u64_max_def ss_get_def)

text \<open>Eviction sheds only what has gone quiet, and the store stays within its limit: adding
  spend keeps the number of principals at most \<open>max_keys\<close>, and a principal other than the one charged
  loses its record only if it was the least recently updated one and the store was full.\<close>

theorem spend_eviction_lru:
  assumes "ss_wf s" and "k \<noteq> key" and "map_of (ss_spend s) k = Some e"
  shows "ss_wf (ss_add now key usd s) \<and>
    (map_of (ss_spend (ss_add now key usd s)) k = Some e \<or>
     (ss_full key s \<and> (\<forall>f\<in>set (ss_spend s). se_last_update e \<le> se_last_update (snd f))))"
proof (cases "ss_full key s")
  case True
  then obtain l f where l: "(l, f) \<in> set (ss_spend s)" "ss_evict key s = al_del l (ss_spend s)"
    "\<forall>g\<in>set (ss_spend s). se_last_update f \<le> se_last_update (snd g)"
    by (rule ss_evict_full)
  have same: "l = k \<Longrightarrow> f = e"
    using l(1) assms(1,3) by (auto simp: ss_wf_def al_wf_def dest: map_of_is_SomeI)
  have "l \<noteq> k \<Longrightarrow> map_of (ss_spend (ss_add now key usd s)) k = Some e"
    using l(2) assms(2,3) by (simp add: ss_add_def Let_def)
  with l(3) True same ss_wf_add [OF assms(1)] show ?thesis by blast
next
  case False
  then have "ss_evict key s = ss_spend s" by (auto simp: ss_evict_def)
  with assms have "map_of (ss_spend (ss_add now key usd s)) k = Some e" by (simp add: ss_add_def Let_def)
  with ss_wf_add [OF assms(1)] show ?thesis by blast
qed

theorem spend_eviction_lru_witness:
  "ss_wf (ss_add 9 ''b'' 1 \<lparr>ss_spend = [(''a'', \<lparr>se_micro_usd = 5, se_last_update = 3\<rparr>)], ss_max_keys = 1\<rparr>)"
  by (rule conjunct1 [OF spend_eviction_lru [where k = "''a''" and e = "\<lparr>se_micro_usd = 5, se_last_update = 3\<rparr>"]])
    (simp_all add: ss_wf_def al_wf_def)



end
