(* ===== verification/Request_Plugins.thy ===== *)
theory Request_Plugins
  imports Plugin "HOL-Library.List_Lexorder" "HOL-Library.Char_ord"
begin

text \<open>
  The stateless request plugins of \<^verbatim>\<open>himadri-plugins\<close>: the token cap (\<^verbatim>\<open>max_token.rs\<close>), the word
  filter (\<^verbatim>\<open>word_filter.rs\<close>) and the key of the response cache (\<^verbatim>\<open>cache.rs\<close>) with the JSON forms it
  hashes. Unicode lower-casing, the digest and the cache are parameters. An object lists its members
  in field order; serde writes them sorted by name, which permutes them in the same way for every value
  of a type.
\<close>

section \<open>Token cap and word filter\<close>

record MaxTokenPlugin =
  mt_max_tokens :: u32

definition max_token_execute :: "MaxTokenPlugin \<Rightarrow> PluginContext \<Rightarrow> (PluginError, unit) result" where
  "max_token_execute p ctx =
     (case cr_max_tokens (ctx_request ctx) of
        Some max_tokens \<Rightarrow>
          if mt_max_tokens p < max_tokens
          then Err (Rejected ''max-token'' (''max_tokens '' @ show_nat (unat max_tokens) @
                 '' exceeds limit of '' @ show_nat (unat (mt_max_tokens p))) BadRequest_kind)
          else Ok ()
      | None \<Rightarrow> Ok ())"

record WordFilterPlugin =
  wf_blocked_words :: "string list"

definition word_filter_new :: "(string \<Rightarrow> string) \<Rightarrow> string list \<Rightarrow> WordFilterPlugin" where
  "word_filter_new lower blocked_words = \<lparr>wf_blocked_words = map lower blocked_words\<rparr>"

fun first_blocked :: "string list \<Rightarrow> string \<Rightarrow> string option" where
  "first_blocked [] text = None"
| "first_blocked (w # ws) text = (if str_contains w text then Some w else first_blocked ws text)"

fun scan_messages :: "(string \<Rightarrow> string) \<Rightarrow> string list \<Rightarrow> Message list \<Rightarrow> string option" where
  "scan_messages lower words [] = None"
| "scan_messages lower words (m # ms) =
     (case msg_content m of
        None \<Rightarrow> scan_messages lower words ms
      | Some content \<Rightarrow>
          (case first_blocked words (lower (flat_text content)) of
             Some w \<Rightarrow> Some w
           | None \<Rightarrow> scan_messages lower words ms))"

definition word_filter_execute ::
    "(string \<Rightarrow> string) \<Rightarrow> WordFilterPlugin \<Rightarrow> PluginContext \<Rightarrow> (PluginError, unit) result" where
  "word_filter_execute lower p ctx =
     (case scan_messages lower (wf_blocked_words p) (cr_messages (ctx_request ctx)) of
        Some w \<Rightarrow> Err (Rejected ''word-filter'' (''Blocked word detected: '' @ w) BadRequest_kind)
      | None \<Rightarrow> Ok ())"

lemma first_blocked_None: "first_blocked ws t = None \<longleftrightarrow> (\<forall>w\<in>set ws. \<not> str_contains w t)"
  by (induction ws) auto

lemma scan_messages_None:
  "scan_messages lower ws ms = None \<longleftrightarrow>
     (\<forall>m\<in>set ms. \<forall>c. msg_content m = Some c \<longrightarrow> (\<forall>w\<in>set ws. \<not> str_contains w (lower (flat_text c))))"
proof (induction ms)
  case (Cons m ms)
  then show ?case
    by (cases "msg_content m") (auto simp: first_blocked_None [symmetric] split: option.split)
qed simp

section \<open>Response cache\<close>

text \<open>The JSON form serde gives the request types: a field marked \<^verbatim>\<open>skip_serializing_if\<close> is left out
  when absent, any other absent option is \<open>null\<close>.\<close>

definition opt_json :: "('a \<Rightarrow> json) \<Rightarrow> 'a option \<Rightarrow> json" where
  "opt_json f x = (case x of None \<Rightarrow> JNull | Some v \<Rightarrow> f v)"

definition skip_none :: "string \<Rightarrow> ('a \<Rightarrow> json) \<Rightarrow> 'a option \<Rightarrow> (string \<times> json) list" where
  "skip_none k f x = (case x of None \<Rightarrow> [] | Some v \<Rightarrow> [(k, f v)])"

abbreviation str_json :: "string option \<Rightarrow> json" where
  "str_json \<equiv> opt_json JStr"

definition nat_json :: "'a::len word \<Rightarrow> json" where
  "nat_json n = JNum (of_nat (unat n))"

fun role_json :: "Role \<Rightarrow> json" where
  "role_json System = JStr ''system''"
| "role_json User = JStr ''user''"
| "role_json Assistant = JStr ''assistant''"
| "role_json Tool_role = JStr ''tool''"

definition tool_call_json :: "ToolCall \<Rightarrow> json" where
  "tool_call_json t = JObj [(''id'', JStr (tc_id t)), (''type'', JStr (tc_type t)),
     (''function'', JObj [(''name'', JStr (fc_name (tc_function t))),
                          (''arguments'', JStr (fc_arguments (tc_function t)))])]"

fun part_json :: "ContentPart \<Rightarrow> json" where
  "part_json (TextPart t) = JObj [(''type'', JStr ''text''), (''text'', JStr t)]"
| "part_json (ImageUrl i) = JObj [(''type'', JStr ''image_url''),
     (''image_url'', JObj [(''url'', JStr (iu_url i)), (''detail'', str_json (iu_detail i))])]"

fun content_json :: "MessageContent \<Rightarrow> json" where
  "content_json (Text s) = JStr s"
| "content_json (Parts ps) = JArr (map part_json ps)"

definition message_json :: "Message \<Rightarrow> json" where
  "message_json m = JObj ((''role'', role_json (msg_role m))
     # skip_none ''content'' content_json (msg_content m)
     @ skip_none ''name'' JStr (msg_name m)
     @ skip_none ''tool_calls'' (\<lambda>ts. JArr (map tool_call_json ts)) (msg_tool_calls m)
     @ skip_none ''tool_call_id'' JStr (msg_tool_call_id m))"

definition tool_json :: "Tool \<Rightarrow> json" where
  "tool_json t = JObj [(''type'', JStr (tool_type t)),
     (''function'', JObj ((''name'', JStr (tf_name (tool_function t)))
        # skip_none ''description'' JStr (tf_description (tool_function t))
        @ skip_none ''parameters'' id (tf_parameters (tool_function t))))]"

definition cache_document :: "ChatCompletionRequest \<Rightarrow> string option \<Rightarrow> string option \<Rightarrow> json" where
  "cache_document r org_id team_id = JObj
     [(''org_id'', str_json org_id),
      (''team_id'', str_json team_id),
      (''model'', JStr (cr_model r)),
      (''messages'', JArr (map message_json (cr_messages r))),
      (''temperature'', opt_json JNum (cr_temperature r)),
      (''top_p'', opt_json JNum (cr_top_p r)),
      (''max_tokens'', opt_json nat_json (cr_max_tokens r)),
      (''stop'', opt_json (\<lambda>ss. JArr (map JStr ss)) (cr_stop r)),
      (''presence_penalty'', opt_json JNum (cr_presence_penalty r)),
      (''frequency_penalty'', opt_json JNum (cr_frequency_penalty r)),
      (''tools'', opt_json (\<lambda>ts. JArr (map tool_json ts)) (cr_tools r)),
      (''tool_choice'', opt_json id (cr_tool_choice r)),
      (''user'', str_json (cr_user r)),
      (''extra'', JObj (sort_key fst (cr_extra r)))]"

text \<open>The key is the hexadecimal SHA-256 digest of the serialised document; digest and encoding are
  one parameter.\<close>

definition cache_key :: "(json \<Rightarrow> string) \<Rightarrow> ChatCompletionRequest \<Rightarrow> string option \<Rightarrow> string option \<Rightarrow> string" where
  "cache_key digest r org_id team_id = digest (cache_document r org_id team_id)"

definition usage_json :: "Usage \<Rightarrow> json" where
  "usage_json u = JObj [(''prompt_tokens'', nat_json (prompt_tokens u)),
     (''completion_tokens'', nat_json (completion_tokens u)), (''total_tokens'', nat_json (total_tokens u))]"

definition choice_json :: "Choice \<Rightarrow> json" where
  "choice_json c = JObj ([(''index'', nat_json (ch_index c)),
     (''message'', JObj ([(''role'', role_json (rm_role (ch_message c))),
                          (''content'', str_json (rm_content (ch_message c)))]
        @ skip_none ''tool_calls'' (\<lambda>ts. JArr (map tool_call_json ts)) (rm_tool_calls (ch_message c))))]
     @ skip_none ''finish_reason'' JStr (ch_finish_reason c))"

definition response_json :: "ChatCompletionResponse \<Rightarrow> json" where
  "response_json r = JObj ([(''id'', JStr (cp_id r)), (''object'', JStr (cp_object r)),
     (''created'', nat_json (cp_created r)), (''model'', JStr (cp_model r)),
     (''choices'', JArr (map choice_json (cp_choices r)))]
     @ skip_none ''usage'' usage_json (cp_usage r)
     @ skip_none ''system_fingerprint'' JStr (cp_system_fingerprint r))"

text \<open>The cache itself (\<^verbatim>\<open>moka\<close>) is outside the repository: \<open>lookup\<close> is what it returns for a key.\<close>

definition cache_execute ::
    "(json \<Rightarrow> string) \<Rightarrow> (string \<Rightarrow> ChatCompletionResponse option) \<Rightarrow> PluginContext \<Rightarrow> PluginContext" where
  "cache_execute digest lookup ctx =
     (if cr_stream (ctx_request ctx) then ctx
      else case lookup (cache_key digest (ctx_request ctx) (ctx_org_id ctx) (ctx_team_id ctx)) of
             Some cached \<Rightarrow>
               set_metadata ''cached_response'' (response_json cached)
                 (set_metadata ''cached'' (JBool True) ctx)
           | None \<Rightarrow> ctx)"

subsection \<open>The document determines the request\<close>

lemma map_of_skip_none [simp]:
  "map_of (skip_none k f x @ r) k' = (if k' = k then or_else (map_option f x) (map_of r k) else map_of r k')"
  "map_of (skip_none k f x) k' = (if k' = k then map_option f x else None)"
  by (auto simp: skip_none_def split: option.split)

lemma or_else_None [simp]: "or_else m None = m"
  by (cases m) simp_all

lemma opt_json_inj: "inj f \<Longrightarrow> (\<And>v. JNull \<noteq> f v) \<Longrightarrow> opt_json f x = opt_json f y \<longleftrightarrow> x = y"
  by (cases x; cases y) (auto simp: opt_json_def inj_eq eq_commute [of _ JNull])

lemma opt_json_simps [simp]:
  "str_json a = str_json b \<longleftrightarrow> a = b"
  "opt_json JNum c = opt_json JNum d \<longleftrightarrow> c = d"
  "opt_json nat_json (m :: u32 option) = opt_json nat_json n \<longleftrightarrow> m = n"
  "opt_json (\<lambda>ss. JArr (map JStr ss)) u = opt_json (\<lambda>ss. JArr (map JStr ss)) v \<longleftrightarrow> u = v"
  by (rule opt_json_inj; auto simp: inj_def nat_json_def intro: unsigned_word_eqI dest: map_injective)+

lemma inj_role_json: "inj role_json"
proof (rule injI)
  show "role_json a = role_json b \<Longrightarrow> a = b" for a b by (cases a; cases b) auto
qed

lemma inj_tool_call_json: "inj tool_call_json"
  by (rule injI) (simp add: tool_call_json_def)

lemma inj_part_json: "inj part_json"
proof (rule injI)
  show "part_json a = part_json b \<Longrightarrow> a = b" for a b
    by (cases a; cases b) (auto intro: ImageUrlDetail.equality)
qed

lemma inj_content_json: "inj content_json"
proof (rule injI)
  show "content_json a = content_json b \<Longrightarrow> a = b" for a b
    by (cases a; cases b) (auto simp: inj_map_eq_map [OF inj_part_json])
qed

lemma inj_arr_map: "inj f \<Longrightarrow> inj (\<lambda>ts. JArr (map f ts))"
  by (rule injI) (simp add: inj_map_eq_map)

lemma map_option_inj: "inj f \<Longrightarrow> map_option f x = map_option f y \<longleftrightarrow> x = y"
  by (simp add: inj_eq option.inj_map)

lemma inj_message_json: "inj message_json"
proof (rule injI)
  fix a b
  assume "message_json a = message_json b"
  then have "map_of (the (as_obj (message_json a))) k = map_of (the (as_obj (message_json b))) k" for k
    by simp
  from this [of "''role''"] this [of "''content''"] this [of "''name''"] this [of "''tool_calls''"]
    this [of "''tool_call_id''"]
  have "msg_role a = msg_role b \<and> msg_content a = msg_content b \<and> msg_name a = msg_name b \<and>
      msg_tool_calls a = msg_tool_calls b \<and> msg_tool_call_id a = msg_tool_call_id b"
    by (simp add: message_json_def inj_eq [OF inj_role_json] map_option_inj
        inj_content_json inj_arr_map inj_tool_call_json inj_def [of JStr] del: map_of_append)
  then show "a = b" by simp
qed

lemma inj_tool_json: "inj tool_json"
proof (rule injI)
  fix a b
  assume "tool_json a = tool_json b"
  then have t: "tool_type a = tool_type b" and
    "JObj ((''name'', JStr (tf_name (tool_function a)))
        # skip_none ''description'' JStr (tf_description (tool_function a))
        @ skip_none ''parameters'' id (tf_parameters (tool_function a))) =
     JObj ((''name'', JStr (tf_name (tool_function b)))
        # skip_none ''description'' JStr (tf_description (tool_function b))
        @ skip_none ''parameters'' id (tf_parameters (tool_function b)))" (is "JObj ?f = JObj ?g")
    by (simp_all add: tool_json_def)
  then have "map_of ?f k = map_of ?g k" for k by simp
  from this [of "''name''"] this [of "''description''"] this [of "''parameters''"] t
  have "tool_type a = tool_type b \<and> tf_name (tool_function a) = tf_name (tool_function b) \<and>
      tf_description (tool_function a) = tf_description (tool_function b) \<and>
      tf_parameters (tool_function a) = tf_parameters (tool_function b)"
    by (simp add: map_option_inj inj_def [of JStr] option.map_id
        del: map_of_append)
  then show "a = b" by simp
qed

lemma sort_key_map_of:
  fixes xs :: "(string, 'v) al"
  assumes "al_wf xs" "al_wf ys" "sort_key fst xs = sort_key fst ys"
  shows "map_of xs = map_of ys"
proof -
  have "set xs = set ys" using arg_cong [OF assms(3), of set] by simp
  with assms(1,2) show ?thesis by (simp add: al_wf_def map_of_inject_set)
qed

section \<open>Properties\<close>

text \<open>Cache keys do not mix requests: two requests whose canonical documents agree come from the
  same organisation and team and agree in the model, in the messages with their roles, and in every
  parameter that shapes the completion, the pass-through parameters included. (An explicit \<open>null\<close> tool
  choice is the same as none.)\<close>

theorem cache_document_separates:
  assumes "al_wf (cr_extra r)" and "al_wf (cr_extra r')"
    and "cache_document r org team = cache_document r' org' team'"
  shows "org = org' \<and> team = team' \<and> cr_model r = cr_model r' \<and> cr_messages r = cr_messages r'
    \<and> cr_temperature r = cr_temperature r' \<and> cr_top_p r = cr_top_p r' \<and> cr_max_tokens r = cr_max_tokens r'
    \<and> cr_stop r = cr_stop r' \<and> cr_presence_penalty r = cr_presence_penalty r'
    \<and> cr_frequency_penalty r = cr_frequency_penalty r' \<and> cr_tools r = cr_tools r' \<and> cr_user r = cr_user r'
    \<and> unwrap_or (cr_tool_choice r) JNull = unwrap_or (cr_tool_choice r') JNull
    \<and> map_of (cr_extra r) = map_of (cr_extra r')"
proof -
  have tools: "opt_json (\<lambda>ts. JArr (map tool_json ts)) x = opt_json (\<lambda>ts. JArr (map tool_json ts)) y \<longleftrightarrow> x = y" for x y
    by (rule opt_json_inj) (simp_all add: inj_arr_map inj_tool_json)
  have choice: "opt_json id x = unwrap_or x JNull" for x by (cases x) (simp_all add: opt_json_def)
  note eq = assms(3) [unfolded cache_document_def json.inject list.inject prod.inject]
  then have "sort_key fst (cr_extra r) = sort_key fst (cr_extra r')" by blast
  from sort_key_map_of [OF assms(1,2) this] eq show ?thesis
    by (simp only: opt_json_simps inj_map_eq_map [OF inj_message_json] tools choice simp_thms)
qed

theorem cache_document_separates_witness:
  "cache_document (ChatCompletionRequest_default\<lparr>cr_model := ''gpt-4o''\<rparr>) None None \<noteq>
   cache_document (ChatCompletionRequest_default\<lparr>cr_model := ''gpt-4''\<rparr>) None None"
  using cache_document_separates [of "ChatCompletionRequest_default\<lparr>cr_model := ''gpt-4o''\<rparr>"
      "ChatCompletionRequest_default\<lparr>cr_model := ''gpt-4''\<rparr>" None None None None]
  by (auto simp: ChatCompletionRequest_default_def)

text \<open>The word filter decides on content alone: a request is rejected exactly when the lower-cased
  text of one of its messages contains the lower-cased form of a blocked word, and it is a 400-style
  rejection.\<close>

theorem word_filter_verdict:
  "(word_filter_execute lower (word_filter_new lower words) ctx = Ok () \<longleftrightarrow>
     \<not> (\<exists>m\<in>set (cr_messages (ctx_request ctx)). \<exists>c. msg_content m = Some c \<and>
          (\<exists>w\<in>set words. \<exists>pre post. lower (flat_text c) = pre @ lower w @ post)))
   \<and> (\<forall>e. word_filter_execute lower (word_filter_new lower words) ctx = Err e \<longrightarrow>
        (\<exists>reason. e = plugin_rejected ''word-filter'' reason))"
proof -
  have "word_filter_execute lower (word_filter_new lower words) ctx = Ok () \<longleftrightarrow>
      scan_messages lower (map lower words) (cr_messages (ctx_request ctx)) = None"
    by (simp add: word_filter_execute_def word_filter_new_def split: option.split)
  then show ?thesis
    by (auto simp: scan_messages_None str_contains_iff word_filter_execute_def plugin_rejected_def split: option.splits)
qed

theorem word_filter_verdict_witness:
  "word_filter_execute to_ascii_lowercase (word_filter_new to_ascii_lowercase [''Bomb''])
     (from_request [] (ChatCompletionRequest_default\<lparr>cr_messages := [message_user ''a BOMB'']\<rparr>) None) \<noteq> Ok ()"
proof -
  let ?ctx = "from_request [] (ChatCompletionRequest_default\<lparr>cr_messages := [message_user ''a BOMB'']\<rparr>) None"
  have "to_ascii_lowercase (flat_text (Text ''a BOMB'')) = ''a '' @ to_ascii_lowercase ''Bomb'' @ []"
    by code_simp
  then have "\<exists>pre post. to_ascii_lowercase (flat_text (Text ''a BOMB'')) = pre @ to_ascii_lowercase ''Bomb'' @ post"
    by blast
  moreover have "cr_messages (ctx_request ?ctx) = [message_user ''a BOMB'']"
    by (simp add: from_request_def)
  ultimately show ?thesis
    using word_filter_verdict [of to_ascii_lowercase "[''Bomb'']" ?ctx] by (simp add: message_user_def)
qed

end
