(* ===== verification/Roles.thy ===== *)
theory Roles
  imports Prelude
begin

text \<open>
  The role catalogue (\<^verbatim>\<open>himadri-core/src/roles.rs\<close>): standard roles and billing tiers with their
  strings, the capabilities a role grants and their merge, and the mapping from the role names of
  identity providers.
\<close>

section \<open>Standard roles\<close>

datatype StandardRole = SR_User | SR_PowerUser | SR_Analyst | SR_Admin | SR_Custom string

definition role_from_string :: "string \<Rightarrow> StandardRole" where
  "role_from_string s =
     (if s = ''user'' then SR_User
      else if s = ''power-user'' \<or> s = ''poweruser'' then SR_PowerUser
      else if s = ''analyst'' then SR_Analyst
      else if s = ''admin'' then SR_Admin
      else SR_Custom s)"

fun role_as_str :: "StandardRole \<Rightarrow> string" where
  "role_as_str SR_User = ''user''"
| "role_as_str SR_PowerUser = ''power-user''"
| "role_as_str SR_Analyst = ''analyst''"
| "role_as_str SR_Admin = ''admin''"
| "role_as_str (SR_Custom name) = name"

datatype BillingTier = Free | Pro | Enterprise | Tier_Custom string

definition tier_from_string :: "string \<Rightarrow> BillingTier" where
  "tier_from_string s =
     (if s = ''free'' then Free else if s = ''pro'' then Pro else if s = ''enterprise'' then Enterprise
      else Tier_Custom s)"

fun tier_as_str :: "BillingTier \<Rightarrow> string" where
  "tier_as_str Free = ''free''"
| "tier_as_str Pro = ''pro''"
| "tier_as_str Enterprise = ''enterprise''"
| "tier_as_str (Tier_Custom s) = s"

section \<open>Capabilities\<close>

record RoleCapabilities =
  can_execute :: bool
  can_submit_requests :: bool
  can_read_models :: bool
  can_use_any_model :: bool
  can_use_any_provider :: bool
  can_read_usage :: bool
  can_read_logs :: bool
  can_manage_keys :: bool
  can_manage_config :: bool
  can_manage_team :: bool
  can_manage_budget :: bool
  custom_capabilities :: "string set"

definition caps_user :: RoleCapabilities where
  "caps_user =
     \<lparr>can_execute = True, can_submit_requests = True, can_read_models = True, can_use_any_model = False,
      can_use_any_provider = False, can_read_usage = False, can_read_logs = False, can_manage_keys = False,
      can_manage_config = False, can_manage_team = False, can_manage_budget = False,
      custom_capabilities = {}\<rparr>"

definition caps_power_user :: RoleCapabilities where
  "caps_power_user =
     \<lparr>can_execute = True, can_submit_requests = True, can_read_models = True, can_use_any_model = True,
      can_use_any_provider = True, can_read_usage = False, can_read_logs = False, can_manage_keys = False,
      can_manage_config = False, can_manage_team = False, can_manage_budget = False,
      custom_capabilities = {}\<rparr>"

definition caps_analyst :: RoleCapabilities where
  "caps_analyst =
     \<lparr>can_execute = False, can_submit_requests = False, can_read_models = True, can_use_any_model = False,
      can_use_any_provider = False, can_read_usage = True, can_read_logs = True, can_manage_keys = False,
      can_manage_config = False, can_manage_team = False, can_manage_budget = False,
      custom_capabilities = {}\<rparr>"

definition caps_admin :: RoleCapabilities where
  "caps_admin =
     \<lparr>can_execute = True, can_submit_requests = True, can_read_models = True, can_use_any_model = True,
      can_use_any_provider = True, can_read_usage = True, can_read_logs = True, can_manage_keys = True,
      can_manage_config = True, can_manage_team = True, can_manage_budget = True,
      custom_capabilities = {}\<rparr>"

definition caps_merge :: "RoleCapabilities \<Rightarrow> RoleCapabilities \<Rightarrow> RoleCapabilities" where
  "caps_merge a b =
     \<lparr>can_execute = (can_execute a \<or> can_execute b),
      can_submit_requests = (can_submit_requests a \<or> can_submit_requests b),
      can_read_models = (can_read_models a \<or> can_read_models b),
      can_use_any_model = (can_use_any_model a \<or> can_use_any_model b),
      can_use_any_provider = (can_use_any_provider a \<or> can_use_any_provider b),
      can_read_usage = (can_read_usage a \<or> can_read_usage b),
      can_read_logs = (can_read_logs a \<or> can_read_logs b),
      can_manage_keys = (can_manage_keys a \<or> can_manage_keys b),
      can_manage_config = (can_manage_config a \<or> can_manage_config b),
      can_manage_team = (can_manage_team a \<or> can_manage_team b),
      can_manage_budget = (can_manage_budget a \<or> can_manage_budget b),
      custom_capabilities = custom_capabilities a \<union> custom_capabilities b\<rparr>"

text \<open>Granting at least as much.\<close>

definition caps_le :: "RoleCapabilities \<Rightarrow> RoleCapabilities \<Rightarrow> bool" where
  "caps_le a b \<longleftrightarrow>
     (can_execute a \<le> can_execute b) \<and> (can_submit_requests a \<le> can_submit_requests b)
     \<and> (can_read_models a \<le> can_read_models b) \<and> (can_use_any_model a \<le> can_use_any_model b)
     \<and> (can_use_any_provider a \<le> can_use_any_provider b) \<and> (can_read_usage a \<le> can_read_usage b)
     \<and> (can_read_logs a \<le> can_read_logs b) \<and> (can_manage_keys a \<le> can_manage_keys b)
     \<and> (can_manage_config a \<le> can_manage_config b) \<and> (can_manage_team a \<le> can_manage_team b)
     \<and> (can_manage_budget a \<le> can_manage_budget b)
     \<and> custom_capabilities a \<subseteq> custom_capabilities b"

section \<open>Vendor roles\<close>

type_synonym VendorRoleMapping = "string \<rightharpoonup> string"

definition vendor_zitadel :: VendorRoleMapping where
  "vendor_zitadel = [''admin'' \<mapsto> ''admin'', ''editor'' \<mapsto> ''power-user'', ''viewer'' \<mapsto> ''analyst'',
     ''member'' \<mapsto> ''user'']"

definition vendor_auth0 :: VendorRoleMapping where
  "vendor_auth0 = [''Admin'' \<mapsto> ''admin'', ''Editor'' \<mapsto> ''power-user'', ''Viewer'' \<mapsto> ''analyst'',
     ''User'' \<mapsto> ''user'']"

definition vendor_keycloak :: VendorRoleMapping where
  "vendor_keycloak = [''realm-admin'' \<mapsto> ''admin'', ''realm-editor'' \<mapsto> ''power-user'',
     ''realm-viewer'' \<mapsto> ''analyst'', ''realm-user'' \<mapsto> ''user'']"

definition vendor_entra :: VendorRoleMapping where
  "vendor_entra = [''GlobalAdmin'' \<mapsto> ''admin'', ''Admin'' \<mapsto> ''admin'', ''Editor'' \<mapsto> ''power-user'',
     ''Reader'' \<mapsto> ''analyst'', ''User'' \<mapsto> ''user'']"

definition vendor_okta :: VendorRoleMapping where
  "vendor_okta = [''System Administrator'' \<mapsto> ''admin'', ''Organization Administrator'' \<mapsto> ''admin'',
     ''Application Administrator'' \<mapsto> ''power-user'', ''Group Administrator'' \<mapsto> ''power-user'',
     ''User Administrator'' \<mapsto> ''analyst'', ''Help Desk Administrator'' \<mapsto> ''analyst'',
     ''Okta User'' \<mapsto> ''user'']"

definition vendor_ping_identity :: VendorRoleMapping where
  "vendor_ping_identity = [''Administrator'' \<mapsto> ''admin'', ''Editor'' \<mapsto> ''power-user'',
     ''Auditor'' \<mapsto> ''analyst'', ''User'' \<mapsto> ''user'']"

definition vendor_map :: "VendorRoleMapping \<Rightarrow> string \<Rightarrow> string" where
  "vendor_map m vendor_role = unwrap_or (m vendor_role) vendor_role"

definition vendor_insert :: "string \<Rightarrow> string \<Rightarrow> VendorRoleMapping \<Rightarrow> VendorRoleMapping" where
  "vendor_insert vendor_role standard_role m = m(vendor_role \<mapsto> standard_role)"

lemma role_as_str_from_string: "role_as_str (role_from_string s) = (if s = ''poweruser'' then ''power-user'' else s)"
  by (simp add: role_from_string_def)

lemma role_from_string_as_str: "role_from_string (role_as_str (role_from_string s)) = role_from_string s"
  by (simp add: role_as_str_from_string role_from_string_def)

lemma tier_roundtrip: "tier_as_str (tier_from_string s) = s"
  by (simp add: tier_from_string_def)

lemma vendor_roles_standard:
  assumes "m \<in> set [vendor_zitadel, vendor_auth0, vendor_keycloak, vendor_entra, vendor_okta, vendor_ping_identity]"
    and "m r = Some s"
  shows "role_from_string s \<in> {SR_User, SR_PowerUser, SR_Analyst, SR_Admin}"
  using assms
  by (auto simp: vendor_zitadel_def vendor_auth0_def vendor_keycloak_def vendor_entra_def vendor_okta_def
      vendor_ping_identity_def role_from_string_def split: if_splits)

section \<open>Properties\<close>

text \<open>Merging capabilities is most-permissive-wins and nothing more: the merge grants everything
  either side grants, and anything that grants both sides grants the merge; and the admin role grants
  all that the other standard roles do, which no merge of the others does.\<close>

theorem capabilities_merge_least_upper_bound:
  "caps_le a (caps_merge a b) \<and> caps_le b (caps_merge a b) \<and>
   (caps_le a c \<and> caps_le b c \<longleftrightarrow> caps_le (caps_merge a b) c) \<and>
   caps_le (caps_merge caps_user (caps_merge caps_power_user caps_analyst)) caps_admin \<and>
   \<not> caps_le caps_admin (caps_merge caps_user (caps_merge caps_power_user caps_analyst))"
proof -
  have le: "(x \<or> y) \<le> z \<longleftrightarrow> x \<le> z \<and> y \<le> z" for x y z :: bool by auto
  have "caps_le a (caps_merge a b)" "caps_le b (caps_merge a b)"
    by (simp_all add: caps_le_def caps_merge_def le_bool_def)
  moreover have "caps_le a c \<and> caps_le b c \<longleftrightarrow> caps_le (caps_merge a b) c"
    by (simp add: caps_le_def caps_merge_def le conj_ac)
  ultimately show ?thesis
    by (simp add: caps_le_def caps_merge_def caps_user_def caps_power_user_def caps_analyst_def caps_admin_def)
qed

end
