(* ===== verification/Gateway_Config.thy ===== *)
theory Gateway_Config
  imports Core_Types Net_Guard
begin

text \<open>
  The configuration (\<^verbatim>\<open>himadri-core/src/config.rs\<close>) and the walk from a principal to the scopes that
  apply to it (\<^verbatim>\<open>scope.rs\<close>). Hash maps are maps. Reading a file and parsing JSON are parameters of the
  loader.
\<close>

section \<open>Guardrail settings\<close>

datatype PiiModeConfig = Pii_Redact | Pii_Block | Pii_Observe

datatype PiiStrategyConfig = Pii_Replace | Pii_Mask | Pii_Hash | Pii_Encrypt | Pii_Remove

datatype PiiResponseModeConfig = Resp_Off | Resp_Observe | Resp_Redact | Resp_Block

record PiiGuardrailConfig =
  pii_enabled :: bool
  pii_mode :: PiiModeConfig
  pii_strategy :: PiiStrategyConfig
  pii_entities :: "string list option"
  pii_min_confidence :: rat
  pii_apply_to :: "string list"
  pii_scan_tool_arguments :: bool
  pii_fail_open :: bool
  pii_response_mode :: PiiResponseModeConfig

definition PiiGuardrailConfig_default :: PiiGuardrailConfig where
  "PiiGuardrailConfig_default =
     \<lparr>pii_enabled = False, pii_mode = Pii_Redact, pii_strategy = Pii_Replace, pii_entities = None,
      pii_min_confidence = 3/5, pii_apply_to = [''user'', ''system'', ''tool''],
      pii_scan_tool_arguments = False, pii_fail_open = False, pii_response_mode = Resp_Off\<rparr>"

record GuardrailsConfig =
  gr_pii :: PiiGuardrailConfig

record ContentFilterConfig =
  cf_enabled :: bool
  cf_block_pii :: bool
  cf_block_toxicity :: bool
  cf_custom_patterns :: "string list"

record AuditConfig =
  ac_enabled :: bool
  ac_log_requests :: bool
  ac_log_responses :: bool
  ac_redact_pii :: bool
  ac_retention_days :: "u32 option"

record OrgGuardrailConfig =
  og_enabled :: bool
  og_blocked_words :: "string list"
  og_max_tokens_per_request :: "u32 option"
  og_content_filter :: "ContentFilterConfig option"
  og_pii :: "PiiGuardrailConfig option"
  og_audit :: AuditConfig

section \<open>Access, limits and organisations\<close>

record RolePolicy =
  rpol_models :: "string list option"
  rpol_providers :: "string list option"

record RbacConfig =
  rb_enabled :: bool
  rb_roles :: "string \<rightharpoonup> RolePolicy"
  rb_default_role :: "string option"

record CorsConfig =
  cors_enabled :: bool
  cors_allowed_origins :: "string list"
  cors_allowed_methods :: "string list"
  cors_allowed_headers :: "string list"

definition CorsConfig_default :: CorsConfig where
  "CorsConfig_default =
     \<lparr>cors_enabled = True, cors_allowed_origins = [],
      cors_allowed_methods = [''GET'', ''POST'', ''PUT'', ''DELETE'', ''OPTIONS''],
      cors_allowed_headers = [''Authorization'', ''Content-Type'']\<rparr>"

record RateLimitSettings =
  rls_enabled :: bool
  rls_requests_per_second :: u64
  rls_burst_size :: u64

definition RateLimitSettings_default :: RateLimitSettings where
  "RateLimitSettings_default = \<lparr>rls_enabled = False, rls_requests_per_second = 100, rls_burst_size = 200\<rparr>"

record OrgTokenBudget =
  otb_max_tokens_per_request :: "u32 option"
  otb_max_tokens_per_day :: "u64 option"
  otb_max_tokens_per_month :: "u64 option"
  otb_cost_limit_per_day :: "rat option"
  otb_cost_limit_per_month :: "rat option"

record TeamConfig =
  tm_name :: "string option"
  tm_enabled :: bool
  tm_allowed_models :: "string list option"
  tm_blocked_models :: "string list option"
  tm_rate_limit :: "RateLimitSettings option"
  tm_token_budget :: "OrgTokenBudget option"
  tm_guardrails :: OrgGuardrailConfig

record OrgConfig =
  org_name :: "string option"
  org_enabled :: bool
  org_allowed_models :: "string list option"
  org_blocked_models :: "string list option"
  org_rate_limit :: "RateLimitSettings option"
  org_token_budget :: "OrgTokenBudget option"
  org_guardrails :: OrgGuardrailConfig
  org_teams :: "string \<rightharpoonup> TeamConfig"

section \<open>Routing strategy settings\<close>

datatype StrategyMode =
  Mode_Single | Mode_Fallback | Mode_LoadBalance | Mode_LeastLatency | Mode_CostOptimized
  | Mode_Conditional | Mode_ContentBased | Mode_ABTest

datatype ConditionKeyConfig = Key_Model | Key_ModelPrefix

record ConditionalRuleConfig =
  crc_key :: ConditionKeyConfig
  crc_value :: string
  crc_target :: Target

datatype ContentConditionTypeConfig = Cond_PromptContains | Cond_PromptNotContains | Cond_PromptRegex

record ContentRuleConfig =
  ctc_condition_type :: ContentConditionTypeConfig
  ctc_value :: string
  ctc_target :: Target

record ABVariantConfig =
  abc_target :: Target
  abc_weight :: rat
  abc_label :: string

record StrategyConfig =
  stc_mode :: StrategyMode
  stc_fallback_timeout_ms :: u64
  stc_conditional_rules :: "ConditionalRuleConfig list"
  stc_content_rules :: "ContentRuleConfig list"
  stc_ab_variants :: "ABVariantConfig list"
  stc_strategy_fallback :: "Target option"

definition StrategyConfig_default :: StrategyConfig where
  "StrategyConfig_default =
     \<lparr>stc_mode = Mode_Single, stc_fallback_timeout_ms = 30000, stc_conditional_rules = [],
      stc_content_rules = [], stc_ab_variants = [], stc_strategy_fallback = None\<rparr>"

section \<open>The whole configuration\<close>

record TracingConfig =
  tr_enabled :: bool
  tr_service_name :: string
  tr_endpoint :: "string option"
  tr_sample_ratio :: rat

record MetricsConfig =
  mc_enabled :: bool
  mc_path :: string

record ObservabilityConfig =
  ob_tracing :: TracingConfig
  ob_metrics :: MetricsConfig

definition ObservabilityConfig_default :: ObservabilityConfig where
  "ObservabilityConfig_default =
     \<lparr>ob_tracing = \<lparr>tr_enabled = False, tr_service_name = ''himadri'', tr_endpoint = None, tr_sample_ratio = 1\<rparr>,
      ob_metrics = \<lparr>mc_enabled = True, mc_path = ''/metrics''\<rparr>\<rparr>"

record AdminConfig =
  adm_master_key :: "string option"

record Config =
  cfg_strategy :: StrategyConfig
  cfg_targets :: "Target list"
  cfg_observability :: ObservabilityConfig
  cfg_rate_limit :: RateLimitSettings
  cfg_admin :: AdminConfig
  cfg_orgs :: "string \<rightharpoonup> OrgConfig"
  cfg_cors :: CorsConfig
  cfg_rbac :: RbacConfig
  cfg_guardrails :: GuardrailsConfig

definition Config_default :: Config where
  "Config_default =
     \<lparr>cfg_strategy = StrategyConfig_default,
      cfg_targets = [\<lparr>tg_id = None, tg_provider = ''openai'', tg_weight = 1, tg_models = None,
                      tg_api_key_env = Some ''OPENAI_API_KEY'', tg_base_url = None\<rparr>],
      cfg_observability = ObservabilityConfig_default,
      cfg_rate_limit = RateLimitSettings_default,
      cfg_admin = \<lparr>adm_master_key = None\<rparr>,
      cfg_orgs = Map.empty,
      cfg_cors = CorsConfig_default,
      cfg_rbac = \<lparr>rb_enabled = False, rb_roles = Map.empty, rb_default_role = None\<rparr>,
      cfg_guardrails = \<lparr>gr_pii = PiiGuardrailConfig_default\<rparr>\<rparr>"

definition config_validate :: "Config \<Rightarrow> (ConfigError, unit) result" where
  "config_validate c =
     (if cfg_targets c = [] then Err (MissingField ''targets'')
      else if \<exists>t\<in>set (cfg_targets c). tg_provider t = [] then Err (MissingField ''target.provider'')
      else Ok ())"

text \<open>The mapping of the deprecated flag, on one guardrail section and on the whole configuration.\<close>

definition shim :: "OrgGuardrailConfig \<Rightarrow> OrgGuardrailConfig" where
  "shim g =
     (let block_pii = og_enabled g \<and> is_some_and (og_content_filter g) (\<lambda>cf. cf_enabled cf \<and> cf_block_pii cf)
      in if block_pii \<and> og_pii g = None
         then g\<lparr>og_pii := Some (PiiGuardrailConfig_default\<lparr>pii_enabled := True, pii_mode := Pii_Block\<rparr>)\<rparr>
         else g)"

definition apply_guardrail_deprecations :: "Config \<Rightarrow> Config" where
  "apply_guardrail_deprecations c =
     c\<lparr>cfg_orgs := \<lambda>org_id. map_option
        (\<lambda>org. org\<lparr>org_guardrails := shim (org_guardrails org),
                   org_teams := \<lambda>team_id. map_option (\<lambda>t. t\<lparr>tm_guardrails := shim (tm_guardrails t)\<rparr>)
                                              (org_teams org team_id)\<rparr>)
        (cfg_orgs c org_id)\<rparr>"

text \<open>The extension of a path: what follows the last dot of its last component, unless that dot
  starts the component.\<close>

definition path_extension :: "string \<Rightarrow> string option" where
  "path_extension path =
     (case filter (\<lambda>s. s \<noteq> [] \<and> s \<noteq> ''.'') (split_char (CHR ''/'') path) of
        [] \<Rightarrow> None
      | comps \<Rightarrow>
          (let name = last comps; parts = split_char (CHR ''.'') name
           in if length parts < 2 \<or> name = ''..'' \<or> length parts = 2 \<and> hd parts = []
              then None else Some (last parts)))"

definition load_from_file ::
    "(string \<Rightarrow> (string, string) result) \<Rightarrow> (string \<Rightarrow> (string, Config) result) \<Rightarrow> string \<Rightarrow>
     (ConfigError, Config) result" where
  "load_from_file read_to_string from_json path =
     (case read_to_string path of
        Err e \<Rightarrow> Err (Io e)
      | Ok content \<Rightarrow>
          (let ext = unwrap_or (path_extension path) ''json'' in
           if ext = ''json'' then
             (case from_json content of
                Err e \<Rightarrow> Err (Parse e)
              | Ok c \<Rightarrow> Ok (apply_guardrail_deprecations c))
           else Err (InvalidValue ''config_file'' (''unsupported extension: '' @ ext))))"

definition load_from_env ::
    "env_vars \<Rightarrow> (string \<Rightarrow> (string, string) result) \<Rightarrow> (string \<Rightarrow> (string, Config) result) \<Rightarrow>
     (ConfigError, Config) result" where
  "load_from_env env read_to_string from_json =
     (case env ''GATEWAY_CONFIG'' of
        Some path \<Rightarrow> load_from_file read_to_string from_json path
      | None \<Rightarrow> Ok Config_default)"

section \<open>Scopes\<close>

datatype ScopeKind = Org | Team

fun scope_kind_str :: "ScopeKind \<Rightarrow> string" where
  "scope_kind_str Org = ''org''"
| "scope_kind_str Team = ''team''"

record Scope =
  sp_kind :: ScopeKind
  sp_id :: string
  sp_allowed_models :: "string list option"
  sp_blocked_models :: "string list option"
  sp_token_budget :: "OrgTokenBudget option"
  sp_guardrails :: OrgGuardrailConfig

definition scopes :: "Config \<Rightarrow> string option \<Rightarrow> string option \<Rightarrow> Scope list" where
  "scopes c org_id team_id =
     (case org_id of
        None \<Rightarrow> []
      | Some oid \<Rightarrow>
          (case cfg_orgs c oid of
             None \<Rightarrow> []
           | Some org \<Rightarrow>
               \<lparr>sp_kind = Org, sp_id = oid, sp_allowed_models = org_allowed_models org,
                sp_blocked_models = org_blocked_models org, sp_token_budget = org_token_budget org,
                sp_guardrails = org_guardrails org\<rparr>
               # (case team_id of
                    None \<Rightarrow> []
                  | Some tid \<Rightarrow>
                      (case org_teams org tid of
                         None \<Rightarrow> []
                       | Some team \<Rightarrow>
                           [\<lparr>sp_kind = Team, sp_id = tid, sp_allowed_models = tm_allowed_models team,
                             sp_blocked_models = tm_blocked_models team, sp_token_budget = tm_token_budget team,
                             sp_guardrails = tm_guardrails team\<rparr>]))))"

lemma scopes_length: "length (scopes c oid tid) \<le> 2"
  by (auto simp: scopes_def split: option.split)

lemma scopes_nth_kind: "s \<in> set (scopes c oid tid) \<Longrightarrow> sp_kind s = Team \<Longrightarrow> length (scopes c oid tid) = 2"
  by (auto simp: scopes_def split: option.splits)

lemma shim_idem [simp]: "shim (shim g) = shim g"
  by (simp add: shim_def Let_def)

section \<open>Properties\<close>

text \<open>The mapping of the deprecated flag is safe to repeat and changes nothing else: applied twice
  it is applied once, and every scope of every principal keeps its rules, its explicit PII section and
  its other guardrails; a PII section appears only where the flag asked for one, enabled and in block
  mode.\<close>

theorem deprecation_shim_conservative:
  "apply_guardrail_deprecations (apply_guardrail_deprecations c) = apply_guardrail_deprecations c \<and>
   scopes (apply_guardrail_deprecations c) org team =
     map (\<lambda>s. s\<lparr>sp_guardrails := shim (sp_guardrails s)\<rparr>) (scopes c org team) \<and>
   og_pii (shim g) =
     (case og_pii g of
        Some p \<Rightarrow> Some p
      | None \<Rightarrow> if og_enabled g \<and> is_some_and (og_content_filter g) (\<lambda>cf. cf_enabled cf \<and> cf_block_pii cf)
                then Some (PiiGuardrailConfig_default\<lparr>pii_enabled := True, pii_mode := Pii_Block\<rparr>) else None) \<and>
   shim g = g\<lparr>og_pii := og_pii (shim g)\<rparr>"
proof -
  have "apply_guardrail_deprecations (apply_guardrail_deprecations c) = apply_guardrail_deprecations c"
    by (simp add: apply_guardrail_deprecations_def option.map_comp comp_def fun_eq_iff)
  moreover have "scopes (apply_guardrail_deprecations c) org team =
      map (\<lambda>s. s\<lparr>sp_guardrails := shim (sp_guardrails s)\<rparr>) (scopes c org team)"
    by (auto simp: scopes_def apply_guardrail_deprecations_def split: option.split)
  moreover have "shim g = g\<lparr>og_pii := og_pii (shim g)\<rparr>" by (simp add: shim_def Let_def)
  ultimately show ?thesis by (simp add: shim_def Let_def split: option.split)
qed

end
