(* ===== verification/Routing_Strategy.thy ===== *)
theory Routing_Strategy
  imports Gateway_Config "HOL-Library.Multiset"
begin

text \<open>
  The routing strategies (\<^verbatim>\<open>himadri/src/strategy.rs\<close>) and the latency store they consult
  (\<^verbatim>\<open>latency_store.rs\<close>). Random draws, Unicode lower-casing and regular expressions are parameters;
  weights are rational numbers.
\<close>

section \<open>Latency store\<close>

record LatencyEntry =
  le_sum :: u64
  le_count :: u64

type_synonym LatencyStore = "string \<rightharpoonup> LatencyEntry"

definition latency_record :: "string \<Rightarrow> u64 \<Rightarrow> LatencyStore \<Rightarrow> LatencyStore" where
  "latency_record provider latency_ms st =
     (let e = (case st provider of Some e \<Rightarrow> e | None \<Rightarrow> \<lparr>le_sum = 0, le_count = 0\<rparr>)
      in st(provider \<mapsto> \<lparr>le_sum = le_sum e + latency_ms, le_count = le_count e + 1\<rparr>))"

definition get_avg_latency :: "LatencyStore \<Rightarrow> string \<Rightarrow> u64" where
  "get_avg_latency st provider =
     (case st provider of
        Some e \<Rightarrow> unwrap_or (checked_div (le_sum e) (le_count e)) (- 1)
      | None \<Rightarrow> - 1)"

section \<open>Strategies\<close>

datatype ConditionKey = Model | ModelPrefix

record ConditionRule =
  cdr_key :: ConditionKey
  cdr_value :: string
  cdr_target :: Target

datatype ContentConditionType = PromptContains | PromptNotContains | PromptRegex

text \<open>A compiled regular expression is its match predicate.\<close>

record ContentRule =
  ctr_condition_type :: ContentConditionType
  ctr_value :: string
  ctr_target :: Target
  ctr_compiled_regex :: "(string \<Rightarrow> bool) option"

record ABTestVariant =
  abv_target :: Target
  abv_weight :: rat

datatype Strategy =
    Single_strategy
  | Fallback
  | LoadBalance
  | LeastLatency LatencyStore
  | CostOptimized
  | Conditional "ConditionRule list" "Target option"
  | ContentBased "ContentRule list" "Target option"
  | ABTest "ABTestVariant list"

fun from_mode :: "StrategyMode \<Rightarrow> Strategy" where
  "from_mode Mode_Single = Single_strategy"
| "from_mode Mode_Fallback = Fallback"
| "from_mode Mode_LoadBalance = LoadBalance"
| "from_mode Mode_LeastLatency = LeastLatency Map.empty"
| "from_mode Mode_CostOptimized = CostOptimized"
| "from_mode Mode_Conditional = Conditional [] None"
| "from_mode Mode_ContentBased = ContentBased [] None"
| "from_mode Mode_ABTest = ABTest []"

fun condition_key_of :: "ConditionKeyConfig \<Rightarrow> ConditionKey" where
  "condition_key_of Key_Model = Model"
| "condition_key_of Key_ModelPrefix = ModelPrefix"

fun content_condition_of :: "ContentConditionTypeConfig \<Rightarrow> ContentConditionType" where
  "content_condition_of Cond_PromptContains = PromptContains"
| "content_condition_of Cond_PromptNotContains = PromptNotContains"
| "content_condition_of Cond_PromptRegex = PromptRegex"

text \<open>\<open>regex_new\<close> stands for \<^verbatim>\<open>Regex::new\<close>; a pattern that does not compile has no matcher.\<close>

definition from_strategy_config :: "(string \<Rightarrow> (string \<Rightarrow> bool) option) \<Rightarrow> StrategyConfig \<Rightarrow> Strategy" where
  "from_strategy_config regex_new c =
     (case stc_mode c of
        Mode_Conditional \<Rightarrow>
          Conditional (map (\<lambda>r. \<lparr>cdr_key = condition_key_of (crc_key r), cdr_value = crc_value r,
                                  cdr_target = crc_target r\<rparr>) (stc_conditional_rules c))
            (stc_strategy_fallback c)
      | Mode_ContentBased \<Rightarrow>
          ContentBased (map (\<lambda>r. \<lparr>ctr_condition_type = content_condition_of (ctc_condition_type r),
                                   ctr_value = ctc_value r, ctr_target = ctc_target r,
                                   ctr_compiled_regex = (case ctc_condition_type r of
                                       Cond_PromptRegex \<Rightarrow> regex_new (ctc_value r) | _ \<Rightarrow> None)\<rparr>)
                         (stc_content_rules c))
            (stc_strategy_fallback c)
      | Mode_ABTest \<Rightarrow>
          ABTest (map (\<lambda>v. \<lparr>abv_target = abc_target v, abv_weight = abc_weight v\<rparr>) (stc_ab_variants c))
      | other \<Rightarrow> from_mode other)"

definition matches_condition :: "ConditionRule \<Rightarrow> ChatCompletionRequest \<Rightarrow> bool" where
  "matches_condition rule request =
     (case cdr_key rule of
        Model \<Rightarrow> cr_model request = cdr_value rule
      | ModelPrefix \<Rightarrow> starts_with (cdr_value rule) (cr_model request))"

definition extract_user_content :: "ChatCompletionRequest \<Rightarrow> string" where
  "extract_user_content request =
     join '' '' (map flat_text (List.map_filter msg_content
       (filter (\<lambda>m. msg_role m = User) (cr_messages request))))"

definition matches_content_rule :: "(string \<Rightarrow> string) \<Rightarrow> ContentRule \<Rightarrow> ChatCompletionRequest \<Rightarrow> bool" where
  "matches_content_rule lower rule request =
     (let user_content = extract_user_content request in
      case ctr_condition_type rule of
        PromptContains \<Rightarrow> str_contains (lower (ctr_value rule)) (lower user_content)
      | PromptNotContains \<Rightarrow> \<not> str_contains (lower (ctr_value rule)) (lower user_content)
      | PromptRegex \<Rightarrow> (case ctr_compiled_regex rule of Some re \<Rightarrow> re user_content | None \<Rightarrow> False))"

section \<open>Weighted choices\<close>

abbreviation clamped :: "Target \<Rightarrow> rat" where
  "clamped t \<equiv> max (tg_weight t) 0"

text \<open>The index at which the running remainder of the draw first drops to zero or below.\<close>

fun weighted_index :: "rat \<Rightarrow> Target list \<Rightarrow> nat option" where
  "weighted_index r [] = None"
| "weighted_index r (t # ts) =
     (let r' = r - clamped t in if r' \<le> 0 then Some 0 else map_option Suc (weighted_index r' ts))"

text \<open>\<open>rng i total\<close> is the \<open>i\<close>-th draw of the request, from the interval between 0 and \<open>total\<close>.\<close>

definition lb_index :: "(nat \<Rightarrow> rat \<Rightarrow> rat) \<Rightarrow> nat \<Rightarrow> Target list \<Rightarrow> nat" where
  "lb_index rng i remaining =
     (let total = sum_list (map clamped remaining) in
      if total \<le> 0 then 0
      else unwrap_or (weighted_index (rng i total) remaining) (length remaining - 1))"

lemma weighted_index_less: "weighted_index r ts = Some i \<Longrightarrow> i < length ts"
  by (induction ts arbitrary: r i) (auto simp: Let_def split: if_splits)

lemma lb_index_less: "ts \<noteq> [] \<Longrightarrow> lb_index rng i ts < length ts"
  by (auto simp: lb_index_def Let_def unwrap_or_def weighted_index_less split: option.split)

function lb_order :: "(nat \<Rightarrow> rat \<Rightarrow> rat) \<Rightarrow> nat \<Rightarrow> Target list \<Rightarrow> Target list" where
  "lb_order rng i remaining =
     (if remaining = [] then []
      else let idx = lb_index rng i remaining
           in remaining ! idx # lb_order rng (Suc i) (take idx remaining @ drop (Suc idx) remaining))"
  by pat_completeness auto
termination
proof (relation "measure (\<lambda>(rng, i, ts). length ts)")
  fix rng i and remaining :: "Target list" and idx
  assume "remaining \<noteq> []" "idx = lb_index rng i remaining"
  then have "idx < length remaining" by (simp add: lb_index_less)
  then show "((rng, Suc i, take idx remaining @ drop (Suc idx) remaining), rng, i, remaining)
      \<in> measure (\<lambda>(rng, i, ts). length ts)" by simp
qed simp

declare lb_order.simps [simp del]

definition ab_weight :: "ABTestVariant \<Rightarrow> rat" where
  "ab_weight v = (if abv_weight v \<le> 0 then 1 else abv_weight v)"

fun ab_find :: "rat \<Rightarrow> rat \<Rightarrow> ABTestVariant list \<Rightarrow> Target option" where
  "ab_find r cumulative [] = None"
| "ab_find r cumulative (v # vs) =
     (let cumulative = cumulative + ab_weight v
      in if r < cumulative then Some (abv_target v) else ab_find r cumulative vs)"

definition select_ab_test_variant ::
    "(nat \<Rightarrow> rat \<Rightarrow> rat) \<Rightarrow> ABTestVariant list \<Rightarrow> Target list \<Rightarrow> (GatewayError, Target) result" where
  "select_ab_test_variant rng variants targets =
     (if variants = [] then
        (case targets of t # _ \<Rightarrow> Ok t | [] \<Rightarrow> Err (Internal ''No targets''))
      else
        (let total_weight = sum_list (map ab_weight variants) in
         case ab_find (rng 0 total_weight) 0 variants of
           Some t \<Rightarrow> Ok t
         | None \<Rightarrow> Ok (abv_target (last variants))))"

section \<open>Selection\<close>

definition ordered_with_primary :: "Target option \<Rightarrow> Target list \<Rightarrow> Target list" where
  "ordered_with_primary primary targets = (case primary of Some p \<Rightarrow> p # targets | None \<Rightarrow> targets)"

type_synonym endpoint = "string option \<times> string \<times> string option \<times> string option"

definition endpoint_of :: "Target \<Rightarrow> endpoint" where
  "endpoint_of t = (tg_id t, tg_provider t, tg_api_key_env t, tg_base_url t)"

fun dedup_from :: "endpoint set \<Rightarrow> Target list \<Rightarrow> Target list" where
  "dedup_from seen [] = []"
| "dedup_from seen (t # ts) =
     (if endpoint_of t \<in> seen then dedup_from seen ts
      else t # dedup_from (insert (endpoint_of t) seen) ts)"

definition dedup_targets :: "Target list \<Rightarrow> Target list" where
  "dedup_targets ts = dedup_from {} ts"

definition order_targets ::
    "(string \<Rightarrow> string) \<Rightarrow> (nat \<Rightarrow> rat \<Rightarrow> rat) \<Rightarrow> Strategy \<Rightarrow> ChatCompletionRequest \<Rightarrow> Target list \<Rightarrow> Target list" where
  "order_targets lower rng strat request targets =
     (case strat of
        Single_strategy \<Rightarrow> [hd targets]
      | Fallback \<Rightarrow> targets
      | LoadBalance \<Rightarrow> lb_order rng 0 targets
      | LeastLatency st \<Rightarrow>
          map snd (sort_key fst (map (\<lambda>t. (get_avg_latency st (tg_provider t), t)) targets))
      | CostOptimized \<Rightarrow> sort_key tg_weight targets
      | Conditional rules fallback \<Rightarrow>
          ordered_with_primary
            (or_else (map_option cdr_target (find (\<lambda>r. matches_condition r request) rules)) fallback) targets
      | ContentBased rules fallback \<Rightarrow>
          ordered_with_primary
            (or_else (map_option ctr_target (find (\<lambda>r. matches_content_rule lower r request) rules)) fallback) targets
      | ABTest variants \<Rightarrow>
          ordered_with_primary
            (case select_ab_test_variant rng variants targets of Ok t \<Rightarrow> Some t | Err _ \<Rightarrow> None) targets)"

definition select_ordered ::
    "(string \<Rightarrow> string) \<Rightarrow> (nat \<Rightarrow> rat \<Rightarrow> rat) \<Rightarrow> Strategy \<Rightarrow> ChatCompletionRequest \<Rightarrow> Target list \<Rightarrow>
     (GatewayError, Target list) result" where
  "select_ordered lower rng strat request targets =
     (if targets = [] then Err (Internal ''No targets configured'')
      else Ok (dedup_targets (order_targets lower rng strat request targets)))"

subsection \<open>Order and duplicates\<close>

lemma lb_order_mset: "mset (lb_order rng i ts) = mset ts"
proof (induction rng i ts rule: lb_order.induct)
  case (1 rng i ts)
  show ?case
  proof (cases "ts = []")
    case False
    let ?idx = "lb_index rng i ts"
    have less: "?idx < length ts" using False by (rule lb_index_less)
    have "mset (lb_order rng i ts) = add_mset (ts ! ?idx) (mset (take ?idx ts @ drop (Suc ?idx) ts))"
      using 1 False by (subst lb_order.simps) (simp add: Let_def)
    also have "\<dots> = mset (take ?idx ts @ ts ! ?idx # drop (Suc ?idx) ts)" by simp
    also have "take ?idx ts @ ts ! ?idx # drop (Suc ?idx) ts = ts" using less by (rule id_take_nth_drop [symmetric])
    finally show ?thesis .
  qed (simp add: lb_order.simps)
qed

lemma dedup_from_endpoints: "endpoint_of ` set (dedup_from seen ts) = endpoint_of ` set ts - seen"
  by (induction ts arbitrary: seen) auto

lemma dedup_from_distinct: "distinct (map endpoint_of (dedup_from seen ts))"
  by (induction ts arbitrary: seen) (auto simp: dedup_from_endpoints)

lemma dedup_from_subset: "set (dedup_from seen ts) \<subseteq> set ts"
  by (induction ts arbitrary: seen) auto

lemma dedup_from_sorted: "sorted (map f ts) \<Longrightarrow> sorted (map f (dedup_from seen ts))"
proof (induction ts arbitrary: seen)
  case (Cons t ts)
  then show ?case using dedup_from_subset by (auto dest!: subsetD)
qed simp

lemma dedup_targets_hd: "ts \<noteq> [] \<Longrightarrow> hd (dedup_targets ts) = hd ts \<and> dedup_targets ts \<noteq> []"
  by (cases ts) (simp_all add: dedup_targets_def)

text \<open>The targets a strategy names itself, besides the configured ones.\<close>

fun strategy_targets :: "Strategy \<Rightarrow> Target set" where
  "strategy_targets (Conditional rules fallback) = cdr_target ` set rules \<union> set_option fallback"
| "strategy_targets (ContentBased rules fallback) = ctr_target ` set rules \<union> set_option fallback"
| "strategy_targets (ABTest variants) = abv_target ` set variants"
| "strategy_targets _ = {}"

lemma ab_find_Some: "ab_find r acc vs = Some t \<Longrightarrow> t \<in> abv_target ` set vs"
  by (induction vs arbitrary: acc) (auto simp: Let_def split: if_splits)

lemma ab_variant_target:
  "select_ab_test_variant rng vs targets = Ok t \<Longrightarrow> t \<in> abv_target ` set vs \<union> set targets"
  by (auto simp: select_ab_test_variant_def Let_def dest: ab_find_Some split: if_splits list.splits option.splits)

lemma find_target: "find P rs = Some r \<Longrightarrow> r \<in> set rs"
  by (auto simp: find_Some_iff)

lemma order_targets_set:
  assumes "targets \<noteq> []" and "strat \<noteq> Single_strategy"
  shows "set targets \<subseteq> set (order_targets lower rng strat request targets) \<and>
     set (order_targets lower rng strat request targets) \<subseteq> set targets \<union> strategy_targets strat"
proof (cases strat)
  case LoadBalance
  then show ?thesis
    using mset_eq_setD [OF lb_order_mset [of rng 0 targets]] by (simp add: order_targets_def)
next
  case (Conditional rules fallback)
  then show ?thesis
    by (cases "find (\<lambda>r. matches_condition r request) rules"; cases fallback)
      (auto simp: order_targets_def ordered_with_primary_def dest: find_target)
next
  case (ContentBased rules fallback)
  then show ?thesis
    by (cases "find (\<lambda>r. matches_content_rule lower r request) rules"; cases fallback)
      (auto simp: order_targets_def ordered_with_primary_def dest: find_target)
next
  case (ABTest variants)
  then show ?thesis
    using ab_variant_target [of rng variants targets]
    by (auto simp: order_targets_def ordered_with_primary_def split: sum.splits)
qed (use assms in \<open>auto simp: order_targets_def image_image\<close>)

subsection \<open>Weights\<close>

definition prefix_weight :: "nat \<Rightarrow> Target list \<Rightarrow> rat" where
  "prefix_weight i ts = sum_list (map clamped (take i ts))"

lemma prefix_weight_0 [simp]: "prefix_weight 0 ts = 0"
  by (simp add: prefix_weight_def)

lemma prefix_weight_Suc [simp]: "prefix_weight (Suc i) (t # ts) = clamped t + prefix_weight i ts"
  by (simp add: prefix_weight_def)

lemma prefix_weight_nonneg: "0 \<le> prefix_weight i ts"
  unfolding prefix_weight_def by (rule sum_list_nonneg) auto

lemma weighted_index_interval:
  "0 < r \<Longrightarrow> weighted_index r ts = Some i \<Longrightarrow> prefix_weight i ts < r \<and> r \<le> prefix_weight (Suc i) ts"
proof (induction ts arbitrary: r i)
  case (Cons t ts)
  show ?case
  proof (cases "r - clamped t \<le> 0")
    case True
    with Cons.prems(2) have "i = 0" by (simp only: weighted_index.simps Let_def if_True option.inject)
    with True Cons.prems(1) show ?thesis by simp
  next
    case False
    with Cons.prems obtain j where j: "weighted_index (r - clamped t) ts = Some j" "i = Suc j"
      by (auto simp: Let_def)
    from False have "0 < r - clamped t" by (simp only: not_le)
    from Cons.IH [OF this j(1)] j(2) show ?thesis by (simp only: prefix_weight_Suc) linarith
  qed
qed simp

lemma weighted_index_None: "weighted_index r ts = None \<Longrightarrow> ts \<noteq> [] \<Longrightarrow> sum_list (map clamped ts) < r"
proof (induction ts arbitrary: r)
  case (Cons t ts)
  then have "0 < r - clamped t" and n: "weighted_index (r - clamped t) ts = None"
    by (auto simp: Let_def split: if_splits)
  with Cons.IH [OF n] show ?case by (cases "ts = []") auto
qed simp

section \<open>Properties\<close>

text \<open>Failover has somewhere to go and never retries an endpoint: for a non-empty target list every
  strategy but the single one yields an order in which each endpoint occurs once, every configured
  endpoint occurs, and nothing occurs that is neither configured nor named by the strategy's own
  rules.\<close>

theorem select_ordered_complete:
  assumes "targets \<noteq> []" and "strat \<noteq> Single_strategy"
  shows "\<exists>ts. select_ordered lower rng strat request targets = Ok ts \<and> ts \<noteq> [] \<and>
     distinct (map endpoint_of ts) \<and> endpoint_of ` set targets \<subseteq> endpoint_of ` set ts \<and>
     set ts \<subseteq> set targets \<union> strategy_targets strat"
proof -
  let ?o = "order_targets lower rng strat request targets"
  have o: "set targets \<subseteq> set ?o" "set ?o \<subseteq> set targets \<union> strategy_targets strat"
    using order_targets_set [OF assms] by auto
  with assms(1) have "?o \<noteq> []" by auto
  then have "dedup_targets ?o \<noteq> []" using dedup_targets_hd by blast
  with o assms(1) dedup_from_distinct [of "{}" ?o] dedup_from_endpoints [of "{}" ?o] dedup_from_subset [of "{}" ?o]
  show ?thesis by (auto simp: select_ordered_def dedup_targets_def)
qed

definition demo_target :: "string \<Rightarrow> rat \<Rightarrow> Target" where
  "demo_target p w = \<lparr>tg_id = None, tg_provider = p, tg_weight = w, tg_models = None,
     tg_api_key_env = None, tg_base_url = None\<rparr>"

theorem select_ordered_complete_witness:
  "\<exists>ts. select_ordered id (\<lambda>i total. total / 2) LoadBalance ChatCompletionRequest_default
     [demo_target ''a'' 1, demo_target ''b'' 3, demo_target ''a'' 2] = Ok ts \<and> ts \<noteq> [] \<and> distinct (map endpoint_of ts)"
  using select_ordered_complete [of "[demo_target ''a'' 1, demo_target ''b'' 3, demo_target ''a'' 2]" LoadBalance
      id "\<lambda>i total. total / 2" ChatCompletionRequest_default]
  by blast

text \<open>The primary is what the strategy promises: the cost-optimised order ascends in weight and the
  least-latency order in measured average latency, and the rule-based strategies put the target of the
  first matching rule first, then their fallback, then the first configured target.\<close>

theorem select_ordered_priority:
  assumes "targets \<noteq> []"
  shows "(\<forall>ts. select_ordered lower rng CostOptimized request targets = Ok ts \<longrightarrow> sorted (map tg_weight ts))
    \<and> (\<forall>ts st. select_ordered lower rng (LeastLatency st) request targets = Ok ts \<longrightarrow>
         sorted (map (\<lambda>t. get_avg_latency st (tg_provider t)) ts))
    \<and> (\<forall>ts rules fallback. select_ordered lower rng (Conditional rules fallback) request targets = Ok ts \<longrightarrow>
         hd ts = (case find (\<lambda>r. matches_condition r request) rules of
                    Some r \<Rightarrow> cdr_target r
                  | None \<Rightarrow> (case fallback of Some f \<Rightarrow> f | None \<Rightarrow> hd targets)))"
proof (intro conjI allI impI)
  fix ts
  assume "select_ordered lower rng CostOptimized request targets = Ok ts"
  with assms show "sorted (map tg_weight ts)"
    by (auto simp: select_ordered_def order_targets_def dedup_targets_def intro!: dedup_from_sorted)
next
  fix ts st
  let ?p = "\<lambda>t. (get_avg_latency st (tg_provider t), t)"
  let ?s = "sort_key fst (map ?p targets)"
  assume "select_ordered lower rng (LeastLatency st) request targets = Ok ts"
  moreover have "map (\<lambda>t. get_avg_latency st (tg_provider t)) (map snd ?s) = map fst ?s" by auto
  then have "sorted (map (\<lambda>t. get_avg_latency st (tg_provider t)) (map snd ?s))" by (simp only:) simp
  ultimately show "sorted (map (\<lambda>t. get_avg_latency st (tg_provider t)) ts)"
    using assms by (auto simp: select_ordered_def order_targets_def dedup_targets_def simp del: map_map intro!: dedup_from_sorted)
next
  fix ts rules fallback
  assume "select_ordered lower rng (Conditional rules fallback) request targets = Ok ts"
  with assms show "hd ts = (case find (\<lambda>r. matches_condition r request) rules of
      Some r \<Rightarrow> cdr_target r | None \<Rightarrow> (case fallback of Some f \<Rightarrow> f | None \<Rightarrow> hd targets))"
    by (auto simp: select_ordered_def order_targets_def ordered_with_primary_def dedup_targets_hd split: option.split)
qed

theorem select_ordered_priority_witness:
  "sorted (map tg_weight (dedup_targets (sort_key tg_weight [demo_target ''b'' 3, demo_target ''a'' 1])))"
  using select_ordered_priority [of "[demo_target ''b'' 3, demo_target ''a'' 1]" id "\<lambda>_ _. 0" ChatCompletionRequest_default]
  by (simp add: select_ordered_def order_targets_def)

text \<open>Load balancing is proportional to weight: for a positive draw below the total weight, the
  primary is the target whose share of the cumulative weight contains the draw, so each target is
  chosen by an interval of draws as long as its weight and a target of weight zero never is.\<close>

theorem load_balance_proportional:
  assumes "targets \<noteq> []" and "sumw = sum_list (map clamped targets)"
    and "0 < rng 0 sumw" and "rng 0 sumw < sumw"
  shows "\<exists>i<length targets. hd (lb_order rng 0 targets) = targets ! i \<and>
     prefix_weight i targets < rng 0 sumw \<and> rng 0 sumw \<le> prefix_weight (Suc i) targets \<and>
     0 < tg_weight (targets ! i)"
proof -
  obtain i where i: "weighted_index (rng 0 sumw) targets = Some i"
    using weighted_index_None [of "rng 0 sumw" targets] assms by (cases "weighted_index (rng 0 sumw) targets") auto
  then have less: "i < length targets" by (rule weighted_index_less)
  have iv: "prefix_weight i targets < rng 0 sumw" "rng 0 sumw \<le> prefix_weight (Suc i) targets"
    using weighted_index_interval [OF assms(3) i] by auto
  have "prefix_weight (Suc i) targets = prefix_weight i targets + clamped (targets ! i)"
    using less by (simp add: prefix_weight_def take_Suc_conv_app_nth)
  with iv have "0 < tg_weight (targets ! i)" by (auto simp: max_def split: if_splits)
  moreover have "lb_index rng 0 targets = i"
    using assms i by (simp add: lb_index_def Let_def)
  then have "hd (lb_order rng 0 targets) = targets ! i"
    using assms(1) by (subst lb_order.simps) (simp add: Let_def)
  ultimately show ?thesis using less iv by blast
qed

theorem load_balance_proportional_witness:
  "0 < tg_weight (hd (lb_order (\<lambda>i total. total / 2) 0 [demo_target ''a'' 0, demo_target ''b'' 1]))"
  using load_balance_proportional [of "[demo_target ''a'' 0, demo_target ''b'' 1]" 1 "\<lambda>i total. total / 2"]
  by (auto simp: demo_target_def)

text \<open>The draw 0, which the half-open range of the generator includes, is the exception: it selects the
  first target even when that target's weight is zero.\<close>

lemma zero_draw_selects_zero_weight:
  "hd (lb_order (\<lambda>i total. 0) 0 [demo_target ''drained'' 0, demo_target ''live'' 1]) = demo_target ''drained'' 0"
  by (subst lb_order.simps) (simp add: lb_index_def demo_target_def Let_def)

end
