(* ===== verification/Provider_Api.thy ===== *)
theory Provider_Api
  imports Core_Types Net_Guard
begin

text \<open>
  The provider crate's own logic: errors and their mapping to the gateway's (\<^verbatim>\<open>himadri-provider/src/error.rs\<close>),
  the registry of client builders (\<^verbatim>\<open>registry.rs\<close>, wired up in \<^verbatim>\<open>himadri/src/wire/providers.rs\<close>) and
  the decoder of server-sent events (\<^verbatim>\<open>sse.rs\<close>). The clients themselves speak HTTP and are values of a
  type parameter.
\<close>

section \<open>Provider errors\<close>

datatype ProviderError =
    PE_Auth string
  | PE_RateLimited u64
  | PE_ModelNotFound string
  | PE_ContextLengthExceeded u32 u32
  | PE_Api u16 string
  | PE_Network string
  | PE_Parse string
  | PE_Internal string
  | PE_Unsupported string
  | PE_UnknownType string
  | PE_MissingBaseUrl string
  | PE_InvalidConfiguration string

fun pe_retryable :: "ProviderError \<Rightarrow> bool" where
  "pe_retryable (PE_RateLimited _) = True"
| "pe_retryable (PE_Network _) = True"
| "pe_retryable (PE_Api status _) = (status \<in> set [500, 502, 503, 504, 529])"
| "pe_retryable _ = False"

fun pe_status_code :: "ProviderError \<Rightarrow> u16" where
  "pe_status_code (PE_Auth _) = 401"
| "pe_status_code (PE_RateLimited _) = 429"
| "pe_status_code (PE_ModelNotFound _) = 404"
| "pe_status_code (PE_ContextLengthExceeded _ _) = 400"
| "pe_status_code (PE_Api status _) = status"
| "pe_status_code (PE_Network _) = 502"
| "pe_status_code (PE_Parse _) = 500"
| "pe_status_code (PE_Internal _) = 500"
| "pe_status_code (PE_Unsupported _) = 501"
| "pe_status_code (PE_UnknownType _) = 400"
| "pe_status_code (PE_MissingBaseUrl _) = 400"
| "pe_status_code (PE_InvalidConfiguration _) = 400"

fun show_provider_error :: "ProviderError \<Rightarrow> string" where
  "show_provider_error (PE_Auth m) = ''authentication failed: '' @ m"
| "show_provider_error (PE_RateLimited s) = ''rate limited, retry after '' @ show_nat (unat s) @ ''s''"
| "show_provider_error (PE_ModelNotFound m) = ''model not found: '' @ m"
| "show_provider_error (PE_ContextLengthExceeded m a) =
     ''context length exceeded: max '' @ show_nat (unat m) @ '', got '' @ show_nat (unat a)"
| "show_provider_error (PE_Api status m) = ''provider error ('' @ show_nat (unat status) @ ''): '' @ m"
| "show_provider_error (PE_Network m) = ''network error: '' @ m"
| "show_provider_error (PE_Parse m) = ''parse error: '' @ m"
| "show_provider_error (PE_Internal m) = ''internal error: '' @ m"
| "show_provider_error (PE_Unsupported m) = ''operation not supported: '' @ m"
| "show_provider_error (PE_UnknownType m) = ''unknown provider type: '' @ m"
| "show_provider_error (PE_MissingBaseUrl m) = ''missing base_url for provider: '' @ m"
| "show_provider_error (PE_InvalidConfiguration m) = ''invalid provider configuration: '' @ m"

text \<open>An upstream HTTP response as the mapping reads it: status, \<^verbatim>\<open>Retry-After\<close> header when it is a
  valid header string, and body. Parsing JSON and integers is a parameter.\<close>

record http_response =
  hr_status :: u16
  hr_retry_after :: "string option"
  hr_body :: string

definition pe_from_response ::
    "(string \<Rightarrow> json option) \<Rightarrow> (string \<Rightarrow> u64 option) \<Rightarrow> u16 list \<Rightarrow> (json \<Rightarrow> string option) \<Rightarrow>
     http_response \<Rightarrow> ProviderError" where
  "pe_from_response from_json parse_u64 auth_statuses extract_message r =
     (let retry_after = Option.bind (hr_retry_after r) (\<lambda>v. parse_u64 (trim v));
          message = unwrap_or (Option.bind (from_json (hr_body r)) extract_message) (hr_body r)
      in if hr_status r \<in> set auth_statuses then PE_Auth message
         else if hr_status r = 429 then PE_RateLimited (unwrap_or retry_after 60)
         else if hr_status r = 404 then PE_ModelNotFound message
         else PE_Api (hr_status r) message)"

text \<open>\<^verbatim>\<open>v[key]\<close> on a JSON value: the member, or \<open>null\<close>.\<close>

fun json_index :: "json \<Rightarrow> string \<Rightarrow> json" where
  "json_index (JObj m) k = unwrap_or (map_of m k) JNull"
| "json_index _ k = JNull"

definition openai_message :: "json \<Rightarrow> string option" where
  "openai_message v = or_else (as_str (json_index (json_index v ''error'') ''message'')) (as_str (json_index v ''message''))"

definition pe_from_openai_response ::
    "(string \<Rightarrow> json option) \<Rightarrow> (string \<Rightarrow> u64 option) \<Rightarrow> http_response \<Rightarrow> ProviderError" where
  "pe_from_openai_response from_json parse_u64 r = pe_from_response from_json parse_u64 [401] openai_message r"

fun gateway_error_of :: "ProviderError \<Rightarrow> GatewayError" where
  "gateway_error_of (PE_Auth _) = ServiceUnavailable ''upstream provider authentication failed''"
| "gateway_error_of (PE_RateLimited s) = RateLimited s"
| "gateway_error_of (PE_ModelNotFound m) = NotFound (''model: '' @ m)"
| "gateway_error_of (PE_ContextLengthExceeded m a) =
     BadRequest (''context length exceeded: max '' @ show_nat (unat m) @ '', got '' @ show_nat (unat a))"
| "gateway_error_of (PE_Api status message) =
     (if status = 401 \<or> status = 403 then ServiceUnavailable ''upstream provider authentication failed''
      else if status = 429 then RateLimited 60
      else if 400 \<le> status \<and> status < 500 then BadRequest message
      else ServiceUnavailable message)"
| "gateway_error_of (PE_Network m) = ServiceUnavailable m"
| "gateway_error_of (PE_Parse m) = Provider (''parse error: '' @ m)"
| "gateway_error_of (PE_Internal m) = Internal m"
| "gateway_error_of (PE_Unsupported m) = BadRequest (''operation not supported: '' @ m)"
| "gateway_error_of (PE_UnknownType m) = BadRequest (''unknown provider type: '' @ m)"
| "gateway_error_of (PE_MissingBaseUrl m) = BadRequest (''missing base_url for provider: '' @ m)"
| "gateway_error_of (PE_InvalidConfiguration m) = BadRequest (''invalid provider configuration: '' @ m)"

section \<open>Provider registry\<close>

text \<open>A client is a value of type \<open>'p\<close>; a builder takes the override of the base URL.\<close>

type_synonym 'p ProviderBuilder = "string option \<Rightarrow> (ProviderError, 'p) result"

type_synonym 'p MapProviderRegistry = "string \<rightharpoonup> 'p ProviderBuilder"

definition registry_register :: "string \<Rightarrow> 'p ProviderBuilder \<Rightarrow> 'p MapProviderRegistry \<Rightarrow> 'p MapProviderRegistry" where
  "registry_register provider_type builder reg = reg(provider_type \<mapsto> builder)"

definition trimmed_url :: "string option \<Rightarrow> string option" where
  "trimmed_url base_url =
     (case map_option trim base_url of Some s \<Rightarrow> if s \<noteq> [] then Some s else None | None \<Rightarrow> None)"

definition registry_build ::
    "(string \<Rightarrow> string \<Rightarrow> 'p) \<Rightarrow> 'p MapProviderRegistry \<Rightarrow> string \<Rightarrow> string option \<Rightarrow> (ProviderError, 'p) result" where
  "registry_build bearer reg provider_type base_url =
     (let base_url = trimmed_url base_url in
      case reg provider_type of
        Some builder \<Rightarrow> builder base_url
      | None \<Rightarrow>
          (case base_url of
             None \<Rightarrow> Err (PE_MissingBaseUrl provider_type)
           | Some u \<Rightarrow> Ok (bearer provider_type u)))"

definition registry_validate ::
    "(string \<Rightarrow> string \<Rightarrow> 'p) \<Rightarrow> 'p MapProviderRegistry \<Rightarrow> string \<Rightarrow> string option \<Rightarrow> (ProviderError, unit) result" where
  "registry_validate bearer reg provider_type base_url =
     (case registry_build bearer reg provider_type base_url of Ok _ \<Rightarrow> Ok () | Err e \<Rightarrow> Err e)"

definition registry_is_known :: "(string \<Rightarrow> string \<Rightarrow> 'p) \<Rightarrow> 'p MapProviderRegistry \<Rightarrow> string \<Rightarrow> bool" where
  "registry_is_known bearer reg provider_type = is_ok (registry_validate bearer reg provider_type None)"

text \<open>The built-in registrations: the two native clients and the OpenAI-compatible presets, each a
  total function of the base URL.\<close>

definition PRESETS :: "string list" where
  "PRESETS = [''openai'', ''openrouter'', ''together'', ''groq'', ''fireworks'', ''deepinfra'', ''cerebras'', ''novita'']"

definition build_provider_registry ::
    "(string option \<Rightarrow> 'p) \<Rightarrow> (string option \<Rightarrow> 'p) \<Rightarrow> (string \<Rightarrow> string option \<Rightarrow> 'p) \<Rightarrow> 'p MapProviderRegistry" where
  "build_provider_registry anthropic gemini compatible =
     fold (\<lambda>name. registry_register name (\<lambda>u. Ok (compatible name u))) PRESETS
       (registry_register ''gemini'' (\<lambda>u. Ok (gemini u))
         (registry_register ''anthropic'' (\<lambda>u. Ok (anthropic u)) Map.empty))"

text \<open>What the routing path and the admin API rely on: the registry decides routability by one rule,
  and validation is exactly the ability to build.\<close>

locale provider_registry =
  fixes build :: "string \<Rightarrow> string option \<Rightarrow> (ProviderError, 'p) result"
    and known :: "string \<Rightarrow> bool"
  assumes known_builds: "known t \<Longrightarrow> is_ok (build t u)"
    and unknown_builds: "\<not> known t \<Longrightarrow> is_ok (build t u) \<longleftrightarrow> is_some_and (map_option trim u) (\<lambda>s. s \<noteq> [])"
begin

lemma routable_iff: "is_ok (build t u) \<longleftrightarrow> known t \<or> is_some_and (map_option trim u) (\<lambda>s. s \<noteq> [])"
  using known_builds unknown_builds by blast

lemma known_iff_builds_bare: "known t \<longleftrightarrow> is_ok (build t None)"
  using known_builds unknown_builds by fastforce

end

lemma fold_register:
  "fold (\<lambda>name. registry_register name (f name)) names reg t = (if t \<in> set names then Some (f t) else reg t)"
  by (induction names arbitrary: reg) (auto simp: registry_register_def)

lemma build_provider_registry_apply:
  "build_provider_registry a g c t =
     (if t \<in> set PRESETS then Some (\<lambda>u. Ok (c t u))
      else if t = ''gemini'' then Some (\<lambda>u. Ok (g u))
      else if t = ''anthropic'' then Some (\<lambda>u. Ok (a u)) else None)"
  by (simp add: build_provider_registry_def fold_register registry_register_def)

lemma known_types_registered: "build_provider_registry a g c t \<noteq> None \<longleftrightarrow> is_known_provider_type t"
  by (auto simp: build_provider_registry_apply is_known_provider_type_def KNOWN_PROVIDER_TYPES_def PRESETS_def)

interpretation wired: provider_registry
  "registry_build bearer (build_provider_registry a g c)" is_known_provider_type for bearer a g c
proof unfold_locales
  fix t u
  assume "is_known_provider_type t"
  then have "build_provider_registry a g c t \<noteq> None" by (simp only: known_types_registered)
  then show "is_ok (registry_build bearer (build_provider_registry a g c) t u)"
    by (auto simp: registry_build_def build_provider_registry_apply Let_def split: if_splits)
next
  fix t u
  assume "\<not> is_known_provider_type t"
  then have "build_provider_registry a g c t = None" using known_types_registered [of a g c t] by simp
  then show "is_ok (registry_build bearer (build_provider_registry a g c) t u) \<longleftrightarrow>
      is_some_and (map_option trim u) (\<lambda>s. s \<noteq> [])"
    by (auto simp: registry_build_def trimmed_url_def Let_def split: option.split)
qed

section \<open>Server-sent events\<close>

text \<open>\<^verbatim>\<open>String::from_utf8_lossy\<close>: the length of the sequence a byte string starts with, and whether it is
  a complete character; an incomplete or invalid one becomes the replacement character.\<close>

definition byte :: "string \<Rightarrow> nat \<Rightarrow> nat" where
  "byte s i = (if i < length s then of_char (s ! i) else 0)"

definition is_cont :: "nat \<Rightarrow> bool" where
  "is_cont b = (128 \<le> b \<and> b \<le> 191)"

definition second_ok :: "nat \<Rightarrow> nat \<Rightarrow> bool" where
  "second_ok a b =
     (if a = 0xE0 then 0xA0 \<le> b \<and> b \<le> 0xBF
      else if a = 0xED then 0x80 \<le> b \<and> b \<le> 0x9F
      else if a = 0xF0 then 0x90 \<le> b \<and> b \<le> 0xBF
      else if a = 0xF4 then 0x80 \<le> b \<and> b \<le> 0x8F
      else is_cont b)"

definition utf8_seq :: "string \<Rightarrow> nat \<times> bool" where
  "utf8_seq s =
     (let a = byte s 0; b = byte s 1 in
      if a < 0x80 then (1, True)
      else if 0xC2 \<le> a \<and> a \<le> 0xDF then (if is_cont b then (2, True) else (1, False))
      else if 0xE0 \<le> a \<and> a \<le> 0xEF then
        (if \<not> second_ok a b then (1, False) else if is_cont (byte s 2) then (3, True) else (2, False))
      else if 0xF0 \<le> a \<and> a \<le> 0xF4 then
        (if \<not> second_ok a b then (1, False) else if \<not> is_cont (byte s 2) then (2, False)
         else if is_cont (byte s 3) then (4, True) else (3, False))
      else (1, False))"

definition REPLACEMENT :: string where
  "REPLACEMENT = [CHR 0xEF, CHR 0xBF, CHR 0xBD]"

lemma utf8_seq_pos: "0 < fst (utf8_seq s)"
  by (simp add: utf8_seq_def Let_def)

function utf8_lossy :: "string \<Rightarrow> string" where
  "utf8_lossy s =
     (if s = [] then []
      else (if snd (utf8_seq s) then take (fst (utf8_seq s)) s else REPLACEMENT)
           @ utf8_lossy (drop (fst (utf8_seq s)) s))"
  by pat_completeness auto
termination
  by (relation "measure length") (simp_all add: utf8_seq_pos)

declare utf8_lossy.simps [simp del]

lemma utf8_lossy_ascii: "\<forall>c\<in>set s. (of_char c :: nat) < 128 \<Longrightarrow> utf8_lossy s = s"
  by (induction s) (simp_all add: utf8_lossy.simps utf8_seq_def byte_def Let_def)

definition MAX_SSE_LINE_BYTES :: nat where
  "MAX_SSE_LINE_BYTES = 1024 * 1024"

record SseEvent =
  sse_event :: "string option"
  sse_data :: string

text \<open>One line: the event it yields if any, the event type in force afterwards, and whether the
  stream is done.\<close>

definition sse_line :: "string option \<Rightarrow> string \<Rightarrow> SseEvent option \<times> string option \<times> bool" where
  "sse_line current_event raw =
     (let line = trim raw in
      if line = [] then (None, None, False)
      else case strip_prefix ''event:'' line of
             Some event \<Rightarrow> (None, Some (trim_start event), False)
           | None \<Rightarrow>
               (case strip_prefix ''data:'' line of
                  Some data \<Rightarrow>
                    (let data = trim_start data in
                     if data = ''[DONE]'' then (None, current_event, True)
                     else (Some \<lparr>sse_event = current_event, sse_data = data\<rparr>, current_event, False))
                | None \<Rightarrow> (None, current_event, False)))"

fun sse_lines :: "string option \<Rightarrow> string list \<Rightarrow> SseEvent list \<times> string option \<times> bool" where
  "sse_lines ev [] = ([], ev, False)"
| "sse_lines ev (l # ls) =
     (case sse_line ev l of
        (e, ev', stop) \<Rightarrow>
          if stop then ([], ev', True)
          else (case sse_lines ev' ls of (es, ev'', stop') \<Rightarrow> (case e of None \<Rightarrow> es | Some x \<Rightarrow> x # es, ev'', stop')))"

text \<open>The loop over the network chunks; \<open>buffer\<close> holds the unfinished line.\<close>

fun sse_run :: "string \<Rightarrow> string option \<Rightarrow> (string, string) result list \<Rightarrow> (ProviderError, SseEvent) result list" where
  "sse_run buffer ev [] = []"
| "sse_run buffer ev (Err e # chunks) = Err (PE_Network e) # sse_run buffer ev chunks"
| "sse_run buffer ev (Ok bytes # chunks) =
     (let parts = split_char (CHR 0x0A) (buffer @ utf8_lossy bytes); rest = last parts in
      case sse_lines ev (butlast parts) of
        (es, ev', stop) \<Rightarrow>
          if stop then map Ok es
          else if MAX_SSE_LINE_BYTES < length rest
            then map Ok es @ [Err (PE_Parse ''SSE line exceeds maximum buffered size'')]
          else map Ok es @ sse_run rest ev' chunks)"

definition sse_events :: "(string, string) result list \<Rightarrow> (ProviderError, SseEvent) result list" where
  "sse_events chunks = sse_run [] None chunks"

lemma split_char_append:
  "split_char c (a @ b) = butlast (split_char c a) @ split_char c (last (split_char c a) @ b)"
proof (induction a)
  case (Cons x a)
  obtain y ys where sp: "split_char c a = y # ys" by (cases "split_char c a") auto
  with Cons show ?case by (cases ys) (auto split: list.split)
qed simp

lemma last_split_length: "length (last (split_char c s)) \<le> length s"
proof (induction s)
  case (Cons x s)
  obtain y ys where "split_char c s = y # ys" by (cases "split_char c s") auto
  with Cons show ?case by (cases ys) auto
qed simp

lemma sse_lines_append:
  "sse_lines ev (a @ b) =
     (case sse_lines ev a of
        (es, ev', stop) \<Rightarrow> if stop then (es, ev', True)
          else (case sse_lines ev' b of (fs, ev'', stop') \<Rightarrow> (es @ fs, ev'', stop')))"
  by (induction a arbitrary: ev) (auto split: prod.splits option.splits)

lemma sse_run_lines:
  assumes "\<forall>c\<in>set chunks. utf8_lossy c = c"
    and "length (buffer @ concat chunks) \<le> MAX_SSE_LINE_BYTES"
    and "CHR 0x0A \<notin> set buffer"
  shows "sse_run buffer ev (map Ok chunks) =
    map Ok (fst (sse_lines ev (butlast (split_char (CHR 0x0A) (buffer @ concat chunks)))))"
  using assms
proof (induction chunks arbitrary: buffer ev)
  case Nil
  then show ?case by (simp add: split_char_no_sep)
next
  case (Cons c cs)
  let ?sp = "split_char (CHR 0x0A) (buffer @ c)"
  have whole: "split_char (CHR 0x0A) (buffer @ c @ concat cs) =
      butlast ?sp @ split_char (CHR 0x0A) (last ?sp @ concat cs)"
    using split_char_append [of "CHR 0x0A" "buffer @ c" "concat cs"] by simp
  have len: "length (last ?sp @ concat cs) \<le> MAX_SSE_LINE_BYTES"
    using last_split_length [of "CHR 0x0A" "buffer @ c"] Cons.prems(2) by simp
  have nl: "CHR 0x0A \<notin> set (last ?sp)"
    using split_char_parts [of "last ?sp" "CHR 0x0A" "buffer @ c"] by simp
  obtain es ev' stop where l: "sse_lines ev (butlast ?sp) = (es, ev', stop)"
    by (cases "sse_lines ev (butlast ?sp)") auto
  have IH: "sse_run (last ?sp) ev' (map Ok cs) =
      map Ok (fst (sse_lines ev' (butlast (split_char (CHR 0x0A) (last ?sp @ concat cs)))))"
    using Cons.prems(1) len nl by (intro Cons.IH) auto
  show ?case
    using Cons.prems(1) len l IH
    by (auto simp: whole butlast_append sse_lines_append Let_def split: prod.split)
qed

section \<open>Properties\<close>



text \<open>A character cut in two by a chunk boundary is not restored: each half becomes a replacement
  character.\<close>

lemma sse_split_character_corrupted:
  "sse_events [Ok (''data: '' @ [CHR 0xC3]), Ok [CHR 0xA9, CHR 0x0A]] =
     [Ok \<lparr>sse_event = None, sse_data = REPLACEMENT @ REPLACEMENT\<rparr>] \<and>
   sse_events [Ok (''data: '' @ [CHR 0xC3, CHR 0xA9, CHR 0x0A])] =
     [Ok \<lparr>sse_event = None, sse_data = [CHR 0xC3, CHR 0xA9]\<rparr>]"
proof -
  note utf8 = utf8_lossy.simps utf8_seq_def byte_def is_cont_def REPLACEMENT_def Let_def
  have "utf8_lossy (''data: '' @ [CHR 0xC3]) = ''data: '' @ REPLACEMENT" by (simp add: utf8)
  moreover have "utf8_lossy [CHR 0xA9, CHR 0x0A] = REPLACEMENT @ [CHR 0x0A]" by (simp add: utf8)
  moreover have "utf8_lossy (''data: '' @ [CHR 0xC3, CHR 0xA9, CHR 0x0A]) = ''data: '' @ [CHR 0xC3, CHR 0xA9, CHR 0x0A]"
    by (simp add: utf8)
  ultimately show ?thesis
    by (simp add: sse_events_def REPLACEMENT_def MAX_SSE_LINE_BYTES_def sse_line_def trim_def trim_start_def
        is_space_def strip_prefix_def)
qed

text \<open>Upstream failures keep their meaning towards the client: an upstream 429 and only that becomes
  a 429, a failure another target might survive becomes one the client may retry, an upstream
  authentication failure never looks like the client's own (no 401 or 403), and any other upstream 4xx
  stays a client error.\<close>

theorem upstream_errors_keep_semantics:
  "(status_code (gateway_error_of e) = 429 \<longleftrightarrow> pe_status_code e = 429) \<and>
   (pe_retryable e \<longrightarrow> retryable (gateway_error_of e)) \<and>
   status_code (gateway_error_of e) \<notin> {401, 403} \<and>
   (400 \<le> pe_status_code e \<and> pe_status_code e < 500 \<and> pe_status_code e \<notin> {401, 403} \<longrightarrow>
      status_code (gateway_error_of e) \<in> {400, 404, 429})"
  by (cases e) (auto simp: retryable_def)

theorem upstream_errors_keep_semantics_witness:
  "retryable (gateway_error_of (PE_Api 503 ''overloaded''))"
  using upstream_errors_keep_semantics [of "PE_Api 503 ''overloaded''"] by simp

text \<open>The static rule the model catalogue uses to decide whether an endpoint can be routed agrees
  with the registry that builds the clients: an endpoint is advertised as routable exactly when the
  wired-up registry can build a client for it.\<close>

theorem routable_iff_registry_builds:
  "endpoint_is_routable t u \<longleftrightarrow>
     registry_validate bearer (build_provider_registry a g c) t u = Ok ()"
proof -
  have "endpoint_is_routable t u \<longleftrightarrow> is_ok (registry_build bearer (build_provider_registry a g c) t u)"
    using wired.routable_iff [of bearer a g c t u] by (simp add: endpoint_is_routable_def)
  then show ?thesis by (auto simp: registry_validate_def is_ok_def split: sum.split)
qed

end
