(* ===== verification/Rbac.thy ===== *)
theory Rbac
  imports Gateway_Config
begin

text \<open>
  Role-based access control (\<^verbatim>\<open>himadri-core/src/rbac.rs\<close>): the wildcard matcher, the merge of the
  policies of a principal's roles and the decisions on models and providers, with the declarative
  meaning of patterns (\<open>glob\<close>) and of the merge (\<open>permits\<close>, \<open>applicable\<close>) they are compared with.
\<close>

section \<open>Patterns\<close>

text \<open>The loop over the segments between stars: \<open>first\<close> marks index 0, \<open>v\<close> is \<^verbatim>\<open>value[pos..]\<close>.\<close>

fun match_parts :: "bool \<Rightarrow> string list \<Rightarrow> string \<Rightarrow> bool" where
  "match_parts first [] v = True"
| "match_parts first (part # rest) v =
     (if part = [] then match_parts False rest v
      else if first then
        (if starts_with part v then match_parts False rest (drop (length part) v) else False)
      else if rest = [] then ends_with part v
      else (case str_find part v of
              Some idx \<Rightarrow> match_parts False rest (drop (idx + length part) v)
            | None \<Rightarrow> False))"

definition pattern_matches :: "string \<Rightarrow> string \<Rightarrow> bool" where
  "pattern_matches pattern v =
     (if pattern = ''*'' then True
      else if CHR ''*'' \<notin> set pattern then pattern = v
      else match_parts True (split_char (CHR ''*'') pattern) v)"

definition any_match :: "string list \<Rightarrow> string \<Rightarrow> bool" where
  "any_match patterns v = (\<exists>p\<in>set patterns. pattern_matches p v)"

text \<open>The meaning of a pattern: a star matches any run of characters, any other character itself.\<close>

fun glob :: "string \<Rightarrow> string \<Rightarrow> bool" where
  "glob [] v = (v = [])"
| "glob (p # ps) v =
     (if p = CHR ''*'' then (\<exists>k\<le>length v. glob ps (drop k v))
      else (case v of [] \<Rightarrow> False | c # cs \<Rightarrow> c = p \<and> glob ps cs))"

lemma glob_star: "glob (CHR ''*'' # ps) v \<longleftrightarrow> (\<exists>a b. v = a @ b \<and> glob ps b)"
  by simp (metis append_eq_conv_conj append_take_drop_id le_add1 length_append)

lemma glob_literal: "CHR ''*'' \<notin> set x \<Longrightarrow> glob (x @ q) v \<longleftrightarrow> (\<exists>w. v = x @ w \<and> glob q w)"
  by (induction x arbitrary: v) (auto split: list.splits)

definition glob_tail :: "string list \<Rightarrow> string \<Rightarrow> bool" where
  "glob_tail parts v = glob (CHR ''*'' # join ''*'' parts) v"

lemma glob_tail_suffix: "glob_tail parts w \<Longrightarrow> glob_tail parts (a @ w)"
  unfolding glob_tail_def glob_star by (metis append.assoc)

lemma glob_tail_last: "CHR ''*'' \<notin> set x \<Longrightarrow> glob_tail [x] v \<longleftrightarrow> ends_with x v"
  using glob_literal [of x "[]"] by (auto simp: glob_tail_def glob_star ends_with_iff simp del: glob.simps(2))

lemma glob_tail_Cons:
  assumes "CHR ''*'' \<notin> set x"
  shows "glob_tail (x # y # ys) v \<longleftrightarrow> (\<exists>a w. v = a @ x @ w \<and> glob_tail (y # ys) w)"
proof -
  have "glob_tail (x # y # ys) v \<longleftrightarrow> (\<exists>a b. v = a @ b \<and> glob (x @ CHR ''*'' # join ''*'' (y # ys)) b)"
    unfolding glob_tail_def glob_star by simp
  also have "\<dots> \<longleftrightarrow> (\<exists>a w. v = a @ x @ w \<and> glob_tail (y # ys) w)"
    unfolding glob_literal [OF assms] glob_tail_def by blast
  finally show ?thesis .
qed

text \<open>Taking the leftmost occurrence of a segment loses no match.\<close>

lemma str_find_leftmost:
  assumes "str_find x v = Some i" and "v = a @ x @ w"
  shows "\<exists>b. drop (i + length x) v = b @ w"
proof -
  have "i \<le> length a"
  proof (rule ccontr)
    assume "\<not> i \<le> length a"
    then have "\<not> starts_with x (drop (length a) v)" using assms(1) by (simp add: str_find_Some)
    with assms(2) show False by (simp add: starts_with_iff)
  qed
  with assms(2) have "drop (i + length x) v = drop (i + length x) (a @ x) @ w" by simp
  then show ?thesis by blast
qed

lemma match_parts_glob_tail:
  "parts \<noteq> [] \<Longrightarrow> \<forall>x\<in>set parts. CHR ''*'' \<notin> set x \<Longrightarrow> match_parts False parts v \<longleftrightarrow> glob_tail parts v"
proof (induction parts arbitrary: v)
  case (Cons x xs)
  show ?case
  proof (cases xs)
    case Nil
    with Cons.prems show ?thesis by (auto simp: glob_tail_last ends_with_iff)
  next
    case (Cons y ys)
    have IH: "match_parts False xs w \<longleftrightarrow> glob_tail xs w" for w
      using Cons.IH Cons Cons.prems by simp
    have x: "CHR ''*'' \<notin> set x" using Cons.prems by simp
    show ?thesis
    proof (cases "x = []")
      case True
      have "glob_tail (x # xs) v \<longleftrightarrow> glob_tail xs v"
        using glob_tail_Cons [OF x, of y ys v] glob_tail_suffix [of xs] unfolding Cons True by auto
      with True IH show ?thesis by simp
    next
      case False
      show ?thesis
      proof (cases "str_find x v")
        case None
        then have "\<nexists>a w. v = a @ x @ w" using str_contains_iff [of x v] by (auto simp: str_contains_def)
        with None False Cons show ?thesis using glob_tail_Cons [OF x, of y ys v] by auto
      next
        case (Some i)
        then obtain s where s: "drop i v = x @ s" and i: "i \<le> length v" by (auto simp: str_find_Some starts_with_iff)
        then have v: "v = take i v @ x @ drop (i + length x) v"
          by (metis append_eq_conv_conj append_take_drop_id drop_drop add.commute)
        have "glob_tail (x # xs) v \<longleftrightarrow> glob_tail xs (drop (i + length x) v)"
          using glob_tail_Cons [OF x, of y ys v] str_find_leftmost [OF Some] glob_tail_suffix [of xs] v
          unfolding Cons by metis
        with Some False Cons IH show ?thesis by simp
      qed
    qed
  qed
qed simp

lemma pattern_matches_glob: "pattern_matches pattern v = glob pattern v"
proof (cases "CHR ''*'' \<in> set pattern")
  case False
  with glob_literal [of pattern "[]" v] show ?thesis by (auto simp: pattern_matches_def)
next
  case True
  obtain x xs where sp: "split_char (CHR ''*'') pattern = x # xs" by (cases "split_char (CHR ''*'') pattern") auto
  have j: "pattern = join ''*'' (x # xs)" using join_split_char [of "CHR ''*''" pattern] sp by simp
  have nostar: "\<forall>y\<in>set (x # xs). CHR ''*'' \<notin> set y" using split_char_parts [of _ "CHR ''*''" pattern] sp by simp
  then have ne: "xs \<noteq> []" using True j by auto
  then have g: "glob pattern v \<longleftrightarrow> (\<exists>w. v = x @ w \<and> glob_tail xs w)"
    using glob_literal [of x "CHR ''*'' # join ''*'' xs" v] nostar j by (simp add: join_Cons glob_tail_def)
  have m: "match_parts True (x # xs) v \<longleftrightarrow> (\<exists>w. v = x @ w \<and> match_parts False xs w)"
    by (auto simp: starts_with_iff)
  have star: "glob ''*'' v" by (auto intro: exI [of _ "length v"])
  show ?thesis
    using True g m match_parts_glob_tail [OF ne] nostar star by (auto simp: pattern_matches_def sp)
qed

section \<open>Access decisions\<close>

datatype RbacDenial =
    NoMatchingRole
  | ModelForbidden string
  | ProviderForbidden string

fun show_denial :: "RbacDenial \<Rightarrow> string" where
  "show_denial NoMatchingRole = ''no role grants access to this gateway''"
| "show_denial (ModelForbidden m) = ''model '' @ quoted m @ '' is not permitted for your role''"
| "show_denial (ProviderForbidden p) = ''provider '' @ quoted p @ '' is not permitted for your role''"

record EffectivePolicy =
  ep_models :: "string list option"
  ep_providers :: "string list option"

definition merge_dimension :: "string list option \<Rightarrow> string list option \<Rightarrow> string list option" where
  "merge_dimension acc itm =
     (case itm of
        None \<Rightarrow> None
      | Some list \<Rightarrow> (case acc of Some a \<Rightarrow> Some (a @ list) | None \<Rightarrow> None))"

definition effective_policy :: "RbacConfig \<Rightarrow> string list \<Rightarrow> EffectivePolicy option" where
  "effective_policy c roles =
     (let matched = List.map_filter (rb_roles c) roles;
          policies = (if matched = [] then
                        (case rb_default_role c of
                           Some d \<Rightarrow> (case rb_roles c d of Some p \<Rightarrow> [p] | None \<Rightarrow> [])
                         | None \<Rightarrow> [])
                      else matched)
      in if policies = [] then None
         else Some \<lparr>ep_models = foldl merge_dimension (Some []) (map rpol_models policies),
                    ep_providers = foldl merge_dimension (Some []) (map rpol_providers policies)\<rparr>)"

definition check_dimension ::
    "RbacConfig \<Rightarrow> string list \<Rightarrow> bool \<Rightarrow> string \<Rightarrow> (EffectivePolicy \<Rightarrow> string list option) \<Rightarrow>
     (string \<Rightarrow> RbacDenial) \<Rightarrow> (RbacDenial, unit) result" where
  "check_dimension c roles is_admin v select deny =
     (if \<not> rb_enabled c \<or> is_admin then Ok ()
      else case effective_policy c roles of
             None \<Rightarrow> Err NoMatchingRole
           | Some policy \<Rightarrow>
               (case select policy of
                  None \<Rightarrow> Ok ()
                | Some allowed \<Rightarrow> if any_match allowed v then Ok () else Err (deny v)))"

definition check_model :: "RbacConfig \<Rightarrow> string list \<Rightarrow> bool \<Rightarrow> string \<Rightarrow> (RbacDenial, unit) result" where
  "check_model c roles is_admin model = check_dimension c roles is_admin model ep_models ModelForbidden"

definition check_provider :: "RbacConfig \<Rightarrow> string list \<Rightarrow> bool \<Rightarrow> string \<Rightarrow> (RbacDenial, unit) result" where
  "check_provider c roles is_admin provider =
     check_dimension c roles is_admin provider ep_providers ProviderForbidden"

text \<open>The merge of allow-lists is their union, with an absent list as everything.\<close>

definition permits :: "string list option \<Rightarrow> string \<Rightarrow> bool" where
  "permits allowed v = (case allowed of None \<Rightarrow> True | Some ps \<Rightarrow> any_match ps v)"

lemma any_match_append [simp]: "any_match (a @ b) v \<longleftrightarrow> any_match a v \<or> any_match b v"
  by (auto simp: any_match_def)

lemma permits_merge: "permits (merge_dimension acc itm) v \<longleftrightarrow> permits acc v \<or> permits itm v"
  by (auto simp: permits_def merge_dimension_def split: option.split)

lemma permits_foldl: "permits (foldl merge_dimension acc items) v \<longleftrightarrow> permits acc v \<or> (\<exists>i\<in>set items. permits i v)"
  by (induction items arbitrary: acc) (auto simp: permits_merge)

lemma permits_empty [simp]: "permits (Some []) v = False"
  by (simp add: permits_def any_match_def)

lemma check_dimension_permits:
  "rb_enabled c \<Longrightarrow> check_dimension c roles False v select deny =
     (case effective_policy c roles of
        None \<Rightarrow> Err NoMatchingRole
      | Some e \<Rightarrow> if permits (select e) v then Ok () else Err (deny v))"
  by (simp add: check_dimension_def permits_def split: option.split)

text \<open>The policies that apply: those of the principal's known roles, else the default role's.\<close>

definition applicable :: "RbacConfig \<Rightarrow> string list \<Rightarrow> RolePolicy set" where
  "applicable c roles =
     (let own = {p. \<exists>r\<in>set roles. rb_roles c r = Some p}
      in if own = {} then {p. \<exists>d. rb_default_role c = Some d \<and> rb_roles c d = Some p} else own)"

lemma set_map_filter: "set (List.map_filter f xs) = {y. \<exists>x\<in>set xs. f x = Some y}"
  by (induction xs) (auto simp: List.map_filter_simps split: option.split)

lemma effective_policy_applicable:
  "case effective_policy c roles of
     None \<Rightarrow> applicable c roles = {}
   | Some e \<Rightarrow> applicable c roles \<noteq> {}
       \<and> (\<forall>v. permits (ep_models e) v \<longleftrightarrow> (\<exists>p\<in>applicable c roles. permits (rpol_models p) v))
       \<and> (\<forall>v. permits (ep_providers e) v \<longleftrightarrow> (\<exists>p\<in>applicable c roles. permits (rpol_providers p) v))"
proof -
  let ?own = "List.map_filter (rb_roles c) roles"
  have own: "set ?own = {p. \<exists>r\<in>set roles. rb_roles c r = Some p}" by (simp add: set_map_filter)
  then have "?own = [] \<longleftrightarrow> {p. \<exists>r\<in>set roles. rb_roles c r = Some p} = {}" by (metis set_empty)
  with own show ?thesis
    by (auto simp: effective_policy_def applicable_def Let_def permits_foldl split: option.split)
qed

lemma permits_glob:
  "permits a v \<longleftrightarrow> (case a of None \<Rightarrow> True | Some ps \<Rightarrow> (\<exists>q\<in>set ps. glob q v))"
  by (simp add: permits_def any_match_def pattern_matches_glob split: option.split)

lemma rbac_provider_iff:
  assumes "rb_enabled c"
  shows "check_provider c roles False provider = Ok () \<longleftrightarrow>
     (\<exists>p\<in>applicable c roles. case rpol_providers p of None \<Rightarrow> True | Some ps \<Rightarrow> (\<exists>q\<in>set ps. glob q provider))"
  using effective_policy_applicable [of c roles] assms
  unfolding permits_glob [symmetric]
  by (cases "effective_policy c roles") (auto simp: check_provider_def check_dimension_permits)

section \<open>Properties\<close>

text \<open>C27: The greedy wildcard matcher is exact: it accepts a value for a pattern exactly when the
  pattern, read with every star as an arbitrary run of characters and every other character as itself,
  covers the whole value. Taking the leftmost occurrence of each segment loses no match.\<close>

theorem pattern_matches_is_glob: "pattern_matches pattern v = glob pattern v"
  by (rule pattern_matches_glob)

text \<open>Access is the union of what the principal's roles grant: with RBAC enabled, a non-admin
  principal may use a model exactly when some applicable policy (one of its configured roles, or the
  default role when none is configured) has no model list or one with a matching pattern; a principal
  to whom no policy applies is denied as having no role.\<close>

theorem rbac_is_union_of_roles:
  assumes "rb_enabled c"
  shows "(check_model c roles False model = Ok () \<longleftrightarrow>
            (\<exists>p\<in>applicable c roles. case rpol_models p of None \<Rightarrow> True | Some ps \<Rightarrow> (\<exists>q\<in>set ps. glob q model)))
       \<and> (check_provider c roles False provider = Ok () \<longleftrightarrow>
            (\<exists>p\<in>applicable c roles. case rpol_providers p of None \<Rightarrow> True | Some ps \<Rightarrow> (\<exists>q\<in>set ps. glob q provider)))
       \<and> (check_model c roles False model = Err NoMatchingRole \<longleftrightarrow> applicable c roles = {})"
  using effective_policy_applicable [of c roles] rbac_provider_iff [OF assms] assms
  unfolding permits_glob [symmetric]
  by (cases "effective_policy c roles") (auto simp: check_model_def check_dimension_permits)

definition demo_rbac :: RbacConfig where
  "demo_rbac = \<lparr>rb_enabled = True,
     rb_roles = [''analyst'' \<mapsto> \<lparr>rpol_models = Some [''gpt-4o-mini''], rpol_providers = None\<rparr>,
                 ''engineer'' \<mapsto> \<lparr>rpol_models = Some [''claude-*''], rpol_providers = None\<rparr>],
     rb_default_role = None\<rparr>"

theorem rbac_is_union_of_roles_witness:
  "check_model demo_rbac [''guest''] False ''gpt-4o'' = Err NoMatchingRole"
  using rbac_is_union_of_roles [of demo_rbac "[''guest'']" "''gpt-4o''" "[]"]
  by (simp add: demo_rbac_def applicable_def)

end
