(* ===== verification/Gateway_Policy.thy ===== *)
theory Gateway_Policy
  imports Rbac Rate_Limiter
begin

text \<open>
  The pre-flight checks of a request (\<^verbatim>\<open>himadri/src/gateway/policy.rs\<close>): role-based access to models
  and providers, the rules of the organisation and team scopes, token caps, and the rate limits with
  the limiter's state threaded through. Unicode lower-casing, the hash of the limiter's shards and the
  clock readings are arguments.
\<close>

section \<open>Role-based access\<close>

definition principal_of :: "AuthContext option \<Rightarrow> string list \<times> bool" where
  "principal_of auth =
     (case auth of
        Some a \<Rightarrow> (au_roles a, au_scope a = Admin_scope)
      | None \<Rightarrow> ([], False))"

definition check_rbac_model :: "AuthContext option \<Rightarrow> Config \<Rightarrow> string \<Rightarrow> (GatewayError, unit) result" where
  "check_rbac_model auth config model =
     (if \<not> rb_enabled (cfg_rbac config) then Ok ()
      else let (roles, is_admin) = principal_of auth
           in map_err (\<lambda>d. Forbidden (show_denial d)) (check_model (cfg_rbac config) roles is_admin model))"

text \<open>The filter keeps the denial of the last target it drops.\<close>

fun rbac_filter :: "RbacConfig \<Rightarrow> string list \<Rightarrow> RbacDenial option \<Rightarrow> Target list \<Rightarrow> Target list \<times> RbacDenial option" where
  "rbac_filter c roles denial [] = ([], denial)"
| "rbac_filter c roles denial (t # ts) =
     (case check_provider c roles False (tg_provider t) of
        Ok _ \<Rightarrow> (case rbac_filter c roles denial ts of (kept, d) \<Rightarrow> (t # kept, d))
      | Err d \<Rightarrow> rbac_filter c roles (Some d) ts)"

definition filter_targets_by_rbac ::
    "AuthContext option \<Rightarrow> Config \<Rightarrow> Target list \<Rightarrow> (GatewayError, Target list) result" where
  "filter_targets_by_rbac auth config ordered =
     (if \<not> rb_enabled (cfg_rbac config) then Ok ordered
      else let (roles, is_admin) = principal_of auth in
        if is_admin then Ok ordered
        else let (allowed, last_denial) = rbac_filter (cfg_rbac config) roles None ordered in
          if allowed = []
          then Err (Forbidden (case last_denial of
                 Some d \<Rightarrow> show_denial d | None \<Rightarrow> ''no permitted provider for your role''))
          else Ok allowed)"

section \<open>Scoped rules\<close>

fun check_model_lists :: "string \<Rightarrow> Scope list \<Rightarrow> (GatewayError, unit) result" where
  "check_model_lists model [] = Ok ()"
| "check_model_lists model (s # ss) =
     (if is_some_and (sp_allowed_models s) (\<lambda>l. model \<notin> set l)
      then Err (Forbidden (''Model '' @ quoted model @ '' not allowed for '' @ scope_kind_str (sp_kind s) @
             '' '' @ quoted (sp_id s)))
      else if is_some_and (sp_blocked_models s) (\<lambda>l. model \<in> set l)
      then Err (Forbidden (''Model '' @ quoted model @ '' blocked for '' @ scope_kind_str (sp_kind s) @
             '' '' @ quoted (sp_id s)))
      else check_model_lists model ss)"

fun find_blocked_word :: "string list \<Rightarrow> string list \<Rightarrow> string option" where
  "find_blocked_word words [] = None"
| "find_blocked_word words (text # texts) =
     (case find (\<lambda>w. str_contains w text) words of
        Some w \<Rightarrow> Some w
      | None \<Rightarrow> find_blocked_word words texts)"

definition lowered_messages :: "(string \<Rightarrow> string) \<Rightarrow> ChatCompletionRequest \<Rightarrow> string list" where
  "lowered_messages lower request =
     map (\<lambda>c. lower (flat_text c)) (List.map_filter msg_content (cr_messages request))"

fun check_scope_guardrails :: "(string \<Rightarrow> string) \<Rightarrow> ChatCompletionRequest \<Rightarrow> Scope list \<Rightarrow> (GatewayError, unit) result" where
  "check_scope_guardrails lower request [] = Ok ()"
| "check_scope_guardrails lower request (s # ss) =
     (let g = sp_guardrails s in
      if \<not> og_enabled g then check_scope_guardrails lower request ss
      else case (if og_blocked_words g = [] then None
                 else find_blocked_word (map lower (og_blocked_words g)) (lowered_messages lower request)) of
             Some word \<Rightarrow> Err (Forbidden (''Blocked word '' @ quoted word @ '' detected in request''))
           | None \<Rightarrow>
               (case (og_max_tokens_per_request g, cr_max_tokens request) of
                  (Some mx, Some requested) \<Rightarrow>
                    if mx < requested
                    then Err (Forbidden (''max_tokens '' @ show_nat (unat requested) @ '' exceeds '' @
                           scope_kind_str (sp_kind s) @ '' guardrail limit of '' @ show_nat (unat mx)))
                    else check_scope_guardrails lower request ss
                | _ \<Rightarrow> check_scope_guardrails lower request ss))"

definition check_org_guardrails ::
    "(string \<Rightarrow> string) \<Rightarrow> AuthContext option \<Rightarrow> Config \<Rightarrow> ChatCompletionRequest \<Rightarrow> (GatewayError, unit) result" where
  "check_org_guardrails lower auth config request =
     (case auth of
        None \<Rightarrow> Ok ()
      | Some a \<Rightarrow>
          (let ss = scopes config (au_org_id a) (au_team_id a) in
           case check_model_lists (cr_model request) ss of
             Err e \<Rightarrow> Err e
           | Ok _ \<Rightarrow> check_scope_guardrails lower request ss))"

fun check_token_caps :: "u32 \<Rightarrow> Scope list \<Rightarrow> (GatewayError, unit) result" where
  "check_token_caps requested [] = Ok ()"
| "check_token_caps requested (s # ss) =
     (case Option.bind (sp_token_budget s) otb_max_tokens_per_request of
        None \<Rightarrow> check_token_caps requested ss
      | Some mx \<Rightarrow>
          if mx < requested
          then Err (Forbidden (''max_tokens '' @ show_nat (unat requested) @ '' exceeds '' @
                 scope_kind_str (sp_kind s) @ '' limit of '' @ show_nat (unat mx)))
          else check_token_caps requested ss)"

definition check_token_budgets ::
    "AuthContext option \<Rightarrow> Config \<Rightarrow> ChatCompletionRequest \<Rightarrow> (GatewayError, unit) result" where
  "check_token_budgets auth config request =
     (case (cr_max_tokens request, auth) of
        (Some requested, Some a) \<Rightarrow> check_token_caps requested (scopes config (au_org_id a) (au_team_id a))
      | _ \<Rightarrow> Ok ())"

section \<open>Rate limits\<close>

text \<open>The clock readings of the global, the key and the organisation check are \<open>now 0\<close>, \<open>now 1\<close> and
  \<open>now 2\<close>.\<close>

definition check_rate_limits ::
    "(string \<Rightarrow> u64) \<Rightarrow> (nat \<Rightarrow> u64) \<Rightarrow> AuthContext option \<Rightarrow> Config \<Rightarrow> RateLimiter \<Rightarrow>
     (GatewayError, unit) result \<times> RateLimiter" where
  "check_rate_limits hash now auth config rl =
     (if \<not> rls_enabled (cfg_rate_limit config) then (Ok (), rl) else
      let (ok, rl) = rl_check_global hash (now 0) rl in
      if \<not> ok then (Err (RateLimited 1), rl) else
      case auth of
        None \<Rightarrow> (Ok (), rl)
      | Some a \<Rightarrow>
          let (ok, rl) =
            (case au_key_id a of
               None \<Rightarrow> (True, rl)
             | Some key_id \<Rightarrow>
                 let (rate, burst) =
                   (case au_rate_limit_override a of
                      Some ov \<Rightarrow> (ro_requests_per_second ov, ro_burst_size ov)
                    | None \<Rightarrow> (None, None))
                 in rl_check_key hash (now 1) key_id rate burst rl) in
          if \<not> ok then (Err (RateLimited 1), rl) else
          let (ok, rl) =
            (case au_org_id a of
               None \<Rightarrow> (True, rl)
             | Some org_id \<Rightarrow>
                 (case Option.bind (cfg_orgs config org_id) org_rate_limit of
                    None \<Rightarrow> (True, rl)
                  | Some lcfg \<Rightarrow>
                      if rls_enabled lcfg
                      then rl_check_org hash (now 2) org_id (Some (rls_requests_per_second lcfg)) (Some (rls_burst_size lcfg)) rl
                      else (True, rl))) in
          if \<not> ok then (Err (RateLimited 1), rl) else (Ok (), rl))"

section \<open>Meaning of the checks\<close>

lemma rbac_filter_kept:
  "fst (rbac_filter c roles d ts) = filter (\<lambda>t. is_ok (check_provider c roles False (tg_provider t))) ts"
  by (induction ts arbitrary: d) (auto simp: case_prod_beta split: sum.split)

lemma check_model_lists_Ok:
  "check_model_lists model ss = Ok () \<longleftrightarrow>
     (\<forall>s\<in>set ss. (\<forall>l. sp_allowed_models s = Some l \<longrightarrow> model \<in> set l) \<and>
                 (\<forall>l. sp_blocked_models s = Some l \<longrightarrow> model \<notin> set l))"
  by (induction ss) (auto simp: is_some_and_def split: option.split)

lemma find_blocked_word_None:
  "find_blocked_word words texts = None \<longleftrightarrow> (\<forall>t\<in>set texts. \<forall>w\<in>set words. \<not> str_contains w t)"
  by (induction texts) (auto simp: find_None_iff find_Some_iff split: option.split)

lemma check_token_caps_Ok:
  "check_token_caps requested ss = Ok () \<longleftrightarrow>
     (\<forall>s\<in>set ss. \<forall>mx. Option.bind (sp_token_budget s) otb_max_tokens_per_request = Some mx \<longrightarrow> requested \<le> mx)"
  by (induction ss) (auto split: option.split)

definition guardrail_ok :: "(string \<Rightarrow> string) \<Rightarrow> ChatCompletionRequest \<Rightarrow> OrgGuardrailConfig \<Rightarrow> bool" where
  "guardrail_ok lower request g =
     (og_enabled g \<longrightarrow>
        (\<forall>m\<in>set (cr_messages request). \<forall>c. msg_content m = Some c \<longrightarrow>
           (\<forall>w\<in>set (og_blocked_words g). \<not> str_contains (lower w) (lower (flat_text c)))) \<and>
        (\<forall>mx requested. og_max_tokens_per_request g = Some mx \<and> cr_max_tokens request = Some requested \<longrightarrow>
           requested \<le> mx))"

lemma set_lowered_messages:
  "set (lowered_messages lower request) =
     {lower (flat_text c) | m c. m \<in> set (cr_messages request) \<and> msg_content m = Some c}"
  by (auto simp: lowered_messages_def set_map_filter image_iff)

lemma blocked_words_ok:
  "(if og_blocked_words g = [] then None
    else find_blocked_word (map lower (og_blocked_words g)) (lowered_messages lower request)) = None \<longleftrightarrow>
   (\<forall>m\<in>set (cr_messages request). \<forall>c. msg_content m = Some c \<longrightarrow>
      (\<forall>w\<in>set (og_blocked_words g). \<not> str_contains (lower w) (lower (flat_text c))))"
  by (auto simp: find_blocked_word_None set_lowered_messages)

lemma check_scope_guardrails_Ok:
  "check_scope_guardrails lower request ss = Ok () \<longleftrightarrow> (\<forall>s\<in>set ss. guardrail_ok lower request (sp_guardrails s))"
proof (induction ss)
  case (Cons s ss)
  let ?b = "if og_blocked_words (sp_guardrails s) = [] then None
    else find_blocked_word (map lower (og_blocked_words (sp_guardrails s))) (lowered_messages lower request)"
  show ?case
  proof (cases "?b")
    case None
    with Cons blocked_words_ok [of "sp_guardrails s" lower request] show ?thesis
      by (auto simp: Let_def guardrail_ok_def not_less split: option.split)
  next
    case (Some w)
    with Cons blocked_words_ok [of "sp_guardrails s" lower request] show ?thesis
      by (auto simp: Let_def guardrail_ok_def)
  qed
qed simp

text \<open>A scope's rules, all of them.\<close>

definition scope_permits :: "(string \<Rightarrow> string) \<Rightarrow> ChatCompletionRequest \<Rightarrow> Scope \<Rightarrow> bool" where
  "scope_permits lower request s =
     ((\<forall>l. sp_allowed_models s = Some l \<longrightarrow> cr_model request \<in> set l) \<and>
      (\<forall>l. sp_blocked_models s = Some l \<longrightarrow> cr_model request \<notin> set l) \<and>
      guardrail_ok lower request (sp_guardrails s) \<and>
      (\<forall>mx requested. Option.bind (sp_token_budget s) otb_max_tokens_per_request = Some mx \<and>
         cr_max_tokens request = Some requested \<longrightarrow> requested \<le> mx))"

section \<open>Properties\<close>

text \<open>The scoped rules are cumulative: a principal's request passes the organisation and team checks
  exactly when every scope in its chain permits it, so that a team's section can only narrow what its
  organisation allows and an absent rule of one scope never lifts a rule of the other.\<close>

theorem scoped_rules_cumulative:
  "check_org_guardrails lower (Some a) config request = Ok () \<and>
   check_token_budgets (Some a) config request = Ok () \<longleftrightarrow>
     list_all (scope_permits lower request) (scopes config (au_org_id a) (au_team_id a))"
proof -
  let ?ss = "scopes config (au_org_id a) (au_team_id a)"
  have "check_org_guardrails lower (Some a) config request = Ok () \<longleftrightarrow>
      check_model_lists (cr_model request) ?ss = Ok () \<and> check_scope_guardrails lower request ?ss = Ok ()"
    by (simp add: check_org_guardrails_def Let_def split: sum.split)
  moreover have "check_token_budgets (Some a) config request = Ok () \<longleftrightarrow>
      (\<forall>requested. cr_max_tokens request = Some requested \<longrightarrow> check_token_caps requested ?ss = Ok ())"
    by (simp add: check_token_budgets_def split: option.split)
  ultimately show ?thesis
    by (auto simp: check_model_lists_Ok check_scope_guardrails_Ok check_token_caps_Ok scope_permits_def list_all_iff)
qed

text \<open>Failover stays within the principal's grants: with RBAC enabled, the targets a non-admin
  principal is routed to are exactly those of the strategy's order whose provider its roles permit, in
  the same order; when none is left the request is refused with 403.\<close>

theorem rbac_filter_exact:
  assumes "rb_enabled (cfg_rbac config)" and "\<not> snd (principal_of auth)"
    and "allowed = filter (\<lambda>t. \<exists>p\<in>applicable (cfg_rbac config) (fst (principal_of auth)).
           case rpol_providers p of None \<Rightarrow> True | Some ps \<Rightarrow> (\<exists>q\<in>set ps. glob q (tg_provider t))) ordered"
  shows "if allowed = [] then \<exists>why. filter_targets_by_rbac auth config ordered = Err (Forbidden why)
     else filter_targets_by_rbac auth config ordered = Ok allowed"
proof -
  let ?roles = "fst (principal_of auth)" and ?c = "cfg_rbac config"
  have prov: "is_ok (check_provider ?c ?roles False (tg_provider t)) \<longleftrightarrow>
      (\<exists>p\<in>applicable ?c ?roles. case rpol_providers p of None \<Rightarrow> True | Some ps \<Rightarrow> (\<exists>q\<in>set ps. glob q (tg_provider t)))"
    for t
    using rbac_provider_iff [OF assms(1), of ?roles "tg_provider t"] by (auto simp: is_ok_iff)
  have "allowed = fst (rbac_filter ?c ?roles None ordered)"
    unfolding assms(3) rbac_filter_kept by (rule filter_cong) (simp_all only: prov)
  with assms(1,2) show ?thesis
    by (auto simp: filter_targets_by_rbac_def Let_def case_prod_beta)
qed

theorem rbac_filter_exact_witness:
  "\<exists>why. filter_targets_by_rbac None
      (Config_default\<lparr>cfg_rbac := \<lparr>rb_enabled = True, rb_roles = Map.empty, rb_default_role = None\<rparr>\<rparr>)
      (cfg_targets Config_default) = Err (Forbidden why)"
  using rbac_filter_exact [of "Config_default\<lparr>cfg_rbac := \<lparr>rb_enabled = True, rb_roles = Map.empty, rb_default_role = None\<rparr>\<rparr>"
      None "[]" "cfg_targets Config_default"]
  by (simp add: principal_of_def applicable_def)

end
