(* ===== verification/Usage_Store.thy ===== *)
theory Usage_Store
  imports Prelude Complex_Main "HOL-Library.Multiset"
begin

text \<open>
  The in-memory accounting stores of the admin crate: usage records with their pricing table, per-key
  statistics and dashboard (\<^verbatim>\<open>himadri-admin/src/usage_store.rs\<close>), and the request log
  (\<^verbatim>\<open>himadri-admin/src/request_log.rs\<close>). Both hold a bounded ring; the interface \<open>retention\<close> states what
  a ring promises and is interpreted on both. Floating-point amounts are rational numbers; the iteration
  order of a hash map is an argument.
\<close>

type_synonym datetime = int

section \<open>Bounded rings\<close>

function evict :: "nat \<Rightarrow> 'a list \<Rightarrow> 'a list" where
  "evict cap xs = (if cap < length xs then evict cap (tl xs) else xs)"
  by pat_completeness auto
termination
  by (relation "measure (\<lambda>(cap, xs). length xs)") auto

declare evict.simps [simp del]

definition newest :: "nat \<Rightarrow> 'a list \<Rightarrow> 'a list" where
  "newest n xs = drop (length xs - n) xs"

lemma evict_newest: "evict cap xs = newest cap xs"
proof (induction cap xs rule: evict.induct)
  case (1 cap xs)
  show ?case
  proof (cases "cap < length xs")
    case True
    then obtain y ys where "xs = y # ys" by (cases xs) auto
    with 1 True show ?thesis by (simp add: evict.simps [of cap "y # ys"] newest_def Suc_diff_le)
  qed (simp add: evict.simps [of cap xs] newest_def)
qed

lemma newest_length: "length (newest n xs) = min n (length xs)"
  by (simp add: newest_def)

lemma newest_all: "length xs \<le> n \<Longrightarrow> newest n xs = xs"
  by (simp add: newest_def)

lemma newest_append_newest: "newest n (newest n xs @ ys) = newest n (xs @ ys)"
proof (cases "n \<le> length xs")
  case True
  then have "length xs + length ys - n = (length xs - n) + length ys" by simp
  with True show ?thesis by (simp add: newest_def add.commute)
qed (simp add: newest_def)

locale retention =
  fixes push :: "'a \<Rightarrow> 's \<Rightarrow> 's"
    and held :: "'s \<Rightarrow> 'a list"
    and cap :: "'s \<Rightarrow> nat"
  assumes held_push: "held (push x s) = newest (cap s) (held s @ [x])"
    and cap_push: "cap (push x s) = cap s"
begin

lemma cap_run: "cap (fold push xs s) = cap s"
  by (induction xs arbitrary: s) (simp_all add: cap_push)

lemma held_run: "held s = newest (cap s) ys \<Longrightarrow> held (fold push xs s) = newest (cap s) (ys @ xs)"
proof (induction xs arbitrary: s ys)
  case (Cons x xs)
  from Cons.prems have "held (push x s) = newest (cap (push x s)) (ys @ [x])"
    by (simp add: held_push cap_push newest_append_newest)
  from Cons.IH [OF this] show ?case by (simp add: cap_push)
qed simp

lemma held_bounded: "length (held s) \<le> cap s \<Longrightarrow> length (held (fold push xs s)) \<le> cap s"
  using held_run [of s "held s" xs] by (simp add: newest_all newest_length)

end

section \<open>Usage records\<close>

record UsageRecord =
  ur_request_id :: string
  ur_api_key_id :: "string option"
  ur_model :: string
  ur_provider :: string
  ur_prompt_tokens :: u32
  ur_completion_tokens :: u32
  ur_total_tokens :: u32
  ur_cost_usd :: rat
  ur_latency_ms :: u64
  ur_created_at :: datetime
  ur_success :: bool
  ur_error_message :: "string option"

record UsageStats =
  us_api_key_id :: string
  us_total_requests :: u64
  us_successful_requests :: u64
  us_failed_requests :: u64
  us_total_prompt_tokens :: u64
  us_total_completion_tokens :: u64
  us_total_tokens :: u64
  us_total_cost_usd :: rat
  us_avg_latency_ms :: rat
  us_last_request_at :: "datetime option"
  us_models_used :: "string list"

record ModelUsage =
  mu_model :: string
  mu_requests :: u64
  mu_tokens :: u64
  mu_cost_usd :: rat

record ProviderUsage =
  pu_provider :: string
  pu_requests :: u64
  pu_tokens :: u64
  pu_cost_usd :: rat

record DashboardSummary =
  ds_total_keys :: nat
  ds_total_requests :: u64
  ds_total_tokens :: u64
  ds_total_cost_usd :: rat
  ds_avg_latency_ms :: rat
  ds_error_rate :: rat
  ds_top_models :: "ModelUsage list"
  ds_top_providers :: "ProviderUsage list"
  ds_recent_errors :: "UsageRecord list"

record ModelPricing =
  mp_model :: string
  mp_input_per_m_tokens :: rat
  mp_output_per_m_tokens :: rat

record UsageStore =
  ust_records :: "UsageRecord list"
  ust_max_records :: nat
  ust_pricing :: "ModelPricing list"

definition DEFAULT_MAX_RECORDS :: nat where
  "DEFAULT_MAX_RECORDS = 100000"

definition default_pricing :: "ModelPricing list" where
  "default_pricing =
    [\<lparr>mp_model = ''gpt-4'', mp_input_per_m_tokens = 30, mp_output_per_m_tokens = 60\<rparr>,
     \<lparr>mp_model = ''gpt-4o'', mp_input_per_m_tokens = 5/2, mp_output_per_m_tokens = 10\<rparr>,
     \<lparr>mp_model = ''gpt-4o-mini'', mp_input_per_m_tokens = 15/100, mp_output_per_m_tokens = 6/10\<rparr>,
     \<lparr>mp_model = ''gpt-3.5-turbo'', mp_input_per_m_tokens = 1/2, mp_output_per_m_tokens = 3/2\<rparr>,
     \<lparr>mp_model = ''claude-3-5-sonnet-20241022'', mp_input_per_m_tokens = 3, mp_output_per_m_tokens = 15\<rparr>,
     \<lparr>mp_model = ''claude-3-opus-20240229'', mp_input_per_m_tokens = 15, mp_output_per_m_tokens = 75\<rparr>,
     \<lparr>mp_model = ''claude-3-haiku-20240307'', mp_input_per_m_tokens = 1/4, mp_output_per_m_tokens = 5/4\<rparr>,
     \<lparr>mp_model = ''gemini-2.0-flash'', mp_input_per_m_tokens = 75/1000, mp_output_per_m_tokens = 3/10\<rparr>,
     \<lparr>mp_model = ''gemini-1.5-pro'', mp_input_per_m_tokens = 5/4, mp_output_per_m_tokens = 5\<rparr>]"

fun override_price :: "ModelPricing \<Rightarrow> ModelPricing list \<Rightarrow> ModelPricing list" where
  "override_price entry [] = [entry]"
| "override_price entry (p # ps) =
     (if mp_model p = mp_model entry then entry # ps else p # override_price entry ps)"

definition load_pricing ::
    "(string \<rightharpoonup> string) \<Rightarrow> (string \<Rightarrow> ModelPricing list option) \<Rightarrow> ModelPricing list" where
  "load_pricing env from_json =
     (case env ''PRICING_TABLE'' of
        None \<Rightarrow> default_pricing
      | Some raw \<Rightarrow>
          (case from_json raw of
             Some overrides \<Rightarrow> fold override_price overrides default_pricing
           | None \<Rightarrow> default_pricing))"

definition usage_store_new ::
    "(string \<rightharpoonup> string) \<Rightarrow> (string \<Rightarrow> ModelPricing list option) \<Rightarrow> UsageStore" where
  "usage_store_new env from_json =
     \<lparr>ust_records = [], ust_max_records = DEFAULT_MAX_RECORDS, ust_pricing = load_pricing env from_json\<rparr>"

definition usage_record :: "UsageRecord \<Rightarrow> UsageStore \<Rightarrow> UsageStore" where
  "usage_record r s = s\<lparr>ust_records := evict (ust_max_records s) (ust_records s @ [r])\<rparr>"

definition calculate_cost :: "UsageStore \<Rightarrow> string \<Rightarrow> u32 \<Rightarrow> u32 \<Rightarrow> rat" where
  "calculate_cost s model prompt completion =
     (case find (\<lambda>p. mp_model p = model) (ust_pricing s) of
        Some p \<Rightarrow> of_nat (unat prompt) / 1000000 * mp_input_per_m_tokens p
                  + of_nat (unat completion) / 1000000 * mp_output_per_m_tokens p
      | None \<Rightarrow> 0)"

definition usage_count :: "UsageStore \<Rightarrow> nat" where
  "usage_count s = length (ust_records s)"

record KeyAcc =
  ka_requests :: u64
  ka_successful :: u64
  ka_failed :: u64
  ka_prompt :: u64
  ka_completion :: u64
  ka_cost :: rat
  ka_latency :: u64
  ka_last :: "datetime option"
  ka_models :: "string list"

definition key_acc :: "string \<Rightarrow> UsageRecord \<Rightarrow> KeyAcc \<Rightarrow> KeyAcc" where
  "key_acc api_key_id r a =
     (if ur_api_key_id r = Some api_key_id
      then \<lparr>ka_requests = ka_requests a + 1,
            ka_successful = (if ur_success r then ka_successful a + 1 else ka_successful a),
            ka_failed = (if ur_success r then ka_failed a else ka_failed a + 1),
            ka_prompt = ka_prompt a + ucast (ur_prompt_tokens r),
            ka_completion = ka_completion a + ucast (ur_completion_tokens r),
            ka_cost = ka_cost a + ur_cost_usd r,
            ka_latency = ka_latency a + ur_latency_ms r,
            ka_last = (case ka_last a of
                         None \<Rightarrow> Some (ur_created_at r)
                       | Some t \<Rightarrow> if t < ur_created_at r then Some (ur_created_at r) else Some t),
            ka_models = List.insert (ur_model r) (ka_models a)\<rparr>
      else a)"

definition key_acc_init :: KeyAcc where
  "key_acc_init = \<lparr>ka_requests = 0, ka_successful = 0, ka_failed = 0, ka_prompt = 0, ka_completion = 0,
     ka_cost = 0, ka_latency = 0, ka_last = None, ka_models = []\<rparr>"

definition get_key_stats :: "UsageStore \<Rightarrow> string \<Rightarrow> UsageStats" where
  "get_key_stats s api_key_id =
     (let a = fold (key_acc api_key_id) (ust_records s) key_acc_init
      in \<lparr>us_api_key_id = api_key_id, us_total_requests = ka_requests a,
          us_successful_requests = ka_successful a, us_failed_requests = ka_failed a,
          us_total_prompt_tokens = ka_prompt a, us_total_completion_tokens = ka_completion a,
          us_total_tokens = ka_prompt a + ka_completion a, us_total_cost_usd = ka_cost a,
          us_avg_latency_ms =
            (if 0 < ka_requests a then of_nat (unat (ka_latency a)) / of_nat (unat (ka_requests a)) else 0),
          us_last_request_at = ka_last a, us_models_used = ka_models a\<rparr>)"

text \<open>A breakdown entry: requests, tokens and cost.\<close>

type_synonym breakdown = "(string, u64 \<times> u64 \<times> rat) al"

definition bump :: "string \<Rightarrow> UsageRecord \<Rightarrow> breakdown \<Rightarrow> breakdown" where
  "bump k r m =
     (let (n, t, c) = (case map_of m k of Some e \<Rightarrow> e | None \<Rightarrow> (0, 0, 0))
      in al_put k (n + 1, t + ucast (ur_total_tokens r), c + ur_cost_usd r) m)"

definition by_requests :: "string \<times> u64 \<times> u64 \<times> rat \<Rightarrow> int" where
  "by_requests e = - int (unat (fst (snd e)))"

definition top_n ::
    "(breakdown \<Rightarrow> breakdown) \<Rightarrow> breakdown \<Rightarrow> nat \<Rightarrow> (string \<Rightarrow> u64 \<Rightarrow> u64 \<Rightarrow> rat \<Rightarrow> 't) \<Rightarrow> 't list" where
  "top_n iter stats n mk =
     (let items = sort_key by_requests (iter stats)
      in map (\<lambda>(k, requests, tokens, cost). mk k requests tokens cost) (take n items))"

record DashAcc =
  da_requests :: u64
  da_tokens :: u64
  da_cost :: rat
  da_latency :: u64
  da_errors :: u64
  da_models :: breakdown
  da_providers :: breakdown

definition dash_acc :: "UsageRecord \<Rightarrow> DashAcc \<Rightarrow> DashAcc" where
  "dash_acc r a =
     \<lparr>da_requests = da_requests a + 1,
      da_tokens = da_tokens a + ucast (ur_total_tokens r),
      da_cost = da_cost a + ur_cost_usd r,
      da_latency = da_latency a + ur_latency_ms r,
      da_errors = (if ur_success r then da_errors a else da_errors a + 1),
      da_models = bump (ur_model r) r (da_models a),
      da_providers = bump (ur_provider r) r (da_providers a)\<rparr>"

definition dash_acc_init :: DashAcc where
  "dash_acc_init = \<lparr>da_requests = 0, da_tokens = 0, da_cost = 0, da_latency = 0, da_errors = 0,
     da_models = [], da_providers = []\<rparr>"

definition get_dashboard :: "(breakdown \<Rightarrow> breakdown) \<Rightarrow> UsageStore \<Rightarrow> nat \<Rightarrow> DashboardSummary" where
  "get_dashboard iter s key_count =
     (let a = fold dash_acc (ust_records s) dash_acc_init;
          mean = (\<lambda>x. if 0 < da_requests a then of_nat (unat x) / of_nat (unat (da_requests a)) else 0)
      in \<lparr>ds_total_keys = key_count, ds_total_requests = da_requests a, ds_total_tokens = da_tokens a,
          ds_total_cost_usd = da_cost a, ds_avg_latency_ms = mean (da_latency a),
          ds_error_rate = mean (da_errors a),
          ds_top_models = top_n iter (da_models a) 10
            (\<lambda>k n t c. \<lparr>mu_model = k, mu_requests = n, mu_tokens = t, mu_cost_usd = c\<rparr>),
          ds_top_providers = top_n iter (da_providers a) 10
            (\<lambda>k n t c. \<lparr>pu_provider = k, pu_requests = n, pu_tokens = t, pu_cost_usd = c\<rparr>),
          ds_recent_errors = take 10 (filter (\<lambda>r. \<not> ur_success r) (rev (ust_records s)))\<rparr>)"

section \<open>Request log\<close>

record RequestLogEntry =
  rle_trace_id :: string
  rle_stage :: string
  rle_model :: string
  rle_provider :: string
  rle_prompt_tokens :: u32
  rle_completion_tokens :: u32
  rle_total_tokens :: u32
  rle_error_message :: "string option"
  rle_created_at :: datetime

record RequestLogQuery =
  rlq_limit :: "nat option"
  rlq_offset :: "nat option"
  rlq_stage :: "string option"
  rlq_model :: "string option"
  rlq_provider :: "string option"
  rlq_since :: "datetime option"

record MaintenanceQuery =
  mq_before :: "datetime option"
  mq_stage :: "string option"
  mq_model :: "string option"
  mq_provider :: "string option"

record RequestLogListResult =
  rlr_data :: "RequestLogEntry list"
  rlr_total :: nat

record InMemoryRequestLogStore =
  rqs_entries :: "RequestLogEntry list"
  rqs_max_entries :: nat

definition DEFAULT_MAX_ENTRIES :: nat where
  "DEFAULT_MAX_ENTRIES = 100000"

definition request_log_new :: InMemoryRequestLogStore where
  "request_log_new = \<lparr>rqs_entries = [], rqs_max_entries = DEFAULT_MAX_ENTRIES\<rparr>"

definition request_log_write :: "RequestLogEntry \<Rightarrow> InMemoryRequestLogStore \<Rightarrow> InMemoryRequestLogStore" where
  "request_log_write e s = s\<lparr>rqs_entries := evict (rqs_max_entries s) (rqs_entries s @ [e])\<rparr>"

definition log_query_keeps :: "RequestLogQuery \<Rightarrow> RequestLogEntry \<Rightarrow> bool" where
  "log_query_keeps q e =
     (if is_some_and (rlq_stage q) (\<lambda>stage. rle_stage e \<noteq> stage) then False
      else if is_some_and (rlq_model q) (\<lambda>model. rle_model e \<noteq> model) then False
      else if is_some_and (rlq_provider q) (\<lambda>provider. rle_provider e \<noteq> provider) then False
      else if is_some_and (rlq_since q) (\<lambda>since. rle_created_at e < since) then False
      else True)"

definition request_log_list :: "InMemoryRequestLogStore \<Rightarrow> RequestLogQuery \<Rightarrow> RequestLogListResult" where
  "request_log_list s q =
     (let filtered = filter (log_query_keeps q) (rqs_entries s)
      in \<lparr>rlr_data = take (unwrap_or (rlq_limit q) 100) (drop (unwrap_or (rlq_offset q) 0) filtered),
          rlr_total = length filtered\<rparr>)"

definition retain_entry :: "MaintenanceQuery \<Rightarrow> RequestLogEntry \<Rightarrow> bool" where
  "retain_entry q e =
     (if is_some_and (mq_before q) (\<lambda>before. before \<le> rle_created_at e) then True
      else if is_some_and (mq_stage q) (\<lambda>stage. rle_stage e = stage) then False
      else if is_some_and (mq_model q) (\<lambda>model. rle_model e = model) then False
      else if is_some_and (mq_provider q) (\<lambda>provider. rle_provider e = provider) then False
      else True)"

definition request_log_delete ::
    "MaintenanceQuery \<Rightarrow> InMemoryRequestLogStore \<Rightarrow> nat \<times> InMemoryRequestLogStore" where
  "request_log_delete q s =
     (let kept = filter (retain_entry q) (rqs_entries s)
      in (length (rqs_entries s) - length kept, s\<lparr>rqs_entries := kept\<rparr>))"

definition request_log_count :: "InMemoryRequestLogStore \<Rightarrow> nat" where
  "request_log_count s = length (rqs_entries s)"

section \<open>The rings\<close>

interpretation usage_ring: retention usage_record ust_records ust_max_records
  by unfold_locales (simp_all add: usage_record_def evict_newest)

interpretation log_ring: retention request_log_write rqs_entries rqs_max_entries
  by unfold_locales (simp_all add: request_log_write_def evict_newest)

text \<open>However many records arrive, the usage store holds exactly the newest 100000 of them, in order.\<close>

theorem usage_retains_newest:
  "ust_records (fold usage_record rs (usage_store_new env from_json)) = newest DEFAULT_MAX_RECORDS rs"
  using usage_ring.held_run [of "usage_store_new env from_json" "[]" rs]
  by (simp add: usage_store_new_def newest_def)

section \<open>Statistics of a key\<close>

definition records_of :: "UsageStore \<Rightarrow> string \<Rightarrow> UsageRecord list" where
  "records_of s k = filter (\<lambda>r. ur_api_key_id r = Some k) (ust_records s)"

lemma fold_key_acc: "fold (key_acc k) rs a = fold (key_acc k) (filter (\<lambda>r. ur_api_key_id r = Some k) rs) a"
  by (induction rs arbitrary: a) (simp_all add: key_acc_def)

lemma key_acc_sums:
  assumes "\<forall>r\<in>set rs. ur_api_key_id r = Some k"
  shows "ka_requests (fold (key_acc k) rs a) = ka_requests a + of_nat (length rs)"
    and "ka_successful (fold (key_acc k) rs a) = ka_successful a + of_nat (length (filter ur_success rs))"
    and "ka_failed (fold (key_acc k) rs a) = ka_failed a + of_nat (length (filter (\<lambda>r. \<not> ur_success r) rs))"
    and "ka_prompt (fold (key_acc k) rs a) =
           ka_prompt a + of_nat (\<Sum>r\<leftarrow>rs. unat (ur_prompt_tokens r))"
    and "ka_completion (fold (key_acc k) rs a) =
           ka_completion a + of_nat (\<Sum>r\<leftarrow>rs. unat (ur_completion_tokens r))"
    and "ka_cost (fold (key_acc k) rs a) = ka_cost a + (\<Sum>r\<leftarrow>rs. ur_cost_usd r)"
    and "set (ka_models (fold (key_acc k) rs a)) = set (ka_models a) \<union> ur_model ` set rs"
  using assms
  by (induction rs arbitrary: a) (simp_all add: key_acc_def algebra_simps)

lemma sum_u32_bound:
  fixes f :: "'a \<Rightarrow> u32"
  assumes "length rs \<le> DEFAULT_MAX_RECORDS"
  shows "(\<Sum>r\<leftarrow>rs. unat (f r)) \<le> 429496729500000"
proof -
  have "unat (f r) < 2 ^ LENGTH(32)" for r by (rule unsigned_less)
  then have "unat (f r) \<le> 4294967295" for r using less_Suc_eq_le [of "unat (f r)" 4294967295] by simp
  then have "(\<Sum>r\<leftarrow>rs. unat (f r)) \<le> (\<Sum>r\<leftarrow>rs. 4294967295)"
    by (intro sum_list_mono) simp
  also have "\<dots> \<le> DEFAULT_MAX_RECORDS * 4294967295"
    using assms by (simp add: sum_list_triv)
  finally show ?thesis by (simp add: DEFAULT_MAX_RECORDS_def)
qed

lemma unat_small: "n \<le> 900000000000000 \<Longrightarrow> unat (of_nat n :: u64) = n"
  by (simp add: unat_of_nat)

lemma records_of_small:
  "length (ust_records s) \<le> DEFAULT_MAX_RECORDS \<Longrightarrow> length (records_of s k) \<le> DEFAULT_MAX_RECORDS"
  unfolding records_of_def using length_filter_le order_trans by blast

lemma key_last:
  assumes "\<forall>r\<in>set rs. ur_api_key_id r = Some k" and "rs \<noteq> []"
  shows "ka_last (fold (key_acc k) rs (a\<lparr>ka_last := None\<rparr>)) = Some (Max (ur_created_at ` set rs))"
proof -
  have more: "ka_last (fold (key_acc k) rs a) = Some (Max (insert t (ur_created_at ` set rs)))"
    if "ka_last a = Some t" "\<forall>r\<in>set rs. ur_api_key_id r = Some k" for rs a t
    using that
  proof (induction rs arbitrary: a t)
    case (Cons r rs)
    let ?t = "max t (ur_created_at r)"
    from Cons.prems have "ka_last (key_acc k r a) = Some ?t"
      by (simp add: key_acc_def max_def)
    with Cons have "ka_last (fold (key_acc k) rs (key_acc k r a)) =
        Some (Max (insert ?t (ur_created_at ` set rs)))" by simp
    moreover have "Max (insert ?t (ur_created_at ` set rs)) =
        Max (insert t (ur_created_at ` set (r # rs)))"
      by (cases "rs = []") (simp_all add: max.assoc)
    ultimately show ?case by simp
  qed simp
  from assms obtain r rs' where [simp]: "rs = r # rs'" by (cases rs) auto
  have "ka_last (key_acc k r (a\<lparr>ka_last := None\<rparr>)) = Some (ur_created_at r)"
    using assms by (simp add: key_acc_def)
  from more [OF this, of rs'] assms show ?thesis by simp
qed

lemma key_last_init:
  assumes "\<forall>r\<in>set rs. ur_api_key_id r = Some k"
  shows "ka_last (fold (key_acc k) rs key_acc_init) =
           (if rs = [] then None else Some (Max (ur_created_at ` set rs)))"
  using key_last [OF assms, of key_acc_init] by (simp add: key_acc_init_def)

text \<open>While the store holds at most its cap, the statistics of a key count exactly that key's
  records: requests split into successes and failures, token sums without wrap-around in 64 bits, the
  cost sum, the newest timestamp and the set of models.\<close>

theorem key_stats_exact:
  assumes "length (ust_records s) \<le> DEFAULT_MAX_RECORDS"
  shows "let rs = records_of s k in
      unat (us_total_requests (get_key_stats s k)) = length rs
    \<and> unat (us_successful_requests (get_key_stats s k)) = length (filter ur_success rs)
    \<and> unat (us_failed_requests (get_key_stats s k)) = length (filter (\<lambda>r. \<not> ur_success r) rs)
    \<and> unat (us_total_tokens (get_key_stats s k)) =
        (\<Sum>r\<leftarrow>rs. unat (ur_prompt_tokens r)) + (\<Sum>r\<leftarrow>rs. unat (ur_completion_tokens r))
    \<and> us_total_cost_usd (get_key_stats s k) = (\<Sum>r\<leftarrow>rs. ur_cost_usd r)
    \<and> us_last_request_at (get_key_stats s k) =
        (if rs = [] then None else Some (Max (ur_created_at ` set rs)))
    \<and> set (us_models_used (get_key_stats s k)) = ur_model ` set rs"
proof -
  define rs where "rs = records_of s k"
  have mine: "\<forall>r\<in>set rs. ur_api_key_id r = Some k" by (simp add: rs_def records_of_def)
  have small: "length rs \<le> DEFAULT_MAX_RECORDS"
    using assms records_of_small by (simp add: rs_def)
  have part: "length (filter p rs) \<le> 900000000000000" for p
    by (rule order_trans [OF length_filter_le]) (use small in \<open>simp add: DEFAULT_MAX_RECORDS_def\<close>)
  have "length rs \<le> 900000000000000" using small by (simp add: DEFAULT_MAX_RECORDS_def)
  moreover have "(\<Sum>r\<leftarrow>rs. unat (ur_prompt_tokens r)) + (\<Sum>r\<leftarrow>rs. unat (ur_completion_tokens r)) \<le> 900000000000000"
    using sum_u32_bound [OF small, of ur_prompt_tokens] sum_u32_bound [OF small, of ur_completion_tokens] by simp
  moreover have "fold (key_acc k) (ust_records s) key_acc_init = fold (key_acc k) rs key_acc_init"
    unfolding rs_def records_of_def by (rule fold_key_acc)
  ultimately show ?thesis
    using key_acc_sums [OF mine, of key_acc_init] key_last_init [OF mine] part
    unfolding rs_def [symmetric] Let_def
    by (simp add: get_key_stats_def Let_def key_acc_init_def unat_small flip: of_nat_add)
qed

definition sample_usage :: UsageStore where
  "sample_usage =
     (let r = \<lparr>ur_request_id = ''r'', ur_api_key_id = Some ''k'', ur_model = ''gpt-4'', ur_provider = ''openai'',
                ur_prompt_tokens = 10, ur_completion_tokens = 5, ur_total_tokens = 15, ur_cost_usd = 1/2,
                ur_latency_ms = 7, ur_created_at = 1, ur_success = True, ur_error_message = None\<rparr>
      in \<lparr>ust_records = [r, r\<lparr>ur_api_key_id := None\<rparr>, r\<lparr>ur_success := False\<rparr>],
          ust_max_records = DEFAULT_MAX_RECORDS, ust_pricing = default_pricing\<rparr>)"

theorem key_stats_exact_witness:
  "unat (us_total_requests (get_key_stats sample_usage ''k'')) = 2
   \<and> unat (us_failed_requests (get_key_stats sample_usage ''k'')) = 1
   \<and> unat (us_total_tokens (get_key_stats sample_usage ''k'')) = 30
   \<and> us_last_request_at (get_key_stats sample_usage ''k'') = Some 1"
  using key_stats_exact [of sample_usage "''k''"]
  by (simp add: sample_usage_def records_of_def DEFAULT_MAX_RECORDS_def Let_def)

section \<open>Dashboard\<close>

definition entry_of :: "UsageRecord list \<Rightarrow> u64 \<times> u64 \<times> rat" where
  "entry_of rs = (of_nat (length rs), of_nat (\<Sum>r\<leftarrow>rs. unat (ur_total_tokens r)), \<Sum>r\<leftarrow>rs. ur_cost_usd r)"

definition breakdown_by :: "(UsageRecord \<Rightarrow> string) \<Rightarrow> UsageRecord list \<Rightarrow> breakdown \<Rightarrow> breakdown" where
  "breakdown_by f rs m = fold (\<lambda>r. bump (f r) r) rs m"

lemma dash_breakdowns:
  "da_models (fold dash_acc rs a) = breakdown_by ur_model rs (da_models a)"
  "da_providers (fold dash_acc rs a) = breakdown_by ur_provider rs (da_providers a)"
  by (induction rs arbitrary: a) (simp_all add: dash_acc_def breakdown_by_def)

lemma al_put_keys: "set (map fst (al_put k v m)) = insert k (set (map fst m))"
  by (induction k v m rule: al_put.induct) auto

lemma bump_wf: "al_wf m \<Longrightarrow> al_wf (bump k r m)"
  by (simp add: bump_def Let_def case_prod_beta)

lemma breakdown_wf: "al_wf m \<Longrightarrow> al_wf (breakdown_by f rs m)"
  unfolding breakdown_by_def by (induction rs arbitrary: m) (simp_all add: bump_wf)

lemma breakdown_lookup:
  "map_of (breakdown_by f rs []) k =
     (let mine = filter (\<lambda>r. f r = k) rs in if mine = [] then None else Some (entry_of mine))"
proof -
  have "map_of (breakdown_by f rs m) k =
     (let mine = filter (\<lambda>r. f r = k) rs;
          (n, t, c) = (case map_of m k of Some e \<Rightarrow> e | None \<Rightarrow> (0, 0, 0)); (n', t', c') = entry_of mine
      in if mine = [] then map_of m k else Some (n + n', t + t', c + c'))" for m
    unfolding breakdown_by_def
    by (induction rs arbitrary: m)
      (auto simp: bump_def entry_of_def Let_def case_prod_beta algebra_simps split: option.splits)
  from this [of "[]"] show ?thesis
    by (simp add: Let_def entry_of_def)
qed

lemma sorted_take_drop:
  assumes "sorted (map f xs)" and "x \<in> set (take n xs)" and "y \<in> set (drop n xs)"
  shows "f x \<le> f y"
proof -
  have "sorted (map f (take n xs) @ map f (drop n xs))"
    using assms(1) by (simp flip: map_append)
  with assms show ?thesis by (auto simp: sorted_append)
qed

text \<open>What the top-\<open>n\<close> rows of a breakdown are, for any iteration order of the hash map.\<close>

lemma top_rows:
  assumes "mset (iter m) = mset m" and "rows = take n (sort_key by_requests (iter m))"
  shows "set rows \<subseteq> set m"
    and "sorted (map by_requests rows)"
    and "e \<in> set m \<Longrightarrow> e \<in> set rows \<or> length rows = n \<and> (\<forall>row\<in>set rows. by_requests row \<le> by_requests e)"
proof -
  let ?all = "sort_key by_requests (iter m)"
  have all: "set ?all = set m" using assms(1) by (metis set_mset_mset set_sort)
  then show "set rows \<subseteq> set m" unfolding assms(2) using set_take_subset by fastforce
  show "sorted (map by_requests rows)" unfolding assms(2)
    by (simp add: take_map [symmetric] sorted_wrt_take)
  show "e \<in> set rows \<or> length rows = n \<and> (\<forall>row\<in>set rows. by_requests row \<le> by_requests e)"
    if "e \<in> set m"
  proof (cases "e \<in> set rows")
    case False
    with that all have e: "e \<in> set (drop n ?all)"
      unfolding assms(2) by (metis Un_iff append_take_drop_id set_append)
    then have "n < length ?all" by (metis drop_eq_Nil leI empty_iff list.set(1))
    then have "length rows = n" unfolding assms(2) by simp
    moreover have "\<forall>row\<in>set rows. by_requests row \<le> by_requests e"
      using sorted_take_drop [OF sorted_sort_key _ e] unfolding assms(2) by blast
    ultimately show ?thesis by blast
  qed simp
qed

lemma breakdown_entry:
  assumes "e \<in> set (breakdown_by f rs [])" and "length rs \<le> DEFAULT_MAX_RECORDS"
  shows "unat (fst (snd e)) = length (filter (\<lambda>r. f r = fst e) rs)"
proof -
  have "al_wf (breakdown_by f rs [])" by (rule breakdown_wf) (simp add: al_wf_def)
  with assms(1) have "map_of (breakdown_by f rs []) (fst e) = Some (snd e)" by (simp add: al_wf_def)
  moreover have "length (filter p rs) \<le> 900000000000000" for p
    by (rule order_trans [OF length_filter_le]) (use assms(2) in \<open>simp add: DEFAULT_MAX_RECORDS_def\<close>)
  ultimately show ?thesis
    by (cases e) (auto simp: breakdown_lookup Let_def entry_of_def unat_small split: if_splits)
qed

lemma breakdown_has:
  assumes "r \<in> set rs"
  shows "\<exists>e\<in>set (breakdown_by f rs []). fst e = f r"
proof -
  have "map_of (breakdown_by f rs []) (f r) \<noteq> None"
    using assms by (auto simp: breakdown_lookup entry_of_def Let_def filter_empty_conv)
  then obtain v where "(f r, v) \<in> set (breakdown_by f rs [])" by (meson map_of_SomeD not_None_eq)
  then show ?thesis by force
qed

lemma breakdown_listed:
  assumes "mset (iter m) = mset m" and "m = breakdown_by f rs []" and "length rs \<le> DEFAULT_MAX_RECORDS"
    and "rows = take n (sort_key by_requests (iter m))" and "r \<in> set rs"
  shows "f r \<in> set (map fst rows) \<or> length rows = n \<and>
    (\<forall>row\<in>set rows. length (filter (\<lambda>x. f x = f r) rs) \<le> length (filter (\<lambda>x. f x = fst row) rs))"
proof -
  obtain e where e: "e \<in> set m" "fst e = f r" using breakdown_has [OF assms(5)] assms(2) by blast
  note top = top_rows [of iter m rows n, OF assms(1,4)]
  have le: "length (filter (\<lambda>x. f x = f r) rs) \<le> length (filter (\<lambda>x. f x = fst row) rs)"
    if "row \<in> set rows" "by_requests row \<le> by_requests e" for row
  proof -
    have "row \<in> set m" using top(1) that by blast
    with e that breakdown_entry [OF _ assms(3), of e f] breakdown_entry [OF _ assms(3), of row f]
    show ?thesis unfolding assms(2) by_requests_def by simp
  qed
  from top(3) [OF e(1)] show ?thesis
  proof
    assume "e \<in> set rows"
    then have "fst e \<in> set (map fst rows)" by simp
    then show ?thesis using e(2) by simp
  qed (use le in blast)
qed

text \<open>For every iteration order of the hash map, the model breakdown of the dashboard counts each
  listed model's records, is ordered by request count, and leaves a model out only when ten models with
  at least as many requests are listed.\<close>

theorem dashboard_top_models:
  assumes "\<And>m. mset (iter m) = mset m" and "length (ust_records s) \<le> DEFAULT_MAX_RECORDS"
  shows "let rows = ds_top_models (get_dashboard iter s keys);
             count = (\<lambda>model. length (filter (\<lambda>r. ur_model r = model) (ust_records s)))
         in (\<forall>row\<in>set rows. unat (mu_requests row) = count (mu_model row))
            \<and> sorted_wrt (\<ge>) (map mu_requests rows)
            \<and> (\<forall>r\<in>set (ust_records s). ur_model r \<in> set (map mu_model rows) \<or>
                 length rows = 10 \<and> (\<forall>row\<in>set rows. count (ur_model r) \<le> count (mu_model row)))"
proof -
  define m where "m = breakdown_by ur_model (ust_records s) []"
  define rows where "rows = take 10 (sort_key by_requests (iter m))"
  let ?mk = "\<lambda>(k, n, t, c). \<lparr>mu_model = k, mu_requests = n, mu_tokens = t, mu_cost_usd = c\<rparr>"
  have shown: "ds_top_models (get_dashboard iter s keys) = map ?mk rows"
    by (simp add: get_dashboard_def Let_def top_n_def dash_breakdowns dash_acc_init_def m_def rows_def)
  note top = top_rows [of iter m rows 10, OF assms(1) rows_def]
  have "unat (fst (snd row)) = length (filter (\<lambda>r. ur_model r = fst row) (ust_records s))"
    if "row \<in> set rows" for row
    using breakdown_entry [OF _ assms(2)] top(1) that unfolding m_def by blast
  moreover have "sorted_wrt (\<ge>) (map (\<lambda>e. fst (snd e)) rows)"
    using top(2) by (simp add: sorted_wrt_map by_requests_def word_le_def)
  ultimately show ?thesis
    using breakdown_listed [of iter m, OF assms(1) m_def assms(2) rows_def] unfolding shown Let_def
    by (auto simp: case_prod_beta comp_def)
qed

theorem dashboard_top_models_witness:
  "list_all (\<lambda>row. unat (mu_requests row) = length (filter (\<lambda>r. ur_model r = mu_model row) (ust_records sample_usage)))
     (ds_top_models (get_dashboard id sample_usage 1))
   \<and> (''gpt-4'' \<in> set (map mu_model (ds_top_models (get_dashboard id sample_usage 1)))
        \<or> length (ds_top_models (get_dashboard id sample_usage 1)) = 10)"
proof -
  have "length (ust_records sample_usage) \<le> DEFAULT_MAX_RECORDS" and "ur_model (hd (ust_records sample_usage)) = ''gpt-4''"
    and "hd (ust_records sample_usage) \<in> set (ust_records sample_usage)"
    by (simp_all add: sample_usage_def DEFAULT_MAX_RECORDS_def Let_def)
  then show ?thesis using dashboard_top_models [of id sample_usage 1] unfolding list_all_iff Let_def by (metis id_apply)
qed

section \<open>Request log queries\<close>

lemma log_query_keeps_iff:
  "log_query_keeps q e \<longleftrightarrow>
     (\<forall>v. rlq_stage q = Some v \<longrightarrow> rle_stage e = v) \<and> (\<forall>v. rlq_model q = Some v \<longrightarrow> rle_model e = v) \<and>
     (\<forall>v. rlq_provider q = Some v \<longrightarrow> rle_provider e = v) \<and> (\<forall>t. rlq_since q = Some t \<longrightarrow> t \<le> rle_created_at e)"
  by (auto simp: log_query_keeps_def is_some_and_def split: option.splits)

lemma pages_concat: "concat (map (\<lambda>i. take n (drop (i * n) xs)) [0..<k]) = take (k * n) xs"
proof (induction k)
  case (Suc k)
  have "take (n + k * n) xs = take (k * n) xs @ take n (drop (k * n) xs)"
    by (metis add.commute take_add)
  with Suc show ?case by simp
qed simp

theorem log_pages_partition:
  "concat (map (\<lambda>i. rlr_data (request_log_list s (q\<lparr>rlq_offset := Some (i * n), rlq_limit := Some n\<rparr>))) [0..<k]) =
     take (k * n) (filter (log_query_keeps q) (rqs_entries s))"
proof -
  have "log_query_keeps (q\<lparr>rlq_offset := a, rlq_limit := b\<rparr>) = log_query_keeps q" for a b
    by (rule ext) (simp add: log_query_keeps_def)
  then show ?thesis by (simp add: request_log_list_def Let_def unwrap_or_def pages_concat)
qed

text \<open>The rows the Postgres backend deletes: the conjunction of the conditions it binds
  (\<^verbatim>\<open>postgres_backends.rs\<close>), all rows when there is none.\<close>

definition pg_deletes :: "MaintenanceQuery \<Rightarrow> RequestLogEntry \<Rightarrow> bool" where
  "pg_deletes q e =
     ((case mq_model q of Some model \<Rightarrow> rle_model e = model | None \<Rightarrow> True) \<and>
      (case mq_provider q of Some provider \<Rightarrow> rle_provider e = provider | None \<Rightarrow> True) \<and>
      (case mq_before q of Some before \<Rightarrow> rle_created_at e < before | None \<Rightarrow> True))"

lemma in_memory_delete_any:
  "\<not> retain_entry q e \<longleftrightarrow>
     (\<forall>t. mq_before q = Some t \<longrightarrow> rle_created_at e < t) \<and>
     (mq_stage q = Some (rle_stage e) \<or> mq_model q = Some (rle_model e) \<or> mq_provider q = Some (rle_provider e))"
  by (auto simp: retain_entry_def is_some_and_def split: option.splits)

text \<open>A query with a cut-off date only, or with no condition, deletes nothing from the in-memory store,
  where the Postgres store deletes every older row, or every row.\<close>

lemma before_only_deletes_nothing:
  "mq_stage q = None \<Longrightarrow> mq_model q = None \<Longrightarrow> mq_provider q = None \<Longrightarrow> request_log_delete q s = (0, s)"
  by (simp add: request_log_delete_def Let_def retain_entry_def is_some_and_def)

lemma before_only_postgres:
  "mq_stage q = None \<Longrightarrow> mq_model q = None \<Longrightarrow> mq_provider q = None \<Longrightarrow>
     pg_deletes q e \<longleftrightarrow> (\<forall>t. mq_before q = Some t \<longrightarrow> rle_created_at e < t)"
  by (simp add: pg_deletes_def split: option.splits)

theorem delete_backends_disagree:
  "\<exists>q e. pg_deletes q e \<noteq> (\<not> retain_entry q e)"
proof -
  let ?q = "\<lparr>mq_before = None, mq_stage = None, mq_model = None, mq_provider = None\<rparr>"
  have "pg_deletes ?q e \<noteq> (\<not> retain_entry ?q e)" for e
    by (simp add: pg_deletes_def retain_entry_def is_some_and_def)
  then show ?thesis by blast
qed

end
