(* ===== verification/Request_Audit.thy ===== *)
theory Request_Audit
  imports Core_Types Usage_Store "HOL-Library.Sublist"
begin

text \<open>
  Audit events and per-request accounting: the audit log with its bounded queue
  (\<^verbatim>\<open>himadri-observability/src/audit.rs\<close>), the counters of \<^verbatim>\<open>metrics.rs\<close> the gateway moves, and the auditor
  that writes a request's outcome to all stores (\<^verbatim>\<open>himadri/src/gateway/audit.rs\<close>). The redaction patterns,
  the wall clock and fresh identifiers are arguments. The request logs live in a heap of cells, because
  the auditor and the gateway each hold a reference to one.
\<close>

section \<open>Audit log\<close>

record AuditMessage =
  am_role :: string
  am_content :: string

datatype AuditStatus =
    Success_status
  | Error_status
  | RateLimited_status
  | GuardrailBlocked_status
  | Unauthorized_status
  | Forbidden_status

record AuditEvent =
  ae_request_id :: string
  ae_timestamp :: datetime
  ae_org_id :: "string option"
  ae_team_id :: "string option"
  ae_user_id :: "string option"
  ae_key_id :: "string option"
  ae_model :: string
  ae_provider :: "string option"
  ae_messages :: "AuditMessage list"
  ae_response :: "string option"
  ae_latency_ms :: u64
  ae_tokens_prompt :: "u32 option"
  ae_tokens_completion :: "u32 option"
  ae_tokens_total :: "u32 option"
  ae_status :: AuditStatus
  ae_error :: "string option"
  ae_guardrail_actions :: "string list"
  ae_stream :: bool

definition AUDIT_CHANNEL_CAPACITY :: nat where
  "AUDIT_CHANNEL_CAPACITY = 8192"

record AuditLog =
  alog_queue :: "AuditEvent list"
  alog_redactor :: "(string \<Rightarrow> string) option"
  alog_capture_content :: bool
  alog_dropped :: u64

definition audit_log_with_options :: "(string \<Rightarrow> string) \<Rightarrow> bool \<Rightarrow> bool \<Rightarrow> AuditLog" where
  "audit_log_with_options redact redact_pii capture_content =
     \<lparr>alog_queue = [], alog_redactor = (if redact_pii then Some redact else None),
      alog_capture_content = capture_content, alog_dropped = 0\<rparr>"

definition scrub :: "AuditLog \<Rightarrow> AuditEvent \<Rightarrow> AuditEvent" where
  "scrub l event =
     (if \<not> alog_capture_content l then event\<lparr>ae_messages := [], ae_response := None\<rparr>
      else case alog_redactor l of
             Some redact \<Rightarrow>
               event\<lparr>ae_messages := map (\<lambda>m. m\<lparr>am_content := redact (am_content m)\<rparr>) (ae_messages event),
                     ae_response := map_option redact (ae_response event)\<rparr>
           | None \<Rightarrow> event)"

definition audit_log :: "AuditEvent \<Rightarrow> AuditLog \<Rightarrow> AuditLog" where
  "audit_log event l =
     (let event = scrub l event
      in if length (alog_queue l) < AUDIT_CHANNEL_CAPACITY
         then l\<lparr>alog_queue := alog_queue l @ [event]\<rparr>
         else l\<lparr>alog_dropped := alog_dropped l + 1\<rparr>)"

text \<open>The sink task takes the oldest event off the queue.\<close>

definition audit_recv :: "AuditLog \<Rightarrow> AuditEvent option \<times> AuditLog" where
  "audit_recv l =
     (case alog_queue l of
        [] \<Rightarrow> (None, l)
      | e # es \<Rightarrow> (Some e, l\<lparr>alog_queue := es\<rparr>))"

definition log_auth_failure ::
    "string \<Rightarrow> datetime \<Rightarrow> AuditStatus \<Rightarrow> string \<Rightarrow> string option \<Rightarrow> string option \<Rightarrow> string option \<Rightarrow>
     AuditLog \<Rightarrow> AuditLog" where
  "log_auth_failure nanos now status reason remote_ip user_id key_id l =
     audit_log
       \<lparr>ae_request_id = ''auth-'' @ nanos, ae_timestamp = now, ae_org_id = None, ae_team_id = None,
        ae_user_id = user_id, ae_key_id = key_id, ae_model = [], ae_provider = None, ae_messages = [],
        ae_response = None, ae_latency_ms = 0, ae_tokens_prompt = None, ae_tokens_completion = None,
        ae_tokens_total = None, ae_status = status,
        ae_error = Some (case remote_ip of Some ip \<Rightarrow> reason @ '' (ip: '' @ ip @ '')'' | None \<Rightarrow> reason),
        ae_guardrail_actions = [], ae_stream = False\<rparr> l"

section \<open>Counters\<close>

type_synonym labels = "string \<times> string"

record Metrics =
  mt_requests_total :: "labels \<Rightarrow> u64"
  mt_request_duration :: "rat list"
  mt_tokens_input_total :: "labels \<Rightarrow> u64"
  mt_tokens_output_total :: "labels \<Rightarrow> u64"
  mt_provider_errors :: "labels \<Rightarrow> u64"
  mt_cost_usd_total :: "labels \<Rightarrow> u64"
  mt_cache_hits_total :: u64
  mt_cache_misses_total :: u64

definition metrics_new :: Metrics where
  "metrics_new = \<lparr>mt_requests_total = \<lambda>_. 0, mt_request_duration = [], mt_tokens_input_total = \<lambda>_. 0,
     mt_tokens_output_total = \<lambda>_. 0, mt_provider_errors = \<lambda>_. 0, mt_cost_usd_total = \<lambda>_. 0,
     mt_cache_hits_total = 0, mt_cache_misses_total = 0\<rparr>"

definition inc_by :: "'l \<Rightarrow> u64 \<Rightarrow> ('l \<Rightarrow> u64) \<Rightarrow> 'l \<Rightarrow> u64" where
  "inc_by k n c = c(k := c k + n)"

text \<open>The cast of a floating-point number to \<^verbatim>\<open>u64\<close> truncates and saturates.\<close>

definition rat_as_u64 :: "rat \<Rightarrow> u64" where
  "rat_as_u64 r = of_nat (min (nat \<lfloor>r\<rfloor>) u64_max)"

section \<open>The auditor\<close>

type_synonym log_ref = nat

record RequestEvent =
  ev_auth :: "AuthContext option"
  ev_request_id :: string
  ev_provider :: string
  ev_model :: string
  ev_messages :: "AuditMessage list"
  ev_response_text :: "string option"
  ev_latency_ms :: u64
  ev_tokens_prompt :: u32
  ev_tokens_completion :: u32
  ev_tokens_total :: u32
  ev_status :: AuditStatus
  ev_error :: "string option"
  ev_guardrail_actions :: "string list"
  ev_stream :: bool
  ev_api_key_id :: "string option"

record AccountOutcome =
  ao_provider :: string
  ao_model :: string
  ao_api_key_id :: "string option"
  ao_usage :: "Usage option"
  ao_error :: "string option"
  ao_latency_ms :: u64

record Stores =
  st_audit_log :: AuditLog
  st_metrics :: Metrics
  st_usage_store :: UsageStore
  st_logs :: "log_ref \<Rightarrow> InMemoryRequestLogStore"

record LiveRequestAuditor =
  la_request_log :: log_ref

record stamp =
  sm_now :: datetime
  sm_uuid :: "nat \<Rightarrow> string"

definition record_usage ::
    "stamp \<Rightarrow> log_ref \<Rightarrow> string \<Rightarrow> string \<Rightarrow> string option \<Rightarrow> u32 \<Rightarrow> u32 \<Rightarrow> u32 \<Rightarrow> u64 \<Rightarrow> string option \<Rightarrow>
     Stores \<Rightarrow> Stores" where
  "record_usage sm logr provider model api_key_id prompt completion total_toks latency_ms err st =
     (let labels = (provider, model);
          mt = st_metrics st;
          mt = mt\<lparr>mt_requests_total := inc_by labels 1 (mt_requests_total mt),
                  mt_request_duration := mt_request_duration mt @ [of_nat (unat latency_ms) / 1000]\<rparr>;
          usage = st_usage_store st;
          rec = \<lparr>ur_request_id = sm_uuid sm 0, ur_api_key_id = api_key_id, ur_model = model,
                 ur_provider = provider, ur_prompt_tokens = prompt, ur_completion_tokens = completion,
                 ur_total_tokens = total_toks, ur_cost_usd = 0, ur_latency_ms = latency_ms,
                 ur_created_at = sm_now sm, ur_success = False, ur_error_message = err\<rparr>;
          (mt, usage) =
            (case err of
               None \<Rightarrow>
                 (let mt = mt\<lparr>mt_tokens_input_total := inc_by labels (ucast prompt) (mt_tokens_input_total mt)\<rparr>;
                      mt = mt\<lparr>mt_tokens_output_total := inc_by labels (ucast completion) (mt_tokens_output_total mt)\<rparr>;
                      cost = calculate_cost usage model prompt completion;
                      mt = (if 0 < cost
                            then mt\<lparr>mt_cost_usd_total := inc_by labels (rat_as_u64 (cost * 1000000)) (mt_cost_usd_total mt)\<rparr>
                            else mt)
                  in (mt, usage_record (rec\<lparr>ur_cost_usd := cost, ur_success := True, ur_error_message := None\<rparr>) usage))
             | Some _ \<Rightarrow>
                 (mt\<lparr>mt_provider_errors := inc_by labels 1 (mt_provider_errors mt)\<rparr>, usage_record rec usage));
          entry = \<lparr>rle_trace_id = sm_uuid sm 1, rle_stage = ''completed'', rle_model = model,
                   rle_provider = provider, rle_prompt_tokens = prompt, rle_completion_tokens = completion,
                   rle_total_tokens = total_toks, rle_error_message = err, rle_created_at = sm_now sm\<rparr>
      in st\<lparr>st_metrics := mt, st_usage_store := usage,
            st_logs := (st_logs st)(logr := request_log_write entry (st_logs st logr))\<rparr>)"

definition record_full :: "stamp \<Rightarrow> LiveRequestAuditor \<Rightarrow> RequestEvent \<Rightarrow> Stores \<Rightarrow> Stores" where
  "record_full sm la ev st =
     (let event =
        \<lparr>ae_request_id = ev_request_id ev, ae_timestamp = sm_now sm,
         ae_org_id = Option.bind (ev_auth ev) au_org_id, ae_team_id = Option.bind (ev_auth ev) au_team_id,
         ae_user_id = Option.bind (ev_auth ev) au_user_id, ae_key_id = ev_api_key_id ev,
         ae_model = ev_model ev, ae_provider = Some (ev_provider ev), ae_messages = ev_messages ev,
         ae_response = ev_response_text ev, ae_latency_ms = ev_latency_ms ev,
         ae_tokens_prompt = Some (ev_tokens_prompt ev), ae_tokens_completion = Some (ev_tokens_completion ev),
         ae_tokens_total = Some (ev_tokens_total ev), ae_status = ev_status ev, ae_error = ev_error ev,
         ae_guardrail_actions = ev_guardrail_actions ev, ae_stream = ev_stream ev\<rparr>
      in record_usage sm (la_request_log la) (ev_provider ev) (ev_model ev) (ev_api_key_id ev)
           (ev_tokens_prompt ev) (ev_tokens_completion ev) (ev_tokens_total ev) (ev_latency_ms ev) (ev_error ev)
           (st\<lparr>st_audit_log := audit_log event (st_audit_log st)\<rparr>))"

definition usage_triple :: "Usage option \<Rightarrow> u32 \<times> u32 \<times> u32" where
  "usage_triple u =
     (case u of Some u \<Rightarrow> (prompt_tokens u, completion_tokens u, total_tokens u) | None \<Rightarrow> (0, 0, 0))"

definition record_accounting :: "stamp \<Rightarrow> LiveRequestAuditor \<Rightarrow> AccountOutcome \<Rightarrow> Stores \<Rightarrow> Stores" where
  "record_accounting sm la out st =
     (let (prompt, completion, total_toks) = usage_triple (ao_usage out)
      in record_usage sm (la_request_log la) (ao_provider out) (ao_model out) (ao_api_key_id out)
           prompt completion total_toks (ao_latency_ms out) (ao_error out) st)"

fun role_name :: "Role \<Rightarrow> string" where
  "role_name System = ''system''"
| "role_name User = ''user''"
| "role_name Assistant = ''assistant''"
| "role_name Tool_role = ''tool''"

definition audit_messages :: "ChatCompletionRequest \<Rightarrow> AuditMessage list" where
  "audit_messages request =
     map (\<lambda>m. \<lparr>am_role = role_name (msg_role m),
               am_content = unwrap_or (map_option flat_text (msg_content m)) []\<rparr>) (cr_messages request)"

definition extract_response_text :: "ChatCompletionResponse \<Rightarrow> string option" where
  "extract_response_text r =
     (let parts = List.map_filter (\<lambda>c. rm_content (ch_message c)) (cp_choices r)
      in if parts = [] then None else Some (concat parts))"

definition redact_response_text :: "string \<Rightarrow> ChatCompletionResponse \<Rightarrow> ChatCompletionResponse" where
  "redact_response_text redacted r =
     r\<lparr>cp_choices := map (\<lambda>c. c\<lparr>ch_message := (ch_message c)\<lparr>rm_content := Some redacted\<rparr>\<rparr>) (cp_choices r)\<rparr>"

section \<open>What leaves the process\<close>

definition content_free :: "AuditEvent \<Rightarrow> bool" where
  "content_free e = (ae_messages e = [] \<and> ae_response e = None)"

lemma audit_log_keeps_options:
  "alog_capture_content (audit_log e l) = alog_capture_content l"
  "alog_redactor (audit_log e l) = alog_redactor l"
  by (simp_all add: audit_log_def Let_def)

fun audit_run :: "AuditEvent option list \<Rightarrow> AuditLog \<Rightarrow> AuditEvent list \<times> AuditLog" where
  "audit_run [] l = ([], l)"
| "audit_run (Some e # ops) l = audit_run ops (audit_log e l)"
| "audit_run (None # ops) l =
     (let (e, l) = audit_recv l; (es, l) = audit_run ops l
      in (case e of Some e \<Rightarrow> e # es | None \<Rightarrow> es, l))"

definition logged :: "AuditEvent option list \<Rightarrow> AuditEvent list" where
  "logged ops = List.map_filter id ops"

lemma logged_simps [simp]:
  "logged [] = []" "logged (Some e # ops) = e # logged ops" "logged (None # ops) = logged ops"
  by (simp_all add: logged_def map_filter_simps)

lemma scrub_cong: "alog_capture_content l = alog_capture_content l' \<Longrightarrow> alog_redactor l = alog_redactor l' \<Longrightarrow> scrub l = scrub l'"
  by (rule ext) (simp add: scrub_def)

lemma scrub_log: "scrub (audit_log e l) = scrub l"
  by (rule scrub_cong) (simp_all add: audit_log_keeps_options)

lemma scrub_recv: "scrub (snd (audit_recv l)) = scrub l"
  by (rule scrub_cong) (simp_all add: audit_recv_def split: list.splits)

text \<open>What the sink has received, followed by what is queued.\<close>

definition stream_of :: "AuditEvent list \<times> AuditLog \<Rightarrow> AuditEvent list" where
  "stream_of r = fst r @ alog_queue (snd r)"

lemma audit_run_None:
  "stream_of (audit_run (None # ops) l) =
     (case alog_queue l of [] \<Rightarrow> stream_of (audit_run ops l)
        | e # es \<Rightarrow> e # stream_of (audit_run ops (l\<lparr>alog_queue := es\<rparr>)))"
  "snd (audit_run (None # ops) l) = snd (audit_run ops (snd (audit_recv l)))"
  by (simp_all add: audit_recv_def stream_of_def case_prod_beta Let_def split: list.split)

declare audit_run.simps(3) [simp del]

lemma audit_run_subseq: "subseq (stream_of (audit_run ops l)) (alog_queue l @ map (scrub l) (logged ops))"
proof (induction ops arbitrary: l)
  case Nil
  then show ?case by (simp add: stream_of_def)
next
  case (Cons op ops)
  show ?case
  proof (cases op)
    case None
    show ?thesis
    proof (cases "alog_queue l")
      case Nil
      with Cons [of l] show ?thesis by (simp add: None audit_run_None)
    next
      case (Cons e es)
      have "scrub (l\<lparr>alog_queue := es\<rparr>) = scrub l" by (rule scrub_cong) simp_all
      with Cons.IH [of "l\<lparr>alog_queue := es\<rparr>"] Cons show ?thesis by (simp add: None audit_run_None)
    qed
  next
    case (Some e)
    have "alog_queue (audit_log e l) = alog_queue l @ [scrub l e] \<or> alog_queue (audit_log e l) = alog_queue l"
      by (auto simp: audit_log_def Let_def)
    then have "subseq (alog_queue (audit_log e l) @ map (scrub l) (logged ops))
        (alog_queue l @ scrub l e # map (scrub l) (logged ops))"
      by (auto intro: list_emb_append_mono list_emb_Cons)
    with Cons [of "audit_log e l"] show ?thesis
      by (simp add: Some scrub_log)
  qed
qed

lemma audit_run_counted:
  "of_nat (length (stream_of (audit_run ops l))) + alog_dropped (snd (audit_run ops l)) =
     of_nat (length (alog_queue l)) + alog_dropped l + (of_nat (length (logged ops)) :: u64)"
proof (induction ops arbitrary: l)
  case (Cons op ops)
  show ?case
  proof (cases op)
    case None
    with Cons [of "snd (audit_recv l)"] show ?thesis
      by (simp add: audit_run_None audit_recv_def split: list.splits)
  next
    case (Some e)
    with Cons [of "audit_log e l"] show ?thesis by (simp add: audit_log_def Let_def split: if_splits)
  qed
qed (simp add: stream_of_def)

lemma audit_run_bounded:
  "length (alog_queue l) \<le> AUDIT_CHANNEL_CAPACITY \<Longrightarrow>
     length (alog_queue (snd (audit_run ops l))) \<le> AUDIT_CHANNEL_CAPACITY"
proof (induction ops arbitrary: l)
  case (Cons op ops)
  then show ?case
    by (cases op) (auto simp: audit_run_None(2) audit_recv_def audit_log_def Let_def split: list.splits)
qed simp

text \<open>Whatever the interleaving of requests logging events and the sink taking them, the sink receives
  the logged events in order, each reduced to what the options allow (no prompt or response text at all
  unless capture is enabled); the queue stays within its bound and every event that was not delivered or
  queued is counted as dropped.\<close>

theorem audit_delivery:
  "let l0 = audit_log_with_options redact redact_pii capture; r = audit_run ops l0
   in subseq (stream_of r) (map (scrub l0) (logged ops))
      \<and> of_nat (length (stream_of r)) + alog_dropped (snd r) = (of_nat (length (logged ops)) :: u64)
      \<and> length (alog_queue (snd r)) \<le> AUDIT_CHANNEL_CAPACITY
      \<and> (capture \<or> list_all content_free (stream_of r))"
proof -
  let ?l = "audit_log_with_options redact redact_pii capture"
  have fresh: "alog_queue ?l = []" "alog_dropped ?l = 0" by (simp_all add: audit_log_with_options_def)
  have sub: "subseq (stream_of (audit_run ops ?l)) (map (scrub ?l) (logged ops))"
    using audit_run_subseq [of ops ?l] fresh by simp
  have "capture \<or> list_all content_free (stream_of (audit_run ops ?l))"
  proof (cases capture)
    case False
    then have "list_all content_free (map (scrub ?l) (logged ops))"
      by (simp add: list_all_iff scrub_def content_free_def audit_log_with_options_def)
    then have "content_free y" if "y \<in> set (map (scrub ?l) (logged ops))" for y
      using that unfolding list_all_iff by blast
    with sub show ?thesis unfolding list_all_iff by (auto elim: list_emb_set)
  qed simp
  with sub audit_run_counted [of ops ?l] audit_run_bounded [of ?l ops] fresh show ?thesis
    by (simp add: Let_def)
qed

lemma record_usage_audit [simp]:
  "st_audit_log (record_usage sm r p m k a b c d e st) = st_audit_log st"
  by (simp add: record_usage_def Let_def case_prod_beta)

lemma record_usage_logs:
  "r' \<noteq> r \<Longrightarrow> st_logs (record_usage sm r p m k a b c d e st) r' = st_logs st r'"
  by (simp add: record_usage_def Let_def case_prod_beta)

lemma record_usage_log_entry:
  "\<exists>entry. st_logs (record_usage sm r p m k a b c d e st) r = request_log_write entry (st_logs st r)
     \<and> rle_model entry = m \<and> rle_provider entry = p \<and> rle_error_message entry = e \<and> rle_total_tokens entry = c"
  by (simp add: record_usage_def Let_def case_prod_beta, intro exI conjI, rule refl, simp_all)

text \<open>Every accounting call adds one usage record, whose success flag says whether there was an error.\<close>

lemma record_usage_records:
  "\<exists>u. st_usage_store (record_usage sm r p m k a b c d e st) = usage_record u (st_usage_store st)
     \<and> ur_model u = m \<and> ur_provider u = p \<and> ur_api_key_id u = k \<and> ur_success u = (e = None)
     \<and> ur_cost_usd u = (if e = None then calculate_cost (st_usage_store st) m a b else 0)"
  by (cases e) (simp add: record_usage_def Let_def case_prod_beta, intro exI conjI, rule refl, simp_all)+

lemma extract_redacted:
  "extract_response_text (redact_response_text t r) =
     (if cp_choices r = [] then None else Some (concat (replicate (length (cp_choices r)) t)))"
  by (simp add: extract_response_text_def redact_response_text_def List.map_filter_def Let_def
        map_replicate_const comp_def)

end
