(* ===== verification/Gateway_State.thy ===== *)
theory Gateway_State
  imports Circuit_Breaker Rate_Limiter Plugin Routing_Strategy Provider_Api Request_Audit
begin

text \<open>
  The gateway's state (\<^verbatim>\<open>himadri/src/gateway/mod.rs\<close>), its configuration life cycle with the version
  history (\<^verbatim>\<open>gateway/config.rs\<close>), and the rebuild of the routing targets from the database rows
  (\<^verbatim>\<open>gateway/rebuild.rs\<close>). One field per field of the code's struct; the upstream providers, the plugins and
  the response cache act on a world of type \<open>'w\<close>, carried in \<open>gw_world\<close>. An operation runs to its end
  before the next starts.
\<close>

section \<open>State\<close>

type_synonym chunk_stream = "(ProviderError, StreamChunk) result list"

record 'w Provider =
  pv_name :: string
  pv_complete :: "ChatCompletionRequest \<Rightarrow> string \<Rightarrow> 'w \<Rightarrow> (ProviderError, ChatCompletionResponse) result \<times> duration \<times> 'w"
  pv_complete_stream :: "ChatCompletionRequest \<Rightarrow> string \<Rightarrow> 'w \<Rightarrow> (ProviderError, chunk_stream) result \<times> duration \<times> 'w"
  pv_embed :: "EmbeddingRequest \<Rightarrow> string \<Rightarrow> 'w \<Rightarrow> (ProviderError, EmbeddingResponse) result \<times> 'w"

text \<open>The default body of \<^verbatim>\<open>Provider::embed\<close>.\<close>

definition embed_unsupported :: "string \<Rightarrow> EmbeddingRequest \<Rightarrow> string \<Rightarrow> 'w \<Rightarrow> (ProviderError, EmbeddingResponse) result \<times> 'w" where
  "embed_unsupported name request api_key w = (Err (PE_Unsupported (name @ '' does not support embeddings'')), w)"

record 'w ResponseCache =
  rc_get :: "string \<Rightarrow> 'w \<Rightarrow> ChatCompletionResponse option \<times> 'w"
  rc_insert :: "string \<Rightarrow> ChatCompletionResponse \<Rightarrow> 'w \<Rightarrow> 'w"

record ConfigHistoryEntry =
  che_version :: u32
  che_updated_at :: datetime
  che_config :: Config
  che_rolled_back_from :: "u32 option"

record ConfigHistory =
  ch_entries :: "ConfigHistoryEntry list"
  ch_next_version :: u32

record 'w Gateway =
  gw_config :: Config
  gw_providers :: "string \<rightharpoonup> 'w Provider"
  gw_provider_registry :: "string \<Rightarrow> string option \<Rightarrow> (ProviderError, 'w Provider) result"
  gw_plugin_manager :: "'w PluginManager"
  gw_strategy :: Strategy
  gw_circuit_breakers :: "string \<rightharpoonup> CircuitBreaker"
  gw_targets :: "Target list"
  gw_provider_keys :: "string \<rightharpoonup> string"
  gw_rate_limiter :: RateLimiter
  gw_stores :: Stores
  gw_request_log :: log_ref
  gw_response_cache :: "'w ResponseCache option"
  gw_config_history :: ConfigHistory
  gw_request_auditor :: LiveRequestAuditor
  gw_world :: 'w

definition target_serves_model :: "Target \<Rightarrow> string \<Rightarrow> bool" where
  "target_serves_model t model = (case tg_models t of None \<Rightarrow> True | Some models \<Rightarrow> \<exists>m\<in>set models. m = model)"

definition routing_key :: "Target \<Rightarrow> string" where
  "routing_key t = unwrap_or (tg_id t) (tg_provider t)"

section \<open>Configuration history\<close>

definition ConfigHistory_default :: ConfigHistory where
  "ConfigHistory_default = \<lparr>ch_entries = [], ch_next_version = 0\<rparr>"

definition history_record :: "datetime \<Rightarrow> Config \<Rightarrow> u32 option \<Rightarrow> ConfigHistory \<Rightarrow> ConfigHistory" where
  "history_record now config rolled_back_from h =
     (let version = max (ch_next_version h) 1
      in \<lparr>ch_entries = ch_entries h @ [\<lparr>che_version = version, che_updated_at = now, che_config = config,
                                       che_rolled_back_from = rolled_back_from\<rparr>],
          ch_next_version = version + 1\<rparr>)"

text \<open>What \<^verbatim>\<open>Gateway::new\<close> reads from its surroundings.\<close>

record 'w wiring =
  wi_env :: env_vars
  wi_regex_new :: "string \<Rightarrow> (string \<Rightarrow> bool) option"
  wi_redact :: "string \<Rightarrow> string"
  wi_pricing_json :: "string \<Rightarrow> ModelPricing list option"
  wi_registry :: "string \<Rightarrow> string option \<Rightarrow> (ProviderError, 'w Provider) result"
  wi_now :: datetime
  wi_world :: 'w

definition gateway_new :: "'w wiring \<Rightarrow> Config \<Rightarrow> Metrics \<Rightarrow> 'w Gateway" where
  "gateway_new wi config metrics =
     (let capture_content = (case wi_env wi ''AUDIT_CAPTURE_CONTENT'' of
                               Some v \<Rightarrow> to_ascii_lowercase v = ''true'' \<or> v = ''1'' | None \<Rightarrow> False)
      in \<lparr>gw_config = config, gw_providers = Map.empty, gw_provider_registry = wi_registry wi,
          gw_plugin_manager = pm_new, gw_strategy = from_strategy_config (wi_regex_new wi) (cfg_strategy config),
          gw_circuit_breakers = Map.empty, gw_targets = cfg_targets config, gw_provider_keys = Map.empty,
          gw_rate_limiter = rl_new (rls_requests_per_second (cfg_rate_limit config)) (rls_burst_size (cfg_rate_limit config)),
          gw_stores = \<lparr>st_audit_log = audit_log_with_options (wi_redact wi) True capture_content,
                       st_metrics = metrics, st_usage_store = usage_store_new (wi_env wi) (wi_pricing_json wi),
                       st_logs = (\<lambda>_. request_log_new)\<rparr>,
          gw_request_log = 0, gw_response_cache = None,
          gw_config_history = history_record (wi_now wi) config None ConfigHistory_default,
          gw_request_auditor = \<lparr>la_request_log = 0\<rparr>, gw_world = wi_world wi\<rparr>)"

definition set_response_cache :: "'w ResponseCache \<Rightarrow> 'w Gateway \<Rightarrow> 'w Gateway" where
  "set_response_cache c g = g\<lparr>gw_response_cache := Some c\<rparr>"

definition set_provider_registry ::
    "(string \<Rightarrow> string option \<Rightarrow> (ProviderError, 'w Provider) result) \<Rightarrow> 'w Gateway \<Rightarrow> 'w Gateway" where
  "set_provider_registry r g = g\<lparr>gw_provider_registry := r\<rparr>"

definition db_owns_routing :: "'w Gateway \<Rightarrow> bool" where
  "db_owns_routing g = (\<exists>t\<in>set (gw_targets g). tg_id t \<noteq> None)"

definition set_request_log_store :: "log_ref \<Rightarrow> 'w Gateway \<Rightarrow> 'w Gateway" where
  "set_request_log_store store g = g\<lparr>gw_request_log := store\<rparr>"

definition register_provider_as :: "string \<Rightarrow> 'w Provider \<Rightarrow> 'w Gateway \<Rightarrow> 'w Gateway" where
  "register_provider_as key p g = g\<lparr>gw_providers := (gw_providers g)(key \<mapsto> p)\<rparr>"

definition register_provider :: "'w Provider \<Rightarrow> 'w Gateway \<Rightarrow> 'w Gateway" where
  "register_provider p g = g\<lparr>gw_providers := (gw_providers g)(pv_name p \<mapsto> p)\<rparr>"

definition set_plugin_manager :: "'w PluginManager \<Rightarrow> 'w Gateway \<Rightarrow> 'w Gateway" where
  "set_plugin_manager m g = g\<lparr>gw_plugin_manager := m\<rparr>"

definition get_provider :: "'w Gateway \<Rightarrow> string \<Rightarrow> 'w Provider option" where
  "get_provider g name = gw_providers g name"

definition request_log :: "'w Gateway \<Rightarrow> InMemoryRequestLogStore" where
  "request_log g = st_logs (gw_stores g) (gw_request_log g)"

definition target_api_key :: "env_vars \<Rightarrow> 'w Gateway \<Rightarrow> Target \<Rightarrow> (GatewayError, string) result" where
  "target_api_key env g t =
     (case tg_api_key_env t of
        Some env_var \<Rightarrow>
          (case env env_var of
             Some v \<Rightarrow> Ok v
           | None \<Rightarrow> Err (ServiceUnavailable (''Missing API key environment variable: '' @ env_var)))
      | None \<Rightarrow> (case gw_provider_keys g (routing_key t) of Some key \<Rightarrow> Ok key | None \<Rightarrow> Ok []))"

section \<open>Configuration life cycle\<close>

definition apply_config ::
    "(string \<Rightarrow> (string \<Rightarrow> bool) option) \<Rightarrow> Config \<Rightarrow> 'w Gateway \<Rightarrow> (GatewayError, unit) result \<times> 'w Gateway" where
  "apply_config regex_new config g =
     (let config = apply_guardrail_deprecations config
      in case config_validate config of
           Err e \<Rightarrow> (Err (Config_error e), g)
         | Ok _ \<Rightarrow>
             (Ok (), g\<lparr>gw_strategy := from_strategy_config regex_new (cfg_strategy config),
                       gw_config := config, gw_targets := cfg_targets config,
                       gw_rate_limiter := rl_clear (rl_set_defaults (rls_requests_per_second (cfg_rate_limit config))
                          (rls_burst_size (cfg_rate_limit config)) (gw_rate_limiter g)),
                       gw_circuit_breakers := Map.empty\<rparr>))"

definition reload_config ::
    "(string \<Rightarrow> (string \<Rightarrow> bool) option) \<Rightarrow> datetime \<Rightarrow> Config \<Rightarrow> 'w Gateway \<Rightarrow> (GatewayError, unit) result \<times> 'w Gateway" where
  "reload_config regex_new now config g =
     (case apply_config regex_new config g of
        (Err e, g) \<Rightarrow> (Err e, g)
      | (Ok _, g) \<Rightarrow> (Ok (), g\<lparr>gw_config_history := history_record now config None (gw_config_history g)\<rparr>))"

definition config_history :: "'w Gateway \<Rightarrow> ConfigHistoryEntry list" where
  "config_history g = rev (ch_entries (gw_config_history g))"

definition rollback_config ::
    "(string \<Rightarrow> (string \<Rightarrow> bool) option) \<Rightarrow> datetime \<Rightarrow> u32 \<Rightarrow> 'w Gateway \<Rightarrow> (GatewayError, unit) result \<times> 'w Gateway" where
  "rollback_config regex_new now version g =
     (case find (\<lambda>e. che_version e = version) (ch_entries (gw_config_history g)) of
        None \<Rightarrow> (Err (BadRequest (''Config version '' @ show_nat (unat version) @ '' not found'')), g)
      | Some e \<Rightarrow>
          (case apply_config regex_new (che_config e) g of
             (Err err, g) \<Rightarrow> (Err err, g)
           | (Ok _, g) \<Rightarrow>
               (Ok (), g\<lparr>gw_config_history := history_record now (che_config e) (Some version) (gw_config_history g)\<rparr>)))"

definition get_config :: "'w Gateway \<Rightarrow> Config" where
  "get_config g = gw_config g"

section \<open>Targets from the database\<close>

record Model =
  mo_id :: string
  mo_name :: string
  mo_display_name :: "string option"
  mo_enabled :: bool
  mo_created_at :: datetime
  mo_updated_at :: datetime

record ModelEndpoint =
  me_id :: string
  me_model_id :: string
  me_provider_type :: string
  me_base_url :: "string option"
  me_api_key :: "string option"
  me_weight :: rat
  me_enabled :: bool
  me_created_at :: datetime
  me_updated_at :: datetime

datatype OnEmpty = Apply | KeepPrevious

record SkippedEndpoint =
  se_endpoint_id :: string
  se_provider_type :: string
  se_reason :: string

record RebuildOutcome =
  ro_targets_built :: nat
  ro_skipped :: "SkippedEndpoint list"
  ro_applied :: bool

record 'w rebuild_acc =
  ra_targets :: "Target list"
  ra_keys :: "(string \<times> string) list"
  ra_skipped :: "SkippedEndpoint list"
  ra_providers :: "string \<rightharpoonup> 'w Provider"

text \<open>The rows the two nested loops visit, in their order.\<close>

definition enabled_rows :: "Model list \<Rightarrow> ModelEndpoint list \<Rightarrow> (Model \<times> ModelEndpoint) list" where
  "enabled_rows models endpoints =
     concat (map (\<lambda>m. map (Pair m) (filter (\<lambda>e. me_model_id e = mo_id m \<and> me_enabled e) endpoints))
       (filter mo_enabled models))"

definition target_of :: "Model \<Rightarrow> ModelEndpoint \<Rightarrow> Target" where
  "target_of m e = \<lparr>tg_id = Some (me_id e), tg_provider = me_provider_type e, tg_weight = me_weight e,
     tg_models = Some [mo_name m], tg_api_key_env = None, tg_base_url = me_base_url e\<rparr>"

definition rebuild_row ::
    "(string \<Rightarrow> string option \<Rightarrow> (ProviderError, 'w Provider) result) \<Rightarrow> Model \<times> ModelEndpoint \<Rightarrow> 'w rebuild_acc \<Rightarrow> 'w rebuild_acc" where
  "rebuild_row build row a =
     (case row of (m, e) \<Rightarrow>
        (case build (me_provider_type e) (me_base_url e) of
           Err err \<Rightarrow>
             a\<lparr>ra_skipped := ra_skipped a @ [\<lparr>se_endpoint_id = me_id e, se_provider_type = me_provider_type e,
                                              se_reason = show_provider_error err\<rparr>]\<rparr>
         | Ok client \<Rightarrow>
             a\<lparr>ra_providers := (ra_providers a)(me_id e \<mapsto> client),
               ra_keys := (case me_api_key e of
                             Some k \<Rightarrow> if k \<noteq> [] then ra_keys a @ [(me_id e, k)] else ra_keys a
                           | None \<Rightarrow> ra_keys a),
               ra_targets := ra_targets a @ [target_of m e]\<rparr>))"

definition rebuild_targets_from_db ::
    "Model list \<Rightarrow> ModelEndpoint list \<Rightarrow> OnEmpty \<Rightarrow> 'w Gateway \<Rightarrow> RebuildOutcome \<times> 'w Gateway" where
  "rebuild_targets_from_db models endpoints on_empty g =
     (let a = fold (rebuild_row (gw_provider_registry g)) (enabled_rows models endpoints)
                \<lparr>ra_targets = [], ra_keys = [], ra_skipped = [], ra_providers = gw_providers g\<rparr>;
          g = g\<lparr>gw_providers := ra_providers a\<rparr>;
          new_targets = ra_targets a
      in if new_targets = [] \<and> on_empty = KeepPrevious
         then (\<lparr>ro_targets_built = 0, ro_skipped = ra_skipped a, ro_applied = False\<rparr>, g)
         else
           (let live_keys = set (map fst (ra_keys a));
                keys = fold (\<lambda>(k, v) m. m(k \<mapsto> v)) (ra_keys a) (gw_provider_keys g) |` live_keys;
                active_ids = set (List.map_filter tg_id new_targets);
                previous_ids = List.map_filter tg_id (gw_targets g);
                stale = set (filter (\<lambda>k. k \<notin> active_ids) previous_ids)
            in (\<lparr>ro_targets_built = length new_targets, ro_skipped = ra_skipped a, ro_applied = True\<rparr>,
                g\<lparr>gw_provider_keys := keys,
                  gw_config := (gw_config g)\<lparr>cfg_targets := new_targets\<rparr>,
                  gw_targets := new_targets,
                  gw_circuit_breakers := gw_circuit_breakers g |` active_ids,
                  gw_providers := gw_providers g |` (- stale)\<rparr>)))"

section \<open>History: versions and rollback\<close>

definition history_ok :: "ConfigHistory \<Rightarrow> bool" where
  "history_ok h = (map che_version (ch_entries h) = map of_nat [1..<Suc (length (ch_entries h))]
     \<and> ch_next_version h = of_nat (Suc (length (ch_entries h))))"

lemma history_record_ok:
  assumes "history_ok h" and "length (ch_entries h) + 1 < 2 ^ 32"
  shows "history_ok (history_record now c from h)"
proof -
  let ?n = "length (ch_entries h)"
  have "unat (of_nat (Suc ?n) :: u32) = Suc ?n" using assms(2) by (simp add: unat_of_nat del: of_nat_Suc)
  then have "max (of_nat (Suc ?n) :: u32) 1 = of_nat (Suc ?n)"
    unfolding max_def word_le_nat_alt by (cases ?n) auto
  with assms(1) show ?thesis by (simp add: history_ok_def history_record_def Let_def)
qed

lemma history_record_entries:
  "ch_entries (history_record now c from h) =
     ch_entries h @ [\<lparr>che_version = max (ch_next_version h) 1, che_updated_at = now, che_config = c,
       che_rolled_back_from = from\<rparr>]"
  by (simp add: history_record_def Let_def)

lemma history_find:
  assumes "history_ok h" and "i < length (ch_entries h)" and "length (ch_entries h) < 2 ^ 32"
  shows "find (\<lambda>e. che_version e = of_nat (Suc i)) (ch_entries h) = Some (ch_entries h ! i)"
proof -
  have ver: "che_version (ch_entries h ! j) = of_nat (Suc j)" if "j < length (ch_entries h)" for j
  proof -
    have "che_version (ch_entries h ! j) = map of_nat [1..<Suc (length (ch_entries h))] ! j"
      using assms(1) that unfolding history_ok_def by (metis nth_map)
    with that show ?thesis by (simp del: upt_Suc)
  qed
  have inj: "j = i" if "j < length (ch_entries h)" "(of_nat (Suc j) :: u32) = of_nat (Suc i)" for j
  proof -
    from that(2) have "unat (of_nat (Suc j) :: u32) = unat (of_nat (Suc i) :: u32)" by simp
    with that(1) assms(2,3) show ?thesis by (simp add: unat_of_nat del: of_nat_Suc)
  qed
  show ?thesis
    unfolding find_Some_iff
  proof (intro exI [of _ i] conjI allI impI)
    fix j assume "j < i"
    with assms(2) inj [of j] ver [of j] show "che_version (ch_entries h ! j) \<noteq> of_nat (Suc i)" by fastforce
  qed (use assms(2) ver in auto)
qed

datatype config_op = Reload Config | Rollback u32

fun config_exec :: "(string \<Rightarrow> (string \<Rightarrow> bool) option) \<Rightarrow> datetime \<Rightarrow> config_op \<Rightarrow> 'w Gateway \<Rightarrow> (GatewayError, unit) result \<times> 'w Gateway" where
  "config_exec rx now (Reload c) g = reload_config rx now c g"
| "config_exec rx now (Rollback v) g = rollback_config rx now v g"

abbreviation history_length :: "'w Gateway \<Rightarrow> nat" where
  "history_length g \<equiv> length (ch_entries (gw_config_history g))"

lemma apply_config_history [simp]: "gw_config_history (snd (apply_config rx c g)) = gw_config_history g"
  by (simp add: apply_config_def Let_def split: sum.split)

lemma apply_config_historyD: "apply_config rx c g = (r, g') \<Longrightarrow> gw_config_history g' = gw_config_history g"
  using apply_config_history by (metis snd_conv)

text \<open>A configuration operation either fails and changes nothing, or appends one entry.\<close>

lemma config_exec_cases:
  "(\<exists>e. config_exec rx now op g = (Err e, g)) \<or>
   (\<exists>c from. fst (config_exec rx now op g) = Ok () \<and> fst (apply_config rx c g) = Ok ()
      \<and> snd (config_exec rx now op g) = (snd (apply_config rx c g))
          \<lparr>gw_config_history := history_record now c from (gw_config_history g)\<rparr>)"
proof -
  have outcome: "(\<exists>e. apply_config rx c g = (Err e, g)) \<or> fst (apply_config rx c g) = Ok ()" for c
    by (auto simp: apply_config_def Let_def split: sum.split)
  have after: "(\<exists>e. (case apply_config rx c g of (Err e, g) \<Rightarrow> (Err e, g) | (Ok _, g) \<Rightarrow> (Ok (), f c g)) = (Err e, g)) \<or>
      fst (case apply_config rx c g of (Err e, g) \<Rightarrow> (Err e, g) | (Ok _, g) \<Rightarrow> (Ok (), f c g)) = Ok () \<and>
      fst (apply_config rx c g) = Ok () \<and>
      snd (case apply_config rx c g of (Err e, g) \<Rightarrow> (Err e, g) | (Ok _, g) \<Rightarrow> (Ok (), f c g)) = f c (snd (apply_config rx c g))"
    for c and f :: "Config \<Rightarrow> 'a Gateway \<Rightarrow> 'a Gateway"
    using outcome [of c] by (cases "apply_config rx c g") auto
  show ?thesis
  proof (cases op)
    case (Reload c)
    with after [where c = c and f = "\<lambda>c g. g\<lparr>gw_config_history := history_record now c None (gw_config_history g)\<rparr>"]
    show ?thesis by (auto simp: reload_config_def)
  next
    case (Rollback v)
    show ?thesis
    proof (cases "find (\<lambda>e. che_version e = v) (ch_entries (gw_config_history g))")
      case (Some e)
      with Rollback after [where c = "che_config e" and f = "\<lambda>c g. g\<lparr>gw_config_history := history_record now c (Some v) (gw_config_history g)\<rparr>"]
      show ?thesis by (auto simp: rollback_config_def)
    qed (simp add: Rollback rollback_config_def)
  qed
qed

definition config_run :: "(string \<Rightarrow> (string \<Rightarrow> bool) option) \<Rightarrow> (datetime \<times> config_op) list \<Rightarrow> 'w Gateway \<Rightarrow> 'w Gateway" where
  "config_run rx ops g = fold (\<lambda>(now, op) g. snd (config_exec rx now op g)) ops g"

lemma config_exec_history:
  "(\<exists>e. config_exec rx now op g = (Err e, g)) \<or>
   (\<exists>c from. gw_config_history (snd (config_exec rx now op g)) = history_record now c from (gw_config_history g))"
  using config_exec_cases [of rx now op g] by force

lemma config_run_history:
  assumes "history_ok (gw_config_history g)" and "history_length g + length ops < 2 ^ 32"
  shows "history_ok (gw_config_history (config_run rx ops g)) \<and>
    (\<exists>ext. ch_entries (gw_config_history (config_run rx ops g)) = ch_entries (gw_config_history g) @ ext
           \<and> length ext \<le> length ops)"
  using assms
proof (induction ops arbitrary: g)
  case (Cons o_ops ops)
  obtain now op where [simp]: "o_ops = (now, op)" by force
  let ?g = "snd (config_exec rx now op g)"
  have step: "history_ok (gw_config_history ?g) \<and> (\<exists>ext. ch_entries (gw_config_history ?g) =
      ch_entries (gw_config_history g) @ ext \<and> length ext \<le> 1)"
    using config_exec_history [of rx now op g]
  proof
    assume "\<exists>e. config_exec rx now op g = (Err e, g)"
    with Cons.prems show ?thesis by auto
  next
    assume "\<exists>c from. gw_config_history ?g = history_record now c from (gw_config_history g)"
    with Cons.prems show ?thesis by (auto simp: history_record_ok history_record_entries)
  qed
  then obtain ext where "ch_entries (gw_config_history ?g) = ch_entries (gw_config_history g) @ ext" "length ext \<le> 1"
    by blast
  with Cons.IH [of ?g] Cons.prems step show ?case
    by (auto simp: config_run_def)
qed (simp add: config_run_def)

lemma gateway_new_history [simp]:
  "history_ok (gw_config_history (gateway_new wi c m))" "history_length (gateway_new wi c m) = 1"
  by (simp_all add: gateway_new_def Let_def history_record_def history_ok_def ConfigHistory_default_def max_def)

lemma apply_config_Ok:
  "fst (apply_config rx c g) = Ok () \<longleftrightarrow> config_validate (apply_guardrail_deprecations c) = Ok ()"
  by (simp add: apply_config_def Let_def split: sum.split)

lemma apply_config_same:
  assumes "fst (apply_config rx c g) = Ok ()"
  shows "gw_config (snd (apply_config rx c g')) = gw_config (snd (apply_config rx c g))"
    and "gw_strategy (snd (apply_config rx c g')) = gw_strategy (snd (apply_config rx c g))"
    and "gw_targets (snd (apply_config rx c g')) = gw_targets (snd (apply_config rx c g))"
  using assms by (auto simp: apply_config_def Let_def split: sum.splits)

lemma reload_config_Ok:
  assumes "reload_config rx now c g = (Ok (), g')"
  shows "fst (apply_config rx c g) = Ok ()"
    and "g' = (snd (apply_config rx c g))\<lparr>gw_config_history := history_record now c None (gw_config_history g)\<rparr>"
  using assms by (auto simp: reload_config_def dest: apply_config_historyD split: prod.splits sum.splits)

lemma rollback_config_at:
  assumes "history_ok (gw_config_history g)" "history_length g < 2 ^ 32" "i < history_length g"
    and "fst (apply_config rx (che_config (ch_entries (gw_config_history g) ! i)) g) = Ok ()"
  shows "rollback_config rx now (of_nat (Suc i)) g =
    (Ok (), (snd (apply_config rx (che_config (ch_entries (gw_config_history g) ! i)) g))
      \<lparr>gw_config_history := history_record now (che_config (ch_entries (gw_config_history g) ! i))
         (Some (of_nat (Suc i))) (gw_config_history g)\<rparr>)"
proof -
  obtain g' where a: "apply_config rx (che_config (ch_entries (gw_config_history g) ! i)) g = (Ok (), g')"
    using assms(4) by (metis prod.collapse)
  show ?thesis
    unfolding rollback_config_def history_find [OF assms(1,3,2)] by (simp add: a apply_config_historyD [OF a])
qed

text \<open>C28: After a successful reload, whatever reloads and rollbacks follow, rolling back to the version that
  reload created succeeds and restores the configuration, the routing strategy and the targets that were
  live right after it; the history only grows, and its newest entry names the version restored.\<close>

theorem rollback_restores:
  assumes "g1 = config_run rx ops1 (gateway_new wi c0 metrics)"
    and "reload_config rx t c g1 = (Ok (), g2)"
    and "g3 = config_run rx ops2 g2"
    and "length ops1 + length ops2 + 3 < 2 ^ 32"
  shows "\<exists>g4. rollback_config rx t' (of_nat (history_length g2)) g3 = (Ok (), g4)
    \<and> gw_config g4 = gw_config g2 \<and> gw_strategy g4 = gw_strategy g2 \<and> gw_targets g4 = gw_targets g2
    \<and> prefix (config_history g3) (tl (config_history g4))
    \<and> che_rolled_back_from (hd (config_history g4)) = Some (of_nat (history_length g2))"
proof -
  have h1: "history_ok (gw_config_history g1)" "history_length g1 \<le> Suc (length ops1)"
    using config_run_history [of "gateway_new wi c0 metrics" ops1 rx] assms(1,4) by auto
  note g2 = reload_config_Ok [OF assms(2)]
  have h2: "history_ok (gw_config_history g2)" "history_length g2 = Suc (history_length g1)"
    using history_record_ok [OF h1(1)] h1(2) assms(4) by (simp_all add: g2(2) history_record_entries)
  then obtain ext where ext: "history_ok (gw_config_history g3)"
      "ch_entries (gw_config_history g3) = ch_entries (gw_config_history g2) @ ext" "length ext \<le> length ops2"
    using config_run_history [of g2 ops2 rx] h1 assms(3,4) by auto
  have "ch_entries (gw_config_history g3) ! history_length g1 = ch_entries (gw_config_history g2) ! history_length g1"
    using h2(2) by (simp add: ext(2) nth_append)
  then have entry: "che_config (ch_entries (gw_config_history g3) ! history_length g1) = c"
    by (simp add: g2(2) history_record_entries)
  have ok: "fst (apply_config rx c g3) = Ok ()" using g2(1) by (simp add: apply_config_Ok)
  have "rollback_config rx t' (of_nat (Suc (history_length g1))) g3 =
     (Ok (), (snd (apply_config rx c g3))\<lparr>gw_config_history :=
        history_record t' c (Some (of_nat (Suc (history_length g1)))) (gw_config_history g3)\<rparr>)"
    using rollback_config_at [OF ext(1), of "history_length g1" rx t'] ok entry h1 h2 ext assms(4) by simp
  moreover note apply_config_same [OF ok, of g1]
  ultimately show ?thesis
    by (simp add: h2(2) g2(2) config_history_def history_record_entries)
qed

definition sample_wiring :: "unit wiring" where
  "sample_wiring = \<lparr>wi_env = Map.empty, wi_regex_new = (\<lambda>_. None), wi_redact = id,
     wi_pricing_json = (\<lambda>_. None), wi_registry = (\<lambda>t u. Err (PE_UnknownType t)), wi_now = 0, wi_world = ()\<rparr>"

definition fallback_config :: Config where
  "fallback_config = Config_default\<lparr>cfg_strategy := StrategyConfig_default\<lparr>stc_mode := Mode_Fallback\<rparr>\<rparr>"

lemma default_valid:
  "config_validate (apply_guardrail_deprecations Config_default) = Ok ()"
  "config_validate (apply_guardrail_deprecations fallback_config) = Ok ()"
  by (simp_all add: config_validate_def apply_guardrail_deprecations_def Config_default_def fallback_config_def)

theorem rollback_restores_witness:
  "\<exists>g2 g4. reload_config (\<lambda>_. None) 1 fallback_config (gateway_new sample_wiring Config_default metrics_new) = (Ok (), g2)
     \<and> rollback_config (\<lambda>_. None) 9 2 (config_run (\<lambda>_. None) [(2, Reload Config_default), (3, Rollback 1)] g2) = (Ok (), g4)
     \<and> gw_strategy g4 = Fallback"
proof -
  let ?g1 = "gateway_new sample_wiring Config_default metrics_new"
  obtain g2 where g2: "reload_config (\<lambda>_. None) 1 fallback_config ?g1 = (Ok (), g2)"
    by (simp add: reload_config_def apply_config_def Let_def default_valid)
  have "gw_strategy g2 = Fallback" "history_length g2 = 2"
    using reload_config_Ok [OF g2]
    by (simp_all add: history_record_entries apply_config_def Let_def default_valid)
      (simp add: fallback_config_def apply_guardrail_deprecations_def from_strategy_config_def)
  then show ?thesis
    using rollback_restores [of ?g1 "\<lambda>_. None" "[]" sample_wiring Config_default metrics_new, OF _ g2 refl, of
        "[(2, Reload Config_default), (3, Rollback 1)]" 9] g2
    by (auto simp: config_run_def)
qed

section \<open>Rebuild\<close>

definition builds :: "(string \<Rightarrow> string option \<Rightarrow> (ProviderError, 'w Provider) result) \<Rightarrow> Model \<times> ModelEndpoint \<Rightarrow> bool" where
  "builds build row = is_ok (build (me_provider_type (snd row)) (me_base_url (snd row)))"

definition row_key :: "Model \<times> ModelEndpoint \<Rightarrow> (string \<times> string) option" where
  "row_key row = (case me_api_key (snd row) of
     Some k \<Rightarrow> if k \<noteq> [] then Some (me_id (snd row), k) else None | None \<Rightarrow> None)"

abbreviation row_id :: "Model \<times> ModelEndpoint \<Rightarrow> string" where
  "row_id row \<equiv> me_id (snd row)"

lemma map_filter_snoc: "List.map_filter f (xs @ [x]) = List.map_filter f xs @ (case f x of Some y \<Rightarrow> [y] | None \<Rightarrow> [])"
  by (simp add: List.map_filter_def split: option.split)

lemma rebuild_row_ok:
  assumes "builds build row"
  shows "ra_targets (rebuild_row build row a) = ra_targets a @ [target_of (fst row) (snd row)]"
    and "ra_keys (rebuild_row build row a) = ra_keys a @ (case row_key row of Some y \<Rightarrow> [y] | None \<Rightarrow> [])"
    and "ra_skipped (rebuild_row build row a) = ra_skipped a"
    and "\<exists>p. ra_providers (rebuild_row build row a) = (ra_providers a)(row_id row \<mapsto> p)"
  using assms
  by (cases row; auto simp: builds_def is_ok_def rebuild_row_def row_key_def split: sum.splits option.splits)+

lemma rebuild_row_skip:
  assumes "\<not> builds build row"
  shows "ra_targets (rebuild_row build row a) = ra_targets a" "ra_keys (rebuild_row build row a) = ra_keys a"
    and "map se_endpoint_id (ra_skipped (rebuild_row build row a)) = map se_endpoint_id (ra_skipped a) @ [row_id row]"
    and "ra_providers (rebuild_row build row a) = ra_providers a"
  using assms by (cases row; simp add: builds_def is_ok_def rebuild_row_def split: sum.splits)+

lemma rebuild_fold:
  fixes build :: "string \<Rightarrow> string option \<Rightarrow> (ProviderError, 'w Provider) result" and rows ps
  defines "a \<equiv> fold (rebuild_row build) rows \<lparr>ra_targets = [], ra_keys = [], ra_skipped = [], ra_providers = ps\<rparr>"
    and "ok \<equiv> filter (builds build) rows"
  shows "ra_targets a = map (\<lambda>r. target_of (fst r) (snd r)) ok"
    and "ra_keys a = List.map_filter row_key ok"
    and "map se_endpoint_id (ra_skipped a) = map row_id (filter (\<lambda>r. \<not> builds build r) rows)"
    and "k \<notin> row_id ` set ok \<Longrightarrow> ra_providers a k = ps k"
    and "k \<in> row_id ` set ok \<Longrightarrow> ra_providers a k \<noteq> None"
proof -
  have "ra_targets a = map (\<lambda>r. target_of (fst r) (snd r)) ok \<and> ra_keys a = List.map_filter row_key ok
    \<and> map se_endpoint_id (ra_skipped a) = map row_id (filter (\<lambda>r. \<not> builds build r) rows)
    \<and> (k \<notin> row_id ` set ok \<longrightarrow> ra_providers a k = ps k) \<and> (k \<in> row_id ` set ok \<longrightarrow> ra_providers a k \<noteq> None)" for k
    unfolding a_def ok_def
  proof (induction rows rule: rev_induct)
    case (snoc row rows)
    show ?case
    proof (cases "builds build row")
      case True
      then show ?thesis
        using snoc rebuild_row_ok(4) [OF True, of "fold (rebuild_row build) rows
            \<lparr>ra_targets = [], ra_keys = [], ra_skipped = [], ra_providers = ps\<rparr>"]
        by (auto simp: rebuild_row_ok(1-3) map_filter_snoc)
    qed (use snoc in \<open>simp add: rebuild_row_skip\<close>)
  qed (simp add: List.map_filter_def)
  then show "ra_targets a = map (\<lambda>r. target_of (fst r) (snd r)) ok" "ra_keys a = List.map_filter row_key ok"
    "map se_endpoint_id (ra_skipped a) = map row_id (filter (\<lambda>r. \<not> builds build r) rows)"
    "k \<notin> row_id ` set ok \<Longrightarrow> ra_providers a k = ps k" "k \<in> row_id ` set ok \<Longrightarrow> ra_providers a k \<noteq> None"
    by blast+
qed

definition routable_rows :: "'w Gateway \<Rightarrow> Model list \<Rightarrow> ModelEndpoint list \<Rightarrow> (Model \<times> ModelEndpoint) list" where
  "routable_rows g models endpoints = filter (builds (gw_provider_registry g)) (enabled_rows models endpoints)"

definition target_ids :: "Target list \<Rightarrow> string set" where
  "target_ids ts = set (List.map_filter tg_id ts)"

lemma target_ids_rows [simp]: "target_ids (map (\<lambda>r. target_of (fst r) (snd r)) rows) = row_id ` set rows"
  by (auto simp: target_ids_def List.map_filter_def target_of_def)

lemma row_key_fst: "fst ` set (List.map_filter row_key rows) \<subseteq> row_id ` set rows"
  by (induction rows) (auto simp: map_filter_simps row_key_def split: option.splits if_splits)

definition rebuilt :: "(Model \<times> ModelEndpoint) list \<Rightarrow> (string \<rightharpoonup> 'w Provider) \<Rightarrow> 'w Gateway \<Rightarrow> 'w Gateway" where
  "rebuilt rows ps g =
     (let targets = map (\<lambda>r. target_of (fst r) (snd r)) rows; keys = List.map_filter row_key rows; ids = row_id ` set rows
      in g\<lparr>gw_provider_keys := fold (\<lambda>(k, v) m. m(k \<mapsto> v)) keys (gw_provider_keys g) |` (fst ` set keys),
           gw_config := (gw_config g)\<lparr>cfg_targets := targets\<rparr>, gw_targets := targets,
           gw_circuit_breakers := gw_circuit_breakers g |` ids,
           gw_providers := ps |` (- (target_ids (gw_targets g) - ids))\<rparr>)"

lemma rebuild_unfold:
  assumes "rebuild_targets_from_db models endpoints on_empty g = (out, g')"
    and "rows = routable_rows g models endpoints"
  shows "\<exists>ps. (\<forall>k. k \<notin> row_id ` set rows \<longrightarrow> ps k = gw_providers g k) \<and> (\<forall>k\<in>row_id ` set rows. ps k \<noteq> None)
    \<and> (if rows = [] \<and> on_empty = KeepPrevious then \<not> ro_applied out \<and> g' = g\<lparr>gw_providers := ps\<rparr>
       else ro_applied out \<and> g' = rebuilt rows ps g)"
proof -
  let ?build = "gw_provider_registry g" and ?all = "enabled_rows models endpoints"
  let ?a = "fold (rebuild_row ?build) ?all \<lparr>ra_targets = [], ra_keys = [], ra_skipped = [], ra_providers = gw_providers g\<rparr>"
  note fold = rebuild_fold [where build = ?build and rows = ?all and ps = "gw_providers g",
      folded routable_rows_def, folded assms(2)]
  have stale: "{k \<in> set (List.map_filter tg_id (gw_targets g)). k \<notin> row_id ` set rows} =
      target_ids (gw_targets g) - row_id ` set rows"
    by (auto simp: target_ids_def)
  have ids: "set (List.map_filter tg_id (map (\<lambda>r. target_of (fst r) (snd r)) rows)) = row_id ` set rows"
    using target_ids_rows [of rows] by (simp add: target_ids_def)
  have "if rows = [] \<and> on_empty = KeepPrevious then \<not> ro_applied out \<and> g' = g\<lparr>gw_providers := ra_providers ?a\<rparr>
       else ro_applied out \<and> g' = rebuilt rows (ra_providers ?a) g"
    using assms(1) unfolding rebuild_targets_from_db_def Let_def fold(1,2) ids
    by (auto simp: rebuilt_def Let_def stale split: if_splits)
  with fold(4,5) show ?thesis by blast
qed

text \<open>C14: Rebuilding the targets either leaves the whole gateway as it was (nothing builds and the previous
  targets are to be kept), or makes exactly the buildable enabled endpoints the targets, each with a
  client, keeps no credential of any other endpoint, drops the clients of endpoints that stopped routing
  while leaving the clients registered under other keys, keeps the breaker state of the endpoints that
  route and of no other, and does not touch the rate limiter.\<close>

theorem rebuild_live_state:
  assumes "rebuild_targets_from_db models endpoints on_empty g = (out, g')"
    and "rows = routable_rows g models endpoints" and "ids = row_id ` set rows"
  shows "if rows = [] \<and> on_empty = KeepPrevious then \<not> ro_applied out \<and> g' = g
    else ro_applied out
      \<and> gw_targets g' = map (\<lambda>r. target_of (fst r) (snd r)) rows
      \<and> (\<forall>t\<in>set (gw_targets g'). gw_providers g' (routing_key t) \<noteq> None)
      \<and> dom (gw_provider_keys g') \<subseteq> ids
      \<and> (\<forall>k. k \<notin> ids \<longrightarrow> gw_providers g' k = (if k \<in> target_ids (gw_targets g) then None else gw_providers g k))
      \<and> gw_circuit_breakers g' = gw_circuit_breakers g |` ids
      \<and> gw_rate_limiter g' = gw_rate_limiter g"
proof -
  obtain ps where ps: "\<forall>k. k \<notin> ids \<longrightarrow> ps k = gw_providers g k" "\<forall>k\<in>ids. ps k \<noteq> None"
    and live: "if rows = [] \<and> on_empty = KeepPrevious then \<not> ro_applied out \<and> g' = g\<lparr>gw_providers := ps\<rparr>
       else ro_applied out \<and> g' = rebuilt rows ps g"
    using rebuild_unfold [OF assms(1,2)] unfolding assms(3) by blast
  show ?thesis
  proof (cases "rows = [] \<and> on_empty = KeepPrevious")
    case True
    then have "ps = gw_providers g" using ps(1) by (auto simp: assms(3))
    with live True show ?thesis by simp
  next
    case False
    with live have g': "ro_applied out" "g' = rebuilt rows ps g" by auto
    have key: "routing_key (target_of m e) = me_id e" for m e by (simp add: routing_key_def target_of_def unwrap_or_def)
    have "\<forall>t\<in>set (gw_targets g'). gw_providers g' (routing_key t) \<noteq> None"
      using ps(2) by (auto simp: key assms(3) g' rebuilt_def Let_def)
    moreover have "dom (gw_provider_keys g') \<subseteq> ids"
      using row_key_fst [of rows] by (auto simp: assms(3) g' rebuilt_def Let_def restrict_map_def split: if_splits)
    moreover have "\<forall>k. k \<notin> ids \<longrightarrow> gw_providers g' k = (if k \<in> target_ids (gw_targets g) then None else gw_providers g k)"
      using ps(1) by (auto simp: restrict_map_def g' rebuilt_def Let_def assms(3))
    moreover have "gw_targets g' = map (\<lambda>r. target_of (fst r) (snd r)) rows"
      "gw_circuit_breakers g' = gw_circuit_breakers g |` ids" "gw_rate_limiter g' = gw_rate_limiter g"
      by (simp_all add: g' rebuilt_def Let_def assms(3))
    ultimately show ?thesis using g'(1) False by simp
  qed
qed

lemma fold_upd_distinct:
  assumes "distinct (map fst kvs)" and "(k, v) \<in> set kvs"
  shows "fold (\<lambda>(k, v) m. m(k \<mapsto> v)) kvs m k = Some v"
proof -
  have other: "fold (\<lambda>(k, v) m. m(k \<mapsto> v)) kvs m k = m k" if "k \<notin> fst ` set kvs" for kvs and m :: "'a \<rightharpoonup> 'b" and k
    using that by (induction kvs arbitrary: m) auto
  show ?thesis using assms by (induction kvs arbitrary: m) (auto simp: other)
qed

lemma map_filter_set: "set (List.map_filter f xs) = {y. \<exists>x\<in>set xs. f x = Some y}"
  by (force simp: List.map_filter_def)

lemma row_key_id: "row_key r = Some kv \<Longrightarrow> fst kv = row_id r"
  by (auto simp: row_key_def split: option.splits if_splits)

lemma row_keys_distinct:
  assumes "distinct (map row_id rows)"
  shows "distinct (map fst (List.map_filter row_key rows))"
  using assms
proof (induction rows)
  case (Cons r rows)
  then have "row_id r \<notin> fst ` set (List.map_filter row_key rows)" using row_key_fst [of rows] by auto
  with Cons row_key_id [of r] show ?case by (cases "row_key r") (auto simp: map_filter_simps)
qed (simp add: map_filter_simps)

lemma row_key_none:
  assumes "distinct (map row_id rows)" "r \<in> set rows" "row_key r = None"
  shows "row_id r \<notin> fst ` set (List.map_filter row_key rows)"
proof
  assume "row_id r \<in> fst ` set (List.map_filter row_key rows)"
  then obtain q kv where "q \<in> set rows" "row_key q = Some kv" "row_id q = row_id r"
    using row_key_id by (force simp: map_filter_set)
  with assms show False by (metis distinct_map inj_onD option.distinct(1))
qed

text \<open>After a rebuild that was applied, a request to an endpoint uses the credential of that endpoint's own
  row, and an empty one only if the row has none; no credential of an earlier configuration remains.\<close>

theorem rebuild_credentials:
  assumes "rebuild_targets_from_db models endpoints on_empty g = (out, g')"
    and "ro_applied out"
    and "distinct (map row_id (routable_rows g models endpoints))"
    and "(m, e) \<in> set (routable_rows g models endpoints)"
  shows "target_api_key env g' (target_of m e) = Ok (unwrap_or (me_api_key e) [])"
proof -
  let ?rows = "routable_rows g models endpoints"
  let ?kvs = "List.map_filter row_key ?rows"
  have keys: "gw_provider_keys g' = fold (\<lambda>(k, v) m. m(k \<mapsto> v)) ?kvs (gw_provider_keys g) |` (fst ` set ?kvs)"
    using rebuild_unfold [OF assms(1) refl] assms(2) by (auto simp: rebuilt_def Let_def split: if_splits)
  have "gw_provider_keys g' (me_id e) = map_option snd (row_key (m, e))"
  proof (cases "row_key (m, e)")
    case None
    then have "me_id e \<notin> fst ` set ?kvs" using row_key_none [OF assms(3,4)] by simp
    then show ?thesis by (simp add: keys None)
  next
    case (Some kv)
    then have kv: "(me_id e, snd kv) \<in> set ?kvs"
      using assms(4) row_key_id [OF Some] by (cases kv) (force simp: map_filter_set)
    then have "me_id e \<in> fst ` set ?kvs" by force
    then show ?thesis
      using fold_upd_distinct [OF row_keys_distinct [OF assms(3)] kv, of "gw_provider_keys g"]
      by (simp add: keys Some)
  qed
  then show ?thesis
    by (auto simp: target_api_key_def target_of_def routing_key_def unwrap_or_def row_key_def split: option.splits)
qed

definition sample_model :: Model where
  "sample_model = \<lparr>mo_id = ''m1'', mo_name = ''x'', mo_display_name = None, mo_enabled = True, mo_created_at = 0, mo_updated_at = 0\<rparr>"

definition sample_endpoint :: ModelEndpoint where
  "sample_endpoint = \<lparr>me_id = ''ep1'', me_model_id = ''m1'', me_provider_type = ''stub-ok'', me_base_url = None,
     me_api_key = Some ''sk-1'', me_weight = 1, me_enabled = True, me_created_at = 0, me_updated_at = 0\<rparr>"

definition stub_provider :: "unit Provider" where
  "stub_provider = \<lparr>pv_name = ''stub-ok'', pv_complete = (\<lambda>r k w. (Err (PE_Internal []), 0, w)),
     pv_complete_stream = (\<lambda>r k w. (Ok [], 0, w)), pv_embed = embed_unsupported ''stub-ok''\<rparr>"

definition stub_registry :: "string \<Rightarrow> string option \<Rightarrow> (ProviderError, unit Provider) result" where
  "stub_registry t u = (if t = ''stub-ok'' then Ok stub_provider else Err (PE_UnknownType t))"

definition sample_gateway :: "unit Gateway" where
  "sample_gateway = set_provider_registry stub_registry (gateway_new sample_wiring Config_default metrics_new)"

lemma sample_rows:
  "routable_rows sample_gateway [sample_model] [sample_endpoint, sample_endpoint\<lparr>me_id := ''ep2'', me_provider_type := ''nope''\<rparr>]
     = [(sample_model, sample_endpoint)]"
  by (simp add: routable_rows_def enabled_rows_def builds_def is_ok_def sample_gateway_def set_provider_registry_def
      stub_registry_def sample_model_def sample_endpoint_def)

theorem rebuild_live_state_witness:
  "let g' = snd (rebuild_targets_from_db [sample_model]
       [sample_endpoint, sample_endpoint\<lparr>me_id := ''ep2'', me_provider_type := ''nope''\<rparr>] KeepPrevious sample_gateway)
   in map tg_id (gw_targets g') = [Some ''ep1''] \<and> gw_providers g' ''ep1'' \<noteq> None \<and> gw_providers g' ''ep2'' = None"
proof -
  let ?eps = "[sample_endpoint, sample_endpoint\<lparr>me_id := ''ep2'', me_provider_type := ''nope''\<rparr>]"
  have none: "gw_providers sample_gateway ''ep2'' = None" "''ep2'' \<notin> {me_id sample_endpoint}"
    by (simp_all add: sample_gateway_def set_provider_registry_def gateway_new_def Let_def sample_endpoint_def)
  have "routing_key (target_of sample_model sample_endpoint) = ''ep1''"
    by (simp add: routing_key_def target_of_def unwrap_or_def sample_endpoint_def)
  moreover note rebuild_live_state [of "[sample_model]" ?eps KeepPrevious sample_gateway
      "fst (rebuild_targets_from_db [sample_model] ?eps KeepPrevious sample_gateway)"
      "snd (rebuild_targets_from_db [sample_model] ?eps KeepPrevious sample_gateway)"
      "[(sample_model, sample_endpoint)]" "{me_id sample_endpoint}", unfolded sample_rows]
  ultimately show ?thesis using none
    by (auto simp: Let_def target_of_def sample_endpoint_def)
qed

theorem rebuild_credentials_witness:
  "target_api_key Map.empty (snd (rebuild_targets_from_db [sample_model]
       [sample_endpoint, sample_endpoint\<lparr>me_id := ''ep2'', me_provider_type := ''nope''\<rparr>] Apply sample_gateway))
     (target_of sample_model sample_endpoint) = Ok ''sk-1''"
proof -
  let ?r = "rebuild_targets_from_db [sample_model]
       [sample_endpoint, sample_endpoint\<lparr>me_id := ''ep2'', me_provider_type := ''nope''\<rparr>] Apply sample_gateway"
  have "ro_applied (fst ?r)" by (simp add: rebuild_targets_from_db_def Let_def)
  with rebuild_credentials [of _ _ Apply sample_gateway "fst ?r" "snd ?r" sample_model sample_endpoint Map.empty]
  show ?thesis using sample_rows by (simp add: unwrap_or_def sample_endpoint_def)
qed

section \<open>The request log of the gateway\<close>

text \<open>The auditor keeps the reference it was built with: after the store is replaced, a recorded request is
  written to the old store and the store the gateway answers queries from stays as it was.\<close>

lemma replaced_log_gets_no_entries:
  assumes "store \<noteq> la_request_log (gw_request_auditor g)"
  shows "let g' = set_request_log_store store g
         in request_log (g'\<lparr>gw_stores := record_full sm (gw_request_auditor g') ev (gw_stores g')\<rparr>) = request_log g'"
  using assms
  by (simp add: set_request_log_store_def request_log_def record_full_def Let_def record_usage_logs)

end
