(* ===== verification/Failover.thy ===== *)
theory Failover
  imports Gateway_State Gateway_Policy
begin

text \<open>
  Failover over an ordered list of targets and the embeddings path (\<^verbatim>\<open>himadri/src/gateway/route.rs\<close>). The
  clock is a function of the reading's number within a request; the operation tried on each provider acts
  on the world.
\<close>

section \<open>One attempt\<close>

datatype AttemptError =
    NoTargets
  | CircuitOpen_attempt string
  | ProviderNotFound_attempt string
  | ApiKey GatewayError
  | Provider_attempt ProviderError

type_synonym ('w, 't) operation = "'w Provider \<Rightarrow> string \<Rightarrow> 'w \<Rightarrow> (ProviderError, 't) result \<times> duration \<times> 'w"

definition candidate_breaker :: "'w Gateway \<Rightarrow> Target \<Rightarrow> CircuitBreaker" where
  "candidate_breaker g c =
     (case gw_circuit_breakers g (routing_key c) of Some b \<Rightarrow> b | None \<Rightarrow> cb_new CircuitBreakerConfig_default)"

definition set_breaker :: "Target \<Rightarrow> CircuitBreaker \<Rightarrow> 'w Gateway \<Rightarrow> 'w Gateway" where
  "set_breaker c cb g = g\<lparr>gw_circuit_breakers := (gw_circuit_breakers g)(routing_key c \<mapsto> cb)\<rparr>"

definition record_outcome :: "u64 \<Rightarrow> (ProviderError, 't) result \<Rightarrow> CircuitBreaker \<Rightarrow> CircuitBreaker" where
  "record_outcome now r cb =
     (case r of
        Ok _ \<Rightarrow> cb_record_success cb
      | Err (PE_RateLimited _) \<Rightarrow> cb
      | Err e \<Rightarrow> if pe_retryable e then cb_record_failure now cb else cb)"

definition record_attempt_latency :: "bool \<Rightarrow> Target \<Rightarrow> duration \<Rightarrow> 'w Gateway \<Rightarrow> 'w Gateway" where
  "record_attempt_latency record_latency c latency g =
     (if record_latency
      then case gw_strategy g of
             LeastLatency store \<Rightarrow>
               g\<lparr>gw_strategy := LeastLatency (latency_record (tg_provider c) (of_nat (as_millis latency)) store)\<rparr>
           | _ \<Rightarrow> g
      else g)"

definition attempt ::
    "env_vars \<Rightarrow> bool \<Rightarrow> ('w, 't) operation \<Rightarrow> u64 \<Rightarrow> u64 \<Rightarrow> Target \<Rightarrow> 'w Gateway \<Rightarrow>
     ((AttemptError, 't) result \<times> duration option) \<times> 'w Gateway" where
  "attempt env record_latency run now now' c g =
     (let (allowed, cb) = cb_allow now (candidate_breaker g c); g = set_breaker c cb g
      in if \<not> allowed then ((Err (CircuitOpen_attempt (tg_provider c)), None), g)
         else case gw_providers g (routing_key c) of
                None \<Rightarrow> ((Err (ProviderNotFound_attempt (tg_provider c)), None), g)
              | Some provider \<Rightarrow>
                  (case target_api_key env g c of
                     Err e \<Rightarrow> ((Err (ApiKey e), None), g)
                   | Ok api_key \<Rightarrow>
                       (let (r, latency, w) = run provider api_key (gw_world g);
                            g = set_breaker c (record_outcome now' r cb) (g\<lparr>gw_world := w\<rparr>);
                            g = record_attempt_latency record_latency c latency g
                        in ((map_err Provider_attempt r, Some latency), g))))"

section \<open>The loop\<close>

fun failover_loop ::
    "env_vars \<Rightarrow> bool \<Rightarrow> ('w, 't) operation \<Rightarrow> (nat \<Rightarrow> u64) \<Rightarrow> nat \<Rightarrow> Target list \<Rightarrow>
     Target \<times> (AttemptError, 't) result \<times> duration \<Rightarrow> 'w Gateway \<Rightarrow>
     (Target \<times> (AttemptError, 't) result \<times> duration) \<times> 'w Gateway" where
  "failover_loop env rl run clk i [] best g = (best, g)"
| "failover_loop env rl run clk i (c # cs) best g =
     (case attempt env rl run (clk (2 * i)) (clk (2 * i + 1)) c g of
        ((r, latency), g') \<Rightarrow>
          (let best = (c, r, unwrap_or latency (snd (snd best)))
           in case r of
                Ok _ \<Rightarrow> (best, g')
              | Err (Provider_attempt e) \<Rightarrow>
                  if pe_retryable e \<and> cs \<noteq> [] then failover_loop env rl run clk (Suc i) cs best g' else (best, g')
              | Err _ \<Rightarrow> if cs = [] then (best, g') else failover_loop env rl run clk (Suc i) cs best g'))"

definition with_failover ::
    "env_vars \<Rightarrow> bool \<Rightarrow> ('w, 't) operation \<Rightarrow> (nat \<Rightarrow> u64) \<Rightarrow> Target list \<Rightarrow> 'w Gateway \<Rightarrow>
     (Target \<times> (AttemptError, 't) result \<times> duration) option \<times> 'w Gateway" where
  "with_failover env record_latency run clk ordered g =
     (case ordered of
        [] \<Rightarrow> (None, g)
      | c # _ \<Rightarrow>
          (let (best, g) = failover_loop env record_latency run clk 0 ordered (c, Err NoTargets, 0) g
           in (Some best, g)))"

section \<open>Embeddings\<close>

fun embed_loop ::
    "env_vars \<Rightarrow> EmbeddingRequest \<Rightarrow> Target list \<Rightarrow> GatewayError \<Rightarrow> 'w Gateway \<Rightarrow>
     (GatewayError, EmbeddingResponse) result \<times> 'w Gateway" where
  "embed_loop env request [] last_err g = (Err last_err, g)"
| "embed_loop env request (t # ts) last_err g =
     (case gw_providers g (routing_key t) of
        None \<Rightarrow> embed_loop env request ts last_err g
      | Some provider \<Rightarrow>
          (case target_api_key env g t of
             Err e \<Rightarrow> embed_loop env request ts e g
           | Ok api_key \<Rightarrow>
               (let (r, w) = pv_embed provider request api_key (gw_world g); g = g\<lparr>gw_world := w\<rparr>
                in case r of
                     Ok resp \<Rightarrow> (Ok resp, g)
                   | Err (PE_Unsupported _) \<Rightarrow> embed_loop env request ts last_err g
                   | Err e \<Rightarrow>
                       if pe_retryable e then embed_loop env request ts (Provider (show_provider_error e)) g
                       else (Err (Provider (show_provider_error e)), g))))"

definition embed ::
    "(string \<Rightarrow> u64) \<Rightarrow> env_vars \<Rightarrow> (nat \<Rightarrow> u64) \<Rightarrow> EmbeddingRequest \<Rightarrow> AuthContext option \<Rightarrow> 'w Gateway \<Rightarrow>
     (GatewayError, EmbeddingResponse) result \<times> 'w Gateway" where
  "embed hash env clk request auth g =
     (let (ok, rl) = check_rate_limits hash clk auth (gw_config g) (gw_rate_limiter g); g = g\<lparr>gw_rate_limiter := rl\<rparr>
      in case ok of
           Err e \<Rightarrow> (Err e, g)
         | Ok _ \<Rightarrow>
             (case check_rbac_model auth (gw_config g) (er_model request) of
                Err e \<Rightarrow> (Err e, g)
              | Ok _ \<Rightarrow>
                  if gw_targets g = [] then (Err (Internal ''No targets configured''), g)
                  else (case filter_targets_by_rbac auth (gw_config g) (gw_targets g) of
                          Err e \<Rightarrow> (Err e, g)
                        | Ok targets \<Rightarrow>
                            embed_loop env request targets (Internal ''No provider produced embeddings'') g)))"

section \<open>What failover does\<close>

text \<open>An attempt decides the request when it succeeds or fails in a way no other target can mend.\<close>

definition conclusive :: "(AttemptError, 't) result \<Rightarrow> bool" where
  "conclusive r =
     (case r of Ok _ \<Rightarrow> True | Err (Provider_attempt e) \<Rightarrow> \<not> pe_retryable e | Err _ \<Rightarrow> False)"

fun after_attempts ::
    "env_vars \<Rightarrow> bool \<Rightarrow> ('w, 't) operation \<Rightarrow> (nat \<Rightarrow> u64) \<Rightarrow> nat \<Rightarrow> Target list \<Rightarrow> 'w Gateway \<Rightarrow> 'w Gateway" where
  "after_attempts env rl run clk i [] g = g"
| "after_attempts env rl run clk i (c # cs) g =
     after_attempts env rl run clk (Suc i) cs (snd (attempt env rl run (clk (2 * i)) (clk (2 * i + 1)) c g))"

definition nth_attempt ::
    "env_vars \<Rightarrow> bool \<Rightarrow> ('w, 't) operation \<Rightarrow> (nat \<Rightarrow> u64) \<Rightarrow> nat \<Rightarrow> Target list \<Rightarrow> 'w Gateway \<Rightarrow> nat \<Rightarrow>
     ((AttemptError, 't) result \<times> duration option) \<times> 'w Gateway" where
  "nth_attempt env rl run clk i cs g k =
     attempt env rl run (clk (2 * (i + k))) (clk (2 * (i + k) + 1)) (cs ! k) (after_attempts env rl run clk i (take k cs) g)"

lemma nth_attempt_simps [simp]:
  "nth_attempt env rl run clk i (c # cs) g 0 = attempt env rl run (clk (2 * i)) (clk (2 * i + 1)) c g"
  "nth_attempt env rl run clk i (c # cs) g (Suc k) =
     nth_attempt env rl run clk (Suc i) cs (snd (attempt env rl run (clk (2 * i)) (clk (2 * i + 1)) c g)) k"
  by (simp_all add: nth_attempt_def)

lemma loop_step:
  assumes "attempt env rl run (clk (2 * i)) (clk (2 * i + 1)) c g = ((r, l), g')"
  shows "failover_loop env rl run clk i (c # cs) best g =
    (if conclusive r \<or> cs = [] then ((c, r, unwrap_or l (snd (snd best))), g')
     else failover_loop env rl run clk (Suc i) cs (c, r, unwrap_or l (snd (snd best))) g')"
  using assms by (auto simp: failover_loop.simps(2) conclusive_def Let_def split: sum.split AttemptError.split)

declare failover_loop.simps(2) [simp del]

lemma loop_decides:
  assumes "cs \<noteq> []"
  shows "\<exists>k latency. k < length cs
    \<and> (\<forall>j<k. \<not> conclusive (fst (fst (nth_attempt env rl run clk i cs g j))))
    \<and> (conclusive (fst (fst (nth_attempt env rl run clk i cs g k))) \<or> Suc k = length cs)
    \<and> failover_loop env rl run clk i cs best g =
        ((cs ! k, fst (fst (nth_attempt env rl run clk i cs g k)), latency), snd (nth_attempt env rl run clk i cs g k))"
  using assms
proof (induction cs arbitrary: i best g)
  case (Cons c cs)
  obtain r l g' where at: "attempt env rl run (clk (2 * i)) (clk (2 * i + 1)) c g = ((r, l), g')"
    by (metis prod.exhaust)
  show ?case
  proof (cases "conclusive r \<or> cs = []")
    case True
    then show ?thesis
      by (intro exI [of _ 0] exI [of _ "unwrap_or l (snd (snd best))"])
        (use at in \<open>auto simp: loop_step [OF at]\<close>)
  next
    case False
    then obtain k latency where k: "k < length cs"
      "\<forall>j<k. \<not> conclusive (fst (fst (nth_attempt env rl run clk (Suc i) cs g' j)))"
      "conclusive (fst (fst (nth_attempt env rl run clk (Suc i) cs g' k))) \<or> Suc k = length cs"
      "failover_loop env rl run clk (Suc i) cs (c, r, unwrap_or l (snd (snd best))) g' =
        ((cs ! k, fst (fst (nth_attempt env rl run clk (Suc i) cs g' k)), latency), snd (nth_attempt env rl run clk (Suc i) cs g' k))"
      using Cons.IH [of "Suc i" g' "(c, r, unwrap_or l (snd (snd best)))"] by blast
    have "\<forall>j<Suc k. \<not> conclusive (fst (fst (nth_attempt env rl run clk i (c # cs) g j)))"
      using k(2) False at by (auto simp: less_Suc_eq_0_disj)
    with k False at show ?thesis
      by (intro exI [of _ "Suc k"] exI [of _ latency]) (simp add: loop_step [OF at])
  qed
qed simp

text \<open>C2: Failover tries the targets in order, each from the state its predecessor left, and stops at the first
  attempt that succeeds or fails for good (or at the last target); that attempt's target and result are
  what the caller gets, and no later target is contacted.\<close>

theorem failover_first_conclusive:
  assumes "ordered \<noteq> []"
  shows "\<exists>k latency. k < length ordered
    \<and> (\<forall>j<k. \<not> conclusive (fst (fst (nth_attempt env rl run clk 0 ordered g j))))
    \<and> (conclusive (fst (fst (nth_attempt env rl run clk 0 ordered g k))) \<or> Suc k = length ordered)
    \<and> with_failover env rl run clk ordered g =
        (Some (ordered ! k, fst (fst (nth_attempt env rl run clk 0 ordered g k)), latency),
         snd (nth_attempt env rl run clk 0 ordered g k))"
proof -
  let ?best = "(hd ordered, Err NoTargets, 0)"
  have "with_failover env rl run clk ordered g =
      (let (best, g) = failover_loop env rl run clk 0 ordered ?best g in (Some best, g))"
    using assms by (cases ordered) (simp_all add: with_failover_def)
  with loop_decides [OF assms, of env rl run clk 0 g ?best] show ?thesis by fastforce
qed

section \<open>Breakers\<close>

definition breakers_ok :: "'w Gateway \<Rightarrow> bool" where
  "breakers_ok g = (\<forall>k b. gw_circuit_breakers g k = Some b \<longrightarrow> cb_reachable CircuitBreakerConfig_default b)"

lemma reachable_allow: "cb_reachable cfg b \<Longrightarrow> cb_reachable cfg (snd (cb_allow now b))"
  using cb_step [of cfg b "EvAllow now"] by simp

lemma reachable_record: "cb_reachable cfg b \<Longrightarrow> cb_reachable cfg (record_outcome now r b)"
  using cb_step [of cfg b EvSuccess] cb_step [of cfg b "EvFailure now"]
  by (simp add: record_outcome_def split: sum.split ProviderError.split)

lemma candidate_reachable: "breakers_ok g \<Longrightarrow> cb_reachable CircuitBreakerConfig_default (candidate_breaker g c)"
  by (simp add: breakers_ok_def candidate_breaker_def cb_start split: option.split)

lemma latency_breakers [simp]:
  "gw_circuit_breakers (record_attempt_latency rl c l g) = gw_circuit_breakers g"
  "gw_world (record_attempt_latency rl c l g) = gw_world g"
  by (simp_all add: record_attempt_latency_def split: Strategy.split)

text \<open>An attempt changes at most the breaker of its own routing key, the latency store and the world.\<close>

lemma attempt_breakers:
  "k \<noteq> routing_key c \<Longrightarrow> gw_circuit_breakers (snd (attempt env rl run t t' c g)) k = gw_circuit_breakers g k"
  by (auto simp: attempt_def set_breaker_def Let_def split: prod.split option.split sum.split)

lemma attempt_breakers_ok:
  assumes "breakers_ok g"
  shows "breakers_ok (snd (attempt env rl run t t' c g))"
proof -
  have put: "breakers_ok (set_breaker c b h)" if "breakers_ok h" "cb_reachable CircuitBreakerConfig_default b"
    for b and h :: "'a Gateway"
    using that by (simp add: breakers_ok_def set_breaker_def)
  have [simp]: "breakers_ok (record_attempt_latency rl c l h) = breakers_ok h" "breakers_ok (h\<lparr>gw_world := w\<rparr>) = breakers_ok h"
    for l w and h :: "'a Gateway"
    by (simp_all add: breakers_ok_def)
  obtain ok b where eq: "cb_allow t (candidate_breaker g c) = (ok, b)" by force
  then have b: "cb_reachable CircuitBreakerConfig_default b"
    using reachable_allow [OF candidate_reachable [OF assms], of t c] by simp
  show ?thesis
    using assms by (auto simp: attempt_def eq Let_def put b reachable_record [OF b] split: prod.split option.split sum.split)
qed

definition framed :: "'w Gateway \<Rightarrow> 'w Gateway \<Rightarrow> bool" where
  "framed g g' = (gw_config g' = gw_config g \<and> gw_providers g' = gw_providers g
     \<and> gw_provider_registry g' = gw_provider_registry g \<and> gw_plugin_manager g' = gw_plugin_manager g
     \<and> gw_targets g' = gw_targets g \<and> gw_provider_keys g' = gw_provider_keys g
     \<and> gw_rate_limiter g' = gw_rate_limiter g \<and> gw_stores g' = gw_stores g \<and> gw_request_log g' = gw_request_log g
     \<and> gw_response_cache g' = gw_response_cache g \<and> gw_config_history g' = gw_config_history g
     \<and> gw_request_auditor g' = gw_request_auditor g)"

lemma framed_refl: "framed g g"
  by (simp add: framed_def)

lemma framed_updates:
  "framed g h \<Longrightarrow> framed g (h\<lparr>gw_strategy := st\<rparr>)"
  "framed g h \<Longrightarrow> framed g (h\<lparr>gw_circuit_breakers := cbs\<rparr>)"
  "framed g h \<Longrightarrow> framed g (h\<lparr>gw_world := w\<rparr>)"
  by (simp_all add: framed_def)

lemma framed_trans: "framed g h \<Longrightarrow> framed h i \<Longrightarrow> framed g i"
  by (simp add: framed_def)

lemma framed_set_breaker: "framed g h \<Longrightarrow> framed g (set_breaker c b h)"
  unfolding set_breaker_def by (rule framed_updates)

lemma framed_latency: "framed g h \<Longrightarrow> framed g (record_attempt_latency rl c l h)"
  by (simp add: record_attempt_latency_def framed_updates split: Strategy.split)

lemma attempt_framed: "framed g (snd (attempt env rl run t t' c g))"
  by (simp add: attempt_def Let_def framed_refl framed_updates framed_set_breaker framed_latency
      split: prod.split option.split sum.split)

lemma loop_preserves:
  assumes "\<And>i c h. P h \<Longrightarrow> c \<in> set cs \<Longrightarrow> P (snd (attempt env rl run (clk (2 * i)) (clk (2 * i + 1)) c h))" and "P g"
  shows "P (snd (failover_loop env rl run clk i cs best g))"
  using assms
proof (induction cs arbitrary: i best g)
  case (Cons c cs)
  obtain r l g' where at: "attempt env rl run (clk (2 * i)) (clk (2 * i + 1)) c g = ((r, l), g')"
    by (metis prod.exhaust)
  from Cons.prems(1) [OF Cons.prems(2), of c i] at have "P g'" by simp
  with Cons show ?case by (auto simp: loop_step [OF at])
qed simp

lemma failover_preserves:
  assumes "\<And>i c h. P h \<Longrightarrow> c \<in> set cs \<Longrightarrow> P (snd (attempt env rl run (clk (2 * i)) (clk (2 * i + 1)) c h))" and "P g"
  shows "P (snd (with_failover env rl run clk cs g))"
proof (cases cs)
  case (Cons c cs')
  have "P (snd (failover_loop env rl run clk 0 cs (c, Err NoTargets, 0) g))" by (rule loop_preserves [OF assms])
  then show ?thesis by (simp add: with_failover_def Cons case_prod_beta Let_def)
qed (use assms in \<open>simp add: with_failover_def\<close>)

text \<open>Failover moves only the breakers of the endpoints it was given, each through states its state machine
  can reach, and nothing of the gateway's configuration, credentials, limits or records.\<close>

theorem failover_isolates:
  assumes "breakers_ok g" and "with_failover env rl run clk ordered g = (out, g')"
  shows "breakers_ok g' \<and> framed g g'
    \<and> (\<forall>k. k \<notin> routing_key ` set ordered \<longrightarrow> gw_circuit_breakers g' k = gw_circuit_breakers g k)"
proof -
  let ?P = "\<lambda>h. breakers_ok h \<and> framed g h
    \<and> (\<forall>k. k \<notin> routing_key ` set ordered \<longrightarrow> gw_circuit_breakers h k = gw_circuit_breakers g k)"
  have "?P (snd (with_failover env rl run clk ordered g))"
  proof (rule failover_preserves)
    fix i c and h :: "'a Gateway"
    assume h: "?P h" and "c \<in> set ordered"
    then show "?P (snd (attempt env rl run (clk (2 * i)) (clk (2 * i + 1)) c h))"
      using framed_trans [OF _ attempt_framed] attempt_breakers_ok attempt_breakers
      by (metis (no_types, lifting) image_eqI)
  qed (simp add: assms(1) framed_refl)
  then show ?thesis by (simp add: assms(2))
qed

section \<open>Breakers and the upstream\<close>

lemma cb_allow_refused: "\<not> fst (cb_allow now b) \<Longrightarrow> cb_allow now b = (False, b)"
  by (auto simp: cb_allow_def Let_def split: if_splits)

lemma attempt_refused:
  assumes "gw_circuit_breakers g (routing_key c) = Some b" and "\<not> fst (cb_allow t b)"
  shows "attempt env rl run t t' c g = ((Err (CircuitOpen_attempt (tg_provider c)), None), g)"
proof -
  have "set_breaker c b g = g" using assms(1) by (simp add: set_breaker_def fun_upd_idem)
  with assms show ?thesis by (simp add: attempt_def candidate_breaker_def cb_allow_refused)
qed

lemma loop_refused:
  assumes "cs \<noteq> []"
    and "\<forall>k<length cs. \<exists>b. gw_circuit_breakers g (routing_key (cs ! k)) = Some b \<and> \<not> fst (cb_allow (clk (2 * (i + k))) b)"
  shows "failover_loop env rl run clk i cs best g =
    ((last cs, Err (CircuitOpen_attempt (tg_provider (last cs))), snd (snd best)), g)"
  using assms
proof (induction cs arbitrary: i best)
  case (Cons c cs)
  from Cons.prems(2) have "\<exists>b. gw_circuit_breakers g (routing_key c) = Some b \<and> \<not> fst (cb_allow (clk (2 * i)) b)"
    by (force dest: spec [of _ 0])
  then have "attempt env rl run (clk (2 * i)) (clk (2 * i + 1)) c g = ((Err (CircuitOpen_attempt (tg_provider c)), None), g)"
    using attempt_refused by blast
  note step = loop_step [OF this]
  show ?case
  proof (cases "cs = []")
    case False
    moreover have "\<forall>k<length cs. \<exists>b. gw_circuit_breakers g (routing_key (cs ! k)) = Some b \<and> \<not> fst (cb_allow (clk (2 * (Suc i + k))) b)"
      using Cons.prems(2) by (metis Suc_less_eq add_Suc_shift length_Cons nth_Cons_Suc)
    ultimately show ?thesis
      using Cons.IH [of "Suc i"] by (simp add: step conclusive_def unwrap_or_def)
  qed (simp add: step unwrap_or_def)
qed simp

text \<open>When the breaker of every candidate refuses, no provider is contacted and nothing changes: the caller
  gets the open circuit of the last candidate.\<close>

theorem open_breakers_shield:
  assumes "ordered \<noteq> []"
    and "\<forall>k<length ordered. \<exists>b. gw_circuit_breakers g (routing_key (ordered ! k)) = Some b \<and> \<not> fst (cb_allow (clk (2 * k)) b)"
  shows "with_failover env rl run clk ordered g =
    (Some (last ordered, Err (CircuitOpen_attempt (tg_provider (last ordered))), 0), g)"
proof -
  obtain c cs where [simp]: "ordered = c # cs" using assms(1) by (cases ordered) auto
  show ?thesis
    using loop_refused [of ordered g clk 0 env rl run "(c, Err NoTargets, 0)"] assms
    by (simp add: with_failover_def)
qed

lemma framed_key: "framed g h \<Longrightarrow> target_api_key env h c = target_api_key env g c"
  by (simp add: target_api_key_def framed_def cong: option.case_cong)

lemma single_request:
  assumes "gw_providers g (routing_key c) = Some p" and "target_api_key env g c = Ok key"
    and "cb_allow (clk 0) (candidate_breaker g c) = (True, b)"
    and "run p key (gw_world g) = (r, l, w)"
  shows "fst (with_failover env rl run clk [c] g) = Some (c, map_err Provider_attempt r, l)"
    and "gw_circuit_breakers (snd (with_failover env rl run clk [c] g)) =
      (gw_circuit_breakers g)(routing_key c \<mapsto> record_outcome (clk 1) r b)"
proof -
  have key: "target_api_key env (set_breaker c b g) c = Ok key"
    using assms(2) framed_key [OF framed_set_breaker [OF framed_refl]] by metis
  have "attempt env rl run (clk (2 * 0)) (clk (2 * 0 + 1)) c g =
     ((map_err Provider_attempt r, Some l),
      record_attempt_latency rl c l (set_breaker c (record_outcome (clk 1) r b) ((set_breaker c b g)\<lparr>gw_world := w\<rparr>)))"
    using assms(1,3,4) key by (simp add: attempt_def set_breaker_def Let_def)
  from loop_step [OF this] show "fst (with_failover env rl run clk [c] g) = Some (c, map_err Provider_attempt r, l)"
    "gw_circuit_breakers (snd (with_failover env rl run clk [c] g)) =
      (gw_circuit_breakers g)(routing_key c \<mapsto> record_outcome (clk 1) r b)"
    by (simp_all add: with_failover_def unwrap_or_def set_breaker_def)
qed

definition requests ::
    "env_vars \<Rightarrow> bool \<Rightarrow> ('w, 't) operation \<Rightarrow> Target list \<Rightarrow> (nat \<Rightarrow> u64) list \<Rightarrow> 'w Gateway \<Rightarrow> 'w Gateway" where
  "requests env rl run ordered clks g = fold (\<lambda>clk g. snd (with_failover env rl run clk ordered g)) clks g"

lemma requests_framed: "framed g (requests env rl run ordered clks g)"
proof (induction clks arbitrary: g)
  case (Cons clk clks)
  have "framed g (snd (with_failover env rl run clk ordered g))"
    by (rule failover_preserves) (auto intro: framed_refl framed_trans attempt_framed)
  with Cons framed_trans show ?case by (force simp: requests_def)
qed (simp add: requests_def framed_refl)

definition closed_after :: "nat \<Rightarrow> CircuitBreaker \<Rightarrow> bool" where
  "closed_after n b = (cb_config b = CircuitBreakerConfig_default \<and> bi_state (cb_inner b) = STATE_CLOSED
     \<and> bi_failure_count (cb_inner b) = of_nat n)"

lemma closed_after_failure:
  assumes "closed_after n b" and "n < 4"
  shows "closed_after (Suc n) (cb_record_failure now b)"
proof -
  have "n = 0 \<or> n = 1 \<or> n = 2 \<or> n = 3" using assms(2) by auto
  with assms(1) show ?thesis
    by (auto simp: closed_after_def cb_record_failure_def Let_def CircuitBreakerConfig_default_def word_le_nat_alt)
qed

lemma fifth_failure_opens:
  assumes "closed_after 4 b" and "saturating_sub now' now < 30000"
  shows "\<not> fst (cb_allow now' (cb_record_failure now b))"
  using assms
  by (auto simp: closed_after_def cb_record_failure_def cb_allow_def Let_def CircuitBreakerConfig_default_def
      word_le_nat_alt word_less_nat_alt timeout_millis_def from_secs_def as_millis_def STATE_CLOSED_def STATE_OPEN_def STATE_HALF_OPEN_def)



text \<open>A probe that is answered with a rate limit is not recorded, so its slot is never given back: once every
  slot is taken the endpoint is refused at every later time, whatever the provider would answer.\<close>

definition exhausted :: "Target \<Rightarrow> 'w Gateway \<Rightarrow> bool" where
  "exhausted c g = (\<exists>b. gw_circuit_breakers g (routing_key c) = Some b \<and> bi_state (cb_inner b) = STATE_HALF_OPEN
     \<and> half_open_max_calls (cb_config b) \<le> bi_half_open_admitted (cb_inner b))"

lemma exhausted_never_recovers:
  assumes "exhausted c g"
  shows "requests env rl run [c] clks g = g"
    and "with_failover env rl run clk [c] g = (Some (c, Err (CircuitOpen_attempt (tg_provider c)), 0), g)"
proof -
  have refused: "with_failover env rl run clk [c] g = (Some (c, Err (CircuitOpen_attempt (tg_provider c)), 0), g)"
    for clk
    using assms open_breakers_shield [of "[c]" g clk env rl run]
    by (auto simp: exhausted_def cb_allow_def Let_def STATE_CLOSED_def STATE_OPEN_def STATE_HALF_OPEN_def)
  then show "with_failover env rl run clk [c] g = (Some (c, Err (CircuitOpen_attempt (tg_provider c)), 0), g)" .
  show "requests env rl run [c] clks g = g"
    using refused by (induction clks) (simp_all add: requests_def)
qed

lemma rate_limited_probes_exhaust:
  assumes "gw_providers g (routing_key c) = Some p" and "target_api_key env g c = Ok key"
    and "gw_circuit_breakers g (routing_key c) = Some b" and "cb_config b = CircuitBreakerConfig_default"
    and "bi_state (cb_inner b) = STATE_OPEN" and "30000 \<le> saturating_sub (k1 0) (bi_last_failure_time (cb_inner b))"
    and "\<And>w. fst (run p key w) = Err (PE_RateLimited s)"
  shows "exhausted c (requests env rl run [c] [k1, k2, k3] g)"
proof -
  have step: "gw_circuit_breakers (snd (with_failover env rl run k [c] h)) (routing_key c) = Some b'"
    if "framed g h" "cb_allow (k 0) (candidate_breaker h c) = (True, b')" for k h b'
  proof -
    obtain l w where "run p key (gw_world h) = (Err (PE_RateLimited s), l, w)" using assms(7) by (metis prod.collapse)
    moreover have "gw_providers h (routing_key c) = Some p" "target_api_key env h c = Ok key"
      using that(1) assms(1,2) framed_key [OF that(1)] by (simp_all add: framed_def)
    ultimately show ?thesis
      using single_request(2) [of h c p env key k b' run] that(2) by (simp add: record_outcome_def)
  qed
  let ?b1 = "b\<lparr>cb_inner := (cb_inner b)\<lparr>bi_state := STATE_HALF_OPEN, bi_success_count := 0, bi_half_open_admitted := 1\<rparr>\<rparr>"
  let ?b2 = "?b1\<lparr>cb_inner := (cb_inner ?b1)\<lparr>bi_half_open_admitted := 2\<rparr>\<rparr>"
  let ?b3 = "?b1\<lparr>cb_inner := (cb_inner ?b1)\<lparr>bi_half_open_admitted := 3\<rparr>\<rparr>"
  note defs = cb_allow_def Let_def STATE_CLOSED_def STATE_OPEN_def STATE_HALF_OPEN_def timeout_millis_def
    CircuitBreakerConfig_default_def from_secs_def as_millis_def
  have "cb_allow (k1 0) b = (True, ?b1)" using assms(4-6) by (simp add: defs)
  then have 1: "gw_circuit_breakers (requests env rl run [c] [k1] g) (routing_key c) = Some ?b1"
    using step [OF framed_refl] assms(3) by (simp add: requests_def candidate_breaker_def)
  have "cb_allow (k2 0) ?b1 = (True, ?b2)" using assms(4) by (simp add: defs)
  then have 2: "gw_circuit_breakers (requests env rl run [c] [k1, k2] g) (routing_key c) = Some ?b2"
    using step [where h = "requests env rl run [c] [k1] g" and k = k2 and b' = ?b2, OF requests_framed] 1 by (simp add: requests_def candidate_breaker_def)
  have "cb_allow (k3 0) ?b2 = (True, ?b3)" using assms(4) by (simp add: defs)
  then have "gw_circuit_breakers (requests env rl run [c] [k1, k2, k3] g) (routing_key c) = Some ?b3"
    using step [where h = "requests env rl run [c] [k1, k2] g" and k = k3 and b' = ?b3, OF requests_framed] 2 by (simp add: requests_def candidate_breaker_def)
  then show ?thesis using assms(4) by (simp add: exhausted_def CircuitBreakerConfig_default_def)
qed

section \<open>Instances\<close>

definition stub_target :: Target where
  "stub_target = \<lparr>tg_id = None, tg_provider = ''stub-ok'', tg_weight = 1, tg_models = None,
     tg_api_key_env = None, tg_base_url = None\<rparr>"

definition stub_gateway :: "unit Gateway" where
  "stub_gateway = register_provider stub_provider sample_gateway"

definition down :: "(unit, nat) operation" where
  "down p key w = (Err (PE_Network ''down''), 0, w)"

lemma stub_facts:
  "routing_key stub_target = ''stub-ok''" "tg_provider stub_target = ''stub-ok''"
  "gw_providers stub_gateway ''stub-ok'' = Some stub_provider"
  "target_api_key Map.empty stub_gateway stub_target = Ok []"
  "gw_circuit_breakers stub_gateway = Map.empty"
  by (simp_all add: stub_target_def routing_key_def unwrap_or_def stub_gateway_def register_provider_def
      sample_gateway_def set_provider_registry_def stub_provider_def gateway_new_def target_api_key_def Let_def)

theorem failover_first_conclusive_witness:
  "\<exists>r latency. fst (with_failover Map.empty True down (\<lambda>_. 0) [stub_target, stub_target] stub_gateway) =
     Some (stub_target, r, latency)"
  using failover_first_conclusive [of "[stub_target, stub_target]" Map.empty True down "\<lambda>_. 0" stub_gateway]
  by (auto simp: less_Suc_eq_0_disj nth_Cons')

theorem failover_isolates_witness:
  "gw_circuit_breakers (snd (with_failover Map.empty True down (\<lambda>_. 0) [stub_target] stub_gateway)) ''other'' = None
   \<and> gw_config (snd (with_failover Map.empty True down (\<lambda>_. 0) [stub_target] stub_gateway)) = gw_config stub_gateway"
  using failover_isolates [of stub_gateway Map.empty True down "\<lambda>_. 0" "[stub_target]"
      "fst (with_failover Map.empty True down (\<lambda>_. 0) [stub_target] stub_gateway)"
      "snd (with_failover Map.empty True down (\<lambda>_. 0) [stub_target] stub_gateway)"]
  by (auto simp: breakers_ok_def stub_facts framed_def)

definition tripped :: CircuitBreaker where
  "tripped = (cb_new CircuitBreakerConfig_default)\<lparr>cb_inner := \<lparr>bi_state = STATE_OPEN, bi_failure_count = 5,
     bi_success_count = 0, bi_half_open_admitted = 0, bi_last_failure_time = 100\<rparr>\<rparr>"

theorem open_breakers_shield_witness:
  "let g = set_breaker stub_target tripped stub_gateway
   in with_failover Map.empty True down (\<lambda>_. 200) [stub_target] g =
        (Some (stub_target, Err (CircuitOpen_attempt ''stub-ok''), 0), g)"
proof -
  have "\<not> fst (cb_allow 200 tripped)"
    by (simp add: tripped_def cb_allow_def cb_new_def Let_def STATE_CLOSED_def STATE_OPEN_def timeout_millis_def
        CircuitBreakerConfig_default_def from_secs_def as_millis_def saturating_sub_def)
  then show ?thesis
    using open_breakers_shield [of "[stub_target]" "set_breaker stub_target tripped stub_gateway" "\<lambda>_. 200" Map.empty True down]
    by (simp add: Let_def set_breaker_def stub_target_def)
qed


end
