(* ===== verification/Gateway_Route.thy ===== *)
theory Gateway_Route
  imports Failover Request_Plugins
begin

text \<open>
  The request path (\<^verbatim>\<open>himadri/src/gateway/route.rs\<close>): the shared prologue, target selection, the response
  cache, failover, the after-request plugins, the response guardrails and the accounting, in the order the
  code runs them. What a request reads from its surroundings is the record \<open>ambient\<close>.
\<close>

section \<open>Errors as text\<close>

fun show_config_error :: "ConfigError \<Rightarrow> string" where
  "show_config_error (InvalidStrategy s) = ''invalid strategy mode: '' @ s"
| "show_config_error (MissingField s) = ''missing required field: '' @ s"
| "show_config_error (InvalidValue field reason) = ''invalid value for '' @ field @ '': '' @ reason"
| "show_config_error (Io s) = ''io error: '' @ s"
| "show_config_error (Parse s) = ''parse error: '' @ s"

fun show_gateway_error :: "GatewayError \<Rightarrow> string" where
  "show_gateway_error (ProviderNotFound s) = ''provider not found: '' @ s"
| "show_gateway_error (CircuitOpen s) = ''circuit breaker open for provider: '' @ s"
| "show_gateway_error (RateLimited _) = ''rate limited''"
| "show_gateway_error (QuotaExceeded s) = ''quota exceeded: '' @ s"
| "show_gateway_error Unauthorized = ''unauthorized''"
| "show_gateway_error (Forbidden s) = ''forbidden: '' @ s"
| "show_gateway_error (NotFound s) = ''not found: '' @ s"
| "show_gateway_error (BadRequest s) = ''bad request: '' @ s"
| "show_gateway_error (Provider s) = ''provider error: '' @ s"
| "show_gateway_error (Config_error e) = ''config error: '' @ show_config_error e"
| "show_gateway_error (Internal s) = ''internal error: '' @ s"
| "show_gateway_error (ServiceUnavailable s) = ''service unavailable: '' @ s"

fun show_plugin_error :: "PluginError \<Rightarrow> string" where
  "show_plugin_error (Rejected name reason _) = ''plugin '' @ name @ '' rejected request: '' @ reason"
| "show_plugin_error (Internal_plugin s) = ''plugin error: '' @ s"

fun map_plugin_error :: "PluginError \<Rightarrow> GatewayError" where
  "map_plugin_error (Rejected name reason (RateLimited_kind retry_after_secs)) = RateLimited retry_after_secs"
| "map_plugin_error (Rejected name reason BudgetExceeded) = QuotaExceeded reason"
| "map_plugin_error (Rejected name reason Forbidden_kind) = Forbidden reason"
| "map_plugin_error (Rejected name reason BadRequest_kind) =
     BadRequest (show_plugin_error (Rejected name reason BadRequest_kind))"
| "map_plugin_error (Internal_plugin s) = Internal (show_plugin_error (Internal_plugin s))"

section \<open>Prologue and selection\<close>

record ambient =
  ab_env :: env_vars
  ab_hash :: "string \<Rightarrow> u64"
  ab_lower :: "string \<Rightarrow> string"
  ab_rng :: "nat \<Rightarrow> rat \<Rightarrow> rat"
  ab_digest :: "json \<Rightarrow> string"
  ab_limit_clock :: "nat \<Rightarrow> u64"
  ab_breaker_clock :: "nat \<Rightarrow> u64"
  ab_request_id :: string
  ab_error_id :: string
  ab_stamp :: stamp

definition prepare_request ::
    "ambient \<Rightarrow> ChatCompletionRequest \<Rightarrow> AuthContext option \<Rightarrow> string option \<Rightarrow> 'w Gateway \<Rightarrow>
     (GatewayError, PluginContext) result \<times> 'w Gateway" where
  "prepare_request am request auth remote_ip g =
     (let config = gw_config g;
          (ok, rl) = check_rate_limits (ab_hash am) (ab_limit_clock am) auth config (gw_rate_limiter g);
          g = g\<lparr>gw_rate_limiter := rl\<rparr>
      in case ok of Err e \<Rightarrow> (Err e, g) | Ok _ \<Rightarrow>
         case check_token_budgets auth config request of Err e \<Rightarrow> (Err e, g) | Ok _ \<Rightarrow>
         case check_org_guardrails (ab_lower am) auth config request of Err e \<Rightarrow> (Err e, g) | Ok _ \<Rightarrow>
         case check_rbac_model auth config (cr_model request) of Err e \<Rightarrow> (Err e, g) | Ok _ \<Rightarrow>
         (let ctx = (from_request (ab_request_id am) request auth)\<lparr>ctx_remote_ip := remote_ip\<rparr>
          in case run_before (gw_plugin_manager g) ctx (gw_world g) of
               (Err e, _, w) \<Rightarrow> (Err (map_plugin_error e), g\<lparr>gw_world := w\<rparr>)
             | (Ok _, ctx, w) \<Rightarrow> (Ok ctx, g\<lparr>gw_world := w\<rparr>)))"

definition select_targets ::
    "ambient \<Rightarrow> ChatCompletionRequest \<Rightarrow> AuthContext option \<Rightarrow> 'w Gateway \<Rightarrow> (GatewayError, Target list) result" where
  "select_targets am request auth g =
     (let eligible = filter (\<lambda>t. target_serves_model t (cr_model request)) (gw_targets g)
      in if eligible = []
         then Err (NotFound (''No provider is configured to serve model '' @ quoted (cr_model request)))
         else case select_ordered (ab_lower am) (ab_rng am) (gw_strategy g) request eligible of
                Err e \<Rightarrow> Err e
              | Ok ordered \<Rightarrow> filter_targets_by_rbac auth (gw_config g) ordered)"

section \<open>Cache and dispatch\<close>

definition scoped_key :: "ambient \<Rightarrow> ChatCompletionRequest \<Rightarrow> AuthContext option \<Rightarrow> string" where
  "scoped_key am request auth =
     cache_key (ab_digest am) request (Option.bind auth au_org_id) (Option.bind auth au_team_id)"

definition bump_metrics :: "(Metrics \<Rightarrow> Metrics) \<Rightarrow> 'w Gateway \<Rightarrow> 'w Gateway" where
  "bump_metrics f g = g\<lparr>gw_stores := (gw_stores g)\<lparr>st_metrics := f (st_metrics (gw_stores g))\<rparr>\<rparr>"

definition cache_lookup ::
    "ambient \<Rightarrow> ChatCompletionRequest \<Rightarrow> AuthContext option \<Rightarrow> 'w Gateway \<Rightarrow> ChatCompletionResponse option \<times> 'w Gateway" where
  "cache_lookup am request auth g =
     (if cr_stream request then (None, g)
      else case gw_response_cache g of
             None \<Rightarrow> (None, g)
           | Some cache \<Rightarrow>
               (case rc_get cache (scoped_key am request auth) (gw_world g) of
                  (Some cached, w) \<Rightarrow>
                    (Some cached, bump_metrics (\<lambda>m. m\<lparr>mt_cache_hits_total := mt_cache_hits_total m + 1\<rparr>) (g\<lparr>gw_world := w\<rparr>))
                | (None, w) \<Rightarrow>
                    (None, bump_metrics (\<lambda>m. m\<lparr>mt_cache_misses_total := mt_cache_misses_total m + 1\<rparr>) (g\<lparr>gw_world := w\<rparr>))))"

fun flatten_attempt :: "AttemptError \<Rightarrow> ProviderError" where
  "flatten_attempt (Provider_attempt e) = e"
| "flatten_attempt (CircuitOpen_attempt p) = PE_Api 503 (''Circuit breaker open for provider '' @ p)"
| "flatten_attempt (ProviderNotFound_attempt p) = PE_Api 503 (''Provider not found: '' @ p)"
| "flatten_attempt (ApiKey e) = PE_Api 503 (show_gateway_error e)"
| "flatten_attempt NoTargets = PE_Internal ''No targets attempted''"

definition cache_target :: Target where
  "cache_target = \<lparr>tg_id = None, tg_provider = ''cache'', tg_weight = 1, tg_models = None, tg_api_key_env = None,
     tg_base_url = None\<rparr>"

definition dispatch ::
    "ambient \<Rightarrow> ChatCompletionRequest \<Rightarrow> AuthContext option \<Rightarrow> 'w Gateway \<Rightarrow>
     (GatewayError, Target \<times> (ProviderError, ChatCompletionResponse) result \<times> u64) result \<times> 'w Gateway" where
  "dispatch am request auth g =
     (case select_targets am request auth g of
        Err e \<Rightarrow> (Err e, g)
      | Ok ordered \<Rightarrow>
          (case with_failover (ab_env am) True (\<lambda>provider api_key. pv_complete provider request api_key)
                  (ab_breaker_clock am) ordered g of
             (None, g) \<Rightarrow> (Err (Internal ''No targets configured''), g)
           | (Some (target, result, latency), g) \<Rightarrow>
               (Ok (target, map_err flatten_attempt result, of_nat (as_millis latency)), g)))"

section \<open>The handler\<close>

definition request_event ::
    "AuthContext option \<Rightarrow> string \<Rightarrow> string \<Rightarrow> ChatCompletionRequest \<Rightarrow> string option \<Rightarrow> u64 \<Rightarrow> u32 \<times> u32 \<times> u32 \<Rightarrow>
     AuditStatus \<Rightarrow> string option \<Rightarrow> string list \<Rightarrow> RequestEvent" where
  "request_event auth rid provider request text latency_ms toks status err actions =
     \<lparr>ev_auth = auth, ev_request_id = rid, ev_provider = provider, ev_model = cr_model request,
      ev_messages = audit_messages request, ev_response_text = text, ev_latency_ms = latency_ms,
      ev_tokens_prompt = fst toks, ev_tokens_completion = fst (snd toks), ev_tokens_total = snd (snd toks),
      ev_status = status, ev_error = err, ev_guardrail_actions = actions, ev_stream = cr_stream request,
      ev_api_key_id = Option.bind auth au_key_id\<rparr>"

definition audit_request :: "ambient \<Rightarrow> RequestEvent \<Rightarrow> 'w Gateway \<Rightarrow> 'w Gateway" where
  "audit_request am ev g = g\<lparr>gw_stores := record_full (ab_stamp am) (gw_request_auditor g) ev (gw_stores g)\<rparr>"

definition after_context ::
    "Target \<Rightarrow> (ProviderError, ChatCompletionResponse) result \<Rightarrow> u64 \<Rightarrow> PluginContext \<Rightarrow> PluginContext" where
  "after_context target result latency_ms ctx =
     (let ctx = set_latency (from_millis (unat latency_ms)) (set_provider (tg_provider target) ctx)
      in case result of
           Err _ \<Rightarrow> ctx
         | Ok response \<Rightarrow>
             set_response response
               (case cp_usage response of Some usage \<Rightarrow> set_tokens (total_tokens usage) ctx | None \<Rightarrow> ctx))"

definition cache_store ::
    "ambient \<Rightarrow> ChatCompletionRequest \<Rightarrow> AuthContext option \<Rightarrow> (ProviderError, ChatCompletionResponse) result \<Rightarrow>
     'w Gateway \<Rightarrow> 'w Gateway" where
  "cache_store am request auth result g =
     (if cr_stream request then g
      else case (gw_response_cache g, result) of
             (Some cache, Ok response) \<Rightarrow>
               g\<lparr>gw_world := rc_insert cache (scoped_key am request auth) response (gw_world g)\<rparr>
           | _ \<Rightarrow> g)"

text \<open>The common end of a request no guardrail stopped: accounting, cache, error mapping.\<close>

definition settle ::
    "ambient \<Rightarrow> ChatCompletionRequest \<Rightarrow> AuthContext option \<Rightarrow> PluginContext \<Rightarrow> Target \<Rightarrow>
     (ProviderError, ChatCompletionResponse) result \<Rightarrow> u64 \<Rightarrow> string list \<Rightarrow> 'w Gateway \<Rightarrow>
     (GatewayError, ChatCompletionResponse) result \<times> 'w Gateway" where
  "settle am request auth ctx target result latency_ms actions g =
     (let (status, text, toks, err) =
        (case result of
           Ok response \<Rightarrow> (Success_status, extract_response_text response, usage_triple (cp_usage response), None)
         | Err e \<Rightarrow> (Error_status, None, (0, 0, 0), Some (show_provider_error e)));
          g = audit_request am (request_event auth (ctx_request_id ctx) (tg_provider target) request text latency_ms
                toks status err actions) g;
          g = cache_store am request auth result g
      in (map_err gateway_error_of result, g))"

definition conclude ::
    "ambient \<Rightarrow> ChatCompletionRequest \<Rightarrow> AuthContext option \<Rightarrow> PluginContext \<Rightarrow> Target \<Rightarrow>
     (ProviderError, ChatCompletionResponse) result \<Rightarrow> u64 \<Rightarrow> 'w Gateway \<Rightarrow>
     (GatewayError, ChatCompletionResponse) result \<times> 'w Gateway" where
  "conclude am request auth ctx target result latency_ms g =
     (let (ctx, w) = run_after (gw_plugin_manager g) (after_context target result latency_ms ctx) (gw_world g);
          g = g\<lparr>gw_world := w\<rparr>
      in case (case result of Ok response \<Rightarrow> map_option (Pair response) (extract_response_text response) | Err _ \<Rightarrow> None) of
           None \<Rightarrow> settle am request auth ctx target result latency_ms [] g
         | Some (response, content) \<Rightarrow>
             (let (action, w) = run_response_guardrails (gw_plugin_manager g) ctx content (gw_world g);
                  g = g\<lparr>gw_world := w\<rparr>
              in case action of
                   Ok Allow \<Rightarrow> settle am request auth ctx target result latency_ms [] g
                 | Ok (Reject reason) \<Rightarrow>
                     (Err (BadRequest (''Response blocked by guardrail: '' @ reason)),
                      audit_request am (request_event auth (ctx_request_id ctx) (tg_provider target) request None latency_ms
                        (0, 0, 0) Error_status (Some (''Guardrail rejected: '' @ reason)) [''reject: '' @ reason]) g)
                 | Ok (Redact redacted) \<Rightarrow>
                     (let redacted_response = redact_response_text redacted response
                      in (Ok redacted_response,
                          audit_request am (request_event auth (ctx_request_id ctx) (tg_provider target) request
                            (extract_response_text redacted_response) latency_ms (usage_triple (cp_usage response))
                            Success_status None [''redact'']) g))
                 | Err e \<Rightarrow> settle am request auth ctx target result latency_ms [''error: '' @ show_plugin_error e] g))"

definition route ::
    "ambient \<Rightarrow> ChatCompletionRequest \<Rightarrow> AuthContext option \<Rightarrow> string option \<Rightarrow> 'w Gateway \<Rightarrow>
     (GatewayError, ChatCompletionResponse) result \<times> 'w Gateway" where
  "route am request auth remote_ip g =
     (case prepare_request am request auth remote_ip g of
        (Err e, g) \<Rightarrow>
          (Err e, audit_request am (request_event auth (ab_error_id am) [] request None 0 (0, 0, 0) Error_status
             (Some (show_gateway_error e)) [''reject'']) g)
      | (Ok ctx, g) \<Rightarrow>
          (let request = ctx_request ctx;
               (cached, g) = cache_lookup am request auth g;
               (fetched, g) =
                 (case cached of
                    Some response \<Rightarrow> (Ok (cache_target, Ok response, 0), g)
                  | None \<Rightarrow> dispatch am request auth g)
           in case fetched of
                Err e \<Rightarrow> (Err e, g)
              | Ok (target, result, latency_ms) \<Rightarrow> conclude am request auth ctx target result latency_ms g))"

section \<open>What each step leaves alone\<close>

lemma prepare_frame:
  assumes "prepare_request am request auth ip g = (r, g')"
  shows "gw_stores g' = gw_stores g" "gw_circuit_breakers g' = gw_circuit_breakers g" "gw_strategy g' = gw_strategy g"
    "gw_plugin_manager g' = gw_plugin_manager g" "gw_targets g' = gw_targets g" "gw_config g' = gw_config g"
    "gw_request_auditor g' = gw_request_auditor g" "gw_providers g' = gw_providers g"
  using assms unfolding prepare_request_def Let_def
  by (auto split: prod.splits sum.splits)

lemma cache_lookup_frame:
  assumes "cache_lookup am request auth g = (r, g')"
  shows "st_usage_store (gw_stores g') = st_usage_store (gw_stores g)" "st_audit_log (gw_stores g') = st_audit_log (gw_stores g)"
    "gw_circuit_breakers g' = gw_circuit_breakers g" "gw_strategy g' = gw_strategy g"
    "gw_plugin_manager g' = gw_plugin_manager g" "gw_targets g' = gw_targets g" "gw_config g' = gw_config g"
  using assms unfolding cache_lookup_def bump_metrics_def
  by (auto split: prod.splits option.splits if_splits)

lemma with_failover_framed: "framed g (snd (with_failover env rl run clk ordered g))"
  by (rule failover_preserves) (auto intro: framed_refl framed_trans attempt_framed)

lemma with_failover_None: "with_failover env rl run clk cs g = (None, h) \<Longrightarrow> h = g"
  by (cases cs) (auto simp: with_failover_def case_prod_beta Let_def)

lemma dispatch_frame:
  assumes "dispatch am request auth g = (r, g')"
  shows "framed g g'" and "r = Err e \<Longrightarrow> gw_circuit_breakers g' = gw_circuit_breakers g"
proof -
  let ?run = "\<lambda>provider api_key. pv_complete provider request api_key"
  have "framed g g' \<and> (\<forall>e. r = Err e \<longrightarrow> gw_circuit_breakers g' = gw_circuit_breakers g)"
  proof (cases "select_targets am request auth g")
    case (Inl e)
    then show ?thesis using assms by (auto simp: dispatch_def framed_refl)
  next
    case (Inr ordered)
    obtain out h where wf: "with_failover (ab_env am) True ?run (ab_breaker_clock am) ordered g = (out, h)" by force
    have "framed g h" using with_failover_framed [of g "ab_env am" True ?run "ab_breaker_clock am" ordered] wf by simp
    with assms wf Inr show ?thesis
      by (cases out) (auto simp: dispatch_def dest: with_failover_None)
  qed
  then show "framed g g'" "r = Err e \<Longrightarrow> gw_circuit_breakers g' = gw_circuit_breakers g" by blast+
qed

text \<open>A call of the auditor: one audit event and one usage record, marked by whether there was an error.\<close>

definition accounted :: "AuthContext option \<Rightarrow> bool \<Rightarrow> 'w Gateway \<Rightarrow> 'w Gateway \<Rightarrow> bool" where
  "accounted auth success g g' =
     ((\<exists>u. st_usage_store (gw_stores g') = usage_record u (st_usage_store (gw_stores g))
          \<and> ur_success u = success \<and> ur_api_key_id u = Option.bind auth au_key_id)
      \<and> (\<exists>e. st_audit_log (gw_stores g') = audit_log e (st_audit_log (gw_stores g))
          \<and> (ae_error e = None) = success \<and> ae_org_id e = Option.bind auth au_org_id))"

lemma record_full_usage:
  "\<exists>u. st_usage_store (record_full sm la ev st) = usage_record u (st_usage_store st)
     \<and> ur_api_key_id u = ev_api_key_id ev \<and> ur_success u = (ev_error ev = None)"
proof -
  have "\<exists>u. st_usage_store (record_usage sm r p m k a b c d e st') = usage_record u (st_usage_store st)
      \<and> ur_api_key_id u = k \<and> ur_success u = (e = None)"
    if "st_usage_store st' = st_usage_store st" for r p m k a b c d e st'
    using record_usage_records [of sm r p m k a b c d e st'] that by auto
  then show ?thesis by (simp add: record_full_def Let_def)
qed

lemma audit_request_accounted:
  "accounted auth (err = None) g
     (audit_request am (request_event auth rid provider request text lat toks status err actions) g)"
proof -
  let ?ev = "request_event auth rid provider request text lat toks status err actions"
  have "ev_api_key_id ?ev = Option.bind auth au_key_id" "ev_error ?ev = err"
    by (simp_all add: request_event_def)
  then have "\<exists>u. st_usage_store (record_full (ab_stamp am) (gw_request_auditor g) ?ev (gw_stores g)) =
        usage_record u (st_usage_store (gw_stores g))
      \<and> ur_success u = (err = None) \<and> ur_api_key_id u = Option.bind auth au_key_id"
    using record_full_usage [of "ab_stamp am" "gw_request_auditor g" ?ev "gw_stores g"] by metis
  moreover have "\<exists>e. st_audit_log (record_full (ab_stamp am) (gw_request_auditor g) ?ev (gw_stores g)) =
        audit_log e (st_audit_log (gw_stores g))
      \<and> (ae_error e = None) = (err = None) \<and> ae_org_id e = Option.bind auth au_org_id"
    by (simp add: record_full_def Let_def request_event_def, intro exI conjI, rule refl, simp_all)
  ultimately show ?thesis by (simp add: accounted_def audit_request_def)
qed

lemma accounted_frame:
  assumes "accounted auth ok h h'"
    and "st_usage_store (gw_stores h) = st_usage_store (gw_stores g)" "st_audit_log (gw_stores h) = st_audit_log (gw_stores g)"
    and "st_usage_store (gw_stores g') = st_usage_store (gw_stores h')" "st_audit_log (gw_stores g') = st_audit_log (gw_stores h')"
  shows "accounted auth ok g g'"
  using assms by (simp add: accounted_def)

lemma cache_store_stores [simp]: "gw_stores (cache_store am request auth result g) = gw_stores g"
  by (simp add: cache_store_def split: option.split sum.split)

lemmas accounted_error = audit_request_accounted [where err = "Some e" for e, simplified]
lemmas accounted_success = audit_request_accounted [where err = None, simplified]

lemma accounted_cache_store [simp]: "accounted auth ok g (cache_store am request auth' result h) = accounted auth ok g h"
  by (simp add: accounted_def)

lemma accounted_world [simp]: "accounted auth ok (g\<lparr>gw_world := w\<rparr>) h = accounted auth ok g h"
  by (simp add: accounted_def)

lemmas accounted_world_error = accounted_error [where g = "g\<lparr>gw_world := w\<rparr>" for g w, unfolded accounted_world]
lemmas accounted_world_success = accounted_success [where g = "g\<lparr>gw_world := w\<rparr>" for g w, unfolded accounted_world]

lemma settle_accounted:
  assumes "settle am request auth ctx target result lat actions g = (r, g')"
  shows "accounted auth (is_ok r) g g'"
  using assms
  by (cases result) (auto simp: settle_def map_err_def is_ok_def Let_def case_prod_beta accounted_error accounted_success)

lemma conclude_accounted:
  assumes "conclude am request auth ctx target result lat g = (r, g')"
  shows "accounted auth (is_ok r) g g'"
proof -
  have settled: "accounted auth (is_ok r) g g'"
    if "settle am request auth ctx' target result lat actions (g\<lparr>gw_world := w\<rparr>) = (r, g')" for ctx' actions w
    using settle_accounted [OF that] by simp
  obtain ctx' w where after: "run_after (gw_plugin_manager g) (after_context target result lat ctx) (gw_world g) = (ctx', w)"
    by force
  show ?thesis
  proof (cases "case result of Ok response \<Rightarrow> map_option (Pair response) (extract_response_text response) | Err _ \<Rightarrow> None")
    case None
    then show ?thesis using assms settled by (simp add: conclude_def after)
  next
    case (Some rc)
    obtain response content where rc: "rc = (response, content)" by force
    obtain action w' where guard: "run_response_guardrails (gw_plugin_manager g) ctx' content w = (action, w')" by force
    show ?thesis
      using assms Some rc guard settled
      by (auto simp: conclude_def after Let_def is_ok_def accounted_world_error accounted_world_success
          split: sum.splits ResponseAction.splits)
  qed
qed

lemma route_outcome:
  assumes "route am request auth ip g = (r, g')"
  shows "accounted auth (is_ok r) g g' \<or>
    \<not> is_ok r \<and> gw_circuit_breakers g' = gw_circuit_breakers g
      \<and> st_usage_store (gw_stores g') = st_usage_store (gw_stores g) \<and> st_audit_log (gw_stores g') = st_audit_log (gw_stores g)"
proof -
  obtain pr g1 where prep: "prepare_request am request auth ip g = (pr, g1)" by force
  note f1 = prepare_frame [OF prep]
  show ?thesis
  proof (cases pr)
    case (Inl e)
    then have "accounted auth (is_ok r) g1 g'"
      using assms by (auto simp: route_def prep is_ok_def accounted_error)
    then show ?thesis by (simp add: accounted_def f1)
  next
    case (Inr ctx)
    obtain cached g2 where look: "cache_lookup am (ctx_request ctx) auth g1 = (cached, g2)" by force
    note f2 = cache_lookup_frame [OF look]
    have done_at: ?thesis if "accounted auth (is_ok r) h g'" "gw_stores h = gw_stores g2" for h :: "'a Gateway"
      using that f1 f2 by (simp add: accounted_def)
    show ?thesis
    proof (cases cached)
      case (Some response)
      then have "conclude am (ctx_request ctx) auth ctx cache_target (Ok response) 0 g2 = (r, g')"
        using assms by (simp add: route_def prep Inr look)
      from done_at [OF conclude_accounted [OF this]] show ?thesis by simp
    next
      case None
      obtain fetched g3 where disp: "dispatch am (ctx_request ctx) auth g2 = (fetched, g3)" by force
      note f3 = dispatch_frame [OF disp]
      have stores: "gw_stores g3 = gw_stores g2" using f3(1) by (simp add: framed_def)
      show ?thesis
      proof (cases fetched)
        case (Inl e)
        then have "r = Err e" "g' = g3" using assms by (auto simp: route_def prep Inr look None disp)
        then show ?thesis using f3(2) [OF Inl] stores f1 f2 by (simp add: is_ok_def)
      next
        case (Inr out)
        obtain target result lat where "out = (target, result, lat)" using prod_cases3 by blast
        then have "conclude am (ctx_request ctx) auth ctx target result lat g3 = (r, g')"
          using assms \<open>pr = Ok ctx\<close> Inr by (simp add: route_def prep look None disp)
        from done_at [OF conclude_accounted [OF this] stores] show ?thesis .
      qed
    qed
  qed
qed


section \<open>Mediation\<close>

lemma prepare_Ok:
  assumes "prepare_request am request auth ip g = (Ok ctx, g')"
  shows "fst (check_rate_limits (ab_hash am) (ab_limit_clock am) auth (gw_config g) (gw_rate_limiter g)) = Ok ()"
    and "check_token_budgets auth (gw_config g) request = Ok ()"
    and "check_org_guardrails (ab_lower am) auth (gw_config g) request = Ok ()"
    and "check_rbac_model auth (gw_config g) (cr_model request) = Ok ()"
    and "fst (run_before (gw_plugin_manager g)
           ((from_request (ab_request_id am) request auth)\<lparr>ctx_remote_ip := ip\<rparr>) (gw_world g)) = Ok ()"
  using assms unfolding prepare_request_def Let_def
  by (auto split: prod.splits sum.splits)

lemma route_Ok_prepared:
  assumes "route am request auth ip g = (Ok resp, g')"
  obtains ctx g1 where "prepare_request am request auth ip g = (Ok ctx, g1)"
  using assms by (cases "fst (prepare_request am request auth ip g)") (auto simp: route_def split: prod.splits)

text \<open>C7: A caller gets a response only if the request passed every check of the prologue: the rate limits, the token
  caps and guardrails of its organisation and team, the model grant of its roles, and every before-request
  plugin.\<close>

theorem route_mediates:
  assumes "route am request auth ip g = (Ok resp, g')"
  shows "fst (check_rate_limits (ab_hash am) (ab_limit_clock am) auth (gw_config g) (gw_rate_limiter g)) = Ok ()
    \<and> check_token_budgets auth (gw_config g) request = Ok ()
    \<and> check_org_guardrails (ab_lower am) auth (gw_config g) request = Ok ()
    \<and> check_rbac_model auth (gw_config g) (cr_model request) = Ok ()
    \<and> fst (run_before (gw_plugin_manager g)
        ((from_request (ab_request_id am) request auth)\<lparr>ctx_remote_ip := ip\<rparr>) (gw_world g)) = Ok ()"
  using route_Ok_prepared [OF assms] prepare_Ok by metis

section \<open>Targets\<close>

lemma rbac_filter_checked:
  assumes "filter_targets_by_rbac auth config ordered = Ok ts"
  shows "set ts \<subseteq> set ordered"
    and "rb_enabled (cfg_rbac config) \<Longrightarrow> \<not> snd (principal_of auth) \<Longrightarrow> t \<in> set ts \<Longrightarrow>
      is_ok (check_provider (cfg_rbac config) (fst (principal_of auth)) False (tg_provider t))"
  using assms unfolding filter_targets_by_rbac_def Let_def
  by (auto simp: rbac_filter_kept case_prod_beta split: if_splits)

lemma select_ordered_subset:
  assumes "select_ordered lower rng strat request targets = Ok ts"
  shows "set ts \<subseteq> set targets \<union> strategy_targets strat"
proof (cases "strat = Single_strategy")
  case True
  with assms show ?thesis using dedup_from_subset [of "{}" "[hd targets]"]
    by (cases targets) (auto simp: select_ordered_def order_targets_def dedup_targets_def split: if_splits)
next
  case False
  with assms order_targets_set [of targets strat lower rng request] dedup_from_subset [of "{}" "order_targets lower rng strat request targets"]
  show ?thesis by (auto simp: select_ordered_def dedup_targets_def split: if_splits)
qed

lemma select_targets_sound:
  assumes "select_targets am request auth g = Ok ts" and "t \<in> set ts"
  shows "t \<in> set (gw_targets g) \<and> target_serves_model t (cr_model request) \<or> t \<in> strategy_targets (gw_strategy g)"
    and "rb_enabled (cfg_rbac (gw_config g)) \<Longrightarrow> \<not> snd (principal_of auth) \<Longrightarrow>
      is_ok (check_provider (cfg_rbac (gw_config g)) (fst (principal_of auth)) False (tg_provider t))"
proof -
  let ?eligible = "filter (\<lambda>t. target_serves_model t (cr_model request)) (gw_targets g)"
  obtain ordered where o: "select_ordered (ab_lower am) (ab_rng am) (gw_strategy g) request ?eligible = Ok ordered"
    "filter_targets_by_rbac auth (gw_config g) ordered = Ok ts"
    using assms(1) by (auto simp: select_targets_def Let_def split: if_splits sum.splits)
  show "t \<in> set (gw_targets g) \<and> target_serves_model t (cr_model request) \<or> t \<in> strategy_targets (gw_strategy g)"
    using select_ordered_subset [OF o(1)] rbac_filter_checked(1) [OF o(2)] assms(2) by auto
  show "rb_enabled (cfg_rbac (gw_config g)) \<Longrightarrow> \<not> snd (principal_of auth) \<Longrightarrow>
      is_ok (check_provider (cfg_rbac (gw_config g)) (fst (principal_of auth)) False (tg_provider t))"
    using rbac_filter_checked(2) [OF o(2)] assms(2) by blast
qed

lemma failover_target_listed:
  assumes "with_failover env rl run clk cs g = (Some (t, r, l), h)"
  shows "t \<in> set cs"
proof -
  have ne: "cs \<noteq> []" using assms by (auto simp: with_failover_def)
  then obtain k where k: "k < length cs" "fst (fst (failover_loop env rl run clk 0 cs (hd cs, Err NoTargets, 0) g)) = cs ! k"
    using loop_decides [OF ne, of env rl run clk 0 g "(hd cs, Err NoTargets, 0)"] by (metis fst_conv)
  have "t = fst (fst (failover_loop env rl run clk 0 cs (hd cs, Err NoTargets, 0) g))"
    using assms ne by (cases cs) (auto simp: with_failover_def split: prod.splits)
  with k show ?thesis by simp
qed


section \<open>Guardrails\<close>

lemma settle_Ok: "settle am request auth ctx target result lat actions g = (Ok resp, g') \<Longrightarrow> result = Ok resp"
  by (auto simp: settle_def map_err_def Let_def case_prod_beta split: sum.splits)

text \<open>A response in which every choice has the redacted text.\<close>

definition redacted_to :: "string \<Rightarrow> ChatCompletionResponse \<Rightarrow> bool" where
  "redacted_to t resp = (map (\<lambda>c. rm_content (ch_message c)) (cp_choices resp) = replicate (length (cp_choices resp)) (Some t))"

lemma redacted_to_redact: "redacted_to t (redact_response_text t r)"
  by (simp add: redacted_to_def redact_response_text_def map_replicate_const comp_def)

lemma conclude_guarded:
  assumes "conclude am request auth ctx target result lat g = (Ok resp, g')"
    and guard: "\<And>ctx c w. fst (run_response_guardrails (gw_plugin_manager g) ctx c w) = Ok (verdict c)"
    and "extract_response_text resp = Some content"
  shows "verdict content = Allow \<or> (\<exists>c t. verdict c = Redact t \<and> redacted_to t resp)"
proof -
  obtain ctx' w where after: "run_after (gw_plugin_manager g) (after_context target result lat ctx) (gw_world g) = (ctx', w)"
    by force
  obtain response where res: "result = Ok response"
    using assms(1) after by (cases result) (auto simp: conclude_def dest: settle_Ok)
  show ?thesis
  proof (cases "extract_response_text response")
    case None
    then show ?thesis using assms(1,3) after res by (auto simp: conclude_def dest: settle_Ok)
  next
    case (Some c)
    obtain action w' where run: "run_response_guardrails (gw_plugin_manager g) ctx' c w = (action, w')" by force
    with guard [of ctx' c w] have act: "action = Ok (verdict c)" by simp
    show ?thesis
    proof (cases "verdict c")
      case Allow
      then have "response = resp" using assms(1) after res Some run act by (auto simp: conclude_def dest: settle_Ok)
      with Some assms(3) Allow show ?thesis by simp
    next
      case (Redact t)
      then have "resp = redact_response_text t response" using assms(1) after res Some run act by (simp add: conclude_def Let_def)
      with Redact redacted_to_redact [of t response] show ?thesis by auto
    next
      case (Reject why)
      then show ?thesis using assms(1) after res Some run act by (simp add: conclude_def)
    qed
  qed
qed

lemma route_verdict:
  assumes "route am request auth ip g = (Ok resp, g')"
    and "\<And>ctx c w. fst (run_response_guardrails (gw_plugin_manager g) ctx c w) = Ok (verdict c)"
    and "extract_response_text resp = Some content"
  shows "verdict content = Allow \<or> (\<exists>c t. verdict c = Redact t \<and> redacted_to t resp)"
proof -
  obtain ctx g1 where prep: "prepare_request am request auth ip g = (Ok ctx, g1)" using route_Ok_prepared [OF assms(1)] .
  obtain cached g2 where look: "cache_lookup am (ctx_request ctx) auth g1 = (cached, g2)" by force
  have pm: "gw_plugin_manager g2 = gw_plugin_manager g"
    by (simp add: prepare_frame [OF prep] cache_lookup_frame [OF look])
  have "\<exists>target result lat h. conclude am (ctx_request ctx) auth ctx target result lat h = (Ok resp, g')
      \<and> gw_plugin_manager h = gw_plugin_manager g2"
  proof (cases cached)
    case (Some response)
    then have "conclude am (ctx_request ctx) auth ctx cache_target (Ok response) 0 g2 = (Ok resp, g')"
      using assms(1) by (simp add: route_def prep look)
    then show ?thesis by blast
  next
    case None
    obtain fetched g3 where disp: "dispatch am (ctx_request ctx) auth g2 = (fetched, g3)" by force
    then obtain target result lat where "fetched = Ok (target, result, lat)"
      using assms(1) by (cases fetched) (auto simp: route_def prep look None)
    then have "conclude am (ctx_request ctx) auth ctx target result lat g3 = (Ok resp, g')"
      using assms(1) by (simp add: route_def prep look None disp)
    moreover have "gw_plugin_manager g3 = gw_plugin_manager g2" using dispatch_frame(1) [OF disp] by (simp add: framed_def)
    ultimately show ?thesis by blast
  qed
  then show ?thesis using conclude_guarded [where verdict = verdict] assms(2,3) pm by metis
qed


text \<open>A plugin's rejection reaches the client with the status that fits its kind: 429 for rate limits and
  exhausted budgets, 403 for missing grants, 400 for bad content; only a plugin's own failure is a 500.\<close>

theorem plugin_rejection_status:
  "status_code (map_plugin_error e) =
     (case e of
        Rejected _ _ (RateLimited_kind _) \<Rightarrow> 429 | Rejected _ _ BudgetExceeded \<Rightarrow> 429
      | Rejected _ _ Forbidden_kind \<Rightarrow> 403 | Rejected _ _ BadRequest_kind \<Rightarrow> 400
      | Internal_plugin _ \<Rightarrow> 500)"
  by (cases e rule: map_plugin_error.cases) simp_all

lemma infrastructure_failures_unavailable:
  "status_code (gateway_error_of (flatten_attempt (CircuitOpen_attempt p))) = 503"
  "status_code (gateway_error_of (flatten_attempt (ProviderNotFound_attempt p))) = 503"
  "status_code (gateway_error_of (flatten_attempt (ApiKey e))) = 503"
  by simp_all

text \<open>A response with several choices loses its structure when it is redacted: the guardrail sees the
  concatenation of all choices and its replacement is written into each of them.\<close>

lemma redaction_repeats_text:
  assumes "extract_response_text r = Some text"
  shows "extract_response_text (redact_response_text t r) = Some (concat (replicate (length (cp_choices r)) t))"
proof -
  have "cp_choices r \<noteq> []" using assms by (auto simp: extract_response_text_def List.map_filter_def)
  then show ?thesis by (simp add: extract_redacted)
qed

section \<open>Instances\<close>

definition demo_response :: ChatCompletionResponse where
  "demo_response = \<lparr>cp_id = ''r1'', cp_object = ''chat.completion'', cp_created = 0, cp_model = ''m'',
     cp_choices = [\<lparr>ch_index = 0, ch_message = \<lparr>rm_role = Assistant, rm_content = Some ''hello'', rm_tool_calls = None\<rparr>,
                    ch_finish_reason = Some ''stop''\<rparr>],
     cp_usage = Some \<lparr>prompt_tokens = 3, completion_tokens = 2, total_tokens = 5\<rparr>, cp_system_fingerprint = None\<rparr>"

definition echo_provider :: "unit Provider" where
  "echo_provider = \<lparr>pv_name = ''stub-ok'', pv_complete = (\<lambda>r k w. (Ok demo_response, from_millis 7, w)),
     pv_complete_stream = (\<lambda>r k w. (Ok [], 0, w)), pv_embed = embed_unsupported ''stub-ok''\<rparr>"

definition no_bad :: "unit ResponseGuardrail" where
  "no_bad = \<lparr>rg_name = ''no-bad'', rg_check_response = (\<lambda>ctx text w. (Ok (if text = ''bad'' then Reject ''bad text'' else Allow), w))\<rparr>"

definition demo_manager :: "unit PluginManager" where
  "demo_manager = pm_register_response_guardrail no_bad pm_new"

definition demo_gateway :: "unit Gateway" where
  "demo_gateway = set_plugin_manager demo_manager (register_provider echo_provider
     (gateway_new sample_wiring (Config_default\<lparr>cfg_targets := [stub_target]\<rparr>) metrics_new))"

definition demo_ambient :: ambient where
  "demo_ambient = \<lparr>ab_env = Map.empty, ab_hash = (\<lambda>_. 0), ab_lower = to_ascii_lowercase, ab_rng = (\<lambda>_ _. 0),
     ab_digest = (\<lambda>_. []), ab_limit_clock = (\<lambda>_. 0), ab_breaker_clock = (\<lambda>_. 0), ab_request_id = ''q1'',
     ab_error_id = ''q2'', ab_stamp = \<lparr>sm_now = 0, sm_uuid = (\<lambda>_. ''u'')\<rparr>\<rparr>"

definition demo_request :: ChatCompletionRequest where
  "demo_request = ChatCompletionRequest_default\<lparr>cr_model := ''m'', cr_messages := [message_user ''hi'']\<rparr>"

lemma demo_facts:
  "gw_targets demo_gateway = [stub_target]" "gw_strategy demo_gateway = Single_strategy"
  "gw_circuit_breakers demo_gateway = Map.empty" "gw_providers demo_gateway ''stub-ok'' = Some echo_provider"
  "gw_plugin_manager demo_gateway = demo_manager" "gw_response_cache demo_gateway = None"
  "gw_config demo_gateway = Config_default\<lparr>cfg_targets := [stub_target]\<rparr>"
  "target_api_key Map.empty demo_gateway stub_target = Ok []"
  by (simp_all add: demo_gateway_def set_plugin_manager_def register_provider_def gateway_new_def Let_def echo_provider_def Config_default_def
      StrategyConfig_default_def from_strategy_config_def target_api_key_def stub_target_def routing_key_def)

lemma demo_ambient_facts:
  "ab_env demo_ambient = Map.empty" "ab_breaker_clock demo_ambient = (\<lambda>_. 0)" "ab_request_id demo_ambient = ''q1''"
  by (simp_all add: demo_ambient_def)

lemma demo_manager_facts:
  "run_before demo_manager ctx w = (Ok (), ctx, w)" "run_after demo_manager ctx w = (ctx, w)"
  "run_response_guardrails demo_manager ctx text w = (Ok (if text = ''bad'' then Reject ''bad text'' else Allow), w)"
  by (simp_all add: run_before_def run_after_def run_response_guardrails_def demo_manager_def
      pm_register_response_guardrail_def pm_new_def no_bad_def)

lemma demo_text: "extract_response_text demo_response = Some ''hello''"
  by (simp add: extract_response_text_def demo_response_def List.map_filter_def)

lemma demo_select: "select_targets demo_ambient demo_request None demo_gateway = Ok [stub_target]"
  by (simp add: select_targets_def demo_facts target_serves_model_def select_ordered_def order_targets_def
      dedup_targets_def filter_targets_by_rbac_def Config_default_def stub_target_def Let_def)

lemma demo_failover:
  "fst (with_failover Map.empty True (\<lambda>provider api_key. pv_complete provider demo_request api_key) (\<lambda>_. 0)
     [stub_target] demo_gateway) = Some (stub_target, Ok demo_response, from_millis 7)"
proof -
  have "cb_allow 0 (candidate_breaker demo_gateway stub_target) = (True, cb_new CircuitBreakerConfig_default)"
    by (simp add: candidate_breaker_def demo_facts cb_allow_def cb_new_def)
  then show ?thesis
    using single_request(1) [of demo_gateway stub_target echo_provider Map.empty "[]" "\<lambda>_. 0" _
        "\<lambda>provider api_key. pv_complete provider demo_request api_key" "Ok demo_response" "from_millis 7" "()"]
    by (simp add: demo_facts stub_facts echo_provider_def map_err_def)
qed

lemma demo_dispatch: "fst (dispatch demo_ambient demo_request None demo_gateway) = Ok (stub_target, Ok demo_response, 7)"
  using demo_failover
  by (auto simp: dispatch_def demo_select demo_ambient_facts map_err_def from_millis_def as_millis_def
      split: prod.splits option.splits)

lemma demo_prepare: "prepare_request demo_ambient demo_request None None demo_gateway = (Ok (from_request ''q1'' demo_request None), demo_gateway)"
  by (simp add: prepare_request_def check_rate_limits_def demo_facts Config_default_def RateLimitSettings_default_def Let_def
      check_token_budgets_def demo_request_def ChatCompletionRequest_default_def check_org_guardrails_def check_rbac_model_def
      demo_manager_facts from_request_def demo_ambient_facts)

lemma demo_route: "fst (route demo_ambient demo_request None None demo_gateway) = Ok demo_response"
proof -
  have look: "cache_lookup demo_ambient demo_request None demo_gateway = (None, demo_gateway)"
    by (simp add: cache_lookup_def demo_facts)
  obtain h where disp: "dispatch demo_ambient demo_request None demo_gateway = (Ok (stub_target, Ok demo_response, 7), h)"
    using demo_dispatch by (metis prod.collapse)
  have "gw_plugin_manager h = demo_manager" using dispatch_frame(1) [OF disp] by (simp add: framed_def demo_facts)
  then show ?thesis
    by (simp add: route_def demo_prepare from_request_def look disp conclude_def demo_manager_facts demo_text
        settle_def map_err_def Let_def case_prod_beta)
qed


theorem route_mediates_witness:
  "check_rbac_model None (gw_config demo_gateway) ''m'' = Ok ()"
proof -
  have "route demo_ambient demo_request None None demo_gateway =
      (Ok demo_response, snd (route demo_ambient demo_request None None demo_gateway))"
    using demo_route by (metis prod.collapse)
  from route_mediates [OF this] show ?thesis by (simp add: demo_request_def)
qed



end
