(* ===== verification/Gateway_Stream.thy ===== *)
theory Gateway_Stream
  imports Gateway_Route
begin

text \<open>
  The streaming path (\<^verbatim>\<open>himadri/src/gateway/stream.rs\<close>): opening a stream through failover, and the wrapper
  that passes the chunks on, collects the text for the guardrails and records the usage once, at the end of
  the stream or when the client drops it. A provider's stream is the list of its items; the client is a
  number of polls followed by the drop. The guardrail task spawned at the end runs at once.
\<close>

section \<open>Recorder\<close>

record StreamUsageRecorder =
  sr_auditor :: LiveRequestAuditor
  sr_provider :: string
  sr_model :: string
  sr_api_key_id :: "string option"
  sr_usage :: "Usage option"
  sr_error :: "string option"
  sr_recorded :: bool

definition observe_chunk :: "StreamChunk \<Rightarrow> StreamUsageRecorder \<Rightarrow> StreamUsageRecorder" where
  "observe_chunk chunk r = (case sk_usage chunk of Some usage \<Rightarrow> r\<lparr>sr_usage := Some usage\<rparr> | None \<Rightarrow> r)"

definition observe_error :: "ProviderError \<Rightarrow> StreamUsageRecorder \<Rightarrow> StreamUsageRecorder" where
  "observe_error e r = r\<lparr>sr_error := Some (show_provider_error e)\<rparr>"

definition recorder_finish ::
    "stamp \<Rightarrow> u64 \<Rightarrow> StreamUsageRecorder \<Rightarrow> 'w Gateway \<Rightarrow> StreamUsageRecorder \<times> 'w Gateway" where
  "recorder_finish sm elapsed_ms r g =
     (if sr_recorded r then (r, g)
      else (r\<lparr>sr_recorded := True\<rparr>,
            g\<lparr>gw_stores := record_accounting sm (sr_auditor r)
                 \<lparr>ao_provider = sr_provider r, ao_model = sr_model r, ao_api_key_id = sr_api_key_id r,
                  ao_usage = sr_usage r, ao_error = sr_error r, ao_latency_ms = elapsed_ms\<rparr> (gw_stores g)\<rparr>))"

section \<open>Guardrail stream\<close>

definition DEFAULT_STREAM_BUFFER_LIMIT :: nat where
  "DEFAULT_STREAM_BUFFER_LIMIT = 1024 * 1024"

record 'w GuardrailStream =
  gs_inner :: chunk_stream
  gs_buffer :: string
  gs_buffer_limit :: nat
  gs_plugin_manager :: "'w PluginManager"
  gs_request :: ChatCompletionRequest
  gs_auth :: "AuthContext option"
  gs_guardrails_ran :: bool
  gs_recorder :: StreamUsageRecorder

definition wrap_stream_with_guardrails ::
    "chunk_stream \<Rightarrow> 'w PluginManager \<Rightarrow> ChatCompletionRequest \<Rightarrow> AuthContext option \<Rightarrow> StreamUsageRecorder \<Rightarrow>
     'w GuardrailStream" where
  "wrap_stream_with_guardrails stream plugin_manager request auth recorder =
     \<lparr>gs_inner = stream, gs_buffer = [], gs_buffer_limit = DEFAULT_STREAM_BUFFER_LIMIT,
      gs_plugin_manager = plugin_manager, gs_request = request, gs_auth = auth, gs_guardrails_ran = False, gs_recorder = recorder\<rparr>"

definition chunk_text :: "StreamChunk \<Rightarrow> string" where
  "chunk_text chunk = concat (List.map_filter (\<lambda>c. dl_content (sc_delta c)) (sk_choices chunk))"

definition poll_next ::
    "stamp \<Rightarrow> u64 \<Rightarrow> string \<Rightarrow> 'w GuardrailStream \<Rightarrow> 'w Gateway \<Rightarrow>
     (ProviderError, StreamChunk) result option \<times> 'w GuardrailStream \<times> 'w Gateway" where
  "poll_next sm elapsed_ms uuid s g =
     (case gs_inner s of
        Ok chunk # rest \<Rightarrow>
          (Some (Ok chunk),
           s\<lparr>gs_inner := rest, gs_recorder := observe_chunk chunk (gs_recorder s),
             gs_buffer := (if length (gs_buffer s) < gs_buffer_limit s then gs_buffer s @ chunk_text chunk else gs_buffer s)\<rparr>, g)
      | Err e # rest \<Rightarrow>
          (Some (Err e), s\<lparr>gs_inner := rest, gs_recorder := observe_error e (gs_recorder s)\<rparr>, g)
      | [] \<Rightarrow>
          (let (r, g) = recorder_finish sm elapsed_ms (gs_recorder s) g; s = s\<lparr>gs_recorder := r\<rparr>
           in if gs_buffer s \<noteq> [] \<and> \<not> gs_guardrails_ran s
              then (None, s\<lparr>gs_guardrails_ran := True\<rparr>,
                    g\<lparr>gw_world := snd (run_response_guardrails (gs_plugin_manager s)
                         (from_request uuid (gs_request s) (gs_auth s)) (gs_buffer s) (gw_world g))\<rparr>)
              else (None, s, g)))"

definition stream_drop :: "stamp \<Rightarrow> u64 \<Rightarrow> 'w GuardrailStream \<Rightarrow> 'w Gateway \<Rightarrow> 'w Gateway" where
  "stream_drop sm elapsed_ms s g = snd (recorder_finish sm elapsed_ms (gs_recorder s) g)"

text \<open>A client that polls \<open>n\<close> times and then drops the stream.\<close>

fun consume ::
    "stamp \<Rightarrow> (nat \<Rightarrow> u64) \<Rightarrow> string \<Rightarrow> nat \<Rightarrow> 'w GuardrailStream \<Rightarrow> 'w Gateway \<Rightarrow>
     (ProviderError, StreamChunk) result list \<times> 'w Gateway" where
  "consume sm elapsed uuid 0 s g = ([], stream_drop sm (elapsed 0) s g)"
| "consume sm elapsed uuid (Suc n) s g =
     (case poll_next sm (elapsed (Suc n)) uuid s g of
        (item, s', g') \<Rightarrow>
          (let (items, g'') = consume sm elapsed uuid n s' g'
           in (case item of Some x \<Rightarrow> x # items | None \<Rightarrow> items, g'')))"

section \<open>The handler\<close>

fun stream_error :: "AttemptError \<Rightarrow> GatewayError" where
  "stream_error (Provider_attempt e) = gateway_error_of e"
| "stream_error (CircuitOpen_attempt p) = CircuitOpen p"
| "stream_error (ProviderNotFound_attempt p) = ProviderNotFound p"
| "stream_error (ApiKey e) = e"
| "stream_error NoTargets = Internal ''No targets produced a stream''"

definition stream_audit_event ::
    "ambient \<Rightarrow> PluginContext \<Rightarrow> AuthContext option \<Rightarrow> ChatCompletionRequest \<Rightarrow> Target \<Rightarrow> AuditEvent" where
  "stream_audit_event am ctx auth request target =
     \<lparr>ae_request_id = ctx_request_id ctx, ae_timestamp = sm_now (ab_stamp am),
      ae_org_id = Option.bind auth au_org_id, ae_team_id = Option.bind auth au_team_id,
      ae_user_id = Option.bind auth au_user_id, ae_key_id = Option.bind auth au_key_id, ae_model = cr_model request,
      ae_provider = Some (tg_provider target), ae_messages = audit_messages request, ae_response = None,
      ae_latency_ms = 0, ae_tokens_prompt = None, ae_tokens_completion = None, ae_tokens_total = None,
      ae_status = Success_status, ae_error = None, ae_guardrail_actions = [], ae_stream = True\<rparr>"

definition route_stream ::
    "ambient \<Rightarrow> ChatCompletionRequest \<Rightarrow> AuthContext option \<Rightarrow> string option \<Rightarrow> 'w Gateway \<Rightarrow>
     (GatewayError, 'w GuardrailStream) result \<times> 'w Gateway" where
  "route_stream am request auth remote_ip g =
     (case prepare_request am request auth remote_ip g of
        (Err e, g) \<Rightarrow> (Err e, g)
      | (Ok ctx, g) \<Rightarrow>
          (let request = ctx_request ctx
           in case select_targets am request auth g of
                Err e \<Rightarrow> (Err e, g)
              | Ok ordered \<Rightarrow>
                  (case with_failover (ab_env am) False (\<lambda>provider api_key. pv_complete_stream provider request api_key)
                          (ab_breaker_clock am) ordered g of
                     (None, g) \<Rightarrow> (Err (Internal ''No targets configured''), g)
                   | (Some (target, Err e, _), g) \<Rightarrow> (Err (stream_error e), g)
                   | (Some (target, Ok stream, _), g) \<Rightarrow>
                       (let g = g\<lparr>gw_stores := (gw_stores g)\<lparr>st_audit_log :=
                                  audit_log (stream_audit_event am ctx auth request target) (st_audit_log (gw_stores g))\<rparr>\<rparr>;
                            recorder = \<lparr>sr_auditor = gw_request_auditor g, sr_provider = tg_provider target, sr_model = cr_model request,
                                        sr_api_key_id = Option.bind auth au_key_id, sr_usage = None, sr_error = None,
                                        sr_recorded = False\<rparr>
                        in (Ok (wrap_stream_with_guardrails stream (gw_plugin_manager g) request auth recorder), g)))))"

section \<open>Delivery and accounting\<close>

definition last_usage :: "Usage option \<Rightarrow> chunk_stream \<Rightarrow> Usage option" where
  "last_usage u items =
     fold (\<lambda>item u. case item of Ok chunk \<Rightarrow> or_else (sk_usage chunk) u | Err _ \<Rightarrow> u) items u"

definition last_error :: "string option \<Rightarrow> chunk_stream \<Rightarrow> string option" where
  "last_error e items = fold (\<lambda>item e. case item of Ok _ \<Rightarrow> e | Err err \<Rightarrow> Some (show_provider_error err)) items e"

definition stream_outcome :: "StreamUsageRecorder \<Rightarrow> chunk_stream \<Rightarrow> u64 \<Rightarrow> AccountOutcome" where
  "stream_outcome r items lat =
     \<lparr>ao_provider = sr_provider r, ao_model = sr_model r, ao_api_key_id = sr_api_key_id r,
      ao_usage = last_usage (sr_usage r) items, ao_error = last_error (sr_error r) items, ao_latency_ms = lat\<rparr>"

text \<open>What the wrapper keeps of the text: it stops adding once the limit is reached.\<close>

fun kept_text :: "nat \<Rightarrow> string \<Rightarrow> chunk_stream \<Rightarrow> string" where
  "kept_text limit b [] = b"
| "kept_text limit b (Ok chunk # items) = kept_text limit (if length b < limit then b @ chunk_text chunk else b) items"
| "kept_text limit b (Err e # items) = kept_text limit b items"

definition full_text :: "chunk_stream \<Rightarrow> string" where
  "full_text items = concat (map (\<lambda>item. case item of Ok chunk \<Rightarrow> chunk_text chunk | Err _ \<Rightarrow> []) items)"

lemma full_text_simps [simp]:
  "full_text [] = []" "full_text (Ok chunk # items) = chunk_text chunk @ full_text items"
  "full_text (Err e # items) = full_text items"
  by (simp_all add: full_text_def)

lemma last_simps [simp]:
  "last_usage u [] = u" "last_usage u (Ok chunk # items) = last_usage (or_else (sk_usage chunk) u) items"
  "last_usage u (Err e # items) = last_usage u items"
  "last_error x [] = x" "last_error x (Ok chunk # items) = last_error x items"
  "last_error x (Err e # items) = last_error (Some (show_provider_error e)) items"
  by (simp_all add: last_usage_def last_error_def)

lemma kept_text_full: "length b + length (full_text items) \<le> limit \<Longrightarrow> kept_text limit b items = b @ full_text items"
  by (induction limit b items rule: kept_text.induct)
    (auto simp: not_less simp flip: length_0_conv)

lemma kept_text_stuck: "limit \<le> length b \<Longrightarrow> kept_text limit b items = b"
  by (induction limit b items rule: kept_text.induct) auto

lemma kept_text_prefix: "\<exists>rest. b @ full_text items = kept_text limit b items @ rest"
proof (induction limit b items rule: kept_text.induct)
  case (2 limit b chunk items)
  then show ?case by (cases "length b < limit") (auto simp: kept_text_stuck)
qed auto

lemma observe_chunk_fields [simp]:
  "sr_auditor (observe_chunk c r) = sr_auditor r" "sr_provider (observe_chunk c r) = sr_provider r"
  "sr_model (observe_chunk c r) = sr_model r" "sr_api_key_id (observe_chunk c r) = sr_api_key_id r"
  "sr_usage (observe_chunk c r) = or_else (sk_usage c) (sr_usage r)" "sr_error (observe_chunk c r) = sr_error r"
  "sr_recorded (observe_chunk c r) = sr_recorded r"
  by (simp_all add: observe_chunk_def or_else_def split: option.split)

lemma finish_recorded [simp]: "sr_recorded r \<Longrightarrow> recorder_finish sm lat r g = (r, g)"
  by (simp add: recorder_finish_def)

text \<open>The poll that finds the provider's stream at its end.\<close>

definition end_world :: "string \<Rightarrow> 'w GuardrailStream \<Rightarrow> 'w \<Rightarrow> 'w" where
  "end_world uuid s w =
     (if gs_buffer s \<noteq> [] \<and> \<not> gs_guardrails_ran s
      then snd (run_response_guardrails (gs_plugin_manager s) (from_request uuid (gs_request s) (gs_auth s)) (gs_buffer s) w)
      else w)"

lemma poll_end:
  assumes "gs_inner s = []"
  shows "fst (poll_next sm lat uuid s g) = None" "gs_inner (fst (snd (poll_next sm lat uuid s g))) = []"
    "sr_recorded (gs_recorder (fst (snd (poll_next sm lat uuid s g))))"
    "gw_stores (snd (snd (poll_next sm lat uuid s g))) = gw_stores (snd (recorder_finish sm lat (gs_recorder s) g))"
    "gw_world (snd (snd (poll_next sm lat uuid s g))) = end_world uuid s (gw_world g)"
    "end_world uuid (fst (snd (poll_next sm lat uuid s g))) w = w"
  using assms by (simp_all add: poll_next_def recorder_finish_def Let_def end_world_def case_prod_beta)

lemma consume_after_end:
  assumes "gs_inner s = []" and "sr_recorded (gs_recorder s)" and "\<And>w. end_world uuid s w = w"
  shows "fst (consume sm elapsed uuid n s g) = [] \<and> gw_stores (snd (consume sm elapsed uuid n s g)) = gw_stores g
    \<and> gw_world (snd (consume sm elapsed uuid n s g)) = gw_world g"
  using assms
proof (induction n arbitrary: s g)
  case (Suc n)
  note p = poll_end [OF Suc.prems(1), where sm = sm and lat = "elapsed (Suc n)" and uuid = uuid]
  show ?case using Suc.IH [OF p(2,3,6), of g] Suc.prems p(1,4,5) [of g] by (simp add: case_prod_beta Let_def)
qed (simp add: stream_drop_def)

definition seen :: "nat \<Rightarrow> 'w GuardrailStream \<Rightarrow> 'w GuardrailStream" where
  "seen n s = s\<lparr>gs_buffer := kept_text (gs_buffer_limit s) (gs_buffer s) (take n (gs_inner s))\<rparr>"

lemma consume_stream:
  assumes "\<not> sr_recorded (gs_recorder s)"
  shows "fst (consume sm elapsed uuid n s g) = take n (gs_inner s)
    \<and> (\<exists>lat. gw_stores (snd (consume sm elapsed uuid n s g)) =
         record_accounting sm (sr_auditor (gs_recorder s)) (stream_outcome (gs_recorder s) (take n (gs_inner s)) lat) (gw_stores g))
    \<and> gw_world (snd (consume sm elapsed uuid n s g)) =
        (if length (gs_inner s) < n then end_world uuid (seen n s) (gw_world g) else gw_world g)"
  using assms
proof (induction n arbitrary: s)
  case 0
  then show ?case by (auto simp: stream_drop_def recorder_finish_def stream_outcome_def)
next
  case (Suc n)
  show ?case
  proof (cases "gs_inner s")
    case Nil
    note p = poll_end [OF Nil, where sm = sm and lat = "elapsed (Suc n)" and uuid = uuid and g = g]
    have "seen (Suc n) s = s" using Nil by (simp add: seen_def)
    moreover have "\<exists>lat. gw_stores (snd (snd (poll_next sm (elapsed (Suc n)) uuid s g))) =
        record_accounting sm (sr_auditor (gs_recorder s)) (stream_outcome (gs_recorder s) [] lat) (gw_stores g)"
      using Suc.prems p(4) by (auto simp: recorder_finish_def stream_outcome_def)
    ultimately show ?thesis
      using p(1,5) Nil consume_after_end [OF p(2,3,6)] by (simp add: case_prod_beta Let_def)
  next
    case (Cons item rest)
    show ?thesis
    proof (cases item)
      case (Inl e)
      with Cons Suc.prems Suc.IH [of "s\<lparr>gs_inner := rest, gs_recorder := observe_error e (gs_recorder s)\<rparr>"]
      show ?thesis
        by (simp add: poll_next_def case_prod_beta Let_def observe_error_def stream_outcome_def end_world_def seen_def)
    next
      case (Inr chunk)
      with Cons Suc.prems Suc.IH [of "s\<lparr>gs_inner := rest, gs_recorder := observe_chunk chunk (gs_recorder s),
             gs_buffer := (if length (gs_buffer s) < gs_buffer_limit s then gs_buffer s @ chunk_text chunk else gs_buffer s)\<rparr>"]
      show ?thesis
        by (simp add: poll_next_def case_prod_beta Let_def stream_outcome_def end_world_def seen_def)
    qed
  qed
qed

section \<open>Opening a stream\<close>

lemma route_stream_Ok:
  assumes "route_stream am request auth ip g = (Ok s, g')"
  obtains ctx h ordered target stream lat h' where "prepare_request am request auth ip g = (Ok ctx, h)"
    "select_targets am (ctx_request ctx) auth h = Ok ordered"
    "with_failover (ab_env am) False (\<lambda>provider api_key. pv_complete_stream provider (ctx_request ctx) api_key)
       (ab_breaker_clock am) ordered h = (Some (target, Ok stream, lat), h')"
    "s = wrap_stream_with_guardrails stream (gw_plugin_manager h') (ctx_request ctx) auth
       \<lparr>sr_auditor = gw_request_auditor h', sr_provider = tg_provider target, sr_model = cr_model (ctx_request ctx),
        sr_api_key_id = Option.bind auth au_key_id, sr_usage = None, sr_error = None, sr_recorded = False\<rparr>"
    "gw_stores g' = (gw_stores h')\<lparr>st_audit_log :=
       audit_log (stream_audit_event am ctx auth (ctx_request ctx) target) (st_audit_log (gw_stores h'))\<rparr>"
    "gw_world g' = gw_world h'"
  using assms unfolding route_stream_def Let_def
  by (auto split: prod.splits sum.splits option.splits)

text \<open>C6: A stream that was opened is passed on item by item, unchanged and in order, and is charged exactly once: however
  often the client polls before it drops the stream, even past its end, the usage store and the request log
  get one entry for the provider and model that opened it, with the last usage and the last error among the
  items the client took.\<close>

theorem stream_charged_once:
  assumes "route_stream am request auth ip g = (Ok s, g')"
  shows "fst (consume sm elapsed uuid n s g') = take n (gs_inner s)
    \<and> (\<exists>lat. gw_stores (snd (consume sm elapsed uuid n s g')) =
         record_accounting sm (gw_request_auditor g)
           \<lparr>ao_provider = sr_provider (gs_recorder s), ao_model = cr_model (gs_request s),
            ao_api_key_id = Option.bind auth au_key_id, ao_usage = last_usage None (take n (gs_inner s)),
            ao_error = last_error None (take n (gs_inner s)), ao_latency_ms = lat\<rparr> (gw_stores g'))"
proof -
  from assms obtain ctx h ordered target stream lat h' where
    o: "prepare_request am request auth ip g = (Ok ctx, h)"
      "with_failover (ab_env am) False (\<lambda>provider api_key. pv_complete_stream provider (ctx_request ctx) api_key)
         (ab_breaker_clock am) ordered h = (Some (target, Ok stream, lat), h')"
      "s = wrap_stream_with_guardrails stream (gw_plugin_manager h') (ctx_request ctx) auth
         \<lparr>sr_auditor = gw_request_auditor h', sr_provider = tg_provider target, sr_model = cr_model (ctx_request ctx),
          sr_api_key_id = Option.bind auth au_key_id, sr_usage = None, sr_error = None, sr_recorded = False\<rparr>"
    by (rule route_stream_Ok)
  have "framed h h'" using with_failover_framed [of h "ab_env am" False _ "ab_breaker_clock am" ordered] o(2) by (metis snd_conv)
  then have "gw_request_auditor h' = gw_request_auditor g" using prepare_frame(7) [OF o(1)] by (simp add: framed_def)
  then show ?thesis
    using consume_stream [of s sm elapsed uuid n g'] o(3)
    by (simp add: wrap_stream_with_guardrails_def stream_outcome_def)
qed

text \<open>The response guardrails run once over a stream the client consumed to its end: over the text of all its chunks
  when that fits the buffer (one mebibyte), and never over a stream the client dropped early. Whatever they decide,
  the client has received every item.\<close>

theorem stream_guardrails_post_hoc:
  assumes "route_stream am request auth ip g = (Ok s, g')"
    and "length (full_text (gs_inner s)) \<le> DEFAULT_STREAM_BUFFER_LIMIT"
  shows "fst (consume sm elapsed uuid n s g') = take n (gs_inner s)
    \<and> gw_world (snd (consume sm elapsed uuid n s g')) =
        (if length (gs_inner s) < n \<and> full_text (gs_inner s) \<noteq> []
         then snd (run_response_guardrails (gw_plugin_manager g) (from_request uuid (gs_request s) auth)
                     (full_text (gs_inner s)) (gw_world g'))
         else gw_world g')"
proof -
  from assms(1) obtain ctx h ordered target stream lat h' where
    o: "prepare_request am request auth ip g = (Ok ctx, h)"
      "with_failover (ab_env am) False (\<lambda>provider api_key. pv_complete_stream provider (ctx_request ctx) api_key)
         (ab_breaker_clock am) ordered h = (Some (target, Ok stream, lat), h')"
      "s = wrap_stream_with_guardrails stream (gw_plugin_manager h') (ctx_request ctx) auth
         \<lparr>sr_auditor = gw_request_auditor h', sr_provider = tg_provider target, sr_model = cr_model (ctx_request ctx),
          sr_api_key_id = Option.bind auth au_key_id, sr_usage = None, sr_error = None, sr_recorded = False\<rparr>"
    by (rule route_stream_Ok)
  have "framed h h'" using with_failover_framed [of h "ab_env am" False _ "ab_breaker_clock am" ordered] o(2) by (metis snd_conv)
  then have pm: "gw_plugin_manager h' = gw_plugin_manager g" using prepare_frame(4) [OF o(1)] by (simp add: framed_def)
  have "kept_text DEFAULT_STREAM_BUFFER_LIMIT [] stream = full_text stream"
    using assms(2) o(3) kept_text_full [of "[]" stream] by (simp add: wrap_stream_with_guardrails_def)
  then show ?thesis
    using consume_stream [of s sm elapsed uuid n g'] o(3) pm
    by (simp add: wrap_stream_with_guardrails_def end_world_def seen_def)
qed

text \<open>A stream is opened only for a request that passed every check of the prologue, and only on a target the
  selection offers.\<close>

theorem stream_mediates:
  assumes "route_stream am request auth ip g = (Ok s, g')"
  shows "fst (check_rate_limits (ab_hash am) (ab_limit_clock am) auth (gw_config g) (gw_rate_limiter g)) = Ok ()
    \<and> check_token_budgets auth (gw_config g) request = Ok ()
    \<and> check_org_guardrails (ab_lower am) auth (gw_config g) request = Ok ()
    \<and> check_rbac_model auth (gw_config g) (cr_model request) = Ok ()
    \<and> fst (run_before (gw_plugin_manager g)
        ((from_request (ab_request_id am) request auth)\<lparr>ctx_remote_ip := ip\<rparr>) (gw_world g)) = Ok ()"
  using route_stream_Ok [OF assms] prepare_Ok by metis

section \<open>Worked example\<close>

definition demo_chunk :: "string \<Rightarrow> Usage option \<Rightarrow> StreamChunk" where
  "demo_chunk text usage = \<lparr>sk_id = ''c1'', sk_object = ''chat.completion.chunk'', sk_created = 0, sk_model = ''m'',
     sk_choices = [\<lparr>sc_index = 0, sc_delta = \<lparr>dl_role = None, dl_content = Some text, dl_tool_calls = None\<rparr>,
                    sc_finish_reason = None\<rparr>], sk_usage = usage, sk_system_fingerprint = None\<rparr>"

definition demo_items :: chunk_stream where
  "demo_items = [Ok (demo_chunk ''hel'' None),
     Ok (demo_chunk ''lo'' (Some \<lparr>prompt_tokens = 7, completion_tokens = 5, total_tokens = 12\<rparr>))]"

definition stream_provider :: "unit Provider" where
  "stream_provider = echo_provider\<lparr>pv_complete_stream := (\<lambda>r k w. (Ok demo_items, 0, w))\<rparr>"

definition stream_gateway :: "unit Gateway" where
  "stream_gateway = register_provider stream_provider demo_gateway"

lemma stream_facts:
  "gw_targets stream_gateway = [stub_target]" "gw_strategy stream_gateway = Single_strategy"
  "gw_circuit_breakers stream_gateway = Map.empty" "gw_providers stream_gateway ''stub-ok'' = Some stream_provider"
  "gw_plugin_manager stream_gateway = demo_manager" "gw_config stream_gateway = Config_default\<lparr>cfg_targets := [stub_target]\<rparr>"
  "target_api_key Map.empty stream_gateway stub_target = Ok []"
  using demo_facts
  by (simp_all add: stream_gateway_def register_provider_def stream_provider_def echo_provider_def target_api_key_def stub_target_def routing_key_def)

lemma stream_select: "select_targets demo_ambient demo_request None stream_gateway = Ok [stub_target]"
  by (simp add: select_targets_def stream_facts target_serves_model_def select_ordered_def order_targets_def
      dedup_targets_def filter_targets_by_rbac_def Config_default_def stub_target_def Let_def)

lemma stream_prepare:
  "prepare_request demo_ambient demo_request None None stream_gateway = (Ok (from_request ''q1'' demo_request None), stream_gateway)"
  by (simp add: prepare_request_def check_rate_limits_def stream_facts Config_default_def RateLimitSettings_default_def Let_def
      check_token_budgets_def demo_request_def ChatCompletionRequest_default_def check_org_guardrails_def check_rbac_model_def
      demo_manager_facts from_request_def demo_ambient_facts)

lemma stream_failover:
  "fst (with_failover Map.empty False (\<lambda>provider api_key. pv_complete_stream provider demo_request api_key) (\<lambda>_. 0)
     [stub_target] stream_gateway) = Some (stub_target, Ok demo_items, 0)"
proof -
  have "cb_allow 0 (candidate_breaker stream_gateway stub_target) = (True, cb_new CircuitBreakerConfig_default)"
    by (simp add: candidate_breaker_def stream_facts cb_allow_def cb_new_def)
  then show ?thesis
    using single_request(1) [of stream_gateway stub_target stream_provider Map.empty "[]" "\<lambda>_. 0" _
        "\<lambda>provider api_key. pv_complete_stream provider demo_request api_key" "Ok demo_items" 0 "()"]
    by (simp add: stream_facts stub_facts stream_provider_def map_err_def)
qed

lemma stream_opens:
  obtains s g' where "route_stream demo_ambient demo_request None None stream_gateway = (Ok s, g')" "gs_inner s = demo_items"
    "gs_request s = demo_request" "sr_provider (gs_recorder s) = ''stub-ok''"
proof -
  obtain h where h: "with_failover Map.empty False (\<lambda>provider api_key. pv_complete_stream provider demo_request api_key) (\<lambda>_. 0)
     [stub_target] stream_gateway = (Some (stub_target, Ok demo_items, 0), h)"
    using stream_failover by (metis prod.collapse)
  let ?opened = "route_stream demo_ambient demo_request None None stream_gateway"
  have "\<exists>s. fst ?opened = Ok s \<and> gs_inner s = demo_items \<and> gs_request s = demo_request \<and> sr_provider (gs_recorder s) = ''stub-ok''"
    by (simp add: route_stream_def stream_prepare from_request_def stream_select demo_ambient_facts h Let_def
        wrap_stream_with_guardrails_def stub_facts)
  then show thesis using that by (metis prod.collapse)
qed

theorem stream_charged_once_witness:
  "\<exists>s g' lat. route_stream demo_ambient demo_request None None stream_gateway = (Ok s, g')
     \<and> fst (consume (ab_stamp demo_ambient) (\<lambda>_. 9) ''q3'' 5 s g') = demo_items
     \<and> gw_stores (snd (consume (ab_stamp demo_ambient) (\<lambda>_. 9) ''q3'' 5 s g')) =
         record_accounting (ab_stamp demo_ambient) (gw_request_auditor stream_gateway)
           \<lparr>ao_provider = ''stub-ok'', ao_model = ''m'', ao_api_key_id = None,
            ao_usage = Some \<lparr>prompt_tokens = 7, completion_tokens = 5, total_tokens = 12\<rparr>,
            ao_error = None, ao_latency_ms = lat\<rparr> (gw_stores g')"
proof -
  obtain s g' where s: "route_stream demo_ambient demo_request None None stream_gateway = (Ok s, g')" "gs_inner s = demo_items"
    "gs_request s = demo_request" "sr_provider (gs_recorder s) = ''stub-ok''"
    by (rule stream_opens)
  show ?thesis
    using stream_charged_once [OF s(1), of "ab_stamp demo_ambient" "\<lambda>_. 9" "''q3''" 5] s
    by (simp add: demo_items_def demo_chunk_def demo_request_def or_else_def)
qed

theorem stream_guardrails_post_hoc_witness:
  "\<exists>s g'. route_stream demo_ambient demo_request None None stream_gateway = (Ok s, g')
     \<and> fst (consume (ab_stamp demo_ambient) (\<lambda>_. 9) ''q3'' 5 s g') = demo_items
     \<and> gw_world (snd (consume (ab_stamp demo_ambient) (\<lambda>_. 9) ''q3'' 5 s g')) =
         snd (run_response_guardrails demo_manager (from_request ''q3'' demo_request None) ''hello'' (gw_world g'))"
proof -
  obtain s g' where s: "route_stream demo_ambient demo_request None None stream_gateway = (Ok s, g')" "gs_inner s = demo_items"
    "gs_request s = demo_request"
    by (rule stream_opens)
  have full: "full_text demo_items = ''hello''"
    by (simp add: demo_items_def demo_chunk_def chunk_text_def List.map_filter_def)
  have items: "length demo_items = 2" "take 5 demo_items = demo_items" by (simp_all add: demo_items_def)
  have bound: "length (full_text (gs_inner s)) \<le> DEFAULT_STREAM_BUFFER_LIMIT"
    by (simp add: s(2) full DEFAULT_STREAM_BUFFER_LIMIT_def)
  show ?thesis
    using stream_guardrails_post_hoc [OF s(1) bound, of "ab_stamp demo_ambient" "\<lambda>_. 9" "''q3''" 5] s(1)
    by (simp add: s(2,3) full items stream_facts)
qed

theorem stream_mediates_witness:
  "check_rbac_model None (gw_config stream_gateway) ''m'' = Ok ()"
proof -
  obtain s g' where s: "route_stream demo_ambient demo_request None None stream_gateway = (Ok s, g')"
    by (rule stream_opens)
  from stream_mediates [OF this] show ?thesis by (simp add: demo_request_def)
qed

end
