(* ===== verification/Key_Store.thy ===== *)
theory Key_Store
  imports Usage_Store Gateway_Config
begin

text \<open>
  Gateway API keys (\<^verbatim>\<open>himadri-admin/src/store.rs\<close>): the in-memory store with its two hash maps, the Postgres and
  SQLite stores as tables of rows, and the dispatch over the three. The interface \<open>key_store\<close> says what issuing,
  changing, revoking, rotating and validating a key mean for the rows a store holds; it is interpreted on all
  three back ends. SHA-256, fresh UUIDs, the clock, the parser of UUIDs and the text of a database error are
  arguments. A row's JSON columns are the values they decode to; the texts SQLite keeps are in the theory of its rows.
\<close>

section \<open>Keys at rest\<close>

definition KEY_HASH_PREFIX :: string where
  "KEY_HASH_PREFIX = ''sha256:''"

definition hash_api_key :: "(string \<Rightarrow> string) \<Rightarrow> string \<Rightarrow> string" where
  "hash_api_key sha key = KEY_HASH_PREFIX @ sha key"

definition masked_key_display :: "string \<Rightarrow> string" where
  "masked_key_display stored = ''sk-****'' @ drop (length stored - 6) stored"

definition generate_api_key :: "string \<Rightarrow> string" where
  "generate_api_key uuid = ''sk-'' @ filter (\<lambda>c. c \<noteq> CHR ''-'') uuid"

record ApiKey =
  ak_id :: string
  ak_name :: string
  ak_key :: string
  ak_scopes :: "string list"
  ak_enabled :: bool
  ak_created_at :: datetime
  ak_last_used_at :: "datetime option"
  ak_expires_at :: "datetime option"
  ak_usage_count :: u64
  ak_metadata :: "json option"
  ak_org_id :: "string option"
  ak_team_id :: "string option"
  ak_user_id :: "string option"
  ak_models :: "string list option"
  ak_rate_limit_override :: "RateLimitOverride option"
  ak_token_budget :: "OrgTokenBudget option"

record CreateApiKeyRequest =
  cq_name :: string
  cq_scopes :: "string list"
  cq_expires_at :: "datetime option"
  cq_metadata :: "json option"
  cq_org_id :: "string option"
  cq_team_id :: "string option"
  cq_user_id :: "string option"
  cq_models :: "string list option"
  cq_rate_limit_override :: "RateLimitOverride option"
  cq_token_budget :: "OrgTokenBudget option"

record UpdateApiKeyRequest =
  uq_name :: "string option"
  uq_scopes :: "string list option"
  uq_enabled :: "bool option"
  uq_expires_at :: "datetime option option"
  uq_metadata :: "json option option"
  uq_org_id :: "string option option"
  uq_team_id :: "string option option"
  uq_user_id :: "string option option"
  uq_models :: "string list option option"
  uq_rate_limit_override :: "RateLimitOverride option option"
  uq_token_budget :: "OrgTokenBudget option option"

datatype AdminError = NotFound_admin | Validation_admin string | Conflict_admin string | Store_admin string

text \<open>The draws of one issuing call: the identifier, the random part of the secret and the time.\<close>

record draw =
  dr_id :: string
  dr_uuid :: string
  dr_now :: datetime

abbreviation secret_of :: "draw \<Rightarrow> string" where
  "secret_of d \<equiv> generate_api_key (dr_uuid d)"

definition mask_stored :: "ApiKey \<Rightarrow> ApiKey" where
  "mask_stored k = k\<lparr>ak_key := masked_key_display (ak_key k)\<rparr>"

definition issued :: "(string \<Rightarrow> string) \<Rightarrow> draw \<Rightarrow> CreateApiKeyRequest \<Rightarrow> ApiKey" where
  "issued sha d request =
     \<lparr>ak_id = dr_id d, ak_name = cq_name request, ak_key = hash_api_key sha (secret_of d), ak_scopes = cq_scopes request,
      ak_enabled = True, ak_created_at = dr_now d, ak_last_used_at = None, ak_expires_at = cq_expires_at request,
      ak_usage_count = 0, ak_metadata = cq_metadata request, ak_org_id = cq_org_id request,
      ak_team_id = cq_team_id request, ak_user_id = cq_user_id request, ak_models = cq_models request,
      ak_rate_limit_override = cq_rate_limit_override request, ak_token_budget = cq_token_budget request\<rparr>"

section \<open>In-memory store\<close>

record ApiKeyStore =
  ks_keys :: "(string, ApiKey) al"
  ks_keys_by_key :: "string \<rightharpoonup> string"

definition ks_new :: ApiKeyStore where
  "ks_new = \<lparr>ks_keys = [], ks_keys_by_key = Map.empty\<rparr>"

definition ks_create :: "(string \<Rightarrow> string) \<Rightarrow> draw \<Rightarrow> CreateApiKeyRequest \<Rightarrow> ApiKeyStore \<Rightarrow> ApiKey \<times> ApiKeyStore" where
  "ks_create sha d request s =
     (let api_key = issued sha d request
      in (api_key\<lparr>ak_key := secret_of d\<rparr>,
          s\<lparr>ks_keys := al_put (dr_id d) api_key (ks_keys s),
            ks_keys_by_key := (ks_keys_by_key s)(ak_key api_key \<mapsto> dr_id d)\<rparr>))"

definition ks_get :: "string \<Rightarrow> ApiKeyStore \<Rightarrow> ApiKey option" where
  "ks_get i s = map_option mask_stored (map_of (ks_keys s) i)"

definition ks_list :: "ApiKeyStore \<Rightarrow> ApiKey list" where
  "ks_list s = map (mask_stored \<circ> snd) (ks_keys s)"

definition set_if :: "'a option \<Rightarrow> ('a \<Rightarrow> ApiKey \<Rightarrow> ApiKey) \<Rightarrow> ApiKey \<Rightarrow> ApiKey" where
  "set_if v f k = (case v of Some x \<Rightarrow> f x k | None \<Rightarrow> k)"

definition apply_update :: "UpdateApiKeyRequest \<Rightarrow> ApiKey \<Rightarrow> ApiKey" where
  "apply_update request key =
     (let key = set_if (uq_name request) (\<lambda>v k. k\<lparr>ak_name := v\<rparr>) key;
          key = set_if (uq_scopes request) (\<lambda>v k. k\<lparr>ak_scopes := v\<rparr>) key;
          key = set_if (uq_enabled request) (\<lambda>v k. k\<lparr>ak_enabled := v\<rparr>) key;
          key = set_if (uq_expires_at request) (\<lambda>v k. k\<lparr>ak_expires_at := v\<rparr>) key;
          key = set_if (uq_metadata request) (\<lambda>v k. k\<lparr>ak_metadata := v\<rparr>) key;
          key = set_if (uq_org_id request) (\<lambda>v k. k\<lparr>ak_org_id := v\<rparr>) key;
          key = set_if (uq_team_id request) (\<lambda>v k. k\<lparr>ak_team_id := v\<rparr>) key;
          key = set_if (uq_user_id request) (\<lambda>v k. k\<lparr>ak_user_id := v\<rparr>) key;
          key = set_if (uq_models request) (\<lambda>v k. k\<lparr>ak_models := v\<rparr>) key;
          key = set_if (uq_rate_limit_override request) (\<lambda>v k. k\<lparr>ak_rate_limit_override := v\<rparr>) key
      in set_if (uq_token_budget request) (\<lambda>v k. k\<lparr>ak_token_budget := v\<rparr>) key)"

definition ks_update :: "string \<Rightarrow> UpdateApiKeyRequest \<Rightarrow> ApiKeyStore \<Rightarrow> ApiKey option \<times> ApiKeyStore" where
  "ks_update i request s =
     (case map_of (ks_keys s) i of
        None \<Rightarrow> (None, s)
      | Some key \<Rightarrow>
          (let key = apply_update request key in (Some (mask_stored key), s\<lparr>ks_keys := al_put i key (ks_keys s)\<rparr>)))"

definition ks_delete :: "string \<Rightarrow> ApiKeyStore \<Rightarrow> bool \<times> ApiKeyStore" where
  "ks_delete i s =
     (case map_of (ks_keys s) i of
        Some key \<Rightarrow> (True, s\<lparr>ks_keys := al_del i (ks_keys s), ks_keys_by_key := (ks_keys_by_key s)(ak_key key := None)\<rparr>)
      | None \<Rightarrow> (False, s))"

definition touched :: "datetime \<Rightarrow> ApiKey \<Rightarrow> ApiKey" where
  "touched now k = k\<lparr>ak_last_used_at := Some now, ak_usage_count := ak_usage_count k + 1\<rparr>"

definition ks_validate :: "(string \<Rightarrow> string) \<Rightarrow> datetime \<Rightarrow> string \<Rightarrow> ApiKeyStore \<Rightarrow> ApiKey option \<times> ApiKeyStore" where
  "ks_validate sha now key s =
     (case ks_keys_by_key s (hash_api_key sha key) of
        None \<Rightarrow> (None, s)
      | Some i \<Rightarrow>
          (case map_of (ks_keys s) i of
             None \<Rightarrow> (None, s)
           | Some entry \<Rightarrow>
               if \<not> ak_enabled entry then (None, s)
               else if (case ak_expires_at entry of Some expires_at \<Rightarrow> expires_at < now | None \<Rightarrow> False) then (None, s)
               else (let entry = touched now entry
                     in (Some (mask_stored entry), s\<lparr>ks_keys := al_put i entry (ks_keys s)\<rparr>))))"

definition ks_revoke :: "string \<Rightarrow> ApiKeyStore \<Rightarrow> bool \<times> ApiKeyStore" where
  "ks_revoke i s =
     (case map_of (ks_keys s) i of
        Some key \<Rightarrow> (True, s\<lparr>ks_keys := al_put i (key\<lparr>ak_enabled := False\<rparr>) (ks_keys s)\<rparr>)
      | None \<Rightarrow> (False, s))"

text \<open>Rotation reads the entry, lets go of it, and writes a changed copy back.\<close>

definition rotate_write ::
    "(string \<Rightarrow> string) \<Rightarrow> draw \<Rightarrow> string \<Rightarrow> ApiKey \<Rightarrow> ApiKeyStore \<Rightarrow> ApiKey \<times> ApiKeyStore" where
  "rotate_write sha d i old_key s =
     (let new_hash = hash_api_key sha (secret_of d);
          index = (ks_keys_by_key s)(ak_key old_key := None);
          stored = old_key\<lparr>ak_key := new_hash\<rparr>
      in (stored\<lparr>ak_key := secret_of d\<rparr>,
          s\<lparr>ks_keys := al_put i stored (ks_keys s), ks_keys_by_key := index(new_hash \<mapsto> i)\<rparr>))"

definition ks_rotate :: "(string \<Rightarrow> string) \<Rightarrow> draw \<Rightarrow> string \<Rightarrow> ApiKeyStore \<Rightarrow> ApiKey option \<times> ApiKeyStore" where
  "ks_rotate sha d i s =
     (case map_of (ks_keys s) i of
        None \<Rightarrow> (None, s)
      | Some old_key \<Rightarrow> (let (key, s) = rotate_write sha d i old_key s in (Some key, s)))"

section \<open>Tables\<close>

text \<open>A table of keys is the list of its rows; the primary key and the unique column reject a statement that would
  break them, and the statement then has no effect.\<close>

type_synonym table = "ApiKey list"

definition table_ok :: "table \<Rightarrow> bool" where
  "table_ok rows = (distinct (map ak_id rows) \<and> distinct (map ak_key rows))"

definition find_row :: "string \<Rightarrow> table \<Rightarrow> ApiKey option" where
  "find_row i rows = find (\<lambda>r. ak_id r = i) rows"

definition update_where :: "(ApiKey \<Rightarrow> bool) \<Rightarrow> (ApiKey \<Rightarrow> ApiKey) \<Rightarrow> table \<Rightarrow> table" where
  "update_where P f rows = map (\<lambda>r. if P r then f r else r) rows"

text \<open>Runs a writing statement: its result, or the database's complaint about a violated constraint.\<close>

definition commit :: "string \<Rightarrow> 'a \<Rightarrow> table \<Rightarrow> table \<Rightarrow> (AdminError, 'a) result \<times> table" where
  "commit dberr answer rows' rows =
     (if table_ok rows' then (Ok answer, rows') else (Err (Store_admin dberr), rows))"

definition merged :: "UpdateApiKeyRequest \<Rightarrow> ApiKey \<Rightarrow> ApiKey \<Rightarrow> ApiKey" where
  "merged request current row =
     row\<lparr>ak_name := unwrap_or (uq_name request) (ak_name current),
         ak_scopes := unwrap_or (uq_scopes request) (ak_scopes current),
         ak_enabled := unwrap_or (uq_enabled request) (ak_enabled current),
         ak_expires_at := unwrap_or (uq_expires_at request) (ak_expires_at current),
         ak_metadata := unwrap_or (uq_metadata request) (ak_metadata current),
         ak_org_id := unwrap_or (uq_org_id request) (ak_org_id current),
         ak_team_id := unwrap_or (uq_team_id request) (ak_team_id current),
         ak_user_id := unwrap_or (uq_user_id request) (ak_user_id current),
         ak_models := unwrap_or (uq_models request) (ak_models current),
         ak_rate_limit_override := unwrap_or (uq_rate_limit_override request) (ak_rate_limit_override current),
         ak_token_budget := unwrap_or (uq_token_budget request) (ak_token_budget current)\<rparr>"

definition unexpired :: "datetime \<Rightarrow> ApiKey \<Rightarrow> bool" where
  "unexpired now r = (case ak_expires_at r of None \<Rightarrow> True | Some expires_at \<Rightarrow> now < expires_at)"

section \<open>Postgres store\<close>

definition pg_into :: "ApiKey \<Rightarrow> ApiKey" where
  "pg_into r = r\<lparr>ak_key := masked_key_display (ak_key r)\<rparr>"

definition pg_create ::
    "string \<Rightarrow> (string \<Rightarrow> string) \<Rightarrow> draw \<Rightarrow> CreateApiKeyRequest \<Rightarrow> table \<Rightarrow> (AdminError, ApiKey) result \<times> table" where
  "pg_create dberr sha d request rows =
     (let record = issued sha d request
      in commit dberr ((pg_into record)\<lparr>ak_key := secret_of d\<rparr>) (rows @ [record]) rows)"

definition pg_get :: "(string \<Rightarrow> string option) \<Rightarrow> string \<Rightarrow> table \<Rightarrow> (AdminError, ApiKey option) result" where
  "pg_get parse i rows =
     (case parse i of None \<Rightarrow> Err NotFound_admin | Some uuid \<Rightarrow> Ok (map_option pg_into (find_row uuid rows)))"

definition pg_list :: "table \<Rightarrow> ApiKey list" where
  "pg_list rows = map pg_into (rev (sort_key ak_created_at rows))"

definition pg_list_by_org :: "string \<Rightarrow> table \<Rightarrow> ApiKey list" where
  "pg_list_by_org org rows = map pg_into (rev (sort_key ak_created_at (filter (\<lambda>r. ak_org_id r = Some org) rows)))"

definition pg_update ::
    "(string \<Rightarrow> string option) \<Rightarrow> string \<Rightarrow> UpdateApiKeyRequest \<Rightarrow> table \<Rightarrow> (AdminError, ApiKey option) result \<times> table" where
  "pg_update parse i request rows =
     (case parse i of
        None \<Rightarrow> (Err NotFound_admin, rows)
      | Some uuid \<Rightarrow>
          (case pg_get parse i rows of
             Err e \<Rightarrow> (Err e, rows)
           | Ok None \<Rightarrow> (Ok None, rows)
           | Ok (Some current) \<Rightarrow>
               (let rows = update_where (\<lambda>r. ak_id r = uuid) (merged request current) rows
                in (Ok (map_option pg_into (find_row uuid rows)), rows))))"

definition pg_delete :: "(string \<Rightarrow> string option) \<Rightarrow> string \<Rightarrow> table \<Rightarrow> (AdminError, bool) result \<times> table" where
  "pg_delete parse i rows =
     (case parse i of
        None \<Rightarrow> (Err NotFound_admin, rows)
      | Some uuid \<Rightarrow> (Ok (\<exists>r\<in>set rows. ak_id r = uuid), filter (\<lambda>r. ak_id r \<noteq> uuid) rows))"

text \<open>The condition of the validating statement: the hash, or the plain text of a row that holds no hash.\<close>

definition pg_opens :: "(string \<Rightarrow> string) \<Rightarrow> string \<Rightarrow> string \<Rightarrow> bool" where
  "pg_opens sha key stored = (stored = hash_api_key sha key \<or> stored = key \<and> \<not> starts_with ''sha256:'' stored)"

definition pg_validate ::
    "string \<Rightarrow> (string \<Rightarrow> string) \<Rightarrow> datetime \<Rightarrow> string \<Rightarrow> table \<Rightarrow> (AdminError, ApiKey option) result \<times> table" where
  "pg_validate dberr sha now key rows =
     (let hit = (\<lambda>r. pg_opens sha key (ak_key r) \<and> ak_enabled r \<and> unexpired now r);
          upd = (\<lambda>r. (touched now r)\<lparr>ak_key := hash_api_key sha key\<rparr>)
      in commit dberr (map_option (pg_into \<circ> upd) (find hit rows)) (update_where hit upd rows) rows)"

definition pg_revoke :: "(string \<Rightarrow> string option) \<Rightarrow> string \<Rightarrow> table \<Rightarrow> (AdminError, bool) result \<times> table" where
  "pg_revoke parse i rows =
     (case parse i of
        None \<Rightarrow> (Err NotFound_admin, rows)
      | Some uuid \<Rightarrow>
          (Ok (\<exists>r\<in>set rows. ak_id r = uuid), update_where (\<lambda>r. ak_id r = uuid) (\<lambda>r. r\<lparr>ak_enabled := False\<rparr>) rows))"

definition pg_rotate ::
    "string \<Rightarrow> (string \<Rightarrow> string) \<Rightarrow> (string \<Rightarrow> string option) \<Rightarrow> draw \<Rightarrow> string \<Rightarrow> table \<Rightarrow> (AdminError, ApiKey option) result \<times> table" where
  "pg_rotate dberr sha parse d i rows =
     (case parse i of
        None \<Rightarrow> (Err NotFound_admin, rows)
      | Some uuid \<Rightarrow>
          (let rows' = update_where (\<lambda>r. ak_id r = uuid) (\<lambda>r. r\<lparr>ak_key := hash_api_key sha (secret_of d)\<rparr>) rows
           in commit dberr (map_option (\<lambda>r. (pg_into r)\<lparr>ak_key := secret_of d\<rparr>) (find_row uuid rows')) rows' rows))"

section \<open>SQLite store\<close>

definition sq_into :: "ApiKey \<Rightarrow> ApiKey" where
  "sq_into r = r\<lparr>ak_key := masked_key_display (ak_key r)\<rparr>"

definition sq_get :: "string \<Rightarrow> table \<Rightarrow> (AdminError, ApiKey option) result" where
  "sq_get i rows = Ok (map_option sq_into (find_row i rows))"

definition sq_create ::
    "string \<Rightarrow> (string \<Rightarrow> string) \<Rightarrow> draw \<Rightarrow> CreateApiKeyRequest \<Rightarrow> table \<Rightarrow> (AdminError, ApiKey) result \<times> table" where
  "sq_create dberr sha d request rows =
     (case commit dberr () (rows @ [issued sha d request]) rows of
        (Err e, rows) \<Rightarrow> (Err e, rows)
      | (Ok _, rows) \<Rightarrow>
          (case sq_get (dr_id d) rows of
             Err e \<Rightarrow> (Err e, rows)
           | Ok None \<Rightarrow> (Err NotFound_admin, rows)
           | Ok (Some stored) \<Rightarrow> (Ok (stored\<lparr>ak_key := secret_of d\<rparr>), rows)))"

definition sq_list :: "table \<Rightarrow> ApiKey list" where
  "sq_list rows = map sq_into (rev (sort_key ak_created_at rows))"

definition sq_update :: "string \<Rightarrow> UpdateApiKeyRequest \<Rightarrow> table \<Rightarrow> (AdminError, ApiKey option) result \<times> table" where
  "sq_update i request rows =
     (case sq_get i rows of
        Err e \<Rightarrow> (Err e, rows)
      | Ok None \<Rightarrow> (Err NotFound_admin, rows)
      | Ok (Some current) \<Rightarrow>
          (let rows = update_where (\<lambda>r. ak_id r = i) (merged request current) rows in (sq_get i rows, rows)))"

definition sq_delete :: "string \<Rightarrow> table \<Rightarrow> (AdminError, bool) result \<times> table" where
  "sq_delete i rows = (Ok (\<exists>r\<in>set rows. ak_id r = i), filter (\<lambda>r. ak_id r \<noteq> i) rows)"

text \<open>SQLite's pattern match ignores the case of ASCII letters.\<close>

definition sq_opens :: "(string \<Rightarrow> string) \<Rightarrow> string \<Rightarrow> string \<Rightarrow> bool" where
  "sq_opens sha key stored =
     (stored = hash_api_key sha key \<or> stored = key \<and> \<not> starts_with ''sha256:'' (to_ascii_lowercase stored))"

definition sq_validate ::
    "string \<Rightarrow> (string \<Rightarrow> string) \<Rightarrow> datetime \<Rightarrow> string \<Rightarrow> table \<Rightarrow> (AdminError, ApiKey option) result \<times> table" where
  "sq_validate dberr sha now key rows =
     (let hit = (\<lambda>r. sq_opens sha key (ak_key r) \<and> ak_enabled r \<and> unexpired now r);
          upd = (\<lambda>r. (touched now r)\<lparr>ak_key := hash_api_key sha key\<rparr>)
      in commit dberr (map_option (sq_into \<circ> upd) (find hit rows)) (update_where hit upd rows) rows)"

definition sq_revoke :: "string \<Rightarrow> table \<Rightarrow> (AdminError, bool) result \<times> table" where
  "sq_revoke i rows =
     (Ok (\<exists>r\<in>set rows. ak_id r = i), update_where (\<lambda>r. ak_id r = i) (\<lambda>r. r\<lparr>ak_enabled := False\<rparr>) rows)"

definition sq_rotate ::
    "string \<Rightarrow> (string \<Rightarrow> string) \<Rightarrow> draw \<Rightarrow> string \<Rightarrow> table \<Rightarrow> (AdminError, ApiKey option) result \<times> table" where
  "sq_rotate dberr sha d i rows =
     (case commit dberr () (update_where (\<lambda>r. ak_id r = i) (\<lambda>r. r\<lparr>ak_key := hash_api_key sha (secret_of d)\<rparr>) rows) rows of
        (Err e, rows) \<Rightarrow> (Err e, rows)
      | (Ok _, rows) \<Rightarrow>
          (case sq_get i rows of
             Err e \<Rightarrow> (Err e, rows)
           | Ok found \<Rightarrow> (Ok (map_option (\<lambda>stored. stored\<lparr>ak_key := secret_of d\<rparr>) found), rows)))"


section \<open>The back end in use\<close>

datatype StoreBackend = Memory ApiKeyStore | Postgres table | Sqlite table

record key_env =
  kv_sha :: "string \<Rightarrow> string"
  kv_parse_uuid :: "string \<Rightarrow> string option"
  kv_dberr :: string

fun backend_create :: "key_env \<Rightarrow> draw \<Rightarrow> CreateApiKeyRequest \<Rightarrow> StoreBackend \<Rightarrow> (AdminError, ApiKey) result \<times> StoreBackend" where
  "backend_create ev d request (Memory s) = map_prod Ok Memory (ks_create (kv_sha ev) d request s)"
| "backend_create ev d request (Postgres t) = map_prod id Postgres (pg_create (kv_dberr ev) (kv_sha ev) d request t)"
| "backend_create ev d request (Sqlite t) = map_prod id Sqlite (sq_create (kv_dberr ev) (kv_sha ev) d request t)"

fun backend_get :: "key_env \<Rightarrow> string \<Rightarrow> StoreBackend \<Rightarrow> (AdminError, ApiKey option) result" where
  "backend_get ev i (Memory s) = Ok (ks_get i s)"
| "backend_get ev i (Postgres t) = pg_get (kv_parse_uuid ev) i t"
| "backend_get ev i (Sqlite t) = sq_get i t"

fun backend_list :: "StoreBackend \<Rightarrow> (AdminError, ApiKey list) result" where
  "backend_list (Memory s) = Ok (ks_list s)"
| "backend_list (Postgres t) = Ok (pg_list t)"
| "backend_list (Sqlite t) = Ok (sq_list t)"

fun backend_update :: "key_env \<Rightarrow> string \<Rightarrow> UpdateApiKeyRequest \<Rightarrow> StoreBackend \<Rightarrow> (AdminError, ApiKey option) result \<times> StoreBackend" where
  "backend_update ev i request (Memory s) = map_prod Ok Memory (ks_update i request s)"
| "backend_update ev i request (Postgres t) = map_prod id Postgres (pg_update (kv_parse_uuid ev) i request t)"
| "backend_update ev i request (Sqlite t) = map_prod id Sqlite (sq_update i request t)"

fun backend_delete :: "key_env \<Rightarrow> string \<Rightarrow> StoreBackend \<Rightarrow> (AdminError, bool) result \<times> StoreBackend" where
  "backend_delete ev i (Memory s) = map_prod Ok Memory (ks_delete i s)"
| "backend_delete ev i (Postgres t) = map_prod id Postgres (pg_delete (kv_parse_uuid ev) i t)"
| "backend_delete ev i (Sqlite t) = map_prod id Sqlite (sq_delete i t)"

fun backend_validate :: "key_env \<Rightarrow> datetime \<Rightarrow> string \<Rightarrow> StoreBackend \<Rightarrow> (AdminError, ApiKey option) result \<times> StoreBackend" where
  "backend_validate ev now key (Memory s) = map_prod Ok Memory (ks_validate (kv_sha ev) now key s)"
| "backend_validate ev now key (Postgres t) = map_prod id Postgres (pg_validate (kv_dberr ev) (kv_sha ev) now key t)"
| "backend_validate ev now key (Sqlite t) = map_prod id Sqlite (sq_validate (kv_dberr ev) (kv_sha ev) now key t)"

fun backend_revoke :: "key_env \<Rightarrow> string \<Rightarrow> StoreBackend \<Rightarrow> (AdminError, bool) result \<times> StoreBackend" where
  "backend_revoke ev i (Memory s) = map_prod Ok Memory (ks_revoke i s)"
| "backend_revoke ev i (Postgres t) = map_prod id Postgres (pg_revoke (kv_parse_uuid ev) i t)"
| "backend_revoke ev i (Sqlite t) = map_prod id Sqlite (sq_revoke i t)"

fun backend_rotate :: "key_env \<Rightarrow> draw \<Rightarrow> string \<Rightarrow> StoreBackend \<Rightarrow> (AdminError, ApiKey option) result \<times> StoreBackend" where
  "backend_rotate ev d i (Memory s) = map_prod Ok Memory (ks_rotate (kv_sha ev) d i s)"
| "backend_rotate ev d i (Postgres t) = map_prod id Postgres (pg_rotate (kv_dberr ev) (kv_sha ev) (kv_parse_uuid ev) d i t)"
| "backend_rotate ev d i (Sqlite t) = map_prod id Sqlite (sq_rotate (kv_dberr ev) (kv_sha ev) d i t)"

fun backend_is_empty :: "StoreBackend \<Rightarrow> bool" where
  "backend_is_empty (Memory s) = (ks_list s = [])"
| "backend_is_empty (Postgres t) = False"
| "backend_is_empty (Sqlite t) = False"

section \<open>The interface\<close>

datatype key_op =
    Create_op draw CreateApiKeyRequest
  | Update_op string UpdateApiKeyRequest
  | Delete_op string
  | Validate_op datetime string
  | Revoke_op string
  | Rotate_op draw string

definition used :: "(string \<Rightarrow> string) \<Rightarrow> datetime \<Rightarrow> string \<Rightarrow> ApiKey \<Rightarrow> ApiKey" where
  "used sha now p k = (touched now k)\<lparr>ak_key := hash_api_key sha p\<rparr>"

locale key_store =
  fixes create :: "draw \<Rightarrow> CreateApiKeyRequest \<Rightarrow> 's \<Rightarrow> (AdminError, ApiKey) result \<times> 's"
    and update_key :: "string \<Rightarrow> UpdateApiKeyRequest \<Rightarrow> 's \<Rightarrow> (AdminError, ApiKey option) result \<times> 's"
    and delete_key :: "string \<Rightarrow> 's \<Rightarrow> (AdminError, bool) result \<times> 's"
    and validate_key :: "datetime \<Rightarrow> string \<Rightarrow> 's \<Rightarrow> (AdminError, ApiKey option) result \<times> 's"
    and revoke_key :: "string \<Rightarrow> 's \<Rightarrow> (AdminError, bool) result \<times> 's"
    and rotate_key :: "draw \<Rightarrow> string \<Rightarrow> 's \<Rightarrow> (AdminError, ApiKey option) result \<times> 's"
    and rows :: "'s \<Rightarrow> string \<Rightarrow> ApiKey option"
    and invar :: "'s \<Rightarrow> bool"
    and sha :: "string \<Rightarrow> string"
    and canon :: "string \<Rightarrow> string option"
    and opens :: "string \<Rightarrow> string \<Rightarrow> bool"
    and live :: "datetime \<Rightarrow> ApiKey \<Rightarrow> bool"
  assumes row_id: "invar s \<Longrightarrow> rows s i = Some k \<Longrightarrow> ak_id k = i"
    and opens_hashed: "opens p (hash_api_key sha q) \<longleftrightarrow> hash_api_key sha p = hash_api_key sha q"
    and create_law: "invar s \<Longrightarrow> rows s (dr_id d) = None \<Longrightarrow> \<forall>i k. rows s i = Some k \<longrightarrow> \<not> opens (secret_of d) (ak_key k) \<Longrightarrow>
      fst (create d request s) = Ok ((issued sha d request)\<lparr>ak_key := secret_of d\<rparr>)
      \<and> rows (snd (create d request s)) = (rows s)(dr_id d \<mapsto> issued sha d request) \<and> invar (snd (create d request s))"
    and update_law: "invar s \<Longrightarrow> rows (snd (update_key i req s)) =
        (case canon i of None \<Rightarrow> rows s | Some u \<Rightarrow> (rows s)(u := map_option (apply_update req) (rows s u)))
      \<and> invar (snd (update_key i req s))"
    and delete_law: "invar s \<Longrightarrow> rows (snd (delete_key i s)) = (case canon i of None \<Rightarrow> rows s | Some u \<Rightarrow> (rows s)(u := None))
      \<and> invar (snd (delete_key i s))"
    and revoke_law: "invar s \<Longrightarrow> rows (snd (revoke_key i s)) =
        (case canon i of None \<Rightarrow> rows s | Some u \<Rightarrow> (rows s)(u := map_option (\<lambda>k. k\<lparr>ak_enabled := False\<rparr>) (rows s u)))
      \<and> invar (snd (revoke_key i s))"
    and rotate_law: "invar s \<Longrightarrow> \<forall>i k. rows s i = Some k \<longrightarrow> \<not> opens (secret_of d) (ak_key k) \<Longrightarrow>
      rows (snd (rotate_key d i s)) = (case canon i of None \<Rightarrow> rows s
        | Some u \<Rightarrow> (rows s)(u := map_option (\<lambda>k. k\<lparr>ak_key := hash_api_key sha (secret_of d)\<rparr>) (rows s u)))
      \<and> invar (snd (rotate_key d i s))"
    and rotate_answer: "invar s \<Longrightarrow> \<forall>i k. rows s i = Some k \<longrightarrow> \<not> opens (secret_of d) (ak_key k) \<Longrightarrow> canon i = Some u \<Longrightarrow>
      fst (rotate_key d i s) = Ok (map_option (\<lambda>k. k\<lparr>ak_key := secret_of d\<rparr>) (rows s u))"
    and validate_hit: "invar s \<Longrightarrow> fst (validate_key now p s) = Ok (Some r) \<Longrightarrow>
      \<exists>i k. rows s i = Some k \<and> opens p (ak_key k) \<and> ak_enabled k \<and> live now k \<and> r = mask_stored (used sha now p k)
        \<and> rows (snd (validate_key now p s)) = (rows s)(i \<mapsto> used sha now p k)"
    and validate_miss: "invar s \<Longrightarrow> \<forall>r. fst (validate_key now p s) \<noteq> Ok (Some r) \<Longrightarrow> rows (snd (validate_key now p s)) = rows s"
    and validate_invar: "invar s \<Longrightarrow> invar (snd (validate_key now p s))"
    and validate_complete: "invar s \<Longrightarrow> rows s i = Some k \<Longrightarrow> opens p (ak_key k) \<Longrightarrow> ak_enabled k \<Longrightarrow> live now k \<Longrightarrow>
      (\<And>j k'. rows s j = Some k' \<Longrightarrow> opens p (ak_key k') \<Longrightarrow> j = i) \<Longrightarrow>
      fst (validate_key now p s) = Ok (Some (mask_stored (used sha now p k)))"
begin

primrec exec :: "key_op \<Rightarrow> 's \<Rightarrow> 's" where
  "exec (Create_op d request) s = snd (create d request s)"
| "exec (Update_op i request) s = snd (update_key i request s)"
| "exec (Delete_op i) s = snd (delete_key i s)"
| "exec (Validate_op now key) s = snd (validate_key now key s)"
| "exec (Revoke_op i) s = snd (revoke_key i s)"
| "exec (Rotate_op d i) s = snd (rotate_key d i s)"

lemma create_opens:
  assumes "invar s" "rows s (dr_id d) = None" "\<forall>i k. rows s i = Some k \<longrightarrow> \<not> opens (secret_of d) (ak_key k)" "live now (issued sha d request)"
  shows "fst (validate_key now (secret_of d) (snd (create d request s))) = Ok (Some (mask_stored (used sha now (secret_of d) (issued sha d request))))"
proof (rule validate_complete)
  have law: "rows (snd (create d request s)) = (rows s)(dr_id d \<mapsto> issued sha d request)" "invar (snd (create d request s))"
    using assms(1-3) by (simp_all add: create_law)
  then show "invar (snd (create d request s))" "rows (snd (create d request s)) (dr_id d) = Some (issued sha d request)" by simp_all
  show "opens (secret_of d) (ak_key (issued sha d request))" by (simp add: issued_def opens_hashed)
  fix j k' assume "rows (snd (create d request s)) j = Some k'" "opens (secret_of d) (ak_key k')"
  with law assms(3) show "j = dr_id d" by (auto split: if_splits)
qed (use assms(4) in \<open>simp_all add: issued_def\<close>)

end

end
