(* ===== verification/Key_Backends.thy ===== *)
theory Key_Backends
  imports Key_Store
begin

text \<open>
  The three back ends of the key store keep their invariants and obey the laws of the interface \<open>key_store\<close>: the in-memory
  store's index is the inverse of its entries, the tables keep their primary key and unique column.
\<close>

section \<open>In-memory store: laws\<close>

fun backend_rows :: "StoreBackend \<Rightarrow> string \<Rightarrow> ApiKey option" where
  "backend_rows (Memory s) i = map_of (ks_keys s) i"
| "backend_rows (Postgres t) i = find_row i t"
| "backend_rows (Sqlite t) i = find_row i t"

text \<open>The index is the inverse of the stored hashes, and entries are filed under their identifier.\<close>

definition ks_ok :: "ApiKeyStore \<Rightarrow> bool" where
  "ks_ok s = ((\<forall>i k. map_of (ks_keys s) i = Some k \<longrightarrow> ak_id k = i)
     \<and> (\<forall>h i. ks_keys_by_key s h = Some i \<longleftrightarrow> (\<exists>k. map_of (ks_keys s) i = Some k \<and> ak_key k = h)))"

definition mem_live :: "datetime \<Rightarrow> ApiKey \<Rightarrow> bool" where
  "mem_live now k = (case ak_expires_at k of None \<Rightarrow> True | Some e \<Rightarrow> now \<le> e)"

lemma ks_ok_new: "ks_ok ks_new"
  by (simp add: ks_ok_def ks_new_def)

lemma apply_update_id [simp]: "ak_id (apply_update request k) = ak_id k"
  by (simp add: apply_update_def set_if_def Let_def split: option.split)

lemma apply_update_key [simp]: "ak_key (apply_update request k) = ak_key k"
  by (simp add: apply_update_def set_if_def Let_def split: option.split)

lemma used_fields [simp]: "ak_id (used sha now p k) = ak_id k" "ak_key (used sha now p k) = hash_api_key sha p"
  by (simp_all add: used_def touched_def)

lemma issued_fields [simp]: "ak_id (issued sha d request) = dr_id d" "ak_key (issued sha d request) = hash_api_key sha (secret_of d)"
  by (simp_all add: issued_def)

lemma ks_ok_inj:
  "ks_ok s \<Longrightarrow> map_of (ks_keys s) i = Some k \<Longrightarrow> map_of (ks_keys s) j = Some k' \<Longrightarrow> ak_key k' = ak_key k \<Longrightarrow> j = i"
  unfolding ks_ok_def by (metis option.inject)

lemma ks_ok_put:
  assumes "ks_ok s" "map_of (ks_keys s) i = Some k" "ak_key k' = ak_key k" "ak_id k' = i"
  shows "ks_ok (s\<lparr>ks_keys := al_put i k' (ks_keys s)\<rparr>)"
  using assms unfolding ks_ok_def by (fastforce split: if_splits)

lemma ks_ok_insert:
  assumes "ks_ok s" "\<And>j k. map_of (ks_keys s) j = Some k \<Longrightarrow> ak_key k \<noteq> ak_key n" "ak_id n = i" "map_of (ks_keys s) i = None"
  shows "ks_ok (s\<lparr>ks_keys := al_put i n (ks_keys s), ks_keys_by_key := (ks_keys_by_key s)(ak_key n \<mapsto> i)\<rparr>)"
  using assms(1,3,4) assms(2) unfolding ks_ok_def by (auto split: if_splits dest: assms(2))

lemma ks_ok_delete:
  assumes "ks_ok s" "map_of (ks_keys s) i = Some k"
  shows "ks_ok (s\<lparr>ks_keys := al_del i (ks_keys s), ks_keys_by_key := (ks_keys_by_key s)(ak_key k := None)\<rparr>)"
  using assms unfolding ks_ok_def by (auto split: if_splits dest: ks_ok_inj [OF assms])

lemma ks_ok_rotate:
  assumes "ks_ok s" "map_of (ks_keys s) i = Some k" "\<And>j k. map_of (ks_keys s) j = Some k \<Longrightarrow> ak_key k \<noteq> h"
  shows "ks_ok (s\<lparr>ks_keys := al_put i (k\<lparr>ak_key := h\<rparr>) (ks_keys s),
     ks_keys_by_key := ((ks_keys_by_key s)(ak_key k := None))(h \<mapsto> i)\<rparr>)"
  using assms(1,2) unfolding ks_ok_def by (auto split: if_splits dest: ks_ok_inj [OF assms(1,2)] assms(3))

lemma ks_validate_cases:
  assumes "ks_ok s"
  shows "(\<exists>i k. map_of (ks_keys s) i = Some k \<and> ak_key k = hash_api_key sha p \<and> ak_enabled k \<and> mem_live now k
      \<and> ks_validate sha now p s = (Some (mask_stored (used sha now p k)), s\<lparr>ks_keys := al_put i (used sha now p k) (ks_keys s)\<rparr>))
    \<or> (\<forall>i k. map_of (ks_keys s) i = Some k \<longrightarrow> ak_key k = hash_api_key sha p \<longrightarrow> \<not> (ak_enabled k \<and> mem_live now k))
      \<and> ks_validate sha now p s = (None, s)"
proof (cases "ks_keys_by_key s (hash_api_key sha p)")
  case None
  then have "ak_key k \<noteq> hash_api_key sha p" if "map_of (ks_keys s) i = Some k" for i k
    using assms that unfolding ks_ok_def by (metis option.distinct(1))
  with None show ?thesis by (simp add: ks_validate_def)
next
  case (Some i)
  then obtain k where k: "map_of (ks_keys s) i = Some k" "ak_key k = hash_api_key sha p" using assms unfolding ks_ok_def by blast
  have only: "j = i" if "map_of (ks_keys s) j = Some k'" "ak_key k' = hash_api_key sha p" for j k'
    using assms Some that unfolding ks_ok_def by (metis option.inject)
  have "touched now k = used sha now p k" using k(2) by (simp add: used_def touched_def)
  moreover have "(case ak_expires_at k of Some e \<Rightarrow> e < now | None \<Rightarrow> False) = (\<not> mem_live now k)"
    by (simp add: mem_live_def not_le split: option.split)
  ultimately have v: "ks_validate sha now p s = (if ak_enabled k \<and> mem_live now k
      then (Some (mask_stored (used sha now p k)), s\<lparr>ks_keys := al_put i (used sha now p k) (ks_keys s)\<rparr>) else (None, s))"
    using Some k by (simp add: ks_validate_def Let_def)
  show ?thesis
  proof (cases "ak_enabled k \<and> mem_live now k")
    case True
    then show ?thesis using k v by (intro disjI1 exI [of _ i] exI [of _ k]) simp
  next
    case False
    moreover have "k' = k" if "map_of (ks_keys s) j = Some k'" "ak_key k' = hash_api_key sha p" for j k'
      using only [OF that] that(1) k(1) by simp
    ultimately show ?thesis using v by (intro disjI2 conjI allI impI) (blast, simp)
  qed
qed

section \<open>Tables: laws\<close>

lemma find_row_in: "find_row i t = Some r \<Longrightarrow> r \<in> set t \<and> ak_id r = i"
  by (auto simp: find_row_def find_Some_iff)

lemma find_row_None: "find_row i t = None \<longleftrightarrow> (\<forall>r\<in>set t. ak_id r \<noteq> i)"
  by (auto simp: find_row_def find_None_iff)

lemma find_row_Some: "table_ok t \<Longrightarrow> find_row i t = Some r \<longleftrightarrow> r \<in> set t \<and> ak_id r = i"
  using find_row_in by (cases "find_row i t") (auto simp: find_row_None table_ok_def distinct_map inj_on_def)

lemma find_row_update:
  "(\<And>r. ak_id (f r) = ak_id r) \<Longrightarrow> find_row i (update_where P f t) = map_option (\<lambda>r. if P r then f r else r) (find_row i t)"
  by (induction t) (auto simp: find_row_def update_where_def)

lemma find_row_update_id:
  assumes "\<And>r. ak_id (f r) = ak_id r"
  shows "find_row i (update_where (\<lambda>r. ak_id r = u) f t) = (if i = u then map_option f (find_row u t) else find_row i t)"
  using find_row_in [of i t] by (cases "find_row i t") (auto simp: find_row_update assms)

lemma find_row_append: "find_row i (t @ [r]) = (case find_row i t of Some x \<Rightarrow> Some x | None \<Rightarrow> if ak_id r = i then Some r else None)"
  by (induction t) (auto simp: find_row_def)

lemma find_row_filter: "find_row i (filter (\<lambda>r. ak_id r \<noteq> u) t) = (if i = u then None else find_row i t)"
  by (induction t) (auto simp: find_row_def)

lemma update_where_ids: "(\<And>r. ak_id (f r) = ak_id r) \<Longrightarrow> map ak_id (update_where P f t) = map ak_id t"
  by (induction t) (auto simp: update_where_def)

lemma update_where_keys: "(\<And>r. ak_key (f r) = ak_key r) \<Longrightarrow> map ak_key (update_where P f t) = map ak_key t"
  by (induction t) (auto simp: update_where_def)

lemma set_if_fields:
  "set_if v0 (\<lambda>v k. k\<lparr>ak_name := v\<rparr>) k = k\<lparr>ak_name := unwrap_or v0 (ak_name k)\<rparr>"
  "set_if v1 (\<lambda>v k. k\<lparr>ak_scopes := v\<rparr>) k = k\<lparr>ak_scopes := unwrap_or v1 (ak_scopes k)\<rparr>"
  "set_if v2 (\<lambda>v k. k\<lparr>ak_enabled := v\<rparr>) k = k\<lparr>ak_enabled := unwrap_or v2 (ak_enabled k)\<rparr>"
  "set_if v3 (\<lambda>v k. k\<lparr>ak_expires_at := v\<rparr>) k = k\<lparr>ak_expires_at := unwrap_or v3 (ak_expires_at k)\<rparr>"
  "set_if v4 (\<lambda>v k. k\<lparr>ak_metadata := v\<rparr>) k = k\<lparr>ak_metadata := unwrap_or v4 (ak_metadata k)\<rparr>"
  "set_if v5 (\<lambda>v k. k\<lparr>ak_org_id := v\<rparr>) k = k\<lparr>ak_org_id := unwrap_or v5 (ak_org_id k)\<rparr>"
  "set_if v6 (\<lambda>v k. k\<lparr>ak_team_id := v\<rparr>) k = k\<lparr>ak_team_id := unwrap_or v6 (ak_team_id k)\<rparr>"
  "set_if v7 (\<lambda>v k. k\<lparr>ak_user_id := v\<rparr>) k = k\<lparr>ak_user_id := unwrap_or v7 (ak_user_id k)\<rparr>"
  "set_if v8 (\<lambda>v k. k\<lparr>ak_models := v\<rparr>) k = k\<lparr>ak_models := unwrap_or v8 (ak_models k)\<rparr>"
  "set_if v9 (\<lambda>v k. k\<lparr>ak_rate_limit_override := v\<rparr>) k = k\<lparr>ak_rate_limit_override := unwrap_or v9 (ak_rate_limit_override k)\<rparr>"
  "set_if v10 (\<lambda>v k. k\<lparr>ak_token_budget := v\<rparr>) k = k\<lparr>ak_token_budget := unwrap_or v10 (ak_token_budget k)\<rparr>"
  by (simp_all add: set_if_def unwrap_or_def split: option.split)

lemma merged_self: "merged request (pg_into r) r = apply_update request r" "merged request (sq_into r) r = apply_update request r"
  by (simp_all add: merged_def pg_into_def sq_into_def apply_update_def set_if_fields Let_def)

lemma commit_cases:
  "commit dberr answer rows' rows = (if table_ok rows' then (Ok answer, rows') else (Err (Store_admin dberr), rows))"
  by (simp add: commit_def)

lemma unique_hit:
  assumes "table_ok (update_where hit upd t)" "\<And>r. ak_key (upd r) = h" "hit r" "hit r'" "r \<in> set t" "r' \<in> set t"
  shows "r = r'"
proof -
  have "inj_on (\<lambda>r. ak_key (if hit r then upd r else r)) (set t)"
    using assms(1) by (simp add: table_ok_def update_where_def distinct_map comp_def)
  from inj_onD [OF this, of r r'] show ?thesis using assms(2-) by simp
qed

text \<open>The validating statement of both databases, for the condition \<open>opn\<close> on the stored value.\<close>

lemma validate_stmt:
  fixes opn now sha p t
  defines "hit \<equiv> \<lambda>r. opn (ak_key r) \<and> ak_enabled r \<and> unexpired now r"
    and "upd \<equiv> \<lambda>r. (touched now r)\<lparr>ak_key := hash_api_key sha p\<rparr>"
  assumes ok: "table_ok t" and "table_ok (update_where hit upd t)" and "find hit t = Some k"
  shows "find_row (ak_id k) t = Some k" "opn (ak_key k) \<and> ak_enabled k \<and> unexpired now k"
    "find_row i (update_where hit upd t) = (if i = ak_id k then Some (used sha now p k) else find_row i t)"
proof -
  have k: "k \<in> set t" "hit k" using assms(5) by (auto simp: find_Some_iff)
  then show row: "find_row (ak_id k) t = Some k" using ok by (simp add: find_row_Some)
  from k show "opn (ak_key k) \<and> ak_enabled k \<and> unexpired now k" by (simp add: hit_def)
  have upd: "ak_id (upd r) = ak_id r" "ak_key (upd r) = hash_api_key sha p" for r by (simp_all add: upd_def touched_def)
  have "r = k" if "find_row i t = Some r" "hit r" for r
    using unique_hit [OF assms(4) upd(2) that(2) k(2)] find_row_in [OF that(1)] k(1) by simp
  note hit_k = this
  show "find_row i (update_where hit upd t) = (if i = ak_id k then Some (used sha now p k) else find_row i t)"
  proof (cases "find_row i t")
    case None
    then show ?thesis using row by (auto simp: find_row_update upd(1))
  next
    case (Some r)
    have "upd k = used sha now p k" by (simp add: upd_def used_def)
    moreover have "i = ak_id k \<and> r = k" if "hit r" using hit_k [OF Some that] find_row_in [OF Some] by simp
    moreover have "hit r" if "i = ak_id k" using that row Some k(2) by simp
    ultimately show ?thesis using Some by (cases "hit r") (simp_all add: find_row_update upd(1), blast)
  qed
qed

lemma validate_stmt_complete:
  fixes opn now sha p t
  defines "hit \<equiv> \<lambda>r. opn (ak_key r) \<and> ak_enabled r \<and> unexpired now r"
    and "upd \<equiv> \<lambda>r. (touched now r)\<lparr>ak_key := hash_api_key sha p\<rparr>"
  assumes ok: "table_ok t" and "find_row i t = Some k" "hit k" "opn (hash_api_key sha p)"
    and only: "\<And>j k'. find_row j t = Some k' \<Longrightarrow> opn (ak_key k') \<Longrightarrow> j = i"
  shows "table_ok (update_where hit upd t)" "find hit t = Some k"
proof -
  have k: "k \<in> set t" "ak_id k = i" using find_row_in assms(4) by auto
  have opener: "r = k" if "r \<in> set t" "opn (ak_key r)" for r
    using only [of "ak_id r" r] that ok assms(4) by (metis find_row_Some option.inject)
  have upd: "ak_id (upd r) = ak_id r" "ak_key (upd r) = hash_api_key sha p" for r by (simp_all add: upd_def touched_def)
  have "inj_on (\<lambda>r. ak_key (if hit r then upd r else r)) (set t)"
  proof (rule inj_onI)
    fix r r' assume r: "r \<in> set t" "r' \<in> set t"
      and eq: "ak_key (if hit r then upd r else r) = ak_key (if hit r' then upd r' else r')"
    have op: "opn (ak_key (if hit q then upd q else q)) \<Longrightarrow> q = k" if "q \<in> set t" for q
      using opener [OF that] by (cases "hit q") (auto simp: hit_def)
    show "r = r'"
    proof (cases "hit r \<or> hit r'")
      case True
      then have "opn (ak_key (if hit r then upd r else r))" using assms(6) upd(2) eq by (cases "hit r") auto
      then show ?thesis using op r eq by metis
    next
      case False
      then show ?thesis using eq r ok by (auto simp: table_ok_def distinct_map dest: inj_onD)
    qed
  qed
  then have "distinct (map ak_key (update_where hit upd t))"
    using ok by (simp add: update_where_def distinct_map comp_def table_ok_def)
  then show "table_ok (update_where hit upd t)" using ok by (simp add: table_ok_def update_where_ids upd)
  have "find hit t \<noteq> None" using k(1) assms(5) by (auto simp: find_None_iff)
  then obtain r where r: "find hit t = Some r" by blast
  then have "r \<in> set t" "hit r" by (auto simp: find_Some_iff)
  with opener r show "find hit t = Some k" by (simp add: hit_def)
qed


section \<open>The three back ends provide the interface\<close>

definition mem_opens :: "(string \<Rightarrow> string) \<Rightarrow> string \<Rightarrow> string \<Rightarrow> bool" where
  "mem_opens sha p stored = (stored = hash_api_key sha p)"

definition mem_invar :: "StoreBackend \<Rightarrow> bool" where
  "mem_invar st = (case st of Memory s \<Rightarrow> ks_ok s | _ \<Rightarrow> False)"

definition pg_invar :: "StoreBackend \<Rightarrow> bool" where
  "pg_invar st = (case st of Postgres t \<Rightarrow> table_ok t | _ \<Rightarrow> False)"

definition sq_invar :: "StoreBackend \<Rightarrow> bool" where
  "sq_invar st = (case st of Sqlite t \<Rightarrow> table_ok t | _ \<Rightarrow> False)"

lemma invar_cases:
  "mem_invar st \<Longrightarrow> \<exists>s. st = Memory s \<and> ks_ok s" "pg_invar st \<Longrightarrow> \<exists>t. st = Postgres t \<and> table_ok t"
  "sq_invar st \<Longrightarrow> \<exists>t. st = Sqlite t \<and> table_ok t"
  by (auto simp: mem_invar_def pg_invar_def sq_invar_def split: StoreBackend.splits)

lemma invar_simps [simp]:
  "mem_invar (Memory s) = ks_ok s" "pg_invar (Postgres t) = table_ok t" "sq_invar (Sqlite t) = table_ok t"
  by (simp_all add: mem_invar_def pg_invar_def sq_invar_def)

lemma backend_rows_fun [simp]:
  "backend_rows (Memory s) = map_of (ks_keys s)" "backend_rows (Postgres t) = (\<lambda>i. find_row i t)"
  "backend_rows (Sqlite t) = (\<lambda>i. find_row i t)"
  by (simp_all add: fun_eq_iff)

lemma hash_prefix: "starts_with ''sha256:'' (hash_api_key sha p)" "starts_with ''sha256:'' (to_ascii_lowercase (hash_api_key sha p))"
  by (simp_all add: hash_api_key_def KEY_HASH_PREFIX_def to_ascii_lowercase_def)

lemma table_ok_update:
  "table_ok t \<Longrightarrow> (\<And>r. ak_id (f r) = ak_id r) \<Longrightarrow> (\<And>r. ak_key (f r) = ak_key r) \<Longrightarrow> table_ok (update_where P f t)"
  by (simp add: table_ok_def update_where_ids update_where_keys)

lemma table_ok_filter: "table_ok t \<Longrightarrow> table_ok (filter P t)"
  by (auto simp: table_ok_def distinct_map inj_on_def)

lemma table_ok_append:
  assumes "table_ok t" "find_row (ak_id n) t = None" "\<And>i k. find_row i t = Some k \<Longrightarrow> ak_key k \<noteq> ak_key n"
  shows "table_ok (t @ [n])"
  using assms(1,2) assms(3) [of "ak_id r" r for r] by (auto simp: table_ok_def find_row_None) (metis assms(1) assms(3) find_row_Some)

lemma table_ok_rekey:
  assumes "table_ok t" "\<And>i k. find_row i t = Some k \<Longrightarrow> ak_key k \<noteq> h"
  shows "table_ok (update_where (\<lambda>r. ak_id r = u) (\<lambda>r. r\<lparr>ak_key := h\<rparr>) t)"
proof -
  have "inj_on (\<lambda>r. ak_key (if ak_id r = u then r\<lparr>ak_key := h\<rparr> else r)) (set t)"
  proof (rule inj_onI)
    fix r r' assume r: "r \<in> set t" "r' \<in> set t"
      and eq: "ak_key (if ak_id r = u then r\<lparr>ak_key := h\<rparr> else r) = ak_key (if ak_id r' = u then r'\<lparr>ak_key := h\<rparr> else r')"
    have "ak_key r \<noteq> h" "ak_key r' \<noteq> h" using assms r by (auto simp: find_row_Some)
    then show "r = r'"
      using eq r assms(1) by (auto simp: table_ok_def distinct_map inj_on_def split: if_splits)
  qed
  then show ?thesis using assms(1)
    by (simp add: table_ok_def update_where_ids) (simp add: update_where_def distinct_map comp_def)
qed

lemma mem_store: "key_store (backend_create ev) (backend_update ev) (backend_delete ev) (backend_validate ev) (backend_revoke ev)
    (backend_rotate ev) backend_rows mem_invar (kv_sha ev) Some (mem_opens (kv_sha ev)) mem_live"
proof (unfold_locales, goal_cases)
  case (1 s i k) then show ?case by (auto dest!: invar_cases simp: ks_ok_def)
next
  case (2 p q) then show ?case by (auto simp: mem_opens_def)
next
  case (3 st d request)
  then obtain s where s: "st = Memory s" "ks_ok s" by (auto dest: invar_cases)
  with 3 have "ks_ok (s\<lparr>ks_keys := al_put (dr_id d) (issued (kv_sha ev) d request) (ks_keys s),
      ks_keys_by_key := (ks_keys_by_key s)(ak_key (issued (kv_sha ev) d request) \<mapsto> dr_id d)\<rparr>)"
    by (intro ks_ok_insert) (auto simp: mem_opens_def)
  with s show ?case by (simp add: ks_create_def Let_def)
next
  case (4 st i req)
  then show ?case
    by (auto dest!: invar_cases simp: ks_update_def Let_def fun_upd_idem ks_ok_def split: option.splits)
next
  case (5 st i)
  then show ?case by (auto dest!: invar_cases simp: ks_delete_def Let_def fun_upd_idem intro: ks_ok_delete split: option.splits)
next
  case (6 st i)
  then show ?case
    by (auto dest!: invar_cases simp: ks_revoke_def Let_def fun_upd_idem ks_ok_def split: option.splits)
next
  case (7 st d i)
  then show ?case
    by (auto dest!: invar_cases simp: ks_rotate_def rotate_write_def Let_def fun_upd_idem mem_opens_def intro!: ks_ok_rotate split: option.splits)
next
  case (8 st d i u)
  then show ?case by (auto dest!: invar_cases simp: ks_rotate_def rotate_write_def Let_def split: option.splits)
next
  case (9 st now p r)
  then obtain s where s: "st = Memory s" "ks_ok s" by (auto dest: invar_cases)
  with ks_validate_cases [OF s(2), of "kv_sha ev" p now] 9
  obtain i k where "map_of (ks_keys s) i = Some k" "ak_key k = hash_api_key (kv_sha ev) p" "ak_enabled k" "mem_live now k"
    "ks_validate (kv_sha ev) now p s = (Some (mask_stored (used (kv_sha ev) now p k)), s\<lparr>ks_keys := al_put i (used (kv_sha ev) now p k) (ks_keys s)\<rparr>)"
    by auto
  with s 9 show ?case by (intro exI [of _ i] exI [of _ k]) (simp add: mem_opens_def)
next
  case (10 st now p)
  then obtain s where s: "st = Memory s" "ks_ok s" by (auto dest: invar_cases)
  from ks_validate_cases [OF s(2), of "kv_sha ev" p now] 10 s(1) show ?case by auto
next
  case (11 st now p)
  then obtain s where s: "st = Memory s" "ks_ok s" by (auto dest: invar_cases)
  from ks_validate_cases [OF s(2), of "kv_sha ev" p now] show ?case
  proof
    assume "\<exists>i k. map_of (ks_keys s) i = Some k \<and> ak_key k = hash_api_key (kv_sha ev) p \<and> ak_enabled k \<and> mem_live now k
      \<and> ks_validate (kv_sha ev) now p s = (Some (mask_stored (used (kv_sha ev) now p k)), s\<lparr>ks_keys := al_put i (used (kv_sha ev) now p k) (ks_keys s)\<rparr>)"
    then obtain i k where k: "map_of (ks_keys s) i = Some k" "ak_key k = hash_api_key (kv_sha ev) p"
      "snd (ks_validate (kv_sha ev) now p s) = s\<lparr>ks_keys := al_put i (used (kv_sha ev) now p k) (ks_keys s)\<rparr>" by auto
    then have "ak_id k = i" using s(2) by (auto simp: ks_ok_def)
    with k s show ?thesis by (simp add: ks_ok_put)
  qed (use s in simp)
next
  case (12 st i k p now)
  then obtain s where s: "st = Memory s" "ks_ok s" by (auto dest: invar_cases)
  have k: "map_of (ks_keys s) i = Some k" "ak_key k = hash_api_key (kv_sha ev) p"
    using 12(2,3) s(1) by (simp_all add: mem_opens_def)
  from ks_validate_cases [OF s(2), of "kv_sha ev" p now] show ?case
  proof
    assume "\<exists>i k. map_of (ks_keys s) i = Some k \<and> ak_key k = hash_api_key (kv_sha ev) p \<and> ak_enabled k \<and> mem_live now k
      \<and> ks_validate (kv_sha ev) now p s = (Some (mask_stored (used (kv_sha ev) now p k)), s\<lparr>ks_keys := al_put i (used (kv_sha ev) now p k) (ks_keys s)\<rparr>)"
    then obtain j k' where k': "map_of (ks_keys s) j = Some k'" "ak_key k' = hash_api_key (kv_sha ev) p"
      "fst (ks_validate (kv_sha ev) now p s) = Some (mask_stored (used (kv_sha ev) now p k'))" by auto
    then have "j = i" using ks_ok_inj [OF s(2) k(1) k'(1)] k(2) by simp
    with k k' s(1) show ?case by simp
  qed (use 12(4,5) k in blast)
qed


lemma find_row_update_fun:
  "(\<And>r. ak_id (f r) = ak_id r) \<Longrightarrow> (\<lambda>i. find_row i (update_where (\<lambda>r. ak_id r = u) f t)) = (\<lambda>i. find_row i t)(u := map_option f (find_row u t))"
  by (auto simp: fun_eq_iff find_row_update_id)

lemma update_where_merged:
  assumes "find_row u t = Some r" "table_ok t" "into = pg_into \<or> into = sq_into"
  shows "update_where (\<lambda>q. ak_id q = u) (merged request (into r)) t = update_where (\<lambda>q. ak_id q = u) (apply_update request) t"
proof -
  have "merged request (into r) q = apply_update request q" if "q \<in> set t" "ak_id q = u" for q
  proof -
    have "q = r" using that assms(1,2) find_row_Some by (metis option.inject)
    with assms(3) show ?thesis using merged_self by auto
  qed
  then show ?thesis by (simp add: update_where_def)
qed

lemma find_row_append_fun:
  "find_row (ak_id n) t = None \<Longrightarrow> (\<lambda>i. find_row i (t @ [n])) = (\<lambda>i. find_row i t)(ak_id n \<mapsto> n)"
  by (auto simp: fun_eq_iff find_row_append split: option.splits)

lemma find_row_filter_fun: "(\<lambda>i. find_row i (filter (\<lambda>r. ak_id r \<noteq> u) t)) = (\<lambda>i. find_row i t)(u := None)"
  by (auto simp: fun_eq_iff find_row_filter)

lemma validate_stmt_fun:
  fixes opn now sha p t
  defines "hit \<equiv> \<lambda>r. opn (ak_key r) \<and> ak_enabled r \<and> unexpired now r"
    and "upd \<equiv> \<lambda>r. (touched now r)\<lparr>ak_key := hash_api_key sha p\<rparr>"
  assumes "table_ok t" and "table_ok (update_where hit upd t)" and "find hit t = Some k"
  shows "find_row (ak_id k) t = Some k \<and> opn (ak_key k) \<and> ak_enabled k \<and> unexpired now k
    \<and> (\<lambda>i. find_row i (update_where hit upd t)) = (\<lambda>i. find_row i t)(ak_id k \<mapsto> used sha now p k)"
  using validate_stmt [of t opn now sha p k] assms by (auto simp: fun_eq_iff)

lemma no_hit: "find hit t = None \<Longrightarrow> update_where hit upd t = t"
  by (auto simp: find_None_iff update_where_def intro: map_idI)

lemmas table_funs = find_row_update_fun find_row_append_fun find_row_filter_fun

lemma pg_opens_hashed: "pg_opens sha p (hash_api_key sha q) \<longleftrightarrow> hash_api_key sha p = hash_api_key sha q"
  using hash_prefix by (auto simp: pg_opens_def)

lemma sq_opens_hashed: "sq_opens sha p (hash_api_key sha q) \<longleftrightarrow> hash_api_key sha p = hash_api_key sha q"
  using hash_prefix by (auto simp: sq_opens_def)

lemma unopened_key:
  assumes "\<forall>i k. find_row i t = Some k \<longrightarrow> \<not> opn (ak_key k)" "opn h" "find_row i t = Some k"
  shows "ak_key k \<noteq> h"
  using assms by blast

lemma into_used [simp]: "pg_into ((touched now k)\<lparr>ak_key := hash_api_key sha p\<rparr>) = mask_stored (used sha now p k)"
  "sq_into ((touched now k)\<lparr>ak_key := hash_api_key sha p\<rparr>) = mask_stored (used sha now p k)"
  by (simp_all add: pg_into_def sq_into_def mask_stored_def used_def)

lemma pg_store: "key_store (backend_create ev) (backend_update ev) (backend_delete ev) (backend_validate ev) (backend_revoke ev)
    (backend_rotate ev) backend_rows pg_invar (kv_sha ev) (kv_parse_uuid ev) (pg_opens (kv_sha ev)) unexpired"
proof (unfold_locales, goal_cases)
  case (1 s i k) then show ?case by (auto dest!: invar_cases find_row_in)
next
  case (2 p q) then show ?case by (rule pg_opens_hashed)
next
  case (3 st d request)
  then obtain t where t: "st = Postgres t" "table_ok t" by (auto dest: invar_cases)
  with 3 have "table_ok (t @ [issued (kv_sha ev) d request])"
    by (intro table_ok_append) (auto simp: pg_opens_def)
  with t 3 show ?case
    by (simp add: pg_create_def commit_def Let_def pg_into_def find_row_append_fun [where n = "issued (kv_sha ev) d request", simplified])
next
  case (4 st i req)
  then show ?case
    by (auto dest!: invar_cases simp: pg_update_def pg_get_def Let_def update_where_merged table_funs fun_upd_idem
        intro!: table_ok_update split: option.splits)
next
  case (5 st i)
  then show ?case by (auto dest!: invar_cases simp: pg_delete_def table_funs intro: table_ok_filter split: option.splits)
next
  case (6 st i)
  then show ?case by (auto dest!: invar_cases simp: pg_revoke_def table_funs intro!: table_ok_update split: option.splits)
next
  case (7 st d i)
  then obtain t where t: "st = Postgres t" "table_ok t" by (auto dest: invar_cases)
  have "table_ok (update_where (\<lambda>r. ak_id r = u) (\<lambda>r. r\<lparr>ak_key := hash_api_key (kv_sha ev) (secret_of d)\<rparr>) t)" for u
    using 7 t by (intro table_ok_rekey) (auto simp: pg_opens_def)
  with t show ?case by (auto simp: pg_rotate_def commit_def Let_def table_funs split: option.splits)
next
  case (8 st d i u)
  then obtain t where t: "st = Postgres t" "table_ok t" by (auto dest: invar_cases)
  have "table_ok (update_where (\<lambda>r. ak_id r = u) (\<lambda>r. r\<lparr>ak_key := hash_api_key (kv_sha ev) (secret_of d)\<rparr>) t)"
    using 8 t by (intro table_ok_rekey) (auto simp: pg_opens_def)
  with t 8 show ?case by (simp add: pg_rotate_def commit_def Let_def find_row_update_id pg_into_def comp_def option.map_comp)
next
  case (9 st now p r)
  then obtain t where t: "st = Postgres t" "table_ok t" by (auto dest: invar_cases)
  let ?hit = "\<lambda>r. pg_opens (kv_sha ev) p (ak_key r) \<and> ak_enabled r \<and> unexpired now r"
  from 9 t obtain k where k: "find ?hit t = Some k" "r = mask_stored (used (kv_sha ev) now p k)"
    "table_ok (update_where ?hit (\<lambda>r. (touched now r)\<lparr>ak_key := hash_api_key (kv_sha ev) p\<rparr>) t)"
    by (auto simp: pg_validate_def commit_def Let_def split: if_splits)
  from validate_stmt_fun [OF t(2) k(3,1)] k t show ?case
    by (intro exI [of _ "ak_id k"] exI [of _ k]) (simp add: pg_validate_def commit_def Let_def)
next
  case (10 st now p)
  then obtain t where t: "st = Postgres t" "table_ok t" by (auto dest: invar_cases)
  with 10 show ?case
    by (cases "find (\<lambda>r. pg_opens (kv_sha ev) p (ak_key r) \<and> ak_enabled r \<and> unexpired now r) t")
       (auto simp: pg_validate_def commit_def Let_def no_hit split: if_splits)
next
  case (11 st now p)
  then show ?case by (auto dest!: invar_cases simp: pg_validate_def commit_def Let_def)
next
  case (12 st i k p now)
  then obtain t where t: "st = Postgres t" "table_ok t" by (auto dest: invar_cases)
  have hit: "find_row i t = Some k" "pg_opens (kv_sha ev) p (ak_key k) \<and> ak_enabled k \<and> unexpired now k"
    "pg_opens (kv_sha ev) p (hash_api_key (kv_sha ev) p)"
    using 12(2-5) t(1) by (simp_all add: pg_opens_hashed)
  have only: "j = i" if "find_row j t = Some k'" "pg_opens (kv_sha ev) p (ak_key k')" for j k'
    using 12(6) [of j k'] that t(1) by simp
  from validate_stmt_complete [of t i k "pg_opens (kv_sha ev) p" now "kv_sha ev" p, OF t(2) hit only] t(1) show ?case
    by (simp add: pg_validate_def commit_def Let_def)
qed

lemma sq_store: "key_store (backend_create ev) (backend_update ev) (backend_delete ev) (backend_validate ev) (backend_revoke ev)
    (backend_rotate ev) backend_rows sq_invar (kv_sha ev) Some (sq_opens (kv_sha ev)) unexpired"
proof (unfold_locales, goal_cases)
  case (1 s i k) then show ?case by (auto dest!: invar_cases find_row_in)
next
  case (2 p q) then show ?case by (rule sq_opens_hashed)
next
  case (3 st d request)
  then obtain t where t: "st = Sqlite t" "table_ok t" by (auto dest: invar_cases)
  with 3 have "table_ok (t @ [issued (kv_sha ev) d request])"
    by (intro table_ok_append) (auto simp: sq_opens_def)
  moreover have "find_row (dr_id d) (t @ [issued (kv_sha ev) d request]) = Some (issued (kv_sha ev) d request)"
    using 3 t by (simp add: find_row_append)
  ultimately show ?case using t 3
    by (simp add: sq_create_def sq_get_def commit_def sq_into_def
        find_row_append_fun [where n = "issued (kv_sha ev) d request", simplified])
next
  case (4 st i req)
  then show ?case
    by (auto dest!: invar_cases simp: sq_update_def sq_get_def Let_def update_where_merged table_funs fun_upd_idem
        intro!: table_ok_update split: option.splits)
next
  case (5 st i)
  then show ?case by (auto dest!: invar_cases simp: sq_delete_def table_funs intro: table_ok_filter)
next
  case (6 st i)
  then show ?case by (auto dest!: invar_cases simp: sq_revoke_def table_funs intro!: table_ok_update)
next
  case (7 st d i)
  then obtain t where t: "st = Sqlite t" "table_ok t" by (auto dest: invar_cases)
  have "table_ok (update_where (\<lambda>r. ak_id r = u) (\<lambda>r. r\<lparr>ak_key := hash_api_key (kv_sha ev) (secret_of d)\<rparr>) t)" for u
    using 7 t by (intro table_ok_rekey) (auto simp: sq_opens_def)
  with t show ?case by (simp add: sq_rotate_def sq_get_def commit_def table_funs)
next
  case (8 st d i u)
  then obtain t where t: "st = Sqlite t" "table_ok t" by (auto dest: invar_cases)
  have "table_ok (update_where (\<lambda>r. ak_id r = u) (\<lambda>r. r\<lparr>ak_key := hash_api_key (kv_sha ev) (secret_of d)\<rparr>) t)"
    using 8 t by (intro table_ok_rekey) (auto simp: sq_opens_def)
  with t 8 show ?case by (simp add: sq_rotate_def sq_get_def commit_def find_row_update_id sq_into_def comp_def option.map_comp)
next
  case (9 st now p r)
  then obtain t where t: "st = Sqlite t" "table_ok t" by (auto dest: invar_cases)
  let ?hit = "\<lambda>r. sq_opens (kv_sha ev) p (ak_key r) \<and> ak_enabled r \<and> unexpired now r"
  from 9 t obtain k where k: "find ?hit t = Some k" "r = mask_stored (used (kv_sha ev) now p k)"
    "table_ok (update_where ?hit (\<lambda>r. (touched now r)\<lparr>ak_key := hash_api_key (kv_sha ev) p\<rparr>) t)"
    by (auto simp: sq_validate_def commit_def Let_def split: if_splits)
  from validate_stmt_fun [OF t(2) k(3,1)] k t show ?case
    by (intro exI [of _ "ak_id k"] exI [of _ k]) (simp add: sq_validate_def commit_def Let_def)
next
  case (10 st now p)
  then obtain t where t: "st = Sqlite t" "table_ok t" by (auto dest: invar_cases)
  with 10 show ?case
    by (cases "find (\<lambda>r. sq_opens (kv_sha ev) p (ak_key r) \<and> ak_enabled r \<and> unexpired now r) t")
       (auto simp: sq_validate_def commit_def Let_def no_hit split: if_splits)
next
  case (11 st now p)
  then show ?case by (auto dest!: invar_cases simp: sq_validate_def commit_def Let_def)
next
  case (12 st i k p now)
  then obtain t where t: "st = Sqlite t" "table_ok t" by (auto dest: invar_cases)
  have hit: "find_row i t = Some k" "sq_opens (kv_sha ev) p (ak_key k) \<and> ak_enabled k \<and> unexpired now k"
    "sq_opens (kv_sha ev) p (hash_api_key (kv_sha ev) p)"
    using 12(2-5) t(1) by (simp_all add: sq_opens_hashed)
  have only: "j = i" if "find_row j t = Some k'" "sq_opens (kv_sha ev) p (ak_key k')" for j k'
    using 12(6) [of j k'] that t(1) by simp
  from validate_stmt_complete [of t i k "sq_opens (kv_sha ev) p" now "kv_sha ev" p, OF t(2) hit only] t(1) show ?case
    by (simp add: sq_validate_def commit_def Let_def)
qed

interpretation mem: key_store "backend_create ev" "backend_update ev" "backend_delete ev" "backend_validate ev" "backend_revoke ev"
    "backend_rotate ev" backend_rows mem_invar "kv_sha ev" Some "mem_opens (kv_sha ev)" mem_live for ev
  by (rule mem_store)

interpretation pg: key_store "backend_create ev" "backend_update ev" "backend_delete ev" "backend_validate ev" "backend_revoke ev"
    "backend_rotate ev" backend_rows pg_invar "kv_sha ev" "kv_parse_uuid ev" "pg_opens (kv_sha ev)" unexpired for ev
  by (rule pg_store)

interpretation sq: key_store "backend_create ev" "backend_update ev" "backend_delete ev" "backend_validate ev" "backend_revoke ev"
    "backend_rotate ev" backend_rows sq_invar "kv_sha ev" Some "sq_opens (kv_sha ev)" unexpired for ev
  by (rule sq_store)

end
