(* ===== verification/Key_Lifecycle.thy ===== *)
theory Key_Lifecycle
  imports Key_Backends
begin

text \<open>
  The life of an API key over every back end: an abstract specification of the operations by identifier, the refinement of
  every run to it, and what follows for issued, revoked and rotated keys. The last sections show what happens when
  two rotations of the in-memory store overlap, and evaluate a small example.
\<close>

section \<open>Abstract specification\<close>

text \<open>What the operations mean for a table of hashed keys by identifier.\<close>

definition accepts :: "(string \<Rightarrow> string) \<Rightarrow> datetime \<Rightarrow> string \<Rightarrow> ApiKey \<Rightarrow> bool" where
  "accepts sha now p k = (ak_key k = hash_api_key sha p \<and> ak_enabled k \<and> unexpired now k)"

primrec spec_exec :: "(string \<Rightarrow> string) \<Rightarrow> key_op \<Rightarrow> (string \<Rightarrow> ApiKey option) \<Rightarrow> string \<Rightarrow> ApiKey option" where
  "spec_exec sha (Create_op d request) m = m(dr_id d \<mapsto> issued sha d request)"
| "spec_exec sha (Update_op i request) m = m(i := map_option (apply_update request) (m i))"
| "spec_exec sha (Delete_op i) m = m(i := None)"
| "spec_exec sha (Validate_op now p) m = (\<lambda>i. map_option (\<lambda>k. if accepts sha now p k then used sha now p k else k) (m i))"
| "spec_exec sha (Revoke_op i) m = m(i := map_option (\<lambda>k. k\<lparr>ak_enabled := False\<rparr>) (m i))"
| "spec_exec sha (Rotate_op d i) m = m(i := map_option (\<lambda>k. k\<lparr>ak_key := hash_api_key sha (secret_of d)\<rparr>) (m i))"

text \<open>A call that meets the conditions of the specification: UUIDs and secrets do not repeat, identifiers are in canonical
  form, and no key expires at the very instant it is presented.\<close>

primrec orderly :: "(string \<Rightarrow> string) \<Rightarrow> (string \<Rightarrow> string option) \<Rightarrow> key_op \<Rightarrow> (string \<Rightarrow> ApiKey option) \<Rightarrow> bool" where
  "orderly sha parse (Create_op d request) m = (m (dr_id d) = None \<and> (\<forall>k\<in>ran m. ak_key k \<noteq> hash_api_key sha (secret_of d)))"
| "orderly sha parse (Update_op i request) m = (parse i = Some i)"
| "orderly sha parse (Delete_op i) m = (parse i = Some i)"
| "orderly sha parse (Validate_op now p) m = (\<forall>k\<in>ran m. ak_expires_at k \<noteq> Some now)"
| "orderly sha parse (Revoke_op i) m = (parse i = Some i)"
| "orderly sha parse (Rotate_op d i) m = (parse i = Some i \<and> (\<forall>k\<in>ran m. ak_key k \<noteq> hash_api_key sha (secret_of d)))"

primrec orderly_run :: "(string \<Rightarrow> string) \<Rightarrow> (string \<Rightarrow> string option) \<Rightarrow> key_op list \<Rightarrow> (string \<Rightarrow> ApiKey option) \<Rightarrow> bool" where
  "orderly_run sha parse [] m = True"
| "orderly_run sha parse (op # ops) m = (orderly sha parse op m \<and> orderly_run sha parse ops (spec_exec sha op m))"

definition is_hashed :: "string \<Rightarrow> bool" where
  "is_hashed stored = starts_with KEY_HASH_PREFIX stored"

lemma is_hashed_hash [simp]: "is_hashed (hash_api_key sha p)"
  by (simp add: is_hashed_def hash_api_key_def starts_with_iff)

definition all_hashed :: "(string \<Rightarrow> ApiKey option) \<Rightarrow> bool" where
  "all_hashed m = (\<forall>k\<in>ran m. is_hashed (ak_key k))"

lemma all_hashed_spec: "all_hashed m \<Longrightarrow> all_hashed (spec_exec sha op m)"
  by (cases op) (auto simp: all_hashed_def ran_def split: if_splits)

locale hashed_store = key_store +
  fixes parse :: "string \<Rightarrow> string option"
  assumes keys_distinct: "invar s \<Longrightarrow> rows s i = Some k \<Longrightarrow> rows s j = Some k' \<Longrightarrow> ak_key k' = ak_key k \<Longrightarrow> j = i"
    and opens_hash_only: "is_hashed stored \<Longrightarrow> opens p stored \<longleftrightarrow> stored = hash_api_key sha p"
    and live_unexpired: "ak_expires_at k \<noteq> Some now \<Longrightarrow> live now k = unexpired now k"
    and canonical: "parse i = Some i \<Longrightarrow> canon i = Some i"
begin

lemma opens_row: "all_hashed (rows s) \<Longrightarrow> rows s i = Some k \<Longrightarrow> opens p (ak_key k) \<longleftrightarrow> ak_key k = hash_api_key sha p"
  using opens_hash_only [of "ak_key k" p] unfolding all_hashed_def ran_def by blast

lemma validate_refines:
  assumes "invar s" "all_hashed (rows s)" "\<forall>k\<in>ran (rows s). ak_expires_at k \<noteq> Some now"
  shows "rows (snd (validate_key now p s)) = spec_exec sha (Validate_op now p) (rows s)"
    and "(\<exists>r. fst (validate_key now p s) = Ok (Some r)) \<longleftrightarrow> (\<exists>i k. rows s i = Some k \<and> accepts sha now p k)"
proof -
  have live: "live now k = unexpired now k" if "rows s i = Some k" for i k
    using that assms(3) by (auto simp: live_unexpired ran_def)
  have hit: "fst (validate_key now p s) = Ok (Some (mask_stored (used sha now p k)))"
    if "rows s i = Some k" "accepts sha now p k" for i k
    using assms(1) that(1)
  proof (rule validate_complete)
    show "opens p (ak_key k)" "ak_enabled k" "live now k"
      using that live opens_row [OF assms(2) that(1)] by (simp_all add: accepts_def)
    show "j = i" if "rows s j = Some k'" "opens p (ak_key k')" for j k'
      using keys_distinct [OF assms(1) \<open>rows s i = Some k\<close> that(1)] that \<open>accepts sha now p k\<close> opens_row [OF assms(2)]
      by (auto simp: accepts_def)
  qed
  have row: "\<exists>i k. rows s i = Some k \<and> accepts sha now p k \<and> rows (snd (validate_key now p s)) = (rows s)(i \<mapsto> used sha now p k)"
    if "fst (validate_key now p s) = Ok (Some r)" for r
    using validate_hit [OF assms(1) that] live opens_row [OF assms(2)] by (fastforce simp: accepts_def)
  show "(\<exists>r. fst (validate_key now p s) = Ok (Some r)) \<longleftrightarrow> (\<exists>i k. rows s i = Some k \<and> accepts sha now p k)"
    using hit row by blast
  show "rows (snd (validate_key now p s)) = spec_exec sha (Validate_op now p) (rows s)"
  proof (cases "\<exists>r. fst (validate_key now p s) = Ok (Some r)")
    case True
    then obtain i k where k: "rows s i = Some k" "accepts sha now p k"
      "rows (snd (validate_key now p s)) = (rows s)(i \<mapsto> used sha now p k)" using row by blast
    have only: "j = i" if "rows s j = Some k'" "accepts sha now p k'" for j k'
      using keys_distinct [OF assms(1) k(1) that(1)] that(2) k(2) by (simp add: accepts_def)
    show ?thesis
    proof (rule ext)
      fix j
      show "rows (snd (validate_key now p s)) j = spec_exec sha (Validate_op now p) (rows s) j"
        using k only [of j] by (cases "rows s j") auto
    qed
  next
    case False
    then have "rows (snd (validate_key now p s)) = rows s" by (intro validate_miss [OF assms(1)]) blast
    moreover have "\<not> accepts sha now p k" if "rows s i = Some k" for i k using False hit [OF that] by blast
    ultimately have "rows (snd (validate_key now p s)) j = spec_exec sha (Validate_op now p) (rows s) j" for j
      by (cases "rows s j") simp_all
    then show ?thesis ..
  qed
qed

lemma exec_refines:
  assumes "invar s" "all_hashed (rows s)" "orderly sha parse op (rows s)"
  shows "invar (exec op s) \<and> rows (exec op s) = spec_exec sha op (rows s)"
proof -
  have closed: "\<forall>i k. rows s i = Some k \<longrightarrow> \<not> opens (secret_of d) (ak_key k)"
    if "\<forall>k\<in>ran (rows s). ak_key k \<noteq> hash_api_key sha (secret_of d)" for d
    using that opens_row [OF assms(2)] by (auto simp: ran_def)
  show ?thesis
  proof (cases op)
    case (Validate_op now p)
    then show ?thesis using assms validate_refines(1) [of s now p] validate_invar by simp
  qed (use assms closed in \<open>auto simp: canonical create_law update_law delete_law revoke_law rotate_law\<close>)
qed

lemma run_refines:
  "invar s \<Longrightarrow> all_hashed (rows s) \<Longrightarrow> orderly_run sha parse ops (rows s) \<Longrightarrow>
   invar (fold exec ops s) \<and> rows (fold exec ops s) = fold (spec_exec sha) ops (rows s)"
proof (induction ops arbitrary: s)
  case (Cons op ops)
  then have "invar (exec op s) \<and> rows (exec op s) = spec_exec sha op (rows s)" by (intro exec_refines) simp_all
  then show ?case using Cons by (simp add: all_hashed_spec)
qed simp

end

lemma table_keys_distinct:
  "table_ok t \<Longrightarrow> find_row i t = Some k \<Longrightarrow> find_row j t = Some k' \<Longrightarrow> ak_key k' = ak_key k \<Longrightarrow> j = i"
  by (auto simp: table_ok_def distinct_map dest!: find_row_in dest: inj_onD)

lemma lower_hashed: "is_hashed stored \<Longrightarrow> starts_with ''sha256:'' (to_ascii_lowercase stored)"
  by (auto simp: is_hashed_def KEY_HASH_PREFIX_def to_ascii_lowercase_def)

interpretation mem_hashed: hashed_store "backend_create ev" "backend_update ev" "backend_delete ev" "backend_validate ev"
    "backend_revoke ev" "backend_rotate ev" backend_rows mem_invar "kv_sha ev" Some "mem_opens (kv_sha ev)" mem_live "kv_parse_uuid ev" for ev
  by unfold_locales (auto dest!: invar_cases dest: ks_ok_inj simp: mem_opens_def mem_live_def unexpired_def split: option.splits)

interpretation pg_hashed: hashed_store "backend_create ev" "backend_update ev" "backend_delete ev" "backend_validate ev"
    "backend_revoke ev" "backend_rotate ev" backend_rows pg_invar "kv_sha ev" "kv_parse_uuid ev" "pg_opens (kv_sha ev)" unexpired
    "kv_parse_uuid ev" for ev
proof
  show "pg_invar s \<Longrightarrow> backend_rows s i = Some k \<Longrightarrow> backend_rows s j = Some k' \<Longrightarrow> ak_key k' = ak_key k \<Longrightarrow> j = i" for s i k j k'
    by (auto dest!: invar_cases dest: table_keys_distinct)
  show "is_hashed stored \<Longrightarrow> pg_opens (kv_sha ev) p stored \<longleftrightarrow> stored = hash_api_key (kv_sha ev) p" for stored p
    by (auto simp: pg_opens_def is_hashed_def KEY_HASH_PREFIX_def)
qed auto

interpretation sq_hashed: hashed_store "backend_create ev" "backend_update ev" "backend_delete ev" "backend_validate ev"
    "backend_revoke ev" "backend_rotate ev" backend_rows sq_invar "kv_sha ev" Some "sq_opens (kv_sha ev)" unexpired
    "kv_parse_uuid ev" for ev
proof
  show "sq_invar s \<Longrightarrow> backend_rows s i = Some k \<Longrightarrow> backend_rows s j = Some k' \<Longrightarrow> ak_key k' = ak_key k \<Longrightarrow> j = i" for s i k j k'
    by (auto dest!: invar_cases dest: table_keys_distinct)
  show "is_hashed stored \<Longrightarrow> sq_opens (kv_sha ev) p stored \<longleftrightarrow> stored = hash_api_key (kv_sha ev) p" for stored p
    using lower_hashed by (auto simp: sq_opens_def)
qed auto

section \<open>Runs of a back end\<close>

primrec backend_exec :: "key_env \<Rightarrow> key_op \<Rightarrow> StoreBackend \<Rightarrow> StoreBackend" where
  "backend_exec ev (Create_op d request) st = snd (backend_create ev d request st)"
| "backend_exec ev (Update_op i request) st = snd (backend_update ev i request st)"
| "backend_exec ev (Delete_op i) st = snd (backend_delete ev i st)"
| "backend_exec ev (Validate_op now key) st = snd (backend_validate ev now key st)"
| "backend_exec ev (Revoke_op i) st = snd (backend_revoke ev i st)"
| "backend_exec ev (Rotate_op d i) st = snd (backend_rotate ev d i st)"

definition backend_ok :: "StoreBackend \<Rightarrow> bool" where
  "backend_ok st = (mem_invar st \<or> pg_invar st \<or> sq_invar st)"

lemma exec_eq: "mem.exec ev op st = backend_exec ev op st"
  by (cases op) simp_all

lemma exec_eq_fun: "mem.exec ev = backend_exec ev"
  by (intro ext) (rule exec_eq)

lemma backend_run_refines:
  assumes "backend_ok st" "all_hashed (backend_rows st)" "orderly_run (kv_sha ev) (kv_parse_uuid ev) ops (backend_rows st)"
  shows "backend_ok (fold (backend_exec ev) ops st)
    \<and> backend_rows (fold (backend_exec ev) ops st) = fold (spec_exec (kv_sha ev)) ops (backend_rows st)"
  using assms(1) unfolding backend_ok_def
  by (elim disjE) (use assms(2,3) mem_hashed.run_refines [of st ev ops] pg_hashed.run_refines [of st ev ops]
      sq_hashed.run_refines [of st ev ops] in \<open>auto simp: exec_eq_fun\<close>)

lemma backend_validate_sound:
  assumes "backend_ok st" "all_hashed (backend_rows st)" "fst (backend_validate ev now p st) = Ok (Some r)"
  obtains k where "backend_rows st (ak_id r) = Some k" "ak_key k = hash_api_key (kv_sha ev) p" "ak_enabled k"
proof -
  have "\<exists>i k. backend_rows st i = Some k \<and> ak_key k = hash_api_key (kv_sha ev) p \<and> ak_enabled k \<and> ak_id r = i"
    using assms(1) unfolding backend_ok_def
  proof (elim disjE)
    assume "mem_invar st"
    with mem.validate_hit [OF this assms(3)] mem.row_id [OF this] mem_hashed.opens_row [OF assms(2)] show ?thesis
      by (fastforce simp: mask_stored_def)
  next
    assume "pg_invar st"
    with pg.validate_hit [OF this assms(3)] pg.row_id [OF this] pg_hashed.opens_row [OF assms(2)] show ?thesis
      by (fastforce simp: mask_stored_def)
  next
    assume "sq_invar st"
    with sq.validate_hit [OF this assms(3)] sq.row_id [OF this] sq_hashed.opens_row [OF assms(2)] show ?thesis
      by (fastforce simp: mask_stored_def)
  qed
  then show thesis using that by blast
qed

lemma hashed_fold: "all_hashed m \<Longrightarrow> all_hashed (fold (spec_exec sha) ops m)"
  by (induction ops arbitrary: m) (simp_all add: all_hashed_spec)


section \<open>Properties of the key store\<close>

text \<open>C5: The three back ends are interchangeable: started empty and given the same calls, with UUIDs that do not repeat,
  canonical identifiers and no call at the very instant a key expires, each of them holds exactly the rows the
  abstract specification prescribes, and each accepts exactly the keys the specification accepts.\<close>

theorem key_backends_agree:
  fixes ev ops
  defines "m \<equiv> fold (spec_exec (kv_sha ev)) ops Map.empty"
  assumes "orderly_run (kv_sha ev) (kv_parse_uuid ev) ops Map.empty"
    and "st \<in> {Memory ks_new, Postgres [], Sqlite []}"
    and "orderly (kv_sha ev) (kv_parse_uuid ev) (Validate_op now p) m"
  shows "backend_rows (fold (backend_exec ev) ops st) = m
    \<and> ((\<exists>r. fst (backend_validate ev now p (fold (backend_exec ev) ops st)) = Ok (Some r)) \<longleftrightarrow>
       (\<exists>k\<in>ran m. accepts (kv_sha ev) now p k))"
proof -
  have start: "backend_ok st" "backend_rows st = Map.empty"
    using assms(3) ks_ok_new by (auto simp: backend_ok_def ks_new_def table_ok_def find_row_def fun_eq_iff)
  have empty: "all_hashed Map.empty" by (simp add: all_hashed_def)
  have run: "backend_ok (fold (backend_exec ev) ops st)" "backend_rows (fold (backend_exec ev) ops st) = m"
    using backend_run_refines [OF start(1), of ev ops] start(2) assms(2) empty by (simp_all add: m_def)
  have hashed: "all_hashed (backend_rows (fold (backend_exec ev) ops st))"
    using run(2) hashed_fold [OF empty] by (simp add: m_def)
  have tick: "\<forall>k\<in>ran (backend_rows (fold (backend_exec ev) ops st)). ak_expires_at k \<noteq> Some now"
    using assms(4) run(2) by simp
  have "(\<exists>r. fst (backend_validate ev now p (fold (backend_exec ev) ops st)) = Ok (Some r)) \<longleftrightarrow>
      (\<exists>i k. backend_rows (fold (backend_exec ev) ops st) i = Some k \<and> accepts (kv_sha ev) now p k)"
    using run(1) unfolding backend_ok_def
    using mem_hashed.validate_refines(2) [OF _ hashed tick] pg_hashed.validate_refines(2) [OF _ hashed tick]
      sq_hashed.validate_refines(2) [OF _ hashed tick] by blast
  then show ?thesis using run(2) by (auto simp: ran_def)
qed

text \<open>What brings an identifier back: issuing it anew or enabling it.\<close>

primrec reenables :: "string \<Rightarrow> key_op \<Rightarrow> bool" where
  "reenables i (Create_op d request) = (dr_id d = i)"
| "reenables i (Update_op j request) = (j = i \<and> uq_enabled request = Some True)"
| "reenables i (Delete_op j) = False"
| "reenables i (Validate_op now key) = False"
| "reenables i (Revoke_op j) = False"
| "reenables i (Rotate_op d j) = False"

lemma apply_update_enabled [simp]: "ak_enabled (apply_update request k) = unwrap_or (uq_enabled request) (ak_enabled k)"
  by (simp add: apply_update_def set_if_fields Let_def)

lemma used_enabled [simp]: "ak_enabled (used sha now p k) = ak_enabled k"
  by (simp add: used_def touched_def)

lemma spec_disabled:
  assumes "\<not> reenables i op" "\<forall>k. m i = Some k \<longrightarrow> \<not> ak_enabled k"
  shows "\<forall>k. spec_exec sha op m i = Some k \<longrightarrow> \<not> ak_enabled k"
proof (cases op)
  case (Update_op j request)
  then show ?thesis using assms by (cases "uq_enabled request") auto
qed (use assms in auto)

lemma spec_run_disabled:
  "\<forall>op\<in>set ops. \<not> reenables i op \<Longrightarrow> \<forall>k. m i = Some k \<longrightarrow> \<not> ak_enabled k \<Longrightarrow>
   \<forall>k. fold (spec_exec sha) ops m i = Some k \<longrightarrow> \<not> ak_enabled k"
proof (induction ops arbitrary: m)
  case (Cons op ops)
  from Cons.prems(1) have "\<not> reenables i op" "\<forall>op\<in>set ops. \<not> reenables i op" by simp_all
  then show ?case unfolding fold_simps comp_def by (intro Cons.IH spec_disabled Cons.prems(2))
qed simp


primrec drawn :: "key_op \<Rightarrow> string option" where
  "drawn (Create_op d request) = Some (secret_of d)"
| "drawn (Update_op j request) = None"
| "drawn (Delete_op j) = None"
| "drawn (Validate_op now key) = None"
| "drawn (Revoke_op j) = None"
| "drawn (Rotate_op d j) = Some (secret_of d)"

definition retired :: "(string \<Rightarrow> string) \<Rightarrow> string \<Rightarrow> (string \<Rightarrow> ApiKey option) \<Rightarrow> bool" where
  "retired sha p m = (\<forall>k\<in>ran m. ak_key k \<noteq> hash_api_key sha p)"

lemma spec_retired:
  assumes "\<And>q. hash_api_key sha q = hash_api_key sha p \<Longrightarrow> q = p" "drawn op \<noteq> Some p" "retired sha p m"
  shows "retired sha p (spec_exec sha op m)"
  using assms(2,3) by (cases op) (auto simp: retired_def ran_def accepts_def dest: assms(1) split: if_splits)

lemma spec_run_retired:
  assumes "\<And>q. hash_api_key sha q = hash_api_key sha p \<Longrightarrow> q = p"
  shows "\<forall>op\<in>set ops. drawn op \<noteq> Some p \<Longrightarrow> retired sha p m \<Longrightarrow> retired sha p (fold (spec_exec sha) ops m)"
  by (induction ops arbitrary: m) (simp_all add: spec_retired assms del: spec_exec.simps)

lemma backend_keys_distinct:
  assumes "backend_ok st" "backend_rows st i = Some k" "backend_rows st j = Some k'" "ak_key k' = ak_key k"
  shows "j = i"
  using assms mem_hashed.keys_distinct pg_hashed.keys_distinct sq_hashed.keys_distinct unfolding backend_ok_def by metis


text \<open>A key that was just issued, on any back end, authenticates with the secret the caller was given: the request is
  attributed to that key with all the attributes it was created with, and the stored form of the secret is not
  part of the answer.\<close>

theorem issued_key_authenticates:
  assumes "backend_ok st" "all_hashed (backend_rows st)"
    and "orderly (kv_sha ev) (kv_parse_uuid ev) (Create_op d request) (backend_rows st)"
    and "unexpired now (issued (kv_sha ev) d request)"
    and "backend_create ev d request st = (answer, st')"
  shows "answer = Ok ((issued (kv_sha ev) d request)\<lparr>ak_key := secret_of d\<rparr>)
    \<and> fst (backend_validate ev now (secret_of d) st') =
        Ok (Some (mask_stored (touched now (issued (kv_sha ev) d request))))"
proof -
  have closed: "\<forall>i k. backend_rows st i = Some k \<longrightarrow> ak_key k \<noteq> hash_api_key (kv_sha ev) (secret_of d)"
    and new: "backend_rows st (dr_id d) = None" using assms(3) by (auto simp: ran_def)
  have live: "mem_live now (issued (kv_sha ev) d request)"
    using assms(4) by (auto simp: mem_live_def unexpired_def split: option.splits)
  have same: "used (kv_sha ev) now (secret_of d) (issued (kv_sha ev) d request) = touched now (issued (kv_sha ev) d request)"
    by (simp add: used_def touched_def issued_def)
  show ?thesis using assms(1) unfolding backend_ok_def
  proof (elim disjE)
    assume ok: "mem_invar st"
    have shut: "\<forall>i k. backend_rows st i = Some k \<longrightarrow> \<not> mem_opens (kv_sha ev) (secret_of d) (ak_key k)"
      using closed mem_hashed.opens_row [OF assms(2)] by blast
    from mem.create_law [OF ok new shut, of request] mem.create_opens [OF ok new shut live] assms(5) same show ?thesis by simp
  next
    assume ok: "pg_invar st"
    have shut: "\<forall>i k. backend_rows st i = Some k \<longrightarrow> \<not> pg_opens (kv_sha ev) (secret_of d) (ak_key k)"
      using closed pg_hashed.opens_row [OF assms(2)] by blast
    from pg.create_law [OF ok new shut, of request] pg.create_opens [OF ok new shut assms(4)] assms(5) same show ?thesis by simp
  next
    assume ok: "sq_invar st"
    have shut: "\<forall>i k. backend_rows st i = Some k \<longrightarrow> \<not> sq_opens (kv_sha ev) (secret_of d) (ak_key k)"
      using closed sq_hashed.opens_row [OF assms(2)] by blast
    from sq.create_law [OF ok new shut, of request] sq.create_opens [OF ok new shut assms(4)] assms(5) same show ?thesis by simp
  qed
qed

section \<open>Interleaved rotations\<close>

text \<open>Rotation in the in-memory store is not atomic. A revocation that falls between its read and its write is undone: the
  written copy is enabled.\<close>

lemma rotation_undoes_revocation:
  assumes "map_of (ks_keys s) i = Some old" "ak_enabled old"
  shows "map_of (ks_keys (snd (rotate_write sha d i old (snd (ks_revoke i s))))) i = Some (old\<lparr>ak_key := hash_api_key sha (secret_of d)\<rparr>)"
  using assms by (simp add: rotate_write_def ks_revoke_def Let_def)

text \<open>Of two rotations that read the same entry, the first one's secret stays in the index: it is accepted although the entry
  holds the other secret's hash, and no later rotation removes it.\<close>

lemma overlapping_rotations_leave_secret:
  assumes "map_of (ks_keys s) i = Some old" "ak_enabled old" "ak_expires_at old = None"
    and "ak_key old \<noteq> hash_api_key sha (secret_of d1)" "hash_api_key sha (secret_of d2) \<noteq> hash_api_key sha (secret_of d1)"
  shows "\<exists>r. fst (ks_validate sha now (secret_of d1) (snd (rotate_write sha d2 i old (snd (rotate_write sha d1 i old s))))) = Some r"
  using assms by (simp add: rotate_write_def ks_validate_def Let_def)

text \<open>At the instant a key expires the in-memory store still accepts it and the databases do not.\<close>

lemma expiry_instant_differs: "ak_expires_at k = Some now \<Longrightarrow> mem_live now k \<and> \<not> unexpired now k"
  by (simp add: mem_live_def unexpired_def)

section \<open>Worked example\<close>

definition key_env_demo :: key_env where
  "key_env_demo = \<lparr>kv_sha = (\<lambda>x. x), kv_parse_uuid = Some, kv_dberr = ''unique constraint''\<rparr>"

definition demo_key_request :: CreateApiKeyRequest where
  "demo_key_request = \<lparr>cq_name = ''ci'', cq_scopes = [''read-only''], cq_expires_at = Some 100, cq_metadata = None, cq_org_id = Some ''acme'',
     cq_team_id = None, cq_user_id = None, cq_models = None, cq_rate_limit_override = None, cq_token_budget = None\<rparr>"

definition demo_draw :: "string \<Rightarrow> draw" where
  "demo_draw x = \<lparr>dr_id = x, dr_uuid = ''a-'' @ x, dr_now = 1\<rparr>"

definition demo_table :: table where
  "demo_table = [issued (\<lambda>x. x) (demo_draw ''k1'') demo_key_request, issued (\<lambda>x. x) (demo_draw ''k2'') demo_key_request]"

lemmas key_demo = key_env_demo_def demo_key_request_def demo_draw_def demo_table_def issued_def hash_api_key_def
  KEY_HASH_PREFIX_def generate_api_key_def

lemma demo_table_facts:
  "backend_ok (Postgres demo_table)" "all_hashed (backend_rows (Postgres demo_table))"
  "find_row i demo_table = (if i = ''k1'' then Some (issued (\<lambda>x. x) (demo_draw ''k1'') demo_key_request)
     else if i = ''k2'' then Some (issued (\<lambda>x. x) (demo_draw ''k2'') demo_key_request) else None)"
  by (auto simp: backend_ok_def table_ok_def all_hashed_def is_hashed_def starts_with_def find_row_def ran_def key_demo split: if_splits)

lemma ran_two: "a \<noteq> b \<Longrightarrow> ran (\<lambda>i. if i = a then Some x else if i = b then Some y else None) = {x, y}"
  by (auto simp: ran_def split: if_splits)

lemma demo_ran:
  "ran (backend_rows (Postgres demo_table)) =
     {issued (\<lambda>x. x) (demo_draw ''k1'') demo_key_request, issued (\<lambda>x. x) (demo_draw ''k2'') demo_key_request}"
  by (simp add: demo_table_facts(3) ran_two)

lemma demo_secret: "secret_of (demo_draw ''k1'') = ''sk-ak1''" "secret_of (demo_draw ''k2'') = ''sk-ak2''" "secret_of (demo_draw ''k3'') = ''sk-ak3''"
  by (simp_all add: key_demo)

theorem key_backends_agree_witness:
  "\<exists>r. fst (backend_validate key_env_demo 5 ''sk-ak1''
     (fold (backend_exec key_env_demo) [Create_op (demo_draw ''k1'') demo_key_request, Validate_op 3 ''sk-x''] (Sqlite []))) = Ok (Some r)"
  using key_backends_agree [of key_env_demo "[Create_op (demo_draw ''k1'') demo_key_request, Validate_op 3 ''sk-x'']" "Sqlite []" 5 "''sk-ak1''"]
  by (simp add: key_demo ran_def accepts_def unexpired_def)

theorem issued_key_authenticates_witness:
  "fst (backend_validate key_env_demo 5 ''sk-ak3'' (snd (backend_create key_env_demo (demo_draw ''k3'') demo_key_request (Postgres demo_table)))) =
     Ok (Some (mask_stored (touched 5 (issued (\<lambda>x. x) (demo_draw ''k3'') demo_key_request))))"
proof -
  have "orderly (kv_sha key_env_demo) (kv_parse_uuid key_env_demo) (Create_op (demo_draw ''k3'') demo_key_request)
      (backend_rows (Postgres demo_table))"
    unfolding orderly.simps demo_ran by (simp add: demo_table_facts(3)) (simp add: key_demo)
  moreover have "unexpired 5 (issued (kv_sha key_env_demo) (demo_draw ''k3'') demo_key_request)" by (simp add: unexpired_def key_demo)
  moreover have "kv_sha key_env_demo = (\<lambda>x. x)" by (simp add: key_env_demo_def)
  ultimately show ?thesis
    using issued_key_authenticates [OF demo_table_facts(1,2), of key_env_demo "demo_draw ''k3''" demo_key_request 5, OF _ _ prod.collapse [symmetric]]
    by (simp add: demo_secret)
qed

lemma demo_validate_k2:
  "fst (backend_validate key_env_demo 5 ''sk-ak2'' (fold (backend_exec key_env_demo) [Revoke_op ''k1''] (Postgres demo_table))) =
     Ok (Some (mask_stored (touched 5 (issued (\<lambda>x. x) (demo_draw ''k2'') demo_key_request))))"
  by (simp add: pg_revoke_def pg_validate_def Let_def commit_def update_where_def unexpired_def pg_opens_def key_demo table_ok_def
      pg_into_def mask_stored_def touched_def)



end
