(* ===== verification/Authentication.thy ===== *)
theory Authentication
  imports Key_Lifecycle Request_Audit Request_Plugins
begin

unbundle bit_operations_syntax

text \<open>
  Authentication of callers: the API-key middleware (\<^verbatim>\<open>himadri-admin/src/middleware.rs\<close>), JWT claims, the break-glass
  administrator login and OIDC key sets (\<^verbatim>\<open>himadri-auth\<close>), and the combined middleware in front of the gateway
  (\<^verbatim>\<open>himadri/src/combined_auth.rs\<close>). Encoding and checking signed tokens is the \<^verbatim>\<open>jsonwebtoken\<close> crate and stays an
  argument, as do the reading of JSON numbers and the fetching of documents.
\<close>

section \<open>Comparing secrets\<close>

definition as_bytes :: "string \<Rightarrow> u8 list" where
  "as_bytes s = map of_char s"

definition constant_time_eq :: "u8 list \<Rightarrow> u8 list \<Rightarrow> bool" where
  "constant_time_eq a b =
     (if length a \<noteq> length b then False
      else fold (\<lambda>(x, y) result. result OR (x XOR y)) (zip a b) 0 = 0)"

definition ct_eq :: "u8 list \<Rightarrow> u8 list \<Rightarrow> bool" where
  "ct_eq a b =
     (let get = (\<lambda>xs i. if i < length xs then xs ! i else 0);
          diff = (ucast ((of_nat (length a) :: u64) XOR of_nat (length b)) :: u8)
      in fold (\<lambda>i diff. diff OR (get a i XOR get b i)) [0..<max (length a) (length b)] diff = 0)"

section \<open>API-key middleware\<close>

record AuthMiddleware =
  mw_store :: StoreBackend
  mw_master_key :: "string option"

definition is_bypass :: "AuthMiddleware \<Rightarrow> bool" where
  "is_bypass mw = (mw_master_key mw = None)"

definition key_context :: "ApiKey \<Rightarrow> AuthContext" where
  "key_context key =
     \<lparr>au_api_key = ''key:'' @ ak_id key, au_key_id = Some (ak_id key),
      au_scope = (if ''admin'' \<in> set (ak_scopes key) then Admin_scope
                  else if ''read-only'' \<in> set (ak_scopes key) then ReadOnly_scope else ApiKey_scope),
      au_org_id = ak_org_id key, au_team_id = ak_team_id key, au_user_id = ak_user_id key,
      au_rate_limit_override = ak_rate_limit_override key, au_roles = ak_scopes key,
      au_budget_limit_usd = Option.bind (ak_token_budget key) otb_cost_limit_per_month\<rparr>"

definition master_context :: AuthContext where
  "master_context =
     \<lparr>au_api_key = ''master'', au_key_id = None, au_scope = Admin_scope, au_org_id = None, au_team_id = None,
      au_user_id = None, au_rate_limit_override = None, au_roles = [''admin''], au_budget_limit_usd = None\<rparr>"

definition authenticate ::
    "key_env \<Rightarrow> datetime \<Rightarrow> string \<Rightarrow> AuthMiddleware \<Rightarrow> (unit, AuthContext option) result \<times> AuthMiddleware" where
  "authenticate ev now api_key mw =
     (if (case mw_master_key mw of Some master_key \<Rightarrow> constant_time_eq (as_bytes api_key) (as_bytes master_key) | None \<Rightarrow> False)
      then (Ok (Some master_context), mw)
      else (case backend_validate ev now api_key (mw_store mw) of
              (Ok (Some key), st) \<Rightarrow> (Ok (Some (key_context key)), mw\<lparr>mw_store := st\<rparr>)
            | (Ok None, st) \<Rightarrow> (Ok None, mw\<lparr>mw_store := st\<rparr>)
            | (Err _, st) \<Rightarrow> (Err (), mw\<lparr>mw_store := st\<rparr>)))"

text \<open>A middleware forwards the request with its caller, or answers with a status and a message.\<close>

type_synonym verdict = "(nat \<times> string, AuthContext) result"

definition bearer :: "string option \<Rightarrow> string option" where
  "bearer header = Option.bind header (strip_prefix ''Bearer '')"

definition key_middleware :: "key_env \<Rightarrow> datetime \<Rightarrow> string option \<Rightarrow> AuthMiddleware \<Rightarrow> verdict \<times> AuthMiddleware" where
  "key_middleware ev now header mw =
     (if is_bypass mw then (Ok auth_anonymous, mw)
      else case bearer header of
             None \<Rightarrow> (Err (401, ''invalid or missing bearer token''), mw)
           | Some api_key \<Rightarrow>
               (case authenticate ev now api_key mw of
                  (Ok (Some ctx), mw) \<Rightarrow> (Ok ctx, mw)
                | (Ok None, mw) \<Rightarrow> (Err (401, ''invalid or missing bearer token''), mw)
                | (Err _, mw) \<Rightarrow> (Err (500, ''internal server error''), mw)))"

section \<open>JWT claims\<close>

record JwtClaims =
  jc_sub :: string
  jc_iss :: string
  jc_aud :: string
  jc_exp :: u64
  jc_iat :: u64
  jc_nbf :: "u64 option"
  jc_jti :: "string option"
  jc_scope :: "string option"
  jc_org_id :: "string option"
  jc_team_id :: "string option"
  jc_email :: "string option"
  jc_email_verified :: "bool option"
  jc_roles :: "string list option"
  jc_rate_limit_rpm :: "u64 option"
  jc_budget_limit_usd :: "rat option"
  jc_custom :: "(string, json) al"

fun deserialize_aud :: "(json \<Rightarrow> string) \<Rightarrow> json \<Rightarrow> string" where
  "deserialize_aud show_json (JStr s) = s"
| "deserialize_aud show_json (JArr arr) = join '','' (map (\<lambda>v. case v of JStr s \<Rightarrow> s | other \<Rightarrow> show_json other) arr)"
| "deserialize_aud show_json JNull = []"
| "deserialize_aud show_json other = show_json other"

fun deserialize_optional_u64 :: "(rat \<Rightarrow> u64 option) \<Rightarrow> (string \<Rightarrow> u64 option) \<Rightarrow> json \<Rightarrow> u64 option" where
  "deserialize_optional_u64 as_u64 parse JNull = None"
| "deserialize_optional_u64 as_u64 parse (JNum n) = as_u64 n"
| "deserialize_optional_u64 as_u64 parse (JStr s) = parse s"
| "deserialize_optional_u64 as_u64 parse _ = None"

fun deserialize_optional_f64 :: "(rat \<Rightarrow> rat option) \<Rightarrow> (string \<Rightarrow> rat option) \<Rightarrow> json \<Rightarrow> rat option" where
  "deserialize_optional_f64 as_f64 parse JNull = None"
| "deserialize_optional_f64 as_f64 parse (JNum n) = as_f64 n"
| "deserialize_optional_f64 as_f64 parse (JStr s) = parse s"
| "deserialize_optional_f64 as_f64 parse _ = None"

definition is_expired :: "u64 \<Rightarrow> JwtClaims \<Rightarrow> bool" where
  "is_expired now c = (jc_exp c < now)"

definition is_not_yet_valid :: "u64 \<Rightarrow> JwtClaims \<Rightarrow> bool" where
  "is_not_yet_valid now c = (case jc_nbf c of Some nbf \<Rightarrow> now < nbf | None \<Rightarrow> False)"

definition jwt_scopes :: "JwtClaims \<Rightarrow> string list" where
  "jwt_scopes c = (case jc_scope c of Some s \<Rightarrow> split_whitespace s | None \<Rightarrow> [])"

definition project_roles :: "string \<times> json \<Rightarrow> string list" where
  "project_roles = (\<lambda>(key, v).
     if starts_with ''urn:zitadel:iam:org:project:'' key \<and> ends_with '':roles'' key
     then (case as_obj v of Some m \<Rightarrow> map fst m | None \<Rightarrow> []) else [])"

definition jwt_roles :: "JwtClaims \<Rightarrow> string list" where
  "jwt_roles c = remdups_adj (sort (fold (\<lambda>kv roles. roles @ project_roles kv) (jc_custom c) (unwrap_or (jc_roles c) [])))"

definition div_ceil :: "u64 \<Rightarrow> u64 \<Rightarrow> u64" where
  "div_ceil a b = (if a mod b = 0 then a div b else a div b + 1)"

definition into_auth_context :: "JwtClaims \<Rightarrow> AuthContext" where
  "into_auth_context c =
     (let roles = jwt_roles c; scopes = jwt_scopes c;
          is_admin = (\<exists>r\<in>set roles. r = ''admin'' \<or> r = ''gateway-admin'') \<or> ''admin'' \<in> set scopes;
          is_readonly = (\<exists>r\<in>set roles. r = ''read-only'' \<or> r = ''readonly'' \<or> r = ''read'') \<or> ''read'' \<in> set scopes
      in \<lparr>au_api_key = ''jwt:'' @ jc_sub c, au_key_id = Some (jc_sub c),
          au_scope = (if is_admin then Admin_scope else if is_readonly then ReadOnly_scope else ApiKey_scope),
          au_org_id = jc_org_id c, au_team_id = jc_team_id c, au_user_id = Some (jc_sub c),
          au_rate_limit_override = map_option (\<lambda>rpm. \<lparr>ro_requests_per_second = Some (div_ceil rpm 60), ro_burst_size = Some rpm\<rparr>)
            (jc_rate_limit_rpm c),
          au_roles = roles, au_budget_limit_usd = jc_budget_limit_usd c\<rparr>)"

section \<open>Break-glass login\<close>

definition DEV_ADMIN_ISSUER :: string where
  "DEV_ADMIN_ISSUER = ''himadri:dev-admin-login''"

definition DEV_ADMIN_AUDIENCE :: string where
  "DEV_ADMIN_AUDIENCE = ''himadri:dashboard''"

definition DEFAULT_TTL_SECS :: u64 where
  "DEFAULT_TTL_SECS = 12 * 60 * 60"

datatype AuthError =
    InvalidToken string | ExpiredToken | InvalidSignature | InvalidAudience | InvalidIssuer
  | OidcDiscoveryFailed string | JwksFetchFailed string | Network_auth string | Config_auth string

text \<open>What the code asks of the token library: the algorithm, the accepted issuer and audience, the leeway in seconds and
  whether the not-before time is checked.\<close>

datatype Algorithm = HS256 | HS384 | HS512 | ES256 | ES384 | RS256 | RS384 | RS512 | PS256 | PS384 | PS512 | EdDSA

record Validation =
  vd_algorithm :: Algorithm
  vd_issuer :: string
  vd_audience :: string
  vd_leeway :: u64
  vd_validate_nbf :: bool

record 'sec AdminLogin =
  lg_username :: string
  lg_password :: string
  lg_ttl_secs :: u64
  lg_secret :: 'sec

record IssuedAdminToken =
  it_access_token :: string
  it_token_type :: string
  it_expires_in :: u64

definition admin_login_new :: "string \<Rightarrow> string \<Rightarrow> u64 \<Rightarrow> 'sec \<Rightarrow> 'sec AdminLogin" where
  "admin_login_new username password ttl_secs secret =
     \<lparr>lg_username = username, lg_password = password, lg_ttl_secs = ttl_secs, lg_secret = secret\<rparr>"

definition admin_login_from_env ::
    "(string \<Rightarrow> u64 option) \<Rightarrow> (string \<rightharpoonup> string) \<Rightarrow> 'sec \<Rightarrow> 'sec AdminLogin option" where
  "admin_login_from_env parse env secret =
     (case env ''DEV_ADMIN_PASSWORD'' of
        None \<Rightarrow> None
      | Some password \<Rightarrow>
          if trim password = [] then None
          else (let username = unwrap_or (env ''DEV_ADMIN_USERNAME'') ''admin'';
                    ttl_secs = (case Option.bind (env ''DEV_ADMIN_TOKEN_TTL_SECS'') parse of
                                  Some t \<Rightarrow> if 0 < t then t else DEFAULT_TTL_SECS | None \<Rightarrow> DEFAULT_TTL_SECS)
                in Some (admin_login_new username password ttl_secs secret)))"

definition verify :: "string \<Rightarrow> string \<Rightarrow> 'sec AdminLogin \<Rightarrow> bool" where
  "verify username password lg =
     (let user_ok = ct_eq (as_bytes username) (as_bytes (lg_username lg));
          pass_ok = ct_eq (as_bytes password) (as_bytes (lg_password lg))
      in user_ok \<and> pass_ok)"

definition admin_claims :: "u64 \<Rightarrow> 'sec AdminLogin \<Rightarrow> JwtClaims" where
  "admin_claims now lg =
     \<lparr>jc_sub = lg_username lg, jc_iss = DEV_ADMIN_ISSUER, jc_aud = DEV_ADMIN_AUDIENCE, jc_exp = now + lg_ttl_secs lg,
      jc_iat = now, jc_nbf = None, jc_jti = None, jc_scope = None, jc_org_id = None, jc_team_id = None, jc_email = None,
      jc_email_verified = None, jc_roles = Some [''admin''], jc_rate_limit_rpm = None, jc_budget_limit_usd = None,
      jc_custom = []\<rparr>"

definition issue ::
    "(Algorithm \<Rightarrow> 'sec \<Rightarrow> JwtClaims \<Rightarrow> (string, string) result) \<Rightarrow> u64 \<Rightarrow> 'sec AdminLogin \<Rightarrow> (AuthError, IssuedAdminToken) result" where
  "issue encode now lg =
     (case encode HS256 (lg_secret lg) (admin_claims now lg) of
        Err e \<Rightarrow> Err (InvalidToken e)
      | Ok access_token \<Rightarrow>
          Ok \<lparr>it_access_token = access_token, it_token_type = ''Bearer'', it_expires_in = lg_ttl_secs lg\<rparr>)"

definition admin_validation :: Validation where
  "admin_validation =
     \<lparr>vd_algorithm = HS256, vd_issuer = DEV_ADMIN_ISSUER, vd_audience = DEV_ADMIN_AUDIENCE, vd_leeway = 30, vd_validate_nbf = False\<rparr>"

definition admin_validate ::
    "('sec \<Rightarrow> Validation \<Rightarrow> string \<Rightarrow> (string, JwtClaims) result) \<Rightarrow> string \<Rightarrow> 'sec AdminLogin \<Rightarrow> (AuthError, JwtClaims) result" where
  "admin_validate decode token lg = map_err InvalidToken (decode (lg_secret lg) admin_validation token)"


section \<open>OIDC key sets\<close>

datatype KeyAlgorithm =
    K_RS256 | K_RS384 | K_RS512 | K_PS256 | K_PS384 | K_PS512 | K_ES256 | K_ES384 | K_EdDSA | K_other string

datatype EllipticCurve = P256 | P384 | Curve_other string

datatype AlgorithmParameters = RSA | EllipticCurve_params EllipticCurve | OctetKeyPair | OctetKey

record 'k Jwk =
  jwk_key_id :: "string option"
  jwk_key_algorithm :: "KeyAlgorithm option"
  jwk_algorithm :: AlgorithmParameters
  jwk_material :: 'k

fun key_algorithm :: "KeyAlgorithm \<Rightarrow> Algorithm option" where
  "key_algorithm K_RS256 = Some RS256"
| "key_algorithm K_RS384 = Some RS384"
| "key_algorithm K_RS512 = Some RS512"
| "key_algorithm K_PS256 = Some PS256"
| "key_algorithm K_PS384 = Some PS384"
| "key_algorithm K_PS512 = Some PS512"
| "key_algorithm K_ES256 = Some ES256"
| "key_algorithm K_ES384 = Some ES384"
| "key_algorithm K_EdDSA = Some EdDSA"
| "key_algorithm (K_other _) = None"

definition algorithm_for_jwk :: "'k Jwk \<Rightarrow> Algorithm option" where
  "algorithm_for_jwk jwk =
     (case jwk_key_algorithm jwk of
        Some alg \<Rightarrow> key_algorithm alg
      | None \<Rightarrow>
          (case jwk_algorithm jwk of
             RSA \<Rightarrow> Some RS256
           | EllipticCurve_params P256 \<Rightarrow> Some ES256
           | EllipticCurve_params P384 \<Rightarrow> Some ES384
           | EllipticCurve_params _ \<Rightarrow> None
           | OctetKeyPair \<Rightarrow> Some EdDSA
           | OctetKey \<Rightarrow> None))"

record 'k OidcDiscovery =
  od_issuer :: string
  od_audience :: string
  od_jwks_uri :: string
  od_jwks :: "'k Jwk list"
  od_last_refresh :: nat

text \<open>The library's failures as far as the code tells them apart.\<close>

datatype DecodeError = ExpiredSignature_kind | InvalidSignature_kind | InvalidAudience_kind | InvalidIssuer_kind | Other_kind string

fun auth_error_of :: "DecodeError \<Rightarrow> AuthError" where
  "auth_error_of ExpiredSignature_kind = ExpiredToken"
| "auth_error_of InvalidSignature_kind = InvalidSignature"
| "auth_error_of InvalidAudience_kind = InvalidAudience"
| "auth_error_of InvalidIssuer_kind = InvalidIssuer"
| "auth_error_of (Other_kind e) = InvalidToken e"

record 'k token_lib =
  tl_decode_header :: "string \<Rightarrow> (string, string option) result"
  tl_decoding_key :: "'k Jwk \<Rightarrow> (string, 'k) result"
  tl_decode :: "'k \<Rightarrow> Validation \<Rightarrow> string \<Rightarrow> (DecodeError, JwtClaims) result"

definition oidc_validation :: "'k OidcDiscovery \<Rightarrow> Algorithm \<Rightarrow> Validation" where
  "oidc_validation d algorithm =
     \<lparr>vd_algorithm = algorithm, vd_issuer = od_issuer d, vd_audience = od_audience d, vd_leeway = 60, vd_validate_nbf = True\<rparr>"

definition validate_token :: "'k token_lib \<Rightarrow> string \<Rightarrow> 'k OidcDiscovery \<Rightarrow> (AuthError, JwtClaims) result" where
  "validate_token lib token d =
     (case tl_decode_header lib token of
        Err e \<Rightarrow> Err (InvalidToken e)
      | Ok None \<Rightarrow> Err (InvalidToken ''missing kid in header'')
      | Ok (Some kid) \<Rightarrow>
          (case find (\<lambda>k. jwk_key_id k = Some kid) (od_jwks d) of
             None \<Rightarrow> Err (InvalidToken (''key not found: '' @ kid))
           | Some jwk \<Rightarrow>
               (case algorithm_for_jwk jwk of
                  None \<Rightarrow> Err (InvalidToken (''unsupported JWK algorithm for kid '' @ kid))
                | Some algorithm \<Rightarrow>
                    (case tl_decoding_key lib jwk of
                       Err e \<Rightarrow> Err (InvalidToken e)
                     | Ok key \<Rightarrow> map_err auth_error_of (tl_decode lib key (oidc_validation d algorithm) token)))))"

text \<open>Fetching a key set is an argument that yields the document's keys or a failure.\<close>

definition oidc_from_parts :: "nat \<Rightarrow> string \<Rightarrow> string \<Rightarrow> 'k Jwk list \<Rightarrow> 'k OidcDiscovery" where
  "oidc_from_parts now issuer audience keys =
     \<lparr>od_issuer = issuer, od_audience = audience, od_jwks_uri = [], od_jwks = keys, od_last_refresh = now\<rparr>"

definition oidc_new ::
    "(string \<Rightarrow> (AuthError, string) result) \<Rightarrow> (string \<Rightarrow> (AuthError, 'k Jwk list) result) \<Rightarrow> nat \<Rightarrow>
     string \<Rightarrow> string \<Rightarrow> string option \<Rightarrow> (AuthError, 'k OidcDiscovery) result" where
  "oidc_new discover fetch_jwks now issuer audience jwks_uri =
     (case (case jwks_uri of Some uri \<Rightarrow> Ok uri | None \<Rightarrow> discover (issuer @ ''/.well-known/openid-configuration'')) of
        Err e \<Rightarrow> Err e
      | Ok uri \<Rightarrow>
          (case fetch_jwks uri of
             Err e \<Rightarrow> Err e
           | Ok keys \<Rightarrow>
               Ok \<lparr>od_issuer = issuer, od_audience = audience, od_jwks_uri = uri, od_jwks = keys, od_last_refresh = now\<rparr>))"

definition refresh_jwks ::
    "(string \<Rightarrow> (AuthError, 'k Jwk list) result) \<Rightarrow> nat \<Rightarrow> 'k OidcDiscovery \<Rightarrow> (AuthError, unit) result \<times> 'k OidcDiscovery" where
  "refresh_jwks fetch_jwks now d =
     (case fetch_jwks (od_jwks_uri d) of
        Err e \<Rightarrow> (Err e, d)
      | Ok keys \<Rightarrow> (Ok (), d\<lparr>od_jwks := keys, od_last_refresh := now\<rparr>))"

definition refresh_if_needed ::
    "(string \<Rightarrow> (AuthError, 'k Jwk list) result) \<Rightarrow> nat \<Rightarrow> duration \<Rightarrow> 'k OidcDiscovery \<Rightarrow> (AuthError, unit) result \<times> 'k OidcDiscovery" where
  "refresh_if_needed fetch_jwks now interval d =
     (if interval < now - od_last_refresh d then refresh_jwks fetch_jwks now d else (Ok (), d))"

definition get_or_create_discovery ::
    "(string \<Rightarrow> (AuthError, string) result) \<Rightarrow> (string \<Rightarrow> (AuthError, 'k Jwk list) result) \<Rightarrow> nat \<Rightarrow>
     string \<Rightarrow> string \<Rightarrow> string option \<Rightarrow> (string \<rightharpoonup> 'k OidcDiscovery) \<Rightarrow> (AuthError, 'k OidcDiscovery) result \<times> (string \<rightharpoonup> 'k OidcDiscovery)" where
  "get_or_create_discovery discover fetch_jwks now issuer audience jwks_uri cache =
     (let cache_key = issuer @ ''|'' @ audience
      in case cache cache_key of
           Some discovery \<Rightarrow> (Ok discovery, cache)
         | None \<Rightarrow>
             (case oidc_new discover fetch_jwks now issuer audience jwks_uri of
                Err e \<Rightarrow> (Err e, cache)
              | Ok discovery \<Rightarrow> (Ok discovery, cache(cache_key \<mapsto> discovery))))"

section \<open>Combined middleware\<close>

definition required_roles_of :: "(string \<rightharpoonup> string) \<Rightarrow> string list" where
  "required_roles_of env =
     (case env ''JWT_REQUIRED_ROLES'' of
        Some v \<Rightarrow> filter (\<lambda>s. s \<noteq> []) (map trim (split_char (CHR '','') v))
      | None \<Rightarrow> [])"

definition enforce_required_roles :: "string list \<Rightarrow> AuthContext \<Rightarrow> bool" where
  "enforce_required_roles required ctx = (required = [] \<or> has_any_role ctx required)"

definition looks_like_jwt :: "string \<Rightarrow> bool" where
  "looks_like_jwt token =
     (case split_char (CHR ''.'') token of
        [a, b, c] \<Rightarrow> a \<noteq> [] \<and> b \<noteq> [] \<and> c \<noteq> []
      | _ \<Rightarrow> False)"

record ('k, 'sec) CombinedAuth =
  ca_api_key :: AuthMiddleware
  ca_jwt :: "'k OidcDiscovery option"
  ca_admin_login :: "'sec AdminLogin option"
  ca_audit :: "AuditLog option"

text \<open>The arguments of one request: the clocks, the token library and the required roles.\<close>

record ('k, 'sec) auth_env =
  ve_keys :: key_env
  ve_now :: datetime
  ve_nanos :: string
  ve_lib :: "'k token_lib"
  ve_admin_decode :: "'sec \<Rightarrow> Validation \<Rightarrow> string \<Rightarrow> (string, JwtClaims) result"
  ve_required_roles :: "string list"

definition audit_failure ::
    "('k, 'sec) auth_env \<Rightarrow> AuditStatus \<Rightarrow> string \<Rightarrow> string option \<Rightarrow> AuthContext option \<Rightarrow> ('k, 'sec) CombinedAuth \<Rightarrow> ('k, 'sec) CombinedAuth" where
  "audit_failure ve status reason remote_ip ctx ca =
     ca\<lparr>ca_audit := map_option (log_auth_failure (ve_nanos ve) (ve_now ve) status reason remote_ip
           (Option.bind ctx au_user_id) (Option.bind ctx au_key_id)) (ca_audit ca)\<rparr>"

definition lacks_role ::
    "('k, 'sec) auth_env \<Rightarrow> string option \<Rightarrow> AuthContext \<Rightarrow> ('k, 'sec) CombinedAuth \<Rightarrow> verdict \<times> ('k, 'sec) CombinedAuth" where
  "lacks_role ve remote_ip ctx ca =
     (Err (403, ''principal lacks a required role''),
      audit_failure ve Forbidden_status ''principal lacks a required role'' remote_ip (Some ctx) ca)"

definition api_key_path ::
    "('k, 'sec) auth_env \<Rightarrow> string option \<Rightarrow> string \<Rightarrow> ('k, 'sec) CombinedAuth \<Rightarrow> verdict \<times> ('k, 'sec) CombinedAuth" where
  "api_key_path ve remote_ip token ca =
     (case authenticate (ve_keys ve) (ve_now ve) token (ca_api_key ca) of
        (Ok (Some ctx), mw) \<Rightarrow>
          (let ca = ca\<lparr>ca_api_key := mw\<rparr>
           in if enforce_required_roles (ve_required_roles ve) ctx then (Ok ctx, ca) else lacks_role ve remote_ip ctx ca)
      | (Ok None, mw) \<Rightarrow>
          (Err (401, ''invalid or missing bearer token''),
           audit_failure ve Unauthorized_status ''invalid or unknown token'' remote_ip None (ca\<lparr>ca_api_key := mw\<rparr>))
      | (Err _, mw) \<Rightarrow> (Err (500, ''internal server error''), ca\<lparr>ca_api_key := mw\<rparr>))"

definition break_glass :: "('k, 'sec) auth_env \<Rightarrow> string \<Rightarrow> ('k, 'sec) CombinedAuth \<Rightarrow> JwtClaims option" where
  "break_glass ve token ca =
     (case ca_admin_login ca of
        Some lg \<Rightarrow>
          if looks_like_jwt token
          then (case admin_validate (ve_admin_decode ve) token lg of Ok claims \<Rightarrow> Some claims | Err _ \<Rightarrow> None) else None
      | None \<Rightarrow> None)"

definition oidc_login :: "('k, 'sec) auth_env \<Rightarrow> string \<Rightarrow> ('k, 'sec) CombinedAuth \<Rightarrow> JwtClaims option" where
  "oidc_login ve token ca =
     (case ca_jwt ca of
        Some discovery \<Rightarrow>
          if looks_like_jwt token
          then (case validate_token (ve_lib ve) token discovery of Ok claims \<Rightarrow> Some claims | Err _ \<Rightarrow> None) else None
      | None \<Rightarrow> None)"

definition combined_middleware ::
    "('k, 'sec) auth_env \<Rightarrow> string option \<Rightarrow> string option \<Rightarrow> ('k, 'sec) CombinedAuth \<Rightarrow> verdict \<times> ('k, 'sec) CombinedAuth" where
  "combined_middleware ve remote_ip header ca =
     (if ca_jwt ca = None \<and> ca_admin_login ca = None \<and> is_bypass (ca_api_key ca) then (Ok auth_anonymous, ca)
      else case bearer header of
             None \<Rightarrow>
               (Err (401, ''invalid or missing bearer token''),
                audit_failure ve Unauthorized_status ''missing bearer token'' remote_ip None ca)
           | Some token \<Rightarrow>
               (case break_glass ve token ca of
                  Some claims \<Rightarrow> (Ok (into_auth_context claims), ca)
                | None \<Rightarrow>
                    (case oidc_login ve token ca of
                       Some claims \<Rightarrow>
                         (let ctx = into_auth_context claims
                          in if enforce_required_roles (ve_required_roles ve) ctx then (Ok ctx, ca)
                             else lacks_role ve remote_ip ctx ca)
                     | None \<Rightarrow> api_key_path ve remote_ip token ca)))"

end
