(* ===== verification/Auth_Properties.thy ===== *)
theory Auth_Properties
  imports Authentication
begin

text \<open>
  What authentication guarantees: secrets are compared exactly, only a valid credential gets in, refusals are audited,
  issuer tokens are checked with pinned settings, claims become roles and rates exactly, and break-glass tokens
  work. One lemma shows where the break-glass comparison is too generous.
\<close>

unbundle bit_operations_syntax

section \<open>Secrets are compared exactly\<close>

lemma xor_zero: "x XOR y = 0 \<longleftrightarrow> x = (y :: u8)"
  by (auto simp: bit_eq_iff bit_xor_iff)

lemma or_zero: "x OR y = 0 \<longleftrightarrow> x = 0 \<and> y = (0 :: u8)"
  by (auto simp: bit_eq_iff bit_or_iff)

lemma fold_diff: "fold (\<lambda>i d. d OR (f i XOR g i)) is acc = (0 :: u8) \<longleftrightarrow> acc = 0 \<and> (\<forall>i\<in>set is. f i = g i)"
  by (induction "is" arbitrary: acc) (auto simp: or_zero xor_zero)

lemma of_char_u8_inj: "(of_char c :: u8) = of_char d \<Longrightarrow> c = d"
proof -
  assume eq: "(of_char c :: u8) = of_char d"
  have "unat (of_char c :: u8) = of_char c" for c :: char
    by (subst of_nat_of_char [symmetric]) (simp add: unat_of_nat)
  then show ?thesis using eq by (metis of_char_eq_iff)
qed

lemma as_bytes_inj: "as_bytes a = as_bytes b \<longleftrightarrow> a = b"
  by (auto simp: as_bytes_def dest: of_char_u8_inj intro: map_injective [of of_char] injI)

lemma constant_time_eq_iff: "constant_time_eq a b \<longleftrightarrow> a = b"
proof (cases "length a = length b")
  case True
  have "fold (\<lambda>(x, y) result. result OR (x XOR y)) (zip a b) 0 = (0 :: u8) \<longleftrightarrow> (\<forall>p\<in>set (zip a b). fst p = snd p)"
    using fold_diff [of fst snd "zip a b" 0] by (simp add: case_prod_unfold)
  also have "\<dots> \<longleftrightarrow> a = b"
    using True by (simp add: list_eq_iff_zip_eq case_prod_beta)
  finally show ?thesis using True by (simp add: constant_time_eq_def)
qed (auto simp: constant_time_eq_def)

lemma authenticate_exact:
  "authenticate ev now token mw =
     (if mw_master_key mw = Some token then (Ok (Some master_context), mw)
      else map_prod (\<lambda>r. case r of Ok found \<Rightarrow> Ok (map_option key_context found) | Err _ \<Rightarrow> Err ()) (\<lambda>st. mw\<lparr>mw_store := st\<rparr>)
             (backend_validate ev now token (mw_store mw)))"
proof -
  have "(case mw_master_key mw of Some master_key \<Rightarrow> constant_time_eq (as_bytes token) (as_bytes master_key) | None \<Rightarrow> False)
      = (mw_master_key mw = Some token)"
    by (auto simp: constant_time_eq_iff as_bytes_inj split: option.split)
  then show ?thesis
    by (cases "backend_validate ev now token (mw_store mw)") (auto simp: authenticate_def split: sum.split option.split)
qed

text \<open>The check of the master key is string equality, in whatever time.\<close>

theorem master_key_exact:
  assumes "mw_master_key mw = Some master" "fst (authenticate ev now token mw) = Ok (Some ctx)"
    and "au_api_key ctx = ''master''"
  shows "token = master \<and> ctx = master_context \<and> snd (authenticate ev now token mw) = mw"
proof -
  have "au_api_key (key_context key) \<noteq> ''master''" for key by (simp add: key_context_def)
  with assms show ?thesis
    by (cases "fst (backend_validate ev now token (mw_store mw))") (auto simp: authenticate_exact split: if_splits)
qed

lemma length_byte: "(ucast (of_nat n :: u64) :: u8) = of_nat n"
  by (simp add: unsigned_of_nat word_of_nat_eq_iff)

lemma ct_eq_iff:
  assumes "length a < 256" "length b < 256"
  shows "ct_eq a b \<longleftrightarrow> a = b"
proof -
  let ?get = "\<lambda>xs i. if i < length xs then xs ! i else (0 :: u8)"
  have "(ucast ((of_nat (length a) :: u64) XOR of_nat (length b)) :: u8) = 0 \<longleftrightarrow> length a = length b"
  proof
    assume "(ucast ((of_nat (length a) :: u64) XOR of_nat (length b)) :: u8) = 0"
    then have "(of_nat (length a) :: u8) XOR of_nat (length b) = 0"
      by (simp add: unsigned_xor_eq length_byte)
    then have "(of_nat (length a) :: u8) = of_nat (length b)" by (simp add: xor_zero)
    then have "unat (of_nat (length a) :: u8) = unat (of_nat (length b) :: u8)" by simp
    then show "length a = length b" using assms by (simp add: unat_of_nat)
  qed simp
  then have "ct_eq a b \<longleftrightarrow> length a = length b \<and> (\<forall>i\<in>{0..<max (length a) (length b)}. ?get a i = ?get b i)"
    by (simp add: ct_eq_def Let_def fold_diff)
  also have "\<dots> \<longleftrightarrow> a = b"
  proof
    assume "length a = length b \<and> (\<forall>i\<in>{0..<max (length a) (length b)}. ?get a i = ?get b i)"
    then show "a = b" by (intro nth_equalityI) auto
  qed simp
  finally show ?thesis .
qed

text \<open>The length difference is cut to one byte, so a secret padded with 256 zero bytes still passes.\<close>

lemma ct_eq_accepts_padding: "length a < 256 \<Longrightarrow> ct_eq (a @ replicate 256 0) a"
proof -
  have "(ucast ((of_nat (length a + 256) :: u64) XOR of_nat (length a)) :: u8) = 0"
    by (simp only: unsigned_xor_eq length_byte xor_zero word_of_nat_eq_iff take_bit_eq_mod) simp
  then show ?thesis by (simp add: ct_eq_def Let_def fold_diff nth_append)
qed


section \<open>Who gets in\<close>

lemma authenticate_Ok:
  assumes "fst (authenticate ev now token mw) = Ok (Some ctx)"
  shows "mw_master_key mw = Some token \<and> ctx = master_context
    \<or> (\<exists>key. fst (backend_validate ev now token (mw_store mw)) = Ok (Some key) \<and> ctx = key_context key)"
  using assms
  by (cases "fst (backend_validate ev now token (mw_store mw))") (auto simp: authenticate_exact split: if_splits)

lemma api_key_path_Ok:
  assumes "api_key_path ve ip token ca = (Ok ctx, ca')"
  shows "fst (authenticate (ve_keys ve) (ve_now ve) token (ca_api_key ca)) = Ok (Some ctx)
    \<and> enforce_required_roles (ve_required_roles ve) ctx"
proof -
  obtain r mw where a: "authenticate (ve_keys ve) (ve_now ve) token (ca_api_key ca) = (r, mw)" by force
  with assms obtain found where r: "r = Ok found" by (cases r) (auto simp: api_key_path_def)
  with assms a obtain c where c: "found = Some c" by (cases found) (auto simp: api_key_path_def)
  have "(if enforce_required_roles (ve_required_roles ve) c then (Ok c, ca\<lparr>ca_api_key := mw\<rparr>) else lacks_role ve ip c (ca\<lparr>ca_api_key := mw\<rparr>))
      = (Ok ctx, ca')"
    using assms a r c by (simp add: api_key_path_def Let_def)
  then show ?thesis using a r c by (cases "enforce_required_roles (ve_required_roles ve) c") (simp_all add: lacks_role_def)
qed

lemma combined_admits:
  assumes "combined_middleware ve ip header ca = (Ok ctx, ca')"
  shows "ca_jwt ca = None \<and> ca_admin_login ca = None \<and> mw_master_key (ca_api_key ca) = None \<and> ctx = auth_anonymous \<and> ca' = ca
    \<or> (\<exists>token. bearer header = Some token \<and>
        ((\<exists>lg claims. ca_admin_login ca = Some lg \<and> admin_validate (ve_admin_decode ve) token lg = Ok claims
            \<and> ctx = into_auth_context claims)
         \<or> enforce_required_roles (ve_required_roles ve) ctx \<and>
           ((\<exists>d claims. ca_jwt ca = Some d \<and> validate_token (ve_lib ve) token d = Ok claims \<and> ctx = into_auth_context claims)
            \<or> mw_master_key (ca_api_key ca) = Some token \<and> ctx = master_context
            \<or> (\<exists>key. fst (backend_validate (ve_keys ve) (ve_now ve) token (mw_store (ca_api_key ca))) = Ok (Some key)
                \<and> ctx = key_context key))))"
proof (cases "ca_jwt ca = None \<and> ca_admin_login ca = None \<and> is_bypass (ca_api_key ca)")
  case True
  with assms show ?thesis by (auto simp: combined_middleware_def is_bypass_def)
next
  case False
  with assms obtain token where token: "bearer header = Some token"
    by (auto simp: combined_middleware_def split: option.splits)
  show ?thesis
  proof (cases "break_glass ve token ca")
    case (Some claims)
    with assms False token have "ctx = into_auth_context claims" by (simp add: combined_middleware_def)
    with Some token show ?thesis by (auto simp: break_glass_def split: option.splits if_splits sum.splits)
  next
    case None
    note glass = None
    show ?thesis
    proof (cases "oidc_login ve token ca")
      case (Some claims)
      with assms False token glass have "ctx = into_auth_context claims \<and> enforce_required_roles (ve_required_roles ve) ctx"
        by (auto simp: combined_middleware_def Let_def lacks_role_def split: if_splits)
      with Some token show ?thesis by (auto simp: oidc_login_def split: option.splits if_splits sum.splits)
    next
      case None
      with assms False token glass have "api_key_path ve ip token ca = (Ok ctx, ca')" by (simp add: combined_middleware_def)
      with api_key_path_Ok [OF this] authenticate_Ok token show ?thesis by blast
    qed
  qed
qed

text \<open>C4: A request reaches the gateway only with a valid credential: the anonymous administrator exists only where no form
  of authentication is configured; otherwise the bearer token is a valid break-glass token, or a valid token of
  the configured issuer, the master key, or a live stored key, and in the last three cases the caller holds one of
  the required roles.\<close>

theorem auth_admits_only_valid:
  assumes "combined_middleware ve ip header ca = (Ok ctx, ca')"
  shows "ca_jwt ca = None \<and> ca_admin_login ca = None \<and> mw_master_key (ca_api_key ca) = None \<and> ctx = auth_anonymous \<and> ca' = ca
    \<or> (\<exists>token. bearer header = Some token \<and>
        ((\<exists>lg claims. ca_admin_login ca = Some lg \<and> admin_validate (ve_admin_decode ve) token lg = Ok claims
            \<and> ctx = into_auth_context claims)
         \<or> enforce_required_roles (ve_required_roles ve) ctx \<and>
           ((\<exists>d claims. ca_jwt ca = Some d \<and> validate_token (ve_lib ve) token d = Ok claims \<and> ctx = into_auth_context claims)
            \<or> mw_master_key (ca_api_key ca) = Some token \<and> ctx = master_context
            \<or> (\<exists>key. fst (backend_validate (ve_keys ve) (ve_now ve) token (mw_store (ca_api_key ca))) = Ok (Some key)
                \<and> ctx = key_context key))))"
  by (rule combined_admits [OF assms])

section \<open>Refusals are audited\<close>

definition audited :: "string option \<Rightarrow> nat \<Rightarrow> AuditLog option \<Rightarrow> AuditLog option \<Rightarrow> bool" where
  "audited ip status l l' =
     (\<exists>nanos now reason user key.
        l' = map_option (log_auth_failure nanos now (if status = 401 then Unauthorized_status else Forbidden_status) reason ip user key) l)"

lemma audit_failure_audited:
  "audited ip 401 (ca_audit ca) (ca_audit (audit_failure ve Unauthorized_status reason ip ctx ca))"
  "audited ip 403 (ca_audit ca) (ca_audit (audit_failure ve Forbidden_status reason ip ctx ca))"
  unfolding audited_def audit_failure_def by simp_all (metis)+

lemma audit_failure_frame [simp]:
  "ca_jwt (audit_failure ve status reason ip ctx ca) = ca_jwt ca"
  "ca_admin_login (audit_failure ve status reason ip ctx ca) = ca_admin_login ca"
  "ca_api_key (audit_failure ve status reason ip ctx ca) = ca_api_key ca"
  by (simp_all add: audit_failure_def)

definition refused_properly :: "string option \<Rightarrow> nat \<Rightarrow> ('k, 'sec) CombinedAuth \<Rightarrow> ('k, 'sec) CombinedAuth \<Rightarrow> bool" where
  "refused_properly ip status ca ca' =
     ((status = 401 \<or> status = 403) \<and> audited ip status (ca_audit ca) (ca_audit ca')
      \<or> status = 500 \<and> ca_audit ca' = ca_audit ca)"

lemma lacks_role_refused: "lacks_role ve ip ctx ca = (Err (status, msg), ca') \<Longrightarrow> refused_properly ip status ca ca'"
  using audit_failure_audited(2) [where ca = ca and ve = ve and ip = ip]
  by (auto simp: lacks_role_def refused_properly_def)

lemma api_key_path_refused:
  assumes "api_key_path ve ip token ca = (Err (status, msg), ca')"
  shows "refused_properly ip status ca ca'"
proof -
  obtain r mw where a: "authenticate (ve_keys ve) (ve_now ve) token (ca_api_key ca) = (r, mw)" by force
  have same: "refused_properly ip status (ca\<lparr>ca_api_key := mw\<rparr>) ca' = refused_properly ip status ca ca'"
    by (simp add: refused_properly_def)
  show ?thesis
  proof (cases r)
    case (Inl e)
    then have "status = 500" "ca' = ca\<lparr>ca_api_key := mw\<rparr>" using assms a by (simp_all add: api_key_path_def)
    then show ?thesis by (simp add: refused_properly_def)
  next
    case (Inr found)
    show ?thesis
    proof (cases found)
      case None
      have "(Err (401, ''invalid or missing bearer token''),
          audit_failure ve Unauthorized_status ''invalid or unknown token'' ip None (ca\<lparr>ca_api_key := mw\<rparr>)) = (Err (status, msg), ca')"
        using assms a Inr None by (simp add: api_key_path_def)
      then show ?thesis
        using audit_failure_audited(1) [where ca = "ca\<lparr>ca_api_key := mw\<rparr>" and ve = ve and ip = ip]
        by (simp add: refused_properly_def) metis
    next
      case (Some ctx)
      have "(if enforce_required_roles (ve_required_roles ve) ctx then (Ok ctx, ca\<lparr>ca_api_key := mw\<rparr>)
          else lacks_role ve ip ctx (ca\<lparr>ca_api_key := mw\<rparr>)) = (Err (status, msg), ca')"
        using assms a Inr Some by (simp add: api_key_path_def Let_def)
      then have "lacks_role ve ip ctx (ca\<lparr>ca_api_key := mw\<rparr>) = (Err (status, msg), ca')" by (simp split: if_splits)
      from lacks_role_refused [OF this] same show ?thesis by simp
    qed
  qed
qed


section \<open>Tokens of the issuer\<close>

lemma jwk_algorithm_asymmetric: "algorithm_for_jwk jwk = Some alg \<Longrightarrow> alg \<notin> {HS256, HS384, HS512}"
  by (cases "jwk_key_algorithm jwk")
     (auto simp: algorithm_for_jwk_def split: AlgorithmParameters.splits EllipticCurve.splits elim: key_algorithm.elims)

text \<open>An OIDC token is only ever checked against a published key with an asymmetric algorithm, the configured issuer and
  audience, and the not-before time: a token library that behaves differently under any other setting gives the
  same verdicts.\<close>

theorem oidc_checks_pinned:
  assumes "tl_decode_header lib' = tl_decode_header lib" "tl_decoding_key lib' = tl_decoding_key lib"
    and "\<And>k v t. vd_algorithm v \<notin> {HS256, HS384, HS512} \<Longrightarrow> vd_issuer v = od_issuer d \<Longrightarrow> vd_audience v = od_audience d \<Longrightarrow>
      vd_validate_nbf v \<Longrightarrow> tl_decode lib' k v t = tl_decode lib k v t"
  shows "validate_token lib' token d = validate_token lib token d"
proof -
  have "tl_decode lib' key (oidc_validation d alg) token = tl_decode lib key (oidc_validation d alg) token"
    if "algorithm_for_jwk jwk = Some alg" for jwk :: "'a Jwk" and alg key
    using jwk_algorithm_asymmetric [OF that] by (intro assms(3)) (simp_all add: oidc_validation_def)
  then show ?thesis unfolding validate_token_def assms(1,2) by (auto split: sum.splits option.splits)
qed

section \<open>Claims\<close>

lemma fold_roles: "set (fold (\<lambda>kv roles. roles @ f kv) kvs acc) = set acc \<union> (\<Union>kv\<in>set kvs. set (f kv))"
  by (induction kvs arbitrary: acc) auto

lemma jwt_roles_set: "set (jwt_roles c) = set (unwrap_or (jc_roles c) []) \<union> (\<Union>kv\<in>set (jc_custom c). set (project_roles kv))"
  by (simp add: jwt_roles_def fold_roles)

lemma distinct_remdups_adj_sorted: "sorted xs \<Longrightarrow> distinct (remdups_adj xs)" for xs :: "'a::linorder list"
proof (induction xs rule: remdups_adj.induct)
  case (3 x y xs)
  then show ?case by (cases "x = y") (auto dest: order.antisym)
qed simp_all

lemma jwt_roles_sorted: "sorted (jwt_roles c)" "distinct (jwt_roles c)"
  by (simp_all add: jwt_roles_def sorted_remdups_adj distinct_remdups_adj_sorted)


text \<open>The roles of an OIDC caller are exactly those of the flat claim and of the project-role claims, without duplicates
  and in order whatever the order of the claims; administrator scope comes from those roles or from the
  \<open>admin\<close> scope string and from nothing else.\<close>

theorem jwt_roles_exact:
  "set (au_roles (into_auth_context c)) =
     set (unwrap_or (jc_roles c) []) \<union> (\<Union>kv\<in>set (jc_custom c). set (project_roles kv))
   \<and> sorted (au_roles (into_auth_context c)) \<and> distinct (au_roles (into_auth_context c))
   \<and> (au_scope (into_auth_context c) = Admin_scope \<longleftrightarrow>
        set (au_roles (into_auth_context c)) \<inter> {''admin'', ''gateway-admin''} \<noteq> {} \<or> ''admin'' \<in> set (jwt_scopes c))"
proof -
  have roles: "au_roles (into_auth_context c) = jwt_roles c" by (simp add: into_auth_context_def Let_def)
  have "au_scope (into_auth_context c) = Admin_scope \<longleftrightarrow>
      (\<exists>r\<in>set (jwt_roles c). r = ''admin'' \<or> r = ''gateway-admin'') \<or> ''admin'' \<in> set (jwt_scopes c)"
    by (simp only: into_auth_context_def Let_def AuthContext.select_convs split: if_split) simp
  also have "\<dots> \<longleftrightarrow> set (jwt_roles c) \<inter> {''admin'', ''gateway-admin''} \<noteq> {} \<or> ''admin'' \<in> set (jwt_scopes c)" by blast
  finally show ?thesis unfolding roles by (intro conjI jwt_roles_set jwt_roles_sorted)
qed

lemma unat_div_ceil: "60 * unat (div_ceil r 60) < unat r + 60" "unat r \<le> 60 * unat (div_ceil r 60)"
proof -
  have "unat r < 2 ^ LENGTH(64)" by (rule unsigned_less)
  then have small: "unat r div 60 + 1 < 2 ^ 64" by simp
  have "unat (div_ceil r 60) = (if unat r mod 60 = 0 then unat r div 60 else unat r div 60 + 1)"
    using small by (simp add: div_ceil_def unat_div unat_mod word_unat_eq_iff unat_word_ariths)
  then show "60 * unat (div_ceil r 60) < unat r + 60" "unat r \<le> 60 * unat (div_ceil r 60)"
    by (auto simp: minus_mod_eq_mult_div [symmetric] split: if_splits)
qed

text \<open>A requests-per-minute claim becomes a per-second rate that never cuts the grant short and exceeds it by less than one
  request per second; a positive claim never becomes a zero rate.\<close>

theorem jwt_rate_rounds_up:
  assumes "jc_rate_limit_rpm c = Some rpm"
  shows "\<exists>rps. au_rate_limit_override (into_auth_context c) = Some \<lparr>ro_requests_per_second = Some rps, ro_burst_size = Some rpm\<rparr>
    \<and> unat rpm \<le> 60 * unat rps \<and> 60 * unat rps < unat rpm + 60"
  using assms unat_div_ceil [of rpm] by (simp add: into_auth_context_def Let_def)

section \<open>Break-glass tokens\<close>

lemma admin_claims_context: "au_scope (into_auth_context (admin_claims now lg)) = Admin_scope"
  by (simp add: into_auth_context_def Let_def jwt_roles_def admin_claims_def)

text \<open>A token issued by the break-glass login opens the gateway with administrator scope, whatever roles are required and
  whatever other authentication is configured, given a token library that gives back the claims it signed under
  the same secret while they have not expired.\<close>

theorem break_glass_roundtrip:
  assumes "ca_admin_login ca = Some lg" "issue encode now lg = Ok t"
    and lib: "\<And>c tok. encode HS256 (lg_secret lg) c = Ok tok \<Longrightarrow> looks_like_jwt tok \<and>
      (jc_iss c = DEV_ADMIN_ISSUER \<longrightarrow> jc_aud c = DEV_ADMIN_AUDIENCE \<longrightarrow> unat (later :: u64) \<le> unat (jc_exp c) \<longrightarrow>
       ve_admin_decode ve (lg_secret lg) admin_validation tok = Ok c)"
    and "unat now + unat (lg_ttl_secs lg) < 2 ^ 64" "unat later \<le> unat now + unat (lg_ttl_secs lg)"
  shows "\<exists>ctx. combined_middleware ve ip (Some (''Bearer '' @ it_access_token t)) ca = (Ok ctx, ca)
    \<and> au_scope ctx = Admin_scope \<and> au_user_id ctx = Some (lg_username lg)"
proof -
  have enc: "encode HS256 (lg_secret lg) (admin_claims now lg) = Ok (it_access_token t)"
    using assms(2) by (auto simp: issue_def split: sum.splits)
  have "unat (jc_exp (admin_claims now lg)) = unat now + unat (lg_ttl_secs lg)"
    using assms(4) by (simp add: admin_claims_def unat_word_ariths)
  then have "ve_admin_decode ve (lg_secret lg) admin_validation (it_access_token t) = Ok (admin_claims now lg)" "looks_like_jwt (it_access_token t)"
    using lib [OF enc] assms(5) by (simp_all add: admin_claims_def)
  then have "break_glass ve (it_access_token t) ca = Some (admin_claims now lg)"
    using assms(1) by (simp add: break_glass_def admin_validate_def)
  then show ?thesis using assms(1) admin_claims_context [of now lg]
    by (simp add: combined_middleware_def bearer_def strip_prefix_def starts_with_def into_auth_context_def Let_def admin_claims_def)
qed

section \<open>Worked example\<close>

definition demo_lib :: "unit token_lib" where
  "demo_lib = \<lparr>tl_decode_header = (\<lambda>t. Err ''not a token''), tl_decoding_key = (\<lambda>k. Ok ()), tl_decode = (\<lambda>k v t. Err (Other_kind ''unsigned''))\<rparr>"

text \<open>A toy signer: the header and the signature are constant, the payload is the subject.\<close>

definition demo_encode :: "Algorithm \<Rightarrow> unit \<Rightarrow> JwtClaims \<Rightarrow> (string, string) result" where
  "demo_encode alg sec c = (if c = admin_claims 10 (admin_login_new ''root'' ''pw'' 60 ()) then Ok ''h.root.s'' else Err ''unsupported'')"

definition demo_decode :: "unit \<Rightarrow> Validation \<Rightarrow> string \<Rightarrow> (string, JwtClaims) result" where
  "demo_decode sec v t = (if t = ''h.root.s'' then Ok (admin_claims 10 (admin_login_new ''root'' ''pw'' 60 ())) else Err ''bad signature'')"

definition demo_ve :: "(unit, unit) auth_env" where
  "demo_ve = \<lparr>ve_keys = key_env_demo, ve_now = 5, ve_nanos = ''7'', ve_lib = demo_lib, ve_admin_decode = demo_decode,
     ve_required_roles = [''admin'']\<rparr>"

definition demo_ca :: "(unit, unit) CombinedAuth" where
  "demo_ca = \<lparr>ca_api_key = \<lparr>mw_store = Postgres demo_table, mw_master_key = Some ''mk''\<rparr>, ca_jwt = None,
     ca_admin_login = Some (admin_login_new ''root'' ''pw'' 60 ()), ca_audit = Some (audit_log_with_options (\<lambda>s. s) False False)\<rparr>"

lemmas auth_demo = demo_ve_def demo_ca_def combined_middleware_def bearer_def strip_prefix_def starts_with_def is_bypass_def break_glass_def
  oidc_login_def looks_like_jwt_def admin_validate_def demo_decode_def api_key_path_def

lemma demo_master: "combined_middleware demo_ve None (Some ''Bearer mk'') demo_ca = (Ok master_context, demo_ca)"
  by (simp add: auth_demo authenticate_def constant_time_eq_iff enforce_required_roles_def has_any_role_def has_role_def
      master_context_def Let_def)

theorem auth_admits_only_valid_witness:
  "mw_master_key (ca_api_key demo_ca) = Some ''mk'' \<and> enforce_required_roles [''admin''] master_context"
proof -
  have no_glass: "break_glass demo_ve ''mk'' demo_ca = None" by (simp add: auth_demo)
  have "bearer (Some ''Bearer mk'') = Some ''mk''" by (simp add: auth_demo)
  moreover have "admin_validate (ve_admin_decode demo_ve) ''mk'' lg \<noteq> Ok claims" for lg claims by (simp add: auth_demo)
  moreover have "master_context \<noteq> key_context key" for key by (simp add: key_context_def master_context_def)
  moreover have "ca_jwt demo_ca = None" "ca_admin_login demo_ca \<noteq> None" "ve_required_roles demo_ve = [''admin'']"
    by (simp_all add: demo_ca_def demo_ve_def)
  ultimately show ?thesis using auth_admits_only_valid [OF demo_master] by auto
qed

lemma demo_missing: "combined_middleware demo_ve (Some ''1.2.3.4'') None demo_ca =
    (Err (401, ''invalid or missing bearer token''),
     audit_failure demo_ve Unauthorized_status ''missing bearer token'' (Some ''1.2.3.4'') None demo_ca)"
  by (simp add: auth_demo)


theorem oidc_checks_pinned_witness:
  "validate_token (demo_lib\<lparr>tl_decode := (\<lambda>k v t. if vd_algorithm v = HS256 then Ok (admin_claims 0 (admin_login_new [] [] 1 ())) else Err (Other_kind ''unsigned''))\<rparr>)
     ''h.p.s'' (oidc_from_parts 0 ''iss'' ''aud'' []) = validate_token demo_lib ''h.p.s'' (oidc_from_parts 0 ''iss'' ''aud'' [])"
  by (rule oidc_checks_pinned) (simp_all add: demo_lib_def)

theorem jwt_rate_rounds_up_witness:
  "\<exists>rps. au_rate_limit_override (into_auth_context ((admin_claims 0 (admin_login_new [] [] 1 ()))\<lparr>jc_rate_limit_rpm := Some 90\<rparr>)) =
     Some \<lparr>ro_requests_per_second = Some rps, ro_burst_size = Some 90\<rparr> \<and> 90 \<le> 60 * unat rps \<and> 60 * unat rps < 150"
  using jwt_rate_rounds_up [of "(admin_claims 0 (admin_login_new [] [] 1 ()))\<lparr>jc_rate_limit_rpm := Some 90\<rparr>" 90] by simp

theorem break_glass_roundtrip_witness:
  "\<exists>ctx. combined_middleware demo_ve None (Some ''Bearer h.root.s'') demo_ca = (Ok ctx, demo_ca) \<and> au_scope ctx = Admin_scope"
proof -
  let ?lg = "admin_login_new ''root'' ''pw'' 60 ()"
  let ?t = "\<lparr>it_access_token = ''h.root.s'', it_token_type = ''Bearer'', it_expires_in = 60\<rparr>"
  have lg: "ca_admin_login demo_ca = Some ?lg" by (simp add: demo_ca_def)
  have iss: "issue demo_encode 10 ?lg = Ok ?t" by (simp add: issue_def demo_encode_def admin_login_new_def)
  have lib: "looks_like_jwt tok \<and> (jc_iss c = DEV_ADMIN_ISSUER \<longrightarrow> jc_aud c = DEV_ADMIN_AUDIENCE \<longrightarrow> unat (20 :: u64) \<le> unat (jc_exp c) \<longrightarrow>
      ve_admin_decode demo_ve (lg_secret ?lg) admin_validation tok = Ok c)" if "demo_encode HS256 (lg_secret ?lg) c = Ok tok" for c tok
    using that by (auto simp: demo_encode_def demo_ve_def demo_decode_def looks_like_jwt_def split: if_splits)
  have "\<exists>ctx. combined_middleware demo_ve None (Some (''Bearer '' @ it_access_token ?t)) demo_ca = (Ok ctx, demo_ca)
    \<and> au_scope ctx = Admin_scope \<and> au_user_id ctx = Some (lg_username ?lg)"
    by (rule break_glass_roundtrip [OF lg iss lib]) (simp_all add: admin_login_new_def)
  then show ?thesis by auto
qed

theorem master_key_exact_witness:
  "''mk'' = ''mk'' \<and> fst (authenticate key_env_demo 5 ''mk'' \<lparr>mw_store = Sqlite [], mw_master_key = Some ''mk''\<rparr>) = Ok (Some master_context)"
proof -
  have "fst (authenticate key_env_demo 5 ''mk'' \<lparr>mw_store = Sqlite [], mw_master_key = Some ''mk''\<rparr>) = Ok (Some master_context)"
    by (simp add: authenticate_def constant_time_eq_iff)
  then show ?thesis
    using master_key_exact [of "\<lparr>mw_store = Sqlite [], mw_master_key = Some ''mk''\<rparr>" "''mk''" key_env_demo 5 "''mk''" master_context]
    by (simp add: master_context_def)
qed

end
