(* ===== verification/Provider_Clients.thy ===== *)
theory Provider_Clients
  imports Provider_Api Gateway_State
begin

text \<open>
  The native provider clients: translation of requests and responses between the OpenAI shape and Anthropic
  (\<^verbatim>\<open>himadri-provider/src/anthropic/provider.rs\<close>), Gemini (\<^verbatim>\<open>gemini/provider.rs\<close>) and the OpenAI-compatible
  vendors (\<^verbatim>\<open>compatible/provider.rs\<close>). HTTP, the JSON parser and printer, the clock and fresh UUIDs are arguments.
  Indexing a JSON map by a missing key panics; a computation that may panic yields an option, \<open>None\<close> for the panic.
\<close>

section \<open>JSON access\<close>

fun as_array :: "json \<Rightarrow> json list option" where
  "as_array (JArr xs) = Some xs"
| "as_array _ = None"

fun as_u64 :: "json \<Rightarrow> nat option" where
  "as_u64 (JNum q) = (case quotient_of q of (n, d) \<Rightarrow> if d = 1 \<and> 0 \<le> n \<and> n < 2 ^ 64 then Some (nat n) else None)"
| "as_u64 _ = None"

text \<open>\<^verbatim>\<open>.as_u64().unwrap_or(0) as u32\<close>: the low 32 bits.\<close>

definition token_count :: "json \<Rightarrow> u32" where
  "token_count v = of_nat (unwrap_or (as_u64 v) 0)"

text \<open>\<^verbatim>\<open>body[key] = value\<close> on a JSON object.\<close>

fun json_set :: "string \<Rightarrow> json \<Rightarrow> json \<Rightarrow> json" where
  "json_set k v (JObj m) = JObj (al_put k v m)"
| "json_set k v other = JObj [(k, v)]"

definition set_some :: "string \<Rightarrow> json option \<Rightarrow> json \<Rightarrow> json" where
  "set_some k v body = (case v of Some x \<Rightarrow> json_set k x body | None \<Rightarrow> body)"

definition non_empty :: "'a list option \<Rightarrow> 'a list option" where
  "non_empty xs = (case xs of Some ys \<Rightarrow> if ys = [] then None else Some ys | None \<Rightarrow> None)"

definition str_or_empty :: "json \<Rightarrow> string" where
  "str_or_empty v = unwrap_or (as_str v) []"

definition stop_json :: "string list \<Rightarrow> json" where
  "stop_json stop = JArr (map JStr stop)"

section \<open>HTTP\<close>

record http_request =
  hq_url :: string
  hq_headers :: "(string \<times> string) list"
  hq_body :: json

record http_answer =
  ha_response :: http_response
  ha_chunks :: "(string, string) result list"

record http =
  hp_post :: "http_request \<Rightarrow> (string, http_answer) result"
  hp_from_json :: "string \<Rightarrow> (string, json) result"
  hp_show_json :: "json \<Rightarrow> string"
  hp_parse_u64 :: "string \<Rightarrow> u64 option"
  hp_now :: u64
  hp_uuid :: "nat \<Rightarrow> string"

definition is_success :: "u16 \<Rightarrow> bool" where
  "is_success status = (200 \<le> status \<and> status < 300)"

definition parsed :: "http \<Rightarrow> string \<Rightarrow> json option" where
  "parsed h s = (case hp_from_json h s of Ok v \<Rightarrow> Some v | Err _ \<Rightarrow> None)"

text \<open>Sends the request and keeps a successful answer; \<open>on_error\<close> maps any other status.\<close>

definition exchange :: "http \<Rightarrow> (http_response \<Rightarrow> ProviderError) \<Rightarrow> http_request \<Rightarrow> (ProviderError, http_answer) result" where
  "exchange h on_error q =
     (case hp_post h q of
        Err e \<Rightarrow> Err (PE_Network e)
      | Ok a \<Rightarrow> if is_success (hr_status (ha_response a)) then Ok a else Err (on_error (ha_response a)))"

section \<open>Anthropic\<close>

definition ANTHROPIC_BASE_URL :: string where
  "ANTHROPIC_BASE_URL = ''https://api.anthropic.com/v1''"

record AnthropicProvider =
  an_base_url :: string

definition anthropic_new :: "string option \<Rightarrow> AnthropicProvider" where
  "anthropic_new base_url = \<lparr>an_base_url = unwrap_or base_url ANTHROPIC_BASE_URL\<rparr>"

definition anthropic_finish_reason :: "string \<Rightarrow> string" where
  "anthropic_finish_reason r =
     (if r = ''end_turn'' then ''stop'' else if r = ''max_tokens'' then ''length''
      else if r = ''tool_use'' then ''tool_calls'' else r)"

definition Delta_default :: Delta where
  "Delta_default = \<lparr>dl_role = None, dl_content = None, dl_tool_calls = None\<rparr>"

definition anthropic_chunk :: "u64 \<Rightarrow> Delta \<Rightarrow> string option \<Rightarrow> Usage option \<Rightarrow> StreamChunk" where
  "anthropic_chunk now delta finish_reason usage =
     \<lparr>sk_id = [], sk_object = ''chat.completion.chunk'', sk_created = now, sk_model = [],
      sk_choices = [\<lparr>sc_index = 0, sc_delta = delta, sc_finish_reason = finish_reason\<rparr>], sk_usage = usage,
      sk_system_fingerprint = None\<rparr>"

fun anthropic_role :: "Role \<Rightarrow> string" where
  "anthropic_role User = ''user''"
| "anthropic_role Assistant = ''assistant''"
| "anthropic_role _ = ''user''"

definition anthropic_message :: "Message \<Rightarrow> string option \<times> json list \<Rightarrow> string option \<times> json list" where
  "anthropic_message m acc =
     (case acc of (system, messages) \<Rightarrow>
        if msg_role m = System
        then ((case msg_content m of Some content \<Rightarrow> as_text content | None \<Rightarrow> system), messages)
        else (system,
              messages @ [JObj [(''role'', JStr (anthropic_role (msg_role m))),
                                (''content'', JStr (case msg_content m of Some c \<Rightarrow> flat_text c | None \<Rightarrow> []))]]))"

definition anthropic_tool :: "Tool \<Rightarrow> json" where
  "anthropic_tool t =
     (let f = tool_function t
      in JObj [(''name'', JStr (tf_name f)),
               (''description'', case tf_description f of Some d \<Rightarrow> JStr d | None \<Rightarrow> JNull),
               (''input_schema'', unwrap_or (tf_parameters f) (JObj [(''type'', JStr ''object'')]))])"

fun anthropic_tool_choice :: "json \<Rightarrow> json option" where
  "anthropic_tool_choice (JStr s) =
     (if s = ''auto'' then Some (JObj [(''type'', JStr ''auto'')])
      else if s = ''required'' then Some (JObj [(''type'', JStr ''any'')])
      else if s = ''none'' then Some (JObj [(''type'', JStr ''none'')]) else None)"
| "anthropic_tool_choice (JObj obj) =
     map_option (\<lambda>n. JObj [(''type'', JStr ''tool''), (''name'', JStr n)])
       (Option.bind (map_of obj ''function'') (\<lambda>f. as_str (json_index f ''name'')))"
| "anthropic_tool_choice _ = None"

definition anthropic_body :: "ChatCompletionRequest \<Rightarrow> bool \<Rightarrow> json" where
  "anthropic_body request stream =
     (let (system, messages) = fold anthropic_message (cr_messages request) (None, []);
          body = JObj [(''model'', JStr (cr_model request)), (''messages'', JArr messages), (''stream'', JBool stream),
                       (''max_tokens'', JNum (of_nat (unat (unwrap_or (cr_max_tokens request) 4096))))];
          body = set_some ''system'' (map_option JStr system) body;
          body = set_some ''temperature'' (map_option JNum (cr_temperature request)) body;
          body = set_some ''top_p'' (map_option JNum (cr_top_p request)) body;
          body = set_some ''stop_sequences'' (map_option stop_json (cr_stop request)) body
      in case cr_tools request of
           None \<Rightarrow> body
         | Some tools \<Rightarrow>
             (let body = json_set ''tools'' (JArr (map anthropic_tool tools)) body
              in set_some ''tool_choice'' (Option.bind (cr_tool_choice request) anthropic_tool_choice) body))"

definition block_is :: "string \<Rightarrow> json \<Rightarrow> bool" where
  "block_is t v = (json_index v ''type'' = JStr t)"

definition anthropic_text :: "json \<Rightarrow> string option" where
  "anthropic_text content =
     non_empty (map_option (\<lambda>bs. concat (List.map_filter (\<lambda>b. as_str (json_index b ''text'')) (filter (block_is ''text'') bs))) (as_array content))"

definition anthropic_tool_calls :: "http \<Rightarrow> json \<Rightarrow> ToolCall list option" where
  "anthropic_tool_calls h content =
     non_empty (map_option (\<lambda>bs. map (\<lambda>b.
         \<lparr>tc_id = str_or_empty (json_index b ''id''), tc_type = ''function'',
          tc_function = \<lparr>fc_name = str_or_empty (json_index b ''name''), fc_arguments = hp_show_json h (json_index b ''input'')\<rparr>\<rparr>)
       (filter (block_is ''tool_use'') bs)) (as_array content))"

text \<open>\<^verbatim>\<open>usage.as_object().map(|u| u["input_tokens"] ...)\<close>: a missing member panics.\<close>

definition anthropic_usage :: "json \<Rightarrow> Usage option option" where
  "anthropic_usage v =
     (case as_obj v of
        None \<Rightarrow> Some None
      | Some u \<Rightarrow>
          (case (map_of u ''input_tokens'', map_of u ''output_tokens'') of
             (Some i, Some out) \<Rightarrow>
               Some (Some \<lparr>prompt_tokens = token_count i, completion_tokens = token_count out, total_tokens = token_count i + token_count out\<rparr>)
           | _ \<Rightarrow> None))"

definition anthropic_response :: "http \<Rightarrow> json \<Rightarrow> (ProviderError, ChatCompletionResponse) result option" where
  "anthropic_response h response =
     (let content = json_index response ''content''
      in map_option (\<lambda>usage.
           Ok \<lparr>cp_id = str_or_empty (json_index response ''id''), cp_object = ''chat.completion'', cp_created = hp_now h,
               cp_model = str_or_empty (json_index response ''model''),
               cp_choices = [\<lparr>ch_index = 0, ch_message = \<lparr>rm_role = Assistant, rm_content = anthropic_text content,
                                rm_tool_calls = anthropic_tool_calls h content\<rparr>,
                              ch_finish_reason = map_option anthropic_finish_reason (as_str (json_index response ''stop_reason''))\<rparr>],
               cp_usage = usage, cp_system_fingerprint = None\<rparr>)
         (anthropic_usage (json_index response ''usage'')))"

text \<open>One event: the chunk it gives if any and the input tokens remembered, or a panic.\<close>

definition anthropic_event :: "u64 \<Rightarrow> string \<Rightarrow> json \<Rightarrow> u32 \<Rightarrow> (StreamChunk option \<times> u32) option" where
  "anthropic_event now event_type data input_tokens =
     (if event_type = ''message_start'' then
        (let message = json_index data ''message'';
             n = token_count (json_index (json_index message ''usage'') ''input_tokens'')
         in Some (Some ((anthropic_chunk now (Delta_default\<lparr>dl_role := Some Assistant\<rparr>) None None)
                    \<lparr>sk_id := str_or_empty (json_index message ''id''), sk_model := str_or_empty (json_index message ''model'')\<rparr>), n))
      else if event_type = ''content_block_delta'' then
        (let text = str_or_empty (json_index (json_index data ''delta'') ''text'')
         in Some (Some (anthropic_chunk now (Delta_default\<lparr>dl_content := (if text = [] then None else Some text)\<rparr>) None None), input_tokens))
      else if event_type = ''message_delta'' then
        (let stop_reason = map_option anthropic_finish_reason (as_str (json_index (json_index data ''delta'') ''stop_reason''))
         in case as_obj (json_index data ''usage'') of
              None \<Rightarrow> Some (Some (anthropic_chunk now Delta_default stop_reason None), input_tokens)
            | Some u \<Rightarrow>
                map_option (\<lambda>v. let output = token_count v in
                  (Some (anthropic_chunk now Delta_default stop_reason
                     (Some \<lparr>prompt_tokens = input_tokens, completion_tokens = output, total_tokens = input_tokens + output\<rparr>)), input_tokens))
                  (map_of u ''output_tokens''))
      else Some (None, input_tokens))"

text \<open>The stream: its items, and whether it ended in a panic.\<close>

fun anthropic_stream :: "http \<Rightarrow> (ProviderError, SseEvent) result list \<Rightarrow> u32 \<Rightarrow> chunk_stream \<times> bool" where
  "anthropic_stream h [] input_tokens = ([], False)"
| "anthropic_stream h (Err e # events) input_tokens = (case anthropic_stream h events input_tokens of (items, p) \<Rightarrow> (Err e # items, p))"
| "anthropic_stream h (Ok event # events) input_tokens =
     (case parsed h (sse_data event) of
        None \<Rightarrow> anthropic_stream h events input_tokens
      | Some data \<Rightarrow>
          (case anthropic_event (hp_now h) (unwrap_or (sse_event event) []) data input_tokens of
             None \<Rightarrow> ([], True)
           | Some (chunk, input_tokens) \<Rightarrow>
               (case anthropic_stream h events input_tokens of
                  (items, p) \<Rightarrow> (case chunk of Some c \<Rightarrow> Ok c # items | None \<Rightarrow> items, p))))"

definition anthropic_http :: "bool \<Rightarrow> string \<Rightarrow> ChatCompletionRequest \<Rightarrow> AnthropicProvider \<Rightarrow> http_request" where
  "anthropic_http stream api_key request provider =
     \<lparr>hq_url = an_base_url provider @ ''/messages'',
      hq_headers = [(''x-api-key'', api_key), (''anthropic-version'', ''2023-06-01''), (''Content-Type'', ''application/json'')]
        @ (if stream then [(''Accept'', ''text/event-stream'')] else []),
      hq_body = anthropic_body request stream\<rparr>"

definition openai_error :: "http \<Rightarrow> http_response \<Rightarrow> ProviderError" where
  "openai_error h r = pe_from_openai_response (parsed h) (hp_parse_u64 h) r"

definition anthropic_complete ::
    "http \<Rightarrow> ChatCompletionRequest \<Rightarrow> string \<Rightarrow> AnthropicProvider \<Rightarrow> (ProviderError, ChatCompletionResponse) result option" where
  "anthropic_complete h request api_key provider =
     (case exchange h (openai_error h) (anthropic_http False api_key request provider) of
        Err e \<Rightarrow> Some (Err e)
      | Ok a \<Rightarrow>
          (case hp_from_json h (hr_body (ha_response a)) of
             Err e \<Rightarrow> Some (Err (PE_Network e))
           | Ok v \<Rightarrow> anthropic_response h v))"

definition anthropic_complete_stream ::
    "http \<Rightarrow> ChatCompletionRequest \<Rightarrow> string \<Rightarrow> AnthropicProvider \<Rightarrow> (ProviderError, chunk_stream \<times> bool) result" where
  "anthropic_complete_stream h request api_key provider =
     (case exchange h (openai_error h) (anthropic_http True api_key request provider) of
        Err e \<Rightarrow> Err e
      | Ok a \<Rightarrow> Ok (anthropic_stream h (sse_events (ha_chunks a)) 0))"


section \<open>Gemini\<close>

definition GEMINI_BASE_URL :: string where
  "GEMINI_BASE_URL = ''https://generativelanguage.googleapis.com/v1beta''"

record GeminiProvider =
  ge_base_url :: string

definition gemini_new :: "string option \<Rightarrow> GeminiProvider" where
  "gemini_new base_url = \<lparr>ge_base_url = unwrap_or base_url GEMINI_BASE_URL\<rparr>"

definition gemini_finish_reason :: "string \<Rightarrow> string" where
  "gemini_finish_reason r = (if r = ''STOP'' then ''stop'' else if r = ''MAX_TOKENS'' then ''length'' else r)"

definition gemini_text_part :: "string \<Rightarrow> json" where
  "gemini_text_part text = JArr [JObj [(''text'', JStr text)]]"

fun gemini_role :: "Role \<Rightarrow> string option" where
  "gemini_role System = None"
| "gemini_role User = Some ''user''"
| "gemini_role Assistant = Some ''model''"
| "gemini_role Tool_role = Some ''user''"

definition gemini_content :: "Message \<Rightarrow> json option" where
  "gemini_content m =
     (case gemini_role (msg_role m) of
        None \<Rightarrow> None
      | Some role \<Rightarrow>
          (case msg_content m of
             None \<Rightarrow> None
           | Some content \<Rightarrow> Some (JObj [(''role'', JStr role), (''parts'', gemini_text_part (flat_text content))])))"

definition gemini_system :: "Message list \<Rightarrow> json option" where
  "gemini_system messages =
     map_option (\<lambda>text. JObj [(''parts'', gemini_text_part text)])
       (Option.bind (Option.bind (find (\<lambda>m. msg_role m = System) messages) msg_content) as_text)"

fun gemini_tool_choice :: "json \<Rightarrow> string option" where
  "gemini_tool_choice (JStr s) =
     (if s = ''auto'' then Some ''AUTO'' else if s = ''required'' then Some ''ANY'' else if s = ''none'' then Some ''NONE'' else None)"
| "gemini_tool_choice (JObj _) = Some ''ANY''"
| "gemini_tool_choice _ = None"

definition gemini_declaration :: "Tool \<Rightarrow> json" where
  "gemini_declaration t =
     (let f = tool_function t; decl = JObj [(''name'', JStr (tf_name f))];
          decl = set_some ''description'' (map_option JStr (tf_description f)) decl
      in set_some ''parameters'' (tf_parameters f) decl)"

definition gemini_config :: "ChatCompletionRequest \<Rightarrow> json" where
  "gemini_config request =
     (let c = JObj [];
          c = set_some ''temperature'' (map_option JNum (cr_temperature request)) c;
          c = set_some ''topP'' (map_option JNum (cr_top_p request)) c;
          c = set_some ''maxOutputTokens'' (map_option (\<lambda>n. JNum (of_nat (unat n))) (cr_max_tokens request)) c
      in set_some ''stopSequences'' (map_option stop_json (cr_stop request)) c)"

definition gemini_body :: "ChatCompletionRequest \<Rightarrow> json" where
  "gemini_body request =
     (let body = JObj [(''contents'', JArr (List.map_filter gemini_content (cr_messages request))), (''generationConfig'', gemini_config request)];
          body = set_some ''systemInstruction'' (gemini_system (cr_messages request)) body
      in case cr_tools request of
           None \<Rightarrow> body
         | Some tools \<Rightarrow>
             (let body = json_set ''tools'' (JArr [JObj [(''functionDeclarations'', JArr (map gemini_declaration tools))]]) body
              in set_some ''toolConfig''
                   (map_option (\<lambda>mode. JObj [(''functionCallingConfig'', JObj [(''mode'', JStr mode)])])
                      (Option.bind (cr_tool_choice request) gemini_tool_choice)) body))"

definition first_candidate :: "json \<Rightarrow> json option" where
  "first_candidate v =
     (case as_array (json_index v ''candidates'') of Some (c # _) \<Rightarrow> Some c | _ \<Rightarrow> None)"

definition gemini_usage :: "json \<Rightarrow> Usage option option" where
  "gemini_usage v =
     (case as_obj v of
        None \<Rightarrow> Some None
      | Some u \<Rightarrow>
          (case (map_of u ''promptTokenCount'', map_of u ''candidatesTokenCount'', map_of u ''totalTokenCount'') of
             (Some p, Some c, Some t) \<Rightarrow>
               Some (Some \<lparr>prompt_tokens = token_count p, completion_tokens = token_count c, total_tokens = token_count t\<rparr>)
           | _ \<Rightarrow> None))"

fun json_get :: "json \<Rightarrow> string \<Rightarrow> json option" where
  "json_get (JObj m) k = map_of m k"
| "json_get _ k = None"

definition gemini_parts_text :: "json list option \<Rightarrow> string option" where
  "gemini_parts_text parts = non_empty (map_option (\<lambda>ps. concat (List.map_filter (\<lambda>p. as_str (json_index p ''text'')) ps)) parts)"

definition gemini_tool_calls :: "http \<Rightarrow> json list option \<Rightarrow> ToolCall list option" where
  "gemini_tool_calls h parts =
     non_empty (map_option (\<lambda>ps.
       map (\<lambda>(i, call). \<lparr>tc_id = ''call-'' @ hp_uuid h i, tc_type = ''function'',
              tc_function = \<lparr>fc_name = str_or_empty (json_index call ''name''), fc_arguments = hp_show_json h (json_index call ''args'')\<rparr>\<rparr>)
         (enumerate 0 (List.map_filter (\<lambda>p. json_get p ''functionCall'') ps))) parts)"

definition gemini_response :: "http \<Rightarrow> json \<Rightarrow> string \<Rightarrow> (ProviderError, ChatCompletionResponse) result option" where
  "gemini_response h response model =
     (case first_candidate response of
        None \<Rightarrow> Some (Err (PE_Internal ''No candidates in response''))
      | Some candidate \<Rightarrow>
          (let parts = as_array (json_index (json_index candidate ''content'') ''parts''); tool_calls = gemini_tool_calls h parts
           in map_option (\<lambda>usage.
                Ok \<lparr>cp_id = ''gemini-'' @ hp_uuid h (case tool_calls of Some cs \<Rightarrow> length cs | None \<Rightarrow> 0), cp_object = ''chat.completion'',
                    cp_created = hp_now h, cp_model = model,
                    cp_choices = [\<lparr>ch_index = 0, ch_message = \<lparr>rm_role = Assistant, rm_content = gemini_parts_text parts,
                                     rm_tool_calls = tool_calls\<rparr>,
                                   ch_finish_reason = map_option gemini_finish_reason (as_str (json_index candidate ''finishReason''))\<rparr>],
                    cp_usage = usage, cp_system_fingerprint = None\<rparr>)
              (gemini_usage (json_index response ''usageMetadata''))))"

definition gemini_chunk :: "http \<Rightarrow> nat \<Rightarrow> json \<Rightarrow> string \<Rightarrow> StreamChunk option" where
  "gemini_chunk h n chunk model =
     (let (content, finish_reason) =
            (case first_candidate chunk of
               Some candidate \<Rightarrow>
                 ((case as_array (json_index (json_index candidate ''content'') ''parts'') of
                     Some (p # _) \<Rightarrow> as_str (json_index p ''text'') | _ \<Rightarrow> None),
                  map_option gemini_finish_reason (as_str (json_index candidate ''finishReason'')))
             | None \<Rightarrow> (None, None))
      in map_option (\<lambda>usage.
           \<lparr>sk_id = ''gemini-'' @ hp_uuid h n, sk_object = ''chat.completion.chunk'', sk_created = hp_now h, sk_model = model,
            sk_choices = [\<lparr>sc_index = 0, sc_delta = Delta_default\<lparr>dl_content := content\<rparr>, sc_finish_reason = finish_reason\<rparr>],
            sk_usage = usage, sk_system_fingerprint = None\<rparr>)
         (gemini_usage (json_index chunk ''usageMetadata'')))"

text \<open>The chunks of one event, one for each candidate; \<open>None\<close> when one of them panics.\<close>

fun gemini_candidates :: "http \<Rightarrow> nat \<Rightarrow> json \<Rightarrow> string \<Rightarrow> json list \<Rightarrow> chunk_stream option" where
  "gemini_candidates h n usage model [] = Some []"
| "gemini_candidates h n usage model (c # cs) =
     (case gemini_chunk h n (JObj [(''candidates'', JArr [c]), (''usageMetadata'', usage)]) model of
        None \<Rightarrow> None
      | Some chunk \<Rightarrow> map_option (\<lambda>items. Ok chunk # items) (gemini_candidates h (Suc n) usage model cs))"

definition gemini_event :: "http \<Rightarrow> nat \<Rightarrow> string \<Rightarrow> (ProviderError, SseEvent) result \<Rightarrow> chunk_stream option" where
  "gemini_event h n model event =
     (case event of
        Err e \<Rightarrow> Some [Err e]
      | Ok event \<Rightarrow>
          (case hp_from_json h (sse_data event) of
             Err e \<Rightarrow> Some [Err (PE_Parse e)]
           | Ok chunk \<Rightarrow>
               (case as_array (json_index chunk ''candidates'') of
                  None \<Rightarrow> Some []
                | Some candidates \<Rightarrow> gemini_candidates h n (json_index chunk ''usageMetadata'') model candidates)))"

fun gemini_stream :: "http \<Rightarrow> nat \<Rightarrow> string \<Rightarrow> (ProviderError, SseEvent) result list \<Rightarrow> chunk_stream \<times> bool" where
  "gemini_stream h n model [] = ([], False)"
| "gemini_stream h n model (event # events) =
     (case gemini_event h n model event of
        None \<Rightarrow> ([], True)
      | Some items \<Rightarrow> (case gemini_stream h (n + length items) model events of (rest, p) \<Rightarrow> (items @ rest, p)))"

definition gemini_message :: "json \<Rightarrow> string option" where
  "gemini_message v = or_else (as_str (json_index (json_index v ''error'') ''message'')) (as_str (json_index v ''message''))"

definition gemini_error :: "http \<Rightarrow> http_response \<Rightarrow> ProviderError" where
  "gemini_error h r = pe_from_response (parsed h) (hp_parse_u64 h) [401, 403] gemini_message r"

definition gemini_stream_body :: "ChatCompletionRequest \<Rightarrow> json" where
  "gemini_stream_body request =
     (let body = gemini_body request
      in json_set ''generationConfig''
           (json_set ''responseModalities'' (JArr [JStr ''TEXT'']) (json_index body ''generationConfig'')) body)"

definition gemini_http :: "bool \<Rightarrow> string \<Rightarrow> ChatCompletionRequest \<Rightarrow> GeminiProvider \<Rightarrow> http_request" where
  "gemini_http stream api_key request provider =
     (if stream
      then \<lparr>hq_url = ge_base_url provider @ ''/models/'' @ cr_model request @ '':streamGenerateContent?alt=sse'',
            hq_headers = [(''Content-Type'', ''application/json''), (''x-goog-api-key'', api_key), (''Accept'', ''text/event-stream'')],
            hq_body = gemini_stream_body request\<rparr>
      else \<lparr>hq_url = ge_base_url provider @ ''/models/'' @ cr_model request @ '':generateContent'',
            hq_headers = [(''Content-Type'', ''application/json''), (''x-goog-api-key'', api_key)], hq_body = gemini_body request\<rparr>)"

definition gemini_complete ::
    "http \<Rightarrow> ChatCompletionRequest \<Rightarrow> string \<Rightarrow> GeminiProvider \<Rightarrow> (ProviderError, ChatCompletionResponse) result option" where
  "gemini_complete h request api_key provider =
     (case exchange h (gemini_error h) (gemini_http False api_key request provider) of
        Err e \<Rightarrow> Some (Err e)
      | Ok a \<Rightarrow>
          (case hp_from_json h (hr_body (ha_response a)) of
             Err e \<Rightarrow> Some (Err (PE_Network e))
           | Ok v \<Rightarrow> gemini_response h v (cr_model request)))"

definition gemini_complete_stream ::
    "http \<Rightarrow> ChatCompletionRequest \<Rightarrow> string \<Rightarrow> GeminiProvider \<Rightarrow> (ProviderError, chunk_stream \<times> bool) result" where
  "gemini_complete_stream h request api_key provider =
     (case exchange h (gemini_error h) (gemini_http True api_key request provider) of
        Err e \<Rightarrow> Err e
      | Ok a \<Rightarrow> Ok (gemini_stream h 0 (cr_model request) (sse_events (ha_chunks a))))"

section \<open>OpenAI-compatible vendors\<close>

datatype AuthMethod = Bearer | Header string

record OpenAiCompatibleConfig =
  oc_name :: string
  oc_display_name :: string
  oc_base_url :: string
  oc_auth_method :: AuthMethod
  oc_chat_completions_path :: string
  oc_extra_headers :: "(string \<times> string) list"
  oc_models :: "string list"

text \<open>Serialising a request and reading a response or chunk is \<^verbatim>\<open>serde\<close> and stays an argument.\<close>

record wire =
  wr_request :: "ChatCompletionRequest \<Rightarrow> json"
  wr_embedding :: "EmbeddingRequest \<Rightarrow> json"
  wr_response :: "json \<Rightarrow> (string, ChatCompletionResponse) result"
  wr_chunk :: "string \<Rightarrow> (string, StreamChunk) result"
  wr_embedding_response :: "string \<Rightarrow> (string, EmbeddingResponse) result"

definition normalize_tool_calls :: "'a list option \<Rightarrow> 'a list option" where
  "normalize_tool_calls tool_calls = (if tool_calls = Some [] then None else tool_calls)"

definition trim_end_slashes :: "string \<Rightarrow> string" where
  "trim_end_slashes s = rev (dropWhile (\<lambda>c. c = CHR ''/'') (rev s))"

definition compatible_bearer :: "string \<Rightarrow> string \<Rightarrow> OpenAiCompatibleConfig" where
  "compatible_bearer name base_url =
     \<lparr>oc_name = name, oc_display_name = name, oc_base_url = base_url, oc_auth_method = Bearer,
      oc_chat_completions_path = ''/chat/completions'', oc_extra_headers = [], oc_models = []\<rparr>"

definition compatible_azure :: "string \<Rightarrow> string \<Rightarrow> string \<Rightarrow> OpenAiCompatibleConfig" where
  "compatible_azure base_url deployment api_version =
     \<lparr>oc_name = ''azure-openai'', oc_display_name = ''Azure OpenAI'', oc_base_url = trim_end_slashes base_url,
      oc_auth_method = Header ''api-key'',
      oc_chat_completions_path = ''/openai/deployments/'' @ deployment @ ''/chat/completions?api-version='' @ api_version,
      oc_extra_headers = [], oc_models = [deployment]\<rparr>"

definition compatible_preset :: "string \<Rightarrow> string \<Rightarrow> string \<Rightarrow> (string \<times> string) list \<Rightarrow> string list \<Rightarrow> OpenAiCompatibleConfig" where
  "compatible_preset name display_name base_url extra_headers models =
     \<lparr>oc_name = name, oc_display_name = display_name, oc_base_url = base_url, oc_auth_method = Bearer,
      oc_chat_completions_path = ''/chat/completions'', oc_extra_headers = extra_headers, oc_models = models\<rparr>"

definition preset_openai :: OpenAiCompatibleConfig where
  "preset_openai = compatible_preset ''openai'' ''OpenAI'' ''https://api.openai.com/v1'' []
     [''gpt-4'', ''gpt-4-turbo'', ''gpt-4o'', ''gpt-4o-mini'', ''gpt-3.5-turbo'', ''o1'', ''o1-mini'', ''o1-pro'']"

definition preset_openrouter :: OpenAiCompatibleConfig where
  "preset_openrouter = compatible_preset ''openrouter'' ''OpenRouter'' ''https://openrouter.ai/api/v1''
     [(''HTTP-Referer'', ''https://github.com/himadri''), (''X-Title'', ''himadri'')]
     [''openrouter/auto'', ''openai/gpt-4o'', ''anthropic/claude-3.5-sonnet'', ''google/gemini-2.0-flash'']"

definition preset_together_ai :: OpenAiCompatibleConfig where
  "preset_together_ai = compatible_preset ''together'' ''Together AI'' ''https://api.together.xyz/v1'' []
     [''meta-llama/Llama-3-70b-chat-hf'', ''meta-llama/Llama-3-8b-chat-hf'', ''mistralai/Mixtral-8x7B-Instruct-v0.1'']"

definition preset_groq :: OpenAiCompatibleConfig where
  "preset_groq = compatible_preset ''groq'' ''Groq'' ''https://api.groq.com/openai/v1'' []
     [''llama3-70b-8192'', ''llama3-8b-8192'', ''mixtral-8x7b-32768'', ''gemma-7b-it'']"

definition preset_fireworks :: OpenAiCompatibleConfig where
  "preset_fireworks = compatible_preset ''fireworks'' ''Fireworks AI'' ''https://api.fireworks.ai/inference/v1'' []
     [''accounts/fireworks/models/llama-v3p1-70b-instruct'', ''accounts/fireworks/models/mixtral-8x7b-instruct'']"

definition preset_deepinfra :: OpenAiCompatibleConfig where
  "preset_deepinfra = compatible_preset ''deepinfra'' ''DeepInfra'' ''https://api.deepinfra.com/v1/openai'' []
     [''meta-llama/Meta-Llama-3-70B-Instruct'', ''mistralai/Mixtral-8x7B-Instruct-v0.1'']"

definition preset_cerebras :: OpenAiCompatibleConfig where
  "preset_cerebras = compatible_preset ''cerebras'' ''Cerebras'' ''https://api.cerebras.ai/v1'' [] [''llama3.1-70b'', ''llama3.1-8b'']"

definition preset_novita :: OpenAiCompatibleConfig where
  "preset_novita = compatible_preset ''novita'' ''Novita AI'' ''https://api.novita.ai/v3/openai'' []
     [''meta-llama/llama-3.1-70b-instruct'', ''meta-llama/llama-3.1-8b-instruct'']"

definition compatible_body :: "wire \<Rightarrow> ChatCompletionRequest \<Rightarrow> bool \<Rightarrow> json" where
  "compatible_body w request stream =
     (let body = json_set ''stream'' (JBool stream) (wr_request w request)
      in if stream then json_set ''stream_options'' (JObj [(''include_usage'', JBool True)]) body else body)"

definition compatible_response :: "wire \<Rightarrow> json \<Rightarrow> (ProviderError, ChatCompletionResponse) result" where
  "compatible_response w response =
     (case wr_response w response of
        Err e \<Rightarrow> Err (PE_Parse (''malformed provider response: '' @ e))
      | Ok r \<Rightarrow>
          Ok (r\<lparr>cp_object := ''chat.completion'',
                cp_choices := map (\<lambda>c. c\<lparr>ch_message := (ch_message c)\<lparr>rm_tool_calls := normalize_tool_calls (rm_tool_calls (ch_message c))\<rparr>\<rparr>)
                  (cp_choices r)\<rparr>))"

definition compatible_chunk :: "wire \<Rightarrow> string \<Rightarrow> (ProviderError, StreamChunk) result" where
  "compatible_chunk w data =
     (case wr_chunk w data of
        Err e \<Rightarrow> Err (PE_Parse (''malformed stream chunk: '' @ e))
      | Ok chunk \<Rightarrow>
          Ok (chunk\<lparr>sk_object := ''chat.completion.chunk'',
                sk_choices := map (\<lambda>c. c\<lparr>sc_delta := (sc_delta c)\<lparr>dl_tool_calls := normalize_tool_calls (dl_tool_calls (sc_delta c))\<rparr>\<rparr>)
                  (sk_choices chunk)\<rparr>))"

definition build_auth_header :: "OpenAiCompatibleConfig \<Rightarrow> string \<Rightarrow> string \<times> string" where
  "build_auth_header c api_key =
     (case oc_auth_method c of
        Bearer \<Rightarrow> (''Authorization'', ''Bearer '' @ api_key)
      | Header header_name \<Rightarrow> (header_name, api_key))"

definition get_url :: "OpenAiCompatibleConfig \<Rightarrow> string" where
  "get_url c = oc_base_url c @ oc_chat_completions_path c"

definition get_embeddings_url :: "OpenAiCompatibleConfig \<Rightarrow> string" where
  "get_embeddings_url c = trim_end_slashes (oc_base_url c) @ ''/embeddings''"

definition compatible_http :: "OpenAiCompatibleConfig \<Rightarrow> string \<Rightarrow> string \<Rightarrow> json \<Rightarrow> bool \<Rightarrow> http_request" where
  "compatible_http c url api_key body streaming =
     \<lparr>hq_url = url,
      hq_headers = [build_auth_header c api_key, (''Content-Type'', ''application/json'')]
        @ (if streaming then [(''Accept'', ''text/event-stream'')] else []) @ oc_extra_headers c,
      hq_body = body\<rparr>"

definition compatible_send ::
    "http \<Rightarrow> OpenAiCompatibleConfig \<Rightarrow> string \<Rightarrow> string \<Rightarrow> json \<Rightarrow> bool \<Rightarrow> (ProviderError, http_answer) result" where
  "compatible_send h c url api_key body streaming = exchange h (openai_error h) (compatible_http c url api_key body streaming)"

definition compatible_complete ::
    "http \<Rightarrow> wire \<Rightarrow> ChatCompletionRequest \<Rightarrow> string \<Rightarrow> OpenAiCompatibleConfig \<Rightarrow> (ProviderError, ChatCompletionResponse) result" where
  "compatible_complete h w request api_key c =
     (case compatible_send h c (get_url c) api_key (compatible_body w request False) False of
        Err e \<Rightarrow> Err e
      | Ok a \<Rightarrow>
          (case hp_from_json h (hr_body (ha_response a)) of
             Err e \<Rightarrow> Err (PE_Network e)
           | Ok v \<Rightarrow> compatible_response w v))"

definition compatible_complete_stream ::
    "http \<Rightarrow> wire \<Rightarrow> ChatCompletionRequest \<Rightarrow> string \<Rightarrow> OpenAiCompatibleConfig \<Rightarrow> (ProviderError, chunk_stream) result" where
  "compatible_complete_stream h w request api_key c =
     (case compatible_send h c (get_url c) api_key (compatible_body w request True) True of
        Err e \<Rightarrow> Err e
      | Ok a \<Rightarrow> Ok (map (\<lambda>event. case event of Ok ev \<Rightarrow> compatible_chunk w (sse_data ev) | Err e \<Rightarrow> Err e) (sse_events (ha_chunks a))))"

definition compatible_embed ::
    "http \<Rightarrow> wire \<Rightarrow> EmbeddingRequest \<Rightarrow> string \<Rightarrow> OpenAiCompatibleConfig \<Rightarrow> (ProviderError, EmbeddingResponse) result" where
  "compatible_embed h w request api_key c =
     (case compatible_send h c (get_embeddings_url c) api_key (wr_embedding w request) False of
        Err e \<Rightarrow> Err e
      | Ok a \<Rightarrow> map_err PE_Parse (wr_embedding_response w (hr_body (ha_response a))))"


section \<open>Clients of the wired-up registry\<close>

datatype client =
    Anthropic_client AnthropicProvider
  | Gemini_client GeminiProvider
  | Compatible_client OpenAiCompatibleConfig

definition preset_factories :: "(string \<times> OpenAiCompatibleConfig) list" where
  "preset_factories =
     [(''openai'', preset_openai), (''openrouter'', preset_openrouter), (''together'', preset_together_ai), (''groq'', preset_groq),
      (''fireworks'', preset_fireworks), (''deepinfra'', preset_deepinfra), (''cerebras'', preset_cerebras), (''novita'', preset_novita)]"

text \<open>The registered builder of a preset; the registry calls it for the names of the list only.\<close>

definition preset_client :: "string \<Rightarrow> string option \<Rightarrow> client" where
  "preset_client name base_url =
     (let config = (case map_of preset_factories name of Some c \<Rightarrow> c | None \<Rightarrow> compatible_bearer name []);
          config = config\<lparr>oc_name := name\<rparr>
      in Compatible_client (case base_url of Some u \<Rightarrow> config\<lparr>oc_base_url := u\<rparr> | None \<Rightarrow> config))"

definition client_registry :: "client MapProviderRegistry" where
  "client_registry = build_provider_registry (Anthropic_client \<circ> anthropic_new) (Gemini_client \<circ> gemini_new) preset_client"

definition bearer_client :: "string \<Rightarrow> string \<Rightarrow> client" where
  "bearer_client name base_url = Compatible_client (compatible_bearer name base_url)"

definition build_client :: "string \<Rightarrow> string option \<Rightarrow> (ProviderError, client) result" where
  "build_client provider_type base_url = registry_build bearer_client client_registry provider_type base_url"

fun client_http :: "wire \<Rightarrow> bool \<Rightarrow> string \<Rightarrow> ChatCompletionRequest \<Rightarrow> client \<Rightarrow> http_request" where
  "client_http w stream api_key request (Anthropic_client p) = anthropic_http stream api_key request p"
| "client_http w stream api_key request (Gemini_client p) = gemini_http stream api_key request p"
| "client_http w stream api_key request (Compatible_client c) = compatible_http c (get_url c) api_key (compatible_body w request stream) stream"

fun client_base_url :: "client \<Rightarrow> string" where
  "client_base_url (Anthropic_client p) = an_base_url p"
| "client_base_url (Gemini_client p) = ge_base_url p"
| "client_base_url (Compatible_client c) = oc_base_url c"

fun client_complete :: "http \<Rightarrow> wire \<Rightarrow> ChatCompletionRequest \<Rightarrow> string \<Rightarrow> client \<Rightarrow> (ProviderError, ChatCompletionResponse) result option" where
  "client_complete h w request api_key (Anthropic_client p) = anthropic_complete h request api_key p"
| "client_complete h w request api_key (Gemini_client p) = gemini_complete h request api_key p"
| "client_complete h w request api_key (Compatible_client c) = Some (compatible_complete h w request api_key c)"

lemma preset_names: "map fst preset_factories = PRESETS"
  by (simp add: preset_factories_def PRESETS_def)

lemma preset_names_own: "(name, c) \<in> set preset_factories \<Longrightarrow> oc_name c = name \<and> oc_auth_method c = Bearer"
  by (auto simp: preset_factories_def compatible_preset_def preset_openai_def preset_openrouter_def preset_together_ai_def
      preset_groq_def preset_fireworks_def preset_deepinfra_def preset_cerebras_def preset_novita_def)

lemma client_url_prefix: "\<exists>path. hq_url (client_http w stream api_key request cl) = client_base_url cl @ path"
  by (cases cl) (auto simp: anthropic_http_def gemini_http_def compatible_http_def get_url_def)

lemma client_key_in_header:
  "\<exists>name before after. \<forall>k. \<exists>v. hq_headers (client_http w stream k request cl) = before @ (name, v) # after \<and> (v = k \<or> v = ''Bearer '' @ k)"
proof (cases cl)
  case (Anthropic_client p)
  have "\<forall>k. \<exists>v. hq_headers (client_http w stream k request cl) = [] @ (''x-api-key'', v) # ([(''anthropic-version'', ''2023-06-01''),
      (''Content-Type'', ''application/json'')] @ (if stream then [(''Accept'', ''text/event-stream'')] else [])) \<and> (v = k \<or> v = ''Bearer '' @ k)"
    by (simp add: Anthropic_client anthropic_http_def)
  then show ?thesis by blast
next
  case (Gemini_client p)
  have "\<forall>k. \<exists>v. hq_headers (client_http w stream k request cl) = [(''Content-Type'', ''application/json'')] @ (''x-goog-api-key'', v) #
      (if stream then [(''Accept'', ''text/event-stream'')] else []) \<and> (v = k \<or> v = ''Bearer '' @ k)"
    by (simp add: Gemini_client gemini_http_def)
  then show ?thesis by blast
next
  case (Compatible_client c)
  have "\<forall>k. \<exists>v. hq_headers (client_http w stream k request cl) =
      [] @ (case oc_auth_method c of Bearer \<Rightarrow> ''Authorization'' | Header name \<Rightarrow> name, v) # ([(''Content-Type'', ''application/json'')]
        @ (if stream then [(''Accept'', ''text/event-stream'')] else []) @ oc_extra_headers c) \<and> (v = k \<or> v = ''Bearer '' @ k)"
    by (auto simp: Compatible_client compatible_http_def build_auth_header_def split: AuthMethod.split)
  then show ?thesis by blast
qed

lemma client_key_not_elsewhere:
  "hq_url (client_http w stream k request cl) = hq_url (client_http w stream k' request cl)"
  "hq_body (client_http w stream k request cl) = hq_body (client_http w stream k' request cl)"
  by (cases cl; simp add: anthropic_http_def gemini_http_def compatible_http_def)+

lemma build_client_base_url:
  assumes "build_client t u = Ok cl" "trimmed_url u = Some b"
  shows "client_base_url cl = b"
  using assms
  by (auto simp: build_client_def registry_build_def client_registry_def build_provider_registry_apply bearer_client_def
      preset_client_def compatible_bearer_def anthropic_new_def gemini_new_def Let_def split: if_splits option.splits)

lemma complete_depends_on_request:
  assumes "hp_post h (client_http w False api_key request cl) = Err e"
  shows "client_complete h w request api_key cl = Some (Err (PE_Network e))"
  using assms
  by (cases cl) (simp_all add: anthropic_complete_def gemini_complete_def compatible_complete_def compatible_send_def exchange_def)

end
