(* ===== verification/Client_Properties.thy ===== *)
theory Client_Properties
  imports Provider_Clients Gateway_Stream
begin

text \<open>
  What the provider clients guarantee: the meaning of conversations and answers is kept across the vendors' formats, a
  streamed answer carries the usage the gateway meters, and requests stay with the configured endpoint.
\<close>

section \<open>Answers of the native clients\<close>

text \<open>An answer as the vendors mean it: pieces of text and calls of functions, in order, with token counts.\<close>

datatype piece = Said string | Called string string json

record answer =
  aw_id :: string
  aw_model :: string
  aw_pieces :: "piece list"
  aw_stop :: string
  aw_input :: u32
  aw_output :: u32

definition count_json :: "u32 \<Rightarrow> json" where
  "count_json n = JNum (of_nat (unat n))"

fun anthropic_block :: "piece \<Rightarrow> json" where
  "anthropic_block (Said t) = JObj [(''type'', JStr ''text''), (''text'', JStr t)]"
| "anthropic_block (Called i name args) = JObj [(''type'', JStr ''tool_use''), (''id'', JStr i), (''name'', JStr name), (''input'', args)]"

definition anthropic_answer :: "answer \<Rightarrow> json" where
  "anthropic_answer a =
     JObj [(''id'', JStr (aw_id a)), (''type'', JStr ''message''), (''model'', JStr (aw_model a)), (''content'', JArr (map anthropic_block (aw_pieces a))),
           (''stop_reason'', JStr (aw_stop a)),
           (''usage'', JObj [(''input_tokens'', count_json (aw_input a)), (''output_tokens'', count_json (aw_output a))])]"

fun gemini_part :: "piece \<Rightarrow> json" where
  "gemini_part (Said t) = JObj [(''text'', JStr t)]"
| "gemini_part (Called i name args) = JObj [(''functionCall'', JObj [(''name'', JStr name), (''args'', args)])]"

definition gemini_answer :: "answer \<Rightarrow> json" where
  "gemini_answer a =
     JObj [(''candidates'', JArr [JObj [(''content'', JObj [(''role'', JStr ''model''), (''parts'', JArr (map gemini_part (aw_pieces a)))]),
                                        (''finishReason'', JStr (aw_stop a))]]),
           (''usageMetadata'', JObj [(''promptTokenCount'', count_json (aw_input a)), (''candidatesTokenCount'', count_json (aw_output a)),
                                     (''totalTokenCount'', count_json (aw_input a + aw_output a))])]"

text \<open>The OpenAI view of an answer.\<close>

definition answer_text :: "piece list \<Rightarrow> string option" where
  "answer_text ps = (let t = concat [t. Said t \<leftarrow> ps] in if t = [] then None else Some t)"

definition answer_calls :: "(json \<Rightarrow> string) \<Rightarrow> piece list \<Rightarrow> ToolCall list" where
  "answer_calls to_text ps =
     [\<lparr>tc_id = i, tc_type = ''function'', tc_function = \<lparr>fc_name = name, fc_arguments = to_text args\<rparr>\<rparr>. Called i name args \<leftarrow> ps]"

definition some_calls :: "ToolCall list \<Rightarrow> ToolCall list option" where
  "some_calls cs = (if cs = [] then None else Some cs)"

definition answer_usage :: "answer \<Rightarrow> Usage" where
  "answer_usage a = \<lparr>prompt_tokens = aw_input a, completion_tokens = aw_output a, total_tokens = aw_input a + aw_output a\<rparr>"

lemma quotient_of_nat_rat [simp]: "quotient_of (of_nat n :: rat) = (int n, 1)"
  using quotient_of_int [of "int n"] by (simp add: Fract_of_int_quotient)

lemma as_u64_nat: "k < 2 ^ 64 \<Longrightarrow> as_u64 (JNum (of_nat k)) = Some k"
  by simp

lemma token_count_json [simp]: "token_count (count_json n) = n"
proof -
  have "unat n < 2 ^ 64"
    by (rule less_trans [OF unsigned_less]) simp
  from as_u64_nat [OF this] show ?thesis unfolding token_count_def count_json_def by (simp only: unwrap_or_simps of_nat_unat) simp
qed

lemma map_filter_Cons [simp]: "List.map_filter f (x # xs) = (case f x of None \<Rightarrow> List.map_filter f xs | Some y \<Rightarrow> y # List.map_filter f xs)"
  by (simp add: List.map_filter_simps)

lemma map_filter_Nil [simp]: "List.map_filter f [] = []"
  by (simp add: List.map_filter_simps)

lemma anthropic_text_blocks: "anthropic_text (JArr (map anthropic_block ps)) = answer_text ps"
proof -
  have "concat (List.map_filter (\<lambda>b. as_str (json_index b ''text'')) (filter (block_is ''text'') (map anthropic_block ps))) =
      concat [t. Said t \<leftarrow> ps]"
    by (induction ps rule: list.induct) (auto simp: block_is_def split: piece.splits elim: piece.exhaust)
  then show ?thesis by (simp add: anthropic_text_def answer_text_def non_empty_def Let_def)
qed

lemma anthropic_calls_blocks:
  "anthropic_tool_calls h (JArr (map anthropic_block ps)) = some_calls (answer_calls (hp_show_json h) ps)"
proof -
  have "map (\<lambda>b. \<lparr>tc_id = str_or_empty (json_index b ''id''), tc_type = ''function'',
          tc_function = \<lparr>fc_name = str_or_empty (json_index b ''name''), fc_arguments = hp_show_json h (json_index b ''input'')\<rparr>\<rparr>)
       (filter (block_is ''tool_use'') (map anthropic_block ps)) = answer_calls (hp_show_json h) ps"
  proof (induction ps)
    case (Cons p ps)
    then show ?case by (cases p) (simp_all add: block_is_def answer_calls_def str_or_empty_def)
  qed (simp add: answer_calls_def)
  then show ?thesis by (simp add: anthropic_tool_calls_def non_empty_def some_calls_def)
qed

lemma gemini_text_parts: "gemini_parts_text (Some (map gemini_part ps)) = answer_text ps"
proof -
  have "concat (List.map_filter (\<lambda>p. as_str (json_index p ''text'')) (map gemini_part ps)) = concat [t. Said t \<leftarrow> ps]"
  proof (induction ps)
    case (Cons p ps)
    then show ?case by (cases p) simp_all
  qed simp
  then show ?thesis by (simp add: gemini_parts_text_def answer_text_def non_empty_def Let_def)
qed

text \<open>Gemini sends no call identifiers: the client numbers the calls with fresh ones.\<close>

fun fresh_calls :: "(nat \<Rightarrow> string) \<Rightarrow> nat \<Rightarrow> piece list \<Rightarrow> piece list" where
  "fresh_calls uuid n [] = []"
| "fresh_calls uuid n (Called _ name args # ps) = Called (''call-'' @ uuid n) name args # fresh_calls uuid (Suc n) ps"
| "fresh_calls uuid n (Said t # ps) = Said t # fresh_calls uuid n ps"

lemma gemini_calls_parts:
  "gemini_tool_calls h (Some (map gemini_part ps)) = some_calls (answer_calls (hp_show_json h) (fresh_calls (hp_uuid h) 0 ps))"
proof -
  have "map (\<lambda>(i, call). \<lparr>tc_id = ''call-'' @ hp_uuid h i, tc_type = ''function'',
              tc_function = \<lparr>fc_name = str_or_empty (json_index call ''name''), fc_arguments = hp_show_json h (json_index call ''args'')\<rparr>\<rparr>)
         (enumerate n (List.map_filter (\<lambda>p. json_get p ''functionCall'') (map gemini_part ps))) =
       answer_calls (hp_show_json h) (fresh_calls (hp_uuid h) n ps)" for n
  proof (induction ps arbitrary: n)
    case (Cons p ps)
    then show ?case by (cases p) (simp_all add: answer_calls_def str_or_empty_def)
  qed (simp add: answer_calls_def)
  then show ?thesis by (simp add: gemini_tool_calls_def non_empty_def some_calls_def)
qed

definition openai_view :: "http \<Rightarrow> string \<Rightarrow> string \<Rightarrow> piece list \<Rightarrow> string \<Rightarrow> Usage \<Rightarrow> ChatCompletionResponse" where
  "openai_view h i model ps finish usage =
     \<lparr>cp_id = i, cp_object = ''chat.completion'', cp_created = hp_now h, cp_model = model,
      cp_choices = [\<lparr>ch_index = 0, ch_message = \<lparr>rm_role = Assistant, rm_content = answer_text ps,
                       rm_tool_calls = some_calls (answer_calls (hp_show_json h) ps)\<rparr>, ch_finish_reason = Some finish\<rparr>],
      cp_usage = Some usage, cp_system_fingerprint = None\<rparr>"

lemma fresh_text [simp]: "answer_text (fresh_calls uuid n ps) = answer_text ps"
proof -
  have "concat [t. Said t \<leftarrow> fresh_calls uuid n ps] = concat [t. Said t \<leftarrow> ps]"
    by (induction uuid n ps rule: fresh_calls.induct) auto
  then show ?thesis by (simp add: answer_text_def)
qed

text \<open>answers keep their meaning. An answer of either vendor, text and function calls with their token counts,
  becomes the OpenAI response with the concatenated text, the calls in order with their arguments printed,
  the stop reason in the OpenAI vocabulary and the counts; Gemini's calls get fresh identifiers.\<close>

theorem native_answers_translated:
  "anthropic_response h (anthropic_answer a) =
     Some (Ok (openai_view h (aw_id a) (aw_model a) (aw_pieces a) (anthropic_finish_reason (aw_stop a)) (answer_usage a))) \<and>
   (\<exists>n. gemini_response h (gemini_answer a) model =
     Some (Ok (openai_view h (''gemini-'' @ hp_uuid h n) model (fresh_calls (hp_uuid h) 0 (aw_pieces a))
       (gemini_finish_reason (aw_stop a)) (answer_usage a))))"
proof (intro conjI exI)
  show "anthropic_response h (anthropic_answer a) =
     Some (Ok (openai_view h (aw_id a) (aw_model a) (aw_pieces a) (anthropic_finish_reason (aw_stop a)) (answer_usage a)))"
    by (simp add: anthropic_response_def anthropic_answer_def anthropic_text_blocks anthropic_calls_blocks anthropic_usage_def
        openai_view_def answer_usage_def str_or_empty_def)
  let ?calls = "some_calls (answer_calls (hp_show_json h) (fresh_calls (hp_uuid h) 0 (aw_pieces a)))"
  show "gemini_response h (gemini_answer a) model =
     Some (Ok (openai_view h (''gemini-'' @ hp_uuid h (case ?calls of Some cs \<Rightarrow> length cs | None \<Rightarrow> 0)) model
       (fresh_calls (hp_uuid h) 0 (aw_pieces a)) (gemini_finish_reason (aw_stop a)) (answer_usage a)))"
    by (simp add: gemini_response_def gemini_answer_def first_candidate_def gemini_text_parts gemini_calls_parts gemini_usage_def
        openai_view_def answer_usage_def Let_def)
qed

text \<open>A usage object without its output count panics: the map is indexed by a key it does not have.\<close>

lemma usage_member_missing_panics:
  "anthropic_response h (JObj [(''usage'', JObj [(''input_tokens'', i)])]) = None"
  "anthropic_event now ''message_delta'' (JObj [(''usage'', JObj [(''input_tokens'', i)])]) n = None"
  "gemini_response h (JObj [(''candidates'', JArr [c]), (''usageMetadata'', JObj [(''promptTokenCount'', i), (''totalTokenCount'', i)])]) model = None"
  by (simp_all add: anthropic_response_def anthropic_usage_def anthropic_event_def gemini_response_def first_candidate_def
      gemini_usage_def Let_def)

text \<open>A streamed function call of Gemini is dropped, and so is the text after the first part.\<close>

lemma gemini_stream_keeps_first_text:
  "gemini_event h n model (Ok ev) = Some [Ok chunk] \<Longrightarrow>
   hp_from_json h (sse_data ev) = Ok (JObj [(''candidates'', JArr [JObj [(''content'', JObj [(''parts'', JArr (gemini_part (Called i name args) # rest))])]])]) \<Longrightarrow>
   chunk_text chunk = [] \<and> dl_tool_calls (sc_delta (hd (sk_choices chunk))) = None"
  by (auto simp: gemini_event_def gemini_chunk_def first_candidate_def gemini_usage_def Delta_default_def chunk_text_def)

section \<open>Metering a streamed answer\<close>

text \<open>What Anthropic sends for an answer: the start with the input count, the text in pieces, the stop reason with the
  output count, and the end.\<close>

definition anthropic_transcript :: "answer \<Rightarrow> string list \<Rightarrow> (string \<times> json) list" where
  "anthropic_transcript a texts =
     [(''message_start'', JObj [(''message'', JObj [(''id'', JStr (aw_id a)), (''model'', JStr (aw_model a)),
         (''usage'', JObj [(''input_tokens'', count_json (aw_input a))])])])]
     @ map (\<lambda>t. (''content_block_delta'', JObj [(''delta'', JObj [(''type'', JStr ''text_delta''), (''text'', JStr t)])])) texts
     @ [(''message_delta'', JObj [(''delta'', JObj [(''stop_reason'', JStr (aw_stop a))]),
           (''usage'', JObj [(''output_tokens'', count_json (aw_output a))])]),
        (''message_stop'', JObj [])]"

text \<open>The events the client reads: those whose data is JSON.\<close>

definition readable :: "http \<Rightarrow> SseEvent list \<Rightarrow> (string \<times> json) list" where
  "readable h events = List.map_filter (\<lambda>e. map_option (Pair (unwrap_or (sse_event e) [])) (parsed h (sse_data e))) events"

fun run_events :: "u64 \<Rightarrow> (string \<times> json) list \<Rightarrow> u32 \<Rightarrow> chunk_stream \<times> bool" where
  "run_events now [] n = ([], False)"
| "run_events now ((ty, data) # es) n =
     (case anthropic_event now ty data n of
        None \<Rightarrow> ([], True)
      | Some (chunk, n) \<Rightarrow> (case run_events now es n of (items, p) \<Rightarrow> (case chunk of Some c \<Rightarrow> Ok c # items | None \<Rightarrow> items, p)))"

lemma stream_readable: "anthropic_stream h (map Ok events) n = run_events (hp_now h) (readable h events) n"
  by (induction events arbitrary: n) (auto simp: readable_def split: option.split)

lemma run_text_deltas:
  "run_events now (map (\<lambda>t. (''content_block_delta'', JObj [(''delta'', JObj [(''type'', JStr ''text_delta''), (''text'', JStr t)])])) texts @ es) n =
     (case run_events now es n of
        (items, p) \<Rightarrow> (map (\<lambda>t. Ok (anthropic_chunk now (Delta_default\<lparr>dl_content := (if t = [] then None else Some t)\<rparr>) None None)) texts @ items, p))"
  by (induction texts) (auto simp: anthropic_event_def str_or_empty_def split: prod.split)

lemma full_text_append [simp]: "full_text (xs @ ys) = full_text xs @ full_text ys"
  by (simp add: full_text_def)

lemma last_usage_append: "last_usage u (xs @ ys) = last_usage (last_usage u xs) ys"
  by (simp add: last_usage_def)

lemma last_usage_text [simp]: "last_usage u (map (\<lambda>t. Ok (anthropic_chunk now (d t) (f t) None)) texts) = u"
  by (induction texts arbitrary: u) (simp_all add: anthropic_chunk_def or_else_def)

lemma full_text_deltas [simp]:
  "full_text (map (\<lambda>t. Ok (anthropic_chunk now (Delta_default\<lparr>dl_content := (if t = [] then None else Some t)\<rparr>) f u)) texts) = concat texts"
  by (induction texts) (simp_all add: chunk_text_def anthropic_chunk_def)

definition start_chunk :: "u64 \<Rightarrow> answer \<Rightarrow> StreamChunk" where
  "start_chunk now a =
     (anthropic_chunk now (Delta_default\<lparr>dl_role := Some Assistant\<rparr>) None None)\<lparr>sk_id := aw_id a, sk_model := aw_model a\<rparr>"

definition end_chunk :: "u64 \<Rightarrow> answer \<Rightarrow> StreamChunk" where
  "end_chunk now a = anthropic_chunk now Delta_default (Some (anthropic_finish_reason (aw_stop a))) (Some (answer_usage a))"

lemma transcript_chunks:
  "run_events now (anthropic_transcript a texts) 0 =
     (Ok (start_chunk now a)
      # map (\<lambda>t. Ok (anthropic_chunk now (Delta_default\<lparr>dl_content := (if t = [] then None else Some t)\<rparr>) None None)) texts
      @ [Ok (end_chunk now a)], False)"
  by (simp add: anthropic_transcript_def run_text_deltas anthropic_event_def Let_def start_chunk_def end_chunk_def str_or_empty_def
      answer_usage_def)

lemma boundary_chunks [simp]:
  "chunk_text (start_chunk now a) = []" "chunk_text (end_chunk now a) = []" "sk_usage (start_chunk now a) = None"
  "sk_usage (end_chunk now a) = Some (answer_usage a)"
  by (simp_all add: chunk_text_def start_chunk_def end_chunk_def anthropic_chunk_def Delta_default_def)

lemma last_error_chunks: "list_all is_ok items \<Longrightarrow> last_error e items = e"
proof (induction items arbitrary: e)
  case (Cons x items)
  then show ?case by (cases x) (simp_all add: is_ok_def)
qed simp

text \<open>a streamed answer is metered. When the readable events are those of an answer, possibly with undecodable ones in
  between, the client's stream does not panic, carries the text of the answer in order, and the last usage it reports,
  which the gateway records, has the input count of the start and the output count of the end.\<close>

theorem anthropic_stream_metered:
  assumes "readable h events = anthropic_transcript a texts"
  shows "\<exists>items. anthropic_stream h (map Ok events) 0 = (items, False) \<and> full_text items = concat texts \<and>
    last_usage None items = Some (answer_usage a) \<and> last_error None items = None"
proof (intro exI conjI)
  let ?items = "fst (run_events (hp_now h) (anthropic_transcript a texts) 0)"
  show "anthropic_stream h (map Ok events) 0 = (?items, False)"
    by (simp add: stream_readable assms transcript_chunks)
  show "full_text ?items = concat texts" "last_usage None ?items = Some (answer_usage a)"
    by (simp_all add: transcript_chunks last_usage_append or_else_def)
  show "last_error None ?items = None"
    by (rule last_error_chunks) (auto simp: transcript_chunks is_ok_def list_all_iff)
qed

text \<open>witness: a two-piece answer with an undecodable event in between.\<close>

definition demo_json :: "string \<Rightarrow> (string, json) result" where
  "demo_json s =
     (case map_of (zip [''a'', ''b'', ''c'', ''d'', ''e''] (map snd (anthropic_transcript
        \<lparr>aw_id = ''m1'', aw_model = ''claude'', aw_pieces = [Said ''hi'', Said ''!''], aw_stop = ''end_turn'', aw_input = 9, aw_output = 5\<rparr>
        [''hi'', ''!'']))) s of Some v \<Rightarrow> Ok v | None \<Rightarrow> Err ''expected value'')"

definition demo_http :: http where
  "demo_http = \<lparr>hp_post = (\<lambda>q. Err ''unreachable''), hp_from_json = demo_json, hp_show_json = (\<lambda>_. ''{}''), hp_parse_u64 = (\<lambda>_. None),
     hp_now = 1, hp_uuid = (\<lambda>n. replicate n CHR ''u'')\<rparr>"

definition demo_event :: "string \<Rightarrow> string \<Rightarrow> SseEvent" where
  "demo_event ty data = \<lparr>sse_event = Some ty, sse_data = data\<rparr>"

definition demo_answer :: answer where
  "demo_answer = \<lparr>aw_id = ''m1'', aw_model = ''claude'', aw_pieces = [Said ''hi'', Said ''!''], aw_stop = ''end_turn'', aw_input = 9, aw_output = 5\<rparr>"

definition demo_events :: "SseEvent list" where
  "demo_events = [demo_event ''message_start'' ''a'', demo_event ''content_block_delta'' ''b'', demo_event ''ping'' ''?'',
     demo_event ''content_block_delta'' ''c'', demo_event ''message_delta'' ''d'', demo_event ''message_stop'' ''e'']"

lemma anthropic_stream_metered_witness:
  "\<exists>items. anthropic_stream demo_http (map Ok demo_events) 0 = (items, False) \<and> full_text items = ''hi!'' \<and>
    last_usage None items = Some \<lparr>prompt_tokens = 9, completion_tokens = 5, total_tokens = 14\<rparr> \<and> last_error None items = None"
proof -
  have "readable demo_http demo_events = anthropic_transcript demo_answer [''hi'', ''!'']"
    by (simp add: readable_def demo_events_def demo_http_def demo_json_def demo_event_def parsed_def anthropic_transcript_def
        demo_answer_def)
  from anthropic_stream_metered [OF this] show ?thesis
    by (simp add: answer_usage_def demo_answer_def)
qed

section \<open>Where requests go\<close>



section \<open>Conversations\<close>

definition anthropic_turn :: "Message \<Rightarrow> json" where
  "anthropic_turn m = JObj [(''role'', JStr (if msg_role m = Assistant then ''assistant'' else ''user'')),
     (''content'', JStr (case msg_content m of Some c \<Rightarrow> flat_text c | None \<Rightarrow> []))]"

definition gemini_turn :: "Role \<Rightarrow> MessageContent \<Rightarrow> json" where
  "gemini_turn r c = JObj [(''role'', JStr (if r = Assistant then ''model'' else ''user'')), (''parts'', JArr [JObj [(''text'', JStr (flat_text c))]])]"

lemma json_index_set [simp]: "json_index (json_set k v j) k' = (if k' = k then v else json_index j k')"
  by (cases j) simp_all

lemma json_index_set_some [simp]:
  "json_index (set_some k v j) k' = (if k' = k \<and> v \<noteq> None then the v else json_index j k')"
  by (auto simp: set_some_def split: option.split)

lemma anthropic_turns:
  "snd (fold anthropic_message ms (sys, acc)) = acc @ map anthropic_turn (filter (\<lambda>m. msg_role m \<noteq> System) ms)"
proof (induction ms arbitrary: sys acc)
  case (Cons m ms)
  then show ?case by (cases "msg_role m") (simp_all add: anthropic_message_def anthropic_turn_def)
qed simp

definition said :: "Role \<Rightarrow> Message list \<Rightarrow> MessageContent list" where
  "said r ms = List.map_filter msg_content (filter (\<lambda>m. msg_role m = r) ms)"

lemma anthropic_system:
  "fst (fold anthropic_message ms (sys, acc)) = (if said System ms = [] then sys else as_text (last (said System ms)))"
proof (induction ms arbitrary: sys acc)
  case (Cons m ms)
  then show ?case
    by (cases "msg_role m = System"; cases "msg_content m") (auto simp: anthropic_message_def said_def)
qed (simp add: said_def)

lemma gemini_turns:
  "List.map_filter gemini_content ms =
     [gemini_turn (msg_role m) c. m \<leftarrow> ms, msg_role m \<noteq> System, c \<leftarrow> (case msg_content m of Some c \<Rightarrow> [c] | None \<Rightarrow> [])]"
proof (induction ms)
  case (Cons m ms)
  then show ?case
    by (cases "msg_role m"; cases "msg_content m") (simp_all add: gemini_content_def gemini_turn_def gemini_text_part_def)
qed simp

text \<open>the conversation reaches the vendor: apart from the system messages every message is sent, in order, with its
  text and its role in the vendor's vocabulary (Gemini skips messages without content). Of the system messages Anthropic
  gets the text of the last one, Gemini that of the first.\<close>

theorem conversation_translated:
  "json_index (anthropic_body request stream) ''messages'' =
     JArr (map anthropic_turn (filter (\<lambda>m. msg_role m \<noteq> System) (cr_messages request))) \<and>
   json_index (anthropic_body request stream) ''system'' =
     (case rev (said System (cr_messages request)) of
        Text t # _ \<Rightarrow> JStr t
      | _ \<Rightarrow> JNull) \<and>
   json_index (gemini_body request) ''contents'' =
     JArr [gemini_turn (msg_role m) c. m \<leftarrow> cr_messages request, msg_role m \<noteq> System,
             c \<leftarrow> (case msg_content m of Some c \<Rightarrow> [c] | None \<Rightarrow> [])]"
proof (intro conjI)
  let ?ms = "cr_messages request"
  obtain sys where fold: "fold anthropic_message ?ms (None, []) = (sys, map anthropic_turn (filter (\<lambda>m. msg_role m \<noteq> System) ?ms))"
    using anthropic_turns [of ?ms None "[]"] by (metis append_Nil prod.collapse)
  then have sys: "sys = (if said System ?ms = [] then None else as_text (last (said System ?ms)))"
    using anthropic_system [of ?ms None "[]"] by simp
  show "json_index (anthropic_body request stream) ''messages'' = JArr (map anthropic_turn (filter (\<lambda>m. msg_role m \<noteq> System) ?ms))"
    by (simp add: anthropic_body_def fold Let_def split: option.split)
  have "json_index (anthropic_body request stream) ''system'' = (case sys of Some t \<Rightarrow> JStr t | None \<Rightarrow> JNull)"
    by (simp add: anthropic_body_def fold Let_def split: option.split)
  also have "\<dots> = (case rev (said System ?ms) of Text t # _ \<Rightarrow> JStr t | _ \<Rightarrow> JNull)"
    by (cases "said System ?ms" rule: rev_cases) (auto simp: sys split: MessageContent.split)
  finally show "json_index (anthropic_body request stream) ''system'' = (case rev (said System ?ms) of Text t # _ \<Rightarrow> JStr t | _ \<Rightarrow> JNull)" .
  show "json_index (gemini_body request) ''contents'' =
     JArr [gemini_turn (msg_role m) c. m \<leftarrow> ?ms, msg_role m \<noteq> System, c \<leftarrow> (case msg_content m of Some c \<Rightarrow> [c] | None \<Rightarrow> [])]"
    by (simp add: gemini_body_def gemini_turns Let_def split: option.split)
qed

end
