(* ===== verification/Pii_Engine.thy ===== *)
theory Pii_Engine
  imports Request_Plugins Gateway_Config Net_Guard
begin

text \<open>
  PII detection (\<^verbatim>\<open>himadri-plugins/src/pii_engine.rs\<close>): the engine interface the guardrails code against and its
  adapter to \<^verbatim>\<open>redact-core\<close>, whose analysis and anonymisation are arguments. Confidences are rationals.
\<close>

section \<open>Interface\<close>

datatype RedactStrategy = Replace_pii | Mask_pii | Hash_pii | Encrypt_pii | Remove_pii

definition redact_strategy_parse :: "string \<Rightarrow> RedactStrategy option" where
  "redact_strategy_parse s =
     map_of [(''replace'', Replace_pii), (''mask'', Mask_pii), (''hash'', Hash_pii), (''encrypt'', Encrypt_pii), (''remove'', Remove_pii)]
       (to_ascii_lowercase s)"

datatype PiiError = Engine_error string | Config_pii string

fun show_pii_error :: "PiiError \<Rightarrow> string" where
  "show_pii_error (Engine_error e) = ''pii engine error: '' @ e"
| "show_pii_error (Config_pii e) = ''pii engine misconfigured: '' @ e"

record PiiEntityHit =
  hit_entity_type :: string
  hit_start :: nat
  hit_end :: nat
  hit_confidence :: rat

record RedactOptions =
  rop_strategy :: RedactStrategy
  rop_entities :: "string list option"
  rop_min_confidence :: rat

definition RedactOptions_default :: RedactOptions where
  "RedactOptions_default = \<lparr>rop_strategy = Replace_pii, rop_entities = None, rop_min_confidence = 3/5\<rparr>"

text \<open>Counts per entity type, a \<^verbatim>\<open>BTreeMap\<close>: sorted by type.\<close>

type_synonym counts = "(string \<times> u32) list"

fun count_add :: "string \<Rightarrow> u32 \<Rightarrow> counts \<Rightarrow> counts" where
  "count_add t n [] = [(t, n)]"
| "count_add t n ((u, k) # cs) =
     (if t = u then (u, k + n) # cs else if t < u then (t, n) # (u, k) # cs else (u, k) # count_add t n cs)"

record RedactOutcome =
  rou_text :: string
  rou_replaced :: counts

record PiiEngine =
  pii_scan :: "string \<Rightarrow> RedactOptions \<Rightarrow> (PiiError, PiiEntityHit list) result"
  pii_redact :: "string \<Rightarrow> RedactOptions \<Rightarrow> (PiiError, RedactOutcome) result"

definition count_types :: "string list \<Rightarrow> counts" where
  "count_types ts = fold (\<lambda>t. count_add t 1) ts []"

section \<open>Adapter\<close>

record RecognizerResult =
  rr_entity_type :: string
  rr_start :: nat
  rr_end :: nat
  rr_score :: rat
  rr_text :: "string option"
  rr_context :: "string option"

datatype AnonymizationStrategy = Anon_Replace | Anon_Mask | Anon_Hash | Anon_Encrypt | Anon_Redact

record AnonymizerConfig =
  anc_strategy :: AnonymizationStrategy
  anc_encryption_key :: "string option"
  anc_hash_salt :: "string option"
  anc_preserve_format :: bool

text \<open>\<^verbatim>\<open>redact-core\<close>: adding a pattern to a recognizer, analysing with the patterns added, anonymising detections.\<close>

record redact_core =
  rco_add_pattern :: "string \<times> string \<times> rat \<Rightarrow> (string, unit) result"
  rco_analyze :: "(string \<times> string \<times> rat) list \<Rightarrow> string \<Rightarrow> (string, RecognizerResult list) result"
  rco_anonymize :: "string \<Rightarrow> RecognizerResult list \<Rightarrow> AnonymizerConfig \<Rightarrow> (string, string) result"

definition SECRET_PATTERNS :: "(string \<times> string \<times> rat) list" where
  "SECRET_PATTERNS =
     [(''GW_JWT'', ''eyJ[a-zA-Z0-9_-]+'' @ [CHR 0x5C] @ ''.eyJ[a-zA-Z0-9_-]+'' @ [CHR 0x5C] @ ''.[a-zA-Z0-9_-]+'', 95/100),
      (''GW_AWS_KEY'', ''AKIA[0-9A-Z]{16}'', 95/100),
      (''GW_API_KEY'', ''sk-[a-zA-Z0-9_-]{16,}'', 9/10),
      (''GW_BEARER_TOKEN'', ''(?i)bearer'' @ [CHR 0x5C] @ ''s+[a-zA-Z0-9._~+/=-]{16,}'', 9/10)]"

record EngineSecrets =
  esc_hash_salt :: "string option"
  esc_encryption_key :: "string option"

definition engine_secrets_from_env :: "env_vars \<Rightarrow> EngineSecrets" where
  "engine_secrets_from_env env =
     \<lparr>esc_hash_salt = env ''GUARDRAILS_HASH_SALT'', esc_encryption_key = env ''GUARDRAILS_ENCRYPTION_KEY''\<rparr>"

record RedactCoreEngine =
  rce_patterns :: "(string \<times> string \<times> rat) list"
  rce_secrets :: EngineSecrets

fun add_patterns :: "redact_core \<Rightarrow> (string \<times> string \<times> rat) list \<Rightarrow> (PiiError, unit) result" where
  "add_patterns rc [] = Ok ()"
| "add_patterns rc ((name, regex, score) # ps) =
     (case rco_add_pattern rc (name, regex, score) of
        Err e \<Rightarrow> Err (Config_pii (''invalid pattern '' @ name @ '': '' @ e))
      | Ok _ \<Rightarrow> add_patterns rc ps)"

definition redact_core_engine_new :: "redact_core \<Rightarrow> EngineSecrets \<Rightarrow> (PiiError, RedactCoreEngine) result" where
  "redact_core_engine_new rc secrets =
     (case add_patterns rc SECRET_PATTERNS of
        Err e \<Rightarrow> Err e
      | Ok _ \<Rightarrow> Ok \<lparr>rce_patterns = SECRET_PATTERNS, rce_secrets = secrets\<rparr>)"

definition entity_selected :: "RedactOptions \<Rightarrow> RecognizerResult \<Rightarrow> bool" where
  "entity_selected opts e =
     (rop_min_confidence opts \<le> rr_score e \<and> (case rop_entities opts of Some s \<Rightarrow> rr_entity_type e \<in> set s | None \<Rightarrow> True))"

definition drop_value :: "RecognizerResult \<Rightarrow> RecognizerResult" where
  "drop_value e = e\<lparr>rr_text := None, rr_context := None\<rparr>"

definition filtered_entities ::
    "redact_core \<Rightarrow> RedactCoreEngine \<Rightarrow> string \<Rightarrow> RedactOptions \<Rightarrow> (PiiError, RecognizerResult list) result" where
  "filtered_entities rc e text opts =
     (case rco_analyze rc (rce_patterns e) text of
        Err err \<Rightarrow> Err (Engine_error err)
      | Ok detected \<Rightarrow> Ok (map drop_value (filter (entity_selected opts) detected)))"

fun anonymization_strategy :: "RedactStrategy \<Rightarrow> AnonymizationStrategy" where
  "anonymization_strategy Replace_pii = Anon_Replace"
| "anonymization_strategy Mask_pii = Anon_Mask"
| "anonymization_strategy Hash_pii = Anon_Hash"
| "anonymization_strategy Encrypt_pii = Anon_Encrypt"
| "anonymization_strategy Remove_pii = Anon_Redact"

definition anonymizer_config :: "RedactCoreEngine \<Rightarrow> RedactOptions \<Rightarrow> (PiiError, AnonymizerConfig) result" where
  "anonymizer_config e opts =
     (let strategy = anonymization_strategy (rop_strategy opts)
      in if strategy = Anon_Encrypt \<and> esc_encryption_key (rce_secrets e) = None
         then Err (Config_pii ''encrypt strategy requires GUARDRAILS_ENCRYPTION_KEY'')
         else Ok \<lparr>anc_strategy = strategy, anc_encryption_key = esc_encryption_key (rce_secrets e),
                  anc_hash_salt = esc_hash_salt (rce_secrets e), anc_preserve_format = True\<rparr>)"

definition core_scan :: "redact_core \<Rightarrow> RedactCoreEngine \<Rightarrow> string \<Rightarrow> RedactOptions \<Rightarrow> (PiiError, PiiEntityHit list) result" where
  "core_scan rc e text opts =
     (case filtered_entities rc e text opts of
        Err err \<Rightarrow> Err err
      | Ok es \<Rightarrow> Ok (map (\<lambda>r. \<lparr>hit_entity_type = rr_entity_type r, hit_start = rr_start r, hit_end = rr_end r, hit_confidence = rr_score r\<rparr>) es))"

definition core_redact :: "redact_core \<Rightarrow> RedactCoreEngine \<Rightarrow> string \<Rightarrow> RedactOptions \<Rightarrow> (PiiError, RedactOutcome) result" where
  "core_redact rc e text opts =
     (case filtered_entities rc e text opts of
        Err err \<Rightarrow> Err err
      | Ok es \<Rightarrow>
          if es = [] then Ok \<lparr>rou_text = text, rou_replaced = []\<rparr>
          else
            (let counts = count_types (map rr_entity_type es)
             in case anonymizer_config e opts of
                  Err err \<Rightarrow> Err err
                | Ok config \<Rightarrow>
                    (case rco_anonymize rc text es config of
                       Err err \<Rightarrow> Err (Engine_error err)
                     | Ok result \<Rightarrow> Ok \<lparr>rou_text = result, rou_replaced = counts\<rparr>)))"

definition core_engine :: "redact_core \<Rightarrow> RedactCoreEngine \<Rightarrow> PiiEngine" where
  "core_engine rc e = \<lparr>pii_scan = core_scan rc e, pii_redact = core_redact rc e\<rparr>"

section \<open>Contract\<close>

text \<open>What the guardrails rely on: the two operations agree on what they detect, and a redaction that detects nothing
  leaves the text alone.\<close>

locale pii_contract =
  fixes engine :: PiiEngine
  assumes agree: "pii_scan engine text opts = Ok hits \<Longrightarrow> pii_redact engine text opts = Ok out \<Longrightarrow>
      rou_replaced out = count_types (map hit_entity_type hits)"
    and redact_detects: "pii_redact engine text opts = Ok out \<Longrightarrow> \<exists>hits. pii_scan engine text opts = Ok hits"
    and untouched: "pii_redact engine text opts = Ok out \<Longrightarrow> rou_replaced out = [] \<Longrightarrow> rou_text out = text"

lemma count_add_not_Nil [simp]: "count_add t n cs \<noteq> []"
  by (induction t n cs rule: count_add.induct) simp_all

lemma fold_count_add_not_Nil: "cs \<noteq> [] \<Longrightarrow> fold (\<lambda>t. count_add t 1) ts cs \<noteq> []"
  by (induction ts arbitrary: cs) simp_all

lemma count_types_empty [simp]: "count_types [] = []"
  by (simp add: count_types_def)

lemma count_types_Nil [simp]: "count_types ts = [] \<longleftrightarrow> ts = []"
  by (cases ts) (simp_all add: count_types_def fold_count_add_not_Nil)

lemma set_count_add: "fst ` set (count_add t n cs) = insert t (fst ` set cs)"
  by (induction t n cs rule: count_add.induct) auto

lemma set_count_types: "fst ` set (count_types ts) = set ts"
proof -
  have "fst ` set (fold (\<lambda>t. count_add t 1) ts cs) = fst ` set cs \<union> set ts" for cs
    by (induction ts arbitrary: cs) (auto simp: set_count_add)
  then show ?thesis by (simp add: count_types_def)
qed

interpretation core: pii_contract "core_engine rc e" for rc e
  by unfold_locales
    (auto simp: core_engine_def core_scan_def core_redact_def Let_def comp_def split: sum.splits if_splits)

end
