(* ===== verification/Pii_Guardrail.thy ===== *)
theory Pii_Guardrail
  imports Pii_Engine
begin

text \<open>
  The PII guardrails (\<^verbatim>\<open>himadri-plugins/src/pii_guardrail.rs\<close>): the plugin that scans requests before dispatch and the
  guardrail that scans responses. The live configuration and the metrics live in the world; the join of a task on
  the blocking pool is an argument that may fail.
\<close>

section \<open>Settings\<close>

definition scoped_pii_section :: "Config \<Rightarrow> PluginContext \<Rightarrow> PiiGuardrailConfig option" where
  "scoped_pii_section cfg ctx =
     (case List.map_filter (\<lambda>scope. og_pii (sp_guardrails scope)) (rev (scopes cfg (ctx_org_id ctx) (ctx_team_id ctx))) of
        [] \<Rightarrow> None
      | pii # _ \<Rightarrow> Some pii)"

datatype PiiMode = Redact_mode | Block_mode | Observe_mode

definition pii_mode_parse :: "string \<Rightarrow> PiiMode option" where
  "pii_mode_parse s = map_of [(''redact'', Redact_mode), (''block'', Block_mode), (''observe'', Observe_mode)] (to_ascii_lowercase s)"

fun pii_mode_str :: "PiiMode \<Rightarrow> string" where
  "pii_mode_str Redact_mode = ''redact''"
| "pii_mode_str Block_mode = ''block''"
| "pii_mode_str Observe_mode = ''observe''"

record PiiGuardrailSettings =
  pgs_mode :: PiiMode
  pgs_options :: RedactOptions
  pgs_apply_to :: "Role list"
  pgs_scan_tool_arguments :: bool
  pgs_fail_open :: bool

definition PiiGuardrailSettings_default :: PiiGuardrailSettings where
  "PiiGuardrailSettings_default =
     \<lparr>pgs_mode = Redact_mode, pgs_options = RedactOptions_default, pgs_apply_to = [User, System, Tool_role],
      pgs_scan_tool_arguments = False, pgs_fail_open = False\<rparr>"

definition parse_roles :: "string list \<Rightarrow> Role list" where
  "parse_roles names =
     List.map_filter (\<lambda>name. map_of [(''user'', User), (''system'', System), (''assistant'', Assistant), (''tool'', Tool_role)]
       (to_ascii_lowercase name)) names"

fun strategy_of_config :: "PiiStrategyConfig \<Rightarrow> RedactStrategy" where
  "strategy_of_config Pii_Replace = Replace_pii"
| "strategy_of_config Pii_Mask = Mask_pii"
| "strategy_of_config Pii_Hash = Hash_pii"
| "strategy_of_config Pii_Encrypt = Encrypt_pii"
| "strategy_of_config Pii_Remove = Remove_pii"

fun mode_of_config :: "PiiModeConfig \<Rightarrow> PiiMode" where
  "mode_of_config Pii_Redact = Redact_mode"
| "mode_of_config Pii_Block = Block_mode"
| "mode_of_config Pii_Observe = Observe_mode"

definition to_ascii_uppercase :: "string \<Rightarrow> string" where
  "to_ascii_uppercase s = map (\<lambda>c. let n = (of_char c :: nat) in if 97 \<le> n \<and> n \<le> 122 then char_of (n - 32) else c) s"

definition settings_from_config :: "PiiGuardrailConfig \<Rightarrow> PiiGuardrailSettings" where
  "settings_from_config cfg =
     \<lparr>pgs_mode = mode_of_config (pii_mode cfg),
      pgs_options =
        \<lparr>rop_strategy = strategy_of_config (pii_strategy cfg),
         rop_entities = map_option (\<lambda>l. filter (\<lambda>e. e \<noteq> []) (map (\<lambda>e. to_ascii_uppercase (trim e)) l)) (pii_entities cfg),
         rop_min_confidence = pii_min_confidence cfg\<rparr>,
      pgs_apply_to = parse_roles (pii_apply_to cfg), pgs_scan_tool_arguments = pii_scan_tool_arguments cfg,
      pgs_fail_open = pii_fail_open cfg\<rparr>"

definition options_from_env :: "(string \<Rightarrow> rat option) \<Rightarrow> env_vars \<Rightarrow> RedactOptions" where
  "options_from_env parse_f32 env =
     (let options = RedactOptions_default;
          options = (case Option.bind (env ''GUARDRAILS_PII_STRATEGY'') redact_strategy_parse of
                       Some s \<Rightarrow> options\<lparr>rop_strategy := s\<rparr> | None \<Rightarrow> options);
          options = (case map_option (\<lambda>v. map to_ascii_uppercase (split_csv v)) (env ''GUARDRAILS_PII_ENTITIES'') of
                       Some s \<Rightarrow> if s = [] then options else options\<lparr>rop_entities := Some s\<rparr> | None \<Rightarrow> options)
      in case parse_var parse_f32 env ''GUARDRAILS_PII_MIN_CONFIDENCE'' of
           Some v \<Rightarrow> options\<lparr>rop_min_confidence := v\<rparr> | None \<Rightarrow> options)"

definition fail_open_from_env :: "env_vars \<Rightarrow> bool" where
  "fail_open_from_env env = flag_is_truthy env ''GUARDRAILS_PII_FAIL_OPEN''"

definition inline_limit_from_env :: "(string \<Rightarrow> nat option) \<Rightarrow> env_vars \<Rightarrow> nat" where
  "inline_limit_from_env parse_usize env = unwrap_or (parse_var parse_usize env ''GUARDRAILS_INLINE_LIMIT_BYTES'') (16 * 1024)"

definition settings_from_env :: "(string \<Rightarrow> rat option) \<Rightarrow> env_vars \<Rightarrow> PiiGuardrailSettings option" where
  "settings_from_env parse_f32 env =
     (case Option.bind (env ''GUARDRAILS_PII_MODE'') pii_mode_parse of
        None \<Rightarrow> None
      | Some mode \<Rightarrow>
          (let settings = PiiGuardrailSettings_default\<lparr>pgs_mode := mode, pgs_options := options_from_env parse_f32 env,
                            pgs_fail_open := fail_open_from_env env\<rparr>
           in Some (case env ''GUARDRAILS_PII_SCAN_TOOL_ARGS'' of
                      Some v \<Rightarrow> settings\<lparr>pgs_scan_tool_arguments := (to_ascii_lowercase v = ''true'')\<rparr>
                    | None \<Rightarrow> settings)))"

section \<open>Texts of a request\<close>

datatype Slot = Content_slot nat "nat option" | ToolArg nat nat

text \<open>The slots and texts of message \<open>i\<close>: the content, then the arguments of its tool calls.\<close>

definition part_slots :: "nat \<Rightarrow> nat \<times> ContentPart \<Rightarrow> (Slot \<times> string) list" where
  "part_slots i jp =
     (case jp of
        (j, TextPart text) \<Rightarrow> if text \<noteq> [] then [(Content_slot i (Some j), text)] else []
      | (j, ImageUrl _) \<Rightarrow> [])"

definition content_slots :: "nat \<Rightarrow> Message \<Rightarrow> (Slot \<times> string) list" where
  "content_slots i m =
     (case msg_content m of
        Some (Text s) \<Rightarrow> if s \<noteq> [] then [(Content_slot i None, s)] else []
      | Some (Parts parts) \<Rightarrow> concat (map (part_slots i) (enumerate 0 parts))
      | None \<Rightarrow> [])"

definition call_slots :: "nat \<Rightarrow> nat \<times> ToolCall \<Rightarrow> (Slot \<times> string) list" where
  "call_slots i jc =
     (case jc of (j, call) \<Rightarrow>
        if fc_arguments (tc_function call) \<noteq> [] then [(ToolArg i j, fc_arguments (tc_function call))] else [])"

definition message_slots :: "PiiGuardrailSettings \<Rightarrow> nat \<times> Message \<Rightarrow> (Slot \<times> string) list" where
  "message_slots s im =
     (case im of (i, m) \<Rightarrow>
        if msg_role m \<notin> set (pgs_apply_to s) then []
        else content_slots i m
             @ (if pgs_scan_tool_arguments s
                then concat (map (call_slots i) (enumerate 0 (case msg_tool_calls m of Some cs \<Rightarrow> cs | None \<Rightarrow> []))) else []))"

definition collect_slots :: "PiiGuardrailSettings \<Rightarrow> PluginContext \<Rightarrow> (Slot \<times> string) list" where
  "collect_slots s ctx = concat (map (message_slots s) (enumerate 0 (cr_messages (ctx_request ctx))))"

definition update_message :: "nat \<Rightarrow> (Message \<Rightarrow> Message) \<Rightarrow> Message list \<Rightarrow> Message list" where
  "update_message i f ms = (if i < length ms then ms[i := f (ms ! i)] else ms)"

fun slot_message :: "Slot \<Rightarrow> nat" where
  "slot_message (Content_slot i _) = i"
| "slot_message (ToolArg i _) = i"

definition write_part :: "nat \<Rightarrow> string \<Rightarrow> ContentPart list \<Rightarrow> ContentPart list" where
  "write_part j new_text parts =
     (if j < length parts then (case parts ! j of TextPart _ \<Rightarrow> parts[j := TextPart new_text] | ImageUrl _ \<Rightarrow> parts) else parts)"

definition write_call :: "nat \<Rightarrow> string \<Rightarrow> ToolCall list \<Rightarrow> ToolCall list" where
  "write_call j new_text calls =
     (if j < length calls
      then calls[j := (calls ! j)\<lparr>tc_function := (tc_function (calls ! j))\<lparr>fc_arguments := new_text\<rparr>\<rparr>] else calls)"

fun write_message :: "Slot \<Rightarrow> string \<Rightarrow> Message \<Rightarrow> Message" where
  "write_message (Content_slot i None) new_text m = m\<lparr>msg_content := Some (Text new_text)\<rparr>"
| "write_message (Content_slot i (Some j)) new_text m =
     (case msg_content m of Some (Parts parts) \<Rightarrow> m\<lparr>msg_content := Some (Parts (write_part j new_text parts))\<rparr> | _ \<Rightarrow> m)"
| "write_message (ToolArg i j) new_text m =
     (case msg_tool_calls m of Some calls \<Rightarrow> m\<lparr>msg_tool_calls := Some (write_call j new_text calls)\<rparr> | None \<Rightarrow> m)"

definition write_slot :: "Slot \<Rightarrow> string \<Rightarrow> Message list \<Rightarrow> Message list" where
  "write_slot slot new_text ms = update_message (slot_message slot) (write_message slot new_text) ms"

definition write_back :: "Slot \<Rightarrow> string \<Rightarrow> PluginContext \<Rightarrow> PluginContext" where
  "write_back slot new_text ctx =
     ctx\<lparr>ctx_request := (ctx_request ctx)\<lparr>cr_messages := write_slot slot new_text (cr_messages (ctx_request ctx))\<rparr>\<rparr>"

section \<open>Plugin\<close>

datatype guard_metric =
    Engine_errors_total
  | Blocked_total string
  | Pii_detections_total string string string u32
  | Scan_duration string

text \<open>\<open>pgp_config\<close> reads the live configuration, \<open>pgp_metrics\<close> counts, \<open>pgp_join\<close> gives the error of the blocking task, if any.\<close>

record 'w PiiGuardrailPlugin =
  pgp_engine :: PiiEngine
  pgp_defaults :: "PiiGuardrailSettings option"
  pgp_config :: "('w \<Rightarrow> Config) option"
  pgp_metrics :: "(guard_metric \<Rightarrow> 'w \<Rightarrow> 'w) option"
  pgp_inline_limit_bytes :: nat
  pgp_join :: "string list \<Rightarrow> string option"

definition pii_plugin_new ::
    "PiiEngine \<Rightarrow> PiiGuardrailSettings \<Rightarrow> (guard_metric \<Rightarrow> 'w \<Rightarrow> 'w) option \<Rightarrow> nat \<Rightarrow> (string list \<Rightarrow> string option) \<Rightarrow>
     'w PiiGuardrailPlugin" where
  "pii_plugin_new engine settings metrics inline_limit task =
     \<lparr>pgp_engine = engine, pgp_defaults = Some settings, pgp_config = None, pgp_metrics = metrics,
      pgp_inline_limit_bytes = inline_limit, pgp_join = task\<rparr>"

definition pii_plugin_with_config ::
    "PiiEngine \<Rightarrow> PiiGuardrailSettings option \<Rightarrow> ('w \<Rightarrow> Config) \<Rightarrow> (guard_metric \<Rightarrow> 'w \<Rightarrow> 'w) option \<Rightarrow> nat \<Rightarrow>
     (string list \<Rightarrow> string option) \<Rightarrow> 'w PiiGuardrailPlugin" where
  "pii_plugin_with_config engine defaults config metrics inline_limit task =
     \<lparr>pgp_engine = engine, pgp_defaults = defaults, pgp_config = Some config, pgp_metrics = metrics,
      pgp_inline_limit_bytes = inline_limit, pgp_join = task\<rparr>"

definition pii_effective_settings :: "'w PiiGuardrailPlugin \<Rightarrow> PluginContext \<Rightarrow> 'w \<Rightarrow> PiiGuardrailSettings option" where
  "pii_effective_settings p ctx w =
     (case pgp_config p of
        None \<Rightarrow> pgp_defaults p
      | Some handle \<Rightarrow>
          (let cfg = handle w
           in case scoped_pii_section cfg ctx of
                Some pii \<Rightarrow> if pii_enabled pii then Some (settings_from_config pii) else None
              | None \<Rightarrow>
                  if pii_enabled (gr_pii (cfg_guardrails cfg)) then Some (settings_from_config (gr_pii (cfg_guardrails cfg)))
                  else pgp_defaults p))"

definition count_metric :: "(guard_metric \<Rightarrow> 'w \<Rightarrow> 'w) option \<Rightarrow> guard_metric \<Rightarrow> 'w \<Rightarrow> 'w" where
  "count_metric metrics e w = (case metrics of Some f \<Rightarrow> f e w | None \<Rightarrow> w)"

definition record_detections :: "(guard_metric \<Rightarrow> 'w \<Rightarrow> 'w) option \<Rightarrow> counts \<Rightarrow> string \<Rightarrow> string \<Rightarrow> 'w \<Rightarrow> 'w" where
  "record_detections metrics entities direction action w =
     fold (\<lambda>(t, n). count_metric metrics (Pii_detections_total t direction action n)) entities w"

definition pii_engine_error :: "'w PiiGuardrailPlugin \<Rightarrow> bool \<Rightarrow> PiiError \<Rightarrow> 'w \<Rightarrow> (PluginError, unit) result \<times> 'w" where
  "pii_engine_error p fail_open e w =
     (let w = count_metric (pgp_metrics p) Engine_errors_total w
      in if fail_open then (Ok (), w) else (Err (Internal_plugin (''PII guardrail failed: '' @ show_pii_error e)), w))"

definition count_all :: "counts \<Rightarrow> counts \<Rightarrow> counts" where
  "count_all new old = fold (\<lambda>(t, n). count_add t n) new old"

text \<open>One pass over the texts: the rewritten ones and the counts, or the first engine error.\<close>

fun run_engine_acc ::
    "PiiEngine \<Rightarrow> RedactOptions \<Rightarrow> PiiMode \<Rightarrow> string list \<Rightarrow> string option list \<Rightarrow> counts \<Rightarrow>
     (PiiError, string option list \<times> counts) result" where
  "run_engine_acc engine opts mode [] rewritten counts = Ok (rewritten, counts)"
| "run_engine_acc engine opts mode (text # texts) rewritten counts =
     (if mode = Redact_mode
      then case pii_redact engine text opts of
             Err e \<Rightarrow> Err e
           | Ok out \<Rightarrow>
               run_engine_acc engine opts mode texts
                 (rewritten @ [if rou_replaced out = [] then None else Some (rou_text out)]) (count_all (rou_replaced out) counts)
      else case pii_scan engine text opts of
             Err e \<Rightarrow> Err e
           | Ok hits \<Rightarrow>
               run_engine_acc engine opts mode texts (rewritten @ [None])
                 (fold (\<lambda>h. count_add (hit_entity_type h) 1) hits counts))"

definition run_engine :: "PiiEngine \<Rightarrow> string list \<Rightarrow> RedactOptions \<Rightarrow> PiiMode \<Rightarrow> (PiiError, string option list \<times> counts) result" where
  "run_engine engine texts opts mode = run_engine_acc engine opts mode texts [] []"

definition pii_metadata :: "PiiMode \<Rightarrow> counts \<Rightarrow> json" where
  "pii_metadata mode counts =
     JObj [(''action'', JStr (pii_mode_str mode)), (''entities'', JObj (map (\<lambda>(t, n). (t, JNum (of_nat (unat n)))) counts))]"

definition write_all :: "(Slot \<times> string option) list \<Rightarrow> PluginContext \<Rightarrow> PluginContext" where
  "write_all rs ctx = fold (\<lambda>(slot, r) ctx. case r of Some t \<Rightarrow> write_back slot t ctx | None \<Rightarrow> ctx) rs ctx"

text \<open>The end of \<^verbatim>\<open>execute\<close>, once the engine has run.\<close>

definition pii_enforce ::
    "'w PiiGuardrailPlugin \<Rightarrow> PiiMode \<Rightarrow> Slot list \<Rightarrow> string option list \<Rightarrow> counts \<Rightarrow> PluginContext \<Rightarrow> 'w \<Rightarrow> 'w outcome" where
  "pii_enforce p mode slots rewritten counts ctx w =
     (if counts = [] then (Ok (), ctx, w)
      else
        (let w = record_detections (pgp_metrics p) counts ''request'' (pii_mode_str mode) w;
             ctx = set_metadata ''guardrails.pii'' (pii_metadata mode counts) ctx
         in case mode of
              Redact_mode \<Rightarrow> (Ok (), write_all (zip slots rewritten) ctx, w)
            | Block_mode \<Rightarrow>
                (Err (Rejected ''pii-guardrail'' (''PII detected: '' @ join '', '' (map fst counts)) BadRequest_kind), ctx,
                 count_metric (pgp_metrics p) (Blocked_total ''request'') w)
            | Observe_mode \<Rightarrow> (Ok (), ctx, w)))"

definition pii_execute :: "'w PiiGuardrailPlugin \<Rightarrow> PluginContext \<Rightarrow> 'w \<Rightarrow> 'w outcome" where
  "pii_execute p ctx w =
     (case pii_effective_settings p ctx w of
        None \<Rightarrow> (Ok (), ctx, w)
      | Some settings \<Rightarrow>
          (let slots = map fst (collect_slots settings ctx); texts = map snd (collect_slots settings ctx)
           in if texts = [] then (Ok (), ctx, w)
              else
                (let mode = pgs_mode settings;
                     result = (if pgp_inline_limit_bytes p < sum_list (map length texts)
                               then (case pgp_join p texts of
                                       Some e \<Rightarrow> Err (Internal_plugin (''PII guardrail task failed: '' @ e))
                                     | None \<Rightarrow> Ok (run_engine (pgp_engine p) texts (pgs_options settings) mode))
                               else Ok (run_engine (pgp_engine p) texts (pgs_options settings) mode));
                     w = count_metric (pgp_metrics p) (Scan_duration ''request'') w
                 in case result of
                      Err e \<Rightarrow> (Err e, ctx, w)
                    | Ok (Err e) \<Rightarrow> (let (r, w) = pii_engine_error p (pgs_fail_open settings) e w in (r, ctx, w))
                    | Ok (Ok (rewritten, counts)) \<Rightarrow> pii_enforce p mode slots rewritten counts ctx w)))"

definition pii_plugin :: "'w PiiGuardrailPlugin \<Rightarrow> 'w Plugin" where
  "pii_plugin p = \<lparr>pl_name = ''pii-guardrail'', pl_plugin_type = Guardrail, pl_stage = BeforeRequest,
     pl_also_after_request = False, pl_execute = pii_execute p\<rparr>"


section \<open>Response guardrail\<close>

datatype PiiResponseMode = Off_resp | Observe_resp | Redact_resp | Block_resp

definition pii_response_mode_parse :: "string \<Rightarrow> PiiResponseMode option" where
  "pii_response_mode_parse s =
     map_of [(''off'', Off_resp), (''observe'', Observe_resp), (''redact'', Redact_resp), (''block'', Block_resp)] (to_ascii_lowercase s)"

fun pii_response_mode_str :: "PiiResponseMode \<Rightarrow> string" where
  "pii_response_mode_str Off_resp = ''off''"
| "pii_response_mode_str Observe_resp = ''observe''"
| "pii_response_mode_str Redact_resp = ''redact''"
| "pii_response_mode_str Block_resp = ''block''"

record PiiResponseSettings =
  prs_mode :: PiiResponseMode
  prs_options :: RedactOptions
  prs_fail_open :: bool

fun response_mode_of_config :: "PiiResponseModeConfig \<Rightarrow> PiiResponseMode" where
  "response_mode_of_config Resp_Off = Off_resp"
| "response_mode_of_config Resp_Observe = Observe_resp"
| "response_mode_of_config Resp_Redact = Redact_resp"
| "response_mode_of_config Resp_Block = Block_resp"

definition response_settings_from_config :: "PiiGuardrailConfig \<Rightarrow> PiiResponseSettings" where
  "response_settings_from_config cfg =
     (let request_side = settings_from_config cfg
      in \<lparr>prs_mode = response_mode_of_config (pii_response_mode cfg), prs_options = pgs_options request_side,
          prs_fail_open = pgs_fail_open request_side\<rparr>)"

definition response_settings_from_env :: "(string \<Rightarrow> rat option) \<Rightarrow> env_vars \<Rightarrow> PiiResponseSettings option" where
  "response_settings_from_env parse_f32 env =
     (case Option.bind (env ''GUARDRAILS_PII_RESPONSE_MODE'') pii_response_mode_parse of
        None \<Rightarrow> None
      | Some mode \<Rightarrow>
          if mode = Off_resp then None
          else Some \<lparr>prs_mode = mode, prs_options = options_from_env parse_f32 env, prs_fail_open = fail_open_from_env env\<rparr>)"

record 'w PiiResponseGuardrail =
  prg_engine :: PiiEngine
  prg_defaults :: "PiiResponseSettings option"
  prg_config :: "('w \<Rightarrow> Config) option"
  prg_metrics :: "(guard_metric \<Rightarrow> 'w \<Rightarrow> 'w) option"
  prg_inline_limit_bytes :: nat
  prg_join :: "string \<Rightarrow> string option"

definition pii_response_new ::
    "PiiEngine \<Rightarrow> PiiResponseSettings \<Rightarrow> (guard_metric \<Rightarrow> 'w \<Rightarrow> 'w) option \<Rightarrow> nat \<Rightarrow> (string \<Rightarrow> string option) \<Rightarrow>
     'w PiiResponseGuardrail" where
  "pii_response_new engine settings metrics inline_limit task =
     \<lparr>prg_engine = engine, prg_defaults = Some settings, prg_config = None, prg_metrics = metrics,
      prg_inline_limit_bytes = inline_limit, prg_join = task\<rparr>"

definition pii_response_with_config ::
    "PiiEngine \<Rightarrow> PiiResponseSettings option \<Rightarrow> ('w \<Rightarrow> Config) \<Rightarrow> (guard_metric \<Rightarrow> 'w \<Rightarrow> 'w) option \<Rightarrow> nat \<Rightarrow>
     (string \<Rightarrow> string option) \<Rightarrow> 'w PiiResponseGuardrail" where
  "pii_response_with_config engine defaults config metrics inline_limit task =
     \<lparr>prg_engine = engine, prg_defaults = defaults, prg_config = Some config, prg_metrics = metrics,
      prg_inline_limit_bytes = inline_limit, prg_join = task\<rparr>"

definition active_response :: "PiiGuardrailConfig \<Rightarrow> PiiResponseSettings option" where
  "active_response cfg =
     (if pii_enabled cfg \<and> pii_response_mode cfg \<noteq> Resp_Off then Some (response_settings_from_config cfg) else None)"

definition response_effective_settings :: "'w PiiResponseGuardrail \<Rightarrow> PluginContext \<Rightarrow> 'w \<Rightarrow> PiiResponseSettings option" where
  "response_effective_settings g ctx w =
     (case prg_config g of
        None \<Rightarrow> prg_defaults g
      | Some handle \<Rightarrow>
          (let cfg = handle w
           in case scoped_pii_section cfg ctx of
                Some pii \<Rightarrow> active_response pii
              | None \<Rightarrow> or_else (active_response (gr_pii (cfg_guardrails cfg))) (prg_defaults g)))"

datatype ScanOrRedact = Hits "PiiEntityHit list" | Redacted RedactOutcome

definition scan_or_redact :: "PiiEngine \<Rightarrow> PiiResponseMode \<Rightarrow> RedactOptions \<Rightarrow> string \<Rightarrow> (PiiError, ScanOrRedact) result" where
  "scan_or_redact engine mode opts response =
     (if mode = Redact_resp
      then (case pii_redact engine response opts of Ok out \<Rightarrow> Ok (Redacted out) | Err e \<Rightarrow> Err e)
      else (case pii_scan engine response opts of Ok hits \<Rightarrow> Ok (Hits hits) | Err e \<Rightarrow> Err e))"

fun outcome_counts :: "ScanOrRedact \<Rightarrow> counts" where
  "outcome_counts (Redacted out) = rou_replaced out"
| "outcome_counts (Hits hits) = count_types (map hit_entity_type hits)"

text \<open>The action for an outcome of the engine, with the metrics it counts.\<close>

definition response_action ::
    "'w PiiResponseGuardrail \<Rightarrow> PiiResponseMode \<Rightarrow> ScanOrRedact \<Rightarrow> 'w \<Rightarrow> ResponseAction \<times> 'w" where
  "response_action g mode outcome w =
     (let counts = outcome_counts outcome
      in if counts = [] then (Allow, w)
         else
           (let w = record_detections (prg_metrics g) counts ''response'' (pii_response_mode_str mode) w
            in case outcome of
                 Redacted out \<Rightarrow> (Redact (rou_text out), w)
               | Hits _ \<Rightarrow>
                   if mode = Block_resp
                   then (Reject (''PII detected in model output: '' @ join '', '' (map fst counts)),
                         count_metric (prg_metrics g) (Blocked_total ''response'') w)
                   else (Allow, w)))"

definition pii_check_response ::
    "'w PiiResponseGuardrail \<Rightarrow> PluginContext \<Rightarrow> string \<Rightarrow> 'w \<Rightarrow> (PluginError, ResponseAction) result \<times> 'w" where
  "pii_check_response g ctx response w =
     (case response_effective_settings g ctx w of
        None \<Rightarrow> (Ok Allow, w)
      | Some settings \<Rightarrow>
          if response = [] \<or> prs_mode settings = Off_resp then (Ok Allow, w)
          else
            (let mode = prs_mode settings;
                 w = count_metric (prg_metrics g) (Scan_duration ''response'') w
             in case (if prg_inline_limit_bytes g < length response then prg_join g response else None) of
                  Some e \<Rightarrow> (Err (Internal_plugin (''PII response guardrail task failed: '' @ e)), w)
                | None \<Rightarrow>
                    (case scan_or_redact (prg_engine g) mode (prs_options settings) response of
                       Err _ \<Rightarrow>
                         (let w = count_metric (prg_metrics g) Engine_errors_total w
                          in if prs_fail_open settings then (Ok Allow, w)
                             else (Ok (Reject ''PII response guardrail failed; response withheld''), w))
                     | Ok outcome \<Rightarrow> (let (action, w) = response_action g mode outcome w in (Ok action, w)))))"

definition pii_response_guardrail :: "'w PiiResponseGuardrail \<Rightarrow> 'w ResponseGuardrail" where
  "pii_response_guardrail g = \<lparr>rg_name = ''pii-response-guardrail'', rg_check_response = pii_check_response g\<rparr>"

end
