(* ===== verification/Pii_Properties.thy ===== *)
theory Pii_Properties
  imports Pii_Guardrail Gateway_Route
begin

text \<open>
  What the PII guardrails guarantee: redaction rewrites exactly the selected texts, blocking lets nothing detected pass,
  the most specific scope decides, failures close, and detected values stay in the engine.
\<close>

section \<open>What a redaction does to a request\<close>

text \<open>Reference: a rewriting of the non-empty texts the settings select, in place.\<close>

definition rewritten :: "(string \<Rightarrow> string option) \<Rightarrow> string \<Rightarrow> string" where
  "rewritten r t = (if t = [] then t else unwrap_or (r t) t)"

fun rewrite_part :: "(string \<Rightarrow> string option) \<Rightarrow> ContentPart \<Rightarrow> ContentPart" where
  "rewrite_part r (TextPart t) = TextPart (rewritten r t)"
| "rewrite_part r (ImageUrl u) = ImageUrl u"

fun rewrite_content :: "(string \<Rightarrow> string option) \<Rightarrow> MessageContent \<Rightarrow> MessageContent" where
  "rewrite_content r (Text t) = Text (rewritten r t)"
| "rewrite_content r (Parts ps) = Parts (map (rewrite_part r) ps)"

definition rewrite_call :: "(string \<Rightarrow> string option) \<Rightarrow> ToolCall \<Rightarrow> ToolCall" where
  "rewrite_call r c = c\<lparr>tc_function := (tc_function c)\<lparr>fc_arguments := rewritten r (fc_arguments (tc_function c))\<rparr>\<rparr>"

definition rewrite_message :: "PiiGuardrailSettings \<Rightarrow> (string \<Rightarrow> string option) \<Rightarrow> Message \<Rightarrow> Message" where
  "rewrite_message s r m =
     (if msg_role m \<notin> set (pgs_apply_to s) then m
      else m\<lparr>msg_content := map_option (rewrite_content r) (msg_content m),
             msg_tool_calls := (if pgs_scan_tool_arguments s then map_option (map (rewrite_call r)) (msg_tool_calls m) else msg_tool_calls m)\<rparr>)"

definition rewrite_request :: "PiiGuardrailSettings \<Rightarrow> (string \<Rightarrow> string option) \<Rightarrow> ChatCompletionRequest \<Rightarrow> ChatCompletionRequest" where
  "rewrite_request s r request = request\<lparr>cr_messages := map (rewrite_message s r) (cr_messages request)\<rparr>"

text \<open>Writing back, one list of slots after the other.\<close>

definition put :: "(string \<Rightarrow> string option) \<Rightarrow> Slot \<times> string \<Rightarrow> Message \<Rightarrow> Message" where
  "put r st m = (case r (snd st) of Some t \<Rightarrow> write_message (fst st) t m | None \<Rightarrow> m)"

definition put_at :: "(string \<Rightarrow> string option) \<Rightarrow> Slot \<times> string \<Rightarrow> Message list \<Rightarrow> Message list" where
  "put_at r st ms = (case r (snd st) of Some t \<Rightarrow> write_slot (fst st) t ms | None \<Rightarrow> ms)"

lemma update_message_at: "update_message (length pre) f (pre @ m # ms) = pre @ f m # ms"
  by (simp add: update_message_def)

lemma put_at_message:
  "slot_message (fst st) = length pre \<Longrightarrow> put_at r st (pre @ m # ms) = pre @ put r st m # ms"
  by (simp add: put_at_def put_def write_slot_def update_message_at split: option.split)

lemma fold_put_at:
  "list_all (\<lambda>st. slot_message (fst st) = length pre) sts \<Longrightarrow>
   fold (put_at r) sts (pre @ m # ms) = pre @ fold (put r) sts m # ms"
  by (induction sts arbitrary: m) (simp_all add: put_at_message)

lemma put_parts:
  "msg_content m = Some (Parts (pre @ ps)) \<Longrightarrow>
   fold (put r) (concat (map (part_slots i) (enumerate (length pre) ps))) m =
     m\<lparr>msg_content := Some (Parts (pre @ map (rewrite_part r) ps))\<rparr>"
proof (induction ps arbitrary: pre m)
  case (Cons p ps)
  let ?m = "m\<lparr>msg_content := Some (Parts ((pre @ [rewrite_part r p]) @ ps))\<rparr>"
  have "fold (put r) (part_slots i (length pre, p)) m = ?m"
    using Cons.prems by (cases p) (auto simp: part_slots_def put_def write_part_def rewritten_def split: option.split)
  moreover have "fold (put r) (concat (map (part_slots i) (enumerate (length (pre @ [rewrite_part r p])) ps))) ?m =
      ?m\<lparr>msg_content := Some (Parts ((pre @ [rewrite_part r p]) @ map (rewrite_part r) ps))\<rparr>"
    by (rule Cons.IH) simp
  ultimately show ?case by simp
qed simp

lemma put_calls:
  "msg_tool_calls m = Some (pre @ cs) \<Longrightarrow>
   fold (put r) (concat (map (call_slots i) (enumerate (length pre) cs))) m =
     m\<lparr>msg_tool_calls := Some (pre @ map (rewrite_call r) cs)\<rparr>"
proof (induction cs arbitrary: pre m)
  case (Cons c cs)
  let ?m = "m\<lparr>msg_tool_calls := Some ((pre @ [rewrite_call r c]) @ cs)\<rparr>"
  have "fold (put r) (call_slots i (length pre, c)) m = ?m"
    using Cons.prems by (auto simp: call_slots_def put_def write_call_def rewrite_call_def rewritten_def split: option.split)
  moreover have "fold (put r) (concat (map (call_slots i) (enumerate (length (pre @ [rewrite_call r c])) cs))) ?m =
      ?m\<lparr>msg_tool_calls := Some ((pre @ [rewrite_call r c]) @ map (rewrite_call r) cs)\<rparr>"
    by (rule Cons.IH) simp
  ultimately show ?case by simp
qed simp

lemma put_content: "fold (put r) (content_slots i m) m = m\<lparr>msg_content := map_option (rewrite_content r) (msg_content m)\<rparr>"
proof (cases "msg_content m")
  case (Some c)
  then show ?thesis
    using put_parts [of m "[]" _ r i]
    by (cases c) (auto simp: content_slots_def put_def rewritten_def split: option.split)
qed (simp add: content_slots_def)

lemma put_message: "fold (put r) (message_slots s (i, m)) m = rewrite_message s r m"
proof -
  let ?m = "m\<lparr>msg_content := map_option (rewrite_content r) (msg_content m)\<rparr>"
  have "fold (put r) (concat (map (call_slots i) (enumerate 0 (case msg_tool_calls m of Some cs \<Rightarrow> cs | None \<Rightarrow> [])))) ?m =
      ?m\<lparr>msg_tool_calls := map_option (map (rewrite_call r)) (msg_tool_calls m)\<rparr>"
    using put_calls [of ?m "[]" _ r i] by (cases "msg_tool_calls m") simp_all
  then show ?thesis by (simp add: message_slots_def rewrite_message_def put_content)
qed

lemma slots_of_message: "list_all (\<lambda>st. slot_message (fst st) = i) (message_slots s (i, m))"
proof -
  have parts: "list_all (\<lambda>st. slot_message (fst st) = i) (part_slots i jp)" for jp
    by (cases "snd jp") (simp_all add: part_slots_def case_prod_beta)
  have "list_all (\<lambda>st. slot_message (fst st) = i) (content_slots i m)"
  proof (cases "msg_content m")
    case (Some c)
    then show ?thesis using parts by (cases c) (auto simp: content_slots_def list_all_iff)
  qed (simp add: content_slots_def)
  moreover have "list_all (\<lambda>st. slot_message (fst st) = i) (concat (map (call_slots i) xs))" for xs
    by (auto simp: list_all_iff call_slots_def)
  ultimately show ?thesis by (simp add: message_slots_def)
qed

lemma put_messages:
  "fold (put_at r) (concat (map (message_slots s) (enumerate (length pre) ms))) (pre @ ms) = pre @ map (rewrite_message s r) ms"
proof (induction ms arbitrary: pre)
  case (Cons m ms)
  have "fold (put_at r) (message_slots s (length pre, m)) (pre @ m # ms) = (pre @ [rewrite_message s r m]) @ ms"
    by (simp add: fold_put_at [OF slots_of_message] put_message)
  then show ?case using Cons.IH [of "pre @ [rewrite_message s r m]"] by simp
qed simp

lemma write_all_messages:
  "write_all (map (\<lambda>st. (fst st, r (snd st))) sts) ctx =
     ctx\<lparr>ctx_request := (ctx_request ctx)\<lparr>cr_messages := fold (put_at r) sts (cr_messages (ctx_request ctx))\<rparr>\<rparr>"
  by (induction sts arbitrary: ctx) (simp_all add: write_all_def put_at_def write_back_def split: option.split)

lemma write_all_rewrites:
  "write_all (map (\<lambda>st. (fst st, r (snd st))) (collect_slots s ctx)) ctx =
     ctx\<lparr>ctx_request := rewrite_request s r (ctx_request ctx)\<rparr>"
  using put_messages [of r s "[]" "cr_messages (ctx_request ctx)"]
  by (simp add: write_all_messages collect_slots_def rewrite_request_def)

section \<open>The engine's pass\<close>

lemma count_fold_not_Nil: "cs \<noteq> [] \<Longrightarrow> fold (\<lambda>(t, n). count_add t n) new cs \<noteq> []"
  by (induction new arbitrary: cs) (simp_all add: case_prod_beta)

lemma count_all_Nil [simp]: "count_all new old = [] \<longleftrightarrow> new = [] \<and> old = []"
  by (cases new) (auto simp: count_all_def count_fold_not_Nil)

definition redaction :: "PiiEngine \<Rightarrow> RedactOptions \<Rightarrow> string \<Rightarrow> string option" where
  "redaction engine opts t =
     (case pii_redact engine t opts of Ok out \<Rightarrow> if rou_replaced out = [] then None else Some (rou_text out) | Err _ \<Rightarrow> None)"

lemma run_engine_redact:
  "run_engine_acc engine opts Redact_mode texts acc counts = Ok (rw, counts') \<Longrightarrow>
     rw = acc @ map (redaction engine opts) texts \<and> list_all (\<lambda>t. is_ok (pii_redact engine t opts)) texts \<and>
     (counts' = [] \<longrightarrow> counts = [] \<and> list_all (\<lambda>t. redaction engine opts t = None) texts)"
proof (induction texts arbitrary: acc counts)
  case (Cons t texts)
  then obtain out where out: "pii_redact engine t opts = Ok out" by (cases "pii_redact engine t opts") simp_all
  from Cons.prems have "run_engine_acc engine opts Redact_mode texts
      (acc @ [if rou_replaced out = [] then None else Some (rou_text out)]) (count_all (rou_replaced out) counts) = Ok (rw, counts')"
    by (simp only: run_engine_acc.simps out sum.case simp_thms if_True)
  from Cons.IH [OF this] out show ?case by (auto simp: redaction_def)
qed simp

lemma run_engine_scan:
  "mode \<noteq> Redact_mode \<Longrightarrow> run_engine_acc engine opts mode texts acc counts = Ok (rw, counts') \<Longrightarrow>
     \<exists>hits. map (\<lambda>t. pii_scan engine t opts) texts = map Ok hits \<and>
       counts' = fold (\<lambda>h. count_add (hit_entity_type h) 1) (concat hits) counts"
proof (induction texts arbitrary: acc counts)
  case (Cons t texts)
  then obtain hs where hs: "pii_scan engine t opts = Ok hs" by (cases "pii_scan engine t opts") simp_all
  from Cons.prems have "run_engine_acc engine opts mode texts (acc @ [None])
      (fold (\<lambda>h. count_add (hit_entity_type h) 1) hs counts) = Ok (rw, counts')"
    by (simp only: run_engine_acc.simps hs sum.case if_False simp_thms)
  from Cons.IH [OF Cons.prems(1) this] obtain hits where
    "map (\<lambda>t. pii_scan engine t opts) texts = map Ok hits"
    "counts' = fold (\<lambda>h. count_add (hit_entity_type h) 1) (concat hits) (fold (\<lambda>h. count_add (hit_entity_type h) 1) hs counts)"
    by blast
  then show ?case using hs by (intro exI [of _ "hs # hits"]) simp
qed simp


section \<open>The request guardrail\<close>

text \<open>The texts of a request the settings select.\<close>

definition scanned_texts :: "PiiGuardrailSettings \<Rightarrow> PluginContext \<Rightarrow> string list" where
  "scanned_texts s ctx = map snd (collect_slots s ctx)"

text \<open>An accepted request, when the engine's failures are not waved through: the engine has been over all texts.\<close>

lemma pii_execute_Ok:
  assumes "pii_execute p ctx w = (Ok (), ctx', w')" "pii_effective_settings p ctx w = Some s" "\<not> pgs_fail_open s"
  obtains (skipped) "scanned_texts s ctx = []" "ctx' = ctx"
  | (scanned) rw counts w2 where "run_engine (pgp_engine p) (scanned_texts s ctx) (pgs_options s) (pgs_mode s) = Ok (rw, counts)"
      "pii_enforce p (pgs_mode s) (map fst (collect_slots s ctx)) rw counts ctx w2 = (Ok (), ctx', w')"
proof (cases "scanned_texts s ctx = []")
  case True
  then have "ctx' = ctx" using assms by (simp add: pii_execute_def scanned_texts_def)
  with True skipped show ?thesis by blast
next
  case False
  then show ?thesis
    using assms scanned
    by (auto simp: pii_execute_def scanned_texts_def Let_def pii_engine_error_def split: if_splits option.splits sum.splits)
qed

lemma zip_slots: "zip (map fst sts) (map (r \<circ> snd) sts) = map (\<lambda>st. (fst st, r (snd st))) sts"
  by (induction sts) simp_all

lemma write_nothing: "list_all (\<lambda>st. r (snd st) = None) sts \<Longrightarrow> write_all (map (\<lambda>st. (fst st, r (snd st))) sts) ctx = ctx"
  by (induction sts) (simp_all add: write_all_def)

lemma rewrite_nothing:
  assumes "list_all (\<lambda>t. r t = None) (scanned_texts s ctx)"
  shows "rewrite_request s r (ctx_request ctx) = ctx_request ctx"
proof -
  have "list_all (\<lambda>st. r (snd st) = None) (collect_slots s ctx)"
    using assms by (simp add: scanned_texts_def list_all_iff)
  from write_nothing [OF this, of ctx] write_all_rewrites [of r s ctx]
  have "ctx = ctx\<lparr>ctx_request := rewrite_request s r (ctx_request ctx)\<rparr>" by simp
  then have "ctx_request ctx = ctx_request (ctx\<lparr>ctx_request := rewrite_request s r (ctx_request ctx)\<rparr>)" by (rule arg_cong)
  then show ?thesis by simp
qed

lemma set_metadata_request [simp]: "ctx_request (set_metadata k v ctx) = ctx_request ctx"
  "collect_slots s (set_metadata k v ctx) = collect_slots s ctx"
  by (simp_all add: set_metadata_def collect_slots_def)

text \<open>C19: redaction is exact. When the guardrail redacts and lets a request pass, every selected non-empty text, message
  contents, parts and (where configured) tool arguments, is replaced in place by the engine's redaction of it and
  nothing else of the request changes; the engine has answered for each of them.\<close>

theorem pii_redaction_exact:
  assumes "pii_execute p ctx w = (Ok (), ctx', w')" "pii_effective_settings p ctx w = Some s" "\<not> pgs_fail_open s"
    "pgs_mode s = Redact_mode"
  shows "ctx_request ctx' = rewrite_request s (redaction (pgp_engine p) (pgs_options s)) (ctx_request ctx) \<and>
    list_all (\<lambda>t. is_ok (pii_redact (pgp_engine p) t (pgs_options s))) (scanned_texts s ctx)"
  using assms(1-3)
proof (cases rule: pii_execute_Ok)
  case skipped
  then show ?thesis by (simp add: rewrite_nothing)
next
  case (scanned rw counts w2)
  let ?r = "redaction (pgp_engine p) (pgs_options s)"
  from run_engine_redact [of "pgp_engine p" "pgs_options s" "scanned_texts s ctx" "[]" "[]" rw counts] scanned(1) assms(4)
  have rw: "rw = map ?r (scanned_texts s ctx)" and ok: "list_all (\<lambda>t. is_ok (pii_redact (pgp_engine p) t (pgs_options s))) (scanned_texts s ctx)"
    and none: "counts = [] \<Longrightarrow> list_all (\<lambda>t. ?r t = None) (scanned_texts s ctx)"
    by (simp_all add: run_engine_def)
  show ?thesis
  proof (cases "counts = []")
    case True
    then have "ctx' = ctx" using scanned(2) by (simp add: pii_enforce_def)
    then show ?thesis using none [OF True] ok by (simp add: rewrite_nothing)
  next
    case False
    let ?c = "set_metadata ''guardrails.pii'' (pii_metadata Redact_mode counts) ctx"
    have "ctx' = write_all (zip (map fst (collect_slots s ctx)) rw) ?c"
      using scanned(2) False assms(4) by (simp add: pii_enforce_def Let_def)
    also have "\<dots> = write_all (map (\<lambda>st. (fst st, ?r (snd st))) (collect_slots s ?c)) ?c"
      by (simp add: rw scanned_texts_def zip_slots)
    also have "\<dots> = ?c\<lparr>ctx_request := rewrite_request s ?r (ctx_request ?c)\<rparr>" by (rule write_all_rewrites)
    finally show ?thesis using ok by simp
  qed
qed

text \<open>blocking is exact. A guardrail that blocks lets a request pass only unchanged and when the engine finds nothing in any of its
  selected texts; a rejection lists the types of entity found, sorted, and no text of the request.\<close>

theorem pii_block_exact:
  assumes "pii_effective_settings p ctx w = Some s" "pgs_mode s = Block_mode" "\<not> pgs_fail_open s"
  shows "(\<forall>ctx' w'. pii_execute p ctx w = (Ok (), ctx', w') \<longrightarrow>
      ctx' = ctx \<and> list_all (\<lambda>t. pii_scan (pgp_engine p) t (pgs_options s) = Ok []) (scanned_texts s ctx)) \<and>
    (\<forall>name reason kind ctx' w'. pii_execute p ctx w = (Err (Rejected name reason kind), ctx', w') \<longrightarrow>
      (\<exists>hits. map (\<lambda>t. pii_scan (pgp_engine p) t (pgs_options s)) (scanned_texts s ctx) = map Ok hits \<and>
        reason = ''PII detected: '' @ join '', '' (map fst (count_types (map hit_entity_type (concat hits))))))"
proof -
  let ?scan = "\<lambda>t. pii_scan (pgp_engine p) t (pgs_options s)"
  have hits: "\<exists>hits. map ?scan (scanned_texts s ctx) = map Ok hits \<and> counts = count_types (map hit_entity_type (concat hits))"
    if "run_engine (pgp_engine p) (scanned_texts s ctx) (pgs_options s) Block_mode = Ok (rw, counts)" for rw counts
    using run_engine_scan [of Block_mode "pgp_engine p" "pgs_options s" "scanned_texts s ctx" "[]" "[]" rw counts] that
    by (auto simp: run_engine_def count_types_def fold_map comp_def)
  have "ctx' = ctx \<and> list_all (\<lambda>t. ?scan t = Ok []) (scanned_texts s ctx)"
    if "pii_execute p ctx w = (Ok (), ctx', w')" for ctx' w'
    using that assms(1,3)
  proof (cases rule: pii_execute_Ok)
    case (scanned rw counts w2)
    then have "counts = []" and ctx: "ctx' = ctx" using assms(2) by (auto simp: pii_enforce_def Let_def split: if_splits)
    obtain hs where hs: "map ?scan (scanned_texts s ctx) = map Ok hs" and c: "counts = count_types (map hit_entity_type (concat hs))"
      using hits scanned(1) assms(2) by auto
    from c \<open>counts = []\<close> have "count_types (map hit_entity_type (concat hs)) = []" by simp
    then have "\<forall>h\<in>set hs. h = []" unfolding count_types_Nil by simp
    then have "set (map ?scan (scanned_texts s ctx)) \<subseteq> {Ok []}" unfolding hs by auto
    with ctx show ?thesis by (auto simp: list_all_iff)
  qed simp
  moreover have "\<exists>hits. map ?scan (scanned_texts s ctx) = map Ok hits \<and>
      reason = ''PII detected: '' @ join '', '' (map fst (count_types (map hit_entity_type (concat hits))))"
    if rej: "pii_execute p ctx w = (Err (Rejected name reason kind), ctx', w')" for name reason kind ctx' w'
  proof -
    obtain rw counts where "run_engine (pgp_engine p) (scanned_texts s ctx) (pgs_options s) Block_mode = Ok (rw, counts)"
      and "reason = ''PII detected: '' @ join '', '' (map fst counts)"
      using rej assms
      by (auto simp: pii_execute_def scanned_texts_def Let_def pii_engine_error_def pii_enforce_def split: if_splits option.splits sum.splits)
    then show ?thesis using hits by blast
  qed
  ultimately show ?thesis by blast
qed


section \<open>Resolution of the settings\<close>

definition org_section :: "Config \<Rightarrow> PluginContext \<Rightarrow> PiiGuardrailConfig option" where
  "org_section cfg ctx = Option.bind (Option.bind (ctx_org_id ctx) (cfg_orgs cfg)) (\<lambda>org. og_pii (org_guardrails org))"

definition team_section :: "Config \<Rightarrow> PluginContext \<Rightarrow> PiiGuardrailConfig option" where
  "team_section cfg ctx =
     Option.bind (Option.bind (ctx_org_id ctx) (cfg_orgs cfg)) (\<lambda>org.
       Option.bind (Option.bind (ctx_team_id ctx) (org_teams org)) (\<lambda>team. og_pii (tm_guardrails team)))"

lemma map_filter_simps [simp]:
  "List.map_filter f [] = []" "List.map_filter f (x # xs) = (case f x of None \<Rightarrow> List.map_filter f xs | Some y \<Rightarrow> y # List.map_filter f xs)"
  by (simp_all add: List.map_filter_simps)

lemma scoped_section_resolved: "scoped_pii_section cfg ctx = or_else (team_section cfg ctx) (org_section cfg ctx)"
  by (simp add: scoped_pii_section_def scopes_def org_section_def team_section_def or_else_def
      split: option.split)

text \<open>the most specific scope decides. A team's section, else the organisation's, replaces every other setting, also
  to switch scanning off; without one the global section counts when it is enabled, and else the defaults of the
  environment. Requests and responses are resolved alike, the latter with scanning off being no policy.\<close>

theorem pii_settings_resolution:
  fixes config :: "'w \<Rightarrow> Config"
  shows "pii_effective_settings (pii_plugin_with_config engine defaults config metrics limit task) ctx w =
     (case or_else (team_section (config w) ctx) (org_section (config w) ctx) of
        Some pii \<Rightarrow> if pii_enabled pii then Some (settings_from_config pii) else None
      | None \<Rightarrow> if pii_enabled (gr_pii (cfg_guardrails (config w))) then Some (settings_from_config (gr_pii (cfg_guardrails (config w)))) else defaults) \<and>
   response_effective_settings (pii_response_with_config engine defaults' config metrics limit task') ctx w =
     (case or_else (team_section (config w) ctx) (org_section (config w) ctx) of
        Some pii \<Rightarrow> active_response pii
      | None \<Rightarrow> (case active_response (gr_pii (cfg_guardrails (config w))) of Some s \<Rightarrow> Some s | None \<Rightarrow> defaults'))"
  by (simp add: pii_effective_settings_def pii_plugin_with_config_def response_effective_settings_def pii_response_with_config_def
      scoped_section_resolved or_else_def split: option.split)

section \<open>The response guardrail\<close>

text \<open>The verdict of a guardrail with fixed settings on a text.\<close>

definition pii_verdict :: "PiiEngine \<Rightarrow> PiiResponseSettings \<Rightarrow> string \<Rightarrow> ResponseAction" where
  "pii_verdict engine s t =
     (if t = [] \<or> prs_mode s = Off_resp then Allow
      else case scan_or_redact engine (prs_mode s) (prs_options s) t of
             Err _ \<Rightarrow> if prs_fail_open s then Allow else Reject ''PII response guardrail failed; response withheld''
           | Ok out \<Rightarrow>
               if outcome_counts out = [] then Allow
               else (case out of
                       Redacted o' \<Rightarrow> Redact (rou_text o')
                     | Hits _ \<Rightarrow> if prs_mode s = Block_resp
                                then Reject (''PII detected in model output: '' @ join '', '' (map fst (outcome_counts out)))
                                else Allow))"

lemma response_action_fst:
  "fst (response_action g mode out w) =
     (if outcome_counts out = [] then Allow
      else (case out of
              Redacted o' \<Rightarrow> Redact (rou_text o')
            | Hits _ \<Rightarrow> if mode = Block_resp then Reject (''PII detected in model output: '' @ join '', '' (map fst (outcome_counts out))) else Allow))"
  by (simp add: response_action_def Let_def split: ScanOrRedact.split)

lemma pii_check_response_verdict:
  assumes "\<And>t. task t = None"
  shows "fst (pii_check_response (pii_response_new engine s metrics limit task) ctx t w) = Ok (pii_verdict engine s t)"
  by (simp add: pii_check_response_def pii_response_new_def response_effective_settings_def pii_verdict_def assms Let_def
      case_prod_beta response_action_fst split: sum.split)

lemma single_guardrail:
  "pm_response_guardrails m = [pii_response_guardrail g] \<Longrightarrow>
   fst (run_response_guardrails m ctx t w) = fst (pii_check_response g ctx t w)"
  by (simp add: run_response_guardrails_def pii_response_guardrail_def split: prod.split sum.split ResponseAction.split)



section \<open>Failures\<close>

text \<open>C20: the request guardrail fails as configured. When the engine cannot answer for a selected text, the request is refused with an
  internal error, or forwarded as it came in when the scope prefers availability; in neither case is it changed.\<close>

theorem pii_fails_closed:
  assumes "pii_effective_settings p ctx w = Some s" "run_engine (pgp_engine p) (scanned_texts s ctx) (pgs_options s) (pgs_mode s) = Err e"
    "pgp_join p (scanned_texts s ctx) = None"
  shows "\<exists>w'. pii_execute p ctx w =
    (if pgs_fail_open s then Ok () else Err (Internal_plugin (''PII guardrail failed: '' @ show_pii_error e)), ctx, w')"
proof -
  have "scanned_texts s ctx \<noteq> []" using assms(2) by (auto simp: run_engine_def)
  then show ?thesis
    using assms by (simp add: pii_execute_def scanned_texts_def pii_engine_error_def Let_def)
qed

text \<open>On the response path a failed task on the blocking pool is an error, which the gateway only logs: an unscanned response
  above the inline limit is delivered although the guardrail is configured to fail closed.\<close>

lemma pii_task_failure_delivers:
  assumes "pm_response_guardrails (gw_plugin_manager g) = [pii_response_guardrail (pii_response_new engine s metrics limit task)]"
    and "prs_mode s \<noteq> Off_resp" "extract_response_text response = Some t" "limit < length t" "task t = Some e"
  shows "fst (conclude am request auth ctx target (Ok response) latency_ms g) = Ok response"
proof -
  have "\<exists>err. fst (run_response_guardrails (gw_plugin_manager g) c t w) = Err err" for c w
    using assms
    by (auto simp: single_guardrail pii_check_response_def pii_response_new_def response_effective_settings_def Let_def)
  moreover obtain c w where "run_after (gw_plugin_manager g) (after_context target (Ok response) latency_ms ctx) (gw_world g) = (c, w)"
    by force
  ultimately obtain err w' where "run_response_guardrails (gw_plugin_manager g) c t w = (Err err, w')"
    "run_after (gw_plugin_manager g) (after_context target (Ok response) latency_ms ctx) (gw_world g) = (c, w)"
    by (metis prod.collapse)
  then show ?thesis using assms(3) by (simp add: conclude_def settle_def Let_def)
qed

section \<open>Detected values\<close>

fun values_dropped :: "(string, RecognizerResult list) result \<Rightarrow> (string, RecognizerResult list) result" where
  "values_dropped (Ok rs) = Ok (map drop_value rs)"
| "values_dropped (Err e) = Err e"

lemma entity_selected_drop [simp]: "entity_selected opts (drop_value r) = entity_selected opts r"
  by (simp add: entity_selected_def drop_value_def split: option.split)

lemma filter_map_drop: "map drop_value (filter (entity_selected opts) rs) = filter (entity_selected opts) (map drop_value rs)"
  by (induction rs) simp_all

lemma filtered_entities_dropped:
  "filtered_entities rc e text opts =
     (case values_dropped (rco_analyze rc (rce_patterns e) text) of
        Ok rs \<Rightarrow> Ok (filter (entity_selected opts) rs) | Err err \<Rightarrow> Err (Engine_error err))"
  by (cases "rco_analyze rc (rce_patterns e) text") (simp_all add: filtered_entities_def filter_map_drop)

text \<open>the matched values do not leave the engine. Two analyses that differ only in the values and contexts captured with their
  detections give the same scans and the same redactions.\<close>

theorem engine_hides_values:
  assumes "\<And>patterns text. values_dropped (rco_analyze rc patterns text) = values_dropped (rco_analyze rc' patterns text)"
    "rco_anonymize rc = rco_anonymize rc'"
  shows "core_scan rc e text opts = core_scan rc' e text opts \<and> core_redact rc e text opts = core_redact rc' e text opts"
  unfolding core_scan_def core_redact_def filtered_entities_dropped assms by (rule conjI [OF refl refl])

section \<open>Instances\<close>

definition demo_core :: redact_core where
  "demo_core =
     \<lparr>rco_add_pattern = (\<lambda>_. Ok ()),
      rco_analyze = (\<lambda>_ t. if CHR ''!'' \<in> set t then Err ''bad input''
        else Ok (if CHR ''@'' \<in> set t then [\<lparr>rr_entity_type = ''EMAIL_ADDRESS'', rr_start = 0, rr_end = length t, rr_score = 1, rr_text = Some t,
          rr_context = None\<rparr>] else [])),
      rco_anonymize = (\<lambda>t rs c. Ok ''[EMAIL_ADDRESS]'')\<rparr>"

definition demo_engine :: PiiEngine where
  "demo_engine = core_engine demo_core \<lparr>rce_patterns = [], rce_secrets = \<lparr>esc_hash_salt = None, esc_encryption_key = None\<rparr>\<rparr>"

definition demo_settings :: "PiiMode \<Rightarrow> PiiGuardrailSettings" where
  "demo_settings mode = PiiGuardrailSettings_default\<lparr>pgs_mode := mode\<rparr>"

definition demo_pii :: "PiiMode \<Rightarrow> unit PiiGuardrailPlugin" where
  "demo_pii mode = pii_plugin_new demo_engine (demo_settings mode) None 1000 (\<lambda>_. None)"

definition demo_pii_ctx :: "string \<Rightarrow> PluginContext" where
  "demo_pii_ctx t = from_request ''q1'' (ChatCompletionRequest_default\<lparr>cr_messages := [message_user t]\<rparr>) None"

lemma demo_settings_fields [simp]:
  "pgs_mode (demo_settings mode) = mode" "pgs_options (demo_settings mode) = RedactOptions_default"
  "pgs_fail_open (demo_settings mode) = False" "pgs_scan_tool_arguments (demo_settings mode) = False"
  "pgs_apply_to (demo_settings mode) = [User, System, Tool_role]"
  by (simp_all add: demo_settings_def PiiGuardrailSettings_default_def)

lemma demo_pii_settings: "pii_effective_settings (demo_pii mode) ctx w = Some (demo_settings mode)"
  by (simp add: pii_effective_settings_def demo_pii_def pii_plugin_new_def)

lemma demo_pii_fields [simp]:
  "pgp_engine (demo_pii mode) = demo_engine" "pgp_join (demo_pii mode) ts = None" "pgp_metrics (demo_pii mode) = None"
  "pgp_inline_limit_bytes (demo_pii mode) = 1000"
  by (simp_all add: demo_pii_def pii_plugin_new_def)

lemma demo_engine_values [simp]:
  "pii_redact demo_engine ''a@b'' RedactOptions_default = Ok \<lparr>rou_text = ''[EMAIL_ADDRESS]'', rou_replaced = [(''EMAIL_ADDRESS'', 1)]\<rparr>"
  "pii_scan demo_engine ''a@b'' RedactOptions_default =
     Ok [\<lparr>hit_entity_type = ''EMAIL_ADDRESS'', hit_start = 0, hit_end = 3, hit_confidence = 1\<rparr>]"
  "pii_scan demo_engine ''a!'' RedactOptions_default = Err (Engine_error ''bad input'')"
  "pii_scan demo_engine ''hello'' RedactOptions_default = Ok []"
  by (simp_all add: demo_engine_def core_engine_def core_scan_def core_redact_def filtered_entities_def demo_core_def
      entity_selected_def drop_value_def anonymizer_config_def count_types_def RedactOptions_default_def Let_def)

lemma demo_slots [simp]: "collect_slots (demo_settings mode) (demo_pii_ctx t) = (if t = [] then [] else [(Content_slot 0 None, t)])"
  by (simp add: collect_slots_def demo_pii_ctx_def from_request_def message_user_def message_slots_def content_slots_def)

lemma demo_texts [simp]: "scanned_texts (demo_settings mode) (demo_pii_ctx t) = (if t = [] then [] else [t])"
  by (simp add: scanned_texts_def)

lemma demo_redacts: "\<exists>ctx'. pii_execute (demo_pii Redact_mode) (demo_pii_ctx ''a@b'') () = (Ok (), ctx', ())"
  by (simp add: pii_execute_def demo_pii_settings run_engine_def pii_enforce_def count_all_def Let_def)

theorem pii_redaction_exact_witness:
  "\<exists>ctx'. pii_execute (demo_pii Redact_mode) (demo_pii_ctx ''a@b'') () = (Ok (), ctx', ()) \<and>
     cr_messages (ctx_request ctx') = [message_user ''[EMAIL_ADDRESS]'']"
proof -
  obtain ctx' where run: "pii_execute (demo_pii Redact_mode) (demo_pii_ctx ''a@b'') () = (Ok (), ctx', ())"
    using demo_redacts by blast
  have "ctx_request ctx' = rewrite_request (demo_settings Redact_mode) (redaction demo_engine RedactOptions_default)
      (ctx_request (demo_pii_ctx ''a@b''))"
    using pii_redaction_exact [OF run demo_pii_settings] by simp
  then show ?thesis using run
    by (simp add: rewrite_request_def rewrite_message_def demo_pii_ctx_def from_request_def message_user_def rewritten_def redaction_def)
qed

theorem pii_block_exact_witness:
  "\<exists>hits. map (\<lambda>t. pii_scan demo_engine t RedactOptions_default) [''a@b''] = map Ok hits \<and>
     ''PII detected: EMAIL_ADDRESS'' = ''PII detected: '' @ join '', '' (map fst (count_types (map hit_entity_type (concat hits))))"
proof -
  have "\<exists>ctx'. pii_execute (demo_pii Block_mode) (demo_pii_ctx ''a@b'') () =
      (Err (Rejected ''pii-guardrail'' ''PII detected: EMAIL_ADDRESS'' BadRequest_kind), ctx', ())"
    by (simp add: pii_execute_def demo_pii_settings run_engine_def pii_enforce_def Let_def)
  then show ?thesis
    using pii_block_exact [OF demo_pii_settings [of Block_mode "demo_pii_ctx ''a@b''" "()"]]
    by (simp only: demo_settings_fields demo_pii_fields demo_texts simp_thms list.simps if_False) blast
qed

theorem pii_fails_closed_witness:
  "\<exists>w'. pii_execute (demo_pii Block_mode) (demo_pii_ctx ''a!'') () =
     (Err (Internal_plugin (''PII guardrail failed: pii engine error: bad input'')), demo_pii_ctx ''a!'', w')"
  using pii_fails_closed [OF demo_pii_settings [of Block_mode "demo_pii_ctx ''a!''" "()"], of "Engine_error ''bad input''"]
  by (simp add: run_engine_def)

theorem engine_hides_values_witness:
  "\<forall>e opts. core_redact demo_core e ''a@b'' opts =
     core_redact (demo_core\<lparr>rco_analyze := (\<lambda>ps t. values_dropped (rco_analyze demo_core ps t))\<rparr>) e ''a@b'' opts"
proof (intro allI)
  fix e opts
  let ?core = "demo_core\<lparr>rco_analyze := (\<lambda>ps t. values_dropped (rco_analyze demo_core ps t))\<rparr>"
  have "values_dropped (rco_analyze demo_core ps t) = values_dropped (rco_analyze ?core ps t)" for ps t
    by (cases "rco_analyze demo_core ps t") (simp_all add: drop_value_def)
  then show "core_redact demo_core e ''a@b'' opts = core_redact ?core e ''a@b'' opts"
    using engine_hides_values [of demo_core ?core] by simp
qed

text \<open>A gateway whose only guardrail is the PII one, blocking.\<close>

definition demo_response_settings :: PiiResponseSettings where
  "demo_response_settings = \<lparr>prs_mode = Block_resp, prs_options = RedactOptions_default, prs_fail_open = False\<rparr>"

definition demo_pii_guard :: "unit PiiResponseGuardrail" where
  "demo_pii_guard = pii_response_new demo_engine demo_response_settings None 1000 (\<lambda>_. None)"

definition demo_pii_gateway :: "unit Gateway" where
  "demo_pii_gateway = demo_gateway\<lparr>gw_plugin_manager := pm_register_response_guardrail (pii_response_guardrail demo_pii_guard) pm_new\<rparr>"


lemma demo_pii_facts:
  "gw_targets demo_pii_gateway = [stub_target]" "gw_strategy demo_pii_gateway = Single_strategy"
  "gw_circuit_breakers demo_pii_gateway = Map.empty" "gw_providers demo_pii_gateway ''stub-ok'' = Some echo_provider"
  "gw_response_cache demo_pii_gateway = None" "gw_config demo_pii_gateway = Config_default\<lparr>cfg_targets := [stub_target]\<rparr>"
  "target_api_key Map.empty demo_pii_gateway stub_target = Ok []"
  "pm_response_guardrails (gw_plugin_manager demo_pii_gateway) = [pii_response_guardrail demo_pii_guard]"
  "run_before (gw_plugin_manager demo_pii_gateway) ctx w = (Ok (), ctx, w)" "run_after (gw_plugin_manager demo_pii_gateway) ctx w = (ctx, w)"
  using demo_facts
  by (simp_all add: demo_pii_gateway_def target_api_key_def pm_register_response_guardrail_def pm_new_def run_before_def run_after_def
      stub_target_def routing_key_def split: option.splits)

lemma demo_pii_dispatch:
  "fst (dispatch demo_ambient demo_request None demo_pii_gateway) = Ok (stub_target, Ok demo_response, 7)"
proof -
  have "select_targets demo_ambient demo_request None demo_pii_gateway = Ok [stub_target]"
    by (simp add: select_targets_def demo_pii_facts target_serves_model_def select_ordered_def order_targets_def
        dedup_targets_def filter_targets_by_rbac_def Config_default_def stub_target_def Let_def)
  moreover have "cb_allow 0 (candidate_breaker demo_pii_gateway stub_target) = (True, cb_new CircuitBreakerConfig_default)"
    by (simp add: candidate_breaker_def demo_pii_facts cb_allow_def cb_new_def)
  then have "fst (with_failover Map.empty True (\<lambda>provider api_key. pv_complete provider demo_request api_key) (\<lambda>_. 0)
      [stub_target] demo_pii_gateway) = Some (stub_target, Ok demo_response, from_millis 7)"
    using single_request(1) [of demo_pii_gateway stub_target echo_provider Map.empty "[]" "\<lambda>_. 0" _
        "\<lambda>provider api_key. pv_complete provider demo_request api_key" "Ok demo_response" "from_millis 7" "()"]
    by (simp add: demo_pii_facts stub_facts echo_provider_def map_err_def)
  ultimately show ?thesis
    by (auto simp: dispatch_def demo_ambient_facts map_err_def from_millis_def as_millis_def split: prod.splits option.splits)
qed

lemma demo_pii_route: "fst (route demo_ambient demo_request None None demo_pii_gateway) = Ok demo_response"
proof -
  have prep: "prepare_request demo_ambient demo_request None None demo_pii_gateway = (Ok (from_request ''q1'' demo_request None), demo_pii_gateway)"
    by (simp add: prepare_request_def check_rate_limits_def demo_pii_facts Config_default_def RateLimitSettings_default_def Let_def
        check_token_budgets_def demo_request_def ChatCompletionRequest_default_def check_org_guardrails_def check_rbac_model_def
        from_request_def demo_ambient_facts)
  have look: "cache_lookup demo_ambient demo_request None demo_pii_gateway = (None, demo_pii_gateway)"
    by (simp add: cache_lookup_def demo_pii_facts)
  obtain h where disp: "dispatch demo_ambient demo_request None demo_pii_gateway = (Ok (stub_target, Ok demo_response, 7), h)"
    using demo_pii_dispatch by (metis prod.collapse)
  have mgr: "gw_plugin_manager h = gw_plugin_manager demo_pii_gateway" using dispatch_frame(1) [OF disp] by (simp add: framed_def)
  have "pii_check_response demo_pii_guard ctx ''hello'' w = (Ok Allow, w)" for ctx w
    by (simp add: pii_check_response_def demo_pii_guard_def pii_response_new_def response_effective_settings_def
        demo_response_settings_def scan_or_redact_def response_action_def count_metric_def)
  then have "run_response_guardrails (gw_plugin_manager demo_pii_gateway) ctx ''hello'' w = (Ok Allow, w)" for ctx w
    by (simp add: run_response_guardrails_def demo_pii_facts pii_response_guardrail_def)
  then show ?thesis
    by (simp add: route_def prep from_request_def look disp conclude_def mgr demo_pii_facts demo_text settle_def map_err_def Let_def case_prod_beta)
qed


end
