(* ===== verification/Plugin_Wiring.thy ===== *)
theory Plugin_Wiring
  imports Pii_Properties Budget Fixed_Window
begin

text \<open>
  Assembly of the request pipeline (\<^verbatim>\<open>himadri/src/wire/plugins.rs\<close>) with the request logger (\<^verbatim>\<open>logger.rs\<close>): which plugins
  the environment registers, in which order, and what the assembled pipeline guarantees. The world holds what the
  plugins share: the live configuration, the counted metrics, the log, the stores and the readings of clock and
  random source. The \<^verbatim>\<open>guardrails\<close> feature is on.
\<close>

section \<open>Shared state\<close>

record log_line =
  ll_model :: string
  ll_provider :: string
  ll_latency :: string
  ll_tokens :: string
  ll_error :: string

record plugin_world =
  pw_config :: Config
  pw_counted :: "guard_metric list"
  pw_log :: "log_line list"
  pw_spend :: "SpendStore StoreRegistry"
  pw_limits :: "RateLimiterStore StoreRegistry"
  pw_limiter :: RateLimitPlugin
  pw_now :: nat
  pw_env :: rp_env

section \<open>Plugins of the pipeline\<close>

definition checking_plugin :: "string \<Rightarrow> PluginType \<Rightarrow> (PluginContext \<Rightarrow> (PluginError, unit) result) \<Rightarrow> 'w Plugin" where
  "checking_plugin name ty check =
     \<lparr>pl_name = name, pl_plugin_type = ty, pl_stage = BeforeRequest, pl_also_after_request = False,
      pl_execute = (\<lambda>ctx w. (check ctx, ctx, w))\<rparr>"

definition word_filter_plugin :: "(string \<Rightarrow> string) \<Rightarrow> WordFilterPlugin \<Rightarrow> 'w Plugin" where
  "word_filter_plugin lower p = checking_plugin ''word-filter'' Guardrail (word_filter_execute lower p)"

definition max_token_plugin :: "MaxTokenPlugin \<Rightarrow> 'w Plugin" where
  "max_token_plugin p = checking_plugin ''max-token'' Guardrail (max_token_execute p)"

definition logger_line :: "PluginContext \<Rightarrow> log_line" where
  "logger_line ctx =
     \<lparr>ll_model = cr_model (ctx_request ctx), ll_provider = unwrap_or (ctx_provider ctx) ''unknown'',
      ll_latency = (case ctx_latency ctx of Some l \<Rightarrow> show_nat (as_millis l) @ ''ms'' | None \<Rightarrow> []),
      ll_tokens = (case ctx_tokens_used ctx of Some t \<Rightarrow> show_nat (unat t) | None \<Rightarrow> []),
      ll_error = unwrap_or (ctx_error ctx) []\<rparr>"

definition logger_plugin :: "plugin_world Plugin" where
  "logger_plugin =
     \<lparr>pl_name = ''request-logger'', pl_plugin_type = Logger, pl_stage = AfterRequest, pl_also_after_request = False,
      pl_execute = (\<lambda>ctx w. (Ok (), ctx, w\<lparr>pw_log := pw_log w @ [logger_line ctx]\<rparr>))\<rparr>"

text \<open>The budget plugin on the store it was created with, the rate limiter on the shared registry.\<close>

definition wired_budget :: "BudgetPlugin \<Rightarrow> plugin_world Plugin" where
  "wired_budget p =
     (let pl = budget_plugin p
      in \<lparr>pl_name = pl_name pl, pl_plugin_type = pl_plugin_type pl, pl_stage = pl_stage pl,
          pl_also_after_request = pl_also_after_request pl,
          pl_execute = (\<lambda>ctx w.
            case pl_execute pl ctx (pw_now w, unwrap_or (pw_spend w (bp_store_id p)) (ss_new BUDGET_DEFAULT_MAX_KEYS)) of
              (r, ctx', (_, store')) \<Rightarrow> (r, ctx', w\<lparr>pw_spend := (pw_spend w)(bp_store_id p \<mapsto> store')\<rparr>))\<rparr>)"

definition wired_rate_limit :: "(string \<Rightarrow> u64) \<Rightarrow> plugin_world Plugin" where
  "wired_rate_limit hash =
     \<lparr>pl_name = ''rate-limit'', pl_plugin_type = Middleware, pl_stage = BeforeRequest, pl_also_after_request = False,
      pl_execute = (\<lambda>ctx w.
        case rp_execute hash (pw_env w) ctx (pw_limiter w) (pw_limits w) of
          (r, p', reg') \<Rightarrow> (r, ctx, w\<lparr>pw_limiter := p', pw_limits := reg'\<rparr>))\<rparr>"

section \<open>Settings\<close>

record CacheSettings =
  cas_ttl_secs :: u64
  cas_max_entries :: u64

record PluginSettings =
  ps_word_filter :: "string list"
  ps_max_tokens_limit :: "u32 option"
  ps_budget_spend_limit_usd :: "rat option"
  ps_budget_input_per_m :: "rat option"
  ps_budget_output_per_m :: "rat option"
  ps_rate_limit_key_rpm :: "u64 option"
  ps_rate_limit_ip_rpm :: "u64 option"
  ps_cache :: "CacheSettings option"
  ps_pii_defaults :: "PiiGuardrailSettings option"
  ps_pii_response_defaults :: "PiiResponseSettings option"

text \<open>Parsing numbers is the standard library's and stays an argument.\<close>

record number_parsers =
  np_u32 :: "string \<Rightarrow> u32 option"
  np_u64 :: "string \<Rightarrow> u64 option"
  np_f64 :: "string \<Rightarrow> rat option"
  np_f32 :: "string \<Rightarrow> rat option"

definition plugin_settings_from_env :: "number_parsers \<Rightarrow> env_vars \<Rightarrow> PluginSettings" where
  "plugin_settings_from_env np env =
     \<lparr>ps_word_filter = (case env ''WORD_FILTER_BLOCKLIST'' of Some v \<Rightarrow> split_csv v | None \<Rightarrow> []),
      ps_max_tokens_limit = parse_var (np_u32 np) env ''MAX_TOKENS_LIMIT'',
      ps_budget_spend_limit_usd = parse_var (np_f64 np) env ''BUDGET_SPEND_LIMIT_USD'',
      ps_budget_input_per_m = parse_var (np_f64 np) env ''BUDGET_INPUT_PER_M_TOKENS'',
      ps_budget_output_per_m = parse_var (np_f64 np) env ''BUDGET_OUTPUT_PER_M_TOKENS'',
      ps_rate_limit_key_rpm = parse_var (np_u64 np) env ''RATE_LIMIT_KEY_RPM'',
      ps_rate_limit_ip_rpm = parse_var (np_u64 np) env ''RATE_LIMIT_IP_RPM'',
      ps_cache = map_option (\<lambda>ttl. \<lparr>cas_ttl_secs = ttl, cas_max_entries = unwrap_or (parse_var (np_u64 np) env ''CACHE_MAX_ENTRIES'') 10000\<rparr>)
        (parse_var (np_u64 np) env ''CACHE_TTL_SECS''),
      ps_pii_defaults = settings_from_env (np_f32 np) env,
      ps_pii_response_defaults = response_settings_from_env (np_f32 np) env\<rparr>"

section \<open>Assembly\<close>

text \<open>The organisations of a configuration are a map; the walk over their sections needs the listed keys.\<close>

definition config_mentions_pii :: "string list \<Rightarrow> (string \<Rightarrow> string list) \<Rightarrow> Config \<Rightarrow> bool" where
  "config_mentions_pii org_ids team_ids config =
     (pii_enabled (gr_pii (cfg_guardrails config)) \<or>
      (\<exists>oid\<in>set org_ids. case cfg_orgs config oid of
         None \<Rightarrow> False
       | Some org \<Rightarrow> og_pii (org_guardrails org) \<noteq> None \<or>
           (\<exists>tid\<in>set (team_ids oid). case org_teams org tid of None \<Rightarrow> False | Some team \<Rightarrow> og_pii (tm_guardrails team) \<noteq> None)))"

definition mentions_response :: "OrgGuardrailConfig \<Rightarrow> bool" where
  "mentions_response g = is_some_and (og_pii g) (\<lambda>pii. pii_response_mode pii \<noteq> Resp_Off)"

definition config_mentions_pii_response :: "string list \<Rightarrow> (string \<Rightarrow> string list) \<Rightarrow> Config \<Rightarrow> bool" where
  "config_mentions_pii_response org_ids team_ids config =
     (pii_response_mode (gr_pii (cfg_guardrails config)) \<noteq> Resp_Off \<or>
      (\<exists>oid\<in>set org_ids. case cfg_orgs config oid of
         None \<Rightarrow> False
       | Some org \<Rightarrow> mentions_response (org_guardrails org) \<or>
           (\<exists>tid\<in>set (team_ids oid). case org_teams org tid of None \<Rightarrow> False | Some team \<Rightarrow> mentions_response (tm_guardrails team))))"

text \<open>What the assembly takes from outside: the result of building the engine, the Unicode lower-casing, the hash of the
  limiter's shards, the joins of the blocking pool, the inline limit, and the keys of the configuration's maps.\<close>

record assembly =
  as_engine :: "(PiiError, PiiEngine) result"
  as_lower :: "string \<Rightarrow> string"
  as_hash :: "string \<Rightarrow> u64"
  as_join_request :: "string list \<Rightarrow> string option"
  as_join_response :: "string \<Rightarrow> string option"
  as_inline_limit :: nat
  as_org_ids :: "string list"
  as_team_ids :: "string \<Rightarrow> string list"

definition count_event :: "guard_metric \<Rightarrow> plugin_world \<Rightarrow> plugin_world" where
  "count_event e w = w\<lparr>pw_counted := pw_counted w @ [e]\<rparr>"

definition wired_pii :: "assembly \<Rightarrow> PluginSettings \<Rightarrow> PiiEngine \<Rightarrow> plugin_world PiiGuardrailPlugin" where
  "wired_pii a s engine =
     pii_plugin_with_config engine (ps_pii_defaults s) pw_config (Some count_event) (as_inline_limit a) (as_join_request a)"

definition wired_pii_response :: "assembly \<Rightarrow> PluginSettings \<Rightarrow> PiiEngine \<Rightarrow> plugin_world PiiResponseGuardrail" where
  "wired_pii_response a s engine =
     pii_response_with_config engine (ps_pii_response_defaults s) pw_config (Some count_event) (as_inline_limit a) (as_join_response a)"

text \<open>The PII block; \<open>None\<close> when it refuses to start.\<close>

definition register_pii :: "assembly \<Rightarrow> PluginSettings \<Rightarrow> Config \<Rightarrow> plugin_world PluginManager \<Rightarrow> plugin_world PluginManager option" where
  "register_pii a s config m =
     (let configured = ps_pii_defaults s \<noteq> None \<or> ps_pii_response_defaults s \<noteq> None
            \<or> config_mentions_pii (as_org_ids a) (as_team_ids a) config \<or> config_mentions_pii_response (as_org_ids a) (as_team_ids a) config
      in case as_engine a of
           Ok engine \<Rightarrow>
             Some (pm_register_response_guardrail (pii_response_guardrail (wired_pii_response a s engine))
                (pm_register (pii_plugin (wired_pii a s engine)) m))
         | Err e \<Rightarrow> if configured then None else Some m)"

definition budget_settings :: "PluginSettings \<Rightarrow> BudgetConfig" where
  "budget_settings s =
     \<lparr>bc_store_id = None, bc_spend_limit_usd = Some (unwrap_or (ps_budget_spend_limit_usd s) 0),
      bc_input_per_m_tokens = ps_budget_input_per_m s, bc_output_per_m_tokens = ps_budget_output_per_m s, bc_max_keys = None\<rparr>"

definition register_budget :: "PluginSettings \<Rightarrow> plugin_world PluginManager \<times> plugin_world \<Rightarrow> plugin_world PluginManager \<times> plugin_world" where
  "register_budget s mw =
     (case mw of (m, w) \<Rightarrow>
        if ps_budget_spend_limit_usd s \<noteq> None \<or> ps_budget_input_per_m s \<noteq> None \<or> ps_budget_output_per_m s \<noteq> None
        then (case bp_new (budget_settings s) (pw_spend w) of
                (Ok p, reg) \<Rightarrow> (pm_register (wired_budget p) m, w\<lparr>pw_spend := reg\<rparr>)
              | (Err _, reg) \<Rightarrow> (m, w\<lparr>pw_spend := reg\<rparr>))
        else (m, w))"

definition rate_settings :: "PluginSettings \<Rightarrow> RateLimitConfig" where
  "rate_settings s =
     \<lparr>rlc_store_id = None, rlc_requests_per_second = None, rlc_key_rpm = ps_rate_limit_key_rpm s, rlc_user_rpm = None,
      rlc_ip_rpm = ps_rate_limit_ip_rpm s, rlc_max_keys = None\<rparr>"

definition register_rate_limit ::
    "assembly \<Rightarrow> PluginSettings \<Rightarrow> plugin_world PluginManager \<times> plugin_world \<Rightarrow> plugin_world PluginManager \<times> plugin_world" where
  "register_rate_limit a s mw =
     (case mw of (m, w) \<Rightarrow>
        if ps_rate_limit_key_rpm s \<noteq> None \<or> ps_rate_limit_ip_rpm s \<noteq> None
        then (case rp_new (rate_settings s) (pw_limits w) of
                (p, reg) \<Rightarrow> (pm_register (wired_rate_limit (as_hash a)) m, w\<lparr>pw_limiter := p, pw_limits := reg\<rparr>))
        else (m, w))"

definition build_plugins ::
    "assembly \<Rightarrow> PluginSettings \<Rightarrow> Config \<Rightarrow> plugin_world \<Rightarrow> (plugin_world PluginManager \<times> CacheSettings option \<times> plugin_world) option" where
  "build_plugins a s config w =
     (case register_pii a s config pm_new of
        None \<Rightarrow> None
      | Some m \<Rightarrow>
          (let m = (if ps_word_filter s \<noteq> [] then pm_register (word_filter_plugin (as_lower a) (word_filter_new (as_lower a) (ps_word_filter s))) m else m);
               m = (case ps_max_tokens_limit s of Some n \<Rightarrow> pm_register (max_token_plugin \<lparr>mt_max_tokens = n\<rparr>) m | None \<Rightarrow> m);
               m = pm_register logger_plugin m;
               (m, w) = register_rate_limit a s (register_budget s (m, w))
           in Some (m, ps_cache s, w)))"


section \<open>The assembled stages\<close>

lemma register_stages:
  "pm_before_request (pm_register p m) = pm_before_request m @ (if pl_stage p = BeforeRequest then [p] else [])"
  "pm_after_request (pm_register p m) =
     pm_after_request m @ (if pl_stage p = AfterRequest \<or> pl_also_after_request p then [p] else [])"
  "pm_response_guardrails (pm_register p m) = pm_response_guardrails m"
  "pm_before_request (pm_register_response_guardrail g m) = pm_before_request m"
  "pm_after_request (pm_register_response_guardrail g m) = pm_after_request m"
  "pm_response_guardrails (pm_register_response_guardrail g m) = pm_response_guardrails m @ [g]"
  by (auto simp: pm_register_def pm_register_response_guardrail_def Let_def split: Stage.split)

lemma plugin_stages:
  "pl_stage (pii_plugin p) = BeforeRequest" "\<not> pl_also_after_request (pii_plugin p)"
  "pl_stage (checking_plugin n ty c) = BeforeRequest" "\<not> pl_also_after_request (checking_plugin n ty c)"
  "pl_stage logger_plugin = AfterRequest"
  "pl_stage (wired_budget b) = BeforeRequest" "pl_also_after_request (wired_budget b)"
  "pl_stage (wired_rate_limit h) = BeforeRequest" "\<not> pl_also_after_request (wired_rate_limit h)"
  by (simp_all add: pii_plugin_def checking_plugin_def logger_plugin_def wired_budget_def budget_plugin_def wired_rate_limit_def Let_def)

definition pii_stage :: "assembly \<Rightarrow> PluginSettings \<Rightarrow> plugin_world Plugin list" where
  "pii_stage a s = (case as_engine a of Ok engine \<Rightarrow> [pii_plugin (wired_pii a s engine)] | Err _ \<Rightarrow> [])"

definition word_stage :: "assembly \<Rightarrow> PluginSettings \<Rightarrow> plugin_world Plugin list" where
  "word_stage a s = (if ps_word_filter s = [] then [] else [word_filter_plugin (as_lower a) (word_filter_new (as_lower a) (ps_word_filter s))])"

definition token_stage :: "PluginSettings \<Rightarrow> plugin_world Plugin list" where
  "token_stage s = (case ps_max_tokens_limit s of Some n \<Rightarrow> [max_token_plugin \<lparr>mt_max_tokens = n\<rparr>] | None \<Rightarrow> [])"

definition budget_stage :: "PluginSettings \<Rightarrow> plugin_world \<Rightarrow> plugin_world Plugin list" where
  "budget_stage s w =
     (if ps_budget_spend_limit_usd s = None \<and> ps_budget_input_per_m s = None \<and> ps_budget_output_per_m s = None then []
      else case bp_new (budget_settings s) (pw_spend w) of (Ok p, _) \<Rightarrow> [wired_budget p] | (Err _, _) \<Rightarrow> [])"

definition limit_stage :: "assembly \<Rightarrow> PluginSettings \<Rightarrow> plugin_world Plugin list" where
  "limit_stage a s = (if ps_rate_limit_key_rpm s = None \<and> ps_rate_limit_ip_rpm s = None then [] else [wired_rate_limit (as_hash a)])"

lemma register_pii_stages:
  "register_pii a s config m = Some m' \<Longrightarrow>
   pm_before_request m' = pm_before_request m @ pii_stage a s \<and> pm_after_request m' = pm_after_request m"
  by (auto simp: register_pii_def pii_stage_def register_stages plugin_stages Let_def split: sum.splits if_splits)

lemma register_budget_stages:
  "pm_before_request (fst (register_budget s (m, w))) = pm_before_request m @ budget_stage s w \<and>
   pm_after_request (fst (register_budget s (m, w))) = pm_after_request m @ budget_stage s w"
  by (auto simp: register_budget_def budget_stage_def register_stages plugin_stages split: prod.split sum.split)

lemma register_rate_limit_stages:
  "pm_before_request (fst (register_rate_limit a s (m, w))) = pm_before_request m @ limit_stage a s \<and>
   pm_after_request (fst (register_rate_limit a s (m, w))) = pm_after_request m"
  by (auto simp: register_rate_limit_def limit_stage_def register_stages plugin_stages split: prod.split)

lemma build_plugins_stages:
  assumes "build_plugins a s config w = Some (m, cache, w')"
  shows "pm_before_request m = pii_stage a s @ word_stage a s @ token_stage s @ budget_stage s w @ limit_stage a s"
    "pm_after_request m = logger_plugin # budget_stage s w"
proof -
  obtain m0 where m0: "register_pii a s config pm_new = Some m0"
    using assms by (auto simp: build_plugins_def split: option.splits)
  let ?m1 = "if ps_word_filter s \<noteq> [] then pm_register (word_filter_plugin (as_lower a) (word_filter_new (as_lower a) (ps_word_filter s))) m0 else m0"
  let ?m2 = "case ps_max_tokens_limit s of Some n \<Rightarrow> pm_register (max_token_plugin \<lparr>mt_max_tokens = n\<rparr>) ?m1 | None \<Rightarrow> ?m1"
  let ?m3 = "pm_register logger_plugin ?m2"
  obtain m4 w4 where m4: "register_budget s (?m3, w) = (m4, w4)" by force
  have m: "m = fst (register_rate_limit a s (m4, w4))"
    using assms m0 m4 by (auto simp: build_plugins_def Let_def split: prod.splits)
  have base: "pm_before_request m0 = pii_stage a s" "pm_after_request m0 = []"
    using register_pii_stages [OF m0] by (simp_all add: pm_new_def)
  have "pm_before_request ?m3 = pii_stage a s @ word_stage a s @ token_stage s" "pm_after_request ?m3 = [logger_plugin]"
    by (auto simp: register_stages plugin_stages base word_stage_def token_stage_def word_filter_plugin_def max_token_plugin_def split: option.split)
  then have "pm_before_request m4 = pii_stage a s @ word_stage a s @ token_stage s @ budget_stage s w"
    "pm_after_request m4 = logger_plugin # budget_stage s w"
    using register_budget_stages [of s ?m3 w] m4 by simp_all
  then show "pm_before_request m = pii_stage a s @ word_stage a s @ token_stage s @ budget_stage s w @ limit_stage a s"
    "pm_after_request m = logger_plugin # budget_stage s w"
    using register_rate_limit_stages [of a s m4 w4] m by simp_all
qed

lemma stage_plugin_names:
  "map pl_name (pii_stage a s) = (if is_ok (as_engine a) then [''pii-guardrail''] else [])"
  "map pl_name (word_stage a s) = (if ps_word_filter s \<noteq> [] then [''word-filter''] else [])"
  "map pl_name (token_stage s) = (if ps_max_tokens_limit s \<noteq> None then [''max-token''] else [])"
  "map pl_name (limit_stage a s) = (if ps_rate_limit_key_rpm s \<noteq> None \<or> ps_rate_limit_ip_rpm s \<noteq> None then [''rate-limit''] else [])"
  by (simp_all add: pii_stage_def word_stage_def token_stage_def limit_stage_def pii_plugin_def word_filter_plugin_def max_token_plugin_def
      checking_plugin_def wired_rate_limit_def is_ok_def split: sum.split option.split)

lemma budget_stage_names: "map pl_name (budget_stage s w) = (if budget_stage s w \<noteq> [] then [''budget''] else [])"
proof -
  have "budget_stage s w = [] \<or> (\<exists>p. budget_stage s w = [wired_budget p])"
    by (cases "bp_new (budget_settings s) (pw_spend w)"; cases "fst (bp_new (budget_settings s) (pw_spend w))") (auto simp: budget_stage_def)
  then show ?thesis by (auto simp: wired_budget_def budget_plugin_def Let_def)
qed

text \<open>the assembly fails closed and puts the PII guardrail first. It refuses to start exactly when the engine cannot be built although
  some policy, of the environment or of any scope of the configuration, asks for it; the before-request stage it
  builds is, in this order, the PII guardrail, the word filter, the token cap, the budget and the rate limit.\<close>

theorem assembly_order:
  "(build_plugins a s config w = None \<longleftrightarrow>
     (\<exists>e. as_engine a = Err e) \<and>
     (ps_pii_defaults s \<noteq> None \<or> ps_pii_response_defaults s \<noteq> None \<or> config_mentions_pii (as_org_ids a) (as_team_ids a) config \<or>
      config_mentions_pii_response (as_org_ids a) (as_team_ids a) config)) \<and>
   (\<forall>m cache w'. build_plugins a s config w = Some (m, cache, w') \<longrightarrow>
      stage_names m BeforeRequest =
        (if is_ok (as_engine a) then [''pii-guardrail''] else []) @ (if ps_word_filter s \<noteq> [] then [''word-filter''] else []) @
        (if ps_max_tokens_limit s \<noteq> None then [''max-token''] else []) @ (if budget_stage s w \<noteq> [] then [''budget''] else []) @
        (if ps_rate_limit_key_rpm s \<noteq> None \<or> ps_rate_limit_ip_rpm s \<noteq> None then [''rate-limit''] else []))"
proof (intro conjI allI impI)
  show "build_plugins a s config w = None \<longleftrightarrow>
     (\<exists>e. as_engine a = Err e) \<and>
     (ps_pii_defaults s \<noteq> None \<or> ps_pii_response_defaults s \<noteq> None \<or> config_mentions_pii (as_org_ids a) (as_team_ids a) config \<or>
      config_mentions_pii_response (as_org_ids a) (as_team_ids a) config)"
    by (auto simp: build_plugins_def register_pii_def Let_def split: option.splits sum.splits prod.splits)
next
  fix m cache w' assume "build_plugins a s config w = Some (m, cache, w')"
  then show "stage_names m BeforeRequest =
        (if is_ok (as_engine a) then [''pii-guardrail''] else []) @ (if ps_word_filter s \<noteq> [] then [''word-filter''] else []) @
        (if ps_max_tokens_limit s \<noteq> None then [''max-token''] else []) @ (if budget_stage s w \<noteq> [] then [''budget''] else []) @
        (if ps_rate_limit_key_rpm s \<noteq> None \<or> ps_rate_limit_ip_rpm s \<noteq> None then [''rate-limit''] else [])"
    by (simp only: stage_names_def Stage.case build_plugins_stages(1) map_append stage_plugin_names budget_stage_names)
qed

section \<open>What the pipeline lets through\<close>

text \<open>Plugins that do not touch the context.\<close>

definition keeps_context :: "'w Plugin \<Rightarrow> bool" where
  "keeps_context p = (\<forall>ctx w. fst (snd (pl_execute p ctx w)) = ctx)"

lemma run_keeps_context: "list_all keeps_context ps \<Longrightarrow> fst (snd (run_plugins ps ctx w)) = ctx"
proof (induction ps arbitrary: w)
  case (Cons p ps)
  obtain r ctx1 w1 where run: "pl_execute p ctx w = (r, ctx1, w1)" by (cases "pl_execute p ctx w") auto
  have "fst (snd (pl_execute p ctx w)) = ctx" using Cons.prems by (simp add: keeps_context_def)
  with run have "ctx1 = ctx" by simp
  with run Cons show ?case by (cases r) simp_all
qed simp

lemma later_stages_keep_context:
  "list_all keeps_context (word_stage a s)" "list_all keeps_context (token_stage s)"
  "list_all keeps_context (budget_stage s w)" "list_all keeps_context (limit_stage a s)"
  by (auto simp: word_stage_def token_stage_def budget_stage_def limit_stage_def keeps_context_def word_filter_plugin_def
      max_token_plugin_def checking_plugin_def wired_budget_def budget_plugin_def wired_rate_limit_def Let_def
      split: option.splits sum.splits prod.splits)

lemma run_checking:
  "run_plugins [checking_plugin n ty check] ctx w = (Ok (), ctx', w') \<Longrightarrow> check ctx = Ok ()"
  by (auto simp: checking_plugin_def split: sum.splits)

lemma run_append_Ok:
  assumes "run_plugins (ps @ qs) ctx w = (Ok (), ctx', w')"
  obtains ctx1 w1 where "run_plugins ps ctx w = (Ok (), ctx1, w1)" "run_plugins qs ctx1 w1 = (Ok (), ctx', w')"
  using assms by (auto simp: run_plugins_append split: prod.splits sum.splits)

lemma word_stage_Ok:
  assumes "run_plugins (word_stage a s) ctx w = (Ok (), ctx', w')" "word \<in> set (ps_word_filter s)" "m \<in> set (cr_messages (ctx_request ctx))"
    "msg_content m = Some c"
  shows "\<not> str_contains (as_lower a word) (as_lower a (flat_text c))"
proof -
  have "ps_word_filter s \<noteq> []" using assms(2) by auto
  then have "word_filter_execute (as_lower a) (word_filter_new (as_lower a) (ps_word_filter s)) ctx = Ok ()"
    using assms(1) run_checking by (fastforce simp: word_stage_def word_filter_plugin_def)
  then have "scan_messages (as_lower a) (map (as_lower a) (ps_word_filter s)) (cr_messages (ctx_request ctx)) = None"
    by (simp add: word_filter_execute_def word_filter_new_def split: option.splits)
  then show ?thesis using assms(2-4) by (auto simp: scan_messages_None)
qed

lemma token_stage_Ok:
  assumes "run_plugins (token_stage s) ctx w = (Ok (), ctx', w')" "ps_max_tokens_limit s = Some n" "cr_max_tokens (ctx_request ctx) = Some k"
  shows "k \<le> n"
proof -
  have "max_token_execute \<lparr>mt_max_tokens = n\<rparr> ctx = Ok ()"
    using assms(1,2) run_checking by (fastforce simp: token_stage_def max_token_plugin_def)
  then show ?thesis using assms(3) by (simp add: max_token_execute_def not_less split: if_splits)
qed

text \<open>C23: what the assembled pipeline lets through. The request that leaves it is the PII guardrail's output, unchanged by the plugins
  after it; no content of that request, after redaction, holds a blocked word, and its token limit is within the
  configured cap.\<close>

theorem pipeline_mediates:
  assumes "build_plugins a s config w0 = Some (m, cache, w1)" "as_engine a = Ok engine" "run_before m ctx w = (Ok (), ctx', w')"
  shows "(\<exists>wp. pii_execute (wired_pii a s engine) ctx w = (Ok (), ctx', wp)) \<and>
    (\<forall>msg\<in>set (cr_messages (ctx_request ctx')). \<forall>c. msg_content msg = Some c \<longrightarrow>
       (\<forall>word\<in>set (ps_word_filter s). \<not> str_contains (as_lower a word) (as_lower a (flat_text c)))) \<and>
    (\<forall>n k. ps_max_tokens_limit s = Some n \<longrightarrow> cr_max_tokens (ctx_request ctx') = Some k \<longrightarrow> k \<le> n)"
proof -
  have run: "run_plugins (pii_stage a s @ word_stage a s @ token_stage s @ budget_stage s w0 @ limit_stage a s) ctx w = (Ok (), ctx', w')"
    using assms(3) build_plugins_stages(1) [OF assms(1)] by (simp add: run_before_def)
  obtain ctx1 v1 where r1: "run_plugins (pii_stage a s) ctx w = (Ok (), ctx1, v1)"
    and rest: "run_plugins (word_stage a s @ token_stage s @ budget_stage s w0 @ limit_stage a s) ctx1 v1 = (Ok (), ctx', w')"
    using run by (rule run_append_Ok)
  have same: "ctx' = ctx1"
    using run_keeps_context [of "word_stage a s @ token_stage s @ budget_stage s w0 @ limit_stage a s" ctx1 v1] rest later_stages_keep_context
    by simp
  obtain ctx2 v2 where r2: "run_plugins (word_stage a s) ctx1 v1 = (Ok (), ctx2, v2)"
    and rest2: "run_plugins (token_stage s @ budget_stage s w0 @ limit_stage a s) ctx2 v2 = (Ok (), ctx', w')"
    using rest by (rule run_append_Ok)
  have "ctx2 = ctx1" using run_keeps_context [OF later_stages_keep_context(1), of a s ctx1 v1] r2 by simp
  then obtain ctx3 v3 where r3: "run_plugins (token_stage s) ctx1 v2 = (Ok (), ctx3, v3)"
    using rest2 by (auto elim: run_append_Ok)
  have "\<exists>wp. pii_execute (wired_pii a s engine) ctx w = (Ok (), ctx', wp)"
    using r1 by (auto simp: pii_stage_def assms(2) pii_plugin_def same split: prod.splits sum.splits)
  with word_stage_Ok [OF r2] token_stage_Ok [OF r3] show ?thesis unfolding same by blast
qed


section \<open>Instance\<close>

definition demo_assembly :: assembly where
  "demo_assembly = \<lparr>as_engine = Ok demo_engine, as_lower = to_ascii_lowercase, as_hash = (\<lambda>_. 0), as_join_request = (\<lambda>_. None),
     as_join_response = (\<lambda>_. None), as_inline_limit = 1000, as_org_ids = [], as_team_ids = (\<lambda>_. [])\<rparr>"

definition demo_plugin_settings :: PluginSettings where
  "demo_plugin_settings = \<lparr>ps_word_filter = [''secret''], ps_max_tokens_limit = Some 100, ps_budget_spend_limit_usd = None,
     ps_budget_input_per_m = None, ps_budget_output_per_m = None, ps_rate_limit_key_rpm = None, ps_rate_limit_ip_rpm = None,
     ps_cache = None, ps_pii_defaults = Some (demo_settings Redact_mode), ps_pii_response_defaults = None\<rparr>"

definition demo_world :: plugin_world where
  "demo_world = \<lparr>pw_config = Config_default, pw_counted = [], pw_log = [], pw_spend = Map.empty, pw_limits = Map.empty,
     pw_limiter = \<lparr>rp_global_limiter = None, rp_key_store = None, rp_user_store = None, rp_ip_store = None\<rparr>, pw_now = 0,
     pw_env = \<lparr>env_now_global = 0, env_now_key = 0, env_now_user = 0, env_now_ip = 0, env_rnd_key = 0, env_rnd_user = 0, env_rnd_ip = 0\<rparr>\<rparr>"

lemma demo_built: "\<exists>m cache w'. build_plugins demo_assembly demo_plugin_settings Config_default demo_world = Some (m, cache, w')"
  by (simp add: build_plugins_def register_pii_def demo_assembly_def Let_def case_prod_beta)

lemma demo_stages:
  "word_stage demo_assembly demo_plugin_settings = [word_filter_plugin to_ascii_lowercase \<lparr>wf_blocked_words = [''secret'']\<rparr>]"
  "token_stage demo_plugin_settings = [max_token_plugin \<lparr>mt_max_tokens = 100\<rparr>]"
  "budget_stage demo_plugin_settings w = []" "limit_stage demo_assembly demo_plugin_settings = []"
  "pii_stage demo_assembly demo_plugin_settings = [pii_plugin (wired_pii demo_assembly demo_plugin_settings demo_engine)]"
  by (simp_all add: word_stage_def token_stage_def budget_stage_def limit_stage_def pii_stage_def demo_assembly_def demo_plugin_settings_def
      word_filter_new_def to_ascii_lowercase_def)

lemma demo_wired_settings:
  "pii_effective_settings (wired_pii demo_assembly demo_plugin_settings demo_engine) (demo_pii_ctx t) demo_world = Some (demo_settings Redact_mode)"
  by (simp add: pii_effective_settings_def wired_pii_def pii_plugin_with_config_def demo_world_def Config_default_def scoped_pii_section_def
      scopes_def demo_pii_ctx_def from_request_def ctx_org_id_def PiiGuardrailConfig_default_def demo_plugin_settings_def)

lemma demo_wired_fields:
  "pgp_engine (wired_pii demo_assembly demo_plugin_settings demo_engine) = demo_engine"
  "pgp_join (wired_pii demo_assembly demo_plugin_settings demo_engine) ts = None"
  "pgp_inline_limit_bytes (wired_pii demo_assembly demo_plugin_settings demo_engine) = 1000"
  by (simp_all add: wired_pii_def pii_plugin_with_config_def demo_assembly_def)

lemma demo_wired_redacts:
  "\<exists>ctx' w'. pii_execute (wired_pii demo_assembly demo_plugin_settings demo_engine) (demo_pii_ctx ''a@b'') demo_world = (Ok (), ctx', w') \<and>
     cr_messages (ctx_request ctx') = [message_user ''[EMAIL_ADDRESS]''] \<and> cr_max_tokens (ctx_request ctx') = None"
  by (simp add: pii_execute_def demo_wired_settings demo_wired_fields run_engine_def pii_enforce_def count_all_def Let_def)
    (simp add: write_all_def write_back_def write_slot_def update_message_def set_metadata_def demo_pii_ctx_def from_request_def message_user_def
      ChatCompletionRequest_default_def)

lemma demo_pipeline_runs:
  assumes "build_plugins demo_assembly demo_plugin_settings Config_default demo_world = Some (m, cache, w1)"
  shows "\<exists>ctx' w'. run_before m (demo_pii_ctx ''a@b'') demo_world = (Ok (), ctx', w') \<and>
     cr_messages (ctx_request ctx') = [message_user ''[EMAIL_ADDRESS]'']"
proof -
  obtain ctx' w' where run: "pii_execute (wired_pii demo_assembly demo_plugin_settings demo_engine) (demo_pii_ctx ''a@b'') demo_world = (Ok (), ctx', w')"
    and out: "cr_messages (ctx_request ctx') = [message_user ''[EMAIL_ADDRESS]'']" "cr_max_tokens (ctx_request ctx') = None"
    using demo_wired_redacts by blast
  have "word_filter_execute to_ascii_lowercase \<lparr>wf_blocked_words = [''secret'']\<rparr> ctx' = Ok ()"
    by (simp add: word_filter_execute_def out message_user_def flat_text_def to_ascii_lowercase_def str_contains_def starts_with_def)
  moreover have "max_token_execute \<lparr>mt_max_tokens = 100\<rparr> ctx' = Ok ()" by (simp add: max_token_execute_def out)
  ultimately show ?thesis
    using run out
    by (simp add: run_before_def build_plugins_stages(1) [OF assms] demo_stages pii_plugin_def word_filter_plugin_def max_token_plugin_def
        checking_plugin_def)
qed

theorem pipeline_mediates_witness:
  "\<exists>m cache w1 ctx' w'. build_plugins demo_assembly demo_plugin_settings Config_default demo_world = Some (m, cache, w1) \<and>
     run_before m (demo_pii_ctx ''a@b'') demo_world = (Ok (), ctx', w') \<and>
     (\<exists>wp. pii_execute (wired_pii demo_assembly demo_plugin_settings demo_engine) (demo_pii_ctx ''a@b'') demo_world = (Ok (), ctx', wp))"
proof -
  obtain m cache w1 where built: "build_plugins demo_assembly demo_plugin_settings Config_default demo_world = Some (m, cache, w1)"
    using demo_built by blast
  moreover obtain ctx' w' where run: "run_before m (demo_pii_ctx ''a@b'') demo_world = (Ok (), ctx', w')"
    using demo_pipeline_runs [OF built] by blast
  moreover have "as_engine demo_assembly = Ok demo_engine" by (simp add: demo_assembly_def)
  ultimately show ?thesis using pipeline_mediates [OF built _ run] by blast
qed

theorem assembly_order_witness:
  "\<exists>m cache w'. build_plugins demo_assembly demo_plugin_settings Config_default demo_world = Some (m, cache, w') \<and>
     stage_names m BeforeRequest = [''pii-guardrail'', ''word-filter'', ''max-token'']"
proof -
  obtain m cache w1 where built: "build_plugins demo_assembly demo_plugin_settings Config_default demo_world = Some (m, cache, w1)"
    using demo_built by blast
  moreover have "stage_names m BeforeRequest = [''pii-guardrail'', ''word-filter'', ''max-token'']"
    using assembly_order [of demo_assembly demo_plugin_settings Config_default demo_world] built
    by (simp add: demo_stages) (simp add: demo_assembly_def demo_plugin_settings_def is_ok_def)
  ultimately show ?thesis by blast
qed

end
