(* ===== verification/Model_Store.thy ===== *)
theory Model_Store
  imports Key_Store Gateway_State "HOL-Library.List_Lexorder" "HOL-Library.Char_ord"
begin

text \<open>
  The model catalogue: models, their provider endpoints, and the keys at rest (\<^verbatim>\<open>himadri-admin/src/models.rs\<close>,
  \<^verbatim>\<open>crypto.rs\<close>), the SQLite and the Postgres stores (\<^verbatim>\<open>provider_store.rs\<close>, \<^verbatim>\<open>postgres_provider_store.rs\<close>),
  the choice between them (\<^verbatim>\<open>provider_backend.rs\<close>) and the facade the HTTP handlers call (\<^verbatim>\<open>handlers.rs\<close>), built
  with both database features. A database is its two tables and, for each coming statement, whether the server fails it; every
  store operation is the sequence of its statements. AES-GCM, base64, UUID syntax, the collation and the columns'
  capacity are arguments. Rows with equal sort keys are listed in the order they were inserted.
\<close>

section \<open>Provider keys at rest\<close>

definition PREFIX :: string where
  "PREFIX = ''enc:v1:''"

datatype CipherKey = CipherKey string

datatype CryptoError = InvalidKeyLength | InvalidBase64 string | DecryptFailed

text \<open>Base64 and AES-256-GCM, which the sources only call.\<close>

record crypto =
  cy_b64_encode :: "string \<Rightarrow> string"
  cy_b64_decode :: "string \<Rightarrow> (string, string) result"
  cy_seal :: "string \<Rightarrow> string \<Rightarrow> string \<Rightarrow> string"
  cy_open :: "string \<Rightarrow> string \<Rightarrow> string \<Rightarrow> string option"

definition from_base64 :: "crypto \<Rightarrow> string \<Rightarrow> (CryptoError, CipherKey) result" where
  "from_base64 cy encoded =
     (case cy_b64_decode cy (trim encoded) of
        Err e \<Rightarrow> Err (InvalidBase64 e)
      | Ok bytes \<Rightarrow> if length bytes \<noteq> 32 then Err InvalidKeyLength else Ok (CipherKey bytes))"

definition from_env :: "crypto \<Rightarrow> env_vars \<Rightarrow> CipherKey option" where
  "from_env cy env =
     (case env ''PROVIDER_ENCRYPTION_KEY'' of
        None \<Rightarrow> None
      | Some raw \<Rightarrow> (case from_base64 cy raw of Ok key \<Rightarrow> Some key | Err _ \<Rightarrow> None))"

fun encrypt :: "crypto \<Rightarrow> string \<Rightarrow> CipherKey \<Rightarrow> string \<Rightarrow> string" where
  "encrypt cy nonce (CipherKey key) plaintext =
     (let ciphertext = cy_seal cy key nonce plaintext in PREFIX @ cy_b64_encode cy (nonce @ ciphertext))"

text \<open>\<^verbatim>\<open>String::from_utf8\<close> accepts the byte strings that the lossy decoding leaves alone.\<close>

definition from_utf8 :: "string \<Rightarrow> string option" where
  "from_utf8 bytes = (if utf8_lossy bytes = bytes then Some bytes else None)"

fun decrypt :: "crypto \<Rightarrow> CipherKey \<Rightarrow> string \<Rightarrow> (CryptoError, string) result" where
  "decrypt cy (CipherKey key) v =
     (case strip_prefix PREFIX v of
        None \<Rightarrow> Ok v
      | Some encoded \<Rightarrow>
          (case cy_b64_decode cy encoded of
             Err e \<Rightarrow> Err (InvalidBase64 e)
           | Ok combined \<Rightarrow>
               if length combined < 12 then Err DecryptFailed
               else (case cy_open cy key (take 12 combined) (drop 12 combined) of
                       None \<Rightarrow> Err DecryptFailed
                     | Some plaintext \<Rightarrow>
                         (case from_utf8 plaintext of None \<Rightarrow> Err DecryptFailed | Some s \<Rightarrow> Ok s))))"

definition encrypt_endpoint_api_key :: "crypto \<Rightarrow> string \<Rightarrow> CipherKey option \<Rightarrow> string option \<Rightarrow> string option" where
  "encrypt_endpoint_api_key cy nonce cipher api_key =
     (case (cipher, api_key) of
        (Some cipher, Some plaintext) \<Rightarrow> if plaintext \<noteq> [] then Some (encrypt cy nonce cipher plaintext) else api_key
      | (_, other) \<Rightarrow> other)"

definition decrypt_endpoint :: "crypto \<Rightarrow> CipherKey option \<Rightarrow> ModelEndpoint \<Rightarrow> ModelEndpoint" where
  "decrypt_endpoint cy cipher endpoint =
     (case (cipher, me_api_key endpoint) of
        (Some cipher, Some v) \<Rightarrow>
          (case decrypt cy cipher v of
             Ok plaintext \<Rightarrow> endpoint\<lparr>me_api_key := Some plaintext\<rparr>
           | Err _ \<Rightarrow> endpoint\<lparr>me_api_key := None\<rparr>)
      | _ \<Rightarrow> endpoint)"

section \<open>Requests\<close>

record CreateModelRequest =
  cm_name :: string
  cm_display_name :: "string option"
  cm_enabled :: bool

record UpdateModelRequest =
  um_name :: "string option"
  um_display_name :: "string option option"
  um_enabled :: "bool option"

record CreateModelEndpointRequest =
  ce_provider_type :: string
  ce_base_url :: "string option"
  ce_api_key :: "string option"
  ce_weight :: rat
  ce_enabled :: bool

record UpdateModelEndpointRequest =
  ue_provider_type :: "string option"
  ue_base_url :: "string option option"
  ue_api_key :: "string option option"
  ue_weight :: "rat option"
  ue_enabled :: "bool option"

definition effective_routing_pair :: "UpdateModelEndpointRequest \<Rightarrow> ModelEndpoint \<Rightarrow> string \<times> string option" where
  "effective_routing_pair request current =
     (unwrap_or (ue_provider_type request) (me_provider_type current), unwrap_or (ue_base_url request) (me_base_url current))"

text \<open>What a creating call draws: the identifier, and the clock read once for each of the two time stamps.\<close>

record row_stamp =
  sd_id :: string
  sd_created :: datetime
  sd_updated :: datetime

definition model_new :: "row_stamp \<Rightarrow> CreateModelRequest \<Rightarrow> Model" where
  "model_new d request =
     \<lparr>mo_id = sd_id d, mo_name = cm_name request, mo_display_name = cm_display_name request,
      mo_enabled = cm_enabled request, mo_created_at = sd_created d, mo_updated_at = sd_updated d\<rparr>"

definition endpoint_new :: "row_stamp \<Rightarrow> string \<Rightarrow> CreateModelEndpointRequest \<Rightarrow> ModelEndpoint" where
  "endpoint_new d model_id request =
     \<lparr>me_id = sd_id d, me_model_id = model_id, me_provider_type = ce_provider_type request,
      me_base_url = ce_base_url request, me_api_key = ce_api_key request, me_weight = ce_weight request,
      me_enabled = ce_enabled request, me_created_at = sd_created d, me_updated_at = sd_updated d\<rparr>"

section \<open>The database\<close>

text \<open>The two tables, and for each of the coming statements whether the server fails it and with which message.\<close>

record model_db =
  md_models :: "Model list"
  md_endpoints :: "ModelEndpoint list"
  md_faults :: "string option list"

type_synonym 'a store_op = "model_db \<Rightarrow> (AdminError, 'a) result \<times> model_db"

text \<open>What the databases decide: the syntax of UUIDs, the text of a constraint violation, the strings a
  \<^verbatim>\<open>VARCHAR(255)\<close> and a \<^verbatim>\<open>TEXT\<close> column of Postgres take, and the
  collation it orders names by; and chrono's conversion of an instant to Unix seconds.\<close>

record store_env =
  sv_crypto :: crypto
  sv_parse_uuid :: "string \<Rightarrow> string option"
  sv_dberr :: string
  sv_varchar :: "string \<Rightarrow> bool"
  sv_text :: "string \<Rightarrow> bool"
  sv_collation :: "string \<Rightarrow> string"
  sv_timestamp :: "datetime \<Rightarrow> int"

definition statement :: "(model_db \<Rightarrow> (string, 'a \<times> model_db) result) \<Rightarrow> 'a store_op" where
  "statement f db =
     (let faults = md_faults db; db = db\<lparr>md_faults := tl faults\<rparr>
      in case faults of
           Some e # _ \<Rightarrow> (Err (Store_admin e), db)
         | _ \<Rightarrow> (case f db of Ok (x, db) \<Rightarrow> (Ok x, db) | Err e \<Rightarrow> (Err (Store_admin e), db)))"

text \<open>Sequencing under the \<^verbatim>\<open>?\<close> operator.\<close>

definition and_then :: "'a store_op \<Rightarrow> ('a \<Rightarrow> 'b store_op) \<Rightarrow> 'b store_op" where
  "and_then f g db = (case f db of (Ok x, db) \<Rightarrow> g x db | (Err e, db) \<Rightarrow> (Err e, db))"

definition answer :: "(AdminError, 'a) result \<Rightarrow> 'a store_op" where
  "answer r db = (r, db)"

definition query :: "(model_db \<Rightarrow> 'a) \<Rightarrow> 'a store_op" where
  "query f = statement (\<lambda>db. Ok (f db, db))"

definition model_row :: "string \<Rightarrow> model_db \<Rightarrow> Model option" where
  "model_row i db = find (\<lambda>m. mo_id m = i) (md_models db)"

definition endpoint_row :: "string \<Rightarrow> model_db \<Rightarrow> ModelEndpoint option" where
  "endpoint_row i db = find (\<lambda>e. me_id e = i) (md_endpoints db)"

definition on_model :: "string \<Rightarrow> (Model \<Rightarrow> Model) \<Rightarrow> model_db \<Rightarrow> model_db" where
  "on_model i f db = db\<lparr>md_models := map (\<lambda>m. if mo_id m = i then f m else m) (md_models db)\<rparr>"

definition on_endpoint :: "string \<Rightarrow> (ModelEndpoint \<Rightarrow> ModelEndpoint) \<Rightarrow> model_db \<Rightarrow> model_db" where
  "on_endpoint i f db = db\<lparr>md_endpoints := map (\<lambda>e. if me_id e = i then f e else e) (md_endpoints db)\<rparr>"

definition drop_models :: "(Model \<Rightarrow> bool) \<Rightarrow> model_db \<Rightarrow> model_db" where
  "drop_models P db = db\<lparr>md_models := filter (\<lambda>m. \<not> P m) (md_models db)\<rparr>"

definition drop_endpoints :: "(ModelEndpoint \<Rightarrow> bool) \<Rightarrow> model_db \<Rightarrow> model_db" where
  "drop_endpoints P db = db\<lparr>md_endpoints := filter (\<lambda>e. \<not> P e) (md_endpoints db)\<rparr>"

definition delete_conflict :: "Model \<Rightarrow> AdminError" where
  "delete_conflict m = Conflict_admin (''Cannot delete model '' @ quoted (mo_name m) @ '' (id: '' @ mo_id m @
     ''): model is enabled. Disable it first before deletion.'')"

definition merged_model :: "datetime \<Rightarrow> UpdateModelRequest \<Rightarrow> Model \<Rightarrow> Model \<Rightarrow> Model" where
  "merged_model now request current m =
     m\<lparr>mo_name := unwrap_or (um_name request) (mo_name current),
       mo_display_name := unwrap_or (um_display_name request) (mo_display_name current),
       mo_enabled := unwrap_or (um_enabled request) (mo_enabled current), mo_updated_at := now\<rparr>"

definition toggled_model :: "datetime \<Rightarrow> bool \<Rightarrow> Model \<Rightarrow> Model" where
  "toggled_model now enabled m = m\<lparr>mo_enabled := enabled, mo_updated_at := now\<rparr>"

definition toggled_endpoint :: "datetime \<Rightarrow> bool \<Rightarrow> ModelEndpoint \<Rightarrow> ModelEndpoint" where
  "toggled_endpoint now enabled e = e\<lparr>me_enabled := enabled, me_updated_at := now\<rparr>"

text \<open>The update statements: the one that writes the key column, and the one that leaves it alone.\<close>

definition merged_endpoint ::
    "crypto \<Rightarrow> CipherKey option \<Rightarrow> string \<Rightarrow> datetime \<Rightarrow> UpdateModelEndpointRequest \<Rightarrow> ModelEndpoint \<Rightarrow> ModelEndpoint \<Rightarrow> ModelEndpoint" where
  "merged_endpoint cy cipher nonce now request current e =
     (let (provider_type, base_url) = effective_routing_pair request current;
          weight = unwrap_or (ue_weight request) (me_weight current);
          enabled = unwrap_or (ue_enabled request) (me_enabled current)
      in case ue_api_key request of
           Some new_key \<Rightarrow>
             e\<lparr>me_provider_type := provider_type, me_base_url := base_url,
               me_api_key := encrypt_endpoint_api_key cy nonce cipher new_key,
               me_weight := weight, me_enabled := enabled, me_updated_at := now\<rparr>
         | None \<Rightarrow>
             e\<lparr>me_provider_type := provider_type, me_base_url := base_url,
               me_weight := weight, me_enabled := enabled, me_updated_at := now\<rparr>)"


section \<open>SQLite stores\<close>

definition sqm_create :: "store_env \<Rightarrow> row_stamp \<Rightarrow> CreateModelRequest \<Rightarrow> Model store_op" where
  "sqm_create ev d request =
     (let model = model_new d request
      in and_then
           (statement (\<lambda>db. if model_row (mo_id model) db \<noteq> None then Err (sv_dberr ev)
                            else Ok ((), db\<lparr>md_models := md_models db @ [model]\<rparr>)))
           (\<lambda>_. answer (Ok model)))"

definition sqm_get :: "string \<Rightarrow> Model option store_op" where
  "sqm_get i = query (model_row i)"

definition sqm_list :: "Model list store_op" where
  "sqm_list = query (\<lambda>db. sort_key mo_name (md_models db))"

definition sqm_list_enabled :: "Model list store_op" where
  "sqm_list_enabled = query (\<lambda>db. sort_key mo_name (filter mo_enabled (md_models db)))"

definition sqm_update :: "datetime \<Rightarrow> string \<Rightarrow> UpdateModelRequest \<Rightarrow> Model option store_op" where
  "sqm_update now i request =
     and_then (sqm_get i) (\<lambda>found. case found of
         None \<Rightarrow> answer (Err NotFound_admin)
       | Some current \<Rightarrow>
           and_then (statement (\<lambda>db. Ok ((), on_model i (merged_model now request current) db)))
             (\<lambda>_. sqm_get i))"

definition sqm_delete :: "string \<Rightarrow> bool store_op" where
  "sqm_delete i =
     and_then (sqm_get i) (\<lambda>found. case found of
         None \<Rightarrow> answer (Ok False)
       | Some model \<Rightarrow>
           if mo_enabled model then answer (Err (delete_conflict model))
           else
             and_then (statement (\<lambda>db. Ok ((), drop_endpoints (\<lambda>e. me_model_id e = i) db)))
               (\<lambda>_. statement (\<lambda>db. Ok (model_row i db \<noteq> None, drop_models (\<lambda>m. mo_id m = i) db))))"

definition sqm_toggle :: "datetime \<Rightarrow> string \<Rightarrow> bool \<Rightarrow> Model option store_op" where
  "sqm_toggle now i enabled =
     and_then (statement (\<lambda>db. Ok ((), on_model i (toggled_model now enabled) db))) (\<lambda>_. sqm_get i)"

definition sqe_create ::
    "store_env \<Rightarrow> CipherKey option \<Rightarrow> row_stamp \<Rightarrow> string \<Rightarrow> string \<Rightarrow> CreateModelEndpointRequest \<Rightarrow> ModelEndpoint store_op" where
  "sqe_create ev cipher d nonce model_id request =
     and_then (query (model_row model_id)) (\<lambda>model_exists.
       if model_exists = None then answer (Err NotFound_admin)
       else
         (let plaintext_key = ce_api_key request;
              request = request\<lparr>ce_api_key := encrypt_endpoint_api_key (sv_crypto ev) nonce cipher (ce_api_key request)\<rparr>;
              endpoint = endpoint_new d model_id request
          in and_then
               (statement (\<lambda>db. if endpoint_row (me_id endpoint) db \<noteq> None then Err (sv_dberr ev)
                                else Ok ((), db\<lparr>md_endpoints := md_endpoints db @ [endpoint]\<rparr>)))
               (\<lambda>_. answer (Ok (endpoint\<lparr>me_api_key := plaintext_key\<rparr>)))))"

definition sqe_get :: "store_env \<Rightarrow> CipherKey option \<Rightarrow> string \<Rightarrow> ModelEndpoint option store_op" where
  "sqe_get ev cipher i = query (\<lambda>db. map_option (decrypt_endpoint (sv_crypto ev) cipher) (endpoint_row i db))"

definition sqe_list :: "store_env \<Rightarrow> CipherKey option \<Rightarrow> ModelEndpoint list store_op" where
  "sqe_list ev cipher =
     query (\<lambda>db. map (decrypt_endpoint (sv_crypto ev) cipher) (sort_key me_created_at (md_endpoints db)))"

definition sqe_list_by_model :: "store_env \<Rightarrow> CipherKey option \<Rightarrow> string \<Rightarrow> ModelEndpoint list store_op" where
  "sqe_list_by_model ev cipher model_id =
     query (\<lambda>db. map (decrypt_endpoint (sv_crypto ev) cipher)
       (sort_key me_created_at (filter (\<lambda>e. me_model_id e = model_id) (md_endpoints db))))"

definition sqe_update ::
    "store_env \<Rightarrow> CipherKey option \<Rightarrow> string \<Rightarrow> datetime \<Rightarrow> string \<Rightarrow> UpdateModelEndpointRequest \<Rightarrow> ModelEndpoint option store_op" where
  "sqe_update ev cipher nonce now i request =
     and_then (sqe_get ev cipher i) (\<lambda>found. case found of
         None \<Rightarrow> answer (Err NotFound_admin)
       | Some current \<Rightarrow>
           and_then (statement (\<lambda>db. Ok ((), on_endpoint i (merged_endpoint (sv_crypto ev) cipher nonce now request current) db)))
             (\<lambda>_. sqe_get ev cipher i))"

definition sqe_delete :: "string \<Rightarrow> bool store_op" where
  "sqe_delete i = statement (\<lambda>db. Ok (endpoint_row i db \<noteq> None, drop_endpoints (\<lambda>e. me_id e = i) db))"

definition sqe_toggle :: "store_env \<Rightarrow> CipherKey option \<Rightarrow> datetime \<Rightarrow> string \<Rightarrow> bool \<Rightarrow> ModelEndpoint option store_op" where
  "sqe_toggle ev cipher now i enabled =
     and_then (statement (\<lambda>db. Ok ((), on_endpoint i (toggled_endpoint now enabled) db))) (\<lambda>_. sqe_get ev cipher i)"

section \<open>Postgres stores\<close>

text \<open>The columns of the two tables; \<^verbatim>\<open>model_id\<close> is a foreign key whose deletion cascades.\<close>

definition fits_model :: "store_env \<Rightarrow> Model \<Rightarrow> bool" where
  "fits_model ev m =
     (sv_varchar ev (mo_name m) \<and> (case mo_display_name m of None \<Rightarrow> True | Some n \<Rightarrow> sv_varchar ev n))"

definition fits_endpoint :: "store_env \<Rightarrow> ModelEndpoint \<Rightarrow> bool" where
  "fits_endpoint ev e =
     (sv_varchar ev (me_provider_type e) \<and> (case me_base_url e of None \<Rightarrow> True | Some u \<Rightarrow> sv_text ev u)
      \<and> (case me_api_key e of None \<Rightarrow> True | Some k \<Rightarrow> sv_text ev k))"

definition pgm_create :: "store_env \<Rightarrow> row_stamp \<Rightarrow> CreateModelRequest \<Rightarrow> Model store_op" where
  "pgm_create ev d request =
     (let model = model_new (d\<lparr>sd_updated := sd_created d\<rparr>) request
      in and_then
           (statement (\<lambda>db. if model_row (sd_id d) db \<noteq> None \<or> \<not> fits_model ev model then Err (sv_dberr ev)
                            else Ok ((), db\<lparr>md_models := md_models db @ [model]\<rparr>)))
           (\<lambda>_. answer (Ok model)))"

definition pgm_get :: "store_env \<Rightarrow> string \<Rightarrow> Model option store_op" where
  "pgm_get ev i =
     (case sv_parse_uuid ev i of None \<Rightarrow> answer (Ok None) | Some uuid \<Rightarrow> query (model_row uuid))"

definition pgm_list :: "store_env \<Rightarrow> Model list store_op" where
  "pgm_list ev = query (\<lambda>db. sort_key (\<lambda>m. sv_collation ev (mo_name m)) (md_models db))"

definition pgm_list_enabled :: "store_env \<Rightarrow> Model list store_op" where
  "pgm_list_enabled ev = query (\<lambda>db. sort_key (\<lambda>m. sv_collation ev (mo_name m)) (filter mo_enabled (md_models db)))"

definition pgm_update :: "store_env \<Rightarrow> datetime \<Rightarrow> string \<Rightarrow> UpdateModelRequest \<Rightarrow> Model option store_op" where
  "pgm_update ev now i request =
     and_then (pgm_get ev i) (\<lambda>found. case found of
         None \<Rightarrow> answer (Err NotFound_admin)
       | Some current \<Rightarrow>
           (case sv_parse_uuid ev i of
              None \<Rightarrow> answer (Err NotFound_admin)
            | Some uuid \<Rightarrow>
                and_then
                  (statement (\<lambda>db. if fits_model ev (merged_model now request current current)
                                   then Ok ((), on_model uuid (merged_model now request current) db)
                                   else Err (sv_dberr ev)))
                  (\<lambda>_. pgm_get ev i)))"

definition pgm_delete :: "store_env \<Rightarrow> string \<Rightarrow> bool store_op" where
  "pgm_delete ev i =
     (case sv_parse_uuid ev i of
        None \<Rightarrow> answer (Ok False)
      | Some uuid \<Rightarrow>
          and_then (pgm_get ev i) (\<lambda>found. case found of
              None \<Rightarrow> answer (Ok False)
            | Some model \<Rightarrow>
                if mo_enabled model then answer (Err (delete_conflict model))
                else statement (\<lambda>db. Ok (model_row uuid db \<noteq> None,
                       drop_models (\<lambda>m. mo_id m = uuid) (drop_endpoints (\<lambda>e. me_model_id e = uuid) db)))))"

definition pgm_toggle :: "store_env \<Rightarrow> datetime \<Rightarrow> string \<Rightarrow> bool \<Rightarrow> Model option store_op" where
  "pgm_toggle ev now i enabled =
     (case sv_parse_uuid ev i of
        None \<Rightarrow> answer (Ok None)
      | Some uuid \<Rightarrow>
          and_then (statement (\<lambda>db. Ok ((), on_model uuid (toggled_model now enabled) db))) (\<lambda>_. pgm_get ev i))"

definition pge_create ::
    "store_env \<Rightarrow> CipherKey option \<Rightarrow> row_stamp \<Rightarrow> string \<Rightarrow> string \<Rightarrow> CreateModelEndpointRequest \<Rightarrow> ModelEndpoint store_op" where
  "pge_create ev cipher d nonce model_id request =
     (case sv_parse_uuid ev model_id of
        None \<Rightarrow> answer (Err NotFound_admin)
      | Some model_uuid \<Rightarrow>
          and_then (query (model_row model_uuid)) (\<lambda>model_exists.
            if model_exists = None then answer (Err NotFound_admin)
            else
              (let plaintext_key = ce_api_key request;
                   request = request\<lparr>ce_api_key := encrypt_endpoint_api_key (sv_crypto ev) nonce cipher (ce_api_key request)\<rparr>;
                   row = endpoint_new (d\<lparr>sd_updated := sd_created d\<rparr>) model_uuid request
               in and_then
                    (statement (\<lambda>db. if endpoint_row (sd_id d) db \<noteq> None \<or> model_row model_uuid db = None \<or> \<not> fits_endpoint ev row
                                     then Err (sv_dberr ev)
                                     else Ok ((), db\<lparr>md_endpoints := md_endpoints db @ [row]\<rparr>)))
                    (\<lambda>_. answer (Ok (row\<lparr>me_model_id := model_id, me_api_key := plaintext_key\<rparr>))))))"

definition pge_get :: "store_env \<Rightarrow> CipherKey option \<Rightarrow> string \<Rightarrow> ModelEndpoint option store_op" where
  "pge_get ev cipher i =
     (case sv_parse_uuid ev i of
        None \<Rightarrow> answer (Ok None)
      | Some uuid \<Rightarrow> query (\<lambda>db. map_option (decrypt_endpoint (sv_crypto ev) cipher) (endpoint_row uuid db)))"

definition pge_list :: "store_env \<Rightarrow> CipherKey option \<Rightarrow> ModelEndpoint list store_op" where
  "pge_list ev cipher =
     query (\<lambda>db. map (decrypt_endpoint (sv_crypto ev) cipher) (sort_key me_created_at (md_endpoints db)))"

definition pge_list_by_model :: "store_env \<Rightarrow> CipherKey option \<Rightarrow> string \<Rightarrow> ModelEndpoint list store_op" where
  "pge_list_by_model ev cipher model_id =
     (case sv_parse_uuid ev model_id of
        None \<Rightarrow> answer (Ok [])
      | Some model_uuid \<Rightarrow>
          query (\<lambda>db. map (decrypt_endpoint (sv_crypto ev) cipher)
            (sort_key me_created_at (filter (\<lambda>e. me_model_id e = model_uuid) (md_endpoints db)))))"

text \<open>The values an update writes, for the check of their columns: without a new key the key column is not written.\<close>

definition written_endpoint ::
    "crypto \<Rightarrow> CipherKey option \<Rightarrow> string \<Rightarrow> datetime \<Rightarrow> UpdateModelEndpointRequest \<Rightarrow> ModelEndpoint \<Rightarrow> ModelEndpoint" where
  "written_endpoint cy cipher nonce now request current =
     merged_endpoint cy cipher nonce now request current (current\<lparr>me_api_key := None\<rparr>)"

definition pge_update ::
    "store_env \<Rightarrow> CipherKey option \<Rightarrow> string \<Rightarrow> datetime \<Rightarrow> string \<Rightarrow> UpdateModelEndpointRequest \<Rightarrow> ModelEndpoint option store_op" where
  "pge_update ev cipher nonce now i request =
     and_then (pge_get ev cipher i) (\<lambda>found. case found of
         None \<Rightarrow> answer (Err NotFound_admin)
       | Some current \<Rightarrow>
           (case sv_parse_uuid ev i of
              None \<Rightarrow> answer (Err NotFound_admin)
            | Some uuid \<Rightarrow>
                and_then
                  (statement (\<lambda>db. if fits_endpoint ev (written_endpoint (sv_crypto ev) cipher nonce now request current)
                                   then Ok ((), on_endpoint uuid (merged_endpoint (sv_crypto ev) cipher nonce now request current) db)
                                   else Err (sv_dberr ev)))
                  (\<lambda>_. pge_get ev cipher i)))"

definition pge_delete :: "store_env \<Rightarrow> string \<Rightarrow> bool store_op" where
  "pge_delete ev i =
     (case sv_parse_uuid ev i of
        None \<Rightarrow> answer (Ok False)
      | Some uuid \<Rightarrow> statement (\<lambda>db. Ok (endpoint_row uuid db \<noteq> None, drop_endpoints (\<lambda>e. me_id e = uuid) db)))"

definition pge_toggle :: "store_env \<Rightarrow> CipherKey option \<Rightarrow> datetime \<Rightarrow> string \<Rightarrow> bool \<Rightarrow> ModelEndpoint option store_op" where
  "pge_toggle ev cipher now i enabled =
     (case sv_parse_uuid ev i of
        None \<Rightarrow> answer (Ok None)
      | Some uuid \<Rightarrow>
          and_then (statement (\<lambda>db. Ok ((), on_endpoint uuid (toggled_endpoint now enabled) db))) (\<lambda>_. pge_get ev cipher i))"


section \<open>The back end in use\<close>

datatype ModelStoreBackend = SqliteModels | PgModels

datatype ModelEndpointStoreBackend = SqliteEndpoints "CipherKey option" | PgEndpoints "CipherKey option"

fun ms_create :: "store_env \<Rightarrow> ModelStoreBackend \<Rightarrow> row_stamp \<Rightarrow> CreateModelRequest \<Rightarrow> Model store_op" where
  "ms_create ev SqliteModels d request = sqm_create ev d request"
| "ms_create ev PgModels d request = pgm_create ev d request"

fun ms_get :: "store_env \<Rightarrow> ModelStoreBackend \<Rightarrow> string \<Rightarrow> Model option store_op" where
  "ms_get ev SqliteModels i = sqm_get i"
| "ms_get ev PgModels i = pgm_get ev i"

fun ms_list :: "store_env \<Rightarrow> ModelStoreBackend \<Rightarrow> Model list store_op" where
  "ms_list ev SqliteModels = sqm_list"
| "ms_list ev PgModels = pgm_list ev"

fun ms_list_enabled :: "store_env \<Rightarrow> ModelStoreBackend \<Rightarrow> Model list store_op" where
  "ms_list_enabled ev SqliteModels = sqm_list_enabled"
| "ms_list_enabled ev PgModels = pgm_list_enabled ev"

fun ms_update :: "store_env \<Rightarrow> ModelStoreBackend \<Rightarrow> datetime \<Rightarrow> string \<Rightarrow> UpdateModelRequest \<Rightarrow> Model option store_op" where
  "ms_update ev SqliteModels now i request = sqm_update now i request"
| "ms_update ev PgModels now i request = pgm_update ev now i request"

fun ms_delete :: "store_env \<Rightarrow> ModelStoreBackend \<Rightarrow> string \<Rightarrow> bool store_op" where
  "ms_delete ev SqliteModels i = sqm_delete i"
| "ms_delete ev PgModels i = pgm_delete ev i"

fun ms_toggle :: "store_env \<Rightarrow> ModelStoreBackend \<Rightarrow> datetime \<Rightarrow> string \<Rightarrow> bool \<Rightarrow> Model option store_op" where
  "ms_toggle ev SqliteModels now i enabled = sqm_toggle now i enabled"
| "ms_toggle ev PgModels now i enabled = pgm_toggle ev now i enabled"

fun es_create :: "store_env \<Rightarrow> ModelEndpointStoreBackend \<Rightarrow> row_stamp \<Rightarrow> string \<Rightarrow> string \<Rightarrow> CreateModelEndpointRequest \<Rightarrow> ModelEndpoint store_op" where
  "es_create ev (SqliteEndpoints c) d nonce model_id request = sqe_create ev c d nonce model_id request"
| "es_create ev (PgEndpoints c) d nonce model_id request = pge_create ev c d nonce model_id request"

fun es_get :: "store_env \<Rightarrow> ModelEndpointStoreBackend \<Rightarrow> string \<Rightarrow> ModelEndpoint option store_op" where
  "es_get ev (SqliteEndpoints c) i = sqe_get ev c i"
| "es_get ev (PgEndpoints c) i = pge_get ev c i"

fun es_list :: "store_env \<Rightarrow> ModelEndpointStoreBackend \<Rightarrow> ModelEndpoint list store_op" where
  "es_list ev (SqliteEndpoints c) = sqe_list ev c"
| "es_list ev (PgEndpoints c) = pge_list ev c"

fun es_list_by_model :: "store_env \<Rightarrow> ModelEndpointStoreBackend \<Rightarrow> string \<Rightarrow> ModelEndpoint list store_op" where
  "es_list_by_model ev (SqliteEndpoints c) model_id = sqe_list_by_model ev c model_id"
| "es_list_by_model ev (PgEndpoints c) model_id = pge_list_by_model ev c model_id"

fun es_update :: "store_env \<Rightarrow> ModelEndpointStoreBackend \<Rightarrow> string \<Rightarrow> datetime \<Rightarrow> string \<Rightarrow> UpdateModelEndpointRequest \<Rightarrow> ModelEndpoint option store_op" where
  "es_update ev (SqliteEndpoints c) nonce now i request = sqe_update ev c nonce now i request"
| "es_update ev (PgEndpoints c) nonce now i request = pge_update ev c nonce now i request"

fun es_delete :: "store_env \<Rightarrow> ModelEndpointStoreBackend \<Rightarrow> string \<Rightarrow> bool store_op" where
  "es_delete ev (SqliteEndpoints c) i = sqe_delete i"
| "es_delete ev (PgEndpoints c) i = pge_delete ev i"

fun es_toggle :: "store_env \<Rightarrow> ModelEndpointStoreBackend \<Rightarrow> datetime \<Rightarrow> string \<Rightarrow> bool \<Rightarrow> ModelEndpoint option store_op" where
  "es_toggle ev (SqliteEndpoints c) now i enabled = sqe_toggle ev c now i enabled"
| "es_toggle ev (PgEndpoints c) now i enabled = pge_toggle ev c now i enabled"

text \<open>Connecting: opening a pool fails, or gives a database whose migration fails or leaves it ready.\<close>

type_synonym connector = "string \<Rightarrow> (string, (string, model_db) result) result"

definition sqlite_url :: "string \<Rightarrow> string" where
  "sqlite_url database_url = (if CHR ''?'' \<in> set database_url then database_url else database_url @ ''?mode=rwc'')"

definition connect_model_stores ::
    "connector \<Rightarrow> connector \<Rightarrow> string \<Rightarrow> CipherKey option \<Rightarrow> (ModelStoreBackend \<times> ModelEndpointStoreBackend \<times> model_db) option" where
  "connect_model_stores pg sqlite database_url cipher =
     (if starts_with ''postgres'' database_url
      then (case pg database_url of
              Err _ \<Rightarrow> None
            | Ok (Err _) \<Rightarrow> None
            | Ok (Ok db) \<Rightarrow> Some (PgModels, PgEndpoints cipher, db))
      else if starts_with ''sqlite'' database_url
      then (case sqlite (sqlite_url database_url) of
              Err _ \<Rightarrow> None
            | Ok (Err _) \<Rightarrow> None
            | Ok (Ok db) \<Rightarrow> Some (SqliteModels, SqliteEndpoints cipher, db))
      else None)"

definition migrate_to_latest :: "connector \<Rightarrow> connector \<Rightarrow> string \<Rightarrow> (string, unit) result" where
  "migrate_to_latest pg sqlite database_url =
     (if starts_with ''postgres'' database_url
      then (case pg database_url of
              Err e \<Rightarrow> Err (''failed to connect to Postgres: '' @ e)
            | Ok (Err e) \<Rightarrow> Err (''Postgres migration failed: '' @ e)
            | Ok (Ok _) \<Rightarrow> Ok ())
      else if starts_with ''sqlite'' database_url
      then (case sqlite (sqlite_url database_url) of
              Err e \<Rightarrow> Err (''failed to connect to SQLite: '' @ e)
            | Ok (Err e) \<Rightarrow> Err (''SQLite migration failed: '' @ e)
            | Ok (Ok _) \<Rightarrow> Ok ())
      else Err (''unsupported DATABASE_URL scheme (expected sqlite:// or postgres://): '' @ database_url))"

section \<open>The admin facade\<close>

record AdminHandlers =
  ah_store :: StoreBackend
  ah_model_store :: "ModelStoreBackend option"
  ah_model_endpoint_store :: "ModelEndpointStoreBackend option"
  ah_db :: model_db

definition store_not_configured :: AdminError where
  "store_not_configured = Store_admin ''model store not configured (set DATABASE_URL)''"

definition admin_new :: "StoreBackend \<Rightarrow> AdminHandlers" where
  "admin_new store = \<lparr>ah_store = store, ah_model_store = None, ah_model_endpoint_store = None,
     ah_db = \<lparr>md_models = [], md_endpoints = [], md_faults = []\<rparr>\<rparr>"

definition has_model_stores :: "AdminHandlers \<Rightarrow> bool" where
  "has_model_stores h = (ah_model_store h \<noteq> None \<and> ah_model_endpoint_store h \<noteq> None)"

definition with_model_stores :: "ModelStoreBackend \<Rightarrow> ModelEndpointStoreBackend \<Rightarrow> model_db \<Rightarrow> AdminHandlers \<Rightarrow> AdminHandlers" where
  "with_model_stores model_store model_endpoint_store db h =
     h\<lparr>ah_model_store := Some model_store, ah_model_endpoint_store := Some model_endpoint_store, ah_db := db\<rparr>"

definition via_keys :: "(StoreBackend \<Rightarrow> 'a \<times> StoreBackend) \<Rightarrow> AdminHandlers \<Rightarrow> 'a \<times> AdminHandlers" where
  "via_keys f h = (case f (ah_store h) of (r, s) \<Rightarrow> (r, h\<lparr>ah_store := s\<rparr>))"

definition via_models ::
    "(AdminError, 'a) result \<Rightarrow> (ModelStoreBackend \<Rightarrow> 'a store_op) \<Rightarrow> AdminHandlers \<Rightarrow> (AdminError, 'a) result \<times> AdminHandlers" where
  "via_models without f h =
     (case ah_model_store h of
        Some s \<Rightarrow> (case f s (ah_db h) of (r, db) \<Rightarrow> (r, h\<lparr>ah_db := db\<rparr>))
      | None \<Rightarrow> (without, h))"

definition via_endpoints ::
    "(AdminError, 'a) result \<Rightarrow> (ModelEndpointStoreBackend \<Rightarrow> 'a store_op) \<Rightarrow> AdminHandlers \<Rightarrow> (AdminError, 'a) result \<times> AdminHandlers" where
  "via_endpoints without f h =
     (case ah_model_endpoint_store h of
        Some s \<Rightarrow> (case f s (ah_db h) of (r, db) \<Rightarrow> (r, h\<lparr>ah_db := db\<rparr>))
      | None \<Rightarrow> (without, h))"

definition admin_list_keys :: "AdminHandlers \<Rightarrow> (AdminError, ApiKey list) result" where
  "admin_list_keys h = backend_list (ah_store h)"

definition admin_create_key :: "key_env \<Rightarrow> draw \<Rightarrow> CreateApiKeyRequest \<Rightarrow> AdminHandlers \<Rightarrow> (AdminError, ApiKey) result \<times> AdminHandlers" where
  "admin_create_key ke d request = via_keys (backend_create ke d request)"

definition admin_get_key :: "key_env \<Rightarrow> string \<Rightarrow> AdminHandlers \<Rightarrow> (AdminError, ApiKey option) result" where
  "admin_get_key ke i h = backend_get ke i (ah_store h)"

definition admin_update_key :: "key_env \<Rightarrow> string \<Rightarrow> UpdateApiKeyRequest \<Rightarrow> AdminHandlers \<Rightarrow> (AdminError, ApiKey option) result \<times> AdminHandlers" where
  "admin_update_key ke i request = via_keys (backend_update ke i request)"

definition admin_delete_key :: "key_env \<Rightarrow> string \<Rightarrow> AdminHandlers \<Rightarrow> (AdminError, bool) result \<times> AdminHandlers" where
  "admin_delete_key ke i = via_keys (backend_delete ke i)"

definition admin_revoke_key :: "key_env \<Rightarrow> string \<Rightarrow> AdminHandlers \<Rightarrow> (AdminError, bool) result \<times> AdminHandlers" where
  "admin_revoke_key ke i = via_keys (backend_revoke ke i)"

definition admin_rotate_key :: "key_env \<Rightarrow> draw \<Rightarrow> string \<Rightarrow> AdminHandlers \<Rightarrow> (AdminError, ApiKey option) result \<times> AdminHandlers" where
  "admin_rotate_key ke d i = via_keys (backend_rotate ke d i)"

definition admin_list_models :: "store_env \<Rightarrow> AdminHandlers \<Rightarrow> (AdminError, Model list) result \<times> AdminHandlers" where
  "admin_list_models ev = via_models (Ok []) (ms_list ev)"

definition admin_list_enabled_models :: "store_env \<Rightarrow> AdminHandlers \<Rightarrow> (AdminError, Model list) result \<times> AdminHandlers" where
  "admin_list_enabled_models ev = via_models (Ok []) (ms_list_enabled ev)"

definition admin_create_model :: "store_env \<Rightarrow> row_stamp \<Rightarrow> CreateModelRequest \<Rightarrow> AdminHandlers \<Rightarrow> (AdminError, Model) result \<times> AdminHandlers" where
  "admin_create_model ev d request = via_models (Err store_not_configured) (\<lambda>s. ms_create ev s d request)"

definition admin_get_model :: "store_env \<Rightarrow> string \<Rightarrow> AdminHandlers \<Rightarrow> (AdminError, Model option) result \<times> AdminHandlers" where
  "admin_get_model ev i = via_models (Ok None) (\<lambda>s. ms_get ev s i)"

definition admin_update_model ::
    "store_env \<Rightarrow> datetime \<Rightarrow> string \<Rightarrow> UpdateModelRequest \<Rightarrow> AdminHandlers \<Rightarrow> (AdminError, Model option) result \<times> AdminHandlers" where
  "admin_update_model ev now i request = via_models (Err store_not_configured) (\<lambda>s. ms_update ev s now i request)"

definition admin_delete_model :: "store_env \<Rightarrow> string \<Rightarrow> AdminHandlers \<Rightarrow> (AdminError, bool) result \<times> AdminHandlers" where
  "admin_delete_model ev i = via_models (Ok False) (\<lambda>s. ms_delete ev s i)"

definition admin_toggle_model :: "store_env \<Rightarrow> datetime \<Rightarrow> string \<Rightarrow> bool \<Rightarrow> AdminHandlers \<Rightarrow> (AdminError, Model option) result \<times> AdminHandlers" where
  "admin_toggle_model ev now i enabled = via_models (Err store_not_configured) (\<lambda>s. ms_toggle ev s now i enabled)"

definition admin_list_endpoints :: "store_env \<Rightarrow> AdminHandlers \<Rightarrow> (AdminError, ModelEndpoint list) result \<times> AdminHandlers" where
  "admin_list_endpoints ev = via_endpoints (Ok []) (es_list ev)"

definition admin_list_endpoints_by_model ::
    "store_env \<Rightarrow> string \<Rightarrow> AdminHandlers \<Rightarrow> (AdminError, ModelEndpoint list) result \<times> AdminHandlers" where
  "admin_list_endpoints_by_model ev model_id = via_endpoints (Ok []) (\<lambda>s. es_list_by_model ev s model_id)"

definition admin_create_endpoint ::
    "store_env \<Rightarrow> env_vars \<Rightarrow> row_stamp \<Rightarrow> string \<Rightarrow> string \<Rightarrow> CreateModelEndpointRequest \<Rightarrow> AdminHandlers \<Rightarrow> (AdminError, ModelEndpoint) result \<times> AdminHandlers" where
  "admin_create_endpoint ev env d nonce model_id request h =
     (case (case ce_base_url request of
              Some url \<Rightarrow> provider_url_is_allowed url (allow_private_provider_urls env)
            | None \<Rightarrow> Ok ()) of
        Err reason \<Rightarrow> (Err (Validation_admin reason), h)
      | Ok _ \<Rightarrow> via_endpoints (Err store_not_configured) (\<lambda>s. es_create ev s d nonce model_id request) h)"

definition admin_get_endpoint :: "store_env \<Rightarrow> string \<Rightarrow> AdminHandlers \<Rightarrow> (AdminError, ModelEndpoint option) result \<times> AdminHandlers" where
  "admin_get_endpoint ev i = via_endpoints (Ok None) (\<lambda>s. es_get ev s i)"

definition admin_update_endpoint ::
    "store_env \<Rightarrow> env_vars \<Rightarrow> string \<Rightarrow> datetime \<Rightarrow> string \<Rightarrow> UpdateModelEndpointRequest \<Rightarrow> AdminHandlers \<Rightarrow> (AdminError, ModelEndpoint option) result \<times> AdminHandlers" where
  "admin_update_endpoint ev env nonce now i request h =
     (case (case ue_base_url request of
              Some (Some url) \<Rightarrow> provider_url_is_allowed url (allow_private_provider_urls env)
            | _ \<Rightarrow> Ok ()) of
        Err reason \<Rightarrow> (Err (Validation_admin reason), h)
      | Ok _ \<Rightarrow> via_endpoints (Err store_not_configured) (\<lambda>s. es_update ev s nonce now i request) h)"

definition admin_delete_endpoint :: "store_env \<Rightarrow> string \<Rightarrow> AdminHandlers \<Rightarrow> (AdminError, bool) result \<times> AdminHandlers" where
  "admin_delete_endpoint ev i = via_endpoints (Ok False) (\<lambda>s. es_delete ev s i)"

definition admin_toggle_endpoint ::
    "store_env \<Rightarrow> datetime \<Rightarrow> string \<Rightarrow> bool \<Rightarrow> AdminHandlers \<Rightarrow> (AdminError, ModelEndpoint option) result \<times> AdminHandlers" where
  "admin_toggle_endpoint ev now i enabled = via_endpoints (Err store_not_configured) (\<lambda>s. es_toggle ev s now i enabled)"

text \<open>The public model list.\<close>

record ModelObject =
  mob_id :: string
  mob_object :: string
  mob_created :: u64
  mob_owned_by :: string

definition owners :: "ModelEndpoint list \<Rightarrow> string \<rightharpoonup> string" where
  "owners endpoints =
     fold (\<lambda>e owned_by.
       if me_enabled e \<and> endpoint_is_routable (me_provider_type e) (me_base_url e) \<and> owned_by (me_model_id e) = None
       then owned_by(me_model_id e \<mapsto> me_provider_type e) else owned_by) endpoints Map.empty"

definition list_enabled_models_for_api :: "store_env \<Rightarrow> AdminHandlers \<Rightarrow> (AdminError, ModelObject list) result \<times> AdminHandlers" where
  "list_enabled_models_for_api ev h =
     (case admin_list_enabled_models ev h of
        (Err e, h) \<Rightarrow> (Err e, h)
      | (Ok models, h) \<Rightarrow>
          (case admin_list_endpoints ev h of
             (Err e, h) \<Rightarrow> (Err e, h)
           | (Ok endpoints, h) \<Rightarrow>
               (Ok (List.map_filter (\<lambda>m. map_option (\<lambda>owned_by.
                      \<lparr>mob_id = mo_name m, mob_object = ''model'',
                       mob_created = word_of_int (sv_timestamp ev (mo_created_at m)), mob_owned_by = owned_by\<rparr>)
                    (owners endpoints (mo_id m))) models), h)))"

end
