(* ===== verification/Model_Catalogue.thy ===== *)
theory Model_Catalogue
  imports Model_Store
begin

text \<open>
  What the model catalogue promises. The interface \<open>model_stores\<close> states the contract of the two store traits and is
  interpreted on both databases; the facade's runs keep the catalogue guarded, the databases are interchangeable, keys
  survive encryption at rest, deletion is guarded and cascades, and the public model list names what is routed.
\<close>

section \<open>Calls on the stores\<close>

datatype store_call =
    Create_model row_stamp CreateModelRequest
  | Get_model string
  | List_models
  | List_enabled_models
  | Update_model datetime string UpdateModelRequest
  | Delete_model string
  | Toggle_model datetime string bool
  | Create_endpoint row_stamp string string CreateModelEndpointRequest
  | Get_endpoint string
  | List_endpoints
  | List_endpoints_by_model string
  | Update_endpoint string datetime string UpdateModelEndpointRequest
  | Delete_endpoint string
  | Toggle_endpoint datetime string bool

datatype store_answer =
    Model_is "Model option"
  | Models_are "Model list"
  | Endpoint_is "ModelEndpoint option"
  | Endpoints_are "ModelEndpoint list"
  | Flag_is bool

definition giving :: "('a \<Rightarrow> 'b) \<Rightarrow> (AdminError, 'a) result \<times> 's \<Rightarrow> (AdminError, 'b) result \<times> 's" where
  "giving f r = (case r of (Ok x, s) \<Rightarrow> (Ok (f x), s) | (Err e, s) \<Rightarrow> (Err e, s))"

fun store_apply :: "store_env \<Rightarrow> ModelStoreBackend \<Rightarrow> ModelEndpointStoreBackend \<Rightarrow> store_call \<Rightarrow> store_answer store_op" where
  "store_apply ev ms es (Create_model d r) db = giving (Model_is \<circ> Some) (ms_create ev ms d r db)"
| "store_apply ev ms es (Get_model i) db = giving Model_is (ms_get ev ms i db)"
| "store_apply ev ms es List_models db = giving Models_are (ms_list ev ms db)"
| "store_apply ev ms es List_enabled_models db = giving Models_are (ms_list_enabled ev ms db)"
| "store_apply ev ms es (Update_model now i r) db = giving Model_is (ms_update ev ms now i r db)"
| "store_apply ev ms es (Delete_model i) db = giving Flag_is (ms_delete ev ms i db)"
| "store_apply ev ms es (Toggle_model now i b) db = giving Model_is (ms_toggle ev ms now i b db)"
| "store_apply ev ms es (Create_endpoint d n i r) db = giving (Endpoint_is \<circ> Some) (es_create ev es d n i r db)"
| "store_apply ev ms es (Get_endpoint i) db = giving Endpoint_is (es_get ev es i db)"
| "store_apply ev ms es List_endpoints db = giving Endpoints_are (es_list ev es db)"
| "store_apply ev ms es (List_endpoints_by_model i) db = giving Endpoints_are (es_list_by_model ev es i db)"
| "store_apply ev ms es (Update_endpoint n now i r) db = giving Endpoint_is (es_update ev es n now i r db)"
| "store_apply ev ms es (Delete_endpoint i) db = giving Flag_is (es_delete ev es i db)"
| "store_apply ev ms es (Toggle_endpoint now i b) db = giving Endpoint_is (es_toggle ev es now i b db)"

fun admin_call :: "store_env \<Rightarrow> env_vars \<Rightarrow> store_call \<Rightarrow> AdminHandlers \<Rightarrow> (AdminError, store_answer) result \<times> AdminHandlers" where
  "admin_call ev env (Create_model d r) h = giving (Model_is \<circ> Some) (admin_create_model ev d r h)"
| "admin_call ev env (Get_model i) h = giving Model_is (admin_get_model ev i h)"
| "admin_call ev env List_models h = giving Models_are (admin_list_models ev h)"
| "admin_call ev env List_enabled_models h = giving Models_are (admin_list_enabled_models ev h)"
| "admin_call ev env (Update_model now i r) h = giving Model_is (admin_update_model ev now i r h)"
| "admin_call ev env (Delete_model i) h = giving Flag_is (admin_delete_model ev i h)"
| "admin_call ev env (Toggle_model now i b) h = giving Model_is (admin_toggle_model ev now i b h)"
| "admin_call ev env (Create_endpoint d n i r) h = giving (Endpoint_is \<circ> Some) (admin_create_endpoint ev env d n i r h)"
| "admin_call ev env (Get_endpoint i) h = giving Endpoint_is (admin_get_endpoint ev i h)"
| "admin_call ev env List_endpoints h = giving Endpoints_are (admin_list_endpoints ev h)"
| "admin_call ev env (List_endpoints_by_model i) h = giving Endpoints_are (admin_list_endpoints_by_model ev i h)"
| "admin_call ev env (Update_endpoint n now i r) h = giving Endpoint_is (admin_update_endpoint ev env n now i r h)"
| "admin_call ev env (Delete_endpoint i) h = giving Flag_is (admin_delete_endpoint ev i h)"
| "admin_call ev env (Toggle_endpoint now i b) h = giving Endpoint_is (admin_toggle_endpoint ev now i b h)"

fun run_calls :: "('c \<Rightarrow> 's \<Rightarrow> 'r \<times> 's) \<Rightarrow> 'c list \<Rightarrow> 's \<Rightarrow> 'r list \<times> 's" where
  "run_calls f [] s = ([], s)"
| "run_calls f (c # cs) s = (case f c s of (r, s) \<Rightarrow> (case run_calls f cs s of (rs, s) \<Rightarrow> (r # rs, s)))"

lemma run_calls_snd [simp]: "snd (run_calls f (c # cs) s) = snd (run_calls f cs (snd (f c s)))"
  by (simp add: split_beta)

declare run_calls.simps(2) [simp del]

text \<open>The base URLs and the keys a call may write.\<close>

fun call_urls :: "store_call \<Rightarrow> string option set" where
  "call_urls (Create_endpoint d n i r) = {ce_base_url r}"
| "call_urls (Update_endpoint n now i r) = set_option (ue_base_url r)"
| "call_urls _ = {}"

fun call_keys :: "store_call \<Rightarrow> (string \<times> string option) set" where
  "call_keys (Create_endpoint d n i r) = {(n, ce_api_key r)}"
| "call_keys (Update_endpoint n now i r) = Pair n ` set_option (ue_api_key r)"
| "call_keys _ = {}"

section \<open>Invariants of the catalogue\<close>

definition catalogue_ok :: "model_db \<Rightarrow> bool" where
  "catalogue_ok db = (distinct (map mo_id (md_models db)) \<and> distinct (map me_id (md_endpoints db))
     \<and> me_model_id ` set (md_endpoints db) \<subseteq> mo_id ` set (md_models db))"

definition rows_ok :: "(string option \<Rightarrow> bool) \<Rightarrow> (string option \<Rightarrow> bool) \<Rightarrow> model_db \<Rightarrow> bool" where
  "rows_ok U K db = (\<forall>e\<in>set (md_endpoints db). U (me_base_url e) \<and> K (me_api_key e))"

definition catalogue :: "(string option \<Rightarrow> bool) \<Rightarrow> (string option \<Rightarrow> bool) \<Rightarrow> model_db \<Rightarrow> bool" where
  "catalogue U K db = (catalogue_ok db \<and> rows_ok U K db)"

text \<open>Partial correctness of store operations: a predicate before, one after a success and one after a failure.\<close>

definition outcome :: "(model_db \<Rightarrow> bool) \<Rightarrow> 'a store_op \<Rightarrow> ('a \<Rightarrow> model_db \<Rightarrow> bool) \<Rightarrow> (model_db \<Rightarrow> bool) \<Rightarrow> bool" where
  "outcome P f Q E = (\<forall>db. P db \<longrightarrow> (case f db of (Ok x, db') \<Rightarrow> Q x db' | (Err e, db') \<Rightarrow> E db'))"

definition fault_free :: "(model_db \<Rightarrow> bool) \<Rightarrow> bool" where
  "fault_free P = (\<forall>db fs. P db \<longrightarrow> P (db\<lparr>md_faults := fs\<rparr>))"

named_theorems op_rules

lemma outcome_answer [op_rules]:
  "(\<And>db. P db \<Longrightarrow> (case r of Ok x \<Rightarrow> Q x db | Err e \<Rightarrow> E db)) \<Longrightarrow> outcome P (answer r) Q E"
  by (auto simp: outcome_def answer_def split: sum.splits)

lemma outcome_statement [op_rules]:
  assumes "fault_free P" "\<And>db. P db \<Longrightarrow> E db" "\<And>db. P db \<Longrightarrow> (case f db of Ok (x, db') \<Rightarrow> Q x db' | Err e \<Rightarrow> E db)"
  shows "outcome P (statement f) Q E"
proof -
  have "case statement f db of (Ok x, db') \<Rightarrow> Q x db' | (Err e, db') \<Rightarrow> E db'" if "P db" for db
  proof -
    have "P (db\<lparr>md_faults := tl (md_faults db)\<rparr>)" using assms(1) \<open>P db\<close> by (simp add: fault_free_def)
    from assms(2,3) [OF this] show ?thesis by (auto simp: statement_def Let_def split: sum.splits list.splits option.splits)
  qed
  then show ?thesis by (simp add: outcome_def)
qed

lemma outcome_and_then [op_rules]:
  assumes "outcome P f R E" "\<And>x. outcome (R x) (g x) Q E"
  shows "outcome P (and_then f g) Q E"
  using assms unfolding outcome_def and_then_def by (fastforce split: prod.splits sum.splits)

lemma outcome_query [op_rules]:
  "fault_free P \<Longrightarrow> (\<And>db. P db \<Longrightarrow> E db) \<Longrightarrow> outcome P (query f) (\<lambda>x db. P db \<and> x = f db) E"
  unfolding query_def by (rule outcome_statement) auto

lemma outcome_weaken:
  "outcome P f Q E \<Longrightarrow> (\<And>x db. Q x db \<Longrightarrow> Q' x db) \<Longrightarrow> outcome P f Q' E"
  unfolding outcome_def by (fastforce split: prod.splits sum.splits)

lemma fault_free_catalogue [simp]: "fault_free (catalogue U K)"
  by (simp add: fault_free_def catalogue_def catalogue_ok_def rows_ok_def)

definition keeps :: "(model_db \<Rightarrow> bool) \<Rightarrow> 'a store_op \<Rightarrow> bool" where
  "keeps P f = outcome P f (\<lambda>_. P) P"

lemma keeps_answer [op_rules]: "keeps P (answer r)"
  unfolding keeps_def by (rule outcome_answer) (simp split: sum.split)

lemma keeps_query [op_rules]: "fault_free P \<Longrightarrow> keeps P (query f)"
  unfolding keeps_def by (rule outcome_weaken, rule outcome_query) auto

lemma keeps_statement [op_rules]:
  "fault_free P \<Longrightarrow> (\<And>db x db'. P db \<Longrightarrow> f db = Ok (x, db') \<Longrightarrow> P db') \<Longrightarrow> keeps P (statement f)"
  unfolding keeps_def by (rule outcome_statement) (auto split: sum.splits)

lemma keeps_and_then [op_rules]: "keeps P f \<Longrightarrow> (\<And>x. keeps P (g x)) \<Longrightarrow> keeps P (and_then f g)"
  unfolding keeps_def by (rule outcome_and_then)

lemma keeps_run: "keeps P f \<Longrightarrow> P db \<Longrightarrow> P (snd (f db))"
  by (cases "f db"; cases "fst (f db)") (fastforce simp: keeps_def outcome_def)+

lemma keeps_giving: "keeps P f \<Longrightarrow> P db \<Longrightarrow> P (snd (giving h (f db)))"
  using keeps_run [of P f db] by (auto simp: giving_def split: prod.splits sum.splits)

lemma model_row_None: "model_row i db = None \<longleftrightarrow> i \<notin> mo_id ` set (md_models db)"
  by (auto simp: model_row_def find_None_iff)

lemma endpoint_row_None: "endpoint_row i db = None \<longleftrightarrow> i \<notin> me_id ` set (md_endpoints db)"
  by (auto simp: endpoint_row_def find_None_iff)

lemma model_row_Some: "model_row i db = Some m \<Longrightarrow> m \<in> set (md_models db) \<and> mo_id m = i"
  by (auto simp: model_row_def find_Some_iff)

lemma endpoint_row_Some: "endpoint_row i db = Some e \<Longrightarrow> e \<in> set (md_endpoints db) \<and> me_id e = i"
  by (auto simp: endpoint_row_def find_Some_iff)

lemma faults_irrelevant [simp]:
  "model_row i (db\<lparr>md_faults := fs\<rparr>) = model_row i db" "endpoint_row i (db\<lparr>md_faults := fs\<rparr>) = endpoint_row i db"
  "catalogue U K (db\<lparr>md_faults := fs\<rparr>) = catalogue U K db"
  by (simp_all add: model_row_def endpoint_row_def catalogue_def catalogue_ok_def rows_ok_def)

lemma query_run:
  "query f db = (case md_faults db of
       Some e # fs \<Rightarrow> (Err (Store_admin e), db\<lparr>md_faults := fs\<rparr>)
     | fs \<Rightarrow> (Ok (f (db\<lparr>md_faults := tl fs\<rparr>)), db\<lparr>md_faults := tl fs\<rparr>))"
  by (simp add: query_def statement_def Let_def split: list.split option.split)

lemma catalogue_add_model:
  "catalogue U K db \<Longrightarrow> model_row (mo_id m) db = None \<Longrightarrow> catalogue U K (db\<lparr>md_models := md_models db @ [m]\<rparr>)"
  by (auto simp: catalogue_def catalogue_ok_def rows_ok_def model_row_None)

lemma catalogue_on_model:
  assumes "\<And>m. mo_id (f m) = mo_id m"
  shows "catalogue U K (on_model i f db) = catalogue U K db"
proof -
  have ids: "map mo_id (md_models (on_model i f db)) = map mo_id (md_models db)"
    using assms by (simp add: on_model_def)
  then have "mo_id ` set (md_models (on_model i f db)) = mo_id ` set (md_models db)" by (metis list.set_map)
  moreover have "md_endpoints (on_model i f db) = md_endpoints db" by (simp add: on_model_def)
  ultimately show ?thesis using ids by (simp add: catalogue_def catalogue_ok_def rows_ok_def)
qed

lemma catalogue_add_endpoint:
  "catalogue U K db \<Longrightarrow> endpoint_row (me_id e) db = None \<Longrightarrow> model_row (me_model_id e) db \<noteq> None \<Longrightarrow> U (me_base_url e) \<Longrightarrow> K (me_api_key e)
    \<Longrightarrow> catalogue U K (db\<lparr>md_endpoints := md_endpoints db @ [e]\<rparr>)"
  by (auto simp: catalogue_def catalogue_ok_def rows_ok_def model_row_None endpoint_row_None)

lemma catalogue_on_endpoint:
  assumes "catalogue U K db" "\<And>e. me_id (f e) = me_id e \<and> me_model_id (f e) = me_model_id e"
    "\<And>e. e \<in> set (md_endpoints db) \<Longrightarrow> U (me_base_url (f e)) \<and> K (me_api_key (f e))"
  shows "catalogue U K (on_endpoint i f db)"
proof -
  have "map me_model_id (md_endpoints (on_endpoint i f db)) = map me_model_id (md_endpoints db)"
    using assms(2) by (simp add: on_endpoint_def)
  then have "me_model_id ` set (md_endpoints (on_endpoint i f db)) = me_model_id ` set (md_endpoints db)" by (metis list.set_map)
  moreover have "map me_id (md_endpoints (on_endpoint i f db)) = map me_id (md_endpoints db)"
    using assms(2) by (simp add: on_endpoint_def)
  moreover have "md_models (on_endpoint i f db) = md_models db" by (simp add: on_endpoint_def)
  moreover have "rows_ok U K (on_endpoint i f db)"
    using assms(1,3) by (auto simp: catalogue_def rows_ok_def on_endpoint_def)
  ultimately show ?thesis using assms(1) by (simp add: catalogue_def catalogue_ok_def)
qed

lemma catalogue_drop_endpoints: "catalogue U K db \<Longrightarrow> catalogue U K (drop_endpoints P db)"
  by (auto simp: catalogue_def catalogue_ok_def rows_ok_def drop_endpoints_def distinct_map_filter)

lemma catalogue_drop_model:
  "catalogue U K db \<Longrightarrow> i \<notin> me_model_id ` set (md_endpoints db) \<Longrightarrow> catalogue U K (drop_models (\<lambda>m. mo_id m = i) db)"
  by (force simp: catalogue_def catalogue_ok_def rows_ok_def drop_models_def distinct_map_filter)

lemma no_endpoint_left [simp]: "i \<notin> me_model_id ` set (md_endpoints (drop_endpoints (\<lambda>e. me_model_id e = i) db))"
  by (auto simp: drop_endpoints_def)

lemma catalogue_cascade:
  "catalogue U K db \<Longrightarrow> catalogue U K (drop_models (\<lambda>m. mo_id m = i) (drop_endpoints (\<lambda>e. me_model_id e = i) db))"
  by (rule catalogue_drop_model [OF catalogue_drop_endpoints no_endpoint_left])

lemma merged_ids [simp]:
  "mo_id (merged_model now r cur m) = mo_id m" "mo_id (toggled_model now b m) = mo_id m"
  "me_id (merged_endpoint cy c n now u cur' e) = me_id e" "me_model_id (merged_endpoint cy c n now u cur' e) = me_model_id e"
  "me_id (toggled_endpoint now b e) = me_id e" "me_model_id (toggled_endpoint now b e) = me_model_id e"
  "me_base_url (toggled_endpoint now b e) = me_base_url e" "me_api_key (toggled_endpoint now b e) = me_api_key e"
  by (simp_all add: merged_model_def toggled_model_def merged_endpoint_def toggled_endpoint_def Let_def split: option.split prod.split)

lemma catalogue_toggle: "catalogue U K db \<Longrightarrow> catalogue U K (on_endpoint i (toggled_endpoint now b) db)"
  by (rule catalogue_on_endpoint) (auto simp: catalogue_def rows_ok_def)

lemma merged_endpoint_fields:
  "me_provider_type (merged_endpoint cy c n now u cur e) = unwrap_or (ue_provider_type u) (me_provider_type cur)"
  "me_base_url (merged_endpoint cy c n now u cur e) = unwrap_or (ue_base_url u) (me_base_url cur)"
  "me_api_key (merged_endpoint cy c n now u cur e) =
     (case ue_api_key u of Some k \<Rightarrow> encrypt_endpoint_api_key cy n c k | None \<Rightarrow> me_api_key e)"
  by (simp_all add: merged_endpoint_def effective_routing_pair_def Let_def split: option.split)

lemma decrypt_endpoint_fields [simp]:
  "me_id (decrypt_endpoint cy c e) = me_id e" "me_model_id (decrypt_endpoint cy c e) = me_model_id e"
  "me_provider_type (decrypt_endpoint cy c e) = me_provider_type e" "me_base_url (decrypt_endpoint cy c e) = me_base_url e"
  "me_weight (decrypt_endpoint cy c e) = me_weight e" "me_enabled (decrypt_endpoint cy c e) = me_enabled e"
  "me_created_at (decrypt_endpoint cy c e) = me_created_at e" "me_updated_at (decrypt_endpoint cy c e) = me_updated_at e"
  by (simp_all add: decrypt_endpoint_def split: option.split sum.split)


section \<open>What the stores promise\<close>

definition tables :: "model_db \<Rightarrow> Model list \<times> ModelEndpoint list" where
  "tables db = (md_models db, md_endpoints db)"

fun mutates :: "store_call \<Rightarrow> bool" where
  "mutates (Get_model i) = False"
| "mutates List_models = False"
| "mutates List_enabled_models = False"
| "mutates (Get_endpoint i) = False"
| "mutates List_endpoints = False"
| "mutates (List_endpoints_by_model i) = False"
| "mutates _ = True"

text \<open>The contract of the two store traits: calls keep the catalogue as long as the URLs and sealed keys they write are
  acceptable, reading calls change no table, and no call but the deletion of a model is left half done by a failure.\<close>

locale model_stores =
  fixes call :: "store_call \<Rightarrow> store_answer store_op"
    and seal :: "string \<Rightarrow> string option \<Rightarrow> string option"
  assumes keeps_catalogue: "catalogue U K db \<Longrightarrow> (\<And>u. u \<in> call_urls c \<Longrightarrow> U u) \<Longrightarrow> (\<And>n k. (n, k) \<in> call_keys c \<Longrightarrow> K (seal n k))
      \<Longrightarrow> catalogue U K (snd (call c db))"
    and reads_only: "\<not> mutates c \<Longrightarrow> tables (snd (call c db)) = tables db"
begin

lemma run_keeps:
  assumes "catalogue U K db" "\<And>c u. c \<in> set cs \<Longrightarrow> u \<in> call_urls c \<Longrightarrow> U u" "\<And>c n k. c \<in> set cs \<Longrightarrow> (n, k) \<in> call_keys c \<Longrightarrow> K (seal n k)"
  shows "catalogue U K (snd (run_calls call cs db))"
  using assms
proof (induction cs arbitrary: db)
  case (Cons c cs)
  have "catalogue U K (snd (call c db))" using keeps_catalogue [OF Cons.prems(1), of c] Cons.prems(2,3) by (meson list.set_intros(1))
  from Cons.IH [OF this] Cons.prems(2,3) show ?case by (metis list.set_intros(2) run_calls_snd)
qed simp

lemma run_reads: "(\<And>c. c \<in> set cs \<Longrightarrow> \<not> mutates c) \<Longrightarrow> tables (snd (run_calls call cs db)) = tables db"
  by (induction cs arbitrary: db) (simp_all add: reads_only)

end

lemma sqe_create_keeps:
  assumes "U (ce_base_url r)" "K (encrypt_endpoint_api_key (sv_crypto ev) n c (ce_api_key r))"
  shows "keeps (catalogue U K) (sqe_create ev c d n i r)"
proof -
  define e where "e = endpoint_new d i (r\<lparr>ce_api_key := encrypt_endpoint_api_key (sv_crypto ev) n c (ce_api_key r)\<rparr>)"
  have e: "U (me_base_url e)" "K (me_api_key e)" "me_model_id e = i" using assms by (simp_all add: e_def endpoint_new_def)
  define ins where "ins = statement (\<lambda>db. if endpoint_row (me_id e) db \<noteq> None then Err (sv_dberr ev)
                                else Ok ((), db\<lparr>md_endpoints := md_endpoints db @ [e]\<rparr>))"
  let ?R = "\<lambda>x db. catalogue U K db \<and> x = model_row i db"
  have ff: "fault_free (?R x)" for x by (simp add: fault_free_def catalogue_def catalogue_ok_def rows_ok_def model_row_def)
  have ins: "outcome (?R (Some m)) ins (\<lambda>_. catalogue U K) (catalogue U K)" for m
  proof -
    have "catalogue U K (db\<lparr>md_endpoints := md_endpoints db @ [e]\<rparr>)"
      if "?R (Some m) db" "endpoint_row (me_id e) db = None" for db
    proof (rule catalogue_add_endpoint [where U = U and K = K and e = e, OF _ that(2) _ e(1,2)])
      show "catalogue U K db" using that(1) by simp
      from that(1) have "model_row i db = Some m" by simp
      then show "model_row (me_model_id e) db \<noteq> None" by (simp add: e(3))
    qed
    then show ?thesis unfolding ins_def using ff by (intro outcome_statement) simp_all
  qed
  have "outcome (?R x) (if x = None then answer (Err NotFound_admin) else and_then ins (\<lambda>_. answer (Ok (e\<lparr>me_api_key := ce_api_key r\<rparr>))))
     (\<lambda>_. catalogue U K) (catalogue U K)" for x
    by (cases x) (auto intro!: outcome_and_then [OF ins] outcome_answer)
  then show ?thesis
    unfolding keeps_def sqe_create_def Let_def e_def [symmetric] ins_def [symmetric]
    by (intro outcome_and_then [OF outcome_query]) auto
qed

lemma pge_create_keeps:
  assumes "U (ce_base_url r)" "K (encrypt_endpoint_api_key (sv_crypto ev) n c (ce_api_key r))"
  shows "keeps (catalogue U K) (pge_create ev c d n i r)"
  using assms unfolding pge_create_def Let_def
  by (auto intro!: op_rules catalogue_add_endpoint simp: endpoint_new_def split: option.split if_splits)

lemma sqm_delete_keeps: "keeps (catalogue U K) (sqm_delete i)"
proof -
  let ?R = "\<lambda>db. catalogue U K db \<and> i \<notin> me_model_id ` set (md_endpoints db)"
  have ff: "fault_free ?R" by (simp add: fault_free_def catalogue_def catalogue_ok_def rows_ok_def)
  have "outcome (catalogue U K) (statement (\<lambda>db. Ok ((), drop_endpoints (\<lambda>e. me_model_id e = i) db))) (\<lambda>_. ?R) (catalogue U K)"
    by (intro outcome_statement) (auto intro: catalogue_drop_endpoints)
  moreover have "outcome ?R (statement (\<lambda>db. Ok (model_row i db \<noteq> None, drop_models (\<lambda>m. mo_id m = i) db))) (\<lambda>_. catalogue U K) (catalogue U K)"
    using ff by (intro outcome_statement) (auto intro: catalogue_drop_model)
  ultimately have "keeps (catalogue U K) (and_then (statement (\<lambda>db. Ok ((), drop_endpoints (\<lambda>e. me_model_id e = i) db)))
       (\<lambda>_. statement (\<lambda>db. Ok (model_row i db \<noteq> None, drop_models (\<lambda>m. mo_id m = i) db))))"
    unfolding keeps_def by (rule outcome_and_then)
  then show ?thesis unfolding sqm_delete_def sqm_get_def by (auto intro!: op_rules split: option.split)
qed

lemma pgm_delete_keeps: "keeps (catalogue U K) (pgm_delete ev i)"
  unfolding pgm_delete_def pgm_get_def
  by (auto intro!: op_rules catalogue_cascade split: option.split)

lemma on_endpoint_keeps:
  assumes "\<And>v. ue_base_url r = Some v \<Longrightarrow> U v" "\<And>k. ue_api_key r = Some k \<Longrightarrow> K (encrypt_endpoint_api_key cy n c k)"
    "catalogue U K db" "U (me_base_url cur)"
  shows "catalogue U K (on_endpoint i (merged_endpoint cy c n now r cur) db)"
  using assms by (intro catalogue_on_endpoint) (auto simp: merged_endpoint_fields unwrap_or_def catalogue_def rows_ok_def split: option.split)

lemma toggles_keep:
  "keeps (catalogue U K) (statement (\<lambda>db. Ok ((), on_model i (toggled_model now b) db)))"
  "keeps (catalogue U K) (statement (\<lambda>db. Ok ((), on_endpoint i (toggled_endpoint now b) db)))"
  by (auto intro!: keeps_statement catalogue_toggle simp: catalogue_on_model)

lemma endpoint_delete_keeps: "keeps (catalogue U K) (statement (\<lambda>db. Ok (endpoint_row i db \<noteq> None, drop_endpoints (\<lambda>e. me_id e = i) db)))"
  by (auto intro!: keeps_statement catalogue_drop_endpoints)

lemma endpoint_update_keeps:
  assumes "\<And>v. ue_base_url r = Some v \<Longrightarrow> U v" "\<And>k. ue_api_key r = Some k \<Longrightarrow> K (encrypt_endpoint_api_key cy n c k)"
    and fetch: "\<And>db. catalogue U K db \<Longrightarrow> (case fetch db of (Ok (Some cur), db') \<Rightarrow> catalogue U K db' \<and> U (me_base_url cur) | (_, db') \<Rightarrow> catalogue U K db')"
    and writes: "\<And>cur. g cur = answer (Err e) \<or> (\<exists>w P. g cur = and_then (statement (\<lambda>db. if P then Ok ((), on_endpoint w (merged_endpoint cy c n now r cur) db) else Err e')) (\<lambda>_. fetch))"
  shows "keeps (catalogue U K) (and_then fetch (\<lambda>found. case found of None \<Rightarrow> answer (Err e) | Some cur \<Rightarrow> g cur))"
proof -
  have f: "outcome (catalogue U K) fetch (\<lambda>x db. catalogue U K db \<and> (case x of Some cur \<Rightarrow> U (me_base_url cur) | None \<Rightarrow> True)) (catalogue U K)"
    using fetch unfolding outcome_def by (fastforce split: prod.splits sum.splits option.splits)
  have fk: "keeps (catalogue U K) fetch" unfolding keeps_def by (rule outcome_weaken [OF f]) simp
  have w: "outcome (\<lambda>db. catalogue U K db \<and> U (me_base_url cur)) (g cur) (\<lambda>_. catalogue U K) (catalogue U K)" for cur
    using writes [of cur]
  proof
    assume "g cur = answer (Err e)"
    then show ?thesis by (simp add: outcome_def answer_def)
  next
    assume "\<exists>w P. g cur = and_then (statement (\<lambda>db. if P then Ok ((), on_endpoint w (merged_endpoint cy c n now r cur) db) else Err e')) (\<lambda>_. fetch)"
    then obtain w P where g: "g cur = and_then (statement (\<lambda>db. if P then Ok ((), on_endpoint w (merged_endpoint cy c n now r cur) db) else Err e')) (\<lambda>_. fetch)"
      by blast
    have ff: "fault_free (\<lambda>db. catalogue U K db \<and> U (me_base_url cur))"
      by (simp add: fault_free_def catalogue_def catalogue_ok_def rows_ok_def)
    show ?thesis unfolding g
      using ff assms(1,2) by (intro outcome_and_then [OF outcome_statement, where R = "\<lambda>_. catalogue U K"])
        (auto intro: on_endpoint_keeps fk [unfolded keeps_def])
  qed
  show ?thesis unfolding keeps_def
  proof (rule outcome_and_then [OF f])
    fix x
    show "outcome (\<lambda>db. catalogue U K db \<and> (case x of Some cur \<Rightarrow> U (me_base_url cur) | None \<Rightarrow> True))
       (case x of None \<Rightarrow> answer (Err e) | Some cur \<Rightarrow> g cur) (\<lambda>_. catalogue U K) (catalogue U K)"
      using w by (cases x) (auto simp: outcome_def answer_def)
  qed
qed


lemma get_outcome:
  assumes "catalogue U K db"
  shows "case query (\<lambda>db. map_option (decrypt_endpoint cy c) (endpoint_row i db)) db of
     (Ok (Some cur), db') \<Rightarrow> catalogue U K db' \<and> U (me_base_url cur) | (_, db') \<Rightarrow> catalogue U K db'"
  using assms endpoint_row_Some [of i db]
  by (auto simp: query_run split: list.split option.split) (auto simp: catalogue_def rows_ok_def)

lemma sqe_update_keeps:
  assumes "\<And>v. ue_base_url r = Some v \<Longrightarrow> U v" "\<And>k. ue_api_key r = Some k \<Longrightarrow> K (encrypt_endpoint_api_key (sv_crypto ev) n c k)"
  shows "keeps (catalogue U K) (sqe_update ev c n now i r)"
  unfolding sqe_update_def sqe_get_def
  by (rule endpoint_update_keeps [where U = U and K = K, OF assms get_outcome], assumption+)
    (intro disjI2 exI [of _ i] exI [of _ True], simp)

lemma pge_update_keeps:
  assumes "\<And>v. ue_base_url r = Some v \<Longrightarrow> U v" "\<And>k. ue_api_key r = Some k \<Longrightarrow> K (encrypt_endpoint_api_key (sv_crypto ev) n c k)"
  shows "keeps (catalogue U K) (pge_update ev c n now i r)"
proof (cases "sv_parse_uuid ev i")
  case None
  have "pge_update ev c n now i r = answer (Err NotFound_admin)"
    by (simp add: pge_update_def pge_get_def None and_then_def answer_def fun_eq_iff)
  then show ?thesis by (simp add: keeps_answer)
next
  case (Some u)
  show ?thesis
    unfolding pge_update_def pge_get_def Some option.simps
    by (rule endpoint_update_keeps [where U = U and K = K, OF assms get_outcome], assumption+) blast
qed

lemma sqlite_keeps:
  assumes "catalogue U K db" "\<And>u. u \<in> call_urls call \<Longrightarrow> U u"
    "\<And>n k. (n, k) \<in> call_keys call \<Longrightarrow> K (encrypt_endpoint_api_key (sv_crypto ev) n c k)"
  shows "catalogue U K (snd (store_apply ev SqliteModels (SqliteEndpoints c) call db))"
proof (cases call)
  case (Create_model d r)
  have "keeps (catalogue U K) (sqm_create ev d r)"
    unfolding sqm_create_def Let_def by (auto intro!: op_rules catalogue_add_model split: if_splits)
  then show ?thesis using assms(1) Create_model by (simp add: keeps_giving)
next
  case (Update_model now i r)
  have "keeps (catalogue U K) (sqm_update now i r)"
    unfolding sqm_update_def sqm_get_def by (auto intro!: op_rules simp: catalogue_on_model split: option.split)
  then show ?thesis using assms(1) Update_model by (simp add: keeps_giving)
next
  case (Create_endpoint d n i r)
  then show ?thesis using assms by (simp add: keeps_giving sqe_create_keeps)
next
  case (Update_endpoint n now i r)
  have "keeps (catalogue U K) (sqe_update ev c n now i r)" by (rule sqe_update_keeps) (use assms(2,3) Update_endpoint in auto)
  then show ?thesis using assms(1) Update_endpoint by (simp add: keeps_giving)
qed (use assms(1) in \<open>simp_all add: keeps_giving sqm_get_def sqm_list_def sqm_list_enabled_def sqm_delete_keeps sqm_toggle_def
    sqe_get_def sqe_list_def sqe_list_by_model_def sqe_delete_def sqe_toggle_def keeps_query keeps_and_then toggles_keep
    keeps_giving [OF endpoint_delete_keeps, simplified]\<close>)

lemma postgres_keeps:
  assumes "catalogue U K db" "\<And>u. u \<in> call_urls call \<Longrightarrow> U u"
    "\<And>n k. (n, k) \<in> call_keys call \<Longrightarrow> K (encrypt_endpoint_api_key (sv_crypto ev) n c k)"
  shows "catalogue U K (snd (store_apply ev PgModels (PgEndpoints c) call db))"
proof (cases call)
  case (Create_model d r)
  have "keeps (catalogue U K) (pgm_create ev d r)"
    unfolding pgm_create_def Let_def by (auto intro!: op_rules catalogue_add_model simp: model_new_def split: if_splits)
  then show ?thesis using assms(1) Create_model by (simp add: keeps_giving)
next
  case (Update_model now i r)
  have "keeps (catalogue U K) (pgm_update ev now i r)"
    unfolding pgm_update_def pgm_get_def by (auto intro!: op_rules simp: catalogue_on_model split: option.split if_splits)
  then show ?thesis using assms(1) Update_model by (simp add: keeps_giving)
next
  case (Create_endpoint d n i r)
  then show ?thesis using assms by (simp add: keeps_giving pge_create_keeps)
next
  case (Update_endpoint n now i r)
  have "keeps (catalogue U K) (pge_update ev c n now i r)" by (rule pge_update_keeps) (use assms(2,3) Update_endpoint in auto)
  then show ?thesis using assms(1) Update_endpoint by (simp add: keeps_giving)
next
  case (Delete_endpoint i)
  have "keeps (catalogue U K) (pge_delete ev i)"
    unfolding pge_delete_def by (cases "sv_parse_uuid ev i") (simp_all add: keeps_answer endpoint_delete_keeps [simplified])
  then show ?thesis using assms(1) Delete_endpoint by (simp add: keeps_giving)
qed (use assms(1) in \<open>simp_all add: keeps_giving pgm_get_def pgm_list_def pgm_list_enabled_def pgm_delete_keeps pgm_toggle_def
    pge_get_def pge_list_def pge_list_by_model_def pge_toggle_def keeps_query keeps_answer keeps_and_then toggles_keep split: option.split\<close>)

lemma tables_faults [simp]: "tables (db\<lparr>md_faults := fs\<rparr>) = tables db"
  by (simp add: tables_def)

lemma query_reads [simp]: "tables (snd (query f db)) = tables db"
  by (simp add: query_run split: list.split option.split)

lemma giving_snd [simp]: "snd (giving f r) = snd r"
  by (simp add: giving_def split: prod.split sum.split)

lemma store_reads_only: "\<not> mutates c \<Longrightarrow> tables (snd (store_apply ev ms es c db)) = tables db"
  by (cases c; cases ms; cases es)
    (simp_all add: sqm_get_def sqm_list_def sqm_list_enabled_def sqe_get_def sqe_list_def sqe_list_by_model_def
      pgm_get_def pgm_list_def pgm_list_enabled_def pge_get_def pge_list_def pge_list_by_model_def answer_def split: option.split)

interpretation sqlite_catalogue: model_stores "store_apply ev SqliteModels (SqliteEndpoints c)" "\<lambda>n. encrypt_endpoint_api_key (sv_crypto ev) n c"
  by unfold_locales (auto intro: sqlite_keeps store_reads_only)

interpretation postgres_catalogue: model_stores "store_apply ev PgModels (PgEndpoints c)" "\<lambda>n. encrypt_endpoint_api_key (sv_crypto ev) n c"
  by unfold_locales (auto intro: postgres_keeps store_reads_only)


section \<open>The facade keeps the catalogue guarded\<close>

fun call_allowed :: "env_vars \<Rightarrow> store_call \<Rightarrow> (string, unit) result" where
  "call_allowed env (Create_endpoint d n i r) =
     (case ce_base_url r of Some url \<Rightarrow> provider_url_is_allowed url (allow_private_provider_urls env) | None \<Rightarrow> Ok ())"
| "call_allowed env (Update_endpoint n now i r) =
     (case ue_base_url r of Some (Some url) \<Rightarrow> provider_url_is_allowed url (allow_private_provider_urls env) | _ \<Rightarrow> Ok ())"
| "call_allowed env _ = Ok ()"

lemma admin_call_stores:
  assumes "ah_model_store h = Some ms" "ah_model_endpoint_store h = Some es"
  shows "admin_call ev env c h =
    (case call_allowed env c of
       Err reason \<Rightarrow> (Err (Validation_admin reason), h)
     | Ok _ \<Rightarrow> (case store_apply ev ms es c (ah_db h) of (r, db) \<Rightarrow> (r, h\<lparr>ah_db := db\<rparr>)))"
  using assms
  by (cases c) (simp_all add: giving_def via_models_def via_endpoints_def admin_create_model_def admin_get_model_def
    admin_list_models_def admin_list_enabled_models_def admin_update_model_def admin_delete_model_def admin_toggle_model_def
    admin_create_endpoint_def admin_get_endpoint_def admin_list_endpoints_def admin_list_endpoints_by_model_def
    admin_update_endpoint_def admin_delete_endpoint_def admin_toggle_endpoint_def split: prod.split sum.split)

definition guarded_url :: "env_vars \<Rightarrow> string option \<Rightarrow> bool" where
  "guarded_url env u = (case u of None \<Rightarrow> True | Some url \<Rightarrow> provider_url_is_allowed url (allow_private_provider_urls env) = Ok ())"

definition sealed_key :: "CipherKey option \<Rightarrow> string option \<Rightarrow> bool" where
  "sealed_key c k = (case (c, k) of (Some _, Some stored) \<Rightarrow> stored = [] \<or> starts_with PREFIX stored | _ \<Rightarrow> True)"

definition guarded_catalogue :: "env_vars \<Rightarrow> CipherKey option \<Rightarrow> model_db \<Rightarrow> bool" where
  "guarded_catalogue env c db = catalogue (guarded_url env) (sealed_key c) db"

lemma encrypted_sealed: "sealed_key c (encrypt_endpoint_api_key cy n c k)"
  by (cases c; cases k; cases "the c") (auto simp: sealed_key_def encrypt_endpoint_api_key_def Let_def starts_with_def)

lemma allowed_urls: "call_allowed env c = Ok x \<Longrightarrow> u \<in> call_urls c \<Longrightarrow> guarded_url env u"
  by (cases c) (auto simp: guarded_url_def split: option.splits)

lemma admin_call_stores_kept [simp]:
  "ah_model_store (snd (admin_call ev env c h)) = ah_model_store h"
  "ah_model_endpoint_store (snd (admin_call ev env c h)) = ah_model_endpoint_store h"
  by (cases c; simp add: via_models_def via_endpoints_def admin_create_model_def admin_get_model_def
      admin_list_models_def admin_list_enabled_models_def admin_update_model_def admin_delete_model_def admin_toggle_model_def
      admin_create_endpoint_def admin_get_endpoint_def admin_list_endpoints_def admin_list_endpoints_by_model_def
      admin_update_endpoint_def admin_delete_endpoint_def admin_toggle_endpoint_def split_beta split: sum.split option.split)+

lemma connected_pair:
  "connect_model_stores pg sq url c = Some (ms, es, db) \<Longrightarrow>
     ms = PgModels \<and> es = PgEndpoints c \<or> ms = SqliteModels \<and> es = SqliteEndpoints c"
  by (auto simp: connect_model_stores_def split: if_splits sum.splits)

lemma admin_step_guarded:
  assumes "ms = PgModels \<and> es = PgEndpoints c \<or> ms = SqliteModels \<and> es = SqliteEndpoints c"
    and "ah_model_store h = Some ms" "ah_model_endpoint_store h = Some es" "guarded_catalogue env c (ah_db h)"
  shows "guarded_catalogue env c (ah_db (snd (admin_call ev env call h)))"
proof (cases "call_allowed env call")
  case (Inl e)
  then show ?thesis using assms by (simp add: admin_call_stores)
next
  case (Inr x)
  have "guarded_catalogue env c (snd (store_apply ev ms es call (ah_db h)))"
    using assms(1,4) allowed_urls [OF Inr] unfolding guarded_catalogue_def
    by (auto intro!: sqlite_catalogue.keeps_catalogue postgres_catalogue.keeps_catalogue encrypted_sealed)
  with Inr assms show ?thesis by (simp add: admin_call_stores split_beta)
qed

lemma admin_run_guarded:
  assumes "ms = PgModels \<and> es = PgEndpoints c \<or> ms = SqliteModels \<and> es = SqliteEndpoints c"
    and "ah_model_store h = Some ms" "ah_model_endpoint_store h = Some es" "guarded_catalogue env c (ah_db h)"
  shows "guarded_catalogue env c (ah_db (snd (run_calls (admin_call ev env) cs h)))"
  using assms(2-)
proof (induction cs arbitrary: h)
  case (Cons call cs)
  let ?h = "snd (admin_call ev env call h)"
  have "guarded_catalogue env c (ah_db ?h)" by (rule admin_step_guarded [OF assms(1) Cons.prems])
  then show ?case using Cons.IH [of ?h] Cons.prems by simp
qed simp

section \<open>The two databases agree\<close>

definition plain_id :: "store_env \<Rightarrow> string \<Rightarrow> bool" where
  "plain_id ev i = (case sv_parse_uuid ev i of None \<Rightarrow> True | Some u \<Rightarrow> u = i)"

definition canonical_id :: "store_env \<Rightarrow> string \<Rightarrow> bool" where
  "canonical_id ev i = (sv_parse_uuid ev i = Some i)"

definition takes :: "(string \<Rightarrow> bool) \<Rightarrow> string option \<Rightarrow> bool" where
  "takes ok v = (case v of None \<Rightarrow> True | Some s \<Rightarrow> ok s)"

text \<open>Calls whose identifiers are in canonical form or no UUIDs at all, and whose values every column takes.\<close>

fun portable :: "store_env \<Rightarrow> CipherKey option \<Rightarrow> store_call \<Rightarrow> bool" where
  "portable ev c (Create_model d r) = (canonical_id ev (sd_id d) \<and> sd_updated d = sd_created d
     \<and> sv_varchar ev (cm_name r) \<and> takes (sv_varchar ev) (cm_display_name r))"
| "portable ev c (Update_model now i r) = (plain_id ev i \<and> takes (sv_varchar ev) (um_name r)
     \<and> (case um_display_name r of None \<Rightarrow> True | Some n \<Rightarrow> takes (sv_varchar ev) n))"
| "portable ev c (Create_endpoint d n i r) = (plain_id ev i \<and> canonical_id ev (sd_id d) \<and> sd_updated d = sd_created d
     \<and> sv_varchar ev (ce_provider_type r) \<and> takes (sv_text ev) (ce_base_url r)
     \<and> takes (sv_text ev) (encrypt_endpoint_api_key (sv_crypto ev) n c (ce_api_key r)))"
| "portable ev c (Update_endpoint n now i r) = (plain_id ev i \<and> takes (sv_varchar ev) (ue_provider_type r)
     \<and> (case ue_base_url r of None \<Rightarrow> True | Some u \<Rightarrow> takes (sv_text ev) u)
     \<and> (case ue_api_key r of None \<Rightarrow> True | Some k \<Rightarrow> takes (sv_text ev) (encrypt_endpoint_api_key (sv_crypto ev) n c k)))"
| "portable ev c (Get_model i) = plain_id ev i"
| "portable ev c (Delete_model i) = plain_id ev i"
| "portable ev c (Toggle_model now i b) = plain_id ev i"
| "portable ev c (Get_endpoint i) = plain_id ev i"
| "portable ev c (List_endpoints_by_model i) = plain_id ev i"
| "portable ev c (Delete_endpoint i) = plain_id ev i"
| "portable ev c (Toggle_endpoint now i b) = plain_id ev i"
| "portable ev c List_models = True"
| "portable ev c List_enabled_models = True"
| "portable ev c List_endpoints = True"

definition portable_db :: "store_env \<Rightarrow> model_db \<Rightarrow> bool" where
  "portable_db ev db = (md_faults db = []
     \<and> (\<forall>m\<in>set (md_models db). canonical_id ev (mo_id m) \<and> sv_varchar ev (mo_name m) \<and> takes (sv_varchar ev) (mo_display_name m))
     \<and> (\<forall>e\<in>set (md_endpoints db). canonical_id ev (me_id e) \<and> canonical_id ev (me_model_id e)
          \<and> sv_varchar ev (me_provider_type e) \<and> takes (sv_text ev) (me_base_url e)))"

lemma fits_takes:
  "fits_model ev m \<longleftrightarrow> sv_varchar ev (mo_name m) \<and> takes (sv_varchar ev) (mo_display_name m)"
  "fits_endpoint ev e \<longleftrightarrow> sv_varchar ev (me_provider_type e) \<and> takes (sv_text ev) (me_base_url e) \<and> takes (sv_text ev) (me_api_key e)"
  by (simp_all add: fits_model_def fits_endpoint_def takes_def)

lemma statement_calm [simp]: "md_faults db = [] \<Longrightarrow> statement f db = (case f db of Ok (x, db) \<Rightarrow> (Ok x, db) | Err e \<Rightarrow> (Err (Store_admin e), db))"
  by (cases db) (auto simp: statement_def Let_def split: sum.split)

lemma query_calm [simp]: "md_faults db = [] \<Longrightarrow> query f db = (Ok (f db), db)"
  by (simp add: query_def)

lemma faults_kept [simp]:
  "md_faults (on_model i f db) = md_faults db" "md_faults (on_endpoint i g db) = md_faults db"
  "md_faults (drop_models P db) = md_faults db" "md_faults (drop_endpoints Q db) = md_faults db"
  by (simp_all add: on_model_def on_endpoint_def drop_models_def drop_endpoints_def)

lemma unparsed_missing:
  assumes "portable_db ev db" "sv_parse_uuid ev i = None"
  shows "model_row i db = None" "endpoint_row i db = None" "filter (\<lambda>e. me_model_id e = i) (md_endpoints db) = []"
    "on_model i f db = db" "on_endpoint i g db = db" "drop_endpoints (\<lambda>e. me_id e = i) db = db"
proof -
  have m: "mo_id m \<noteq> i" if "m \<in> set (md_models db)" for m
    using that assms by (auto simp: portable_db_def canonical_id_def)
  have e: "me_id e \<noteq> i" "me_model_id e \<noteq> i" if "e \<in> set (md_endpoints db)" for e
    using that assms by (auto simp: portable_db_def canonical_id_def)
  show "model_row i db = None" "endpoint_row i db = None" "filter (\<lambda>e. me_model_id e = i) (md_endpoints db) = []"
    using m e by (auto simp: model_row_None endpoint_row_None filter_empty_conv)
  show "on_model i f db = db" "on_endpoint i g db = db" "drop_endpoints (\<lambda>e. me_id e = i) db = db"
    using m e by (auto simp: on_model_def on_endpoint_def drop_endpoints_def map_idI intro!: model_db.equality)
qed


lemma plain_id_cases: "plain_id ev i \<Longrightarrow> sv_parse_uuid ev i = None \<or> sv_parse_uuid ev i = Some i"
  by (simp add: plain_id_def split: option.splits)

lemma plain_idE: "plain_id ev i \<Longrightarrow> (sv_parse_uuid ev i = None \<Longrightarrow> R) \<Longrightarrow> (sv_parse_uuid ev i = Some i \<Longrightarrow> R) \<Longrightarrow> R"
  by (metis plain_id_cases)

lemmas store_defs = sqm_create_def sqm_get_def sqm_list_def sqm_list_enabled_def sqm_update_def sqm_delete_def sqm_toggle_def
  sqe_create_def sqe_get_def sqe_list_def sqe_list_by_model_def sqe_update_def sqe_delete_def sqe_toggle_def
  pgm_create_def pgm_get_def pgm_list_def pgm_list_enabled_def pgm_update_def pgm_delete_def pgm_toggle_def
  pge_create_def pge_get_def pge_list_def pge_list_by_model_def pge_update_def pge_delete_def pge_toggle_def

lemma merged_pair_portable:
  assumes "portable_db ev db" "portable ev c (Update_endpoint n now i r)" "endpoint_row i db = Some e"
  shows "sv_varchar ev (unwrap_or (ue_provider_type r) (me_provider_type e))" "takes (sv_text ev) (unwrap_or (ue_base_url r) (me_base_url e))"
proof -
  have "sv_varchar ev (me_provider_type e)" "takes (sv_text ev) (me_base_url e)"
    using assms(1) endpoint_row_Some [OF assms(3)] by (simp_all add: portable_db_def)
  then show "sv_varchar ev (unwrap_or (ue_provider_type r) (me_provider_type e))" "takes (sv_text ev) (unwrap_or (ue_base_url r) (me_base_url e))"
    using assms(2) by (simp_all add: unwrap_or_def takes_def split: option.splits)
qed

lemma stores_agree:
  assumes db: "portable_db ev db" and c: "portable ev c call" and collation: "\<And>s. sv_collation ev s = s"
  shows "store_apply ev PgModels (PgEndpoints c) call db = store_apply ev SqliteModels (SqliteEndpoints c) call db"
proof -
  have calm: "md_faults db = []" using db by (simp add: portable_db_def)
  note un = unparsed_missing [OF db]
  show ?thesis
  proof (cases call)
    case (Create_model d r)
    have "d\<lparr>sd_updated := sd_created d\<rparr> = d" using c Create_model by (cases d) simp
    then show ?thesis using c calm Create_model by (simp add: store_defs and_then_def fits_takes model_new_def Let_def)
  next
    case (Update_model now i r)
    have "fits_model ev (merged_model now r m m)" if "model_row i db = Some m" for m
      using c db Update_model model_row_Some [OF that]
      by (auto simp: fits_takes merged_model_def unwrap_or_def portable_db_def takes_def split: option.splits)
    then show ?thesis using c calm Update_model plain_id_cases [of ev i] un(1)
      by (auto simp: store_defs and_then_def answer_def split: option.split)
  next
    case (Delete_model i)
    then show ?thesis using c calm plain_id_cases [of ev i] un(1)
      by (auto simp: store_defs and_then_def answer_def model_row_def drop_endpoints_def drop_models_def split: option.split)
  next
    case (Create_endpoint d n i r)
    have "d\<lparr>sd_updated := sd_created d\<rparr> = d" using c Create_endpoint by (cases d) simp
    then show ?thesis using c calm Create_endpoint plain_id_cases [of ev i] un(1)
      by (auto simp: store_defs and_then_def answer_def fits_takes endpoint_new_def Let_def split: option.split)
  next
    case (Update_endpoint n now i r)
    have "fits_endpoint ev (written_endpoint (sv_crypto ev) c n now r (decrypt_endpoint (sv_crypto ev) c e))" if "endpoint_row i db = Some e" for e
      using merged_pair_portable [OF db c [unfolded Update_endpoint] that] c Update_endpoint
      by (simp add: fits_takes written_endpoint_def merged_endpoint_fields takes_def split: option.splits)
    then show ?thesis using c calm Update_endpoint plain_id_cases [of ev i] un(2)
      by (auto simp: store_defs and_then_def answer_def split: option.split)
  qed (use c calm in \<open>auto elim!: plain_idE simp: store_defs and_then_def answer_def collation un\<close>)
qed


lemma portable_kept:
  assumes db: "portable_db ev db" and c: "portable ev c call"
  shows "portable_db ev (snd (store_apply ev SqliteModels (SqliteEndpoints c) call db))"
proof -
  have calm: "md_faults db = []" using db by (simp add: portable_db_def)
  show ?thesis
  proof (cases call)
    case (Create_model d r)
    then show ?thesis using c db calm by (auto simp: store_defs and_then_def answer_def portable_db_def model_new_def Let_def)
  next
    case (Update_model now i r)
    have "portable_db ev (on_model i (merged_model now r m) db)" if "model_row i db = Some m" for m
      using c db Update_model model_row_Some [OF that]
      by (auto simp: on_model_def merged_model_def unwrap_or_def portable_db_def takes_def split: option.splits)
    then show ?thesis using db calm Update_model by (auto simp: store_defs and_then_def answer_def split: option.split)
  next
    case (Create_endpoint d n i r)
    have "canonical_id ev i" if "model_row i db \<noteq> None" using that db model_row_Some [of i db] by (auto simp: portable_db_def)
    then show ?thesis using c db calm Create_endpoint
      by (auto simp: store_defs and_then_def answer_def portable_db_def endpoint_new_def Let_def)
  next
    case (Update_endpoint n now i r)
    have "portable_db ev (on_endpoint i (merged_endpoint (sv_crypto ev) c n now r (decrypt_endpoint (sv_crypto ev) c e)) db)"
      if "endpoint_row i db = Some e" for e
      using merged_pair_portable [OF db c [unfolded Update_endpoint] that] db
      by (auto simp: on_endpoint_def merged_endpoint_fields portable_db_def)
    then show ?thesis using db calm Update_endpoint by (auto simp: store_defs and_then_def answer_def split: option.split)
  qed (use db calm in \<open>auto simp: store_defs and_then_def answer_def portable_db_def on_model_def on_endpoint_def toggled_model_def toggled_endpoint_def
      drop_models_def drop_endpoints_def split: option.split\<close>)
qed

lemma runs_agree:
  assumes "portable_db ev (ah_db h)" "\<And>call. call \<in> set cs \<Longrightarrow> portable ev c call" "\<And>s. sv_collation ev s = s"
  defines "pg \<equiv> \<lambda>h. h\<lparr>ah_model_store := Some PgModels, ah_model_endpoint_store := Some (PgEndpoints c)\<rparr>"
    and "sq \<equiv> \<lambda>h. h\<lparr>ah_model_store := Some SqliteModels, ah_model_endpoint_store := Some (SqliteEndpoints c)\<rparr>"
  shows "\<exists>rs h'. run_calls (admin_call ev env) cs (pg h) = (rs, pg h') \<and> run_calls (admin_call ev env) cs (sq h) = (rs, sq h') \<and> portable_db ev (ah_db h')"
  using assms(1,2)
proof (induction cs arbitrary: h)
  case (Cons call cs)
  obtain r db where st: "store_apply ev SqliteModels (SqliteEndpoints c) call (ah_db h) = (r, db)" by fastforce
  have c: "portable ev c call" using Cons.prems(2) by simp
  have st': "store_apply ev PgModels (PgEndpoints c) call (ah_db h) = (r, db)"
    using stores_agree [OF Cons.prems(1) c assms(3)] st by simp
  have db: "portable_db ev db" using portable_kept [OF Cons.prems(1) c] st by simp
  have step: "\<exists>a h'. admin_call ev env call (pg h) = (a, pg h') \<and> admin_call ev env call (sq h) = (a, sq h') \<and> portable_db ev (ah_db h')"
  proof (cases "call_allowed env call")
    case (Inl e)
    then show ?thesis using Cons.prems(1) by (intro exI [of _ "Err (Validation_admin e)"] exI [of _ h]) (simp add: pg_def sq_def admin_call_stores)
  next
    case (Inr u)
    then show ?thesis using db st st' by (intro exI [of _ r] exI [of _ "h\<lparr>ah_db := db\<rparr>"]) (simp add: pg_def sq_def admin_call_stores)
  qed
  then obtain a h' where h': "admin_call ev env call (pg h) = (a, pg h')" "admin_call ev env call (sq h) = (a, sq h')" "portable_db ev (ah_db h')"
    by blast
  from Cons.IH [OF h'(3)] Cons.prems(2) show ?case by (auto simp: run_calls.simps(2) h'(1,2))
qed auto


section \<open>Provider keys survive the store\<close>

definition crypto_ok :: "crypto \<Rightarrow> bool" where
  "crypto_ok cy = ((\<forall>x. cy_b64_decode cy (cy_b64_encode cy x) = Ok x) \<and> (\<forall>k n p. cy_open cy k n (cy_seal cy k n p) = Some p))"

lemma strip_prefix_append [simp]: "strip_prefix p (p @ s) = Some s"
  by (simp add: strip_prefix_def starts_with_def)

lemma decrypt_encrypt:
  assumes "crypto_ok cy" "length n = 12" "from_utf8 p = Some p"
  shows "decrypt cy k (encrypt cy n k p) = Ok p"
  using assms by (cases k) (simp add: crypto_ok_def Let_def)

lemma seal_unseal:
  assumes "crypto_ok cy" "length n = 12" "\<And>p. k = Some p \<Longrightarrow> from_utf8 p = Some p"
  shows "decrypt_endpoint cy c (e\<lparr>me_api_key := encrypt_endpoint_api_key cy n c k\<rparr>) = e\<lparr>me_api_key := k\<rparr>"
proof (cases c)
  case (Some key)
  have "decrypt cy key [] = Ok []" by (cases key) (simp add: strip_prefix_def starts_with_def PREFIX_def)
  then show ?thesis
    using assms Some by (cases k) (auto simp: encrypt_endpoint_api_key_def decrypt_endpoint_def decrypt_encrypt)
qed (simp add: encrypt_endpoint_api_key_def decrypt_endpoint_def)

lemma find_append_new: "find P xs = None \<Longrightarrow> P x \<Longrightarrow> find P (xs @ [x]) = Some x"
  by (induction xs) (auto split: if_splits)

lemma endpoint_row_on: "(\<And>e. me_id (f e) = me_id e) \<Longrightarrow> endpoint_row i (on_endpoint i f db) = map_option f (endpoint_row i db)"
proof -
  assume f: "\<And>e. me_id (f e) = me_id e"
  have "find (\<lambda>e. me_id e = i) (map (\<lambda>e. if me_id e = i then f e else e) es) = map_option f (find (\<lambda>e. me_id e = i) es)" for es
    by (induction es) (simp_all add: f)
  then show ?thesis by (simp add: endpoint_row_def on_endpoint_def)
qed

text \<open>The cipher of an endpoint store, and the identifiers it can be asked for.\<close>

fun es_cipher :: "ModelEndpointStoreBackend \<Rightarrow> CipherKey option" where
  "es_cipher (SqliteEndpoints c) = c"
| "es_cipher (PgEndpoints c) = c"

lemma es_get_calm:
  assumes "md_faults db = []" "canonical_id ev i"
  shows "es_get ev es i db = (Ok (map_option (decrypt_endpoint (sv_crypto ev) (es_cipher es)) (endpoint_row i db)), db)"
  using assms by (cases es) (simp_all add: store_defs canonical_id_def)

lemma es_create_calm:
  assumes "md_faults db = []" "canonical_id ev i" "es_create ev es d n i r db = (Ok e, db')"
  shows "\<exists>row. endpoint_row (sd_id d) db' = Some row \<and> md_faults db' = [] \<and> model_row i db \<noteq> None
     \<and> row = e\<lparr>me_api_key := encrypt_endpoint_api_key (sv_crypto ev) n (es_cipher es) (ce_api_key r)\<rparr> \<and> me_api_key e = ce_api_key r"
  using assms
  by (cases es) (auto simp: store_defs and_then_def answer_def canonical_id_def Let_def endpoint_new_def endpoint_row_def
      find_append_new split: if_splits)

lemma es_update_calm:
  assumes "md_faults db = []" "canonical_id ev i" "es_update ev es n now i r db = (Ok a, db')"
  shows "\<exists>row. endpoint_row i db = Some row \<and> md_faults db' = []
    \<and> db' = on_endpoint i (merged_endpoint (sv_crypto ev) (es_cipher es) n now r (decrypt_endpoint (sv_crypto ev) (es_cipher es) row)) db
    \<and> a = map_option (decrypt_endpoint (sv_crypto ev) (es_cipher es)) (endpoint_row i db')"
  using assms by (cases es) (auto simp: store_defs and_then_def answer_def canonical_id_def split: option.splits if_splits)


text \<open>A provider key is what a read returns after it was stored, on either database and with or without
  encryption at rest: right after the endpoint was created, and after an update, which leaves the key alone
  unless it names a new one. Base64 and AES-GCM are only assumed to undo themselves.\<close>

theorem endpoint_key_roundtrip:
  assumes "crypto_ok (sv_crypto ev)" "md_faults db = []" "canonical_id ev i" "canonical_id ev (sd_id d)"
    "length n = 12" "length n' = 12"
    "\<And>p. ce_api_key r = Some p \<Longrightarrow> from_utf8 p = Some p" "\<And>p. ue_api_key u = Some (Some p) \<Longrightarrow> from_utf8 p = Some p"
    "es_create ev es d n i r db = (Ok e, db')" "es_update ev es n' now (sd_id d) u db' = (Ok a, db'')"
  shows "es_get ev es (sd_id d) db' = (Ok (Some e), db') \<and> me_api_key e = ce_api_key r
    \<and> es_get ev es (sd_id d) db'' = (Ok a, db'')
    \<and> (\<exists>e'. a = Some e' \<and> me_api_key e' = unwrap_or (ue_api_key u) (ce_api_key r))"
proof -
  let ?dec = "decrypt_endpoint (sv_crypto ev) (es_cipher es)"
  obtain row where row: "endpoint_row (sd_id d) db' = Some row" "md_faults db' = []" "me_api_key e = ce_api_key r"
      "row = e\<lparr>me_api_key := encrypt_endpoint_api_key (sv_crypto ev) n (es_cipher es) (ce_api_key r)\<rparr>"
    using es_create_calm [OF assms(2,3,9)] by blast
  have "?dec row = e" using seal_unseal [where k = "ce_api_key r" and c = "es_cipher es" and e = e, OF assms(1,5,7)] row(3,4) by simp
  then have get: "es_get ev es (sd_id d) db' = (Ok (Some e), db')" using es_get_calm [OF row(2) assms(4)] row(1) by simp
  have db'': "md_faults db'' = []" "db'' = on_endpoint (sd_id d) (merged_endpoint (sv_crypto ev) (es_cipher es) n' now u (?dec row)) db'"
      "a = map_option ?dec (endpoint_row (sd_id d) db'')"
    using es_update_calm [OF row(2) assms(4,10)] row(1) by auto
  let ?new = "merged_endpoint (sv_crypto ev) (es_cipher es) n' now u e row"
  have a: "a = Some (?dec ?new)" using db''(2,3) row(1) \<open>?dec row = e\<close> by (simp add: endpoint_row_on)
  have "me_api_key (?dec ?new) = unwrap_or (ue_api_key u) (ce_api_key r)"
  proof (cases "ue_api_key u")
    case None
    have "?new = (?new\<lparr>me_api_key := ce_api_key r\<rparr>)\<lparr>me_api_key := encrypt_endpoint_api_key (sv_crypto ev) n (es_cipher es) (ce_api_key r)\<rparr>"
      using None row(4) by (simp add: merged_endpoint_fields)
    then have "?dec ?new = ?new\<lparr>me_api_key := ce_api_key r\<rparr>"
      using seal_unseal [where k = "ce_api_key r" and c = "es_cipher es" and e = "?new\<lparr>me_api_key := ce_api_key r\<rparr>", OF assms(1,5,7)] by simp
    then show ?thesis using None by (simp add: unwrap_or_def)
  next
    case (Some k)
    have "?new = ?new\<lparr>me_api_key := encrypt_endpoint_api_key (sv_crypto ev) n' (es_cipher es) k\<rparr>"
      using Some by (simp add: merged_endpoint_fields)
    then have "?dec ?new = ?new\<lparr>me_api_key := k\<rparr>"
      using seal_unseal [where k = k and c = "es_cipher es" and e = ?new, OF assms(1,6)] assms(8) Some by simp
    then show ?thesis using Some by (simp add: unwrap_or_def)
  qed
  moreover have "es_get ev es (sd_id d) db'' = (Ok a, db'')" using es_get_calm [OF db''(1) assms(4)] db''(3) by simp
  ultimately show ?thesis using get row(3) a by simp
qed

text \<open>A stored provider key is only ever replaced by a request that names a new one: an update that does not
  mention it and a toggle leave every stored key byte for byte, also when the key cannot be decrypted and when
  the database fails, and a read answers no key rather than a ciphertext it cannot open.\<close>

theorem stored_keys_survive:
  assumes "ue_api_key u = None"
  shows "map me_api_key (md_endpoints (snd (es_update ev es n now i u db))) = map me_api_key (md_endpoints db)
    \<and> map me_api_key (md_endpoints (snd (es_toggle ev es now i b db))) = map me_api_key (md_endpoints db)
    \<and> (case (es_cipher es, es_get ev es i db) of
         (Some key, (Ok (Some e), db')) \<Rightarrow>
           \<exists>row\<in>set (md_endpoints db). me_id e = me_id row
             \<and> me_api_key e = (case me_api_key row of None \<Rightarrow> None
                 | Some v \<Rightarrow> (case decrypt (sv_crypto ev) key v of Ok p \<Rightarrow> Some p | Err _ \<Rightarrow> None))
       | _ \<Rightarrow> True)"
proof -
  have on: "map me_api_key (md_endpoints (on_endpoint i f db)) = map me_api_key (md_endpoints db)" if "\<And>e. me_api_key (f e) = me_api_key e" for i f db
    using that by (simp add: on_endpoint_def)
  have merged: "me_api_key (merged_endpoint cy c n now u cur e) = me_api_key e" for cy c cur e
    using assms by (simp add: merged_endpoint_fields)
  let ?same = "\<lambda>db'. map me_api_key (md_endpoints db') = map me_api_key (md_endpoints db)"
  have ff: "fault_free ?same" by (simp add: fault_free_def)
  note rules = keeps_and_then keeps_query [OF ff] keeps_answer keeps_statement [OF ff]
  have "keeps ?same (es_update ev es n now i u)" "keeps ?same (es_toggle ev es now i b)"
    by (cases es; auto simp: store_defs on merged split: option.split if_splits intro!: rules)+
  then have same: "?same (snd (es_update ev es n now i u db))" "?same (snd (es_toggle ev es now i b db))"
    using keeps_run [of ?same _ db] by blast+
  have read: "\<exists>row\<in>set (md_endpoints db). e = decrypt_endpoint (sv_crypto ev) (es_cipher es) row" if "es_get ev es i db = (Ok (Some e), db')" for e db'
    using that endpoint_row_Some [of _ db]
    by (cases es) (auto simp: store_defs query_run answer_def split: list.splits option.splits)
  have "case (es_cipher es, es_get ev es i db) of
         (Some key, (Ok (Some e), db')) \<Rightarrow>
           \<exists>row\<in>set (md_endpoints db). me_id e = me_id row
             \<and> me_api_key e = (case me_api_key row of None \<Rightarrow> None
                 | Some v \<Rightarrow> (case decrypt (sv_crypto ev) key v of Ok p \<Rightarrow> Some p | Err _ \<Rightarrow> None))
       | _ \<Rightarrow> True"
    using read by (fastforce simp: decrypt_endpoint_def split: option.split prod.split sum.split)
  with same show ?thesis by blast
qed


section \<open>The catalogue as the facade keeps it\<close>

text \<open>C33: Whatever sequence of calls the admin facade serves, and whichever of the database's statements fail, the
  catalogue of a connected store keeps its rows unique, no endpoint without its model, no base URL the SSRF guard
  refuses, and with an encryption key configured no provider key in plain text.\<close>

theorem catalogue_stays_guarded:
  assumes "connect_model_stores pg sq url c = Some (ms, es, db)" "guarded_catalogue env c db"
  shows "guarded_catalogue env c (ah_db (snd (run_calls (admin_call ev env) cs (with_model_stores ms es db h))))"
  by (rule admin_run_guarded [OF connected_pair [OF assms(1)]]) (use assms(2) in \<open>simp_all add: with_model_stores_def\<close>)

text \<open>C34: The SQLite and the Postgres stores are interchangeable: for calls whose identifiers are canonical UUIDs or no
  UUIDs at all and whose values the columns take, served by a database that does not fail and orders names
  bytewise, both give the same answers and hold the same rows afterwards.\<close>

theorem model_backends_agree:
  assumes "portable_db ev db" "\<And>call. call \<in> set cs \<Longrightarrow> portable ev c call" "\<And>s. sv_collation ev s = s"
    and "run_calls (admin_call ev env) cs (with_model_stores PgModels (PgEndpoints c) db h) = (rs, h')"
    and "run_calls (admin_call ev env) cs (with_model_stores SqliteModels (SqliteEndpoints c) db h) = (rs', h'')"
  shows "rs' = rs \<and> ah_db h'' = ah_db h'"
  using runs_agree [where h = "h\<lparr>ah_db := db\<rparr>" and env = env and cs = cs and c = c, OF _ assms(2,3)] assms(1,4,5)
  by (cases h) (auto simp: with_model_stores_def)

text \<open>Deleting a model needs it disabled: an enabled one is refused with a conflict, an unknown one is reported as
  such, and neither changes anything; a disabled one goes together with all its endpoints, and nothing else
  does. On Postgres a failing statement leaves both tables as they were.\<close>

theorem model_deletion_guarded:
  assumes "canonical_id ev i"
  shows "(md_faults db = [] \<longrightarrow> ms_delete ev ms i db =
      (case model_row i db of
         None \<Rightarrow> (Ok False, db)
       | Some m \<Rightarrow> if mo_enabled m then (Err (delete_conflict m), db)
                  else (Ok True, db\<lparr>md_models := filter (\<lambda>m. mo_id m \<noteq> i) (md_models db),
                                    md_endpoints := filter (\<lambda>e. me_model_id e \<noteq> i) (md_endpoints db)\<rparr>)))
    \<and> (case ms_delete ev PgModels i db of (Err e, db') \<Rightarrow> tables db' = tables db | (Ok False, db') \<Rightarrow> tables db' = tables db | _ \<Rightarrow> True)"
proof (intro conjI impI)
  assume "md_faults db = []"
  then show "ms_delete ev ms i db =
      (case model_row i db of
         None \<Rightarrow> (Ok False, db)
       | Some m \<Rightarrow> if mo_enabled m then (Err (delete_conflict m), db)
                  else (Ok True, db\<lparr>md_models := filter (\<lambda>m. mo_id m \<noteq> i) (md_models db),
                                    md_endpoints := filter (\<lambda>e. me_model_id e \<noteq> i) (md_endpoints db)\<rparr>))"
    using assms by (cases ms) (simp_all add: store_defs canonical_id_def and_then_def answer_def drop_models_def drop_endpoints_def
      model_row_def split: option.split)
next
  show "case ms_delete ev PgModels i db of (Err e, db') \<Rightarrow> tables db' = tables db | (Ok False, db') \<Rightarrow> tables db' = tables db | _ \<Rightarrow> True"
    by (simp add: pgm_delete_def pgm_get_def assms [unfolded canonical_id_def] query_run answer_def and_then_def statement_def Let_def
      tables_def model_row_def drop_models_def drop_endpoints_def split: option.split list.split bool.split)
qed


section \<open>Listing and routing agree\<close>

definition serves :: "string \<Rightarrow> ModelEndpoint \<Rightarrow> bool" where
  "serves i e = (me_model_id e = i \<and> me_enabled e \<and> endpoint_is_routable (me_provider_type e) (me_base_url e))"

lemma owners_find: "owners es i = map_option me_provider_type (find (serves i) es)"
proof -
  have "fold (\<lambda>e owned_by.
       if me_enabled e \<and> endpoint_is_routable (me_provider_type e) (me_base_url e) \<and> owned_by (me_model_id e) = None
       then owned_by(me_model_id e \<mapsto> me_provider_type e) else owned_by) es m i
     = (case m i of Some t \<Rightarrow> Some t | None \<Rightarrow> map_option me_provider_type (find (serves i) es))" for m
    by (induction es arbitrary: m) (auto simp: serves_def split: option.splits)
  then show ?thesis by (simp add: owners_def)
qed

lemma ms_list_calm:
  assumes "md_faults db = []" "ms_list ev ms db = (Ok models, db')"
  shows "db' = db \<and> set models = set (md_models db)"
  using assms by (cases ms) (auto simp: store_defs)

lemma ms_list_enabled_calm:
  assumes "md_faults db = []"
  shows "\<exists>models. ms_list_enabled ev ms db = (Ok models, db) \<and> set models = {m \<in> set (md_models db). mo_enabled m}"
  using assms by (cases ms) (auto simp: store_defs)

lemma es_list_calm:
  assumes "md_faults db = []"
  shows "es_list ev es db = (Ok (map (decrypt_endpoint (sv_crypto ev) (es_cipher es)) (sort_key me_created_at (md_endpoints db))), db)"
  using assms by (cases es) (simp_all add: store_defs)

lemma wired_builds:
  assumes "gw_provider_registry g = registry_build bearer (build_provider_registry a gm cc)"
  shows "builds (gw_provider_registry g) (m, e) \<longleftrightarrow> endpoint_is_routable (me_provider_type e) (me_base_url e)"
  using wired.routable_iff [of bearer a gm cc "me_provider_type e" "me_base_url e"] assms
  by (simp add: builds_def endpoint_is_routable_def)

lemma map_filter_names:
  "mob_id ` set (List.map_filter (\<lambda>m. map_option (\<lambda>w. \<lparr>mob_id = mo_name m, mob_object = x, mob_created = f m, mob_owned_by = w\<rparr>) (F m)) ms)
     = mo_name ` {m \<in> set ms. F m \<noteq> None}"
  by (induction ms) (auto simp: List.map_filter_def split: option.splits)

text \<open>The public model list and the routing table name the same models: after the targets were rebuilt from the
  catalogue, a model is listed exactly when some target serves it, so a listed model never fails for want of a
  route.\<close>

theorem listed_models_served:
  assumes "gw_provider_registry g = registry_build bearer (build_provider_registry a gm cc)"
    and h: "ah_model_store h = Some ms" "ah_model_endpoint_store h = Some es" "md_faults (ah_db h) = []"
    and "admin_list_models ev h = (Ok models, h1)" "admin_list_endpoints ev h = (Ok endpoints, h2)"
    and "rebuild_targets_from_db models endpoints on_empty g = (out, g')" "ro_applied out"
  shows "\<exists>listed. list_enabled_models_for_api ev h = (Ok listed, h)
    \<and> mob_id ` set listed = {n. \<exists>t\<in>set (gw_targets g'). tg_models t = Some [n]}"
proof -
  let ?db = "ah_db h"
  have models: "set models = set (md_models ?db)"
    using ms_list_calm [OF h(3), of ev ms] assms(5) h(1) by (auto simp: admin_list_models_def via_models_def split: prod.splits)
  have endpoints: "endpoints = map (decrypt_endpoint (sv_crypto ev) (es_cipher es)) (sort_key me_created_at (md_endpoints ?db))"
    using assms(6) h by (auto simp: admin_list_endpoints_def via_endpoints_def es_list_calm)
  obtain enabled where enabled: "ms_list_enabled ev ms ?db = (Ok enabled, ?db)" "set enabled = {m \<in> set models. mo_enabled m}"
    using ms_list_enabled_calm [OF h(3)] models by metis
  let ?obj = "\<lambda>m. map_option (\<lambda>owned_by. \<lparr>mob_id = mo_name m, mob_object = ''model'',
       mob_created = word_of_int (sv_timestamp ev (mo_created_at m)), mob_owned_by = owned_by\<rparr>) (owners endpoints (mo_id m))"
  have listing: "list_enabled_models_for_api ev h = (Ok (List.map_filter ?obj enabled), h)"
    using h enabled(1) endpoints
    by (simp add: list_enabled_models_for_api_def admin_list_enabled_models_def admin_list_endpoints_def via_models_def via_endpoints_def es_list_calm)
  have "mob_id ` set (List.map_filter ?obj enabled) = mo_name ` {m \<in> set models. mo_enabled m \<and> (\<exists>e\<in>set endpoints. serves (mo_id m) e)}"
    unfolding map_filter_names owners_find enabled(2) by (auto simp: find_None_iff)
  also have "\<dots> = mo_name ` fst ` set (routable_rows g models endpoints)"
    by (force simp: routable_rows_def enabled_rows_def serves_def wired_builds [OF assms(1)])
  also have "\<dots> = {n. \<exists>t\<in>set (gw_targets g'). tg_models t = Some [n]}"
    using rebuild_unfold [OF assms(7) refl] assms(8) by (force simp: rebuilt_def Let_def target_of_def split: if_splits)
  finally show ?thesis using listing by blast
qed

section \<open>Where the stores fall short\<close>

text \<open>The SQLite store deletes the endpoints and the model in two statements outside a transaction: when the second fails
  the model stays, without any of its endpoints.\<close>

lemma sqlite_deletion_half_done:
  assumes "model_row i db = Some m" "\<not> mo_enabled m" "md_faults db = [None, None, Some e]"
  shows "sqm_delete i db = (Err (Store_admin e), (drop_endpoints (\<lambda>e. me_model_id e = i) db)\<lparr>md_faults := []\<rparr>)"
  using assms by (simp add: sqm_delete_def sqm_get_def and_then_def query_run statement_def Let_def drop_endpoints_def model_row_def)

text \<open>A key that is set but malformed is treated as no key: provider keys are then stored in plain text.\<close>

lemma malformed_key_stores_plaintext:
  assumes "env ''PROVIDER_ENCRYPTION_KEY'' = Some raw" "from_base64 cy raw = Err e"
  shows "encrypt_endpoint_api_key cy n (from_env cy env) k = k"
  using assms by (simp add: from_env_def encrypt_endpoint_api_key_def split: option.split)

text \<open>Without the key a sealed provider key is handed out as it is stored: the ciphertext becomes the credential.\<close>

lemma missing_key_hands_out_ciphertext: "decrypt_endpoint cy None e = e"
  by (simp add: decrypt_endpoint_def)


section \<open>Concrete instances\<close>

definition cat_env :: store_env where
  "cat_env =
     \<lparr>sv_crypto = \<lparr>cy_b64_encode = (\<lambda>s. s), cy_b64_decode = Ok, cy_seal = (\<lambda>k n p. rev p), cy_open = (\<lambda>k n c. Some (rev c))\<rparr>,
      sv_parse_uuid = (\<lambda>i. if starts_with ''u'' i then Some i else None), sv_dberr = ''constraint violated'',
      sv_varchar = (\<lambda>s. length s \<le> 255), sv_text = (\<lambda>s. CHR 0x00 \<notin> set s), sv_collation = (\<lambda>s. s), sv_timestamp = (\<lambda>t. t)\<rparr>"

definition cat_model :: Model where
  "cat_model = \<lparr>mo_id = ''u1'', mo_name = ''gpt'', mo_display_name = None, mo_enabled = False, mo_created_at = 1, mo_updated_at = 1\<rparr>"

definition cat_db :: model_db where
  "cat_db = \<lparr>md_models = [cat_model], md_endpoints = [], md_faults = []\<rparr>"

definition cat_cipher :: "CipherKey option" where
  "cat_cipher = Some (CipherKey (replicate 32 (CHR ''k'')))"

definition cat_stamp :: row_stamp where
  "cat_stamp = \<lparr>sd_id = ''u2'', sd_created = 2, sd_updated = 2\<rparr>"

definition cat_endpoint_request :: CreateModelEndpointRequest where
  "cat_endpoint_request =
     \<lparr>ce_provider_type = ''openai'', ce_base_url = None, ce_api_key = Some ''sk'', ce_weight = 1, ce_enabled = True\<rparr>"

definition cat_endpoint_update :: UpdateModelEndpointRequest where
  "cat_endpoint_update =
     \<lparr>ue_provider_type = None, ue_base_url = None, ue_api_key = None, ue_weight = Some 2, ue_enabled = None\<rparr>"

definition cat_nonce :: string where
  "cat_nonce = ''abcdefghijkl''"

lemmas cat_defs = cat_env_def cat_model_def cat_db_def cat_cipher_def cat_stamp_def cat_endpoint_request_def
  cat_endpoint_update_def cat_nonce_def

lemma cat_ids: "canonical_id cat_env ''u1''" "canonical_id cat_env ''u2''"
  by (simp_all add: canonical_id_def cat_env_def starts_with_def)

lemma cat_crypto: "crypto_ok (sv_crypto cat_env)"
  by (simp add: crypto_ok_def cat_env_def)

lemma cat_utf8: "from_utf8 ''sk'' = Some ''sk''"
  by code_simp

definition cat_endpoint :: ModelEndpoint where
  "cat_endpoint = \<lparr>me_id = ''u2'', me_model_id = ''u1'', me_provider_type = ''openai'', me_base_url = None,
     me_api_key = Some ''enc:v1:abcdefghijklks'', me_weight = 1, me_enabled = True, me_created_at = 2, me_updated_at = 2\<rparr>"

lemma cat_created:
  "es_create cat_env (SqliteEndpoints cat_cipher) cat_stamp cat_nonce ''u1'' cat_endpoint_request cat_db =
     (Ok (cat_endpoint\<lparr>me_api_key := Some ''sk''\<rparr>), cat_db\<lparr>md_endpoints := [cat_endpoint]\<rparr>)"
  by (simp add: cat_defs cat_endpoint_def sqe_create_def and_then_def query_run statement_def answer_def model_row_def endpoint_row_def
    endpoint_new_def encrypt_endpoint_api_key_def PREFIX_def Let_def)

lemma cat_unsealed: "decrypt_endpoint (sv_crypto cat_env) cat_cipher (cat_endpoint\<lparr>me_weight := w, me_updated_at := t\<rparr>)
   = cat_endpoint\<lparr>me_weight := w, me_updated_at := t, me_api_key := Some ''sk''\<rparr>"
  by (simp add: decrypt_endpoint_def cat_cipher_def cat_endpoint_def cat_env_def strip_prefix_def starts_with_def PREFIX_def cat_utf8)

lemma cat_updated:
  "es_update cat_env (SqliteEndpoints cat_cipher) cat_nonce 3 ''u2'' cat_endpoint_update (cat_db\<lparr>md_endpoints := [cat_endpoint]\<rparr>) =
     (Ok (Some (cat_endpoint\<lparr>me_weight := 2, me_updated_at := 3, me_api_key := Some ''sk''\<rparr>)),
      cat_db\<lparr>md_endpoints := [cat_endpoint\<lparr>me_weight := 2, me_updated_at := 3\<rparr>]\<rparr>)"
proof -
  have dec: "decrypt_endpoint (sv_crypto cat_env) cat_cipher cat_endpoint = cat_endpoint\<lparr>me_api_key := Some ''sk''\<rparr>"
    using cat_unsealed [where w = "me_weight cat_endpoint" and t = "me_updated_at cat_endpoint"] by simp
  have row: "endpoint_row ''u2'' (cat_db\<lparr>md_endpoints := [cat_endpoint\<lparr>me_weight := w, me_updated_at := t\<rparr>]\<rparr>)
     = Some (cat_endpoint\<lparr>me_weight := w, me_updated_at := t\<rparr>)" for w t
    by (simp add: endpoint_row_def cat_endpoint_def)
  have row0: "endpoint_row ''u2'' (cat_db\<lparr>md_endpoints := [cat_endpoint]\<rparr>) = Some cat_endpoint"
    by (simp add: endpoint_row_def cat_endpoint_def)
  have calm: "md_faults (cat_db\<lparr>md_endpoints := es\<rparr>) = []" for es by (simp add: cat_db_def)
  have on: "on_endpoint ''u2'' (merged_endpoint (sv_crypto cat_env) cat_cipher cat_nonce 3 cat_endpoint_update (cat_endpoint\<lparr>me_api_key := Some ''sk''\<rparr>))
      (cat_db\<lparr>md_endpoints := [cat_endpoint]\<rparr>) = cat_db\<lparr>md_endpoints := [cat_endpoint\<lparr>me_weight := 2, me_updated_at := 3\<rparr>]\<rparr>"
    by (simp add: on_endpoint_def cat_endpoint_def merged_endpoint_def cat_endpoint_update_def effective_routing_pair_def)
  show ?thesis by (simp add: sqe_update_def sqe_get_def and_then_def calm row0 dec on row cat_unsealed)
qed

theorem endpoint_key_roundtrip_witness:
  "es_get cat_env (SqliteEndpoints cat_cipher) ''u2'' (cat_db\<lparr>md_endpoints := [cat_endpoint]\<rparr>) =
     (Ok (Some (cat_endpoint\<lparr>me_api_key := Some ''sk''\<rparr>)), cat_db\<lparr>md_endpoints := [cat_endpoint]\<rparr>)"
proof -
  have "es_update cat_env (SqliteEndpoints cat_cipher) cat_nonce 3 (sd_id cat_stamp) cat_endpoint_update (cat_db\<lparr>md_endpoints := [cat_endpoint]\<rparr>) =
     (Ok (Some (cat_endpoint\<lparr>me_weight := 2, me_updated_at := 3, me_api_key := Some ''sk''\<rparr>)),
      cat_db\<lparr>md_endpoints := [cat_endpoint\<lparr>me_weight := 2, me_updated_at := 3\<rparr>]\<rparr>)"
    using cat_updated by (simp add: cat_stamp_def)
  from endpoint_key_roundtrip [OF cat_crypto _ cat_ids(1) _ _ _ _ _ cat_created this]
  show ?thesis using cat_ids(2) cat_utf8
    by (simp add: cat_stamp_def cat_db_def cat_nonce_def cat_endpoint_request_def cat_endpoint_update_def)
qed

theorem stored_keys_survive_witness:
  "map me_api_key (md_endpoints (snd (es_update cat_env (SqliteEndpoints None) cat_nonce 3 ''u2'' cat_endpoint_update
      (cat_db\<lparr>md_endpoints := [cat_endpoint], md_faults := [None, Some ''disk full'']\<rparr>)))) = [Some ''enc:v1:abcdefghijklks'']"
  using stored_keys_survive [of cat_endpoint_update cat_env "SqliteEndpoints None" cat_nonce 3 "''u2''"
      "cat_db\<lparr>md_endpoints := [cat_endpoint], md_faults := [None, Some ''disk full'']\<rparr>" True]
  by (simp add: cat_endpoint_update_def cat_endpoint_def)

definition cat_connect :: connector where
  "cat_connect url = Ok (Ok cat_db)"

lemma cat_connected: "connect_model_stores cat_connect cat_connect ''sqlite://gateway.db'' cat_cipher = Some (SqliteModels, SqliteEndpoints cat_cipher, cat_db)"
  by (simp add: connect_model_stores_def cat_connect_def starts_with_def)

definition cat_calls :: "store_call list" where
  "cat_calls = [Create_endpoint cat_stamp cat_nonce ''u1'' cat_endpoint_request,
     Create_endpoint cat_stamp cat_nonce ''u1'' (cat_endpoint_request\<lparr>ce_base_url := Some ''http://127.0.0.1/''\<rparr>), Delete_model ''u1'']"

theorem catalogue_stays_guarded_witness:
  "guarded_catalogue Map.empty cat_cipher
     (ah_db (snd (run_calls (admin_call cat_env Map.empty) cat_calls
        (with_model_stores SqliteModels (SqliteEndpoints cat_cipher) cat_db (admin_new (Memory ks_new))))))"
  by (rule catalogue_stays_guarded [OF cat_connected])
    (simp add: guarded_catalogue_def catalogue_def catalogue_ok_def rows_ok_def cat_db_def)

lemma cat_portable: "portable_db cat_env cat_db" "call \<in> set cat_calls \<Longrightarrow> portable cat_env cat_cipher call"
  by (auto simp: portable_db_def cat_defs cat_calls_def canonical_id_def plain_id_def takes_def starts_with_def
    encrypt_endpoint_api_key_def PREFIX_def)

theorem model_backends_agree_witness:
  "fst (run_calls (admin_call cat_env Map.empty) cat_calls
      (with_model_stores SqliteModels (SqliteEndpoints cat_cipher) cat_db (admin_new (Memory ks_new)))) =
   fst (run_calls (admin_call cat_env Map.empty) cat_calls
      (with_model_stores PgModels (PgEndpoints cat_cipher) cat_db (admin_new (Memory ks_new))))"
  by (rule model_backends_agree [where c = cat_cipher, THEN conjunct1, OF cat_portable _ surjective_pairing surjective_pairing])
    (simp_all add: cat_env_def)

theorem model_deletion_guarded_witness:
  "ms_delete cat_env PgModels ''u1'' (cat_db\<lparr>md_endpoints := [cat_endpoint]\<rparr>) =
     (Ok True, cat_db\<lparr>md_models := [], md_endpoints := []\<rparr>)"
  using model_deletion_guarded [OF cat_ids(1), of "cat_db\<lparr>md_endpoints := [cat_endpoint]\<rparr>" PgModels]
  by (simp add: cat_db_def cat_model_def cat_endpoint_def model_row_def)


definition cat_admin :: AdminHandlers where
  "cat_admin = with_model_stores SqliteModels (SqliteEndpoints cat_cipher)
     \<lparr>md_models = [cat_model\<lparr>mo_enabled := True\<rparr>], md_endpoints = [cat_endpoint], md_faults = []\<rparr> (admin_new (Memory ks_new))"

definition cat_gateway :: "unit Gateway" where
  "cat_gateway = set_provider_registry
     (registry_build (\<lambda>_ _. stub_provider) (build_provider_registry (\<lambda>_. stub_provider) (\<lambda>_. stub_provider) (\<lambda>_ _. stub_provider))) sample_gateway"

theorem listed_models_served_witness:
  "let endpoints = [cat_endpoint\<lparr>me_api_key := Some ''sk''\<rparr>];
       g' = snd (rebuild_targets_from_db [cat_model\<lparr>mo_enabled := True\<rparr>] endpoints Apply cat_gateway)
   in \<exists>listed. list_enabled_models_for_api cat_env cat_admin = (Ok listed, cat_admin)
        \<and> mob_id ` set listed = {n. \<exists>t\<in>set (gw_targets g'). tg_models t = Some [n]}"
proof -
  let ?models = "[cat_model\<lparr>mo_enabled := True\<rparr>]" and ?eps = "[cat_endpoint\<lparr>me_api_key := Some ''sk''\<rparr>]"
  obtain out g' where rebuild: "rebuild_targets_from_db ?models ?eps Apply cat_gateway = (out, g')" by fastforce
  have "ro_applied out" using rebuild_unfold [OF rebuild refl] by (auto split: if_splits)
  moreover have "admin_list_models cat_env cat_admin = (Ok ?models, cat_admin)"
    by (simp add: admin_list_models_def via_models_def cat_admin_def with_model_stores_def store_defs)
  moreover have "admin_list_endpoints cat_env cat_admin = (Ok ?eps, cat_admin)"
    using cat_unsealed [where w = "me_weight cat_endpoint" and t = "me_updated_at cat_endpoint"]
    by (simp add: admin_list_endpoints_def via_endpoints_def cat_admin_def with_model_stores_def store_defs)
  moreover have "gw_provider_registry cat_gateway =
     registry_build (\<lambda>_ _. stub_provider) (build_provider_registry (\<lambda>_. stub_provider) (\<lambda>_. stub_provider) (\<lambda>_ _. stub_provider))"
    by (simp add: cat_gateway_def set_provider_registry_def)
  ultimately show ?thesis
    using listed_models_served [of cat_gateway _ _ _ _ cat_admin SqliteModels "SqliteEndpoints cat_cipher", OF _ _ _ _ _ _ rebuild] rebuild
    by (simp add: Let_def cat_admin_def with_model_stores_def)
qed

end
