(* ===== verification/Http_Api.thy ===== *)
theory Http_Api
  imports Model_Catalogue Gateway_Stream Auth_Properties
begin

text \<open>
  The HTTP surface (\<^verbatim>\<open>himadri/src/handlers.rs\<close>, \<^verbatim>\<open>gateway/proxy.rs\<close> and the route guards of \<^verbatim>\<open>main.rs\<close>): errors on the
  wire, the client's address, server-sent events, completions, the legacy completion endpoint, embeddings, the
  passthrough, login, metrics, keys, models, endpoints, configuration and logs. A handler is a function of the
  application state; decoding bodies and writing JSON text is serde's, and the upstream of the passthrough is an argument.
  Log lines and the delay after a failed login are left out.
\<close>

section \<open>Errors on the wire\<close>

datatype ApiError = ApiError nat string

definition ApiError_not_found :: ApiError where
  "ApiError_not_found = ApiError 404 ''not found''"

definition error_envelope :: "string \<Rightarrow> json" where
  "error_envelope message = JObj [(''error'', JObj [(''message'', JStr message), (''type'', JStr ''gateway_error'')])]"

fun api_error_of :: "AdminError \<Rightarrow> ApiError" where
  "api_error_of NotFound_admin = ApiError_not_found"
| "api_error_of (Validation_admin m) = ApiError 400 m"
| "api_error_of (Conflict_admin m) = ApiError 409 m"
| "api_error_of (Store_admin _) = ApiError 500 ''internal storage error''"

text \<open>A response: the status, the header that tells a client when to come back, and the body.\<close>

datatype 'w body =
    Json_body json
  | Text_body string
  | Completion_body ChatCompletionResponse
  | Embedding_body EmbeddingResponse
  | Chat_stream "'w GuardrailStream"
  | Text_stream "'w GuardrailStream"
  | Proxied_body "(string \<times> string) list" string

record 'w Response =
  rsp_status :: nat
  rsp_retry_after :: "string option"
  rsp_body :: "'w body"

definition json_response :: "nat \<Rightarrow> json \<Rightarrow> 'w Response" where
  "json_response status j = \<lparr>rsp_status = status, rsp_retry_after = None, rsp_body = Json_body j\<rparr>"

definition ok_response :: "'w body \<Rightarrow> 'w Response" where
  "ok_response b = \<lparr>rsp_status = 200, rsp_retry_after = None, rsp_body = b\<rparr>"

fun api_error_response :: "ApiError \<Rightarrow> 'w Response" where
  "api_error_response (ApiError status message) = json_response status (error_envelope message)"

definition is_server_error :: "nat \<Rightarrow> bool" where
  "is_server_error status = (500 \<le> status \<and> status < 600)"

definition public_message :: "GatewayError \<Rightarrow> string" where
  "public_message e =
     (if is_server_error (status_code e)
      then (case e of
              CircuitOpen _ \<Rightarrow> ''upstream provider unavailable''
            | ServiceUnavailable _ \<Rightarrow> ''upstream provider unavailable''
            | _ \<Rightarrow> ''internal server error'')
      else show_gateway_error e)"

definition retry_after_secs :: "GatewayError \<Rightarrow> u64 option" where
  "retry_after_secs e =
     (case e of RateLimited secs \<Rightarrow> Some secs | QuotaExceeded _ \<Rightarrow> Some 60 | _ \<Rightarrow> None)"

definition error_to_response :: "GatewayError \<Rightarrow> 'w Response" where
  "error_to_response e =
     \<lparr>rsp_status = status_code e, rsp_retry_after = map_option (\<lambda>secs. show_nat (unat secs)) (retry_after_secs e),
      rsp_body = Json_body (error_envelope (public_message e))\<rparr>"

section \<open>The client's address\<close>

text \<open>How the standard library prints addresses: IPv6 in lower-case groups, the first longest run of at least two zero
  groups shortened, IPv4-mapped addresses with their IPv4 part.\<close>

definition hex_digit :: "nat \<Rightarrow> char" where
  "hex_digit n = ''0123456789abcdef'' ! n"

definition show_group :: "u16 \<Rightarrow> string" where
  "show_group g =
     (let n = unat g; digits = map hex_digit [n div 4096 mod 16, n div 256 mod 16, n div 16 mod 16]
      in dropWhile (\<lambda>c. c = CHR ''0'') digits @ [hex_digit (n mod 16)])"

fun longest_zero_run :: "nat \<Rightarrow> nat \<times> nat \<Rightarrow> nat \<times> nat \<Rightarrow> u16 list \<Rightarrow> nat \<times> nat" where
  "longest_zero_run i (start, len) longest [] = longest"
| "longest_zero_run i (start, len) longest (g # gs) =
     (if g = 0
      then (let current = (if len = 0 then i else start, len + 1)
            in longest_zero_run (i + 1) current (if snd longest < snd current then current else longest) gs)
      else longest_zero_run (i + 1) (0, 0) longest gs)"

definition show_groups :: "u16 list \<Rightarrow> string" where
  "show_groups gs = join '':'' (map show_group gs)"

definition show_ipv6 :: "u16 list \<Rightarrow> string" where
  "show_ipv6 gs =
     (if take 6 gs = [0, 0, 0, 0, 0, 0xFFFF] \<and> length gs = 8
      then (let a = unat (gs ! 6); b = unat (gs ! 7)
            in ''::ffff:'' @ show_ipv4 (of_nat (a div 256)) (of_nat (a mod 256)) (of_nat (b div 256)) (of_nat (b mod 256)))
      else (case longest_zero_run 0 (0, 0) (0, 0) gs of
              (start, len) \<Rightarrow>
                if 1 < len then show_groups (take start gs) @ ''::'' @ show_groups (drop (start + len) gs)
                else show_groups gs))"

fun show_ip :: "IpAddr \<Rightarrow> string" where
  "show_ip (V4 a b c d) = show_ipv4 a b c d"
| "show_ip (V6 gs) = show_ipv6 gs"

text \<open>Headers in their order, names in lower case; \<^verbatim>\<open>to_str\<close> accepts visible ASCII and tabs.\<close>

type_synonym headers = "(string \<times> string) list"

definition header_to_str :: "string \<Rightarrow> string option" where
  "header_to_str v =
     (if \<forall>c\<in>set v. (of_char c :: nat) = 9 \<or> 32 \<le> (of_char c :: nat) \<and> (of_char c :: nat) < 127 then Some v else None)"

definition header_str :: "headers \<Rightarrow> string \<Rightarrow> string option" where
  "header_str hs name = Option.bind (map_of hs name) header_to_str"

definition public_ip :: "string \<Rightarrow> string option" where
  "public_ip s =
     (case parse_ip (trim s) of Some addr \<Rightarrow> if ip_is_internal addr then None else Some (show_ip addr) | None \<Rightarrow> None)"

fun first_public :: "string list \<Rightarrow> string option" where
  "first_public [] = None"
| "first_public (s # ss) = (case public_ip s of Some ip \<Rightarrow> Some ip | None \<Rightarrow> first_public ss)"

definition trusted_proxy_ip :: "headers \<Rightarrow> string option" where
  "trusted_proxy_ip hs =
     (case Option.bind (header_str hs ''x-forwarded-for'') (\<lambda>s. first_public (rev (split_char (CHR '','') s))) of
        Some ip \<Rightarrow> Some ip
      | None \<Rightarrow> Option.bind (header_str hs ''x-real-ip'') public_ip)"

definition resolve_remote_ip :: "IpAddr \<Rightarrow> headers \<Rightarrow> string option" where
  "resolve_remote_ip peer hs =
     (if ip_is_internal peer
      then (case trusted_proxy_ip hs of Some ip \<Rightarrow> Some ip | None \<Rightarrow> Some (show_ip peer))
      else Some (show_ip peer))"

section \<open>Server-sent events\<close>

definition STREAM_ERROR :: json where
  "STREAM_ERROR = error_envelope ''stream interrupted by upstream error''"

fun sse_scan :: "(json \<Rightarrow> string) \<Rightarrow> (ProviderError, string) result list \<Rightarrow> string list" where
  "sse_scan show_json [] = []"
| "sse_scan show_json (Ok payload # items) = payload # sse_scan show_json items"
| "sse_scan show_json (Err e # items) = [show_json STREAM_ERROR]"

definition sse_response :: "(json \<Rightarrow> string) \<Rightarrow> (ProviderError, string) result list \<Rightarrow> string list" where
  "sse_response show_json items = sse_scan show_json items @ [''[DONE]'']"


section \<open>State and shared steps\<close>

record ('w, 'sec) AppState =
  app_gateway :: "'w Gateway"
  app_admin :: AdminHandlers
  app_admin_login :: "'sec AdminLogin option"

definition on_admin :: "(AdminHandlers \<Rightarrow> 'a \<times> AdminHandlers) \<Rightarrow> ('w, 'sec) AppState \<Rightarrow> 'a \<times> ('w, 'sec) AppState" where
  "on_admin f st = (case f (app_admin st) of (r, h) \<Rightarrow> (r, st\<lparr>app_admin := h\<rparr>))"

definition on_gateway :: "('w Gateway \<Rightarrow> 'a \<times> 'w Gateway) \<Rightarrow> ('w, 'sec) AppState \<Rightarrow> 'a \<times> ('w, 'sec) AppState" where
  "on_gateway f st = (case f (app_gateway st) of (r, g) \<Rightarrow> (r, st\<lparr>app_gateway := g\<rparr>))"

definition read_catalogue ::
    "store_env \<Rightarrow> ('w, 'sec) AppState \<Rightarrow> (Model list \<times> ModelEndpoint list) option \<times> ('w, 'sec) AppState" where
  "read_catalogue ev st =
     (let (models, st) = on_admin (admin_list_models ev) st;
          (endpoints, st) = on_admin (admin_list_endpoints ev) st
      in case (models, endpoints) of
           (Ok m, Ok e) \<Rightarrow> (Some (m, e), st)
         | _ \<Rightarrow> (None, st))"

definition rebuild_targets :: "store_env \<Rightarrow> ('w, 'sec) AppState \<Rightarrow> ('w, 'sec) AppState" where
  "rebuild_targets ev st =
     (case read_catalogue ev st of
        (None, st) \<Rightarrow> st
      | (Some (models, endpoints), st) \<Rightarrow>
          (let on_empty = (if db_owns_routing (app_gateway st) then Apply else KeepPrevious)
           in snd (on_gateway (rebuild_targets_from_db models endpoints on_empty) st)))"

definition reassert_db_targets_after_config :: "store_env \<Rightarrow> ('w, 'sec) AppState \<Rightarrow> ('w, 'sec) AppState" where
  "reassert_db_targets_after_config ev st =
     (case read_catalogue ev st of
        (None, st) \<Rightarrow> st
      | (Some (models, endpoints), st) \<Rightarrow>
          snd (on_gateway (rebuild_targets_from_db models endpoints KeepPrevious) st))"

definition validate_endpoint_provider :: "string \<Rightarrow> string option \<Rightarrow> ('w, 'sec) AppState \<Rightarrow> (ApiError, unit) result" where
  "validate_endpoint_provider provider_type base_url st =
     (case gw_provider_registry (app_gateway st) provider_type base_url of
        Ok _ \<Rightarrow> Ok ()
      | Err e \<Rightarrow> Err (ApiError 400 (show_provider_error e @
          ''. Use a built-in provider type (see GET /admin/known-providers), or supply a base_url to route a custom vendor through a generic OpenAI-compatible client.'')))"

definition created ::
    "store_env \<Rightarrow> (AdminError, 'a) result \<Rightarrow> ('w, 'sec) AppState \<Rightarrow> (ApiError, nat \<times> 'a) result \<times> ('w, 'sec) AppState" where
  "created ev result st =
     (case result of
        Ok v \<Rightarrow> (Ok (201, v), rebuild_targets ev st)
      | Err e \<Rightarrow> (Err (api_error_of e), st))"

definition updated ::
    "store_env \<Rightarrow> (AdminError, 'a option) result \<Rightarrow> ('w, 'sec) AppState \<Rightarrow> (ApiError, 'a) result \<times> ('w, 'sec) AppState" where
  "updated ev result st =
     (case result of
        Ok (Some v) \<Rightarrow> (Ok v, rebuild_targets ev st)
      | Ok None \<Rightarrow> (Err ApiError_not_found, st)
      | Err e \<Rightarrow> (Err (api_error_of e), st))"

definition deleted ::
    "store_env \<Rightarrow> (AdminError, bool) result \<Rightarrow> ('w, 'sec) AppState \<Rightarrow> (ApiError, nat) result \<times> ('w, 'sec) AppState" where
  "deleted ev result st =
     (case result of
        Ok True \<Rightarrow> (Ok 204, rebuild_targets ev st)
      | Ok False \<Rightarrow> (Err ApiError_not_found, st)
      | Err e \<Rightarrow> (Err (api_error_of e), st))"

text \<open>What a reading handler makes of an optional entity.\<close>

definition found :: "(AdminError, 'a option) result \<times> 's \<Rightarrow> (ApiError, 'a) result \<times> 's" where
  "found r =
     (case r of
        (Err e, s) \<Rightarrow> (Err (api_error_of e), s)
      | (Ok None, s) \<Rightarrow> (Err ApiError_not_found, s)
      | (Ok (Some v), s) \<Rightarrow> (Ok v, s))"

definition listed :: "(AdminError, 'a) result \<times> 's \<Rightarrow> (ApiError, 'a) result \<times> 's" where
  "listed r = (case r of (Err e, s) \<Rightarrow> (Err (api_error_of e), s) | (Ok v, s) \<Rightarrow> (Ok v, s))"

section \<open>Models\<close>

definition http_list_models :: "store_env \<Rightarrow> ('w, 'sec) AppState \<Rightarrow> (ApiError, Model list) result \<times> ('w, 'sec) AppState" where
  "http_list_models ev st = listed (on_admin (admin_list_models ev) st)"

definition http_create_model ::
    "store_env \<Rightarrow> row_stamp \<Rightarrow> CreateModelRequest \<Rightarrow> ('w, 'sec) AppState \<Rightarrow> (ApiError, nat \<times> Model) result \<times> ('w, 'sec) AppState" where
  "http_create_model ev d request st =
     (case on_admin (admin_create_model ev d request) st of (result, st) \<Rightarrow> created ev result st)"

definition http_get_model :: "store_env \<Rightarrow> string \<Rightarrow> ('w, 'sec) AppState \<Rightarrow> (ApiError, Model) result \<times> ('w, 'sec) AppState" where
  "http_get_model ev i st = found (on_admin (admin_get_model ev i) st)"

definition http_update_model ::
    "store_env \<Rightarrow> datetime \<Rightarrow> string \<Rightarrow> UpdateModelRequest \<Rightarrow> ('w, 'sec) AppState \<Rightarrow> (ApiError, Model) result \<times> ('w, 'sec) AppState" where
  "http_update_model ev now i request st =
     (case on_admin (admin_update_model ev now i request) st of (result, st) \<Rightarrow> updated ev result st)"

definition http_delete_model :: "store_env \<Rightarrow> string \<Rightarrow> ('w, 'sec) AppState \<Rightarrow> (ApiError, nat) result \<times> ('w, 'sec) AppState" where
  "http_delete_model ev i st =
     (case on_admin (admin_delete_model ev i) st of (result, st) \<Rightarrow> deleted ev result st)"

definition http_toggle_model ::
    "store_env \<Rightarrow> datetime \<Rightarrow> string \<Rightarrow> bool \<Rightarrow> ('w, 'sec) AppState \<Rightarrow> (ApiError, Model) result \<times> ('w, 'sec) AppState" where
  "http_toggle_model ev now i enabled st =
     (case on_admin (admin_toggle_model ev now i enabled) st of (result, st) \<Rightarrow> updated ev result st)"

section \<open>Endpoints\<close>

definition redact_endpoint :: "ModelEndpoint \<Rightarrow> ModelEndpoint" where
  "redact_endpoint e = (if me_api_key e \<noteq> None then e\<lparr>me_api_key := None\<rparr> else e)"

definition http_list_all_endpoints :: "store_env \<Rightarrow> ('w, 'sec) AppState \<Rightarrow> (ApiError, ModelEndpoint list) result \<times> ('w, 'sec) AppState" where
  "http_list_all_endpoints ev st =
     (case listed (on_admin (admin_list_endpoints ev) st) of
        (Ok es, st) \<Rightarrow> (Ok (map redact_endpoint es), st)
      | (Err e, st) \<Rightarrow> (Err e, st))"

definition http_list_model_endpoints ::
    "store_env \<Rightarrow> string \<Rightarrow> ('w, 'sec) AppState \<Rightarrow> (ApiError, ModelEndpoint list) result \<times> ('w, 'sec) AppState" where
  "http_list_model_endpoints ev model_id st =
     (case listed (on_admin (admin_list_endpoints_by_model ev model_id) st) of
        (Ok es, st) \<Rightarrow> (Ok (map redact_endpoint es), st)
      | (Err e, st) \<Rightarrow> (Err e, st))"

definition http_create_endpoint ::
    "store_env \<Rightarrow> env_vars \<Rightarrow> row_stamp \<Rightarrow> string \<Rightarrow> string \<Rightarrow> CreateModelEndpointRequest \<Rightarrow> ('w, 'sec) AppState \<Rightarrow>
     (ApiError, nat \<times> ModelEndpoint) result \<times> ('w, 'sec) AppState" where
  "http_create_endpoint ev env d nonce model_id request st =
     (case validate_endpoint_provider (ce_provider_type request) (ce_base_url request) st of
        Err e \<Rightarrow> (Err e, st)
      | Ok _ \<Rightarrow>
          (case on_admin (admin_create_endpoint ev env d nonce model_id request) st of
             (result, st) \<Rightarrow> created ev (map_sum id redact_endpoint result) st))"

definition http_get_endpoint :: "store_env \<Rightarrow> string \<Rightarrow> ('w, 'sec) AppState \<Rightarrow> (ApiError, ModelEndpoint) result \<times> ('w, 'sec) AppState" where
  "http_get_endpoint ev i st =
     (case found (on_admin (admin_get_endpoint ev i) st) of
        (Ok e, st) \<Rightarrow> (Ok (redact_endpoint e), st)
      | (Err e, st) \<Rightarrow> (Err e, st))"

definition http_update_endpoint ::
    "store_env \<Rightarrow> env_vars \<Rightarrow> string \<Rightarrow> datetime \<Rightarrow> string \<Rightarrow> UpdateModelEndpointRequest \<Rightarrow> ('w, 'sec) AppState \<Rightarrow>
     (ApiError, ModelEndpoint) result \<times> ('w, 'sec) AppState" where
  "http_update_endpoint ev env nonce now i request st =
     (case found (on_admin (admin_get_endpoint ev i) st) of
        (Err e, st) \<Rightarrow> (Err e, st)
      | (Ok current, st) \<Rightarrow>
          (let (provider_type, base_url) = effective_routing_pair request current
           in case validate_endpoint_provider provider_type base_url st of
                Err e \<Rightarrow> (Err e, st)
              | Ok _ \<Rightarrow>
                  (case on_admin (admin_update_endpoint ev env nonce now i request) st of
                     (result, st) \<Rightarrow> updated ev (map_sum id (map_option redact_endpoint) result) st)))"

definition http_delete_endpoint :: "store_env \<Rightarrow> string \<Rightarrow> ('w, 'sec) AppState \<Rightarrow> (ApiError, nat) result \<times> ('w, 'sec) AppState" where
  "http_delete_endpoint ev i st =
     (case on_admin (admin_delete_endpoint ev i) st of (result, st) \<Rightarrow> deleted ev result st)"

definition http_toggle_endpoint ::
    "store_env \<Rightarrow> datetime \<Rightarrow> string \<Rightarrow> bool \<Rightarrow> ('w, 'sec) AppState \<Rightarrow> (ApiError, ModelEndpoint) result \<times> ('w, 'sec) AppState" where
  "http_toggle_endpoint ev now i enabled st =
     (let (checked, st) =
            (if enabled
             then (case found (on_admin (admin_get_endpoint ev i) st) of
                     (Err e, st) \<Rightarrow> (Err e, st)
                   | (Ok current, st) \<Rightarrow> (validate_endpoint_provider (me_provider_type current) (me_base_url current) st, st))
             else (Ok (), st))
      in case checked of
           Err e \<Rightarrow> (Err e, st)
         | Ok _ \<Rightarrow>
             (case on_admin (admin_toggle_endpoint ev now i enabled) st of
                (result, st) \<Rightarrow> updated ev (map_sum id (map_option redact_endpoint) result) st))"


section \<open>Completions and embeddings\<close>

text \<open>Writing a chunk or a document as JSON text is serde's and stays an argument.\<close>

record wire_lib =
  wl_chunk :: "StreamChunk \<Rightarrow> (string, string) result"
  wl_json :: "json \<Rightarrow> string"
  wl_decode_error :: "json \<Rightarrow> string"

definition chat_payload :: "wire_lib \<Rightarrow> (ProviderError, StreamChunk) result \<Rightarrow> (ProviderError, string) result" where
  "chat_payload wl chunk =
     (case chunk of Err e \<Rightarrow> Err e | Ok c \<Rightarrow> (case wl_chunk wl c of Ok s \<Rightarrow> Ok s | Err e \<Rightarrow> Err (PE_Parse e)))"

definition chat_completions ::
    "ambient \<Rightarrow> IpAddr \<Rightarrow> headers \<Rightarrow> AuthContext option \<Rightarrow> ChatCompletionRequest \<Rightarrow> ('w, 'sec) AppState \<Rightarrow> 'w Response \<times> ('w, 'sec) AppState" where
  "chat_completions am peer hs auth request st =
     (let remote_ip = resolve_remote_ip peer hs
      in if cr_stream request
         then (case on_gateway (route_stream am request auth remote_ip) st of
                 (Ok stream, st) \<Rightarrow> (ok_response (Chat_stream stream), st)
               | (Err e, st) \<Rightarrow> (error_to_response e, st))
         else (case on_gateway (route am request auth remote_ip) st of
                 (Ok response, st) \<Rightarrow> (ok_response (Completion_body response), st)
               | (Err e, st) \<Rightarrow> (error_to_response e, st)))"

datatype LegacyPrompt = No_prompt | Text_prompt string | Many_prompts "string list"

record LegacyCompletionRequest =
  lc_model :: string
  lc_prompt :: LegacyPrompt
  lc_max_tokens :: "u32 option"
  lc_temperature :: "rat option"
  lc_top_p :: "rat option"
  lc_stop :: "json option"
  lc_stream :: bool
  lc_user :: "string option"

fun into_text :: "LegacyPrompt \<Rightarrow> string" where
  "into_text No_prompt = []"
| "into_text (Text_prompt t) = t"
| "into_text (Many_prompts parts) = join [CHR 0x0A] parts"

definition normalized_stop :: "json option \<Rightarrow> json option" where
  "normalized_stop stop =
     (case stop of
        None \<Rightarrow> None
      | Some JNull \<Rightarrow> None
      | Some (JStr s) \<Rightarrow> Some (JArr [JStr s])
      | Some other \<Rightarrow> Some other)"

text \<open>Reading the normalised value as \<^verbatim>\<open>Option<Vec<String>>\<close>.\<close>

definition stop_strings :: "json option \<Rightarrow> string list option option" where
  "stop_strings stop =
     (case stop of
        None \<Rightarrow> Some None
      | Some (JArr vs) \<Rightarrow> map_option Some (those (map as_str vs))
      | Some _ \<Rightarrow> None)"

definition legacy_to_chat :: "wire_lib \<Rightarrow> LegacyCompletionRequest \<Rightarrow> (ApiError, ChatCompletionRequest) result" where
  "legacy_to_chat wl request =
     (let prompt = into_text (lc_prompt request)
      in if prompt = []
         then Err (ApiError 400 ''prompt is required (for chat-style messages use /v1/chat/completions)'')
         else (let stop = normalized_stop (lc_stop request)
               in case stop_strings stop of
                    None \<Rightarrow> Err (ApiError 400 (''invalid completion request: '' @ wl_decode_error wl (unwrap_or stop JNull)))
                  | Some stop \<Rightarrow>
                      Ok (ChatCompletionRequest_default
                            \<lparr>cr_model := lc_model request, cr_messages := [message_user prompt],
                             cr_max_tokens := lc_max_tokens request, cr_temperature := lc_temperature request,
                             cr_top_p := lc_top_p request, cr_stop := stop, cr_stream := lc_stream request,
                             cr_user := lc_user request\<rparr>)))"

definition usage_json :: "Usage option \<Rightarrow> json" where
  "usage_json u =
     (case u of
        None \<Rightarrow> JNull
      | Some u \<Rightarrow> JObj [(''prompt_tokens'', JNum (of_nat (unat (prompt_tokens u)))),
                       (''completion_tokens'', JNum (of_nat (unat (completion_tokens u)))),
                       (''total_tokens'', JNum (of_nat (unat (total_tokens u))))])"

definition text_choice :: "string option \<Rightarrow> u32 \<Rightarrow> string option \<Rightarrow> json" where
  "text_choice content index finish_reason =
     JObj [(''text'', JStr (unwrap_or content [])), (''index'', JNum (of_nat (unat index))), (''logprobs'', JNull),
           (''finish_reason'', case finish_reason of Some r \<Rightarrow> JStr r | None \<Rightarrow> JNull)]"

definition chat_to_text_completion :: "ChatCompletionResponse \<Rightarrow> json" where
  "chat_to_text_completion response =
     JObj [(''id'', JStr (cp_id response)), (''object'', JStr ''text_completion''),
           (''created'', JNum (of_nat (unat (cp_created response)))), (''model'', JStr (cp_model response)),
           (''choices'', JArr (map (\<lambda>c. text_choice (rm_content (ch_message c)) (ch_index c) (ch_finish_reason c)) (cp_choices response))),
           (''usage'', usage_json (cp_usage response))]"

definition text_chunk :: "StreamChunk \<Rightarrow> json" where
  "text_chunk c =
     JObj [(''id'', JStr (sk_id c)), (''object'', JStr ''text_completion''), (''created'', JNum (of_nat (unat (sk_created c)))),
           (''model'', JStr (sk_model c)),
           (''choices'', JArr (map (\<lambda>x. text_choice (dl_content (sc_delta x)) (sc_index x) (sc_finish_reason x)) (sk_choices c)))]"

definition text_payload :: "wire_lib \<Rightarrow> (ProviderError, StreamChunk) result \<Rightarrow> (ProviderError, string) result" where
  "text_payload wl chunk = map_sum id (\<lambda>c. wl_json wl (text_chunk c)) chunk"

definition completions ::
    "wire_lib \<Rightarrow> ambient \<Rightarrow> IpAddr \<Rightarrow> headers \<Rightarrow> AuthContext option \<Rightarrow> LegacyCompletionRequest \<Rightarrow> ('w, 'sec) AppState \<Rightarrow> 'w Response \<times> ('w, 'sec) AppState" where
  "completions wl am peer hs auth request st =
     (let remote_ip = resolve_remote_ip peer hs; stream = lc_stream request
      in case legacy_to_chat wl request of
           Err e \<Rightarrow> (api_error_response e, st)
         | Ok chat_request \<Rightarrow>
             if stream
             then (case on_gateway (route_stream am chat_request auth remote_ip) st of
                     (Ok chunks, st) \<Rightarrow> (ok_response (Text_stream chunks), st)
                   | (Err e, st) \<Rightarrow> (error_to_response e, st))
             else (case on_gateway (route am chat_request auth remote_ip) st of
                     (Ok response, st) \<Rightarrow> (ok_response (Json_body (chat_to_text_completion response)), st)
                   | (Err e, st) \<Rightarrow> (error_to_response e, st)))"

definition embeddings ::
    "ambient \<Rightarrow> AuthContext option \<Rightarrow> EmbeddingRequest \<Rightarrow> ('w, 'sec) AppState \<Rightarrow> 'w Response \<times> ('w, 'sec) AppState" where
  "embeddings am auth request st =
     (case on_gateway (embed (ab_hash am) (ab_env am) (ab_limit_clock am) request auth) st of
        (Ok response, st) \<Rightarrow> (ok_response (Embedding_body response), st)
      | (Err e, st) \<Rightarrow> (error_to_response e, st))"

text \<open>The events a stream response delivers for the chunks its client consumed.\<close>

definition stream_events :: "wire_lib \<Rightarrow> 'w body \<Rightarrow> (ProviderError, StreamChunk) result list \<Rightarrow> string list" where
  "stream_events wl b chunks =
     (case b of
        Chat_stream _ \<Rightarrow> sse_response (wl_json wl) (map (chat_payload wl) chunks)
      | Text_stream _ \<Rightarrow> sse_response (wl_json wl) (map (text_payload wl) chunks)
      | _ \<Rightarrow> [])"

section \<open>Passthrough\<close>

definition MAX_PROXY_BODY_BYTES :: nat where
  "MAX_PROXY_BODY_BYTES = 10 * 1024 * 1024"

record proxied =
  px_method :: string
  px_url :: string
  px_headers :: headers
  px_body :: string

record upstream =
  up_status :: nat
  up_headers :: headers
  up_body :: string

definition proxy_base_url :: "Target \<Rightarrow> 'w Provider \<Rightarrow> string" where
  "proxy_base_url target provider =
     unwrap_or (tg_base_url target)
       (if pv_name provider = ''openai'' then ''https://api.openai.com/v1''
        else if pv_name provider = ''anthropic'' then ''https://api.anthropic.com''
        else if pv_name provider = ''gemini'' then ''https://generativelanguage.googleapis.com''
        else ''https://api.openai.com/v1'')"

definition trim_end_matches :: "char \<Rightarrow> string \<Rightarrow> string" where
  "trim_end_matches c s = rev (dropWhile (\<lambda>x. x = c) (rev s))"

definition forwarded_headers :: "headers \<Rightarrow> string \<Rightarrow> headers" where
  "forwarded_headers hs api_key =
     filter (\<lambda>(k, v). k \<notin> {''authorization'', ''host'', ''content-length''}) hs @
     (if api_key \<noteq> [] then [(''authorization'', ''Bearer '' @ api_key)] else [])"

definition returned_headers :: "headers \<Rightarrow> headers" where
  "returned_headers hs =
     fold (\<lambda>(k, v) acc. if k \<in> {''transfer-encoding'', ''connection''} then acc else al_put k v acc) hs []"

definition proxy ::
    "env_vars \<Rightarrow> (string \<Rightarrow> bool) \<Rightarrow> (proxied \<Rightarrow> (string, upstream) result) \<Rightarrow> string \<Rightarrow> string \<Rightarrow> headers \<Rightarrow> string \<Rightarrow> 'w Gateway \<Rightarrow>
     (GatewayError, upstream) result" where
  "proxy env method_ok send method path hs body g =
     (case gw_targets g of
        [] \<Rightarrow> Err (Internal ''No targets configured for proxy'')
      | target # _ \<Rightarrow>
          (case gw_providers g (routing_key target) of
             None \<Rightarrow> Err (ProviderNotFound (tg_provider target))
           | Some provider \<Rightarrow>
               (case target_api_key env g target of
                  Err e \<Rightarrow> Err e
                | Ok api_key \<Rightarrow>
                    if \<not> method_ok method then Err (BadRequest (''Invalid method: '' @ method))
                    else (case send \<lparr>px_method = method,
                                     px_url = trim_end_matches (CHR ''/'') (proxy_base_url target provider) @ path,
                                     px_headers = forwarded_headers hs api_key, px_body = body\<rparr> of
                            Err e \<Rightarrow> Err (Provider (''Proxy request failed: '' @ e))
                          | Ok resp \<Rightarrow>
                              Ok \<lparr>up_status = (if 100 \<le> up_status resp \<and> up_status resp < 1000 then up_status resp else 500),
                                  up_headers = returned_headers (up_headers resp), up_body = up_body resp\<rparr>))))"

text \<open>The body as it arrives: complete, or refused for its size or a failing read.\<close>

definition passthrough ::
    "env_vars \<Rightarrow> (string \<Rightarrow> bool) \<Rightarrow> (proxied \<Rightarrow> (string, upstream) result) \<Rightarrow> string \<Rightarrow> string \<Rightarrow> headers \<Rightarrow> string option \<Rightarrow>
     ('w, 'sec) AppState \<Rightarrow> 'w Response" where
  "passthrough env method_ok send method path hs body st =
     (let too_large = \<lparr>rsp_status = 413, rsp_retry_after = None, rsp_body = Text_body ''request body exceeds maximum allowed size''\<rparr>
      in case body of
           None \<Rightarrow> too_large
         | Some bytes \<Rightarrow>
             if MAX_PROXY_BODY_BYTES < length bytes then too_large
             else (case proxy env method_ok send method path hs bytes (app_gateway st) of
                     Ok resp \<Rightarrow> \<lparr>rsp_status = up_status resp, rsp_retry_after = None, rsp_body = Proxied_body (up_headers resp) (up_body resp)\<rparr>
                   | Err e \<Rightarrow> error_to_response e))"


section \<open>Login, metrics and the public model list\<close>

fun show_auth_error :: "AuthError \<Rightarrow> string" where
  "show_auth_error (InvalidToken s) = ''invalid token: '' @ s"
| "show_auth_error ExpiredToken = ''expired token''"
| "show_auth_error InvalidSignature = ''invalid signature''"
| "show_auth_error InvalidAudience = ''invalid audience''"
| "show_auth_error InvalidIssuer = ''invalid issuer''"
| "show_auth_error (OidcDiscoveryFailed s) = ''OIDC discovery failed: '' @ s"
| "show_auth_error (JwksFetchFailed s) = ''JWKS fetch failed: '' @ s"
| "show_auth_error (Network_auth s) = ''network error: '' @ s"
| "show_auth_error (Config_auth s) = ''configuration error: '' @ s"

record 'sec login_env =
  le_encode :: "Algorithm \<Rightarrow> 'sec \<Rightarrow> JwtClaims \<Rightarrow> (string, string) result"
  le_seconds :: u64
  le_nanos :: string
  le_now :: datetime

definition dev_admin_login ::
    "'sec login_env \<Rightarrow> IpAddr \<Rightarrow> headers \<Rightarrow> string \<Rightarrow> string \<Rightarrow> ('w, 'sec) AppState \<Rightarrow>
     (ApiError, IssuedAdminToken) result \<times> ('w, 'sec) AppState" where
  "dev_admin_login le peer hs username password st =
     (case app_admin_login st of
        None \<Rightarrow> (Err ApiError_not_found, st)
      | Some login \<Rightarrow>
          if \<not> verify username password login
          then (let remote_ip = resolve_remote_ip peer hs; g = app_gateway st;
                    g = g\<lparr>gw_stores := (gw_stores g)\<lparr>st_audit_log :=
                          log_auth_failure (le_nanos le) (le_now le) Unauthorized_status ''dev admin login: invalid credentials''
                            remote_ip (Some username) None (st_audit_log (gw_stores g))\<rparr>\<rparr>
                in (Err (ApiError 401 ''invalid username or password''), st\<lparr>app_gateway := g\<rparr>))
          else (case issue (le_encode le) (le_seconds le) login of
                  Ok token \<Rightarrow> (Ok token, st)
                | Err e \<Rightarrow> (Err (ApiError 500 (show_auth_error e)), st)))"

definition metrics_token :: "env_vars \<Rightarrow> ('w, 'sec) AppState \<Rightarrow> string option" where
  "metrics_token env st =
     (case or_else (env ''METRICS_TOKEN'') (adm_master_key (cfg_admin (get_config (app_gateway st)))) of
        Some t \<Rightarrow> if t \<noteq> [] then Some t else None
      | None \<Rightarrow> None)"

definition metrics_handler :: "(Metrics \<Rightarrow> string) \<Rightarrow> env_vars \<Rightarrow> headers \<Rightarrow> ('w, 'sec) AppState \<Rightarrow> 'w Response" where
  "metrics_handler encode env hs st =
     (case metrics_token env st of
        Some expected \<Rightarrow>
          if is_some_and (Option.bind (header_str hs ''authorization'') (strip_prefix ''Bearer ''))
               (\<lambda>presented. constant_time_eq (as_bytes presented) (as_bytes expected))
          then ok_response (Text_body (encode (st_metrics (gw_stores (app_gateway st)))))
          else api_error_response (ApiError 401 ''unauthorized'')
      | None \<Rightarrow> ok_response (Text_body (encode (st_metrics (gw_stores (app_gateway st))))))"

text \<open>The fallback lists what each registered client says it supports, in the order the concurrent map is walked.\<close>

definition list_models ::
    "store_env \<Rightarrow> string list \<Rightarrow> ('w Provider \<Rightarrow> string list) \<Rightarrow> ('w, 'sec) AppState \<Rightarrow> ModelObject list \<times> ('w, 'sec) AppState" where
  "list_models ev providers supported_models st =
     (let (result, st) = on_admin (list_enabled_models_for_api ev) st;
          admin_models = (case result of Ok ms \<Rightarrow> ms | Err _ \<Rightarrow> [])
      in if admin_models \<noteq> [] then (admin_models, st)
         else (concat (map (\<lambda>provider_name.
                 case get_provider (app_gateway st) provider_name of
                   Some provider \<Rightarrow>
                     map (\<lambda>model_id. \<lparr>mob_id = model_id, mob_object = ''model'', mob_created = 0, mob_owned_by = provider_name\<rparr>)
                       (supported_models provider)
                 | None \<Rightarrow> []) providers), st))"

section \<open>Keys\<close>

definition http_list_keys :: "('w, 'sec) AppState \<Rightarrow> (ApiError, ApiKey list) result" where
  "http_list_keys st = map_err api_error_of (admin_list_keys (app_admin st))"

definition http_create_key ::
    "key_env \<Rightarrow> draw \<Rightarrow> CreateApiKeyRequest \<Rightarrow> ('w, 'sec) AppState \<Rightarrow> (ApiError, nat \<times> ApiKey) result \<times> ('w, 'sec) AppState" where
  "http_create_key ke d request st =
     (case on_admin (admin_create_key ke d request) st of
        (Ok key, st) \<Rightarrow> (Ok (201, key), st)
      | (Err e, st) \<Rightarrow> (Err (api_error_of e), st))"

definition http_get_key :: "key_env \<Rightarrow> string \<Rightarrow> ('w, 'sec) AppState \<Rightarrow> (ApiError, ApiKey) result" where
  "http_get_key ke i st = fst (found (admin_get_key ke i (app_admin st), ()))"

definition http_update_key ::
    "key_env \<Rightarrow> string \<Rightarrow> UpdateApiKeyRequest \<Rightarrow> ('w, 'sec) AppState \<Rightarrow> (ApiError, ApiKey) result \<times> ('w, 'sec) AppState" where
  "http_update_key ke i request st = found (on_admin (admin_update_key ke i request) st)"

definition key_gone :: "nat \<Rightarrow> (AdminError, bool) result \<times> 's \<Rightarrow> (ApiError, nat) result \<times> 's" where
  "key_gone status r =
     (case r of
        (Ok True, s) \<Rightarrow> (Ok status, s)
      | (Ok False, s) \<Rightarrow> (Err ApiError_not_found, s)
      | (Err e, s) \<Rightarrow> (Err (api_error_of e), s))"

definition http_delete_key :: "key_env \<Rightarrow> string \<Rightarrow> ('w, 'sec) AppState \<Rightarrow> (ApiError, nat) result \<times> ('w, 'sec) AppState" where
  "http_delete_key ke i st = key_gone 204 (on_admin (admin_delete_key ke i) st)"

definition http_revoke_key :: "key_env \<Rightarrow> string \<Rightarrow> ('w, 'sec) AppState \<Rightarrow> (ApiError, nat) result \<times> ('w, 'sec) AppState" where
  "http_revoke_key ke i st = key_gone 200 (on_admin (admin_revoke_key ke i) st)"

definition http_rotate_key ::
    "key_env \<Rightarrow> draw \<Rightarrow> string \<Rightarrow> ('w, 'sec) AppState \<Rightarrow> (ApiError, ApiKey) result \<times> ('w, 'sec) AppState" where
  "http_rotate_key ke d i st = found (on_admin (admin_rotate_key ke d i) st)"

section \<open>Configuration, usage and logs\<close>

definition http_reload_config ::
    "(string \<Rightarrow> (string \<Rightarrow> bool) option) \<Rightarrow> store_env \<Rightarrow> datetime \<Rightarrow> (ConfigError, Config) result \<Rightarrow> ('w, 'sec) AppState \<Rightarrow>
     (ApiError, json) result \<times> ('w, 'sec) AppState" where
  "http_reload_config regex_new ev now loaded st =
     (case loaded of
        Err e \<Rightarrow> (Err (ApiError 400 (''Failed to load config: '' @ show_config_error e)), st)
      | Ok new_config \<Rightarrow>
          (case on_gateway (reload_config regex_new now new_config) st of
             (Err e, st) \<Rightarrow> (Err (ApiError 400 (show_gateway_error e)), st)
           | (Ok _, st) \<Rightarrow> (Ok (JObj [(''status'', JStr ''reloaded'')]), reassert_db_targets_after_config ev st)))"

definition http_update_config ::
    "(string \<Rightarrow> (string \<Rightarrow> bool) option) \<Rightarrow> store_env \<Rightarrow> datetime \<Rightarrow> Config \<Rightarrow> ('w, 'sec) AppState \<Rightarrow>
     (ApiError, json) result \<times> ('w, 'sec) AppState" where
  "http_update_config regex_new ev now new_config st =
     (case on_gateway (reload_config regex_new now new_config) st of
        (Err e, st) \<Rightarrow> (Err (ApiError 400 (show_gateway_error e)), st)
      | (Ok _, st) \<Rightarrow> (Ok (JObj [(''status'', JStr ''updated'')]), reassert_db_targets_after_config ev st))"

definition http_config_rollback ::
    "(string \<Rightarrow> (string \<Rightarrow> bool) option) \<Rightarrow> store_env \<Rightarrow> datetime \<Rightarrow> u32 \<Rightarrow> ('w, 'sec) AppState \<Rightarrow>
     (ApiError, json) result \<times> ('w, 'sec) AppState" where
  "http_config_rollback regex_new ev now version st =
     (case on_gateway (rollback_config regex_new now version) st of
        (Err e, st) \<Rightarrow> (Err (ApiError 400 (show_gateway_error e)), st)
      | (Ok _, st) \<Rightarrow>
          (Ok (JObj [(''status'', JStr ''rolled_back''), (''version'', JNum (of_nat (unat version)))]),
           reassert_db_targets_after_config ev st))"

definition http_get_config :: "('w, 'sec) AppState \<Rightarrow> Config" where
  "http_get_config st = get_config (app_gateway st)"

definition http_config_history :: "('w, 'sec) AppState \<Rightarrow> ConfigHistoryEntry list \<times> nat \<times> Config" where
  "http_config_history st =
     (let history = config_history (app_gateway st) in (history, length history, get_config (app_gateway st)))"

definition http_dashboard :: "(breakdown \<Rightarrow> breakdown) \<Rightarrow> ('w, 'sec) AppState \<Rightarrow> DashboardSummary" where
  "http_dashboard iter st =
     (let key_count = (case admin_list_keys (app_admin st) of Ok ks \<Rightarrow> length ks | Err _ \<Rightarrow> 0)
      in get_dashboard iter (st_usage_store (gw_stores (app_gateway st))) key_count)"

definition http_usage_stats ::
    "(breakdown \<Rightarrow> breakdown) \<Rightarrow> ('w, 'sec) AppState \<Rightarrow> u64 \<times> u64 \<times> rat \<times> rat \<times> rat \<times> ModelUsage list \<times> ProviderUsage list" where
  "http_usage_stats iter st =
     (let dashboard = get_dashboard iter (st_usage_store (gw_stores (app_gateway st))) 0
      in (ds_total_requests dashboard, ds_total_tokens dashboard, ds_total_cost_usd dashboard, ds_avg_latency_ms dashboard,
          ds_error_rate dashboard, ds_top_models dashboard, ds_top_providers dashboard))"

definition http_key_usage_stats :: "string \<Rightarrow> ('w, 'sec) AppState \<Rightarrow> UsageStats" where
  "http_key_usage_stats key_id st = get_key_stats (st_usage_store (gw_stores (app_gateway st))) key_id"

definition http_list_logs :: "RequestLogQuery \<Rightarrow> ('w, 'sec) AppState \<Rightarrow> RequestLogListResult" where
  "http_list_logs q st = request_log_list (request_log (app_gateway st)) q"

definition http_delete_logs :: "MaintenanceQuery \<Rightarrow> ('w, 'sec) AppState \<Rightarrow> nat \<times> ('w, 'sec) AppState" where
  "http_delete_logs q st =
     (let g = app_gateway st; (deleted, s) = request_log_delete q (request_log g)
      in (deleted, st\<lparr>app_gateway := g\<lparr>gw_stores := (gw_stores g)\<lparr>st_logs := (st_logs (gw_stores g))(gw_request_log g := s)\<rparr>\<rparr>\<rparr>))"

section \<open>Routes\<close>

text \<open>What stands between a request and an admin handler: authentication, then the admin scope.\<close>

definition require_admin_scope :: "AuthContext option \<Rightarrow> (nat \<times> string, unit) result" where
  "require_admin_scope auth =
     (case auth of
        Some ctx \<Rightarrow> if au_scope ctx = Admin_scope then Ok () else Err (403, ''admin scope required'')
      | None \<Rightarrow> Err (403, ''admin scope required''))"

definition admin_route ::
    "('k, 'sec) auth_env \<Rightarrow> string option \<Rightarrow> string option \<Rightarrow> ('s \<Rightarrow> 'r \<times> 's) \<Rightarrow> ('k, 'sec) CombinedAuth \<times> 's \<Rightarrow>
     (nat \<times> string, 'r) result \<times> ('k, 'sec) CombinedAuth \<times> 's" where
  "admin_route ve remote_ip header handler s =
     (case combined_middleware ve remote_ip header (fst s) of
        (Err e, ca) \<Rightarrow> (Err e, (ca, snd s))
      | (Ok ctx, ca) \<Rightarrow>
          (case require_admin_scope (Some ctx) of
             Err e \<Rightarrow> (Err e, (ca, snd s))
           | Ok _ \<Rightarrow> (case handler (snd s) of (r, st) \<Rightarrow> (Ok r, (ca, st)))))"

definition api_route ::
    "('k, 'sec) auth_env \<Rightarrow> string option \<Rightarrow> string option \<Rightarrow> (AuthContext option \<Rightarrow> 's \<Rightarrow> 'r \<times> 's) \<Rightarrow> ('k, 'sec) CombinedAuth \<times> 's \<Rightarrow>
     (nat \<times> string, 'r) result \<times> ('k, 'sec) CombinedAuth \<times> 's" where
  "api_route ve remote_ip header handler s =
     (case combined_middleware ve remote_ip header (fst s) of
        (Err e, ca) \<Rightarrow> (Err e, (ca, snd s))
      | (Ok ctx, ca) \<Rightarrow> (case handler (Some ctx) (snd s) of (r, st) \<Rightarrow> (Ok r, (ca, st))))"

end
