(* ===== verification/Http_Properties.thy ===== *)
theory Http_Properties
  imports Http_Api
begin

text \<open>
  What the HTTP surface promises: provider keys and storage errors stay inside, an admin change takes effect in the
  routing table at once and a configuration never displaces the catalogue's routes, streams are closed properly,
  a client cannot choose its address, and admin handlers run for administrators only.
\<close>

section \<open>The catalogue over HTTP\<close>

text \<open>The admin handlers of the catalogue, as one function of the call they serve; there is one route that lists models.\<close>

fun http_call :: "store_env \<Rightarrow> env_vars \<Rightarrow> store_call \<Rightarrow> ('w, 'sec) AppState \<Rightarrow> (ApiError, store_answer) result \<times> ('w, 'sec) AppState" where
  "http_call ev env (Create_model d r) st = apfst (map_sum id (Model_is \<circ> Some \<circ> snd)) (http_create_model ev d r st)"
| "http_call ev env (Get_model i) st = apfst (map_sum id (Model_is \<circ> Some)) (http_get_model ev i st)"
| "http_call ev env List_models st = apfst (map_sum id Models_are) (http_list_models ev st)"
| "http_call ev env List_enabled_models st = apfst (map_sum id Models_are) (http_list_models ev st)"
| "http_call ev env (Update_model now i r) st = apfst (map_sum id (Model_is \<circ> Some)) (http_update_model ev now i r st)"
| "http_call ev env (Delete_model i) st = apfst (map_sum id (\<lambda>_. Flag_is True)) (http_delete_model ev i st)"
| "http_call ev env (Toggle_model now i b) st = apfst (map_sum id (Model_is \<circ> Some)) (http_toggle_model ev now i b st)"
| "http_call ev env (Create_endpoint d n i r) st = apfst (map_sum id (Endpoint_is \<circ> Some \<circ> snd)) (http_create_endpoint ev env d n i r st)"
| "http_call ev env (Get_endpoint i) st = apfst (map_sum id (Endpoint_is \<circ> Some)) (http_get_endpoint ev i st)"
| "http_call ev env List_endpoints st = apfst (map_sum id Endpoints_are) (http_list_all_endpoints ev st)"
| "http_call ev env (List_endpoints_by_model i) st = apfst (map_sum id Endpoints_are) (http_list_model_endpoints ev i st)"
| "http_call ev env (Update_endpoint n now i r) st = apfst (map_sum id (Endpoint_is \<circ> Some)) (http_update_endpoint ev env n now i r st)"
| "http_call ev env (Delete_endpoint i) st = apfst (map_sum id (\<lambda>_. Flag_is True)) (http_delete_endpoint ev i st)"
| "http_call ev env (Toggle_endpoint now i b) st = apfst (map_sum id (Endpoint_is \<circ> Some)) (http_toggle_endpoint ev now i b st)"

lemmas http_defs = http_create_model_def http_get_model_def http_list_models_def http_update_model_def http_delete_model_def
  http_toggle_model_def http_create_endpoint_def http_get_endpoint_def http_list_all_endpoints_def http_list_model_endpoints_def
  http_update_endpoint_def http_delete_endpoint_def http_toggle_endpoint_def

text \<open>The provider keys an answer shows.\<close>

fun answer_keys :: "store_answer \<Rightarrow> string set" where
  "answer_keys (Endpoint_is (Some e)) = set_option (me_api_key e)"
| "answer_keys (Endpoints_are es) = (\<Union>e\<in>set es. set_option (me_api_key e))"
| "answer_keys _ = {}"

lemma redacted_key [simp]: "me_api_key (redact_endpoint e) = None"
  by (simp add: redact_endpoint_def)

fun quiet :: "ApiError \<Rightarrow> bool" where
  "quiet (ApiError status m) = (status = 500 \<longrightarrow> m = ''internal storage error'')"

lemma quiet_admin [simp]: "quiet (api_error_of e)"
  by (cases e) (simp_all add: ApiError_not_found_def)

lemma quiet_not_found [simp]: "quiet ApiError_not_found"
  by (simp add: ApiError_not_found_def)

lemma quiet_validate: "validate_endpoint_provider t u st = Err e \<Longrightarrow> quiet e"
  by (auto simp: validate_endpoint_provider_def split: sum.splits)

text \<open>The admin API never shows a provider key and never echoes what a failing database said: whatever endpoint a call
  answers with has no key, and an answer of status 500 carries one fixed text.\<close>

theorem api_hides_secrets:
  "case fst (http_call ev env c st) of Ok a \<Rightarrow> answer_keys a = {} | Err e \<Rightarrow> quiet e"
  by (cases c) (auto simp: http_defs created_def updated_def deleted_def found_def listed_def split_beta map_sum_def Let_def
    quiet_validate split: sum.split prod.split option.split bool.split)


section \<open>Mutations reach the routing table\<close>

definition calm :: "AdminHandlers \<Rightarrow> bool" where
  "calm h = (md_faults (ah_db h) = [])"

definition calmly :: "'a store_op \<Rightarrow> bool" where
  "calmly f = (\<forall>db. md_faults db = [] \<longrightarrow> md_faults (snd (f db)) = [])"

lemma calmly_answer: "calmly (answer r)"
  by (simp add: calmly_def answer_def)

lemma calmly_statement: "(\<And>(db :: model_db) x db'. md_faults db = [] \<Longrightarrow> f db = Ok (x, db') \<Longrightarrow> md_faults db' = []) \<Longrightarrow> calmly (statement f)"
  unfolding calmly_def
proof (intro allI impI)
  fix db :: model_db
  assume step: "\<And>(db :: model_db) x db'. md_faults db = [] \<Longrightarrow> f db = Ok (x, db') \<Longrightarrow> md_faults db' = []" and db: "md_faults db = []"
  show "md_faults (snd (statement f db)) = []"
  proof (cases "f db")
    case (Inr out)
    then show ?thesis using db step [OF db, of "fst out" "snd out"] by (simp add: split_beta)
  qed (use db in simp)
qed

lemma calmly_query: "calmly (query f)"
  by (simp add: calmly_def)

lemma calmly_and_then: "calmly f \<Longrightarrow> (\<And>x. calmly (g x)) \<Longrightarrow> calmly (and_then f g)"
  by (simp add: calmly_def and_then_def split_beta split: sum.split)

lemmas calm_rules = calmly_answer calmly_statement calmly_query calmly_and_then

lemma models_calmly:
  "calmly (ms_create ev ms d r)" "calmly (ms_get ev ms i)" "calmly (ms_list ev ms)" "calmly (ms_list_enabled ev ms)"
  "calmly (ms_update ev ms now i u)" "calmly (ms_delete ev ms i)" "calmly (ms_toggle ev ms now i b)"
  by (cases ms; auto simp: store_defs Let_def intro!: calm_rules split: option.split if_splits)+

lemma endpoints_calmly:
  "calmly (es_create ev es d n i r)" "calmly (es_get ev es i)" "calmly (es_list ev es)" "calmly (es_list_by_model ev es i)"
  "calmly (es_update ev es n now i u)" "calmly (es_delete ev es i)" "calmly (es_toggle ev es now i b)"
  by (cases es; auto simp: store_defs Let_def intro!: calm_rules split: option.split if_splits)+

lemma via_calm:
  "calm h \<Longrightarrow> (\<And>s. calmly (f s)) \<Longrightarrow> calm (snd (via_models w f h))"
  "calm h \<Longrightarrow> (\<And>s. calmly (k s)) \<Longrightarrow> calm (snd (via_endpoints v k h))"
  by (auto simp: calm_def via_models_def via_endpoints_def calmly_def split_beta split: option.split)

lemma admin_calm:
  assumes "calm h"
  shows "calm (snd (admin_create_model ev d r h))" "calm (snd (admin_get_model ev i h))" "calm (snd (admin_list_models ev h))"
    "calm (snd (admin_update_model ev now i u h))" "calm (snd (admin_delete_model ev i h))" "calm (snd (admin_toggle_model ev now i b h))"
    "calm (snd (admin_create_endpoint ev env d n i q h))" "calm (snd (admin_get_endpoint ev i h))" "calm (snd (admin_list_endpoints ev h))"
    "calm (snd (admin_update_endpoint ev env n now i v h))" "calm (snd (admin_delete_endpoint ev i h))"
    "calm (snd (admin_toggle_endpoint ev now i b h))"
  using assms
  by (simp_all add: admin_create_model_def admin_get_model_def admin_list_models_def admin_update_model_def admin_delete_model_def
    admin_toggle_model_def admin_create_endpoint_def admin_get_endpoint_def admin_list_endpoints_def admin_update_endpoint_def
    admin_delete_endpoint_def admin_toggle_endpoint_def via_calm models_calmly endpoints_calmly split: sum.split option.split)

lemma on_admin_simps [simp]:
  "app_gateway (snd (on_admin f st)) = app_gateway st" "app_admin (snd (on_admin f st)) = snd (f (app_admin st))"
  "fst (on_admin f st) = fst (f (app_admin st))" "app_admin_login (snd (on_admin f st)) = app_admin_login st"
  by (simp_all add: on_admin_def split_beta)

text \<open>What a call does to the rest of the application: after a success it has rebuilt the targets, after a refusal nothing but
  the store's own state may have changed.\<close>

definition mutation_shape :: "store_env \<Rightarrow> ('w, 'sec) AppState \<Rightarrow> ('e, 'a) result \<times> ('w, 'sec) AppState \<Rightarrow> bool" where
  "mutation_shape ev st out =
     (\<exists>st1. app_gateway st1 = app_gateway st \<and> (calm (app_admin st) \<longrightarrow> calm (app_admin st1))
        \<and> (case out of (Ok _, st') \<Rightarrow> st' = rebuild_targets ev st1 | (Err _, st') \<Rightarrow> st' = st1))"

lemma shape_finish:
  assumes "app_gateway st1 = app_gateway st" "calm (app_admin st) \<longrightarrow> calm (app_admin st1)"
  shows "mutation_shape ev st (created ev r st1)" "mutation_shape ev st (updated ev u st1)" "mutation_shape ev st (deleted ev b st1)"
    "mutation_shape ev st (Err e, st1)"
  using assms unfolding mutation_shape_def
  by (auto simp: created_def updated_def deleted_def split: sum.split option.split bool.split intro!: exI [of _ st1])

lemma shape_apfst: "mutation_shape ev st (apfst (map_sum id f) out) = mutation_shape ev st out"
  by (cases out) (auto simp: mutation_shape_def map_sum_def split: sum.split)

lemma shape_on_admin:
  assumes "\<And>h. calm h \<Longrightarrow> calm (snd (f h))" "app_gateway st1 = app_gateway st" "calm (app_admin st) \<longrightarrow> calm (app_admin st1)"
  shows "mutation_shape ev st (case on_admin f st1 of (r, s) \<Rightarrow> created ev (F r) s)"
    "mutation_shape ev st (case on_admin f st1 of (r, s) \<Rightarrow> updated ev (G r) s)"
    "mutation_shape ev st (case on_admin f st1 of (r, s) \<Rightarrow> deleted ev (H r) s)"
  using assms by (auto simp: split_beta intro!: shape_finish)


lemma endpoint_read:
  "\<exists>x st1. found (on_admin (admin_get_endpoint ev i) st) = (x, st1) \<and> app_gateway st1 = app_gateway st
     \<and> (calm (app_admin st) \<longrightarrow> calm (app_admin st1))"
proof -
  let ?st1 = "snd (on_admin (admin_get_endpoint ev i) st)"
  have "\<exists>x. found (on_admin (admin_get_endpoint ev i) st) = (x, ?st1)"
    by (simp add: found_def split_beta split: sum.split option.split)
  moreover have "app_gateway ?st1 = app_gateway st" "calm (app_admin st) \<longrightarrow> calm (app_admin ?st1)"
    by (simp_all add: admin_calm)
  ultimately show ?thesis by blast
qed

lemma http_mutation_shape:
  assumes "mutates c"
  shows "mutation_shape ev st (http_call ev env c st)"
proof (cases c)
  case (Create_endpoint d n i r)
  then show ?thesis
    by (auto simp: http_defs shape_apfst admin_calm intro!: shape_finish shape_on_admin split: sum.split)
next
  case (Update_endpoint n now i r)
  obtain x st1 where x: "found (on_admin (admin_get_endpoint ev i) st) = (x, st1)"
    and st1: "app_gateway st1 = app_gateway st" "calm (app_admin st) \<longrightarrow> calm (app_admin st1)"
    using endpoint_read [of ev i st] by blast
  show ?thesis unfolding Update_endpoint http_call.simps shape_apfst http_update_endpoint_def x
    using st1 by (cases x) (auto simp: split_beta Let_def admin_calm intro!: shape_finish shape_on_admin [unfolded split_beta] split: sum.split)
next
  case (Toggle_endpoint now i b)
  obtain x st1 where x: "found (on_admin (admin_get_endpoint ev i) st) = (x, st1)"
    and st1: "app_gateway st1 = app_gateway st" "calm (app_admin st) \<longrightarrow> calm (app_admin st1)"
    using endpoint_read [of ev i st] by blast
  show ?thesis unfolding Toggle_endpoint http_call.simps shape_apfst http_toggle_endpoint_def x
    using st1 by (cases x) (auto simp: split_beta Let_def admin_calm intro!: shape_finish shape_on_admin [unfolded split_beta] split: sum.split)
qed (use assms in \<open>auto simp: http_defs shape_apfst admin_calm intro!: shape_on_admin\<close>)

lemma read_catalogue_calm:
  assumes "calm (app_admin st)"
  shows "\<exists>models endpoints. read_catalogue ev st = (Some (models, endpoints), st)"
proof -
  have "\<exists>models. via_models (Ok []) (ms_list ev) (app_admin st) = (Ok models, app_admin st)"
  proof (cases "ah_model_store (app_admin st)")
    case (Some ms)
    then show ?thesis using assms by (cases ms) (simp_all add: via_models_def store_defs calm_def)
  qed (simp add: via_models_def)
  moreover have "\<exists>endpoints. via_endpoints (Ok []) (es_list ev) (app_admin st) = (Ok endpoints, app_admin st)"
  proof (cases "ah_model_endpoint_store (app_admin st)")
    case (Some es)
    then show ?thesis using assms by (cases es) (simp_all add: via_endpoints_def store_defs calm_def)
  qed (simp add: via_endpoints_def)
  ultimately show ?thesis
    by (auto simp: read_catalogue_def on_admin_def admin_list_models_def admin_list_endpoints_def)
qed

lemma rebuild_gateway:
  assumes "rebuild_targets_from_db models endpoints on_empty g = (out, g')"
  shows "gw_targets g' = (if routable_rows g models endpoints = [] \<and> on_empty = KeepPrevious then gw_targets g
      else map (\<lambda>r. target_of (fst r) (snd r)) (routable_rows g models endpoints))"
    "gw_provider_registry g' = gw_provider_registry g"
  using rebuild_unfold [OF assms refl] by (auto simp: rebuilt_def Let_def split: if_splits)

text \<open>The routes the stored catalogue calls for.\<close>

definition wanted_rows :: "store_env \<Rightarrow> ('w, 'sec) AppState \<Rightarrow> (Model \<times> ModelEndpoint) list" where
  "wanted_rows ev st =
     (case read_catalogue ev st of
        (Some (models, endpoints), _) \<Rightarrow> routable_rows (app_gateway st) models endpoints
      | _ \<Rightarrow> [])"

definition row_target :: "Model \<times> ModelEndpoint \<Rightarrow> Target" where
  "row_target r = target_of (fst r) (snd r)"

lemma rebuilt_follows:
  assumes "calm (app_admin st)" and reb: "rebuild_targets_from_db models endpoints on_empty (app_gateway st) = (out, g')"
    and rd: "read_catalogue ev st = (Some (models, endpoints), st)"
  shows "let st' = st\<lparr>app_gateway := g'\<rparr>; rows = wanted_rows ev st' in
    gw_targets g' = (if rows = [] \<and> on_empty = KeepPrevious then gw_targets (app_gateway st) else map row_target rows)"
proof -
  have "read_catalogue ev (st\<lparr>app_gateway := g'\<rparr>) = (Some (models, endpoints), st\<lparr>app_gateway := g'\<rparr>)"
    using rd by (cases st) (auto simp: read_catalogue_def on_admin_def split_beta Let_def split: sum.splits)
  then have "wanted_rows ev (st\<lparr>app_gateway := g'\<rparr>) = routable_rows (app_gateway st) models endpoints"
    using rebuild_gateway(2) [OF reb] by (simp add: wanted_rows_def routable_rows_def)
  then show ?thesis using rebuild_gateway(1) [OF reb] by (simp add: Let_def row_target_def [abs_def])
qed

text \<open>C16: An admin change takes effect at once: after a successful call that creates, updates, deletes or toggles a model or
  an endpoint the routing table holds exactly the targets the stored catalogue now calls for; only while the
  database does not own routing does a catalogue without routes leave the configured targets alone. A refused
  call leaves the gateway as it was.\<close>

theorem mutation_reroutes:
  assumes "mutates c" "md_faults (ah_db (app_admin st)) = []" "http_call ev env c st = (r, st')"
  shows "if is_ok r
     then gw_targets (app_gateway st') =
       (if wanted_rows ev st' = [] \<and> \<not> db_owns_routing (app_gateway st) then gw_targets (app_gateway st)
        else map row_target (wanted_rows ev st'))
     else app_gateway st' = app_gateway st"
proof -
  obtain st1 where st1: "app_gateway st1 = app_gateway st" "calm (app_admin st1)"
      "case r of Ok _ \<Rightarrow> st' = rebuild_targets ev st1 | Err _ \<Rightarrow> st' = st1"
    using http_mutation_shape [OF assms(1), of ev st env] assms(2,3) by (auto simp: mutation_shape_def calm_def split: sum.splits)
  show ?thesis
  proof (cases r)
    case (Inr a)
    obtain models endpoints where rd: "read_catalogue ev st1 = (Some (models, endpoints), st1)"
      using read_catalogue_calm [OF st1(2)] by blast
    let ?oe = "if db_owns_routing (app_gateway st1) then Apply else KeepPrevious"
    obtain out g' where reb: "rebuild_targets_from_db models endpoints ?oe (app_gateway st1) = (out, g')" by fastforce
    have "st' = st1\<lparr>app_gateway := g'\<rparr>" using st1(3) Inr rd reb by (simp add: rebuild_targets_def on_gateway_def)
    with rebuilt_follows [OF st1(2) reb rd] show ?thesis using Inr st1(1) by (auto simp: Let_def)
  qed (use st1 in simp)
qed


section \<open>Configuration changes\<close>

text \<open>Applying a configuration never takes the database's models out of routing: after a successful update the routing
  table holds the targets the catalogue calls for, or the configuration's own targets where the catalogue calls
  for none; a refused configuration changes nothing.\<close>

theorem config_keeps_db_routing:
  assumes "md_faults (ah_db (app_admin st)) = []" "http_update_config regex_new ev now config st = (r, st')"
  shows "if is_ok r
     then gw_targets (app_gateway st') =
       (if wanted_rows ev st' = [] then cfg_targets (apply_guardrail_deprecations config) else map row_target (wanted_rows ev st'))
     else st' = st"
proof (cases "apply_config regex_new config (app_gateway st)")
  case (Pair a g1)
  show ?thesis
  proof (cases a)
    case (Inl e)
    then have "g1 = app_gateway st" using Pair by (auto simp: apply_config_def Let_def split: sum.splits)
    then show ?thesis using assms(2) Pair Inl by (auto simp: http_update_config_def on_gateway_def reload_config_def)
  next
    case (Inr u)
    define st1 where "st1 = st\<lparr>app_gateway := g1\<lparr>gw_config_history := history_record now config None (gw_config_history g1)\<rparr>\<rparr>"
    have targets: "gw_targets (app_gateway st1) = cfg_targets (apply_guardrail_deprecations config)"
      using Pair Inr by (auto simp: st1_def apply_config_def Let_def split: sum.splits)
    have r: "is_ok r" "st' = reassert_db_targets_after_config ev st1"
      using assms(2) Pair Inr by (auto simp: http_update_config_def on_gateway_def reload_config_def st1_def)
    have "calm (app_admin st1)" using assms(1) by (simp add: st1_def calm_def)
    then obtain models endpoints where rd: "read_catalogue ev st1 = (Some (models, endpoints), st1)"
      using read_catalogue_calm by blast
    obtain out g' where reb: "rebuild_targets_from_db models endpoints KeepPrevious (app_gateway st1) = (out, g')" by fastforce
    have "st' = st1\<lparr>app_gateway := g'\<rparr>" using r(2) rd reb by (simp add: reassert_db_targets_after_config_def on_gateway_def)
    with rebuilt_follows [OF \<open>calm (app_admin st1)\<close> reb rd] targets r(1) show ?thesis by (auto simp: Let_def)
  qed
qed

section \<open>What clients see of failures\<close>

text \<open>A gateway error reaches the client with its status; what lies behind a server error stays inside, one of two fixed
  texts standing for it, and every refusal for rate or quota says when to come back.\<close>

theorem errors_hide_internals:
  "rsp_status (error_to_response e) = status_code e
   \<and> (500 \<le> status_code e \<longrightarrow> rsp_body (error_to_response e) \<in>
        {Json_body (error_envelope ''internal server error''), Json_body (error_envelope ''upstream provider unavailable'')})
   \<and> (status_code e < 500 \<longrightarrow> rsp_body (error_to_response e) = Json_body (error_envelope (show_gateway_error e)))
   \<and> (status_code e = 429 \<longleftrightarrow> rsp_retry_after (error_to_response e) \<noteq> None)"
  by (cases e) (simp_all add: error_to_response_def public_message_def is_server_error_def retry_after_secs_def)

theorem errors_hide_internals_witness:
  "rsp_body (error_to_response (Provider ''upstream said: key sk-1 revoked'')) = Json_body (error_envelope ''internal server error'')"
  using errors_hide_internals [of "Provider ''upstream said: key sk-1 revoked''"]
  by (simp add: error_to_response_def public_message_def is_server_error_def)

text \<open>A streamed answer is the chunks in their order up to the first failure, then, after a failure, one event that says
  no more than that the stream was interrupted, and always the closing sentinel, last and once.\<close>

theorem stream_events_closed:
  assumes "b = Chat_stream s \<and> pay = chat_payload wl \<or> b = Text_stream s \<and> pay = text_payload wl"
  shows "\<exists>good. stream_events wl b chunks = good @
      (if \<forall>x\<in>set (map pay chunks). is_ok x then [] else [wl_json wl STREAM_ERROR]) @ [''[DONE]'']
    \<and> map Ok good = takeWhile is_ok (map pay chunks)"
proof -
  have scan: "\<exists>good. sse_scan f items = good @ (if \<forall>x\<in>set items. is_ok x then [] else [f STREAM_ERROR])
      \<and> map Ok good = takeWhile is_ok items" for f and items :: "(ProviderError, string) result list"
  proof (induction items)
    case (Cons x items)
    show ?case
    proof (cases x)
      case (Inr p)
      from Cons obtain good where "sse_scan f items = good @ (if \<forall>x\<in>set items. is_ok x then [] else [f STREAM_ERROR])"
        "map Ok good = takeWhile is_ok items" by blast
      then show ?thesis using Inr by (intro exI [of _ "p # good"]) simp
    qed simp
  qed simp
  have "stream_events wl b chunks = sse_scan (wl_json wl) (map pay chunks) @ [''[DONE]'']"
    using assms by (auto simp: stream_events_def sse_response_def)
  then show ?thesis using scan [of "wl_json wl" "map pay chunks"] by auto
qed

section \<open>Who the client is\<close>

lemma show_ipv4_no_space: "c \<in> set (show_ipv4 w x y z) \<Longrightarrow> \<not> is_space c \<and> c \<noteq> CHR '',''"
  using show_ipv4_chars [of c w x y z] by (auto simp: is_space_def)

lemma trim_ipv4: "trim (CHR '' '' # show_ipv4 a b c d) = show_ipv4 a b c d"
proof -
  obtain x xs where x: "show_ipv4 a b c d = x # xs"
    by (cases "show_ipv4 a b c d") (use parse_ipv4_show [of a b c d] in \<open>auto simp: parse_ipv4_def\<close>)
  obtain y ys where y: "rev (show_ipv4 a b c d) = y # ys" using x by (cases "rev (show_ipv4 a b c d)") simp_all
  have "\<not> is_space x" "\<not> is_space y" using show_ipv4_no_space [of _ a b c d] x y
    by (metis list.set_intros(1), metis list.set_intros(1) set_rev)
  moreover have "is_space (CHR '' '')" by (simp add: is_space_def)
  moreover have "rev (y # ys) = show_ipv4 a b c d" using y by (metis rev_rev_ident)
  ultimately have "trim_start (CHR '' '' # show_ipv4 a b c d) = show_ipv4 a b c d" "rev (trim_start (y # ys)) = show_ipv4 a b c d"
    by (simp_all add: trim_start_def x)
  then have "trim_start (CHR '' '' # show_ipv4 a b c d) = show_ipv4 a b c d" "rev (trim_start (rev (show_ipv4 a b c d))) = show_ipv4 a b c d"
    unfolding y by simp_all
  then show ?thesis by (simp add: trim_def)
qed

text \<open>A client cannot choose the address it is known by. Connecting directly, its own address counts whatever headers it
  sends; behind a proxy on an internal address, the address the proxy appended counts, whatever the client wrote
  before it, and a public address claimed from outside a proxy is never believed.\<close>

theorem client_address_unspoofable:
  "(\<not> ip_is_internal peer \<longrightarrow> resolve_remote_ip peer hs = Some (show_ip peer))
   \<and> (ip_is_internal peer \<and> \<not> ip_is_internal (V4 a b c d)
        \<and> header_str hs ''x-forwarded-for'' = Some (claimed @ '', '' @ show_ipv4 a b c d)
      \<longrightarrow> resolve_remote_ip peer hs = Some (show_ipv4 a b c d))"
proof (intro conjI impI)
  assume "ip_is_internal peer \<and> \<not> ip_is_internal (V4 a b c d)
        \<and> header_str hs ''x-forwarded-for'' = Some (claimed @ '', '' @ show_ipv4 a b c d)"
  then have a: "ip_is_internal peer" "\<not> ip_is_internal (V4 a b c d)" "header_str hs ''x-forwarded-for'' = Some (claimed @ '', '' @ show_ipv4 a b c d)"
    by blast+
  have pub: "public_ip (CHR '' '' # show_ipv4 a b c d) = Some (show_ipv4 a b c d)"
    using a(2) by (simp add: public_ip_def trim_ipv4 parse_ip_def parse_ipv4_show)
  have "CHR '','' \<notin> set (CHR '' '' # show_ipv4 a b c d)" using show_ipv4_no_space [of "CHR '',''" a b c d] by auto
  then have "split_char (CHR '','') (claimed @ '', '' @ show_ipv4 a b c d) = split_char (CHR '','') claimed @ [CHR '' '' # show_ipv4 a b c d]"
    using split_char_app [of "CHR '',''" claimed "CHR '' '' # show_ipv4 a b c d"] split_char_no_sep by simp
  then have "first_public (rev (split_char (CHR '','') (claimed @ '', '' @ show_ipv4 a b c d))) = Some (show_ipv4 a b c d)"
    by (simp add: pub)
  then show "resolve_remote_ip peer hs = Some (show_ipv4 a b c d)"
    using a(1,3) by (simp add: resolve_remote_ip_def trusted_proxy_ip_def)
qed (simp add: resolve_remote_ip_def)


section \<open>Who may administer\<close>

lemma key_context_admin: "au_scope (key_context key) = Admin_scope \<longleftrightarrow> ''admin'' \<in> set (ak_scopes key)"
  by (simp add: key_context_def)

text \<open>An admin handler runs only for an administrator: where any form of authentication is configured the bearer token
  is a valid break-glass token or a valid token of the configured issuer with the admin scope, the master key,
  or a live key whose scopes name admin; every other request is refused without touching the application.\<close>

theorem admin_needs_admin:
  assumes "admin_route ve ip header handler (ca, st) = (out, ca', st')"
  shows "case out of
     Err e \<Rightarrow> st' = st
   | Ok r \<Rightarrow> handler st = (r, st')
       \<and> (ca_jwt ca = None \<and> ca_admin_login ca = None \<and> mw_master_key (ca_api_key ca) = None
          \<or> (\<exists>token. bearer header = Some token \<and>
               ((\<exists>lg claims. ca_admin_login ca = Some lg \<and> admin_validate (ve_admin_decode ve) token lg = Ok claims
                   \<and> au_scope (into_auth_context claims) = Admin_scope)
                \<or> (\<exists>d claims. ca_jwt ca = Some d \<and> validate_token (ve_lib ve) token d = Ok claims
                   \<and> au_scope (into_auth_context claims) = Admin_scope)
                \<or> mw_master_key (ca_api_key ca) = Some token
                \<or> (\<exists>key. fst (backend_validate (ve_keys ve) (ve_now ve) token (mw_store (ca_api_key ca))) = Ok (Some key)
                   \<and> ''admin'' \<in> set (ak_scopes key)))))"
proof (cases "combined_middleware ve ip header ca")
  case (Pair verdict ca1)
  show ?thesis
  proof (cases verdict)
    case (Inl e)
    with Pair assms show ?thesis by (auto simp: admin_route_def)
  next
    case (Inr ctx)
    show ?thesis
    proof (cases "au_scope ctx = Admin_scope")
      case False
      with Pair Inr assms show ?thesis by (auto simp: admin_route_def require_admin_scope_def)
    next
      case True
      then have run: "out = Ok (fst (handler st))" "st' = snd (handler st)"
        using Pair Inr assms by (auto simp: admin_route_def require_admin_scope_def split_beta)
      have "combined_middleware ve ip header ca = (Ok ctx, ca1)" using Pair Inr by simp
      from combined_admits [OF this] True run show ?thesis by (auto simp: key_context_admin)
    qed
  qed
qed

text \<open>The metrics are shown without a credential only where the token that guards them is absent or empty; otherwise
  exactly the bearer of that token sees them.\<close>

theorem metrics_guarded:
  "rsp_status (metrics_handler encode env hs st) = (case metrics_token env st of
       None \<Rightarrow> 200
     | Some token \<Rightarrow> if Option.bind (header_str hs ''authorization'') (strip_prefix ''Bearer '') = Some token then 200 else 401)"
  by (auto simp: metrics_handler_def ok_response_def json_response_def is_some_and_def constant_time_eq_iff as_bytes_inj split: option.split)

section \<open>Where the handlers fall short\<close>

text \<open>An empty token in the environment is taken instead of the master key and then counts as no token at all.\<close>

lemma empty_metrics_token_exposes:
  "env ''METRICS_TOKEN'' = Some [] \<Longrightarrow> rsp_status (metrics_handler encode env hs st) = 200"
  by (simp add: metrics_handler_def metrics_token_def or_else_def ok_response_def)

text \<open>The passthrough appends the whole request path to a base URL that ends in the version segment.\<close>

lemma proxy_doubles_version:
  assumes "tg_base_url t = None" "pv_name p = ''openai''"
  shows "trim_end_matches (CHR ''/'') (proxy_base_url t p) @ ''/v1/images/generations'' = ''https://api.openai.com/v1/v1/images/generations''"
  using assms by (simp add: proxy_base_url_def trim_end_matches_def unwrap_or_def)

text \<open>A repeated response header survives the passthrough only once.\<close>

lemma proxy_drops_repeated_headers:
  "returned_headers [(''set-cookie'', ''a''), (''set-cookie'', ''b'')] = [(''set-cookie'', ''b'')]"
  by (simp add: returned_headers_def)

text \<open>How serde reads an optional value: null is no value. Read as an option of an option, null is therefore no change, and no
  document asks for a stored value to be cleared.\<close>

definition option_of_json :: "(json \<Rightarrow> ('e, 'a) result) \<Rightarrow> json \<Rightarrow> ('e, 'a option) result" where
  "option_of_json dec j = (case j of JNull \<Rightarrow> Ok None | _ \<Rightarrow> map_sum id Some (dec j))"

lemma no_document_clears: "option_of_json (option_of_json dec) j \<noteq> Ok (Some None)"
proof (cases "j = JNull")
  case False
  then have "option_of_json dec j \<noteq> Ok None" by (auto simp: option_of_json_def map_sum_def split: json.split sum.split)
  then show ?thesis using False by (auto simp: option_of_json_def [of "option_of_json dec"] map_sum_def split: json.split sum.splits)
qed (simp add: option_of_json_def)


section \<open>Concrete instances\<close>

definition http_state :: "(unit, unit) AppState" where
  "http_state = \<lparr>app_gateway = cat_gateway, app_admin = cat_admin, app_admin_login = None\<rparr>"

lemma http_state_calm: "md_faults (ah_db (app_admin http_state)) = []"
  by (simp add: http_state_def cat_admin_def with_model_stores_def)

theorem mutation_reroutes_witness:
  "let out = http_call cat_env Map.empty (Toggle_endpoint 5 ''u2'' False) http_state; st' = snd out in
   if is_ok (fst out)
   then gw_targets (app_gateway st') =
     (if wanted_rows cat_env st' = [] \<and> \<not> db_owns_routing (app_gateway http_state) then gw_targets (app_gateway http_state)
      else map row_target (wanted_rows cat_env st'))
   else app_gateway st' = app_gateway http_state"
  unfolding Let_def by (rule mutation_reroutes [OF _ http_state_calm surjective_pairing]) simp

theorem config_keeps_db_routing_witness:
  "let out = http_update_config (\<lambda>_. None) cat_env 7 Config_default http_state; st' = snd out in
   if is_ok (fst out)
   then gw_targets (app_gateway st') =
     (if wanted_rows cat_env st' = [] then cfg_targets (apply_guardrail_deprecations Config_default) else map row_target (wanted_rows cat_env st'))
   else st' = http_state"
  unfolding Let_def by (rule config_keeps_db_routing [OF http_state_calm surjective_pairing])

definition plain_wire :: wire_lib where
  "plain_wire = \<lparr>wl_chunk = (\<lambda>c. Ok (sk_id c)), wl_json = (\<lambda>_. ''!''), wl_decode_error = (\<lambda>_. [])\<rparr>"

theorem stream_events_closed_witness:
  "\<forall>s :: unit GuardrailStream. \<forall>c. stream_events plain_wire (Chat_stream s) [Ok (c\<lparr>sk_id := ''a''\<rparr>), Err (PE_Parse ''x''), Ok c] = [''a'', ''!'', ''[DONE]'']"
proof (intro allI)
  fix s :: "unit GuardrailStream" and c :: StreamChunk
  let ?items = "[Ok (c\<lparr>sk_id := ''a''\<rparr>), Err (PE_Parse ''x''), Ok c] :: (ProviderError, StreamChunk) result list"
  have "map (chat_payload plain_wire) ?items = [Ok ''a'', Err (PE_Parse ''x''), Ok (sk_id c)]"
    by (simp add: chat_payload_def plain_wire_def)
  with stream_events_closed [of "Chat_stream s" s "chat_payload plain_wire" plain_wire ?items]
  show "stream_events plain_wire (Chat_stream s) ?items = [''a'', ''!'', ''[DONE]'']"
    by (auto simp: plain_wire_def map_eq_Cons_conv)
qed

theorem client_address_unspoofable_witness:
  "resolve_remote_ip (V4 10 0 0 1) [(''x-forwarded-for'', ''1.2.3.4, '' @ show_ipv4 8 8 4 4)] = Some (show_ipv4 8 8 4 4)"
proof -
  have "header_str [(''x-forwarded-for'', ''1.2.3.4, '' @ show_ipv4 8 8 4 4)] ''x-forwarded-for'' = Some (''1.2.3.4'' @ '', '' @ show_ipv4 8 8 4 4)"
  proof -
    have "32 \<le> (of_char c :: nat) \<and> (of_char c :: nat) < 127" if "c \<in> set (show_ipv4 8 8 4 4)" for c
      using show_ipv4_chars [OF that] by linarith
    then show ?thesis by (simp add: header_str_def header_to_str_def)
  qed
  moreover have "ip_is_internal (V4 10 0 0 1)" by (simp add: v4_is_private_def)
  moreover have "\<not> ip_is_internal (V4 8 8 4 4)" by (simp add: v4_is_private_def v4_is_documentation_def)
  ultimately show ?thesis using client_address_unspoofable [of "V4 10 0 0 1" _ 8 8 4 4 "''1.2.3.4''"] by blast
qed

theorem admin_needs_admin_witness:
  "fst (admin_route demo_ve None (Some ''Bearer mk'') (\<lambda>s :: nat. ((), s + 1)) (demo_ca, 0)) = Ok ()
   \<and> snd (snd (admin_route demo_ve None (Some ''Bearer mk'') (\<lambda>s :: nat. ((), s + 1)) (demo_ca, 0))) = 1"
proof -
  have run: "admin_route demo_ve None (Some ''Bearer mk'') (\<lambda>s :: nat. ((), s + 1)) (demo_ca, 0) = (Ok (), demo_ca, 1)"
    by (simp add: admin_route_def demo_master require_admin_scope_def master_context_def)
  from admin_needs_admin [OF run] run show ?thesis by simp
qed

end
