(* ===== verification/Boot.thy ===== *)
theory Boot
  imports Http_Api Plugin_Wiring Provider_Clients
begin

text \<open>
  The binary: command line, start-up checks, the clients and stores the environment configures, the order in which
  \<^verbatim>\<open>main\<close> builds the gateway and where it stops with an exit code, the cross-origin layer, and the router that puts
  every handler behind its authentication.
\<close>

section \<open>Command line\<close>

record CliArgs =
  cli_migrate :: bool
  cli_port :: "string option"

fun parse_args :: "string list \<Rightarrow> CliArgs \<Rightarrow> (nat, CliArgs) result" where
  "parse_args [] cli = Ok cli"
| "parse_args (arg # args) cli =
     (if arg = ''--migrate'' then parse_args args (cli\<lparr>cli_migrate := True\<rparr>)
      else if arg = ''--port'' then
        (case args of
           [] \<Rightarrow> parse_args [] (cli\<lparr>cli_port := None\<rparr>)
         | p # rest \<Rightarrow> parse_args rest (cli\<lparr>cli_port := Some p\<rparr>))
      else if arg = ''--help'' \<or> arg = ''-h'' then Err 0
      else Err 2)"

definition parse_cli_args :: "string list \<Rightarrow> (nat, CliArgs) result" where
  "parse_cli_args args = parse_args args \<lparr>cli_migrate = False, cli_port = None\<rparr>"

section \<open>Authentication required\<close>

definition env_is_nondev_deployment :: "string option \<Rightarrow> bool" where
  "env_is_nondev_deployment value =
     (case map_option (\<lambda>v. to_ascii_lowercase (trim v)) value of
        Some v \<Rightarrow> v \<in> set [''production'', ''prod'', ''staging'']
      | None \<Rightarrow> False)"

definition auth_is_required :: "env_vars \<Rightarrow> bool" where
  "auth_is_required env =
     (flag_is_truthy env ''REQUIRE_AUTH'' \<or> env_is_nondev_deployment (or_else (env ''RUST_ENV'') (env ''HIMADRI_ENV'')))"

definition master_key_configured :: "Config \<Rightarrow> bool" where
  "master_key_configured config = is_some_and (adm_master_key (cfg_admin config)) (\<lambda>k. trim k \<noteq> [])"

section \<open>Source of the routes\<close>

datatype ProviderSource = Auto | Db

definition PROVIDER_SOURCE_VAR :: string where
  "PROVIDER_SOURCE_VAR = ''HIMADRI_PROVIDER_SOURCE''"

definition parse_source :: "string \<Rightarrow> (string, ProviderSource) result" where
  "parse_source raw =
     (let v = to_ascii_lowercase (trim raw)
      in if v = [] \<or> v = ''auto'' then Ok Auto
         else if v = ''db'' \<or> v = ''database'' then Ok Db
         else Err (PROVIDER_SOURCE_VAR @ '' has unrecognized value '' @ quoted v @
                    '' (expected '' @ quoted ''auto'' @ '' or '' @ quoted ''db'' @ '')''))"

definition source_from_env :: "env_vars \<Rightarrow> (string, ProviderSource) result" where
  "source_from_env env = (case env PROVIDER_SOURCE_VAR of Some raw \<Rightarrow> parse_source raw | None \<Rightarrow> Ok Auto)"

text \<open>The names of the built-in vendors are ASCII, where the Unicode upper-casing is the ASCII one.\<close>

definition to_uppercase :: "string \<Rightarrow> string" where
  "to_uppercase s =
     map (\<lambda>c. let n = (of_char c :: nat) in if 97 \<le> n \<and> n \<le> 122 then char_of (n - 32) else c) s"

definition api_key_env_var :: "string \<Rightarrow> string" where
  "api_key_env_var provider_type = to_uppercase provider_type @ ''_API_KEY''"

definition non_preset_env_ALL :: "string list" where
  "non_preset_env_ALL =
     [''OPENAI_BASE_URL'', ''OPENAI_SECONDARY_BASE_URL'', ''AZURE_OPENAI_API_KEY'', ''AZURE_OPENAI_ENDPOINT'',
      ''AZURE_OPENAI_DEPLOYMENT'', ''AZURE_OPENAI_API_VERSION'']"

definition inert_provider_env_vars :: "(string \<Rightarrow> bool) \<Rightarrow> string list" where
  "inert_provider_env_vars is_set =
     filter is_set (map (\<lambda>(provider_type, _). api_key_env_var provider_type) preset_factories @ non_preset_env_ALL)"

definition inert_provider_env_vars_from_env :: "env_vars \<Rightarrow> string list" where
  "inert_provider_env_vars_from_env env = inert_provider_env_vars (\<lambda>var. env var \<noteq> None)"

definition routing_messages :: "ProviderSource \<Rightarrow> bool \<Rightarrow> env_vars \<Rightarrow> string list" where
  "routing_messages source db_routing_active env =
     (let inert = inert_provider_env_vars_from_env env
      in case source of
           Db \<Rightarrow>
             [''Provider routing: database (strict)'']
             @ (if \<not> db_routing_active
                then [''strict database routing has no targets yet; nothing will route until models/endpoints are configured via the admin API'']
                else [])
             @ (if inert \<noteq> [] then [''provider env vars are ignored under '' @ PROVIDER_SOURCE_VAR @ ''=db: '' @ join '', '' inert] else [])
         | Auto \<Rightarrow>
             if db_routing_active
             then [''Provider routing: database'']
                  @ (if inert \<noteq> []
                     then [''provider env vars set but not used for routing while the database provides targets (they remain the routing fallback if it stops): ''
                           @ join '', '' inert]
                     else [])
             else if env ''DATABASE_URL'' \<noteq> None
             then [''Provider routing: environment/config (database routing configured but has no targets yet)'']
             else [''Provider routing: environment/config''])"

section \<open>Clients configured by the environment\<close>

fun client_name :: "client \<Rightarrow> string" where
  "client_name (Anthropic_client _) = ''anthropic''"
| "client_name (Gemini_client _) = ''gemini''"
| "client_name (Compatible_client c) = oc_name c"

definition openai_from_env :: "env_vars \<Rightarrow> client" where
  "openai_from_env env =
     Compatible_client (case env ''OPENAI_BASE_URL'' of Some u \<Rightarrow> preset_openai\<lparr>oc_base_url := u\<rparr> | None \<Rightarrow> preset_openai)"

definition secondary_from_env :: "env_vars \<Rightarrow> client list" where
  "secondary_from_env env =
     (case env ''OPENAI_SECONDARY_BASE_URL'' of
        Some u \<Rightarrow> [Compatible_client (preset_openai\<lparr>oc_name := ''openai-secondary'', oc_display_name := ''OpenAI Secondary'', oc_base_url := u\<rparr>)]
      | None \<Rightarrow> [])"

definition azure_from_env :: "env_vars \<Rightarrow> client list" where
  "azure_from_env env =
     (case (env ''AZURE_OPENAI_API_KEY'', env ''AZURE_OPENAI_ENDPOINT'', env ''AZURE_OPENAI_DEPLOYMENT'') of
        (Some _, Some base_url, Some deployment) \<Rightarrow>
          [Compatible_client (compatible_azure base_url deployment (unwrap_or (env ''AZURE_OPENAI_API_VERSION'') ''2024-10-21''))]
      | _ \<Rightarrow> [])"

definition presets_from_env :: "env_vars \<Rightarrow> client list" where
  "presets_from_env env =
     map (\<lambda>(_, preset). Compatible_client preset)
       (filter (\<lambda>(provider_type, _). provider_type \<noteq> ''openai'' \<and> env (api_key_env_var provider_type) \<noteq> None) preset_factories)"

text \<open>The clients in the order they are registered.\<close>

definition clients_from_env :: "env_vars \<Rightarrow> client list" where
  "clients_from_env env =
     openai_from_env env # secondary_from_env env @ [Anthropic_client (anthropic_new None), Gemini_client (gemini_new None)]
     @ azure_from_env env @ presets_from_env env"

text \<open>A client as the gateway holds it: the calls are an argument, the name is the client's own.\<close>

definition boxed :: "(client \<Rightarrow> 'w Provider) \<Rightarrow> client \<Rightarrow> 'w Provider" where
  "boxed provider_of c = (provider_of c)\<lparr>pv_name := client_name c\<rparr>"

definition register_providers_from_env :: "(client \<Rightarrow> 'w Provider) \<Rightarrow> env_vars \<Rightarrow> 'w Gateway \<Rightarrow> 'w Gateway" where
  "register_providers_from_env provider_of env g = fold (\<lambda>c. register_provider (boxed provider_of c)) (clients_from_env env) g"

section \<open>Stores\<close>

text \<open>Opening a key store fails, or gives the table as the database holds it.\<close>

definition store_backend_new ::
    "(string \<Rightarrow> (string, table) result) \<Rightarrow> (string \<Rightarrow> (string, table) result) \<Rightarrow> env_vars \<Rightarrow> StoreBackend" where
  "store_backend_new pg sqlite env =
     (case env ''DATABASE_URL'' of
        None \<Rightarrow> Memory ks_new
      | Some database_url \<Rightarrow>
          (case (if starts_with ''postgres'' database_url then pg database_url else Err []) of
             Ok rows \<Rightarrow> Postgres rows
           | Err _ \<Rightarrow>
               (case (if starts_with ''sqlite'' database_url then sqlite database_url else Err []) of
                  Ok rows \<Rightarrow> Sqlite rows
                | Err _ \<Rightarrow> Memory ks_new)))"

section \<open>Cross-origin layer\<close>

text \<open>The layer of \<^verbatim>\<open>tower_http\<close>: each setter overrides what an earlier call set.\<close>

datatype AllowOrigin = No_origin | Any_origin | Exact_origin string

record CorsLayer =
  cl_origin :: AllowOrigin
  cl_methods :: "string list"
  cl_headers :: "string list"

definition cors_layer_new :: CorsLayer where
  "cors_layer_new = \<lparr>cl_origin = No_origin, cl_methods = [], cl_headers = []\<rparr>"

definition allow_origin :: "AllowOrigin \<Rightarrow> CorsLayer \<Rightarrow> CorsLayer" where
  "allow_origin a c = c\<lparr>cl_origin := a\<rparr>"

text \<open>Reading a header value, a method or a header name is the \<^verbatim>\<open>http\<close> crate's.\<close>

record http_parsers =
  xh_value :: "string \<Rightarrow> string option"
  xh_method :: "string \<Rightarrow> string option"
  xh_name :: "string \<Rightarrow> string option"

definition build_cors :: "http_parsers \<Rightarrow> CorsConfig \<Rightarrow> CorsLayer" where
  "build_cors hp c =
     (if cors_enabled c
      then (let cors = (if cors_allowed_origins c = [] then allow_origin Any_origin cors_layer_new
                        else fold (\<lambda>origin cors. case xh_value hp origin of Some url \<Rightarrow> allow_origin (Exact_origin url) cors | None \<Rightarrow> cors)
                               (cors_allowed_origins c) cors_layer_new)
            in cors\<lparr>cl_methods := List.map_filter (xh_method hp) (cors_allowed_methods c),
                    cl_headers := List.map_filter (xh_name hp) (cors_allowed_headers c)\<rparr>)
      else cors_layer_new)"


section \<open>Start-up\<close>

text \<open>What the process meets when it starts: the environment and the regex, pricing and registry arguments of the gateway
  (\<^verbatim>\<open>be_wiring\<close>), the files, the databases at the moment each component connects to them, the identity provider, the
  port, and the libraries the sources only call.\<close>

record ('k, 'sec) boot_env =
  be_wiring :: "plugin_world wiring"
  be_read_to_string :: "string \<Rightarrow> (string, string) result"
  be_from_json :: "string \<Rightarrow> (string, Config) result"
  be_migrate_pg :: connector
  be_migrate_sqlite :: connector
  be_assembly :: assembly
  be_numbers :: number_parsers
  be_provider_of :: "client \<Rightarrow> plugin_world Provider"
  be_cache :: "CacheSettings \<Rightarrow> plugin_world ResponseCache"
  be_log_store :: "string \<Rightarrow> (string, log_ref) result"
  be_keys_pg :: "string \<Rightarrow> (string, table) result"
  be_keys_sqlite :: "string \<Rightarrow> (string, table) result"
  be_models_pg :: connector
  be_models_sqlite :: connector
  be_store :: store_env
  be_discover :: "string \<Rightarrow> (AuthError, string) result"
  be_fetch_jwks :: "string \<Rightarrow> (AuthError, 'k Jwk list) result"
  be_clock :: nat
  be_secret :: 'sec
  be_http :: http_parsers
  be_bind :: "string \<Rightarrow> bool"

abbreviation be_env :: "('k, 'sec) boot_env \<Rightarrow> env_vars" where
  "be_env b \<equiv> wi_env (be_wiring b)"

text \<open>A step that stops the process yields its exit code.\<close>

definition load_config :: "('k, 'sec) boot_env \<Rightarrow> (nat, Config) result" where
  "load_config b =
     (case load_from_env (be_env b) (be_read_to_string b) (be_from_json b) of
        Err _ \<Rightarrow> Err 1
      | Ok config \<Rightarrow>
          Ok (case be_env b ''MASTER_KEY'' of
                Some key \<Rightarrow> config\<lparr>cfg_admin := (cfg_admin config)\<lparr>adm_master_key := Some key\<rparr>\<rparr>
              | None \<Rightarrow> config))"

definition preflight :: "('k, 'sec) boot_env \<Rightarrow> (nat, Config \<times> ProviderSource) result" where
  "preflight b =
     (case load_config b of
        Err code \<Rightarrow> Err code
      | Ok config \<Rightarrow>
          if auth_is_required (be_env b) \<and> \<not> master_key_configured config then Err 1
          else (case source_from_env (be_env b) of
                  Err _ \<Rightarrow> Err 1
                | Ok source \<Rightarrow>
                    if source = Db \<and> be_env b ''DATABASE_URL'' = None then Err 1 else Ok (config, source)))"

definition migrate :: "('k, 'sec) boot_env \<Rightarrow> CliArgs \<Rightarrow> (nat, unit) result" where
  "migrate b cli =
     (if cli_migrate cli
      then (case be_env b ''DATABASE_URL'' of
              Some database_url \<Rightarrow>
                (case migrate_to_latest (be_migrate_pg b) (be_migrate_sqlite b) database_url of
                   Err _ \<Rightarrow> Err 1
                 | Ok _ \<Rightarrow> Ok ())
            | None \<Rightarrow> Err 1)
      else Ok ())"

text \<open>A panic while the plugins are built ends the process with code 101.\<close>

definition build_gateway :: "('k, 'sec) boot_env \<Rightarrow> Config \<Rightarrow> ProviderSource \<Rightarrow> (nat, plugin_world Gateway) result" where
  "build_gateway b config provider_source =
     (let env = be_env b; gateway = gateway_new (be_wiring b) config metrics_new;
          gateway = (if provider_source = Auto then register_providers_from_env (be_provider_of b) env gateway else gateway)
      in case build_plugins (be_assembly b) (plugin_settings_from_env (be_numbers b) env) config ((gw_world gateway)\<lparr>pw_config := config\<rparr>) of
           None \<Rightarrow> Err 101
         | Some (manager, response_cache, world) \<Rightarrow>
             (let gateway = set_plugin_manager manager (gateway\<lparr>gw_world := world\<rparr>);
                  gateway = (case response_cache of Some cache \<Rightarrow> set_response_cache (be_cache b cache) gateway | None \<Rightarrow> gateway)
              in Ok (case env ''DATABASE_URL'' of
                       Some database_url \<Rightarrow>
                         if starts_with ''postgres'' database_url
                         then (case be_log_store b database_url of Ok store \<Rightarrow> set_request_log_store store gateway | Err _ \<Rightarrow> gateway)
                         else gateway
                     | None \<Rightarrow> gateway)))"

definition build_admin :: "('k, 'sec) boot_env \<Rightarrow> Config \<Rightarrow> AdminHandlers \<times> AuthMiddleware" where
  "build_admin b config =
     (let env = be_env b; store = store_backend_new (be_keys_pg b) (be_keys_sqlite b) env; admin = admin_new store;
          cipher = from_env (sv_crypto (be_store b)) env;
          admin = (case env ''DATABASE_URL'' of
                     Some database_url \<Rightarrow>
                       (case connect_model_stores (be_models_pg b) (be_models_sqlite b) database_url cipher of
                          Some (model_store, endpoint_store, db) \<Rightarrow> with_model_stores model_store endpoint_store db admin
                        | None \<Rightarrow> admin)
                   | None \<Rightarrow> admin)
      in (admin, \<lparr>mw_store = store, mw_master_key = adm_master_key (cfg_admin config)\<rparr>))"

definition sync_targets :: "store_env \<Rightarrow> ('w, 'sec) AppState \<Rightarrow> bool \<times> ('w, 'sec) AppState" where
  "sync_targets ev st =
     (case read_catalogue ev st of
        (Some (db_models, db_endpoints), st) \<Rightarrow>
          apfst ro_applied (on_gateway (rebuild_targets_from_db db_models db_endpoints KeepPrevious) st)
      | (None, st) \<Rightarrow> (False, st))"

definition init_jwt_discovery :: "('k, 'sec) boot_env \<Rightarrow> (nat, 'k OidcDiscovery option) result" where
  "init_jwt_discovery b =
     (case be_env b ''JWT_ISSUER'' of
        Some issuer \<Rightarrow>
          if issuer \<noteq> []
          then (let audience = unwrap_or (be_env b ''JWT_AUDIENCE'') []
                in if audience = [] then Err 1
                   else (case oidc_new (be_discover b) (be_fetch_jwks b) (be_clock b) issuer audience (be_env b ''JWT_JWKS_URI'') of
                           Ok discovery \<Rightarrow> Ok (Some discovery)
                         | Err _ \<Rightarrow> Ok None))
          else Ok None
      | None \<Rightarrow> Ok None)"

text \<open>The process once it serves requests.\<close>

record ('k, 'sec) running =
  ru_state :: "(plugin_world, 'sec) AppState"
  ru_auth :: "('k, 'sec) CombinedAuth"
  ru_cors :: CorsLayer
  ru_addr :: string
  ru_messages :: "string list"

text \<open>From the built parts to a bound listener: the strict-mode check, the first look at the catalogue, the identity
  provider, the break-glass login and the port.\<close>

definition start_serving ::
    "('k, 'sec) boot_env \<Rightarrow> CliArgs \<Rightarrow> Config \<Rightarrow> ProviderSource \<Rightarrow> plugin_world Gateway \<Rightarrow> AdminHandlers \<Rightarrow> AuthMiddleware \<Rightarrow>
     (nat, ('k, 'sec) running) result" where
  "start_serving b cli config source gateway admin auth =
     (if source = Db \<and> \<not> has_model_stores admin then Err 1
      else (let (db_routing_active, st) = sync_targets (be_store b) \<lparr>app_gateway = gateway, app_admin = admin, app_admin_login = None\<rparr>
            in case init_jwt_discovery b of
                 Err code \<Rightarrow> Err code
               | Ok jwt_discovery \<Rightarrow>
                   (let admin_login = admin_login_from_env (np_u64 (be_numbers b)) (be_env b) (be_secret b);
                        addr = ''0.0.0.0:'' @ unwrap_or (or_else (cli_port cli) (be_env b ''PORT'')) ''8080''
                    in if be_bind b addr
                       then Ok \<lparr>ru_state = st\<lparr>app_admin_login := admin_login\<rparr>,
                                ru_auth = \<lparr>ca_api_key = auth, ca_jwt = jwt_discovery, ca_admin_login = admin_login,
                                           ca_audit = Some (st_audit_log (gw_stores (app_gateway st)))\<rparr>,
                                ru_cors = build_cors (be_http b) (cfg_cors config), ru_addr = addr,
                                ru_messages = routing_messages source db_routing_active (be_env b)\<rparr>
                       else Err 1)))"

definition main :: "('k, 'sec) boot_env \<Rightarrow> string list \<Rightarrow> (nat, ('k, 'sec) running) result" where
  "main b args =
     (case parse_cli_args args of
        Err code \<Rightarrow> Err code
      | Ok cli \<Rightarrow>
          (case preflight b of
             Err code \<Rightarrow> Err code
           | Ok (config, source) \<Rightarrow>
               (case migrate b cli of
                  Err code \<Rightarrow> Err code
                | Ok _ \<Rightarrow>
                    (case build_gateway b config source of
                       Err code \<Rightarrow> Err code
                     | Ok gateway \<Rightarrow>
                         (case build_admin b config of
                            (admin, auth) \<Rightarrow> start_serving b cli config source gateway admin auth)))))"


section \<open>Routes\<close>

datatype endpoint =
    Health | Metrics_page | Model_list | Admin_login
  | Chat | Completions | Embeddings | Passthrough
  | Keys_list | Keys_create | Key_get | Key_update | Key_delete | Key_revoke | Key_rotate
  | Models_list | Models_create | Model_get | Model_update | Model_delete | Model_toggle
  | Endpoints_list | Model_endpoints | Endpoint_create | Endpoint_get | Endpoint_update | Endpoint_delete | Endpoint_toggle
  | Known_providers | Dashboard | Usage_stats | Key_usage | Config_get | Config_update | Config_history | Config_rollback
  | Logs_list | Logs_delete | Config_reload
  | Method_not_allowed

type_synonym route = "string \<times> string \<times> endpoint"

definition public_routes :: "route list" where
  "public_routes =
     [(''/health'', ''GET'', Health), (''/metrics'', ''GET'', Metrics_page), (''/v1/models'', ''GET'', Model_list),
      (''/auth/admin/login'', ''POST'', Admin_login)]"

definition api_routes :: "route list" where
  "api_routes =
     [(''/v1/chat/completions'', ''POST'', Chat), (''/v1/completions'', ''POST'', Completions),
      (''/v1/embeddings'', ''POST'', Embeddings)]"

definition admin_routes :: "route list" where
  "admin_routes =
     [(''/admin/keys'', ''GET'', Keys_list), (''/admin/keys'', ''POST'', Keys_create),
      (''/admin/keys/{id}'', ''GET'', Key_get), (''/admin/keys/{id}'', ''PUT'', Key_update),
      (''/admin/keys/{id}'', ''DELETE'', Key_delete), (''/admin/keys/{id}/revoke'', ''POST'', Key_revoke),
      (''/admin/keys/{id}/rotate'', ''POST'', Key_rotate),
      (''/admin/models'', ''GET'', Models_list), (''/admin/models'', ''POST'', Models_create),
      (''/admin/models/{id}'', ''GET'', Model_get), (''/admin/models/{id}'', ''PUT'', Model_update),
      (''/admin/models/{id}'', ''DELETE'', Model_delete), (''/admin/models/{id}/toggle'', ''POST'', Model_toggle),
      (''/admin/endpoints'', ''GET'', Endpoints_list),
      (''/admin/models/{id}/endpoints'', ''GET'', Model_endpoints), (''/admin/models/{id}/endpoints'', ''POST'', Endpoint_create),
      (''/admin/endpoints/{id}'', ''GET'', Endpoint_get), (''/admin/endpoints/{id}'', ''PUT'', Endpoint_update),
      (''/admin/endpoints/{id}'', ''DELETE'', Endpoint_delete), (''/admin/endpoints/{id}/toggle'', ''POST'', Endpoint_toggle),
      (''/admin/known-providers'', ''GET'', Known_providers), (''/admin/dashboard'', ''GET'', Dashboard),
      (''/admin/usage'', ''GET'', Usage_stats), (''/admin/usage/{key_id}'', ''GET'', Key_usage),
      (''/admin/config'', ''GET'', Config_get), (''/admin/config'', ''PUT'', Config_update),
      (''/admin/config/history'', ''GET'', Config_history), (''/admin/config/rollback/{version}'', ''POST'', Config_rollback),
      (''/admin/logs'', ''GET'', Logs_list), (''/admin/logs'', ''DELETE'', Logs_delete),
      (''/admin/reload'', ''POST'', Config_reload)]"

text \<open>Matching is \<^verbatim>\<open>axum\<close>'s documented one: segment by segment, a name in braces captures any non-empty segment, a GET
  route also answers HEAD, a path that exists under another method is answered by 405 inside its layers.\<close>

definition segment_matches :: "string \<Rightarrow> string \<Rightarrow> bool" where
  "segment_matches p x = (if starts_with ''{'' p then x \<noteq> [] else x = p)"

definition path_matches :: "string \<Rightarrow> string \<Rightarrow> bool" where
  "path_matches pat path = list_all2 segment_matches (split_char (CHR ''/'') pat) (split_char (CHR ''/'') path)"

definition method_matches :: "string \<Rightarrow> string \<Rightarrow> bool" where
  "method_matches want meth = (meth = want \<or> want = ''GET'' \<and> meth = ''HEAD'')"

definition find_route :: "route list \<Rightarrow> string \<Rightarrow> string \<Rightarrow> endpoint option" where
  "find_route routes meth path =
     (case filter (\<lambda>(pat, _, _). path_matches pat path) routes of
        [] \<Rightarrow> None
      | hits \<Rightarrow> Some (case find (\<lambda>(_, want, _). method_matches want meth) hits of
                        Some (_, _, e) \<Rightarrow> e | None \<Rightarrow> Method_not_allowed))"

text \<open>One request through the router of \<^verbatim>\<open>build_router\<close>: its public, bearer and admin routes with their layers, and the
  proxy for every other path.\<close>

definition serve ::
    "('k, 'sec) auth_env \<Rightarrow> (endpoint \<Rightarrow> AuthContext option \<Rightarrow> 's \<Rightarrow> 'r \<times> 's) \<Rightarrow> string option \<Rightarrow> string option \<Rightarrow> string \<Rightarrow> string \<Rightarrow>
     ('k, 'sec) CombinedAuth \<times> 's \<Rightarrow> (nat \<times> string, 'r) result \<times> ('k, 'sec) CombinedAuth \<times> 's" where
  "serve ve run remote_ip header meth path s =
     (case find_route public_routes meth path of
        Some e \<Rightarrow> (case run e None (snd s) of (r, st) \<Rightarrow> (Ok r, (fst s, st)))
      | None \<Rightarrow>
          (case find_route admin_routes meth path of
             Some e \<Rightarrow> admin_route ve remote_ip header (run e None) s
           | None \<Rightarrow>
               (case find_route api_routes meth path of
                  Some e \<Rightarrow> api_route ve remote_ip header (run e) s
                | None \<Rightarrow> api_route ve remote_ip header (run Passthrough) s)))"

end
