(* ===== verification/Boot_Properties.thy ===== *)
theory Boot_Properties
  imports Boot Http_Properties
begin

text \<open>
  What holds of a gateway that has started: authentication is never bypassed where it is required, the routes and clients
  it starts with are those of its configured source, and the start-up warning names every variable that matters.
\<close>

section \<open>What a started gateway has passed\<close>

lemma main_runs:
  assumes "main b args = Ok r"
  obtains cli config source gateway admin auth where "preflight b = Ok (config, source)"
    "build_gateway b config source = Ok gateway" "build_admin b config = (admin, auth)"
    "start_serving b cli config source gateway admin auth = Ok r"
  using assms by (auto simp: main_def split: sum.splits prod.splits)

lemma preflight_passed:
  assumes "preflight b = Ok (config, source)"
  shows "load_config b = Ok config" "source_from_env (be_env b) = Ok source"
    "auth_is_required (be_env b) \<Longrightarrow> master_key_configured config"
  using assms by (auto simp: preflight_def split: sum.splits if_splits)

lemma serving:
  assumes "start_serving b cli config source gateway admin auth = Ok r"
  shows "ca_api_key (ru_auth r) = auth" "source = Db \<Longrightarrow> has_model_stores admin"
    "\<exists>active st. sync_targets (be_store b) \<lparr>app_gateway = gateway, app_admin = admin, app_admin_login = None\<rparr> = (active, st)
       \<and> ru_state r = st\<lparr>app_admin_login := admin_login_from_env (np_u64 (be_numbers b)) (be_env b) (be_secret b)\<rparr>"
  using assms by (auto simp: start_serving_def Let_def split: sum.splits if_splits prod.splits)

section \<open>Requests against a running gateway\<close>

text \<open>What lets a bearer token in.\<close>

definition vouched :: "('k, 'sec) auth_env \<Rightarrow> string \<Rightarrow> AuthContext \<Rightarrow> ('k, 'sec) CombinedAuth \<Rightarrow> bool" where
  "vouched ve token ctx ca =
     ((\<exists>lg claims. ca_admin_login ca = Some lg \<and> admin_validate (ve_admin_decode ve) token lg = Ok claims \<and> ctx = into_auth_context claims)
      \<or> (\<exists>d claims. ca_jwt ca = Some d \<and> validate_token (ve_lib ve) token d = Ok claims \<and> ctx = into_auth_context claims)
      \<or> mw_master_key (ca_api_key ca) = Some token \<and> ctx = master_context
      \<or> (\<exists>key. fst (backend_validate (ve_keys ve) (ve_now ve) token (mw_store (ca_api_key ca))) = Ok (Some key) \<and> ctx = key_context key))"

text \<open>The histories of a running gateway: requests through the router, each with its own clock and libraries, and between
  them any change of the key store, which the admin handlers share with the authentication.\<close>

inductive history ::
    "(endpoint \<Rightarrow> AuthContext option \<Rightarrow> 's \<Rightarrow> 'r \<times> 's) \<Rightarrow> ('k, 'sec) CombinedAuth \<times> 's \<Rightarrow> ('k, 'sec) CombinedAuth \<times> 's \<Rightarrow> bool"
  for run :: "endpoint \<Rightarrow> AuthContext option \<Rightarrow> 's \<Rightarrow> 'r \<times> 's" where
  Start: "history run s s"
| Request: "history run s (ca, st) \<Longrightarrow> serve ve run ip header meth path (ca, st) = (out, ca', st') \<Longrightarrow> history run s (ca', st')"
| Keys: "history run s (ca, st) \<Longrightarrow> history run s (ca\<lparr>ca_api_key := (ca_api_key ca)\<lparr>mw_store := store\<rparr>\<rparr>, st)"

lemma authenticate_master [simp]: "mw_master_key (snd (authenticate ev now token mw)) = mw_master_key mw"
  by (auto simp: authenticate_def split: prod.split sum.split option.split)

lemma combined_master: "mw_master_key (ca_api_key (snd (combined_middleware ve ip header ca))) = mw_master_key (ca_api_key ca)"
proof -
  have "mw_master_key (ca_api_key (snd (api_key_path ve ip token ca))) = mw_master_key (ca_api_key ca)" for token
    by (cases "authenticate (ve_keys ve) (ve_now ve) token (ca_api_key ca)")
      (use authenticate_master [of "ve_keys ve" "ve_now ve" token "ca_api_key ca"] in
        \<open>auto simp: api_key_path_def Let_def lacks_role_def audit_failure_def split: sum.split option.split\<close>)
  then show ?thesis
    by (auto simp: combined_middleware_def Let_def lacks_role_def audit_failure_def split: option.split)
qed

lemma gates_keep_master:
  "mw_master_key (ca_api_key (fst (snd (admin_route ve ip header h s)))) = mw_master_key (ca_api_key (fst s))"
  "mw_master_key (ca_api_key (fst (snd (api_route ve ip header k s)))) = mw_master_key (ca_api_key (fst s))"
  using combined_master [of ve ip header "fst s"]
  by (auto simp: admin_route_def api_route_def split: prod.split sum.split)

lemma serve_keeps_master: "mw_master_key (ca_api_key (fst (snd (serve ve run ip header meth path s)))) = mw_master_key (ca_api_key (fst s))"
  by (simp add: serve_def gates_keep_master split: option.split prod.split)

lemma history_master: "history run s s' \<Longrightarrow> mw_master_key (ca_api_key (fst s')) = mw_master_key (ca_api_key (fst s))"
proof (induction rule: history.induct)
  case (Request s ca st ve ip header meth path out ca' st')
  then show ?case using serve_keeps_master [of ve run ip header meth path "(ca, st)"] by simp
qed simp_all

lemma serve_changes:
  assumes "serve ve run ip header meth path (ca, st) = (out, ca', st')" "st' \<noteq> st"
  shows "find_route public_routes meth path \<noteq> None
    \<or> (\<exists>ctx ca1. combined_middleware ve ip header ca = (Ok ctx, ca1)
        \<and> (find_route admin_routes meth path \<noteq> None \<longrightarrow> au_scope ctx = Admin_scope))"
  using assms by (auto simp: serve_def admin_route_def api_route_def require_admin_scope_def split: option.splits prod.splits sum.splits if_splits)

lemma find_route_member:
  assumes "find_route routes meth path = Some e"
  shows "e = Method_not_allowed \<or> e \<in> (snd \<circ> snd) ` set routes"
proof (cases "find (\<lambda>(_, want, _). method_matches want meth) (filter (\<lambda>(pat, _, _). path_matches pat path) routes)")
  case (Some r)
  then have "r \<in> set routes" by (auto simp: find_Some_iff dest: nth_mem)
  moreover have "e = snd (snd r)" using assms Some by (auto simp: find_route_def split: list.splits prod.splits)
  ultimately show ?thesis by (auto simp: image_iff intro: bexI [of _ r])
qed (use assms in \<open>auto simp: find_route_def split: list.splits\<close>)

definition public_pages :: "endpoint set" where
  "public_pages = {Health, Metrics_page, Model_list, Admin_login, Method_not_allowed}"

lemma public_route_pages: "find_route public_routes meth path = Some e \<Longrightarrow> e \<in> public_pages"
  using find_route_member [of public_routes meth path e] by (auto simp: public_routes_def public_pages_def)

text \<open>C15: A gateway started in a deployment that requires authentication has a non-blank master key, and over every history of
  requests the application state changes only through one of the four public pages or for a bearer token vouched for by
  the break-glass login, the identity provider, the master key or a stored key, behind an admin route only for a caller
  of admin scope.\<close>

theorem boot_fails_closed:
  assumes "main b args = Ok r" "auth_is_required (be_env b)" "history run (ru_auth r, ru_state r) (ca, st)"
    and "serve ve run ip header meth path (ca, st) = (out, ca', st')" "st' \<noteq> st"
  shows "(\<exists>k. mw_master_key (ca_api_key ca) = Some k \<and> trim k \<noteq> [])
    \<and> (find_route public_routes meth path \<in> Some ` public_pages
       \<or> (\<exists>token ctx. bearer header = Some token \<and> vouched ve token ctx ca
            \<and> (find_route admin_routes meth path \<noteq> None \<longrightarrow> au_scope ctx = Admin_scope)))"
proof -
  obtain cli config source gateway admin auth where run: "preflight b = Ok (config, source)" "build_admin b config = (admin, auth)"
      "start_serving b cli config source gateway admin auth = Ok r"
    using main_runs [OF assms(1)] by metis
  have "mw_master_key auth = adm_master_key (cfg_admin config)" using run(2) by (auto simp: build_admin_def Let_def)
  then have "mw_master_key (ca_api_key (ru_auth r)) = adm_master_key (cfg_admin config)" using serving(1) [OF run(3)] by simp
  with history_master [OF assms(3)] preflight_passed(3) [OF run(1) assms(2)]
  have key: "\<exists>k. mw_master_key (ca_api_key ca) = Some k \<and> trim k \<noteq> []"
    by (auto simp: master_key_configured_def is_some_and_def split: option.splits)
  show ?thesis
  proof (cases "find_route public_routes meth path")
    case None
    with serve_changes [OF assms(4,5)] obtain ctx ca1 where ctx: "combined_middleware ve ip header ca = (Ok ctx, ca1)"
        "find_route admin_routes meth path \<noteq> None \<longrightarrow> au_scope ctx = Admin_scope" by auto
    from combined_admits [OF ctx(1)] key have "\<exists>token. bearer header = Some token \<and> vouched ve token ctx ca"
      unfolding vouched_def by (elim disjE exE conjE) auto
    with key ctx(2) show ?thesis by blast
  qed (use key public_route_pages in fastforce)
qed


section \<open>Routing at start-up\<close>

text \<open>The databases answer without faults.\<close>

definition faultless :: "('k, 'sec) boot_env \<Rightarrow> bool" where
  "faultless b =
     ((\<forall>url db. be_models_pg b url = Ok (Ok db) \<longrightarrow> md_faults db = []) \<and>
      (\<forall>url db. be_models_sqlite b url = Ok (Ok db) \<longrightarrow> md_faults db = []))"

lemma admin_calm_at_start: "build_admin b config = (admin, auth) \<Longrightarrow> faultless b \<Longrightarrow> calm admin"
  by (auto simp: build_admin_def Let_def calm_def admin_new_def with_model_stores_def connect_model_stores_def faultless_def
      split: option.splits if_splits sum.splits)

lemma registered:
  "dom (gw_providers (fold (\<lambda>c. register_provider (boxed f c)) cs g)) = dom (gw_providers g) \<union> client_name ` set cs"
  "gw_targets (fold (\<lambda>c. register_provider (boxed f c)) cs g) = gw_targets g"
  by (induction cs arbitrary: g) (auto simp: register_provider_def boxed_def)

definition env_clients :: "ProviderSource \<Rightarrow> env_vars \<Rightarrow> string set" where
  "env_clients source env = (if source = Auto then client_name ` set (clients_from_env env) else {})"

lemma setters_frame:
  "gw_targets (set_plugin_manager m g) = gw_targets g" "gw_providers (set_plugin_manager m g) = gw_providers g"
  "gw_targets (set_response_cache c g) = gw_targets g" "gw_providers (set_response_cache c g) = gw_providers g"
  "gw_targets (set_request_log_store l g) = gw_targets g" "gw_providers (set_request_log_store l g) = gw_providers g"
  by (simp_all add: set_plugin_manager_def set_response_cache_def set_request_log_store_def)

lemma new_frame: "gw_targets (gateway_new wi config m) = cfg_targets config" "dom (gw_providers (gateway_new wi config m)) = {}"
  by (simp_all add: gateway_new_def Let_def)

lemma gateway_at_start:
  assumes "build_gateway b config source = Ok g"
  shows "gw_targets g = cfg_targets config" "dom (gw_providers g) = env_clients source (be_env b)"
proof -
  let ?g0 = "gateway_new (be_wiring b) config metrics_new"
  define g1 where "g1 = (if source = Auto then register_providers_from_env (be_provider_of b) (be_env b) ?g0 else ?g0)"
  have g1: "gw_targets g1 = cfg_targets config" "dom (gw_providers g1) = env_clients source (be_env b)"
    by (simp_all add: g1_def register_providers_from_env_def registered new_frame env_clients_def)
  obtain manager cache world where "build_plugins (be_assembly b) (plugin_settings_from_env (be_numbers b) (be_env b)) config
      ((gw_world g1)\<lparr>pw_config := config\<rparr>) = Some (manager, cache, world)"
    using assms unfolding build_gateway_def Let_def g1_def [symmetric] by (auto split: option.splits)
  with assms have g: "g = (let g2 = set_plugin_manager manager (g1\<lparr>gw_world := world\<rparr>);
      g2 = (case cache of Some c \<Rightarrow> set_response_cache (be_cache b c) g2 | None \<Rightarrow> g2)
      in case be_env b ''DATABASE_URL'' of
           Some database_url \<Rightarrow>
             if starts_with ''postgres'' database_url
             then (case be_log_store b database_url of Ok store \<Rightarrow> set_request_log_store store g2 | Err _ \<Rightarrow> g2)
             else g2
         | None \<Rightarrow> g2)"
    unfolding build_gateway_def Let_def g1_def [symmetric] by simp
  show "gw_targets g = cfg_targets config" "dom (gw_providers g) = env_clients source (be_env b)"
    unfolding g Let_def by (simp_all add: setters_frame g1 split: option.split sum.split)
qed

lemma wanted_rows_login [simp]: "wanted_rows ev (st\<lparr>app_admin_login := x\<rparr>) = wanted_rows ev st"
  by (cases st) (auto simp: wanted_rows_def read_catalogue_def on_admin_def split_beta Let_def split: sum.split option.split)

lemma synced:
  assumes "calm (app_admin st)" "sync_targets ev st = (active, st')"
  shows "app_admin st' = app_admin st"
    "gw_targets (app_gateway st') = (if wanted_rows ev st' = [] then gw_targets (app_gateway st) else map row_target (wanted_rows ev st'))"
    "dom (gw_providers (app_gateway st')) =
       (let ids = row_id ` set (wanted_rows ev st')
        in if ids = {} then dom (gw_providers (app_gateway st))
           else (dom (gw_providers (app_gateway st)) - target_ids (gw_targets (app_gateway st))) \<union> ids)"
    "active = (wanted_rows ev st' \<noteq> [])"
proof -
  obtain models endpoints where rd: "read_catalogue ev st = (Some (models, endpoints), st)"
    using read_catalogue_calm [OF assms(1)] by blast
  obtain out g' where reb: "rebuild_targets_from_db models endpoints KeepPrevious (app_gateway st) = (out, g')" by fastforce
  from assms(2) rd reb have st': "st' = st\<lparr>app_gateway := g'\<rparr>" "active = ro_applied out"
    by (auto simp: sync_targets_def on_gateway_def)
  have "read_catalogue ev st' = (Some (models, endpoints), st')"
    using rd by (cases st) (auto simp: st' read_catalogue_def on_admin_def split_beta Let_def split: sum.splits)
  then obtain W where W: "wanted_rows ev st' = W" and rows: "W = routable_rows (app_gateway st) models endpoints"
    using rebuild_gateway(2) [OF reb] by (simp add: wanted_rows_def routable_rows_def st')
  show "app_admin st' = app_admin st" by (simp add: st')
  show "gw_targets (app_gateway st') = (if wanted_rows ev st' = [] then gw_targets (app_gateway st) else map row_target (wanted_rows ev st'))"
    using rebuilt_follows [OF assms(1) reb rd] by (auto simp: Let_def st')
  obtain ps where ps: "\<forall>k. k \<notin> row_id ` set W \<longrightarrow> ps k = gw_providers (app_gateway st) k" "\<forall>k\<in>row_id ` set W. ps k \<noteq> None"
    and live: "if W = [] then \<not> ro_applied out \<and> g' = (app_gateway st)\<lparr>gw_providers := ps\<rparr>
       else ro_applied out \<and> g' = rebuilt W ps (app_gateway st)"
    by (rule exE [OF rebuild_unfold [OF reb rows]]) (elim conjE, rule that, assumption, assumption, simp only: simp_thms)
  show "active = (wanted_rows ev st' \<noteq> [])" unfolding W st'(2) using live by (cases "W = []") auto
  have "dom (gw_providers g') =
       (let ids = row_id ` set W
        in if ids = {} then dom (gw_providers (app_gateway st))
           else (dom (gw_providers (app_gateway st)) - target_ids (gw_targets (app_gateway st))) \<union> ids)"
  proof (cases "W = []")
    case True
    with ps(1) live show ?thesis by (auto simp: dom_def)
  next
    case False
    let ?ids = "row_id ` set W" and ?stale = "target_ids (gw_targets (app_gateway st))"
    have "dom ps = dom (gw_providers (app_gateway st)) \<union> ?ids"
    proof (intro set_eqI iffI)
      fix k assume "k \<in> dom (gw_providers (app_gateway st)) \<union> ?ids" then show "k \<in> dom ps"
        using ps unfolding domIff by (cases "k \<in> ?ids") auto
    qed (use ps(1) in \<open>auto simp: domIff\<close>)
    then have "dom (ps |` (- (?stale - ?ids))) = (dom (gw_providers (app_gateway st)) - ?stale) \<union> ?ids" by auto
    moreover have "g' = rebuilt W ps (app_gateway st)" using live False by simp
    ultimately show ?thesis using False by (simp add: rebuilt_def Let_def)
  qed
  then show "dom (gw_providers (app_gateway st')) =
       (let ids = row_id ` set (wanted_rows ev st')
        in if ids = {} then dom (gw_providers (app_gateway st))
           else (dom (gw_providers (app_gateway st)) - target_ids (gw_targets (app_gateway st))) \<union> ids)"
    unfolding W by (simp add: st'(1))
qed

text \<open>Where the targets and the clients of a gateway that serves come from.\<close>

definition routed_from :: "('k, 'sec) boot_env \<Rightarrow> Config \<Rightarrow> ProviderSource \<Rightarrow> (plugin_world, 'sec) AppState \<Rightarrow> bool" where
  "routed_from b config source st =
     (let g = app_gateway st; rows = wanted_rows (be_store b) st
      in gw_targets g = (if rows = [] then cfg_targets config else map row_target rows)
         \<and> dom (gw_providers g) = (if rows = [] then env_clients source (be_env b)
             else (env_clients source (be_env b) - target_ids (cfg_targets config)) \<union> row_id ` set rows)
         \<and> (source = Db \<longrightarrow> has_model_stores (app_admin st)))"

lemma started:
  assumes "main b args = Ok r" "faultless b"
  shows "\<exists>config source. load_config b = Ok config \<and> source_from_env (be_env b) = Ok source \<and> routed_from b config source (ru_state r)"
proof -
  obtain cli config source gateway admin auth where run: "preflight b = Ok (config, source)" "build_gateway b config source = Ok gateway"
      "build_admin b config = (admin, auth)" "start_serving b cli config source gateway admin auth = Ok r"
    using main_runs [OF assms(1)] by metis
  let ?st0 = "\<lparr>app_gateway = gateway, app_admin = admin, app_admin_login = None\<rparr>"
  obtain active st where st: "sync_targets (be_store b) ?st0 = (active, st)"
      "ru_state r = st\<lparr>app_admin_login := admin_login_from_env (np_u64 (be_numbers b)) (be_env b) (be_secret b)\<rparr>"
    using serving(3) [OF run(4)] by blast
  have calm: "calm (app_admin ?st0)" using admin_calm_at_start [OF run(3) assms(2)] by simp
  have "routed_from b config source (ru_state r)"
    using synced [OF calm st(1)] gateway_at_start [OF run(2)] serving(2) [OF run(4)] by (simp add: routed_from_def st(2) Let_def)
  then show ?thesis using preflight_passed(1,2) [OF run(1)] by blast
qed

text \<open>C35: At start-up the routing table holds the targets the stored catalogue calls for, or the configuration's own when it
  calls for none, and a client is registered for exactly the routed endpoints and, where the environment is a source,
  the vendors it configures, less the keys of configured targets that the catalogue replaced.\<close>

theorem startup_routing:
  assumes "main b args = Ok r" "faultless b" "load_config b = Ok config" "source_from_env (be_env b) = Ok source"
    and "g = app_gateway (ru_state r)" "rows = wanted_rows (be_store b) (ru_state r)"
  shows "gw_targets g = (if rows = [] then cfg_targets config else map row_target rows)
    \<and> dom (gw_providers g) = (if rows = [] then env_clients source (be_env b)
        else (env_clients source (be_env b) - target_ids (cfg_targets config)) \<union> row_id ` set rows)"
  using started [OF assms(1,2)] assms(3-6) by (auto simp: routed_from_def Let_def)

text \<open>In strict database mode the gateway serves only with both catalogue stores connected, and the only clients it holds
  are those of endpoints the catalogue routes: no vendor of the environment is registered, so while the catalogue routes
  nothing no client exists at all.\<close>

theorem strict_mode_db_only:
  assumes "main b args = Ok r" "faultless b" "source_from_env (be_env b) = Ok Db"
  shows "has_model_stores (app_admin (ru_state r))
    \<and> dom (gw_providers (app_gateway (ru_state r))) = row_id ` set (wanted_rows (be_store b) (ru_state r))"
proof -
  obtain config where "routed_from b config Db (ru_state r)" using started [OF assms(1,2)] assms(3) by auto
  then show ?thesis by (simp add: routed_from_def Let_def env_clients_def)
qed

section \<open>The warning about unused variables\<close>

text \<open>The start-up warning is complete: the vendors registered from the environment depend on no variable outside the list
  it is drawn from, so when the list is empty the gateway registers just the three vendors it always registers, under
  their default addresses.\<close>

theorem inert_vars_complete:
  assumes "inert_provider_env_vars_from_env env = []"
  shows "clients_from_env env = [Compatible_client preset_openai, Anthropic_client (anthropic_new None), Gemini_client (gemini_new None)]"
proof -
  have none: "\<And>v. v \<in> set (map (\<lambda>(t, _). api_key_env_var t) preset_factories @ non_preset_env_ALL) \<Longrightarrow> env v = None"
    using assms unfolding inert_provider_env_vars_from_env_def inert_provider_env_vars_def filter_empty_conv by blast
  then have "\<And>t c. (t, c) \<in> set preset_factories \<Longrightarrow> env (api_key_env_var t) = None" by force
  then have "presets_from_env env = []" by (auto simp: presets_from_env_def filter_empty_conv)
  with none [unfolded non_preset_env_ALL_def] show ?thesis
    by (simp add: clients_from_env_def openai_from_env_def secondary_from_env_def azure_from_env_def)
qed


section \<open>Findings\<close>

text \<open>\<^verbatim>\<open>HIMADRI_ENV\<close> counts only where \<^verbatim>\<open>RUST_ENV\<close> is unset: a deployment marked production in the second is taken for a
  development one when the first has any other value.\<close>

lemma rust_env_shadows:
  "env ''HIMADRI_ENV'' = Some ''production'' \<Longrightarrow> env ''RUST_ENV'' = Some ''development'' \<Longrightarrow> env ''REQUIRE_AUTH'' = None \<Longrightarrow>
   \<not> auth_is_required env"
  by (simp add: auth_is_required_def flag_is_truthy_def env_is_nondev_deployment_def to_ascii_lowercase_def trim_def trim_start_def
      is_space_def unwrap_or_def)

text \<open>Each configured origin replaces the one before: only the last that parses is allowed.\<close>

lemma cors_last_origin_wins:
  "cors_enabled c \<Longrightarrow> cors_allowed_origins c = origins @ [x] \<Longrightarrow> xh_value hp x = Some url \<Longrightarrow>
   cl_origin (build_cors hp c) = Exact_origin url"
  by (simp add: build_cors_def Let_def allow_origin_def)

text \<open>With an identity provider configured but unreachable when the process starts, and neither a master key nor a
  break-glass password, the gateway serves every request as an anonymous administrator.\<close>

lemma failed_discovery_opens_gateway:
  assumes "main b args = Ok r" "load_config b = Ok config" "adm_master_key (cfg_admin config) = None"
    and "be_env b ''JWT_ISSUER'' = Some issuer" "be_env b ''DEV_ADMIN_PASSWORD'' = None" "\<And>url. be_discover b url = Err e"
    and "be_env b ''JWT_JWKS_URI'' = None"
  shows "combined_middleware ve ip header (ru_auth r) = (Ok auth_anonymous, ru_auth r) \<and> au_scope auth_anonymous = Admin_scope"
proof -
  obtain cli config' source gateway admin auth where run: "preflight b = Ok (config', source)" "build_admin b config' = (admin, auth)"
      "start_serving b cli config' source gateway admin auth = Ok r"
    using main_runs [OF assms(1)] by metis
  have "mw_master_key auth = None" using run(2) assms(2,3) preflight_passed(1) [OF run(1)] by (auto simp: build_admin_def Let_def)
  moreover have "ca_admin_login (ru_auth r) = None" "ca_jwt (ru_auth r) = None"
    using run(3) assms(4-7) by (auto simp: start_serving_def init_jwt_discovery_def oidc_new_def admin_login_from_env_def Let_def
        split: sum.splits if_splits prod.splits)
  ultimately show ?thesis using serving(1) [OF run(3)]
    by (simp add: combined_middleware_def is_bypass_def auth_anonymous_def)
qed

section \<open>Instance\<close>

definition demo_env :: env_vars where
  "demo_env = [''REQUIRE_AUTH'' \<mapsto> ''1'', ''MASTER_KEY'' \<mapsto> ''mk'', ''HIMADRI_PROVIDER_SOURCE'' \<mapsto> ''db'', ''DATABASE_URL'' \<mapsto> ''sqlite:g'',
     ''GROQ_API_KEY'' \<mapsto> ''unused'']"

definition demo_provider :: "plugin_world Provider" where
  "demo_provider = \<lparr>pv_name = ''openai'', pv_complete = (\<lambda>r k w. (Err (PE_Parse []), 0, w)),
     pv_complete_stream = (\<lambda>r k w. (Err (PE_Parse []), 0, w)), pv_embed = embed_unsupported ''openai''\<rparr>"

definition demo_catalogue :: model_db where
  "demo_catalogue = \<lparr>md_models = [cat_model\<lparr>mo_enabled := True\<rparr>],
     md_endpoints = [\<lparr>me_id = ''u2'', me_model_id = ''u1'', me_provider_type = ''openai'', me_base_url = None, me_api_key = None,
       me_weight = 1, me_enabled = True, me_created_at = 2, me_updated_at = 2\<rparr>], md_faults = []\<rparr>"

definition demo_boot :: "(unit, unit) boot_env" where
  "demo_boot =
     \<lparr>be_wiring = \<lparr>wi_env = demo_env, wi_regex_new = (\<lambda>_. None), wi_redact = (\<lambda>s. s), wi_pricing_json = (\<lambda>_. None),
        wi_registry = (\<lambda>t u. Ok demo_provider), wi_now = 0, wi_world = demo_world\<rparr>,
      be_read_to_string = (\<lambda>_. Err []), be_from_json = (\<lambda>_. Err []), be_migrate_pg = (\<lambda>_. Err []), be_migrate_sqlite = (\<lambda>_. Ok (Ok demo_catalogue)),
      be_assembly = demo_assembly, be_numbers = \<lparr>np_u32 = (\<lambda>_. None), np_u64 = (\<lambda>_. None), np_f64 = (\<lambda>_. None), np_f32 = (\<lambda>_. None)\<rparr>,
      be_provider_of = (\<lambda>_. demo_provider), be_cache = (\<lambda>_. \<lparr>rc_get = (\<lambda>k w. (None, w)), rc_insert = (\<lambda>k r w. w)\<rparr>),
      be_log_store = (\<lambda>_. Err []), be_keys_pg = (\<lambda>_. Err []), be_keys_sqlite = (\<lambda>_. Ok []), be_models_pg = (\<lambda>_. Err []),
      be_models_sqlite = (\<lambda>_. Ok (Ok demo_catalogue)), be_store = cat_env, be_discover = (\<lambda>_. Err InvalidSignature),
      be_fetch_jwks = (\<lambda>_. Err InvalidSignature), be_clock = 0, be_secret = (),
      be_http = \<lparr>xh_value = Some, xh_method = Some, xh_name = Some\<rparr>, be_bind = (\<lambda>_. True)\<rparr>"

lemma demo_config: "load_config demo_boot = Ok (Config_default\<lparr>cfg_admin := \<lparr>adm_master_key = Some ''mk''\<rparr>\<rparr>)"
  by (simp add: load_config_def load_from_env_def demo_boot_def demo_env_def Config_default_def)

lemma demo_strict: "source_from_env (be_env demo_boot) = Ok Db" "auth_is_required (be_env demo_boot)" "faultless demo_boot"
  by (simp_all add: source_from_env_def demo_boot_def demo_env_def PROVIDER_SOURCE_VAR_def parse_source_def Let_def to_ascii_lowercase_def
      trim_def trim_start_def is_space_def auth_is_required_def flag_is_truthy_def truthy_def unwrap_or_def faultless_def demo_catalogue_def)

lemma demo_preflight: "preflight demo_boot = Ok (Config_default\<lparr>cfg_admin := \<lparr>adm_master_key = Some ''mk''\<rparr>\<rparr>, Db)"
  unfolding preflight_def demo_config demo_strict
  by (simp add: master_key_configured_def trim_def trim_start_def is_space_def demo_boot_def demo_env_def)

lemma demo_gateway: "\<exists>g. build_gateway demo_boot config Db = Ok g"
proof -
  have "\<exists>m cache w'. build_plugins (be_assembly demo_boot) s config w = Some (m, cache, w')" for s w
    by (simp add: demo_boot_def build_plugins_def register_pii_def demo_assembly_def Let_def case_prod_beta)
  then obtain m cache w' where "build_plugins (be_assembly demo_boot) (plugin_settings_from_env (be_numbers demo_boot) (be_env demo_boot)) config
      ((gw_world (gateway_new (be_wiring demo_boot) config metrics_new))\<lparr>pw_config := config\<rparr>) = Some (m, cache, w')" by blast
  then show ?thesis by (simp add: build_gateway_def Let_def)
qed

lemma demo_admin: "build_admin demo_boot config = (admin, auth) \<Longrightarrow> has_model_stores admin"
  by (auto simp: build_admin_def Let_def demo_boot_def demo_env_def connect_model_stores_def starts_with_def with_model_stores_def
      has_model_stores_def sqlite_url_def)

lemma demo_runs: "\<exists>r. main demo_boot [] = Ok r" "\<exists>r. main demo_boot [''--port'', ''9090''] = Ok r"
proof -
  let ?c = "Config_default\<lparr>cfg_admin := \<lparr>adm_master_key = Some ''mk''\<rparr>\<rparr>"
  obtain g where g: "build_gateway demo_boot ?c Db = Ok g" using demo_gateway by blast
  obtain admin auth where a: "build_admin demo_boot ?c = (admin, auth)" by fastforce
  have "init_jwt_discovery demo_boot = Ok None" "be_bind demo_boot = (\<lambda>_. True)"
    by (simp_all add: init_jwt_discovery_def demo_boot_def demo_env_def)
  then have "\<exists>r. start_serving demo_boot cli ?c Db g admin auth = Ok r" for cli
    using demo_admin [OF a] by (simp add: start_serving_def Let_def split_beta)
  then show "\<exists>r. main demo_boot [] = Ok r" "\<exists>r. main demo_boot [''--port'', ''9090''] = Ok r"
    by (simp_all add: main_def parse_cli_args_def demo_preflight migrate_def g a)
qed

lemma demo_parts: "be_store demo_boot = cat_env" "env_clients Db env = {}"
  by (simp_all add: demo_boot_def env_clients_def)

theorem startup_routing_witness:
  "\<exists>r. main demo_boot [''--port'', ''9090''] = Ok r \<and>
     (let g = app_gateway (ru_state r); rows = wanted_rows cat_env (ru_state r)
      in gw_targets g = (if rows = [] then cfg_targets Config_default else map row_target rows)
         \<and> dom (gw_providers g) = row_id ` set rows)"
proof -
  obtain r where r: "main demo_boot [''--port'', ''9090''] = Ok r" using demo_runs(2) by blast
  have "cfg_targets (Config_default\<lparr>cfg_admin := \<lparr>adm_master_key = Some ''mk''\<rparr>\<rparr>) = cfg_targets Config_default" by simp
  with startup_routing [OF r demo_strict(3) demo_config demo_strict(1) refl refl, unfolded demo_parts] r show ?thesis
    by (intro exI [of _ r]) (simp add: Let_def)
qed

lemma demo_admitted:
  assumes "main demo_boot args = Ok r"
  shows "combined_middleware demo_ve None (Some ''Bearer mk'') (ru_auth r) = (Ok master_context, ru_auth r)" "app_admin_login (ru_state r) = None"
proof -
  obtain cli config source gateway admin auth where run: "preflight demo_boot = Ok (config, source)" "build_admin demo_boot config = (admin, auth)"
      "start_serving demo_boot cli config source gateway admin auth = Ok r"
    using main_runs [OF assms] by metis
  have auth: "mw_master_key auth = Some ''mk''" using run(1,2) demo_preflight by (auto simp: build_admin_def Let_def)
  have login: "ca_admin_login (ru_auth r) = None" "ca_jwt (ru_auth r) = None" "app_admin_login (ru_state r) = None"
    using run(3) by (auto simp: start_serving_def init_jwt_discovery_def admin_login_from_env_def Let_def demo_boot_def demo_env_def
        split: sum.splits if_splits prod.splits)
  then show "app_admin_login (ru_state r) = None" by simp
  have "ca_api_key (ru_auth r) = auth" by (rule serving(1) [OF run(3)])
  with auth login show "combined_middleware demo_ve None (Some ''Bearer mk'') (ru_auth r) = (Ok master_context, ru_auth r)"
    by (simp add: auth_demo authenticate_def constant_time_eq_iff enforce_required_roles_def has_any_role_def has_role_def
        master_context_def Let_def)
qed

text \<open>A handler that does nothing but leave a mark.\<close>

definition marking :: "endpoint \<Rightarrow> AuthContext option \<Rightarrow> (plugin_world, unit) AppState \<Rightarrow> unit \<times> (plugin_world, unit) AppState" where
  "marking e ctx st = ((), st\<lparr>app_admin_login := Some (admin_login_new [] [] 0 ())\<rparr>)"

lemma demo_models_route:
  "find_route public_routes ''POST'' ''/admin/keys'' = None" "find_route admin_routes ''POST'' ''/admin/keys'' = Some Keys_create"
  by code_simp+

theorem boot_fails_closed_witness:
  "\<exists>token ctx r. bearer (Some ''Bearer mk'') = Some token \<and> vouched demo_ve token ctx (ru_auth r)
     \<and> main demo_boot [] = Ok r \<and> au_scope ctx = Admin_scope"
proof -
  obtain r where r: "main demo_boot [] = Ok r" using demo_runs(1) by blast
  let ?st = "snd (marking Keys_create None (ru_state r))"
  have "serve demo_ve marking None (Some ''Bearer mk'') ''POST'' ''/admin/keys'' (ru_auth r, ru_state r) = (Ok (), ru_auth r, ?st)"
    by (simp add: serve_def demo_models_route admin_route_def demo_admitted(1) [OF r] require_admin_scope_def marking_def) (simp add: master_context_def)
  moreover have "?st \<noteq> ru_state r"
  proof
    assume "?st = ru_state r"
    then have "app_admin_login ?st = app_admin_login (ru_state r)" by (rule arg_cong)
    then show False using demo_admitted(2) [OF r] by (simp add: marking_def)
  qed
  ultimately show ?thesis
    using boot_fails_closed [OF r demo_strict(2) Start] demo_models_route r by fastforce
qed

theorem strict_mode_db_only_witness:
  "\<exists>r :: (unit, unit) running. has_model_stores (app_admin (ru_state r))
     \<and> dom (gw_providers (app_gateway (ru_state r))) = row_id ` set (wanted_rows cat_env (ru_state r))"
proof -
  obtain r where "main demo_boot [''--port'', ''9090''] = Ok r" using demo_runs(2) by blast
  from strict_mode_db_only [OF this demo_strict(3,1)] have "has_model_stores (app_admin (ru_state r))
     \<and> dom (gw_providers (app_gateway (ru_state r))) = row_id ` set (wanted_rows cat_env (ru_state r))"
    by (simp add: demo_boot_def)
  then show ?thesis by blast
qed

theorem inert_vars_complete_witness:
  "clients_from_env [''DATABASE_URL'' \<mapsto> ''sqlite:g''] =
     [Compatible_client preset_openai, Anthropic_client (anthropic_new None), Gemini_client (gemini_new None)]"
  by (rule inert_vars_complete)
    (simp add: inert_provider_env_vars_from_env_def inert_provider_env_vars_def preset_factories_def non_preset_env_ALL_def
      api_key_env_var_def to_uppercase_def)

end
