(* ===== verification/Redaction.thy ===== *)
theory Redaction
  imports Request_Audit
begin

text \<open>
  The redactor of the audit trail (\<^verbatim>\<open>himadri-observability/src/redact.rs\<close>): its five patterns as matchers that give the length
  of the match at the head of a text, replacement from left to right, and the proof that a redacted text holds no match.
  The white-space class of the bearer pattern is modelled on the ASCII characters.
\<close>

section \<open>Patterns\<close>

definition between :: "char \<Rightarrow> char \<Rightarrow> char \<Rightarrow> bool" where
  "between a b c = (let n = (of_char c :: nat) in of_char a \<le> n \<and> n \<le> of_char b)"

definition is_letter :: "char \<Rightarrow> bool" where
  "is_letter c = (between (CHR ''a'') (CHR ''z'') c \<or> between (CHR ''A'') (CHR ''Z'') c)"

definition is_alnum :: "char \<Rightarrow> bool" where
  "is_alnum c = (is_letter c \<or> between (CHR ''0'') (CHR ''9'') c)"

definition local_char :: "char \<Rightarrow> bool" where
  "local_char c = (is_alnum c \<or> c \<in> set ''._%+-'')"

definition domain_char :: "char \<Rightarrow> bool" where
  "domain_char c = (is_alnum c \<or> c \<in> set ''.-'')"

definition word_char :: "char \<Rightarrow> bool" where
  "word_char c = (is_alnum c \<or> c \<in> set ''_-'')"

definition aws_char :: "char \<Rightarrow> bool" where
  "aws_char c = (between (CHR ''0'') (CHR ''9'') c \<or> between (CHR ''A'') (CHR ''Z'') c)"

definition bearer_char :: "char \<Rightarrow> bool" where
  "bearer_char c = (is_alnum c \<or> c \<in> set ''._~+/=-'')"

text \<open>Each pattern as the length of its match at the head of a text. In every one the class of a repetition excludes the
  character that must follow it, so only the domain of an address has to give characters back.\<close>

definition match_email :: "string \<Rightarrow> nat option" where
  "match_email t =
     (let l = length (takeWhile local_char t)
      in if l = 0 then None
         else case drop l t of
                [] \<Rightarrow> None
              | c # r \<Rightarrow>
                  if c \<noteq> CHR ''@'' then None
                  else map_option (\<lambda>k. l + 1 + k + 1 + length (takeWhile is_letter (drop (k + 1) r)))
                         (find (\<lambda>k. r ! k = CHR ''.'' \<and> 2 \<le> length (takeWhile is_letter (drop (k + 1) r)))
                            (rev [1..<length (takeWhile domain_char r)])))"

definition match_jwt :: "string \<Rightarrow> nat option" where
  "match_jwt t =
     (case strip_prefix ''eyJ'' t of
        None \<Rightarrow> None
      | Some r1 \<Rightarrow>
          (let n1 = length (takeWhile word_char r1)
           in case strip_prefix ''.eyJ'' (drop n1 r1) of
                None \<Rightarrow> None
              | Some r2 \<Rightarrow>
                  (let n2 = length (takeWhile word_char r2)
                   in case strip_prefix ''.'' (drop n2 r2) of
                        None \<Rightarrow> None
                      | Some r3 \<Rightarrow>
                          (let n3 = length (takeWhile word_char r3)
                           in if 0 < n1 \<and> 0 < n2 \<and> 0 < n3 then Some (3 + n1 + 4 + n2 + 1 + n3) else None))))"

definition match_aws_key :: "string \<Rightarrow> nat option" where
  "match_aws_key t =
     (case strip_prefix ''AKIA'' t of
        None \<Rightarrow> None
      | Some r \<Rightarrow> if 16 \<le> length (takeWhile aws_char r) then Some 20 else None)"

definition match_api_key :: "string \<Rightarrow> nat option" where
  "match_api_key t =
     (case strip_prefix ''sk-'' t of
        None \<Rightarrow> None
      | Some r \<Rightarrow> (let n = length (takeWhile word_char r) in if 16 \<le> n then Some (3 + n) else None))"

definition match_bearer :: "string \<Rightarrow> nat option" where
  "match_bearer t =
     (if to_ascii_lowercase (take 6 t) \<noteq> ''bearer'' then None
      else (let r = drop 6 t; sp = length (takeWhile is_space r); n = length (takeWhile bearer_char (drop sp r))
            in if 0 < sp \<and> 16 \<le> n then Some (6 + sp + n) else None))"

section \<open>Replacement\<close>

text \<open>\<^verbatim>\<open>replace_all\<close>: from left to right, each match is replaced and the search goes on behind it.\<close>

fun replace_all :: "(string \<Rightarrow> nat option) \<Rightarrow> string \<Rightarrow> string \<Rightarrow> string" where
  "replace_all m rep [] = []"
| "replace_all m rep (c # s) =
     (case m (c # s) of
        Some n \<Rightarrow> rep @ replace_all m rep (drop (n - 1) s)
      | None \<Rightarrow> c # replace_all m rep s)"

definition redactions :: "((string \<Rightarrow> nat option) \<times> string) list" where
  "redactions =
     [(match_jwt, ''[REDACTED_JWT]''), (match_bearer, ''[REDACTED_BEARER_TOKEN]''), (match_api_key, ''[REDACTED_API_KEY]''),
      (match_email, ''[REDACTED_EMAIL]''), (match_aws_key, ''[REDACTED_AWS_KEY]'')]"

definition redact :: "string \<Rightarrow> string" where
  "redact input = fold (\<lambda>(m, rep). replace_all m rep) redactions input"


section \<open>Texts without a match\<close>

definition clean :: "(string \<Rightarrow> nat option) \<Rightarrow> string \<Rightarrow> bool" where
  "clean m s = (\<forall>i\<le>length s. m (drop i s) = None)"

lemma clean_suffix: "clean m s \<Longrightarrow> suffix t s \<Longrightarrow> m t = None"
  by (auto simp: clean_def suffix_def dest: spec [of _ "length s - length t"])

lemma clean_Cons: "clean m (c # s) \<longleftrightarrow> m (c # s) = None \<and> clean m s"
proof
  assume "clean m (c # s)"
  then show "m (c # s) = None \<and> clean m s" unfolding clean_def by (metis Suc_le_mono drop0 drop_Suc_Cons length_Cons le0)
next
  assume "m (c # s) = None \<and> clean m s"
  then show "clean m (c # s)" unfolding clean_def by (auto simp: le_Suc_eq drop_Cons' Suc_le_eq split: nat.split)
qed

lemma replace_clean: "clean m s \<Longrightarrow> replace_all m rep s = s"
  by (induction m rep s rule: replace_all.induct) (auto simp: clean_Cons)

definition plain :: "string \<Rightarrow> bool" where
  "plain w = (CHR ''['' \<notin> set w \<and> CHR '']'' \<notin> set w)"

text \<open>A pattern that recognises only non-empty texts without brackets, and recognises them whatever follows.\<close>

locale secret_pattern =
  fixes m :: "string \<Rightarrow> nat option"
  assumes matched: "m t = Some n \<Longrightarrow> 0 < n \<and> n \<le> length t \<and> plain (take n t)"
    and stable: "m t = Some n \<Longrightarrow> m (take n t @ v) \<noteq> None"
begin

definition secret :: "string \<Rightarrow> bool" where
  "secret w = (\<exists>n t. m t = Some n \<and> w = take n t)"

lemma secret_plain: "secret w \<Longrightarrow> plain w \<and> w \<noteq> []"
  using matched by (fastforce simp: secret_def)

lemma clean_iff: "clean m s \<longleftrightarrow> (\<forall>w. secret w \<longrightarrow> \<not> sublist w s)"
proof
  assume clean: "clean m s"
  show "\<forall>w. secret w \<longrightarrow> \<not> sublist w s"
  proof (intro allI impI notI)
    fix w assume "secret w" "sublist w s"
    then obtain u v n t where s: "s = u @ w @ v" and m: "m t = Some n" "w = take n t" by (auto simp: secret_def sublist_def)
    have "suffix (w @ v) s" by (simp add: s suffix_def)
    with clean have "m (w @ v) = None" by (rule clean_suffix)
    with stable [OF m(1), of v] m(2) show False by simp
  qed
next
  assume none: "\<forall>w. secret w \<longrightarrow> \<not> sublist w s"
  show "clean m s" unfolding clean_def
  proof (intro allI impI)
    fix i
    have "sublist (take n (drop i s)) s" for n by (metis append_take_drop_id sublist_appendI)
    then show "m (drop i s) = None" using none by (cases "m (drop i s)") (auto simp: secret_def)
  qed
qed

end


section \<open>What replacing leaves behind\<close>

lemma plain_append: "plain (a @ b) \<longleftrightarrow> plain a \<and> plain b"
  by (auto simp: plain_def)

lemma plain_prefix:
  assumes "prefix w (replace_all m (CHR ''['' # rep) s)" "CHR ''['' \<notin> set w"
  shows "prefix w s"
  using assms
proof (induction m "CHR ''['' # rep" s arbitrary: w rule: replace_all.induct)
  case (2 m c s)
  then show ?case by (cases w) (auto split: option.splits)
qed simp

lemma sublist_around: "sublist w (a @ x # b) \<Longrightarrow> x \<notin> set w \<Longrightarrow> sublist w a \<or> sublist w b"
proof -
  assume "sublist w (a @ x # b)" and x: "x \<notin> set w"
  then consider "sublist w a" | "sublist w (x # b)" | v1 v2 where "w = v1 @ v2" "suffix v1 a" "prefix v2 (x # b)"
    by (auto simp: sublist_append)
  then show ?thesis
  proof cases
    case 2
    then show ?thesis using x by (auto simp: sublist_Cons_right prefix_Cons)
  next
    case 3
    then have "v2 = []" using x by (auto simp: prefix_Cons)
    then show ?thesis using 3 by simp
  qed simp
qed

text \<open>A bracket-free part of the result lies in a replacement or was passed over without a match.\<close>

lemma replaced_part:
  assumes "sublist w (replace_all m (CHR ''['' # mid @ '']'') s)" "plain w" "w \<noteq> []"
  shows "sublist w mid \<or> (\<exists>v. suffix (w @ v) s \<and> m (w @ v) = None)"
  using assms
proof (induction m "CHR ''['' # mid @ '']''" s rule: replace_all.induct)
  case (2 m c s)
  show ?case
  proof (cases "m (c # s)")
    case None
    with "2.prems"(1) consider "prefix w (replace_all m (CHR ''['' # mid @ '']'') (c # s))" | "sublist w (replace_all m (CHR ''['' # mid @ '']'') s)"
      by (auto simp: sublist_Cons_right)
    then show ?thesis
    proof cases
      case 1
      then have "prefix w (c # s)" using plain_prefix [of w m "mid @ '']''" "c # s"] "2.prems"(2) by (simp add: plain_def)
      then show ?thesis using None by (auto simp: prefix_def)
    next
      case 2
      then show ?thesis using "2.hyps"(1) [OF None] "2.prems"(2,3) by (auto intro: suffix_ConsI)
    qed
  next
    case (Some n)
    let ?rest = "replace_all m (CHR ''['' # mid @ '']'') (drop (n - 1) s)"
    have "sublist w ([] @ CHR ''['' # (mid @ CHR '']'' # ?rest))" using "2.prems"(1) Some by simp
    then have "sublist w (mid @ CHR '']'' # ?rest)" using sublist_around [of w "[]" "CHR ''[''"] "2.prems"(2,3) by (auto simp: plain_def)
    then have "sublist w mid \<or> sublist w ?rest" using sublist_around [of w mid "CHR '']''" ?rest] "2.prems"(2) by (auto simp: plain_def)
    then show ?thesis using "2.hyps"(2) [OF Some] "2.prems"(2,3)
      by (metis suffix_Cons suffix_drop suffix_order.trans)
  qed
qed simp

context secret_pattern begin

lemma replaced_clean:
  assumes "clean m mid"
  shows "clean m (replace_all m (CHR ''['' # mid @ '']'') s)"
  unfolding clean_iff
proof (intro allI impI notI)
  fix w assume w: "secret w" "sublist w (replace_all m (CHR ''['' # mid @ '']'') s)"
  then obtain n t where t: "m t = Some n" "w = take n t" by (auto simp: secret_def)
  have "\<not> sublist w mid" using assms w(1) by (simp add: clean_iff)
  moreover have "m (w @ v) \<noteq> None" for v using stable [OF t(1)] t(2) by simp
  ultimately show False using replaced_part [OF w(2)] secret_plain [OF w(1)] by blast
qed

lemma still_clean:
  assumes "clean m mid" "clean m s"
  shows "clean m (replace_all m' (CHR ''['' # mid @ '']'') s)"
  unfolding clean_iff
proof (intro allI impI notI)
  fix w assume w: "secret w" "sublist w (replace_all m' (CHR ''['' # mid @ '']'') s)"
  have "\<not> sublist w mid" using assms(1) w(1) by (simp add: clean_iff)
  then obtain v where "suffix (w @ v) s" using replaced_part [OF w(2)] secret_plain [OF w(1)] by blast
  then have "sublist w s" by (auto simp: suffix_def sublist_def)
  then show False using assms(2) w(1) by (simp add: clean_iff)
qed

end

section \<open>The five patterns\<close>

lemma takeWhile_run: "takeWhile P (takeWhile P r @ v) = takeWhile P r @ takeWhile P v"
  by (induction r) auto

lemma plain_run: "(\<And>c. P c \<Longrightarrow> c \<noteq> CHR ''['' \<and> c \<noteq> CHR '']'') \<Longrightarrow> plain (takeWhile P r)"
  by (auto simp: plain_def dest!: set_takeWhileD)

lemma no_brackets:
  "word_char c \<Longrightarrow> c \<noteq> CHR ''['' \<and> c \<noteq> CHR '']''" "aws_char c \<Longrightarrow> c \<noteq> CHR ''['' \<and> c \<noteq> CHR '']''"
  "bearer_char c \<Longrightarrow> c \<noteq> CHR ''['' \<and> c \<noteq> CHR '']''" "local_char c \<Longrightarrow> c \<noteq> CHR ''['' \<and> c \<noteq> CHR '']''"
  "domain_char c \<Longrightarrow> c \<noteq> CHR ''['' \<and> c \<noteq> CHR '']''" "is_letter c \<Longrightarrow> c \<noteq> CHR ''['' \<and> c \<noteq> CHR '']''"
  "is_space c \<Longrightarrow> c \<noteq> CHR ''['' \<and> c \<noteq> CHR '']''"
  by (auto simp: word_char_def aws_char_def bearer_char_def local_char_def domain_char_def is_alnum_def is_letter_def between_def is_space_def)

lemma strip_prefix_same [simp]: "strip_prefix p (p @ r) = Some r"
  by (simp add: strip_prefix_Some)

lemma strip_case_Some: "(case strip_prefix p t of None \<Rightarrow> None | Some r \<Rightarrow> f r) = Some n \<longleftrightarrow> (\<exists>r. t = p @ r \<and> f r = Some n)"
  by (auto simp: strip_prefix_Some split: option.splits)

lemma match_api_key_Some:
  "match_api_key t = Some n \<longleftrightarrow> (\<exists>r. t = ''sk-'' @ r \<and> n = 3 + length (takeWhile word_char r) \<and> 16 \<le> length (takeWhile word_char r))"
  unfolding match_api_key_def Let_def strip_case_Some by (auto simp del: append.simps split: if_splits)


lemma run_all: "\<forall>c\<in>set a. P c \<Longrightarrow> takeWhile P (a @ v) = a @ takeWhile P v"
  by simp

lemma plain_all: "\<forall>c\<in>set a. P c \<Longrightarrow> (\<And>c. P c \<Longrightarrow> c \<noteq> CHR ''['' \<and> c \<noteq> CHR '']'') \<Longrightarrow> plain a"
  by (auto simp: plain_def)

lemma run_split: "r = takeWhile P r @ drop (length (takeWhile P r)) r" "\<forall>c\<in>set (takeWhile P r). P c"
  by (simp_all flip: dropWhile_eq_drop) (metis set_takeWhileD)

lemma recognised:
  assumes "\<And>t n. m t = Some n \<Longrightarrow> \<exists>w rest. t = w @ rest \<and> n = length w \<and> w \<noteq> [] \<and> plain w \<and> (\<forall>v. m (w @ v) \<noteq> None)"
  shows "secret_pattern m"
proof
  fix t n v assume "m t = Some n"
  then obtain w rest where w: "t = w @ rest" "n = length w" "w \<noteq> []" "plain w" "\<forall>v. m (w @ v) \<noteq> None" using assms by blast
  then show "0 < n \<and> n \<le> length t \<and> plain (take n t)" "m (take n t @ v) \<noteq> None" by simp_all
qed

interpretation api_key: secret_pattern match_api_key
proof (rule recognised)
  fix t n assume "match_api_key t = Some n"
  then obtain r where t: "t = ''sk-'' @ r" and n: "n = 3 + length (takeWhile word_char r)" "16 \<le> length (takeWhile word_char r)"
    by (auto simp: match_api_key_Some simp del: append.simps)
  let ?w = "''sk-'' @ takeWhile word_char r"
  have "t = ?w @ drop (length (takeWhile word_char r)) r" using run_split(1) [of r word_char] by (simp add: t)
  moreover have "plain ?w" using plain_run [of word_char r, OF no_brackets(1)] by (simp add: plain_append) (simp add: plain_def)
  moreover have "match_api_key (?w @ v) \<noteq> None" for v
  proof -
    have "match_api_key (''sk-'' @ (takeWhile word_char r @ v)) = Some (3 + length (takeWhile word_char (takeWhile word_char r @ v)))"
      unfolding match_api_key_Some using n(2) by (auto simp: takeWhile_run simp del: append.simps)
    then show ?thesis by simp
  qed
  ultimately show "\<exists>w rest. t = w @ rest \<and> n = length w \<and> w \<noteq> [] \<and> plain w \<and> (\<forall>v. match_api_key (w @ v) \<noteq> None)"
    using n(1) by (intro exI [of _ ?w] exI [of _ "drop (length (takeWhile word_char r)) r"] conjI) auto
qed

lemma match_aws_key_Some: "match_aws_key t = Some n \<longleftrightarrow> (\<exists>r. t = ''AKIA'' @ r \<and> n = 20 \<and> 16 \<le> length (takeWhile aws_char r))"
  unfolding match_aws_key_def strip_case_Some by (auto simp del: append.simps split: if_splits)

interpretation aws_key: secret_pattern match_aws_key
proof (rule recognised)
  fix t n assume "match_aws_key t = Some n"
  then obtain r where t: "t = ''AKIA'' @ r" and n: "n = 20" "16 \<le> length (takeWhile aws_char r)"
    by (auto simp: match_aws_key_Some simp del: append.simps)
  let ?a = "take 16 r" let ?w = "''AKIA'' @ ?a"
  have "take 16 (takeWhile aws_char r) = take 16 r"
    using n(2) run_split(1) [of r aws_char] by (metis append_eq_conv_conj nat_le_iff_add take_add take_append take_all_iff diff_is_0_eq take0 append_Nil2)
  then have a: "\<forall>c\<in>set ?a. aws_char c" "length ?a = 16"
    using n(2) by (metis in_set_takeD set_takeWhileD, metis length_take min.absorb2)
  have "plain ?w" using plain_all [OF a(1) no_brackets(2)] by (simp add: plain_append) (simp add: plain_def)
  moreover have "match_aws_key (?w @ v) \<noteq> None" for v
  proof -
    have "match_aws_key (''AKIA'' @ (?a @ v)) = Some 20"
      unfolding match_aws_key_Some using a by (auto simp: run_all simp del: append.simps)
    then show ?thesis by simp
  qed
  moreover have "t = ?w @ drop 16 r" by (simp add: t)
  ultimately show "\<exists>w rest. t = w @ rest \<and> n = length w \<and> w \<noteq> [] \<and> plain w \<and> (\<forall>v. match_aws_key (w @ v) \<noteq> None)"
    using n(1) a(2) by (intro exI [of _ ?w] exI [of _ "drop 16 r"] conjI) auto
qed

lemma match_jwt_Some:
  "match_jwt t = Some n \<longleftrightarrow>
     (\<exists>a b r. t = ''eyJ'' @ a @ ''.eyJ'' @ b @ ''.'' @ r \<and> (\<forall>c\<in>set a. word_char c) \<and> (\<forall>c\<in>set b. word_char c) \<and> a \<noteq> [] \<and> b \<noteq> []
        \<and> takeWhile word_char r \<noteq> [] \<and> n = 3 + length a + 4 + length b + 1 + length (takeWhile word_char r))"
  (is "_ \<longleftrightarrow> ?shape")
proof
  assume "match_jwt t = Some n"
  then obtain r1 r2 r3 where r: "t = ''eyJ'' @ r1" "drop (length (takeWhile word_char r1)) r1 = ''.eyJ'' @ r2"
      "drop (length (takeWhile word_char r2)) r2 = ''.'' @ r3"
    and n: "takeWhile word_char r1 \<noteq> []" "takeWhile word_char r2 \<noteq> []" "takeWhile word_char r3 \<noteq> []"
      "n = 3 + length (takeWhile word_char r1) + 4 + length (takeWhile word_char r2) + 1 + length (takeWhile word_char r3)"
    unfolding match_jwt_def Let_def strip_case_Some by (auto simp del: append.simps split: if_splits)
  have "t = ''eyJ'' @ takeWhile word_char r1 @ ''.eyJ'' @ takeWhile word_char r2 @ ''.'' @ r3"
    using run_split(1) [of r1 word_char, unfolded r(2)] run_split(1) [of r2 word_char, unfolded r(3)] r(1) by metis
  then show ?shape using n run_split(2) [of word_char] by blast
next
  assume ?shape
  then obtain a b r where *: "t = ''eyJ'' @ a @ ''.eyJ'' @ b @ ''.'' @ r" "\<forall>c\<in>set a. word_char c" "\<forall>c\<in>set b. word_char c" "a \<noteq> []" "b \<noteq> []"
    "takeWhile word_char r \<noteq> []" "n = 3 + length a + 4 + length b + 1 + length (takeWhile word_char r)" by blast
  have dot: "\<not> word_char (CHR ''.'')" by code_simp
  from dot have stop: "takeWhile word_char (a @ ''.eyJ'' @ x) = a" "takeWhile word_char (b @ ''.'' @ x) = b" for x
    using *(2,3) by (simp_all add: run_all)
  show "match_jwt t = Some n"
    unfolding match_jwt_def *(1) strip_prefix_same option.case Let_def stop
    by (simp add: strip_prefix_def starts_with_def * dot)
qed

interpretation jwt: secret_pattern match_jwt
proof (rule recognised)
  fix t n assume "match_jwt t = Some n"
  then obtain a b r where *: "t = ''eyJ'' @ a @ ''.eyJ'' @ b @ ''.'' @ r" "\<forall>c\<in>set a. word_char c" "\<forall>c\<in>set b. word_char c" "a \<noteq> []" "b \<noteq> []"
    "takeWhile word_char r \<noteq> []" "n = 3 + length a + 4 + length b + 1 + length (takeWhile word_char r)"
    unfolding match_jwt_Some by blast
  let ?c = "takeWhile word_char r" let ?w = "''eyJ'' @ a @ ''.eyJ'' @ b @ ''.'' @ ?c" and ?rest = "drop (length (takeWhile word_char r)) r"
  have "t = ?w @ ?rest" using run_split(1) [of r word_char] by (simp add: *(1))
  moreover have "plain ?w" using plain_all [OF *(2) no_brackets(1)] plain_all [OF *(3) no_brackets(1)] plain_run [of word_char r, OF no_brackets(1)]
    by (simp add: plain_append) (simp add: plain_def)
  moreover have "match_jwt (?w @ v) \<noteq> None" for v
  proof -
    have "match_jwt (''eyJ'' @ a @ ''.eyJ'' @ b @ ''.'' @ (?c @ v)) = Some (3 + length a + 4 + length b + 1 + length (takeWhile word_char (?c @ v)))"
      unfolding match_jwt_Some using *(2-6) by (intro exI [of _ a] exI [of _ b] exI [of _ "?c @ v"]) (simp add: takeWhile_run)
    then show ?thesis by simp
  qed
  ultimately show "\<exists>w rest. t = w @ rest \<and> n = length w \<and> w \<noteq> [] \<and> plain w \<and> (\<forall>v. match_jwt (w @ v) \<noteq> None)"
    using *(7) by (intro exI [of _ ?w] exI [of _ ?rest] conjI) auto
qed

lemma match_bearer_Some:
  "match_bearer t = Some n \<longleftrightarrow>
     (\<exists>p sp r. t = p @ sp @ r \<and> to_ascii_lowercase p = ''bearer'' \<and> sp \<noteq> [] \<and> (\<forall>c\<in>set sp. is_space c) \<and> (r = [] \<or> \<not> is_space (hd r))
        \<and> 16 \<le> length (takeWhile bearer_char r) \<and> n = length p + length sp + length (takeWhile bearer_char r))"
  (is "_ \<longleftrightarrow> ?shape")
proof
  assume m: "match_bearer t = Some n"
  define sp where "sp = takeWhile is_space (drop 6 t)"
  define r where "r = drop (length sp) (drop 6 t)"
  from m have f: "to_ascii_lowercase (take 6 t) = ''bearer''" "sp \<noteq> []" "16 \<le> length (takeWhile bearer_char r)"
    "n = 6 + length sp + length (takeWhile bearer_char r)"
    unfolding match_bearer_def Let_def sp_def r_def by (auto split: if_splits)
  have "length (to_ascii_lowercase (take 6 t)) = 6" using f(1) by simp
  then have "length (take 6 t) = 6" by (simp add: to_ascii_lowercase_def)
  with f(4) have len: "n = length (take 6 t) + length sp + length (takeWhile bearer_char r)" by simp
  have parts: "t = take 6 t @ sp @ r"
    unfolding sp_def r_def using run_split(1) [of "drop 6 t" is_space] append_take_drop_id [of 6 t] by metis
  have space: "\<forall>c\<in>set sp. is_space c" unfolding sp_def by (rule run_split(2))
  have "r = dropWhile is_space (drop 6 t)" by (simp add: r_def sp_def dropWhile_eq_drop)
  then have stop: "r = [] \<or> \<not> is_space (hd r)" using hd_dropWhile [of is_space "drop 6 t"] by blast
  show ?shape
    by (rule exI [of _ "take 6 t"], rule exI [of _ sp], rule exI [of _ r], intro conjI) (rule parts f(1) f(2) space stop f(3) len)+
next
  assume ?shape
  then obtain p sp r where *: "t = p @ sp @ r" "to_ascii_lowercase p = ''bearer''" "sp \<noteq> []" "\<forall>c\<in>set sp. is_space c" "r = [] \<or> \<not> is_space (hd r)"
    "16 \<le> length (takeWhile bearer_char r)" "n = length p + length sp + length (takeWhile bearer_char r)" by blast
  have "length (to_ascii_lowercase p) = 6" using *(2) by simp
  then have p: "length p = 6" by (simp add: to_ascii_lowercase_def)
  have "takeWhile is_space (sp @ r) = sp" using *(4,5) by (cases r) (simp_all add: run_all)
  then show "match_bearer t = Some n" unfolding match_bearer_def Let_def using * p by simp
qed


lemma lowercase_keeps: "c \<in> set p \<Longrightarrow> c = CHR ''['' \<or> c = CHR '']'' \<Longrightarrow> c \<in> set (to_ascii_lowercase p)"
  by (auto simp: to_ascii_lowercase_def Let_def intro!: rev_image_eqI [of c])

lemma bearer_word_plain: "to_ascii_lowercase p = ''bearer'' \<Longrightarrow> plain p"
  using lowercase_keeps [of _ p] by (auto simp: plain_def)

interpretation bearer_token: secret_pattern match_bearer
proof (rule recognised)
  fix t n assume "match_bearer t = Some n"
  then obtain p sp r where *: "t = p @ sp @ r" "to_ascii_lowercase p = ''bearer''" "sp \<noteq> []" "\<forall>c\<in>set sp. is_space c" "r = [] \<or> \<not> is_space (hd r)"
    "16 \<le> length (takeWhile bearer_char r)" "n = length p + length sp + length (takeWhile bearer_char r)"
    unfolding match_bearer_Some by blast
  let ?c = "takeWhile bearer_char r" let ?w = "p @ sp @ ?c" and ?rest = "drop (length (takeWhile bearer_char r)) r"
  have "t = ?w @ ?rest" using run_split(1) [of r bearer_char] by (simp add: *(1))
  moreover have "plain ?w"
    using plain_all [OF *(4) no_brackets(7)] plain_run [of bearer_char r, OF no_brackets(3)] bearer_word_plain [OF *(2)] by (simp add: plain_append)
  moreover have "match_bearer (?w @ v) \<noteq> None" for v
  proof -
    have "hd (?c @ v) = hd r" "?c @ v \<noteq> []" "r \<noteq> []" using *(6) by (cases r; auto)+
    then have "match_bearer (p @ sp @ (?c @ v)) = Some (length p + length sp + length (takeWhile bearer_char (?c @ v)))"
      unfolding match_bearer_Some using *(2-6) by (intro exI [of _ p] exI [of _ sp] exI [of _ "?c @ v"]) (simp add: takeWhile_run)
    then show ?thesis by simp
  qed
  ultimately show "\<exists>w rest. t = w @ rest \<and> n = length w \<and> w \<noteq> [] \<and> plain w \<and> (\<forall>v. match_bearer (w @ v) \<noteq> None)"
    using *(3,7) by (intro exI [of _ ?w] exI [of _ ?rest] conjI) auto
qed


lemma nth_run: "k < length (takeWhile P x) \<Longrightarrow> x ! k = takeWhile P x ! k"
  by (simp add: takeWhile_nth)

lemma match_email_Some:
  assumes "match_email t = Some n"
  shows "\<exists>l d e r. t = l @ ''@'' @ d @ ''.'' @ e @ r \<and> l \<noteq> [] \<and> (\<forall>c\<in>set l. local_char c) \<and> d \<noteq> [] \<and> (\<forall>c\<in>set d. domain_char c)
    \<and> 2 \<le> length e \<and> (\<forall>c\<in>set e. is_letter c) \<and> n = length l + 1 + length d + 1 + length e"
proof -
  define l where "l = takeWhile local_char t"
  from assms obtain x k where l: "l \<noteq> []" and x: "drop (length l) t = CHR ''@'' # x"
    and k: "find (\<lambda>k. x ! k = CHR ''.'' \<and> 2 \<le> length (takeWhile is_letter (drop (k + 1) x))) (rev [1..<length (takeWhile domain_char x)]) = Some k"
    and n: "n = length l + 1 + k + 1 + length (takeWhile is_letter (drop (k + 1) x))"
    unfolding match_email_def Let_def l_def by (auto split: list.splits if_splits)
  from k have "k \<in> set (rev [1..<length (takeWhile domain_char x)])" by (auto simp only: find_Some_iff dest: nth_mem)
  with k have dot: "x ! k = CHR ''.''" "2 \<le> length (takeWhile is_letter (drop (k + 1) x))" "1 \<le> k" "k < length (takeWhile domain_char x)"
    unfolding find_Some_iff by auto
  have len: "k < length x" using dot(4) length_takeWhile_le [of domain_char x] by linarith
  define d e r where "d = take k x" and "e = takeWhile is_letter (drop (k + 1) x)" and "r = drop (length e) (drop (k + 1) x)"
  have "take k x = take k (takeWhile domain_char x)" using dot(4) takeWhile_dropWhile_id [of domain_char x]
    by (metis append_Nil2 diff_is_0_eq less_imp_le_nat take0 take_append)
  then have dd: "\<forall>c\<in>set d. domain_char c" unfolding d_def by (metis in_set_takeD set_takeWhileD)
  have a: "x = d @ CHR ''.'' # drop (k + 1) x" using id_take_nth_drop [OF len] dot(1) by (simp only: d_def Suc_eq_plus1)
  have b: "drop (k + 1) x = e @ r" unfolding e_def r_def by (rule run_split(1))
  have c: "t = l @ CHR ''@'' # x" using run_split(1) [of t local_char] x by (simp only: l_def)
  have "x = d @ ''.'' @ e @ r" using a unfolding b append.simps .
  with c have t: "t = l @ ''@'' @ d @ ''.'' @ e @ r" by (simp only: append.simps)
  have "\<forall>c\<in>set l. local_char c" "\<forall>c\<in>set e. is_letter c" unfolding l_def e_def by (rule run_split(2))+
  moreover have "d \<noteq> []" "length d = k" using dot(3) len by (auto simp: d_def)
  ultimately show ?thesis using t l dd dot(2) n by (intro exI [of _ l] exI [of _ d] exI [of _ e] exI [of _ r]) (simp add: e_def)
qed

lemma match_email_at:
  assumes "takeWhile local_char (l @ CHR ''@'' # x) = l" "l \<noteq> []" "1 \<le> k" "k < length (takeWhile domain_char x)"
    and "x ! k = CHR ''.''" "2 \<le> length (takeWhile is_letter (drop (k + 1) x))"
  shows "match_email (l @ CHR ''@'' # x) \<noteq> None"
proof -
  have "k \<in> set (rev [1..<length (takeWhile domain_char x)])" using assms(3,4) by simp
  then have "find (\<lambda>k. x ! k = CHR ''.'' \<and> 2 \<le> length (takeWhile is_letter (drop (k + 1) x)))
      (rev [1..<length (takeWhile domain_char x)]) \<noteq> None" unfolding find_None_iff using assms(5,6) by blast
  then show ?thesis using assms(1,2) unfolding match_email_def Let_def by simp
qed

lemma match_email_found:
  assumes "l \<noteq> []" "\<forall>c\<in>set l. local_char c" "d \<noteq> []" "\<forall>c\<in>set d. domain_char c" "2 \<le> length e" "\<forall>c\<in>set e. is_letter c"
  shows "match_email (l @ ''@'' @ d @ ''.'' @ e) \<noteq> None" and "match_email (l @ ''@'' @ d @ ''.'' @ e @ v) \<noteq> None"
proof -
  show all: "match_email (l @ ''@'' @ d @ ''.'' @ e @ v) \<noteq> None" for v
  proof -
    let ?x = "d @ ''.'' @ e @ v"
    have "\<not> local_char (CHR ''@'')" "domain_char (CHR ''.'')" by code_simp+
    moreover have "\<forall>c\<in>set e. domain_char c" using assms(6) by (simp add: domain_char_def is_alnum_def)
    ultimately have run: "takeWhile local_char (l @ ''@'' @ ?x) = l" "takeWhile domain_char ?x = d @ ''.'' @ e @ takeWhile domain_char v"
      using assms(2,4) by simp_all
    have "?x ! length d = CHR ''.''" "2 \<le> length (takeWhile is_letter (drop (length d + 1) ?x))" "1 \<le> length d"
      using assms(3,5,6) by (simp_all add: Suc_le_eq)
    moreover have "length d < length (takeWhile domain_char ?x)" unfolding run by simp
    ultimately have "match_email (l @ CHR ''@'' # ?x) \<noteq> None" using run(1) assms(1) by (intro match_email_at [where k = "length d"]) simp_all
    then show ?thesis by simp
  qed
  from all [of "[]"] show "match_email (l @ ''@'' @ d @ ''.'' @ e) \<noteq> None" by simp
qed

interpretation email: secret_pattern match_email
proof (rule recognised)
  fix t n assume "match_email t = Some n"
  then obtain l d e r where *: "t = l @ ''@'' @ d @ ''.'' @ e @ r" "l \<noteq> []" "\<forall>c\<in>set l. local_char c" "d \<noteq> []" "\<forall>c\<in>set d. domain_char c"
    "2 \<le> length e" "\<forall>c\<in>set e. is_letter c" "n = length l + 1 + length d + 1 + length e"
    using match_email_Some by blast
  let ?w = "l @ ''@'' @ d @ ''.'' @ e"
  have "plain ?w" using plain_all [OF *(3) no_brackets(4)] plain_all [OF *(5) no_brackets(5)] plain_all [OF *(7) no_brackets(6)]
    by (simp add: plain_append) (simp add: plain_def)
  moreover have "match_email (?w @ v) \<noteq> None" for v using match_email_found(2) [OF *(2-7)] by simp
  ultimately show "\<exists>w rest. t = w @ rest \<and> n = length w \<and> w \<noteq> [] \<and> plain w \<and> (\<forall>v. match_email (w @ v) \<noteq> None)"
    using *(1,2,8) by (intro exI [of _ ?w] exI [of _ r] conjI) auto
qed


section \<open>Redacted texts\<close>

definition unsecret :: "string \<Rightarrow> bool" where
  "unsecret s = (clean match_jwt s \<and> clean match_bearer s \<and> clean match_api_key s \<and> clean match_email s \<and> clean match_aws_key s)"

definition bodies :: "string list" where
  "bodies = [''REDACTED_JWT'', ''REDACTED_BEARER_TOKEN'', ''REDACTED_API_KEY'', ''REDACTED_EMAIL'', ''REDACTED_AWS_KEY'']"

lemma clean_executable: "clean m s = list_all (\<lambda>i. m (drop i s) = None) [0..<Suc (length s)]"
  by (auto simp: clean_def list_all_iff less_Suc_eq_le)

lemma clean_missing: "(\<And>t n. m t = Some n \<Longrightarrow> \<exists>c\<in>set t. P c) \<Longrightarrow> \<forall>c\<in>set s. \<not> P c \<Longrightarrow> clean m s"
  unfolding clean_def by (meson in_set_dropD not_None_eq)

lemma pattern_needs:
  "match_jwt t = Some n \<Longrightarrow> \<exists>c\<in>set t. c = CHR ''.''" "match_bearer t = Some n \<Longrightarrow> \<exists>c\<in>set t. is_space c"
  "match_api_key t = Some n \<Longrightarrow> \<exists>c\<in>set t. c = CHR ''-''" "match_email t = Some n \<Longrightarrow> \<exists>c\<in>set t. c = CHR ''@''"
  by (auto simp: match_jwt_Some match_api_key_Some dest!: match_email_Some)
    (auto simp: match_bearer_Some neq_Nil_conv)

lemma body_clean:
  assumes "mid \<in> set bodies"
  shows "clean match_jwt mid" "clean match_bearer mid" "clean match_api_key mid" "clean match_email mid" "clean match_aws_key mid"
proof -
  have plain: "\<forall>c\<in>set mid. c \<notin> set ''.-@'' \<and> \<not> is_space c" 
  proof -
    have "list_all (list_all (\<lambda>c. c \<notin> set ''.-@'' \<and> \<not> is_space c)) bodies" by code_simp
    with assms show ?thesis by (simp add: list_all_iff)
  qed
  have free: "\<forall>c\<in>set mid. \<not> c = CHR ''.''" "\<forall>c\<in>set mid. \<not> is_space c" "\<forall>c\<in>set mid. \<not> c = CHR ''-''" "\<forall>c\<in>set mid. \<not> c = CHR ''@''"
    using plain by fastforce+
  show "clean match_jwt mid" by (rule clean_missing [OF _ free(1)]) (rule pattern_needs)
  show "clean match_bearer mid" by (rule clean_missing [OF _ free(2)]) (rule pattern_needs)
  show "clean match_api_key mid" by (rule clean_missing [OF _ free(3)]) (rule pattern_needs)
  show "clean match_email mid" by (rule clean_missing [OF _ free(4)]) (rule pattern_needs)
  have "list_all (clean match_aws_key) bodies"
    unfolding clean_executable by code_simp
  then show "clean match_aws_key mid" using assms by (simp add: list_all_iff)
qed

text \<open>One more pattern replaced: that pattern is gone, and what was gone before stays gone.\<close>

lemmas gone = jwt.replaced_clean bearer_token.replaced_clean api_key.replaced_clean email.replaced_clean aws_key.replaced_clean
lemmas stays = jwt.still_clean bearer_token.still_clean api_key.still_clean email.still_clean aws_key.still_clean

lemma redact_unfold: "redact s =
    replace_all match_aws_key (CHR ''['' # ''REDACTED_AWS_KEY'' @ '']'')
      (replace_all match_email (CHR ''['' # ''REDACTED_EMAIL'' @ '']'')
        (replace_all match_api_key (CHR ''['' # ''REDACTED_API_KEY'' @ '']'')
          (replace_all match_bearer (CHR ''['' # ''REDACTED_BEARER_TOKEN'' @ '']'')
            (replace_all match_jwt (CHR ''['' # ''REDACTED_JWT'' @ '']'') s))))"
  by (simp add: redact_def redactions_def)

lemma redact_unsecret: "unsecret (redact s)"
proof -
  have mids: "''REDACTED_JWT'' \<in> set bodies" "''REDACTED_BEARER_TOKEN'' \<in> set bodies" "''REDACTED_API_KEY'' \<in> set bodies"
    "''REDACTED_EMAIL'' \<in> set bodies" "''REDACTED_AWS_KEY'' \<in> set bodies"
    by (simp_all add: bodies_def)
  have "clean match_jwt (redact s)" "clean match_bearer (redact s)" "clean match_api_key (redact s)" "clean match_email (redact s)"
    "clean match_aws_key (redact s)"
    unfolding redact_unfold by (intro stays gone body_clean mids)+
  then show ?thesis by (simp add: unsecret_def)
qed

lemma unsecret_redact: "unsecret s \<Longrightarrow> redact s = s"
  by (simp add: unsecret_def redactions_def redact_def replace_clean)


section \<open>The audit trail\<close>

definition event_unsecret :: "AuditEvent \<Rightarrow> bool" where
  "event_unsecret e =
     (list_all (\<lambda>m. unsecret (am_content m)) (ae_messages e) \<and> (case ae_response e of Some r \<Rightarrow> unsecret r | None \<Rightarrow> True))"

lemma scrubbed_unsecret: "event_unsecret (scrub (audit_log_with_options redact True capture) e)"
  by (auto simp: event_unsecret_def scrub_def audit_log_with_options_def list_all_iff redact_unsecret split: option.splits)

text \<open>C22: With redaction on, as the gateway builds it, no prompt and no response in the audit trail, queued or delivered, holds
  a secret of the recognised shapes, whatever the requests and the pace of the sink.\<close>

theorem audit_trail_redacted:
  "list_all event_unsecret (stream_of (audit_run ops (audit_log_with_options redact True capture)))"
proof -
  let ?l = "audit_log_with_options redact True capture"
  have "subseq (stream_of (audit_run ops ?l)) (map (scrub ?l) (logged ops))"
    using audit_run_subseq [of ops ?l] by (simp add: audit_log_with_options_def)
  then have sub: "set (stream_of (audit_run ops ?l)) \<subseteq> scrub ?l ` set (logged ops)" by (auto elim: list_emb_set)
  show ?thesis unfolding list_all_iff
  proof
    fix e assume "e \<in> set (stream_of (audit_run ops ?l))"
    with sub obtain e' where "e = scrub ?l e'" by blast
    then show "event_unsecret e" by (simp only: scrubbed_unsecret)
  qed
qed

end
