(* ===== verification/Postgres_Log.thy ===== *)
theory Postgres_Log
  imports Usage_Store "HOL-Library.Sublist"
begin

text \<open>
  The Postgres request log (\<^verbatim>\<open>himadri-admin/src/postgres_backends.rs\<close>): rows, the bounded queue between the requests and the
  background writer with its count of dropped entries, and the listing, deletion and counting queries.
\<close>

section \<open>Rows\<close>

text \<open>The three counts are stored as signed 32-bit integers.\<close>

record RequestLogRow =
  rw_trace_id :: string
  rw_stage :: string
  rw_model :: string
  rw_provider :: string
  rw_prompt_tokens :: int
  rw_completion_tokens :: int
  rw_total_tokens :: int
  rw_error_message :: "string option"
  rw_created_at :: datetime

text \<open>\<^verbatim>\<open>timestamp\<close> is the precision the column keeps of an instant.\<close>

definition bind_entry :: "(datetime \<Rightarrow> datetime) \<Rightarrow> RequestLogEntry \<Rightarrow> RequestLogRow" where
  "bind_entry timestamp e =
     \<lparr>rw_trace_id = rle_trace_id e, rw_stage = rle_stage e, rw_model = rle_model e, rw_provider = rle_provider e,
      rw_prompt_tokens = sint (rle_prompt_tokens e), rw_completion_tokens = sint (rle_completion_tokens e),
      rw_total_tokens = sint (rle_total_tokens e), rw_error_message = rle_error_message e,
      rw_created_at = timestamp (rle_created_at e)\<rparr>"

definition entry_of_row :: "RequestLogRow \<Rightarrow> RequestLogEntry" where
  "entry_of_row r =
     \<lparr>rle_trace_id = rw_trace_id r, rle_stage = rw_stage r, rle_model = rw_model r, rle_provider = rw_provider r,
      rle_prompt_tokens = word_of_int (rw_prompt_tokens r), rle_completion_tokens = word_of_int (rw_completion_tokens r),
      rle_total_tokens = word_of_int (rw_total_tokens r), rle_error_message = rw_error_message r,
      rle_created_at = rw_created_at r\<rparr>"

section \<open>The store\<close>

definition REQUEST_LOG_QUEUE_CAPACITY :: nat where
  "REQUEST_LOG_QUEUE_CAPACITY = 8192"

record PostgresRequestLogStore =
  dl_rows :: "RequestLogRow list"
  dl_queue :: "RequestLogEntry list"
  dl_dropped :: u64

definition pg_log_new :: "RequestLogRow list \<Rightarrow> PostgresRequestLogStore" where
  "pg_log_new rows = \<lparr>dl_rows = rows, dl_queue = [], dl_dropped = 0\<rparr>"

definition pg_log_write :: "RequestLogEntry \<Rightarrow> PostgresRequestLogStore \<Rightarrow> (string, unit) result \<times> PostgresRequestLogStore" where
  "pg_log_write entry s =
     (if length (dl_queue s) < REQUEST_LOG_QUEUE_CAPACITY
      then (Ok (), s\<lparr>dl_queue := dl_queue s @ [entry]\<rparr>)
      else (Err ''request log queue full'', s\<lparr>dl_dropped := dl_dropped s + 1\<rparr>))"

text \<open>One turn of the background writer; an insert that fails loses its entry.\<close>

definition pg_log_writer :: "(datetime \<Rightarrow> datetime) \<Rightarrow> bool \<Rightarrow> PostgresRequestLogStore \<Rightarrow> PostgresRequestLogStore" where
  "pg_log_writer timestamp inserted s =
     (case dl_queue s of
        [] \<Rightarrow> s
      | entry # queue \<Rightarrow>
          s\<lparr>dl_queue := queue, dl_rows := dl_rows s @ (if inserted then [bind_entry timestamp entry] else [])\<rparr>)"

text \<open>The conditions the list query binds; it has none on the stage.\<close>

definition pg_selects :: "RequestLogQuery \<Rightarrow> RequestLogRow \<Rightarrow> bool" where
  "pg_selects q r =
     ((case rlq_model q of Some model \<Rightarrow> rw_model r = model | None \<Rightarrow> True) \<and>
      (case rlq_provider q of Some provider \<Rightarrow> rw_provider r = provider | None \<Rightarrow> True) \<and>
      (case rlq_since q of Some since \<Rightarrow> since \<le> rw_created_at r | None \<Rightarrow> True))"

text \<open>\<^verbatim>\<open>order\<close> is the database's \<^verbatim>\<open>ORDER BY created_at DESC\<close>; each of the two queries may fail.\<close>

definition pg_log_list ::
    "(RequestLogRow list \<Rightarrow> RequestLogRow list) \<Rightarrow> string option \<Rightarrow> string option \<Rightarrow> RequestLogQuery \<Rightarrow> PostgresRequestLogStore \<Rightarrow>
     (string, RequestLogListResult) result" where
  "pg_log_list order count_fault data_fault q s =
     (let selected = filter (pg_selects q) (dl_rows s); count = length selected;
          limit = sint (of_nat (unwrap_or (rlq_limit q) 100) :: u64); offset = sint (of_nat (unwrap_or (rlq_offset q) 0) :: u64)
      in case count_fault of
           Some e \<Rightarrow> Err e
         | None \<Rightarrow>
             (case data_fault of
                Some e \<Rightarrow> Err e
              | None \<Rightarrow>
                  if limit < 0 \<or> offset < 0 then Err ''LIMIT and OFFSET must not be negative''
                  else Ok \<lparr>rlr_data = map entry_of_row (take (nat limit) (drop (nat offset) (order selected))), rlr_total = count\<rparr>))"

definition pg_log_delete :: "string option \<Rightarrow> MaintenanceQuery \<Rightarrow> PostgresRequestLogStore \<Rightarrow> (string, nat) result \<times> PostgresRequestLogStore" where
  "pg_log_delete fault q s =
     (case fault of
        Some e \<Rightarrow> (Err e, s)
      | None \<Rightarrow>
          (let kept = filter (\<lambda>r. \<not> pg_deletes q (entry_of_row r)) (dl_rows s)
           in (Ok (length (dl_rows s) - length kept), s\<lparr>dl_rows := kept\<rparr>)))"

definition pg_log_count :: "string option \<Rightarrow> PostgresRequestLogStore \<Rightarrow> nat" where
  "pg_log_count fault s = (case fault of Some _ \<Rightarrow> 0 | None \<Rightarrow> length (dl_rows s))"

section \<open>Properties\<close>

lemma sint_back: "word_of_int (sint w) = (w :: u32)"
  by simp

text \<open>An entry comes back from its row with every count, message and name it had, at the column's precision of time.\<close>

lemma row_roundtrip: "entry_of_row (bind_entry timestamp e) = e\<lparr>rle_created_at := timestamp (rle_created_at e)\<rparr>"
  by (simp add: entry_of_row_def bind_entry_def)

text \<open>Requests writing and the background writer taking turns.\<close>

datatype log_step = Write RequestLogEntry | Insert bool

fun log_step_run :: "(datetime \<Rightarrow> datetime) \<Rightarrow> log_step \<Rightarrow> PostgresRequestLogStore \<Rightarrow> PostgresRequestLogStore" where
  "log_step_run ts (Write e) s = snd (pg_log_write e s)"
| "log_step_run ts (Insert ok) s = pg_log_writer ts ok s"

definition written :: "log_step list \<Rightarrow> RequestLogEntry list" where
  "written steps = List.map_filter (\<lambda>x. case x of Write e \<Rightarrow> Some e | Insert _ \<Rightarrow> None) steps"

lemma written_simps [simp]:
  "written [] = []" "written (Write e # steps) = e # written steps" "written (Insert ok # steps) = written steps"
  by (simp_all add: written_def map_filter_simps)

lemma log_run_order:
  "subseq (dl_rows (fold (log_step_run ts) steps s) @ map (bind_entry ts) (dl_queue (fold (log_step_run ts) steps s)))
     (dl_rows s @ map (bind_entry ts) (dl_queue s @ written steps))"
proof (induction steps arbitrary: s)
  case (Cons x steps)
  let ?s1 = "log_step_run ts x s"
  have "subseq (dl_rows ?s1 @ map (bind_entry ts) (dl_queue ?s1 @ written steps))
      (dl_rows s @ map (bind_entry ts) (dl_queue s @ written (x # steps)))"
    by (cases x) (auto simp: pg_log_write_def pg_log_writer_def subseq_append' list_emb_append_mono intro: subseq_Cons' split: list.split)
  with Cons.IH [of ?s1] show ?case by (simp add: subseq_order.trans)
qed simp

lemma log_run_rows: "prefix (dl_rows s) (dl_rows (fold (log_step_run ts) steps s))"
proof (induction steps arbitrary: s)
  case (Cons x steps)
  have "prefix (dl_rows s) (dl_rows (log_step_run ts x s))"
    by (cases x) (auto simp: pg_log_write_def pg_log_writer_def split: list.split)
  with Cons.IH [of "log_step_run ts x s"] show ?case by (simp add: prefix_order.trans)
qed simp

lemma log_run_bounded:
  "length (dl_queue s) \<le> REQUEST_LOG_QUEUE_CAPACITY \<Longrightarrow>
   length (dl_queue (fold (log_step_run ts) steps s)) \<le> REQUEST_LOG_QUEUE_CAPACITY"
proof (induction steps arbitrary: s)
  case (Cons x steps)
  have "length (dl_queue (log_step_run ts x s)) \<le> REQUEST_LOG_QUEUE_CAPACITY"
    using Cons.prems by (cases x) (auto simp: pg_log_write_def pg_log_writer_def split: list.split)
  then show ?case using Cons.IH [of "log_step_run ts x s"] by simp
qed simp

lemma log_run_counted:
  "Insert False \<notin> set steps \<Longrightarrow>
   (let s' = fold (log_step_run ts) steps s
    in of_nat (length (dl_rows s') + length (dl_queue s')) + dl_dropped s'
       = of_nat (length (dl_rows s) + length (dl_queue s) + length (written steps)) + dl_dropped s)"
proof (induction steps arbitrary: s)
  case (Cons x steps)
  have "of_nat (length (dl_rows (log_step_run ts x s)) + length (dl_queue (log_step_run ts x s))) + dl_dropped (log_step_run ts x s)
      = of_nat (length (dl_rows s) + length (dl_queue s) + length (written [x])) + dl_dropped s"
    using Cons.prems by (cases x) (auto simp: pg_log_write_def pg_log_writer_def split: list.split)
  moreover have "length (written (x # steps)) = length (written [x]) + length (written steps)" by (cases x) simp_all
  ultimately show ?case using Cons.IH [of "log_step_run ts x s"] Cons.prems by (simp add: Let_def algebra_simps)
qed simp

text \<open>C37: Whatever the interleaving of requests writing log entries and the background writer inserting them, the rows that were
  there stay, the new rows and the queue are the written entries in order less the lost ones, the queue stays within its
  capacity, and while no insert fails every entry is a row, queued, or counted as dropped.\<close>

theorem log_queue_delivers:
  assumes "s = fold (log_step_run ts) steps (pg_log_new rows)"
  shows "(\<exists>new. dl_rows s = rows @ new \<and> subseq (new @ map (bind_entry ts) (dl_queue s)) (map (bind_entry ts) (written steps))
        \<and> (Insert False \<in> set steps \<or> of_nat (length new + length (dl_queue s)) + dl_dropped s = (of_nat (length (written steps)) :: u64)))
    \<and> length (dl_queue s) \<le> REQUEST_LOG_QUEUE_CAPACITY"
proof -
  obtain new where new: "dl_rows s = rows @ new" using log_run_rows [of "pg_log_new rows"] by (auto simp: assms pg_log_new_def prefix_def)
  moreover have "subseq (new @ map (bind_entry ts) (dl_queue s)) (map (bind_entry ts) (written steps))"
    using log_run_order [where s = "pg_log_new rows" and ts = ts and steps = steps, folded assms] new by (simp add: pg_log_new_def subseq_append')
  moreover have "of_nat (length new + length (dl_queue s)) + dl_dropped s = (of_nat (length (written steps)) :: u64)" if "Insert False \<notin> set steps"
    using log_run_counted [OF that, of ts "pg_log_new rows", folded assms] new by (simp add: pg_log_new_def Let_def algebra_simps)
  moreover have "length (dl_queue s) \<le> REQUEST_LOG_QUEUE_CAPACITY"
    unfolding assms by (rule log_run_bounded) (simp add: pg_log_new_def)
  ultimately show ?thesis by blast
qed

text \<open>One page of a listing.\<close>

definition log_page :: "(RequestLogRow list \<Rightarrow> RequestLogRow list) \<Rightarrow> RequestLogQuery \<Rightarrow> PostgresRequestLogStore \<Rightarrow> nat \<Rightarrow> nat \<Rightarrow> RequestLogEntry list" where
  "log_page order q s per k =
     (case pg_log_list order None None (q\<lparr>rlq_limit := Some per, rlq_offset := Some (k * per)\<rparr>) s of
        Ok r \<Rightarrow> rlr_data r
      | Err _ \<Rightarrow> [])"

lemma small_i64: "n < 2 ^ 63 \<Longrightarrow> sint (of_nat n :: u64) = int n"
  by (simp add: signed_of_nat signed_take_bit_int_eq_self)

lemma log_page_rows:
  assumes "per < 2 ^ 63" "k * per < 2 ^ 63"
  shows "log_page order q s per k = map entry_of_row (take per (drop (k * per) (order (filter (pg_selects q) (dl_rows s)))))"
proof -
  define off where "off = k * per"
  have "pg_selects (q\<lparr>rlq_limit := a, rlq_offset := b\<rparr>) = pg_selects q" for a b by (rule ext) (simp add: pg_selects_def)
  then show ?thesis using assms unfolding off_def [symmetric] log_page_def pg_log_list_def Let_def
    by (simp add: unwrap_or_def small_i64)
qed

text \<open>Paging through a listing shows every entry that meets the conditions exactly once, whatever the page size, provided the
  pages reach the end and stay within 64-bit offsets; the first page already gives the exact total.\<close>

theorem log_pages_complete:
  assumes "\<And>rows. mset (order rows) = mset rows" "m * per < 2 ^ 63" "length (filter (pg_selects q) (dl_rows s)) \<le> m * per" "per < 2 ^ 63"
  shows "mset (concat (map (log_page order q s per) [0..<m])) = mset (map entry_of_row (filter (pg_selects q) (dl_rows s)))"
proof -
  let ?xs = "order (filter (pg_selects q) (dl_rows s))"
  have "log_page order q s per k = map entry_of_row (take per (drop (k * per) ?xs))" if "k \<in> set [0..<m]" for k
  proof -
    have "k * per \<le> m * per" using that by (intro mult_le_mono) simp_all
    then have "k * per < 2 ^ 63" using assms(2) by linarith
    with assms(4) show ?thesis by (rule log_page_rows)
  qed
  then have "map (log_page order q s per) [0..<m] = map (\<lambda>k. map entry_of_row (take per (drop (k * per) ?xs))) [0..<m]"
    by (intro map_cong [OF refl])
  then have "concat (map (log_page order q s per) [0..<m]) = concat (map (\<lambda>k. map entry_of_row (take per (drop (k * per) ?xs))) [0..<m])"
    by (rule arg_cong)
  also have "\<dots> = map entry_of_row (take (m * per) ?xs)" by (simp flip: pages_concat add: map_concat comp_def)
  also have "take (m * per) ?xs = ?xs" using assms(1,3) by (metis mset_eq_length take_all)
  finally show ?thesis using assms(1) by simp
qed

section \<open>Findings\<close>

text \<open>The Postgres listing does not look at the stage it is asked for.\<close>

lemma stage_filter_ignored: "pg_log_list order f g (q\<lparr>rlq_stage := a\<rparr>) s = pg_log_list order f g q s"
proof -
  have "pg_selects (q\<lparr>rlq_stage := a\<rparr>) = pg_selects q" by (rule ext) (simp add: pg_selects_def)
  then show ?thesis by (simp add: pg_log_list_def)
qed

section \<open>Instance\<close>

definition demo_entry :: RequestLogEntry where
  "demo_entry = \<lparr>rle_trace_id = ''t'', rle_stage = ''s'', rle_model = ''m'', rle_provider = ''p'', rle_prompt_tokens = 1,
     rle_completion_tokens = 0xFFFFFFFF, rle_total_tokens = 0, rle_error_message = None, rle_created_at = 7\<rparr>"

definition demo_query :: RequestLogQuery where
  "demo_query = \<lparr>rlq_limit = None, rlq_offset = None, rlq_stage = None, rlq_model = Some ''m'', rlq_provider = None, rlq_since = Some 3\<rparr>"

theorem log_queue_delivers_witness:
  "\<exists>new. dl_rows (fold (log_step_run (\<lambda>t. t)) [Write demo_entry, Write demo_entry, Insert True] (pg_log_new [])) = new
     \<and> subseq (new @ map (bind_entry (\<lambda>t. t)) [demo_entry]) (map (bind_entry (\<lambda>t. t)) [demo_entry, demo_entry])"
  using log_queue_delivers [OF refl, of "\<lambda>t. t" "[Write demo_entry, Write demo_entry, Insert True]" "[]"]
  by (simp add: pg_log_write_def pg_log_writer_def pg_log_new_def REQUEST_LOG_QUEUE_CAPACITY_def)

theorem log_pages_complete_witness:
  "mset (concat (map (log_page rev demo_query (pg_log_new (replicate 3 (bind_entry (\<lambda>t. t) demo_entry))) 2) [0..<2]))
     = mset (replicate 3 demo_entry)"
proof -
  have "filter (pg_selects demo_query) (replicate 3 (bind_entry (\<lambda>t. t) demo_entry)) = replicate 3 (bind_entry (\<lambda>t. t) demo_entry)"
    by (simp add: pg_selects_def demo_query_def bind_entry_def demo_entry_def eval_nat_numeral)
  moreover have "entry_of_row (bind_entry (\<lambda>t. t) demo_entry) = demo_entry" by (simp add: row_roundtrip)
  ultimately show ?thesis
    using log_pages_complete [of rev 2 2 demo_query "pg_log_new (replicate 3 (bind_entry (\<lambda>t. t) demo_entry))"] by (simp add: pg_log_new_def)
qed

end
