(* ===== verification/Client_Pool.thy ===== *)
theory Client_Pool
  imports Net_Guard
begin

text \<open>
  The pool of HTTP clients for the upstream providers (\<^verbatim>\<open>himadri-provider/src/http_client.rs\<close>): the settings of each vendor,
  the client built from them, and the pool that hands it out.
\<close>

section \<open>Transport settings\<close>

text \<open>Durations in seconds; zero disables the request deadline or the read bound.\<close>

record TransportConfig =
  tc_max_idle_per_host :: nat
  tc_pool_idle_timeout :: nat
  tc_connect_timeout :: nat
  tc_request_timeout :: nat
  tc_read_timeout :: nat
  tc_tcp_keepalive :: nat
  tc_tcp_nodelay :: bool

definition transport_default :: TransportConfig where
  "transport_default =
     \<lparr>tc_max_idle_per_host = 100, tc_pool_idle_timeout = 90, tc_connect_timeout = 10, tc_request_timeout = 600,
      tc_read_timeout = 120, tc_tcp_keepalive = 60, tc_tcp_nodelay = True\<rparr>"

definition transport_openai :: TransportConfig where
  "transport_openai = transport_default\<lparr>tc_max_idle_per_host := 200\<rparr>"

definition transport_anthropic :: TransportConfig where
  "transport_anthropic = transport_default\<lparr>tc_max_idle_per_host := 150, tc_read_timeout := 180\<rparr>"

definition transport_cloud_provider :: TransportConfig where
  "transport_cloud_provider = transport_default\<lparr>tc_connect_timeout := 15, tc_read_timeout := 180\<rparr>"

definition transport_streaming :: TransportConfig where
  "transport_streaming = transport_default\<lparr>tc_pool_idle_timeout := 300, tc_request_timeout := 0, tc_read_timeout := 300\<rparr>"

definition transport_local :: TransportConfig where
  "transport_local =
     transport_default\<lparr>tc_max_idle_per_host := 20, tc_pool_idle_timeout := 30, tc_connect_timeout := 5, tc_tcp_keepalive := 30\<rparr>"

definition provider_transport :: "string \<Rightarrow> TransportConfig" where
  "provider_transport provider =
     (if provider \<in> set [''openai'', ''azure-openai'', ''azure''] then transport_openai
      else if provider = ''anthropic'' then transport_anthropic
      else if provider \<in> set [''bedrock'', ''vertex''] then transport_cloud_provider
      else if provider = ''ollama'' then transport_local
      else if provider \<in> set [''openrouter'', ''together'', ''groq'', ''fireworks'', ''deepinfra'', ''cerebras'', ''novita'']
      then transport_openai
      else transport_default)"

section \<open>The pool\<close>

text \<open>A built client, as far as its bounds go: an unset deadline waits for ever.\<close>

record HttpClient =
  hcl_connect_timeout :: nat
  hcl_timeout :: "nat option"
  hcl_read_timeout :: "nat option"
  hcl_max_idle_per_host :: nat
  hcl_pool_idle_timeout :: nat
  hcl_tcp_keepalive :: nat
  hcl_tcp_nodelay :: bool

definition build_client_from_config :: "TransportConfig \<Rightarrow> HttpClient" where
  "build_client_from_config config =
     \<lparr>hcl_connect_timeout = tc_connect_timeout config,
      hcl_timeout = (if tc_request_timeout config \<noteq> 0 then Some (tc_request_timeout config) else None),
      hcl_read_timeout = (if tc_read_timeout config \<noteq> 0 then Some (tc_read_timeout config) else None),
      hcl_max_idle_per_host = tc_max_idle_per_host config, hcl_pool_idle_timeout = tc_pool_idle_timeout config,
      hcl_tcp_keepalive = tc_tcp_keepalive config, hcl_tcp_nodelay = tc_tcp_nodelay config\<rparr>"

record ProviderHttpClient =
  hc_clients :: "string \<rightharpoonup> HttpClient"
  hc_streaming_client :: HttpClient

definition http_pool_new :: ProviderHttpClient where
  "http_pool_new = \<lparr>hc_clients = Map.empty, hc_streaming_client = build_client_from_config transport_streaming\<rparr>"

definition build_provider_client :: "string \<Rightarrow> HttpClient" where
  "build_provider_client provider = build_client_from_config (provider_transport provider)"

text \<open>Looking up first and inserting where the entry is still vacant.\<close>

definition get_or_insert :: "string \<Rightarrow> HttpClient \<Rightarrow> ProviderHttpClient \<Rightarrow> HttpClient \<times> ProviderHttpClient" where
  "get_or_insert key client pool =
     (case hc_clients pool key of
        Some c \<Rightarrow> (c, pool)
      | None \<Rightarrow> (client, pool\<lparr>hc_clients := (hc_clients pool)(key \<mapsto> client)\<rparr>))"

definition for_provider :: "string \<Rightarrow> ProviderHttpClient \<Rightarrow> HttpClient \<times> ProviderHttpClient" where
  "for_provider provider pool = get_or_insert provider (build_provider_client provider) pool"

definition for_provider_with_config :: "string \<Rightarrow> TransportConfig \<Rightarrow> ProviderHttpClient \<Rightarrow> HttpClient \<times> ProviderHttpClient" where
  "for_provider_with_config provider config pool = get_or_insert (provider @ '':custom'') (build_client_from_config config) pool"

definition shared_streaming :: "ProviderHttpClient \<Rightarrow> HttpClient" where
  "shared_streaming pool = hc_streaming_client pool"

section \<open>Every wait is bounded\<close>

datatype pool_op = Plain_client string | Custom_client string TransportConfig

fun pool_step :: "pool_op \<Rightarrow> ProviderHttpClient \<Rightarrow> ProviderHttpClient" where
  "pool_step (Plain_client p) pool = snd (for_provider p pool)"
| "pool_step (Custom_client p c) pool = snd (for_provider_with_config p c pool)"

definition custom_key :: "string \<Rightarrow> bool" where
  "custom_key k = ends_with '':custom'' k"

definition pool_ok :: "ProviderHttpClient \<Rightarrow> bool" where
  "pool_ok pool =
     (hc_streaming_client pool = build_client_from_config transport_streaming \<and>
      (\<forall>k c. hc_clients pool k = Some c \<longrightarrow> \<not> custom_key k \<longrightarrow> c = build_provider_client k))"

lemma custom_key_app [simp]: "custom_key (p @ '':custom'')"
  by (simp add: custom_key_def ends_with_def starts_with_def)

lemma pool_step_ok: "pool_ok pool \<Longrightarrow> pool_ok (pool_step op pool)"
  by (cases op) (auto simp: pool_ok_def for_provider_def for_provider_with_config_def get_or_insert_def split: option.split if_splits)

lemma pool_run_ok: "pool_ok (fold pool_step ops http_pool_new)"
proof -
  have step: "pool_ok pool \<Longrightarrow> pool_ok (fold pool_step ops pool)" for pool
    by (induction ops arbitrary: pool) (simp_all add: pool_step_ok)
  show ?thesis by (rule step) (simp add: pool_ok_def http_pool_new_def)
qed

lemma transports:
  "provider_transport p \<in> {transport_openai, transport_anthropic, transport_cloud_provider, transport_local, transport_default}"
  by (simp add: provider_transport_def)

lemmas transport_defs = build_provider_client_def build_client_from_config_def transport_openai_def transport_anthropic_def
  transport_cloud_provider_def transport_local_def transport_default_def

lemma provider_bounds:
  "hcl_timeout (build_provider_client p) = Some 600" "hcl_read_timeout (build_provider_client p) \<in> {Some 120, Some 180}"
  "hcl_connect_timeout (build_provider_client p) \<in> {5, 10, 15}"
proof -
  consider "provider_transport p = transport_openai" | "provider_transport p = transport_anthropic"
    | "provider_transport p = transport_cloud_provider" | "provider_transport p = transport_local" | "provider_transport p = transport_default"
    using transports [of p] by blast
  then show "hcl_timeout (build_provider_client p) = Some 600" "hcl_read_timeout (build_provider_client p) \<in> {Some 120, Some 180}"
    "hcl_connect_timeout (build_provider_client p) \<in> {5, 10, 15}"
    by (cases; simp add: transport_defs)+
qed

text \<open>C40: Whatever clients the pool has handed out before, the client of a provider is the one its own settings describe, and waits
  at most fifteen seconds to connect, three minutes between two reads and ten minutes in all; the streaming client has no
  total deadline but gives up after five minutes without a read.\<close>

theorem provider_waits_bounded:
  assumes "\<not> custom_key provider"
  shows "let pool = fold pool_step ops http_pool_new; c = fst (for_provider provider pool); s = shared_streaming pool
    in c = build_provider_client provider
       \<and> hcl_connect_timeout c \<le> 15 \<and> hcl_timeout c = Some 600 \<and> (\<exists>r\<le>180. hcl_read_timeout c = Some r)
       \<and> hcl_timeout s = None \<and> hcl_read_timeout s = Some 300"
proof -
  let ?pool = "fold pool_step ops http_pool_new"
  have "fst (for_provider provider ?pool) = build_provider_client provider"
    using pool_run_ok [of ops] assms by (auto simp: pool_ok_def for_provider_def get_or_insert_def split: option.split)
  moreover have "hcl_timeout (shared_streaming ?pool) = None \<and> hcl_read_timeout (shared_streaming ?pool) = Some 300"
    using pool_run_ok [of ops] by (simp add: pool_ok_def shared_streaming_def build_client_from_config_def transport_streaming_def transport_default_def)
  ultimately show ?thesis using provider_bounds [of provider] by (auto simp: Let_def)
qed

theorem provider_waits_bounded_witness:
  "hcl_timeout (fst (for_provider ''groq'' (fold pool_step [Plain_client ''groq'', Custom_client ''groq'' transport_local] http_pool_new))) = Some 600"
proof -
  have "\<not> custom_key ''groq''" by (simp add: custom_key_def ends_with_def starts_with_def)
  from provider_waits_bounded [OF this, of "[Plain_client ''groq'', Custom_client ''groq'' transport_local]"]
  show ?thesis unfolding Let_def by (elim conjE)
qed

text \<open>The first custom settings of a provider stay in force: later ones are not looked at.\<close>

lemma first_custom_config_wins:
  "fst (for_provider_with_config p c2 (snd (for_provider_with_config p c1 http_pool_new))) = build_client_from_config c1"
  by (simp add: for_provider_with_config_def get_or_insert_def http_pool_new_def)

end
