(* ===== verification/Telemetry.thy ===== *)
theory Telemetry
  imports Request_Audit
begin

text \<open>
  Tracing set-up and shutdown (\<^verbatim>\<open>himadri-observability/src/tracing_setup.rs\<close>) and the metric families the process registers
  (\<^verbatim>\<open>metrics.rs\<close>). Building the exporter is an argument; the counters the gateway moves are in the audit theory.
\<close>

section \<open>Sampling\<close>

text \<open>A 64-bit float, as far as clamping tells its values apart.\<close>

datatype f64 = NaN | Finite rat | Infinity bool

definition clamp_ratio :: "f64 \<Rightarrow> f64" where
  "clamp_ratio ratio =
     (case ratio of
        NaN \<Rightarrow> Finite 1
      | Finite x \<Rightarrow> Finite (if x < 0 then 0 else if 1 < x then 1 else x)
      | Infinity positive \<Rightarrow> Finite (if positive then 1 else 0))"

lemma clamped: "\<exists>x. clamp_ratio r = Finite x \<and> 0 \<le> x \<and> x \<le> 1"
  by (auto simp: clamp_ratio_def split: f64.split)

section \<open>Set-up and shutdown\<close>

text \<open>The exporter pipeline: its endpoint, where none the SDK's own choice, the attributes of the resource and the sampler's
  fraction of root traces.\<close>

record tracer_provider =
  tp_endpoint :: "string option"
  tp_service_name :: string
  tp_service_version :: string
  tp_root_ratio :: f64

record tracing_setup =
  ts_enabled :: bool
  ts_service_name :: string
  ts_endpoint :: "string option"
  ts_sample_ratio :: f64

definition build_otlp_provider :: "(string option \<Rightarrow> (string, unit) result) \<Rightarrow> string \<Rightarrow> tracing_setup \<Rightarrow> (string, tracer_provider) result" where
  "build_otlp_provider exporter version cfg =
     (let endpoint = (case ts_endpoint cfg of Some e \<Rightarrow> if e \<noteq> [] then Some e else None | None \<Rightarrow> None)
      in case exporter endpoint of
           Err e \<Rightarrow> Err e
         | Ok _ \<Rightarrow> Ok \<lparr>tp_endpoint = endpoint, tp_service_name = ts_service_name cfg, tp_service_version = version,
                         tp_root_ratio = clamp_ratio (ts_sample_ratio cfg)\<rparr>)"

type_synonym TracingGuard = "tracer_provider option"

definition init_tracing :: "(string option \<Rightarrow> (string, unit) result) \<Rightarrow> string \<Rightarrow> tracing_setup \<Rightarrow> TracingGuard" where
  "init_tracing exporter version cfg =
     (if \<not> ts_enabled cfg then None
      else case build_otlp_provider exporter version cfg of
             Ok provider \<Rightarrow> Some provider
           | Err _ \<Rightarrow> None)"

definition is_active :: "TracingGuard \<Rightarrow> bool" where
  "is_active guard = (guard \<noteq> None)"

text \<open>\<^verbatim>\<open>shutdown_inner\<close> takes the provider out of the guard; what it shuts down is listed.\<close>

definition shutdown_inner :: "TracingGuard \<times> tracer_provider list \<Rightarrow> TracingGuard \<times> tracer_provider list" where
  "shutdown_inner s = (case s of (Some provider, flushed) \<Rightarrow> (None, flushed @ [provider]) | (None, flushed) \<Rightarrow> (None, flushed))"

text \<open>Tracing never keeps the process from starting and is shut down once: the set-up yields a guard whatever the exporter
  does, an active one exactly where tracing is enabled and the exporter could be built, sampling a fraction within bounds,
  and any number of shutdowns and drops flushes its provider exactly once.\<close>

theorem tracing_shut_down_once:
  "let guard = init_tracing exporter version cfg
   in is_active guard = (ts_enabled cfg \<and> is_ok (build_otlp_provider exporter version cfg))
      \<and> (\<forall>provider. guard = Some provider \<longrightarrow> (\<exists>x. tp_root_ratio provider = Finite x \<and> 0 \<le> x \<and> x \<le> 1))
      \<and> (shutdown_inner ^^ Suc n) (guard, []) = (None, case guard of Some provider \<Rightarrow> [provider] | None \<Rightarrow> [])"
proof -
  have "(shutdown_inner ^^ n) (None, flushed) = (None, flushed)" for n flushed
    by (induction n) (simp_all add: shutdown_inner_def)
  then have "(shutdown_inner ^^ Suc n) (g, []) = (None, case g of Some provider \<Rightarrow> [provider] | None \<Rightarrow> [])" for g
    unfolding funpow_Suc_right comp_def by (cases g) (simp_all add: shutdown_inner_def)
  then show ?thesis using clamped
    by (auto simp: Let_def init_tracing_def is_active_def is_ok_def build_otlp_provider_def split: sum.split option.splits if_splits)
qed

section \<open>Metric families\<close>

datatype metric_kind = IntCounter | IntCounterVec "string list" | IntGauge | Histogram "rat list" | HistogramVec "rat list" "string list"

definition metric_families :: "(string \<times> string \<times> metric_kind) list" where
  "metric_families =
     [(''himadri_requests_total'', ''Total number of requests'', IntCounterVec [''provider'', ''model'']),
      (''himadri_request_duration_seconds'', ''Request duration in seconds'',
         Histogram [1/1000, 5/1000, 1/100, 25/1000, 5/100, 1/10, 25/100, 1/2, 1, 5/2, 5, 10]),
      (''himadri_tokens_input_total'', ''Total input tokens'', IntCounterVec [''provider'', ''model'']),
      (''himadri_tokens_output_total'', ''Total output tokens'', IntCounterVec [''provider'', ''model'']),
      (''himadri_provider_errors_total'', ''Total provider errors'', IntCounterVec [''provider'', ''model'']),
      (''himadri_cost_usd_total'', ''Total cost in USD (stored as micro-USD)'', IntCounterVec [''provider'', ''model'']),
      (''himadri_rate_limit_rejections_total'', ''Total rate limit rejections'', IntCounter),
      (''himadri_circuit_breaker_state'', ''Circuit breaker state (0=closed, 1=open, 2=half_open)'', IntGauge),
      (''himadri_active_connections'', ''Number of active connections'', IntGauge),
      (''himadri_cache_hits_total'', ''Total response cache hits'', IntCounter),
      (''himadri_cache_misses_total'', ''Total response cache misses'', IntCounter),
      (''himadri_guardrails_pii_detections_total'', ''PII entities detected by guardrails (types/counts only, never values)'',
         IntCounterVec [''entity_type'', ''direction'', ''action'']),
      (''himadri_guardrails_requests_blocked_total'', ''Requests/responses blocked by PII guardrails'', IntCounterVec [''direction'']),
      (''himadri_guardrails_scan_duration_seconds'', ''PII guardrail scan duration in seconds'',
         HistogramVec [1/10000, 5/10000, 1/1000, 5/1000, 1/100, 5/100, 1/10, 1/2] [''direction'']),
      (''himadri_guardrails_engine_errors_total'', ''PII guardrail engine failures'', IntCounter)]"

text \<open>Constructing a metric fails on buckets that do not increase, registering one on a name already taken; both are expected
  not to happen, and panic.\<close>

fun metric_constructible :: "metric_kind \<Rightarrow> bool" where
  "metric_constructible (Histogram buckets) = sorted_wrt (<) buckets"
| "metric_constructible (HistogramVec buckets _) = sorted_wrt (<) buckets"
| "metric_constructible _ = True"

definition register_metric :: "string \<times> string \<times> metric_kind \<Rightarrow> (string \<times> string \<times> metric_kind) list option \<Rightarrow> (string \<times> string \<times> metric_kind) list option" where
  "register_metric m registry =
     (case registry of
        None \<Rightarrow> None
      | Some ms \<Rightarrow> if \<not> metric_constructible (snd (snd m)) \<or> fst m \<in> fst ` set ms then None else Some (ms @ [m]))"

definition metric_registry :: "(string \<times> string \<times> metric_kind) list option" where
  "metric_registry = fold register_metric metric_families (Some [])"

lemma registered_all:
  "\<forall>m\<in>set ms. metric_constructible (snd (snd m)) \<Longrightarrow> distinct (map fst (rs @ ms)) \<Longrightarrow> fold register_metric ms (Some rs) = Some (rs @ ms)"
proof (induction ms arbitrary: rs)
  case (Cons m ms)
  have "register_metric m (Some rs) = Some (rs @ [m])" using Cons.prems by (auto simp: register_metric_def)
  then show ?case using Cons.IH [of "rs @ [m]"] Cons.prems by simp
qed simp

text \<open>The constructor of the metrics never panics, and its registry holds every family once.\<close>

lemma metrics_constructed: "metric_registry = Some metric_families \<and> distinct (map fst metric_families)"
proof -
  have names: "distinct (map fst metric_families)" unfolding metric_families_def by code_simp
  moreover have "\<forall>m\<in>set metric_families. metric_constructible (snd (snd m))" by (simp add: metric_families_def)
  ultimately show ?thesis using registered_all [of metric_families "[]"] by (simp add: metric_registry_def)
qed

end
