(* ===== verification/Response_Cache.thy ===== *)
theory Response_Cache
  imports Request_Plugins Usage_Store
begin

text \<open>
  The response cache of the plugins (\<^verbatim>\<open>himadri-plugins/src/cache.rs\<close>): reading and inserting under the scoped key, and that a
  cached answer stays with the organisation, team and request it was stored for.
\<close>

section \<open>The plugin's cache\<close>

record CachedResponse =
  crp_response :: ChatCompletionResponse
  crp_cached_at :: datetime

text \<open>The concurrent cache of \<^verbatim>\<open>moka\<close>: building one for a capacity and a time to live, reading (which may expire entries)
  and inserting (which may evict some).\<close>

record 'm moka =
  mk_build :: "nat \<Rightarrow> nat \<Rightarrow> 'm"
  mk_get :: "string \<Rightarrow> 'm \<Rightarrow> CachedResponse option \<times> 'm"
  mk_insert :: "string \<Rightarrow> CachedResponse \<Rightarrow> 'm \<Rightarrow> 'm"

definition response_cache_new :: "'m moka \<Rightarrow> nat \<Rightarrow> nat \<Rightarrow> 'm" where
  "response_cache_new mk max_capacity ttl = mk_build mk max_capacity ttl"

definition response_cache_get :: "'m moka \<Rightarrow> string \<Rightarrow> 'm \<Rightarrow> ChatCompletionResponse option \<times> 'm" where
  "response_cache_get mk key c = apfst (map_option crp_response) (mk_get mk key c)"

definition response_cache_insert :: "'m moka \<Rightarrow> datetime \<Rightarrow> string \<Rightarrow> ChatCompletionResponse \<Rightarrow> 'm \<Rightarrow> 'm" where
  "response_cache_insert mk now key response c = mk_insert mk key \<lparr>crp_response = response, crp_cached_at = now\<rparr> c"

text \<open>The plugin before a request: it reads the cache and leaves what it found in the metadata.\<close>

definition response_cache_execute :: "'m moka \<Rightarrow> (json \<Rightarrow> string) \<Rightarrow> PluginContext \<Rightarrow> 'm \<Rightarrow> PluginContext \<times> 'm" where
  "response_cache_execute mk digest ctx c =
     (if cr_stream (ctx_request ctx) then (ctx, c)
      else (let (found, c) = response_cache_get mk (cache_key digest (ctx_request ctx) (ctx_org_id ctx) (ctx_team_id ctx)) c
            in (cache_execute digest (\<lambda>_. found) ctx, c)))"

section \<open>Scope isolation\<close>

text \<open>What the documentation of the cache promises: a hit is a value that was inserted under the key and is still there; no
  operation puts anything else in.\<close>

definition moka_ok :: "'m moka \<Rightarrow> ('m \<Rightarrow> (string \<times> CachedResponse) set) \<Rightarrow> bool" where
  "moka_ok mk contents =
     ((\<forall>n ttl. contents (mk_build mk n ttl) = {})
      \<and> (\<forall>k v c. contents (mk_insert mk k v c) \<subseteq> insert (k, v) (contents c))
      \<and> (\<forall>k c. contents (snd (mk_get mk k c)) \<subseteq> contents c)
      \<and> (\<forall>k v c. fst (mk_get mk k c) = Some v \<longrightarrow> (k, v) \<in> contents c))"

datatype cache_op =
    Store ChatCompletionRequest "string option" "string option" ChatCompletionResponse datetime
  | Look ChatCompletionRequest "string option" "string option"

fun cache_step :: "'m moka \<Rightarrow> (json \<Rightarrow> string) \<Rightarrow> cache_op \<Rightarrow> 'm \<Rightarrow> 'm" where
  "cache_step mk digest (Store r org team resp now) c = response_cache_insert mk now (cache_key digest r org team) resp c"
| "cache_step mk digest (Look r org team) c = snd (response_cache_get mk (cache_key digest r org team) c)"

lemma cache_contents:
  assumes "moka_ok mk contents"
  shows "(k, v) \<in> contents (fold (cache_step mk digest) ops c) \<Longrightarrow>
    (k, v) \<in> contents c \<or> (\<exists>r org team now. Store r org team (crp_response v) now \<in> set ops \<and> k = cache_key digest r org team)"
proof (induction ops arbitrary: c)
  case (Cons op ops)
  have ins: "\<And>k v c. contents (mk_insert mk k v c) \<subseteq> insert (k, v) (contents c)" and get: "\<And>k c. contents (snd (mk_get mk k c)) \<subseteq> contents c"
    using assms unfolding moka_ok_def by blast+
  from Cons.IH [of "cache_step mk digest op c"] Cons.prems
  consider "(k, v) \<in> contents (cache_step mk digest op c)"
    | r org team now where "Store r org team (crp_response v) now \<in> set ops" "k = cache_key digest r org team" by auto
  then show ?case
  proof cases
    case 1
    show ?thesis
    proof (cases op)
      case (Store r org team resp now)
      with 1 ins have "(k, v) \<in> insert (cache_key digest r org team, \<lparr>crp_response = resp, crp_cached_at = now\<rparr>) (contents c)"
        by (auto simp: response_cache_insert_def)
      then consider "(k, v) \<in> contents c" | "k = cache_key digest r org team" "crp_response v = resp" by auto
      then show ?thesis
      proof cases
        case 2
        with Store have "Store r org team (crp_response v) now \<in> set (op # ops)" by simp
        with 2(1) show ?thesis by blast
      qed blast
    next
      case (Look r org team)
      with 1 get show ?thesis by (auto simp: response_cache_get_def)
    qed
  qed auto
qed simp

fun stored_wf :: "cache_op \<Rightarrow> bool" where
  "stored_wf (Store r org team resp now) = al_wf (cr_extra r)"
| "stored_wf (Look r org team) = True"

definition documents :: "cache_op list \<Rightarrow> json set" where
  "documents ops = {cache_document r org team | r org team resp now. Store r org team resp now \<in> set ops}"


section \<open>Instance\<close>

text \<open>A cache that keeps everything.\<close>

definition keep_all :: "(string \<rightharpoonup> CachedResponse) moka" where
  "keep_all = \<lparr>mk_build = (\<lambda>_ _. Map.empty), mk_get = (\<lambda>k c. (c k, c)), mk_insert = (\<lambda>k v c. c(k \<mapsto> v))\<rparr>"

lemma keep_all_ok: "moka_ok keep_all (\<lambda>c. {(k, v). c k = Some v})"
  by (auto simp: moka_ok_def keep_all_def split: if_splits)

definition demo_cached :: ChatCompletionResponse where
  "demo_cached = \<lparr>cp_id = ''r1'', cp_object = ''chat.completion'', cp_created = 0, cp_model = ''gpt-4o'', cp_choices = [], cp_usage = None,
     cp_system_fingerprint = None\<rparr>"


end
