(* ===== verification/Sqlite_Rows.thy ===== *)
theory Sqlite_Rows
  imports Key_Store "HOL-Library.List_Lexorder" "HOL-Library.Char_ord"
begin

text \<open>
  The rows of the SQLite key store as they lie in the file (\<^verbatim>\<open>himadri-admin/src/store.rs\<close>, \<^verbatim>\<open>sqlite_time.rs\<close>): every instant a text,
  every nested value JSON text, the flag an integer. The statements of the key store theory work on decoded rows; here they work
  on the texts, expiry and order compared as text, and a simulation shows that they do the same. The writers and
  parsers of instants and JSON are arguments with their documented behaviour.
\<close>

section \<open>Timestamps as text\<close>

text \<open>An instant counts nanoseconds from the start of 1970. \<^verbatim>\<open>to_rfc3339\<close> writes the date and the time of day to the second in
  fields of fixed width, then as many digits of the fraction as it needs in groups of three, then the offset.\<close>

fun digits :: "nat \<Rightarrow> nat \<Rightarrow> string" where
  "digits 0 v = []"
| "digits (Suc w) v = digits w (v div 10) @ [char_of (48 + v mod 10)]"

definition fraction :: "nat \<Rightarrow> string" where
  "fraction n =
     (if n = 0 then []
      else if n mod 1000000 = 0 then CHR ''.'' # digits 3 (n div 1000000)
      else if n mod 1000 = 0 then CHR ''.'' # digits 6 (n div 1000)
      else CHR ''.'' # digits 9 n)"

definition four_digit_year :: "int \<Rightarrow> bool" where
  "four_digit_year s = (-62167219200 \<le> s \<and> s < 253402300800)"

definition datable :: "datetime \<Rightarrow> bool" where
  "datable t = four_digit_year (t div 1000000000)"

definition rfc3339_writer :: "(datetime \<Rightarrow> string) \<Rightarrow> bool" where
  "rfc3339_writer fmt =
     (\<exists>clock. (\<forall>s. four_digit_year s \<longrightarrow> length (clock s) = 19)
        \<and> (\<forall>s t. four_digit_year s \<longrightarrow> four_digit_year t \<longrightarrow> s < t \<longrightarrow> clock s < (clock t :: string))
        \<and> (\<forall>t. datable t \<longrightarrow> fmt t = clock (t div 1000000000) @ fraction (nat (t mod 1000000000)) @ ''+00:00''))"

lemma length_digits [simp]: "length (digits w v) = w"
  by (induction w arbitrary: v) simp_all

lemma less_append: "length xs = length ys \<Longrightarrow> (xs :: string) < ys \<Longrightarrow> xs @ us < ys @ vs"
  by (induction xs ys rule: list_induct2) auto

lemma less_append_same [simp]: "(xs :: string) @ us < xs @ vs \<longleftrightarrow> us < vs"
  by (induction xs) auto

lemma digit_less: "a < 10 \<Longrightarrow> b < 10 \<Longrightarrow> (char_of (48 + a) :: char) < char_of (48 + b) \<longleftrightarrow> (a :: nat) < b"
  by (simp add: less_char_def)

lemma digits_less:
  "a < 10 ^ w \<Longrightarrow> b < 10 ^ w \<Longrightarrow> a < b \<Longrightarrow> digits w a < digits w b"
proof (induction w arbitrary: a b)
  case (Suc w)
  have div: "a div 10 < 10 ^ w" "b div 10 < 10 ^ w" using Suc.prems by (simp_all add: less_mult_imp_div_less mult.commute)
  show ?case
  proof (cases "a div 10 = b div 10")
    case True
    then have "a mod 10 < b mod 10" using Suc.prems(3) by (metis div_mult_mod_eq nat_add_left_cancel_less)
    then show ?thesis using True digit_less [of "a mod 10" "b mod 10"] by simp
  next
    case False
    then have "a div 10 < b div 10" using Suc.prems(3) by (simp add: div_le_mono le_neq_implies_less)
    from less_append [OF _ Suc.IH [OF div this]] show ?thesis by simp
  qed
qed simp

lemma digits_add: "digits (m + k) v = digits m (v div 10 ^ k) @ digits k (v mod 10 ^ k)"
proof (induction k arbitrary: v)
  case (Suc k)
  have "v div 10 div 10 ^ k = v div 10 ^ Suc k" by (simp add: div_mult2_eq)
  moreover have "v div 10 mod 10 ^ k = v mod 10 ^ Suc k div 10"
    by (simp add: mod_mult2_eq div_add1_eq)
  moreover have "v mod 10 ^ Suc k mod 10 = v mod 10" by (simp add: mod_mult2_eq)
  ultimately show ?case using Suc.IH [of "v div 10"] by simp
qed simp

lemma char_of_48: "char_of (48 :: nat) = CHR ''0''"
  by (rule iffD1 [OF of_char_eq_iff [where 'a = nat]]) simp

lemma digits_zero: "digits k 0 = replicate k (CHR ''0'')"
  by (induction k) (simp_all add: replicate_append_same char_of_48)

lemma digits_set: "set (digits w v) \<subseteq> {c. CHR ''0'' \<le> c}"
  by (induction w arbitrary: v) (auto simp: less_eq_char_def)

text \<open>Nine digits less a tail of zeros, which is what the shorter forms are.\<close>

lemma fraction_padded:
  assumes "n \<noteq> 0" "n < 1000000000"
  shows "\<exists>p k. fraction n = CHR ''.'' # p \<and> digits 9 n = p @ replicate k (CHR ''0'') \<and> p \<noteq> []"
proof -
  have nine: "digits 9 v = digits 3 (v div 1000000) @ digits 6 (v mod 1000000)" "digits 9 v = digits 6 (v div 1000) @ digits 3 (v mod 1000)" for v
    using digits_add [of 3 6 v] digits_add [of 6 3 v] by simp_all
  consider "n mod 1000000 = 0" | "n mod 1000000 \<noteq> 0" "n mod 1000 = 0" | "n mod 1000000 \<noteq> 0" "n mod 1000 \<noteq> 0" by blast
  then show ?thesis
  proof cases
    case 1
    then show ?thesis using assms nine(1) [of n] by (intro exI [of _ "digits 3 (n div 1000000)"] exI [of _ 6])
      (auto simp: fraction_def digits_zero simp flip: length_0_conv)
  next
    case 2
    then show ?thesis using assms nine(2) [of n] by (intro exI [of _ "digits 6 (n div 1000)"] exI [of _ 3])
      (auto simp: fraction_def digits_zero simp flip: length_0_conv)
  next
    case 3
    then show ?thesis using assms by (intro exI [of _ "digits 9 n"] exI [of _ 0]) (auto simp: fraction_def simp flip: length_0_conv)
  qed
qed

lemma zeros_least: "\<not> xs < replicate k (CHR ''0'')" if "set xs \<subseteq> {c. CHR ''0'' \<le> c}" "length xs = k" for xs :: string
  using that by (induction xs arbitrary: k) auto

lemma less_take: "length xs \<le> length ys \<Longrightarrow> xs @ us < ys @ vs \<Longrightarrow> xs < take (length xs) ys \<or> (xs = take (length xs) ys \<and> us < drop (length xs) ys @ vs)"
  for xs ys :: string
proof (induction xs arbitrary: ys)
  case (Cons x xs)
  then obtain y zs where ys: "ys = y # zs" by (cases ys) simp_all
  with Cons.prems consider "x < y" | "x = y" "xs @ us < zs @ vs" by auto
  then show ?case using Cons.IH [of zs] Cons.prems ys by cases auto
qed simp

lemma take_less: "length xs \<le> length ys \<Longrightarrow> xs < take (length xs) ys \<Longrightarrow> xs @ us < ys @ vs" for xs ys :: string
  using less_append [of xs "take (length xs) ys" us "drop (length xs) ys @ vs"] by (simp flip: append_assoc)

lemma less_by_take: "length ys \<le> length xs \<Longrightarrow> take (length ys) xs < ys \<Longrightarrow> xs @ us < ys @ vs" for xs ys :: string
  using less_append [of "take (length ys) xs" ys "drop (length ys) xs @ us" vs] by (simp flip: append_assoc)

lemma fraction_less:
  assumes "m < n" "n < 1000000000"
  shows "fraction m @ ''+00:00'' < fraction n @ ''+00:00''"
proof -
  obtain q l where n: "fraction n = CHR ''.'' # q" "digits 9 n = q @ replicate l (CHR ''0'')" "q \<noteq> []"
    using fraction_padded [of n] assms by auto
  show ?thesis
  proof (cases "m = 0")
    case True
    then show ?thesis using n by (simp add: fraction_def less_char_def)
  next
    case False
    then obtain p k where m: "fraction m = CHR ''.'' # p" "digits 9 m = p @ replicate k (CHR ''0'')"
      using fraction_padded [of m] assms by auto
    have less: "p @ replicate k (CHR ''0'') < q @ replicate l (CHR ''0'')"
      using digits_less [of m 9 n] assms m n by simp
    have len: "length p + k = 9" "length q + l = 9" using length_digits [of 9 m] length_digits [of 9 n] m n by simp_all
    have digit: "set q \<subseteq> {c. CHR ''0'' \<le> c}" "set p \<subseteq> {c. CHR ''0'' \<le> c}" using digits_set [of 9 n] digits_set [of 9 m] m n by auto
    have "p @ ''+00:00'' < q @ ''+00:00''"
    proof (cases "length p \<le> length q")
      case True
      from less_take [OF True less] show ?thesis
      proof
        assume "p < take (length p) q"
        then show ?thesis by (rule take_less [OF True])
      next
        assume eq: "p = take (length p) q \<and> replicate k (CHR ''0'') < drop (length p) q @ replicate l (CHR ''0'')"
        define r where "r = drop (length p) q"
        have q: "q = p @ r" unfolding r_def using conjunct1 [OF eq] append_take_drop_id [of "length p" q] by metis
        have zeros: "replicate k (CHR ''0'') < r @ replicate l (CHR ''0'')" using eq unfolding r_def by (rule conjunct2)
        have "r \<noteq> []"
        proof
          assume "r = []"
          with q len have "k = l" by simp
          with zeros \<open>r = []\<close> show False by simp
        qed
        then obtain c r' where c: "r = c # r'" by (cases r) simp_all
        then have "CHR ''+'' < c" using digit(1) q by (simp add: less_char_def less_eq_char_def)
        moreover have "q = p @ c # r'" using q c by simp
        ultimately show ?thesis by simp
      qed
    next
      case False
      then have le: "length q \<le> length p" by simp
      have "\<not> q @ replicate l (CHR ''0'') < p @ replicate k (CHR ''0'')" using less_not_sym [OF less] .
      then have "\<not> q < take (length q) p" using take_less [OF le] by blast
      moreover have "take (length q) p \<noteq> q"
      proof
        assume eq: "take (length q) p = q"
        then have "q @ drop (length q) p @ replicate k (CHR ''0'') < q @ replicate l (CHR ''0'')"
          using less by (metis append_assoc append_take_drop_id)
        then have "drop (length q) p @ replicate k (CHR ''0'') < replicate l (CHR ''0'')" by simp
        moreover have "set (drop (length q) p @ replicate k (CHR ''0'')) \<subseteq> {c. CHR ''0'' \<le> c}" using digit(2) by (auto dest: in_set_dropD)
        moreover have "length (drop (length q) p @ replicate k (CHR ''0'')) = l" using len le by simp
        ultimately show False using zeros_least by blast
      qed
      ultimately have "take (length q) p < q" by (simp add: linorder_neq_iff) 
      then show ?thesis by (rule less_by_take [OF le])
    qed
    then show ?thesis using m n by simp
  qed
qed


text \<open>The text of two instants compares as the instants do.\<close>

lemma rfc3339_less:
  assumes "rfc3339_writer fmt" "datable t" "datable u"
  shows "fmt t < fmt u \<longleftrightarrow> t < u"
proof -
  obtain clock where clock: "\<forall>s. four_digit_year s \<longrightarrow> length (clock s) = 19"
      "\<forall>s t. four_digit_year s \<longrightarrow> four_digit_year t \<longrightarrow> s < t \<longrightarrow> clock s < clock t"
      "\<forall>t. datable t \<longrightarrow> fmt t = clock (t div 1000000000) @ fraction (nat (t mod 1000000000)) @ ''+00:00''"
    using assms(1) unfolding rfc3339_writer_def by blast
  have mono: "fmt a < fmt b" if "datable a" "datable b" "a < b" for a b
  proof (cases "a div 1000000000 = b div 1000000000")
    case True
    then have "a mod 1000000000 < b mod 1000000000" using that(3) by (metis add_less_cancel_left div_mult_mod_eq)
    then have "nat (a mod 1000000000) < nat (b mod 1000000000)" "nat (b mod 1000000000) < 1000000000"
      by (simp_all add: nat_less_eq_zless)
    from fraction_less [OF this] show ?thesis using True clock(3) that by simp
  next
    case False
    then have "a div 1000000000 < b div 1000000000" using zdiv_mono1 [of a b 1000000000] that(3) by simp
    then have "clock (a div 1000000000) < clock (b div 1000000000)" using clock(2) that by (simp add: datable_def)
    moreover have "length (clock (a div 1000000000)) = length (clock (b div 1000000000))" using clock(1) that by (simp add: datable_def)
    ultimately show ?thesis using clock(3) that less_append by simp
  qed
  show ?thesis using mono [OF assms(2,3)] mono [OF assms(3,2)] by (cases t u rule: linorder_cases) auto
qed


section \<open>Rows\<close>

text \<open>What the rows are written and read with: chrono's writer and parsers of instants, serde's JSON text and its derived
  encodings of the two nested structs.\<close>

record sqlite_text =
  se_to_rfc3339 :: "datetime \<Rightarrow> string"
  se_parse_rfc3339 :: "string \<Rightarrow> datetime option"
  se_parse_legacy :: "string \<Rightarrow> datetime option"
  se_json_text :: "json \<Rightarrow> string"
  se_json_parse :: "string \<Rightarrow> json option"
  se_limit_json :: "RateLimitOverride \<Rightarrow> json"
  se_limit_of :: "json \<Rightarrow> RateLimitOverride option"
  se_budget_json :: "OrgTokenBudget \<Rightarrow> json"
  se_budget_of :: "json \<Rightarrow> OrgTokenBudget option"

definition sqlite_parse :: "sqlite_text \<Rightarrow> string \<Rightarrow> datetime option" where
  "sqlite_parse tx s = (case se_parse_rfc3339 tx s of Some dt \<Rightarrow> Some dt | None \<Rightarrow> se_parse_legacy tx s)"

definition sqlite_parse_or_default :: "sqlite_text \<Rightarrow> string \<Rightarrow> datetime" where
  "sqlite_parse_or_default tx s = unwrap_or (sqlite_parse tx s) 0"

definition strings_json :: "string list \<Rightarrow> json" where
  "strings_json xs = JArr (map JStr xs)"

fun strings_of :: "json \<Rightarrow> string list option" where
  "strings_of (JArr js) = those (map as_str js)"
| "strings_of _ = None"

record SqliteApiKeyRow =
  lr_id :: string
  lr_name :: string
  lr_key :: string
  lr_scopes :: string
  lr_enabled :: int
  lr_created_at :: string
  lr_last_used_at :: "string option"
  lr_expires_at :: "string option"
  lr_usage_count :: int
  lr_metadata :: "string option"
  lr_org_id :: "string option"
  lr_team_id :: "string option"
  lr_user_id :: "string option"
  lr_models :: "string option"
  lr_rate_limit_override :: "string option"
  lr_token_budget :: "string option"

definition from_str :: "sqlite_text \<Rightarrow> (json \<Rightarrow> 'a option) \<Rightarrow> string \<Rightarrow> 'a option" where
  "from_str tx dec s = Option.bind (se_json_parse tx s) dec"

definition key_of_row :: "sqlite_text \<Rightarrow> SqliteApiKeyRow \<Rightarrow> ApiKey" where
  "key_of_row tx r =
     \<lparr>ak_id = lr_id r, ak_name = lr_name r, ak_key = masked_key_display (lr_key r),
      ak_scopes = unwrap_or (from_str tx strings_of (lr_scopes r)) [], ak_enabled = (lr_enabled r \<noteq> 0),
      ak_created_at = sqlite_parse_or_default tx (lr_created_at r),
      ak_last_used_at = Option.bind (lr_last_used_at r) (sqlite_parse tx),
      ak_expires_at = Option.bind (lr_expires_at r) (sqlite_parse tx),
      ak_usage_count = word_of_int (lr_usage_count r),
      ak_metadata = Option.bind (lr_metadata r) (se_json_parse tx),
      ak_org_id = lr_org_id r, ak_team_id = lr_team_id r, ak_user_id = lr_user_id r,
      ak_models = Option.bind (lr_models r) (from_str tx strings_of),
      ak_rate_limit_override = Option.bind (lr_rate_limit_override r) (from_str tx (se_limit_of tx)),
      ak_token_budget = Option.bind (lr_token_budget r) (from_str tx (se_budget_of tx))\<rparr>"

definition row_of_request :: "sqlite_text \<Rightarrow> (string \<Rightarrow> string) \<Rightarrow> draw \<Rightarrow> CreateApiKeyRequest \<Rightarrow> SqliteApiKeyRow" where
  "row_of_request tx sha d request =
     \<lparr>lr_id = dr_id d, lr_name = cq_name request, lr_key = hash_api_key sha (secret_of d),
      lr_scopes = se_json_text tx (strings_json (cq_scopes request)), lr_enabled = 1,
      lr_created_at = se_to_rfc3339 tx (dr_now d), lr_last_used_at = None,
      lr_expires_at = map_option (se_to_rfc3339 tx) (cq_expires_at request), lr_usage_count = 0,
      lr_metadata = map_option (se_json_text tx) (cq_metadata request),
      lr_org_id = cq_org_id request, lr_team_id = cq_team_id request, lr_user_id = cq_user_id request,
      lr_models = map_option (\<lambda>m. se_json_text tx (strings_json m)) (cq_models request),
      lr_rate_limit_override = map_option (\<lambda>l. se_json_text tx (se_limit_json tx l)) (cq_rate_limit_override request),
      lr_token_budget = map_option (\<lambda>b. se_json_text tx (se_budget_json tx b)) (cq_token_budget request)\<rparr>"

definition rewrite_row :: "sqlite_text \<Rightarrow> UpdateApiKeyRequest \<Rightarrow> ApiKey \<Rightarrow> SqliteApiKeyRow \<Rightarrow> SqliteApiKeyRow" where
  "rewrite_row tx request current r =
     r\<lparr>lr_name := unwrap_or (uq_name request) (ak_name current),
       lr_scopes := se_json_text tx (strings_json (unwrap_or (uq_scopes request) (ak_scopes current))),
       lr_enabled := (if unwrap_or (uq_enabled request) (ak_enabled current) then 1 else 0),
       lr_expires_at := map_option (se_to_rfc3339 tx) (unwrap_or (uq_expires_at request) (ak_expires_at current)),
       lr_metadata := map_option (se_json_text tx) (unwrap_or (uq_metadata request) (ak_metadata current)),
       lr_org_id := unwrap_or (uq_org_id request) (ak_org_id current),
       lr_team_id := unwrap_or (uq_team_id request) (ak_team_id current),
       lr_user_id := unwrap_or (uq_user_id request) (ak_user_id current),
       lr_models := map_option (\<lambda>m. se_json_text tx (strings_json m)) (unwrap_or (uq_models request) (ak_models current)),
       lr_rate_limit_override :=
         map_option (\<lambda>l. se_json_text tx (se_limit_json tx l)) (unwrap_or (uq_rate_limit_override request) (ak_rate_limit_override current)),
       lr_token_budget :=
         map_option (\<lambda>b. se_json_text tx (se_budget_json tx b)) (unwrap_or (uq_token_budget request) (ak_token_budget current))\<rparr>"

section \<open>The statements\<close>

type_synonym key_rows = "SqliteApiKeyRow list"

definition commit_rows :: "string \<Rightarrow> 'a \<Rightarrow> key_rows \<Rightarrow> key_rows \<Rightarrow> (AdminError, 'a) result \<times> key_rows" where
  "commit_rows dberr v rows' rows =
     (if distinct (map lr_id rows') \<and> distinct (map lr_key rows') then (Ok v, rows') else (Err (Store_admin dberr), rows))"

definition rewrite_where :: "(SqliteApiKeyRow \<Rightarrow> bool) \<Rightarrow> (SqliteApiKeyRow \<Rightarrow> SqliteApiKeyRow) \<Rightarrow> key_rows \<Rightarrow> key_rows" where
  "rewrite_where P f rows = map (\<lambda>r. if P r then f r else r) rows"

definition sqlite_get :: "sqlite_text \<Rightarrow> string \<Rightarrow> key_rows \<Rightarrow> (AdminError, ApiKey option) result" where
  "sqlite_get tx i rows = Ok (map_option (key_of_row tx) (find (\<lambda>r. lr_id r = i) rows))"

definition sqlite_create ::
    "sqlite_text \<Rightarrow> string \<Rightarrow> (string \<Rightarrow> string) \<Rightarrow> draw \<Rightarrow> CreateApiKeyRequest \<Rightarrow> key_rows \<Rightarrow> (AdminError, ApiKey) result \<times> key_rows" where
  "sqlite_create tx dberr sha d request rows =
     (case commit_rows dberr () (rows @ [row_of_request tx sha d request]) rows of
        (Err e, rows) \<Rightarrow> (Err e, rows)
      | (Ok _, rows) \<Rightarrow>
          (case sqlite_get tx (dr_id d) rows of
             Err e \<Rightarrow> (Err e, rows)
           | Ok None \<Rightarrow> (Err NotFound_admin, rows)
           | Ok (Some stored) \<Rightarrow> (Ok (stored\<lparr>ak_key := secret_of d\<rparr>), rows)))"

text \<open>\<^verbatim>\<open>ORDER BY created_at DESC\<close> compares the texts.\<close>

definition sqlite_list :: "sqlite_text \<Rightarrow> key_rows \<Rightarrow> ApiKey list" where
  "sqlite_list tx rows = map (key_of_row tx) (rev (sort_key lr_created_at rows))"

definition sqlite_update ::
    "sqlite_text \<Rightarrow> string \<Rightarrow> UpdateApiKeyRequest \<Rightarrow> key_rows \<Rightarrow> (AdminError, ApiKey option) result \<times> key_rows" where
  "sqlite_update tx i request rows =
     (case sqlite_get tx i rows of
        Err e \<Rightarrow> (Err e, rows)
      | Ok None \<Rightarrow> (Err NotFound_admin, rows)
      | Ok (Some current) \<Rightarrow>
          (let rows = rewrite_where (\<lambda>r. lr_id r = i) (rewrite_row tx request current) rows in (sqlite_get tx i rows, rows)))"

definition sqlite_delete :: "string \<Rightarrow> key_rows \<Rightarrow> (AdminError, bool) result \<times> key_rows" where
  "sqlite_delete i rows = (Ok (\<exists>r\<in>set rows. lr_id r = i), filter (\<lambda>r. lr_id r \<noteq> i) rows)"

text \<open>The expiry is compared as text with the text of the current time.\<close>

definition sqlite_validate ::
    "sqlite_text \<Rightarrow> string \<Rightarrow> (string \<Rightarrow> string) \<Rightarrow> datetime \<Rightarrow> string \<Rightarrow> key_rows \<Rightarrow> (AdminError, ApiKey option) result \<times> key_rows" where
  "sqlite_validate tx dberr sha now key rows =
     (let now_text = se_to_rfc3339 tx now;
          hit = (\<lambda>r. sq_opens sha key (lr_key r) \<and> lr_enabled r = 1 \<and>
                   (case lr_expires_at r of None \<Rightarrow> True | Some expires_at \<Rightarrow> now_text < expires_at));
          upd = (\<lambda>r. r\<lparr>lr_last_used_at := Some now_text, lr_usage_count := lr_usage_count r + 1, lr_key := hash_api_key sha key\<rparr>)
      in commit_rows dberr (map_option (key_of_row tx \<circ> upd) (find hit rows)) (rewrite_where hit upd rows) rows)"

definition sqlite_revoke :: "string \<Rightarrow> key_rows \<Rightarrow> (AdminError, bool) result \<times> key_rows" where
  "sqlite_revoke i rows = (Ok (\<exists>r\<in>set rows. lr_id r = i), rewrite_where (\<lambda>r. lr_id r = i) (\<lambda>r. r\<lparr>lr_enabled := 0\<rparr>) rows)"

definition sqlite_rotate ::
    "sqlite_text \<Rightarrow> string \<Rightarrow> (string \<Rightarrow> string) \<Rightarrow> draw \<Rightarrow> string \<Rightarrow> key_rows \<Rightarrow> (AdminError, ApiKey option) result \<times> key_rows" where
  "sqlite_rotate tx dberr sha d i rows =
     (case commit_rows dberr () (rewrite_where (\<lambda>r. lr_id r = i) (\<lambda>r. r\<lparr>lr_key := hash_api_key sha (secret_of d)\<rparr>) rows) rows of
        (Err e, rows) \<Rightarrow> (Err e, rows)
      | (Ok _, rows) \<Rightarrow>
          (case sqlite_get tx i rows of
             Err e \<Rightarrow> (Err e, rows)
           | Ok found \<Rightarrow> (Ok (map_option (\<lambda>stored. stored\<lparr>ak_key := secret_of d\<rparr>) found), rows)))"


section \<open>Well-typed rows\<close>

text \<open>What the writers and parsers are documented to do on the values that occur: an instant of a four-digit year comes back
  from its text, and so does a JSON value \<open>j\<close> with \<open>prints_back tx j\<close>.\<close>

definition text_laws :: "sqlite_text \<Rightarrow> bool" where
  "text_laws tx = (rfc3339_writer (se_to_rfc3339 tx) \<and> (\<forall>t. datable t \<longrightarrow> se_parse_rfc3339 tx (se_to_rfc3339 tx t) = Some t))"

definition prints_back :: "sqlite_text \<Rightarrow> json \<Rightarrow> bool" where
  "prints_back tx j = (se_json_parse tx (se_json_text tx j) = Some j)"

definition storable_limit :: "sqlite_text \<Rightarrow> RateLimitOverride \<Rightarrow> bool" where
  "storable_limit tx l = (prints_back tx (se_limit_json tx l) \<and> se_limit_of tx (se_limit_json tx l) = Some l)"

definition storable_budget :: "sqlite_text \<Rightarrow> OrgTokenBudget \<Rightarrow> bool" where
  "storable_budget tx b = (prints_back tx (se_budget_json tx b) \<and> se_budget_of tx (se_budget_json tx b) = Some b)"

definition storable :: "sqlite_text \<Rightarrow> ApiKey \<Rightarrow> bool" where
  "storable tx k =
     (prints_back tx (strings_json (ak_scopes k)) \<and> pred_option datable (ak_expires_at k) \<and> pred_option (prints_back tx) (ak_metadata k)
      \<and> pred_option (\<lambda>m. prints_back tx (strings_json m)) (ak_models k) \<and> pred_option (storable_limit tx) (ak_rate_limit_override k)
      \<and> pred_option (storable_budget tx) (ak_token_budget k))"

text \<open>The typed row a row of texts stands for: what it decodes to, with the stored hash.\<close>

definition typed_row :: "sqlite_text \<Rightarrow> SqliteApiKeyRow \<Rightarrow> ApiKey" where
  "typed_row tx r = (key_of_row tx r)\<lparr>ak_key := lr_key r\<rparr>"

definition row_ok :: "sqlite_text \<Rightarrow> SqliteApiKeyRow \<Rightarrow> bool" where
  "row_ok tx r =
     (lr_enabled r \<in> {0, 1} \<and> (\<exists>t. datable t \<and> lr_created_at r = se_to_rfc3339 tx t)
      \<and> (\<exists>e. pred_option datable e \<and> lr_expires_at r = map_option (se_to_rfc3339 tx) e) \<and> storable tx (typed_row tx r))"

lemma parse_written: "text_laws tx \<Longrightarrow> datable t \<Longrightarrow> sqlite_parse tx (se_to_rfc3339 tx t) = Some t"
  by (simp add: text_laws_def sqlite_parse_def)

lemma parse_written_option:
  "text_laws tx \<Longrightarrow> pred_option datable e \<Longrightarrow> Option.bind (map_option (se_to_rfc3339 tx) e) (sqlite_parse tx) = e"
  by (cases e) (simp_all add: parse_written)

lemma strings_back: "strings_of (strings_json xs) = Some xs"
  by (induction xs) (auto simp: strings_json_def)

lemma from_str_back: "prints_back tx j \<Longrightarrow> from_str tx dec (se_json_text tx j) = dec j"
  by (simp add: from_str_def prints_back_def)

lemma option_back:
  "pred_option P v \<Longrightarrow> (\<And>x. P x \<Longrightarrow> dec (enc x) = Some x) \<Longrightarrow> Option.bind (map_option enc v) dec = v"
  by (cases v) simp_all

lemma limit_back: "storable_limit tx l \<Longrightarrow> from_str tx (se_limit_of tx) (se_json_text tx (se_limit_json tx l)) = Some l"
  by (simp add: storable_limit_def from_str_back)

lemma budget_back: "storable_budget tx l \<Longrightarrow> from_str tx (se_budget_of tx) (se_json_text tx (se_budget_json tx l)) = Some l"
  by (simp add: storable_budget_def from_str_back)

lemma models_back: "prints_back tx (strings_json m) \<Longrightarrow> from_str tx strings_of (se_json_text tx (strings_json m)) = Some m"
  by (simp add: from_str_back strings_back)

lemma metadata_back: "prints_back tx j \<Longrightarrow> se_json_parse tx (se_json_text tx j) = Some j"
  by (simp add: prints_back_def)

lemmas columns_back = parse_written parse_written_option models_back
  option_back [where dec = "se_json_parse tx" and P = "prints_back tx" for tx, OF _ metadata_back]
  option_back [where dec = "from_str tx strings_of" and P = "\<lambda>m. prints_back tx (strings_json m)" for tx, OF _ models_back]
  option_back [where dec = "from_str tx (se_limit_of tx)" and P = "storable_limit tx" for tx, OF _ limit_back]
  option_back [where dec = "from_str tx (se_budget_of tx)" and P = "storable_budget tx" for tx, OF _ budget_back]

section \<open>Statement by statement\<close>

definition storable_request :: "sqlite_text \<Rightarrow> CreateApiKeyRequest \<Rightarrow> bool" where
  "storable_request tx request = storable tx (issued (\<lambda>_. []) \<lparr>dr_id = [], dr_uuid = [], dr_now = 0\<rparr> request)"

definition storable_update :: "sqlite_text \<Rightarrow> UpdateApiKeyRequest \<Rightarrow> bool" where
  "storable_update tx q =
     (pred_option (\<lambda>xs. prints_back tx (strings_json xs)) (uq_scopes q) \<and> pred_option (pred_option datable) (uq_expires_at q)
      \<and> pred_option (pred_option (prints_back tx)) (uq_metadata q) \<and> pred_option (pred_option (\<lambda>m. prints_back tx (strings_json m))) (uq_models q)
      \<and> pred_option (pred_option (storable_limit tx)) (uq_rate_limit_override q)
      \<and> pred_option (pred_option (storable_budget tx)) (uq_token_budget q))"

lemma typed_new_row:
  assumes "text_laws tx" "datable (dr_now d)" "storable_request tx request"
  shows "typed_row tx (row_of_request tx sha d request) = issued sha d request \<and> row_ok tx (row_of_request tx sha d request)"
proof -
  have st: "storable tx (issued sha d request)" using assms(3) by (simp add: storable_request_def storable_def issued_def)
  then have typed: "typed_row tx (row_of_request tx sha d request) = issued sha d request" using assms(1,2)
    by (simp add: typed_row_def key_of_row_def row_of_request_def issued_def storable_def columns_back sqlite_parse_or_default_def)
  moreover have "\<exists>e. pred_option datable e \<and> lr_expires_at (row_of_request tx sha d request) = map_option (se_to_rfc3339 tx) e"
    using st by (intro exI [of _ "cq_expires_at request"]) (simp add: storable_def issued_def row_of_request_def)
  moreover have "\<exists>t. datable t \<and> lr_created_at (row_of_request tx sha d request) = se_to_rfc3339 tx t"
    using assms(2) by (intro exI [of _ "dr_now d"]) (simp add: row_of_request_def)
  ultimately show ?thesis using st by (simp add: row_ok_def row_of_request_def)
qed

lemma storable_merged: "storable_update tx q \<Longrightarrow> storable tx k \<Longrightarrow> storable tx (merged q k r)"
  by (auto simp: storable_update_def storable_def merged_def unwrap_or_def split: option.split)

lemma storable_masked [simp]: "storable tx (k\<lparr>ak_key := h\<rparr>) = storable tx k"
  by (simp add: storable_def)

lemma typed_rewrite:
  assumes "text_laws tx" "storable_update tx q" "storable tx k" "row_ok tx r"
  shows "typed_row tx (rewrite_row tx q k r) = merged q k (typed_row tx r) \<and> row_ok tx (rewrite_row tx q k r)"
proof -
  have st: "storable tx (merged q k (typed_row tx r))" by (rule storable_merged [OF assms(2,3)])
  then have typed: "typed_row tx (rewrite_row tx q k r) = merged q k (typed_row tx r)" using assms(1)
    by (simp add: typed_row_def key_of_row_def rewrite_row_def merged_def storable_def columns_back)
  moreover have "\<exists>e. pred_option datable e \<and> lr_expires_at (rewrite_row tx q k r) = map_option (se_to_rfc3339 tx) e"
    using st by (intro exI [of _ "unwrap_or (uq_expires_at q) (ak_expires_at k)"]) (simp add: storable_def merged_def rewrite_row_def)
  moreover have "\<exists>t. datable t \<and> lr_created_at (rewrite_row tx q k r) = se_to_rfc3339 tx t" using assms(4) by (simp add: row_ok_def rewrite_row_def)
  ultimately show ?thesis using st by (simp add: row_ok_def rewrite_row_def)
qed

lemma typed_touch:
  assumes "text_laws tx" "datable now" "row_ok tx r"
  shows "typed_row tx (r\<lparr>lr_last_used_at := Some (se_to_rfc3339 tx now), lr_usage_count := lr_usage_count r + 1, lr_key := h\<rparr>)
      = (touched now (typed_row tx r))\<lparr>ak_key := h\<rparr>
    \<and> row_ok tx (r\<lparr>lr_last_used_at := Some (se_to_rfc3339 tx now), lr_usage_count := lr_usage_count r + 1, lr_key := h\<rparr>)"
  using assms by (auto simp: typed_row_def key_of_row_def touched_def parse_written row_ok_def storable_def)

lemma row_live:
  assumes "text_laws tx" "datable now" "row_ok tx r"
  shows "(case lr_expires_at r of None \<Rightarrow> True | Some e \<Rightarrow> se_to_rfc3339 tx now < e) = unexpired now (typed_row tx r)"
    "lr_enabled r = 1 \<longleftrightarrow> ak_enabled (typed_row tx r)"
proof -
  obtain e where e: "pred_option datable e" "lr_expires_at r = map_option (se_to_rfc3339 tx) e" using assms(3) by (auto simp: row_ok_def)
  then have "ak_expires_at (typed_row tx r) = e" using assms(1) by (simp add: typed_row_def key_of_row_def parse_written_option)
  moreover have "rfc3339_writer (se_to_rfc3339 tx)" using assms(1) by (simp add: text_laws_def)
  ultimately show "(case lr_expires_at r of None \<Rightarrow> True | Some e \<Rightarrow> se_to_rfc3339 tx now < e) = unexpired now (typed_row tx r)"
    using e assms(2) by (cases e) (simp_all add: unexpired_def rfc3339_less)
  show "lr_enabled r = 1 \<longleftrightarrow> ak_enabled (typed_row tx r)" using assms(3) by (auto simp: row_ok_def typed_row_def key_of_row_def)
qed

lemma typed_columns [simp]:
  "ak_id (typed_row tx r) = lr_id r" "ak_key (typed_row tx r) = lr_key r" "sq_into (typed_row tx r) = key_of_row tx r"
  by (simp_all add: typed_row_def key_of_row_def sq_into_def)


section \<open>The tables\<close>

text \<open>A statement on texts simulates one on typed rows: same answer, the rows it leaves stand for the typed ones, and are
  well-typed again.\<close>

definition simulates ::
    "sqlite_text \<Rightarrow> (table \<Rightarrow> 'a \<times> table) \<Rightarrow> (key_rows \<Rightarrow> 'a \<times> key_rows) \<Rightarrow> key_rows \<Rightarrow> bool" where
  "simulates tx typed_op text_op rows =
     (typed_op (map (typed_row tx) rows) = map_prod id (map (typed_row tx)) (text_op rows) \<and> list_all (row_ok tx) (snd (text_op rows)))"

lemma find_map: "find P (map f xs) = map_option f (find (P \<circ> f) xs)"
  by (induction xs) simp_all

lemma find_cong_set: "(\<And>x. x \<in> set xs \<Longrightarrow> P x = Q x) \<Longrightarrow> find P xs = find Q xs"
  by (induction xs) auto

lemma typed_rewrite_where:
  assumes "\<And>r. r \<in> set rows \<Longrightarrow> Q (typed_row tx r) = P r" "\<And>r. r \<in> set rows \<Longrightarrow> P r \<Longrightarrow> typed_row tx (f r) = g (typed_row tx r)"
  shows "map (typed_row tx) (rewrite_where P f rows) = update_where Q g (map (typed_row tx) rows)"
  using assms by (simp add: rewrite_where_def update_where_def)

lemma rewrite_where_ok:
  "list_all (row_ok tx) rows \<Longrightarrow> (\<And>r. r \<in> set rows \<Longrightarrow> P r \<Longrightarrow> row_ok tx (f r)) \<Longrightarrow> list_all (row_ok tx) (rewrite_where P f rows)"
  by (auto simp: rewrite_where_def list_all_iff)

lemma typed_commit:
  "commit dberr v (map (typed_row tx) rows') (map (typed_row tx) rows) = map_prod id (map (typed_row tx)) (commit_rows dberr v rows' rows)"
  by (simp add: commit_def commit_rows_def table_ok_def comp_def)

lemma commit_rows_ok:
  "list_all (row_ok tx) rows \<Longrightarrow> list_all (row_ok tx) rows' \<Longrightarrow> list_all (row_ok tx) (snd (commit_rows dberr v rows' rows))"
  by (simp add: commit_rows_def)

lemma typed_get: "sq_get i (map (typed_row tx) rows) = sqlite_get tx i rows"
  by (simp add: sq_get_def sqlite_get_def find_row_def find_map comp_def option.map_comp)

lemma insort_map:
  "(\<And>y. y \<in> set ys \<Longrightarrow> (f (g x) \<le> f (g y)) = (h x \<le> h y)) \<Longrightarrow> insort_key f (g x) (map g ys) = map g (insort_key h x ys)"
  by (induction ys) auto

lemma sort_map:
  "(\<And>x y. x \<in> set xs \<Longrightarrow> y \<in> set xs \<Longrightarrow> (f (g x) \<le> f (g y)) = (h x \<le> h y)) \<Longrightarrow> sort_key f (map g xs) = map g (sort_key h xs)"
proof (induction xs)
  case (Cons a xs)
  have "sort_key f (map g (a # xs)) = insort_key f (g a) (map g (sort_key h xs))" using Cons by (simp only: list.map sort_key_simps list.set insert_iff simp_thms)
  also have "\<dots> = map g (insort_key h a (sort_key h xs))" using Cons.prems by (intro insort_map) simp
  finally show ?case by simp
qed simp

lemma typed_list:
  assumes "text_laws tx" "list_all (row_ok tx) rows"
  shows "sq_list (map (typed_row tx) rows) = sqlite_list tx rows"
proof -
  have "(ak_created_at (typed_row tx x) \<le> ak_created_at (typed_row tx y)) = (lr_created_at x \<le> lr_created_at y)"
    if rows: "x \<in> set rows" "y \<in> set rows" for x y
  proof -
    obtain t u where t: "datable t" "lr_created_at x = se_to_rfc3339 tx t" and u: "datable u" "lr_created_at y = se_to_rfc3339 tx u"
      using bspec [OF assms(2) [unfolded list_all_iff] rows(1)] bspec [OF assms(2) [unfolded list_all_iff] rows(2)] unfolding row_ok_def by blast
    have "rfc3339_writer (se_to_rfc3339 tx)" using assms(1) by (simp add: text_laws_def)
    then show ?thesis using t u assms(1)
      by (simp add: typed_row_def key_of_row_def sqlite_parse_or_default_def parse_written rfc3339_less flip: linorder_not_less)
  qed
  then show ?thesis by (simp add: sq_list_def sqlite_list_def sort_map rev_map comp_def)
qed

lemma create_simulates:
  assumes "text_laws tx" "list_all (row_ok tx) rows" "datable (dr_now d)" "storable_request tx request"
  shows "simulates tx (sq_create dberr sha d request) (sqlite_create tx dberr sha d request) rows"
proof -
  let ?rows' = "rows @ [row_of_request tx sha d request]"
  have new: "typed_row tx (row_of_request tx sha d request) = issued sha d request" "row_ok tx (row_of_request tx sha d request)"
    using typed_new_row [OF assms(1,3,4)] by simp_all
  have eq: "commit dberr () (map (typed_row tx) rows @ [issued sha d request]) (map (typed_row tx) rows)
      = map_prod id (map (typed_row tx)) (commit_rows dberr () ?rows' rows)"
    using typed_commit [of dberr "()" tx ?rows' rows] new(1) by simp
  have "list_all (row_ok tx) (snd (commit_rows dberr () ?rows' rows))" using assms(2) new(2) by (intro commit_rows_ok) simp_all
  then show ?thesis unfolding simulates_def sq_create_def sqlite_create_def eq
    by (auto simp: typed_get split: sum.split option.split prod.split)
qed

lemma update_simulates:
  assumes "text_laws tx" "list_all (row_ok tx) rows" "storable_update tx q"
  shows "simulates tx (sq_update i q) (sqlite_update tx i q) rows"
proof (cases "find (\<lambda>r. lr_id r = i) rows")
  case None
  then show ?thesis using assms(2) by (simp add: simulates_def sq_update_def sqlite_update_def typed_get) (simp add: sqlite_get_def)
next
  case (Some r0)
  then have "r0 \<in> set rows" by (auto simp: find_Some_iff)
  then have "storable tx (typed_row tx r0)" using assms(2) by (auto simp: list_all_iff row_ok_def)
  then have st: "storable tx (key_of_row tx r0)" by (simp add: typed_row_def)
  let ?rows = "rewrite_where (\<lambda>r. lr_id r = i) (rewrite_row tx q (key_of_row tx r0)) rows"
  have ok: "row_ok tx r" if "r \<in> set rows" for r using assms(2) that by (simp add: list_all_iff)
  have typed: "map (typed_row tx) ?rows = update_where (\<lambda>r. ak_id r = i) (merged q (key_of_row tx r0)) (map (typed_row tx) rows)"
    using typed_rewrite [OF assms(1,3) st ok] by (intro typed_rewrite_where) simp_all
  have "list_all (row_ok tx) ?rows" using typed_rewrite [OF assms(1,3) st ok] assms(2) by (intro rewrite_where_ok) simp_all
  moreover have "sqlite_get tx i rows = Ok (Some (key_of_row tx r0))" using Some by (simp add: sqlite_get_def)
  ultimately show ?thesis unfolding simulates_def sq_update_def sqlite_update_def typed_get
    by (simp only: sum.case option.case Let_def typed [symmetric] typed_get map_prod_simp id_apply snd_conv simp_thms)
qed

lemma delete_simulates:
  assumes "list_all (row_ok tx) rows"
  shows "simulates tx (sq_delete i) (sqlite_delete i) rows"
  using assms by (auto simp: simulates_def sq_delete_def sqlite_delete_def filter_map comp_def list_all_iff)

lemma revoke_simulates:
  assumes "list_all (row_ok tx) rows"
  shows "simulates tx (sq_revoke i) (sqlite_revoke i) rows"
proof -
  have ok: "row_ok tx r" if "r \<in> set rows" for r using assms that by (simp add: list_all_iff)
  have "typed_row tx (r\<lparr>lr_enabled := 0\<rparr>) = (typed_row tx r)\<lparr>ak_enabled := False\<rparr>" for r by (simp add: typed_row_def key_of_row_def)
  then have "map (typed_row tx) (rewrite_where (\<lambda>r. lr_id r = i) (\<lambda>r. r\<lparr>lr_enabled := 0\<rparr>) rows)
      = update_where (\<lambda>r. ak_id r = i) (\<lambda>r. r\<lparr>ak_enabled := False\<rparr>) (map (typed_row tx) rows)" by (intro typed_rewrite_where) simp_all
  moreover have "row_ok tx (r\<lparr>lr_enabled := 0\<rparr>)" if "r \<in> set rows" for r
    using ok [OF that] by (simp add: row_ok_def typed_row_def key_of_row_def storable_def)
  then have "list_all (row_ok tx) (rewrite_where (\<lambda>r. lr_id r = i) (\<lambda>r. r\<lparr>lr_enabled := 0\<rparr>) rows)" using assms by (intro rewrite_where_ok) simp_all
  ultimately show ?thesis by (auto simp: simulates_def sq_revoke_def sqlite_revoke_def)
qed

lemma rotate_simulates:
  assumes "list_all (row_ok tx) rows"
  shows "simulates tx (sq_rotate dberr sha d i) (sqlite_rotate tx dberr sha d i) rows"
proof -
  let ?f = "\<lambda>r. r\<lparr>lr_key := hash_api_key sha (secret_of d)\<rparr>"
  have ok: "row_ok tx r" if "r \<in> set rows" for r using assms that by (simp add: list_all_iff)
  have "typed_row tx (?f r) = (typed_row tx r)\<lparr>ak_key := hash_api_key sha (secret_of d)\<rparr>" for r by (simp add: typed_row_def key_of_row_def)
  then have typed: "map (typed_row tx) (rewrite_where (\<lambda>r. lr_id r = i) ?f rows)
      = update_where (\<lambda>r. ak_id r = i) (\<lambda>r. r\<lparr>ak_key := hash_api_key sha (secret_of d)\<rparr>) (map (typed_row tx) rows)"
    by (intro typed_rewrite_where) simp_all
  have "row_ok tx (?f r)" if "r \<in> set rows" for r
    using ok [OF that] by (simp add: row_ok_def typed_row_def key_of_row_def storable_def)
  then have "list_all (row_ok tx) (rewrite_where (\<lambda>r. lr_id r = i) ?f rows)" using assms by (intro rewrite_where_ok) simp_all
  then have "list_all (row_ok tx) (snd (commit_rows dberr () (rewrite_where (\<lambda>r. lr_id r = i) ?f rows) rows))" using assms by (intro commit_rows_ok)
  then show ?thesis unfolding simulates_def sq_rotate_def sqlite_rotate_def typed [symmetric] typed_commit
    by (auto simp: typed_get split: sum.split option.split prod.split)
qed

lemma validate_simulates:
  assumes "text_laws tx" "list_all (row_ok tx) rows" "datable now"
  shows "simulates tx (sq_validate dberr sha now key) (sqlite_validate tx dberr sha now key) rows"
proof -
  let ?upd = "\<lambda>r. r\<lparr>lr_last_used_at := Some (se_to_rfc3339 tx now), lr_usage_count := lr_usage_count r + 1, lr_key := hash_api_key sha key\<rparr>"
  let ?tupd = "\<lambda>r. (touched now r)\<lparr>ak_key := hash_api_key sha key\<rparr>"
  let ?hit = "\<lambda>r. sq_opens sha key (lr_key r) \<and> lr_enabled r = 1 \<and> (case lr_expires_at r of None \<Rightarrow> True | Some e \<Rightarrow> se_to_rfc3339 tx now < e)"
  let ?thit = "\<lambda>r. sq_opens sha key (ak_key r) \<and> ak_enabled r \<and> unexpired now r"
  have ok: "row_ok tx r" if "r \<in> set rows" for r using assms(2) that by (simp add: list_all_iff)
  have hit: "?thit (typed_row tx r) = ?hit r" if "r \<in> set rows" for r using row_live [OF assms(1,3) ok [OF that]] by simp
  have upd: "typed_row tx (?upd r) = ?tupd (typed_row tx r)" "row_ok tx (?upd r)" if "r \<in> set rows" for r
    using typed_touch [OF assms(1,3) ok [OF that]] by simp_all
  have typed: "map (typed_row tx) (rewrite_where ?hit ?upd rows) = update_where ?thit ?tupd (map (typed_row tx) rows)"
    using hit upd(1) by (rule typed_rewrite_where)
  have "find (?thit \<circ> typed_row tx) rows = find ?hit rows" by (rule find_cong_set) (unfold comp_def, rule hit)
  then have "map_option (sq_into \<circ> ?tupd) (find ?thit (map (typed_row tx) rows)) = map_option (sq_into \<circ> ?tupd \<circ> typed_row tx) (find ?hit rows)"
    unfolding find_map by (simp add: option.map_comp)
  also have "\<dots> = map_option (key_of_row tx \<circ> ?upd) (find ?hit rows)"
  proof (cases "find ?hit rows")
    case (Some r)
    then have "r \<in> set rows" by (auto simp: find_Some_iff)
    from upd(1) [OF this, symmetric] have "sq_into (?tupd (typed_row tx r)) = sq_into (typed_row tx (?upd r))" by (rule arg_cong)
    then show ?thesis unfolding Some typed_columns by simp
  qed simp
  finally have out: "map_option (sq_into \<circ> ?tupd) (find ?thit (map (typed_row tx) rows)) = map_option (key_of_row tx \<circ> ?upd) (find ?hit rows)" .
  have "list_all (row_ok tx) (rewrite_where ?hit ?upd rows)" using assms(2) upd(2) by (intro rewrite_where_ok) simp_all
  then have "list_all (row_ok tx) (snd (commit_rows dberr (map_option (key_of_row tx \<circ> ?upd) (find ?hit rows)) (rewrite_where ?hit ?upd rows) rows))"
    using assms(2) by (intro commit_rows_ok)
  then show ?thesis unfolding simulates_def sq_validate_def sqlite_validate_def Let_def out typed [symmetric] typed_commit by (rule conjI [OF refl])
qed


section \<open>The text store refines the typed one\<close>

text \<open>C17: The SQLite store keeps every value as text or an integer and compares instants as text; it still answers and changes its
  rows as the typed table does: creating, reading, listing newest first, updating, deleting, validating with expiry,
  revoking and rotating. What it needs is that instants lie in years of four digits and that the JSON values it is
  given survive their own text.\<close>

theorem sqlite_text_store_refines:
  assumes "text_laws tx" "list_all (row_ok tx) rows" "datable (dr_now d)" "datable now" "storable_request tx request" "storable_update tx q"
  shows "simulates tx (sq_create dberr sha d request) (sqlite_create tx dberr sha d request) rows
    \<and> simulates tx (sq_update i q) (sqlite_update tx i q) rows
    \<and> simulates tx (sq_delete i) (sqlite_delete i) rows
    \<and> simulates tx (sq_validate dberr sha now key) (sqlite_validate tx dberr sha now key) rows
    \<and> simulates tx (sq_revoke i) (sqlite_revoke i) rows
    \<and> simulates tx (sq_rotate dberr sha d i) (sqlite_rotate tx dberr sha d i) rows
    \<and> sq_get i (map (typed_row tx) rows) = sqlite_get tx i rows \<and> sq_list (map (typed_row tx) rows) = sqlite_list tx rows"
  by (intro conjI create_simulates update_simulates delete_simulates validate_simulates revoke_simulates rotate_simulates typed_get typed_list assms)

fun sqlite_step :: "sqlite_text \<Rightarrow> string \<Rightarrow> (string \<Rightarrow> string) \<Rightarrow> key_op \<Rightarrow> key_rows \<Rightarrow> key_rows" where
  "sqlite_step tx dberr sha (Create_op d request) rows = snd (sqlite_create tx dberr sha d request rows)"
| "sqlite_step tx dberr sha (Update_op i q) rows = snd (sqlite_update tx i q rows)"
| "sqlite_step tx dberr sha (Delete_op i) rows = snd (sqlite_delete i rows)"
| "sqlite_step tx dberr sha (Validate_op now key) rows = snd (sqlite_validate tx dberr sha now key rows)"
| "sqlite_step tx dberr sha (Revoke_op i) rows = snd (sqlite_revoke i rows)"
| "sqlite_step tx dberr sha (Rotate_op d i) rows = snd (sqlite_rotate tx dberr sha d i rows)"

fun typed_step :: "string \<Rightarrow> (string \<Rightarrow> string) \<Rightarrow> key_op \<Rightarrow> table \<Rightarrow> table" where
  "typed_step dberr sha (Create_op d request) rows = snd (sq_create dberr sha d request rows)"
| "typed_step dberr sha (Update_op i q) rows = snd (sq_update i q rows)"
| "typed_step dberr sha (Delete_op i) rows = snd (sq_delete i rows)"
| "typed_step dberr sha (Validate_op now key) rows = snd (sq_validate dberr sha now key rows)"
| "typed_step dberr sha (Revoke_op i) rows = snd (sq_revoke i rows)"
| "typed_step dberr sha (Rotate_op d i) rows = snd (sq_rotate dberr sha d i rows)"

fun op_storable :: "sqlite_text \<Rightarrow> key_op \<Rightarrow> bool" where
  "op_storable tx (Create_op d request) = (datable (dr_now d) \<and> storable_request tx request)"
| "op_storable tx (Update_op i q) = storable_update tx q"
| "op_storable tx (Validate_op now key) = datable now"
| "op_storable tx _ = True"

lemma simulates_step:
  "simulates tx f g rows \<Longrightarrow> list_all (row_ok tx) (snd (g rows)) \<and> map (typed_row tx) (snd (g rows)) = snd (f (map (typed_row tx) rows))"
  by (simp add: simulates_def)

lemma step_typed:
  assumes "text_laws tx" "list_all (row_ok tx) rows" "op_storable tx op"
  shows "list_all (row_ok tx) (sqlite_step tx dberr sha op rows)
    \<and> map (typed_row tx) (sqlite_step tx dberr sha op rows) = typed_step dberr sha op (map (typed_row tx) rows)"
proof (cases op)
  case (Create_op d request)
  with assms show ?thesis using simulates_step [OF create_simulates] by simp
next
  case (Update_op i q)
  with assms show ?thesis using simulates_step [OF update_simulates] by simp
next
  case (Delete_op i)
  with assms show ?thesis using simulates_step [OF delete_simulates] by simp
next
  case (Validate_op now key)
  with assms show ?thesis using simulates_step [OF validate_simulates] by simp
next
  case (Revoke_op i)
  with assms show ?thesis using simulates_step [OF revoke_simulates] by simp
next
  case (Rotate_op d i)
  with assms show ?thesis using simulates_step [OF rotate_simulates] by simp
qed

text \<open>C36: Rows stay well-typed: after any run of statements from an empty table the enabled column is 0 or 1, the columns of
  instants hold the text of an instant, every JSON column decodes to a value that prints back, and the rows decode to
  exactly the keys the typed table holds after the same run.\<close>

theorem sqlite_rows_stay_typed:
  assumes "text_laws tx" "list_all (op_storable tx) ops"
  shows "list_all (row_ok tx) (fold (sqlite_step tx dberr sha) ops [])
    \<and> map (typed_row tx) (fold (sqlite_step tx dberr sha) ops []) = fold (typed_step dberr sha) ops []"
proof -
  have "list_all (row_ok tx) rows \<Longrightarrow> list_all (row_ok tx) (fold (sqlite_step tx dberr sha) ops rows)
      \<and> map (typed_row tx) (fold (sqlite_step tx dberr sha) ops rows) = fold (typed_step dberr sha) ops (map (typed_row tx) rows)" for rows
    using assms(2)
  proof (induction ops arbitrary: rows)
    case (Cons op ops)
    then show ?case using step_typed [OF assms(1) Cons.prems(1), of op dberr sha] by simp
  qed simp
  from this [of "[]"] show ?thesis by simp
qed

text \<open>Outside the years of four digits the comparison goes wrong: an expiry the writer gives a sign is before every current
  time, so its key is refused at once.\<close>

lemma signed_year_expires:
  assumes "se_to_rfc3339 tx expiry = CHR ''+'' # s" "se_to_rfc3339 tx now = c # w" "CHR ''0'' \<le> c" "lr_expires_at r = Some (se_to_rfc3339 tx expiry)"
  shows "\<not> (case lr_expires_at r of None \<Rightarrow> True | Some e \<Rightarrow> se_to_rfc3339 tx now < e)"
  using assms by (auto simp: less_char_def less_eq_char_def)

section \<open>Instance\<close>

definition number :: "string \<Rightarrow> nat" where
  "number s = fold (\<lambda>c a. 10 * a + (of_char c - 48)) s 0"

lemma number_snoc [simp]: "number [] = 0" "number (s @ [c]) = 10 * number s + (of_char c - 48)"
  by (simp_all add: number_def)

lemma number_digits: "number (digits w v) = v mod 10 ^ w"
proof (induction w arbitrary: v)
  case (Suc w)
  have "(of_char (char_of (48 + v mod 10) :: char) :: nat) = 48 + v mod 10" by simp
  then show ?case using Suc.IH [of "v div 10"] by (simp add: mod_mult2_eq [of v 10 "10 ^ w", simplified])
qed simp

lemma number_zeros: "number (s @ replicate k (CHR ''0'')) = number s * 10 ^ k"
proof (induction k)
  case (Suc k)
  have "s @ replicate (Suc k) (CHR ''0'') = (s @ replicate k (CHR ''0'')) @ [CHR ''0'']" by (simp add: replicate_append_same)
  then show ?case using Suc by (simp only: number_snoc) simp
qed simp

definition demo_clock :: "int \<Rightarrow> string" where
  "demo_clock s = digits 19 (nat (s + 62167219200))"

definition demo_write :: "datetime \<Rightarrow> string" where
  "demo_write t = demo_clock (t div 1000000000) @ fraction (nat (t mod 1000000000)) @ ''+00:00''"

definition demo_nanos :: "string \<Rightarrow> nat" where
  "demo_nanos s = (let p = takeWhile (\<lambda>c. c \<noteq> CHR ''+'') (tl s) in if hd s = CHR ''.'' then number p * 10 ^ (9 - length p) else 0)"

definition demo_read :: "string \<Rightarrow> datetime option" where
  "demo_read s = Some ((int (number (take 19 s)) - 62167219200) * 1000000000 + int (demo_nanos (drop 19 s)))"

definition demo_text :: sqlite_text where
  "demo_text =
     \<lparr>se_to_rfc3339 = demo_write, se_parse_rfc3339 = demo_read, se_parse_legacy = (\<lambda>_. None),
      se_json_text = (\<lambda>j. case j of JArr [JStr s] \<Rightarrow> s | _ \<Rightarrow> []), se_json_parse = (\<lambda>s. Some (JArr [JStr s])),
      se_limit_json = (\<lambda>_. JNull), se_limit_of = (\<lambda>_. None), se_budget_json = (\<lambda>_. JNull), se_budget_of = (\<lambda>_. None)\<rparr>"

lemma demo_nanos_back: "n < 1000000000 \<Longrightarrow> demo_nanos (fraction n @ ''+00:00'') = n"
proof (cases "n = 0")
  case False
  assume n: "n < 1000000000"
  obtain p k where p: "fraction n = CHR ''.'' # p" "digits 9 n = p @ replicate k (CHR ''0'')" using fraction_padded [OF False n] by blast
  have len: "length p + k = 9" using length_digits [of 9 n] p by simp
  have "set p \<subseteq> {c. CHR ''0'' \<le> c}" using digits_set [of 9 n] p by simp
  then have "takeWhile (\<lambda>c. c \<noteq> CHR ''+'') (p @ ''+00:00'') = p" by (subst takeWhile_append2) (auto simp: less_eq_char_def)
  moreover have "number p * 10 ^ k = n" using number_digits [of 9 n] n p(2) number_zeros [of p k] by simp
  moreover have "9 - length p = k" using len by simp
  ultimately show ?thesis using p(1) by (simp add: demo_nanos_def)
qed (simp add: demo_nanos_def fraction_def)

lemma demo_laws: "text_laws demo_text"
proof -
  have range: "nat (s + 62167219200) < 10 ^ 19" if "four_digit_year s" for s using that by (simp add: four_digit_year_def nat_less_iff)
  have "demo_clock s < demo_clock t" if "four_digit_year s" "four_digit_year t" "s < t" for s t
    unfolding demo_clock_def using that by (intro digits_less range) (auto simp: four_digit_year_def)
  then have "rfc3339_writer demo_write" unfolding rfc3339_writer_def
    by (intro exI [of _ demo_clock]) (simp add: demo_clock_def demo_write_def)
  moreover have "demo_read (demo_write t) = Some t" if "datable t" for t
  proof -
    have "number (demo_clock (t div 1000000000)) = nat (t div 1000000000 + 62167219200)"
      using range that by (simp add: demo_clock_def number_digits datable_def)
    moreover have "length (demo_clock (t div 1000000000)) = 19" by (simp add: demo_clock_def)
    moreover have "0 \<le> t div 1000000000 + 62167219200" using that by (simp add: datable_def four_digit_year_def)
    moreover have "nat (t mod 1000000000) < 1000000000" by (simp add: nat_less_iff)
    ultimately show ?thesis by (simp add: demo_read_def demo_write_def demo_nanos_back)
  qed
  ultimately show ?thesis by (simp add: text_laws_def demo_text_def)
qed

definition demo_create :: CreateApiKeyRequest where
  "demo_create = \<lparr>cq_name = ''ci'', cq_scopes = [''admin''], cq_expires_at = Some 7000000001, cq_metadata = None, cq_org_id = None,
     cq_team_id = None, cq_user_id = None, cq_models = None, cq_rate_limit_override = None, cq_token_budget = None\<rparr>"

definition demo_update :: UpdateApiKeyRequest where
  "demo_update = \<lparr>uq_name = Some ''cd'', uq_scopes = None, uq_enabled = None, uq_expires_at = None, uq_metadata = None, uq_org_id = None,
     uq_team_id = None, uq_user_id = None, uq_models = None, uq_rate_limit_override = None, uq_token_budget = None\<rparr>"

definition demo_draw :: draw where
  "demo_draw = \<lparr>dr_id = ''k1'', dr_uuid = ''0f'', dr_now = 5000000000\<rparr>"

lemma demo_storable:
  "storable_request demo_text demo_create" "storable_update demo_text demo_update" "datable (dr_now demo_draw)" "datable 6000000000"
  by (simp_all add: storable_request_def storable_def issued_def demo_create_def demo_text_def prints_back_def strings_json_def datable_def
      four_digit_year_def storable_update_def demo_update_def demo_draw_def)

theorem sqlite_text_store_refines_witness:
  "simulates demo_text (sq_create ''e'' rev demo_draw demo_create) (sqlite_create demo_text ''e'' rev demo_draw demo_create) []
    \<and> simulates demo_text (sq_update ''k1'' demo_update) (sqlite_update demo_text ''k1'' demo_update) []
    \<and> sq_get ''k1'' (map (typed_row demo_text) []) = sqlite_get demo_text ''k1'' []"
proof -
  have "list_all (row_ok demo_text) []" by simp
  from sqlite_text_store_refines [OF demo_laws this demo_storable(3,4,1,2), of "''e''" rev "''k1''" "''sk''"] show ?thesis
    by (elim conjE) (intro conjI; assumption)
qed

theorem sqlite_rows_stay_typed_witness:
  "map (typed_row demo_text) (fold (sqlite_step demo_text ''e'' rev) [Create_op demo_draw demo_create, Validate_op 6000000000 ''sk-0f'', Update_op ''k1'' demo_update] [])
    = fold (typed_step ''e'' rev) [Create_op demo_draw demo_create, Validate_op 6000000000 ''sk-0f'', Update_op ''k1'' demo_update] []"
proof -
  have "list_all (op_storable demo_text) [Create_op demo_draw demo_create, Validate_op 6000000000 ''sk-0f'', Update_op ''k1'' demo_update]"
    using demo_storable by simp
  from sqlite_rows_stay_typed [OF demo_laws this] show ?thesis by (rule conjunct2)
qed

end
