(* ===== verification/Audit_Files.thy ===== *)
theory Audit_Files
  imports Request_Audit
begin

text \<open>
  The tasks at the other end of the audit queue (\<^verbatim>\<open>himadri-observability/src/audit.rs\<close>): one file of JSON lines per day, or one
  trace event per audit event, and that the files read back as the events that were written.
\<close>

section \<open>The sink tasks\<close>

text \<open>Writing one event can fail when the file is opened, or in the middle of the line.\<close>

datatype write_outcome = Written | Not_opened | Broken_off nat

type_synonym files = "string \<rightharpoonup> string"

text \<open>\<^verbatim>\<open>day\<close> is the date of an instant as \<^verbatim>\<open>%Y-%m-%d\<close>, \<^verbatim>\<open>encode\<close> serde's JSON text of an event.\<close>

definition audit_path :: "(datetime \<Rightarrow> string) \<Rightarrow> string \<Rightarrow> AuditEvent \<Rightarrow> string" where
  "audit_path day dir event = dir @ ''/'' @ day (ae_timestamp event) @ ''.jsonl''"

definition append_file :: "string \<Rightarrow> string \<Rightarrow> files \<Rightarrow> files" where
  "append_file path text files = files(path \<mapsto> unwrap_or (files path) [] @ text)"

definition write_event ::
    "(AuditEvent \<Rightarrow> string option) \<Rightarrow> (datetime \<Rightarrow> string) \<Rightarrow> string \<Rightarrow> AuditEvent \<times> write_outcome \<Rightarrow> files \<Rightarrow> files" where
  "write_event encode day dir step files =
     (case step of (event, outcome) \<Rightarrow>
        (case encode event of
           None \<Rightarrow> files
         | Some line \<Rightarrow>
             (case outcome of
                Not_opened \<Rightarrow> files
              | Written \<Rightarrow> append_file (audit_path day dir event) (line @ [CHR 0x0A]) files
              | Broken_off n \<Rightarrow> append_file (audit_path day dir event) (take n (line @ [CHR 0x0A])) files)))"

text \<open>The task ends when the queue is closed; a directory that cannot be created is only warned about.\<close>

definition write_loop ::
    "(AuditEvent \<Rightarrow> string option) \<Rightarrow> (datetime \<Rightarrow> string) \<Rightarrow> string \<Rightarrow> (AuditEvent \<times> write_outcome) list \<Rightarrow> files \<Rightarrow> files" where
  "write_loop encode day dir steps files = fold (write_event encode day dir) steps files"

definition tracing_loop :: "(AuditEvent \<Rightarrow> string option) \<Rightarrow> AuditEvent list \<Rightarrow> string list" where
  "tracing_loop encode events = List.map_filter encode events"

section \<open>Reading the files back\<close>

function file_lines :: "string \<Rightarrow> string list" where
  "file_lines s =
     (if s = [] then [] else takeWhile (\<lambda>c. c \<noteq> CHR 0x0A) s # file_lines (tl (dropWhile (\<lambda>c. c \<noteq> CHR 0x0A) s)))"
  by pat_completeness auto
termination
proof (relation "measure length")
  fix s :: string
  assume "s \<noteq> []"
  then have "0 < length s" by simp
  moreover have "length (tl (dropWhile (\<lambda>c. c \<noteq> CHR 0x0A) s)) = length (dropWhile (\<lambda>c. c \<noteq> CHR 0x0A) s) - 1" by simp
  moreover have "length (dropWhile (\<lambda>c. c \<noteq> CHR 0x0A) s) \<le> length s" by (rule length_dropWhile_le)
  ultimately have "length (tl (dropWhile (\<lambda>c. c \<noteq> CHR 0x0A) s)) < length s" by linarith
  then show "(tl (dropWhile (\<lambda>c. c \<noteq> CHR 0x0A) s), s) \<in> measure length" by (simp only: in_measure)
qed simp

declare file_lines.simps [simp del]

definition whole_lines :: "string \<Rightarrow> bool" where
  "whole_lines s = (s = [] \<or> List.last s = CHR 0x0A)"

lemma file_lines_Nil [simp]: "file_lines [] = []"
  by (simp add: file_lines.simps)

lemma file_lines_line: "CHR 0x0A \<notin> set x \<Longrightarrow> file_lines (x @ CHR 0x0A # s) = x # file_lines s"
  by (subst file_lines.simps) (auto simp: takeWhile_append dropWhile_append)

lemma file_lines_append: "whole_lines c \<Longrightarrow> file_lines (c @ s) = file_lines c @ file_lines s"
proof (induction c rule: file_lines.induct)
  case (1 c)
  show ?case
  proof (cases "c = []")
    case False
    then have nl: "CHR 0x0A \<in> set c" using 1(2) last_in_set [of c] by (auto simp: whole_lines_def)
    obtain x r where c: "c = x @ CHR 0x0A # r" "CHR 0x0A \<notin> set x" using split_list_first [OF nl] by blast
    have r: "tl (dropWhile (\<lambda>c. c \<noteq> CHR 0x0A) c) = r" using c by (auto simp: dropWhile_append)
    have "whole_lines r" using 1(2) c by (auto simp: whole_lines_def split: if_splits)
    with 1(1) False r have "file_lines (r @ s) = file_lines r @ file_lines s" by simp
    then show ?thesis using c by (simp add: file_lines_line)
  qed simp
qed

text \<open>The events of a run whose lines reach a path.\<close>

definition reaches :: "(AuditEvent \<Rightarrow> string option) \<Rightarrow> (datetime \<Rightarrow> string) \<Rightarrow> string \<Rightarrow> string \<Rightarrow> AuditEvent \<times> write_outcome \<Rightarrow> bool" where
  "reaches encode day dir path step = (audit_path day dir (fst step) = path \<and> snd step = Written \<and> encode (fst step) \<noteq> None)"

fun unbroken :: "AuditEvent \<times> write_outcome \<Rightarrow> bool" where
  "unbroken (event, Broken_off n) = False"
| "unbroken _ = True"

lemma write_event_lines:
  assumes "unbroken step" "pred_option whole_lines (files path)" "\<And>line. encode (fst step) = Some line \<Longrightarrow> CHR 0x0A \<notin> set line"
  shows "pred_option whole_lines (write_event encode day dir step files path)
    \<and> file_lines (unwrap_or (write_event encode day dir step files path) [])
      = file_lines (unwrap_or (files path) []) @ (if reaches encode day dir path step then [the (encode (fst step))] else [])"
proof (cases "reaches encode day dir path step")
  case True
  then obtain event line where step: "step = (event, Written)" "encode event = Some line" "audit_path day dir event = path"
    by (cases step) (auto simp: reaches_def)
  have "whole_lines (unwrap_or (files path) [])" using assms(2) by (cases "files path") (simp_all add: whole_lines_def)
  then have "file_lines (unwrap_or (files path) [] @ line @ [CHR 0x0A]) = file_lines (unwrap_or (files path) []) @ [line]"
    using assms(3) step file_lines_line [of line "[]"] by (simp add: file_lines_append)
  moreover have "whole_lines (unwrap_or (files path) [] @ line @ [CHR 0x0A])" by (simp add: whole_lines_def)
  ultimately show ?thesis using True step by (simp add: write_event_def append_file_def)
next
  case False
  then have "write_event encode day dir step files path = files path" using assms(1)
    by (cases step; cases "snd step") (auto simp: write_event_def append_file_def reaches_def split: option.split)
  then show ?thesis using False assms(2) by simp
qed

text \<open>The audit files are a faithful record: reading a day's file line by line and decoding gives exactly the events of that day
  whose file could be opened, in the order they were delivered, after what the file held before; other files are not
  touched. It needs that the text of an event has no line break and decodes, and that no write breaks off.\<close>

theorem audit_files_roundtrip:
  assumes "\<And>event line. encode event = Some line \<Longrightarrow> CHR 0x0A \<notin> set line \<and> decode line = Some event"
    and "list_all unbroken steps" "pred_option whole_lines (files path)"
  shows "file_lines (unwrap_or (write_loop encode day dir steps files path) [])
      = file_lines (unwrap_or (files path) []) @ map (\<lambda>step. the (encode (fst step))) (filter (reaches encode day dir path) steps)
    \<and> map decode (map (\<lambda>step. the (encode (fst step))) (filter (reaches encode day dir path) steps))
      = map (\<lambda>step. Some (fst step)) (filter (reaches encode day dir path) steps)"
proof
  show "file_lines (unwrap_or (write_loop encode day dir steps files path) [])
      = file_lines (unwrap_or (files path) []) @ map (\<lambda>step. the (encode (fst step))) (filter (reaches encode day dir path) steps)"
    using assms(2,3) unfolding write_loop_def
  proof (induction steps arbitrary: files)
    case (Cons step steps)
    have "pred_option whole_lines (write_event encode day dir step files path)
        \<and> file_lines (unwrap_or (write_event encode day dir step files path) [])
          = file_lines (unwrap_or (files path) []) @ (if reaches encode day dir path step then [the (encode (fst step))] else [])"
      using Cons.prems assms(1) by (intro write_event_lines) simp_all
    then show ?case using Cons.IH [of "write_event encode day dir step files"] Cons.prems by simp
  qed simp
  show "map decode (map (\<lambda>step. the (encode (fst step))) (filter (reaches encode day dir path) steps))
      = map (\<lambda>step. Some (fst step)) (filter (reaches encode day dir path) steps)"
    using assms(1) by (auto simp: reaches_def)
qed

definition demo_audit_event :: "string \<Rightarrow> datetime \<Rightarrow> AuditEvent" where
  "demo_audit_event i t =
     \<lparr>ae_request_id = i, ae_timestamp = t, ae_org_id = None, ae_team_id = None, ae_user_id = None, ae_key_id = None, ae_model = [],
      ae_provider = None, ae_messages = [], ae_response = None, ae_latency_ms = 0, ae_tokens_prompt = None, ae_tokens_completion = None,
      ae_tokens_total = None, ae_status = Success_status, ae_error = None, ae_guardrail_actions = [], ae_stream = False\<rparr>"

text \<open>A broken-off line runs into the next one, so the events of both are lost to a reader.\<close>

lemma broken_line_swallows_next:
  "file_lines (unwrap_or (write_loop (Some \<circ> ae_request_id) (\<lambda>_. ''d'') ''a''
       [(demo_audit_event ''one'' 1, Broken_off 2), (demo_audit_event ''two'' 2, Written)] Map.empty ''a/d.jsonl'') []) = [''ontwo'']"
  by (simp add: write_loop_def write_event_def append_file_def audit_path_def demo_audit_event_def file_lines_line [of "''ontwo''" "[]", simplified] eval_nat_numeral)

definition demo_encode :: "AuditEvent \<Rightarrow> string option" where
  "demo_encode e = (if e = demo_audit_event (ae_request_id e) (ae_timestamp e) \<and> ae_timestamp e = 1 \<and> CHR 0x0A \<notin> set (ae_request_id e)
     then Some (ae_request_id e) else None)"

theorem audit_files_roundtrip_witness:
  "file_lines (unwrap_or (write_loop demo_encode (\<lambda>_. ''d'') ''a''
       [(demo_audit_event ''one'' 1, Written), (demo_audit_event ''two'' 1, Not_opened), (demo_audit_event ''three'' 1, Written)] Map.empty ''a/d.jsonl'') [])
     = [''one'', ''three'']"
proof -
  have laws: "CHR 0x0A \<notin> set line \<and> Some (demo_audit_event line 1) = Some event" if "demo_encode event = Some line" for event line
    using that by (auto simp: demo_encode_def split: if_splits)
  have code: "demo_encode (demo_audit_event ''one'' 1) = Some ''one''" "demo_encode (demo_audit_event ''three'' 1) = Some ''three''"
    by (simp_all add: demo_encode_def demo_audit_event_def)
  show ?thesis
    using audit_files_roundtrip [where encode = demo_encode and decode = "\<lambda>s. Some (demo_audit_event s 1)" and files = Map.empty and path = "''a/d.jsonl''"
        and day = "\<lambda>_. ''d''" and dir = "''a''" and steps = "[(demo_audit_event ''one'' 1, Written), (demo_audit_event ''two'' 1, Not_opened), (demo_audit_event ''three'' 1, Written)]", OF laws]
      code by (simp add: reaches_def audit_path_def)
qed

end
