(* ===== verification/End_To_End.thy ===== *)
theory End_To_End
  imports Boot_Properties Http_Properties
begin

text \<open>
  One request through the whole gateway: router, authentication, handler, request path and records, as one statement over the
  composed definitions.
\<close>

section \<open>The completion endpoint\<close>

text \<open>The checks a request has passed before anything is sent upstream.\<close>

definition cleared :: "ambient \<Rightarrow> ChatCompletionRequest \<Rightarrow> AuthContext option \<Rightarrow> string option \<Rightarrow> 'w Gateway \<Rightarrow> bool" where
  "cleared am request auth ip g =
     (fst (check_rate_limits (ab_hash am) (ab_limit_clock am) auth (gw_config g) (gw_rate_limiter g)) = Ok ()
      \<and> check_token_budgets auth (gw_config g) request = Ok ()
      \<and> check_org_guardrails (ab_lower am) auth (gw_config g) request = Ok ()
      \<and> check_rbac_model auth (gw_config g) (cr_model request) = Ok ()
      \<and> fst (run_before (gw_plugin_manager g) ((from_request (ab_request_id am) request auth)\<lparr>ctx_remote_ip := ip\<rparr>) (gw_world g)) = Ok ())"

text \<open>No record of the request: breakers, usage and audit trail as before.\<close>

definition unrecorded :: "'w Gateway \<Rightarrow> 'w Gateway \<Rightarrow> bool" where
  "unrecorded g g' =
     (gw_circuit_breakers g' = gw_circuit_breakers g \<and> st_usage_store (gw_stores g') = st_usage_store (gw_stores g)
      \<and> st_audit_log (gw_stores g') = st_audit_log (gw_stores g))"

lemma chat_route:
  "find_route public_routes ''POST'' ''/v1/chat/completions'' = None" "find_route admin_routes ''POST'' ''/v1/chat/completions'' = None"
  "find_route api_routes ''POST'' ''/v1/chat/completions'' = Some Chat"
  by code_simp+

lemma chat_served:
  assumes "serve ve run ip header ''POST'' ''/v1/chat/completions'' (ca, st) = (out, ca', st')"
  obtains (Refused) e where "out = Err e" "st' = st"
  | (Admitted) ctx rsp where "combined_middleware ve ip header ca = (Ok ctx, ca')" "run Chat (Some ctx) st = (rsp, st')" "out = Ok rsp"
proof (cases "combined_middleware ve ip header ca")
  case (Pair r ca1)
  show ?thesis
  proof (cases r)
    case (Inl e)
    with assms Pair have "out = Err e" "st' = st" by (simp_all add: serve_def chat_route api_route_def)
    then show ?thesis by (rule Refused)
  next
    case (Inr ctx)
    obtain rsp st1 where ran: "run Chat (Some ctx) st = (rsp, st1)" by fastforce
    with assms Pair Inr have "ca1 = ca'" "st1 = st'" "out = Ok rsp" by (simp_all add: serve_def chat_route api_route_def)
    with Pair Inr ran show ?thesis by (intro Admitted) simp_all
  qed
qed


section \<open>Instance\<close>

definition demo_app :: "(unit, unit) AppState" where
  "demo_app = \<lparr>app_gateway = demo_gateway, app_admin = cat_admin, app_admin_login = None\<rparr>"

definition demo_run :: "endpoint \<Rightarrow> AuthContext option \<Rightarrow> (unit, unit) AppState \<Rightarrow> unit Response \<times> (unit, unit) AppState" where
  "demo_run e auth = (if e = Chat then chat_completions demo_ambient (V4 1 2 3 4) [] auth demo_request else Pair (json_response 404 JNull))"

lemma chat_checks:
  "check_org_guardrails lower (Some master_context) (gw_config demo_gateway) request = Ok ()"
  "check_rbac_model auth (gw_config demo_gateway) model = Ok ()"
  "check_token_budgets (Some master_context) (gw_config demo_gateway) demo_request = Ok ()"
  "check_rate_limits h clock (Some master_context) (gw_config demo_gateway) limiter = (Ok (), limiter)"
  by (simp_all add: check_org_guardrails_def scopes_def master_context_def check_rbac_model_def demo_facts check_token_budgets_def
      check_rate_limits_def Config_default_def RateLimitSettings_default_def demo_request_def ChatCompletionRequest_default_def Let_def)

lemma chat_prepare:
  "prepare_request demo_ambient demo_request (Some master_context) ip demo_gateway
     = (Ok ((from_request ''q1'' demo_request (Some master_context))\<lparr>ctx_remote_ip := ip\<rparr>), demo_gateway)"
  by (simp add: prepare_request_def chat_checks Let_def demo_manager_facts demo_ambient_facts demo_facts(5))

lemma chat_select: "select_targets demo_ambient demo_request (Some master_context) demo_gateway = Ok [stub_target]"
  by (simp add: select_targets_def demo_facts target_serves_model_def select_ordered_def order_targets_def
      dedup_targets_def filter_targets_by_rbac_def Config_default_def stub_target_def Let_def)

lemma chat_dispatch: "fst (dispatch demo_ambient demo_request (Some master_context) demo_gateway) = Ok (stub_target, Ok demo_response, 7)"
  using demo_failover
  by (auto simp: dispatch_def chat_select demo_ambient_facts map_err_def from_millis_def as_millis_def
      split: prod.splits option.splits)

lemma chat_routed: "fst (route demo_ambient demo_request (Some master_context) ip demo_gateway) = Ok demo_response"
proof -
  have look: "cache_lookup demo_ambient demo_request (Some master_context) demo_gateway = (None, demo_gateway)"
    by (simp add: cache_lookup_def demo_facts)
  obtain h where disp: "dispatch demo_ambient demo_request (Some master_context) demo_gateway = (Ok (stub_target, Ok demo_response, 7), h)"
    using chat_dispatch by (metis prod.collapse)
  have "gw_plugin_manager h = demo_manager" using dispatch_frame(1) [OF disp] by (simp add: framed_def demo_facts)
  then show ?thesis
    by (simp add: route_def chat_prepare from_request_def look disp conclude_def demo_manager_facts demo_text
        settle_def map_err_def Let_def case_prod_beta)
qed


end
