(* ===== verification/Spec2Isabelle.thy ===== *)
theory Spec2Isabelle
  imports Circuit_Breaker Rate_Limiter Fixed_Window Budget Request_Plugins Roles Routing_Strategy
    Provider_Api Gateway_Policy Usage_Store Request_Audit Gateway_State Failover
    Gateway_Route Gateway_Stream Auth_Properties Client_Properties Plugin_Wiring Http_Properties Boot_Properties Redaction
    Postgres_Log Client_Pool Telemetry Response_Cache
    Sqlite_Rows Audit_Files End_To_End
begin

text \<open>
  \<^bold>\<open>The himadri gateway: a verification library.\<close>

  The program is an HTTP gateway in front of language-model providers. A request is authenticated, checked against limits, guardrails and
  grants, sent to an upstream provider chosen by a routing strategy with failover behind circuit breakers, and its answer is checked,
  accounted and returned, at once or as a stream. An admin API changes keys, the model catalogue and the configuration, from which the
  routing table is rebuilt while the gateway runs. The development translates the Rust crates under \<^verbatim>\<open>src/crates\<close>; paths below are
  relative to it. Definitions keep the names of the functions, structs and enums they translate, with a prefix or suffix where a name
  is taken; a record's fields carry a short prefix of their own.

  \<^bold>\<open>Conventions.\<close> Machine integers are words (\<open>u64\<close>, \<open>u32\<close>) with wrap-around, saturation and checked subtraction as in the source.
  Floating-point amounts, weights and ratios are rationals. A \<open>Result\<close> is a sum (\<open>Err\<close>, \<open>Ok\<close>), an early return a branch, a panic an
  option where the code can panic. State is a record passed through; what the code reads from outside (clock, random draws, fresh
  identifiers, environment, hashes, JSON text, network and database outcomes) is an argument, and where a theorem needs the documented
  behaviour of such an outside part, that behaviour is a named predicate among its hypotheses, with an instance in the theorem's witness.
  A mutex or a map entry makes an operation one step; interleavings are sequences of such steps, and a step relation with one step per
  atomic instruction is used where threads race without a lock.

  \<^bold>\<open>Layers and theories.\<close>

  \<^item> \<open>Prelude\<close>: words, results, strings, association lists for hash maps, and the interfaces \<open>bounded_admission\<close> and \<open>exact_admission\<close> that
    breaker, bucket and window share. \<open>Sharded_Map\<close>: the interface \<open>keyed_map\<close> and its implementation by hashed shards.

  \<^item> \<open>Core_Types\<close>, \<open>Gateway_Config\<close>, \<open>Net_Guard\<close>, \<open>Rbac\<close>, \<open>Roles\<close> (\<^verbatim>\<open>himadri-core\<close>): request, response and error types; configuration with its
    validation and the walk from a principal to its scopes; environment parsing and the guard against internal addresses; wildcard matching and
    role-based grants, with the greedy matcher equal to the declarative meaning of a pattern; the role catalogue.

  \<^item> \<open>Circuit_Breaker\<close> (\<^verbatim>\<open>himadri-circuitbreaker\<close>): the breaker refines a three-state machine. \<open>Token_Bucket\<close>, \<open>Rate_Limiter\<close>
    (\<^verbatim>\<open>himadri-ratelimit\<close>): one call as a function, threads as a step relation; admissions are bounded under every interleaving, every
    call returns after at most four of its own steps, and the sharded limiter is one map of buckets.

  \<^item> \<open>Plugin\<close> (\<^verbatim>\<open>himadri-plugin\<close>), \<open>Fixed_Window\<close>, \<open>Budget\<close>, \<open>Request_Plugins\<close>, \<open>Response_Cache\<close>, \<open>Pii_Engine\<close>, \<open>Pii_Guardrail\<close>, \<open>Pii_Properties\<close>
    (\<^verbatim>\<open>himadri-plugins\<close>) and \<open>Plugin_Wiring\<close> (\<^verbatim>\<open>himadri/src/wire/plugins.rs\<close>): the pipeline framework, each plugin with its store, and the
    assembled pipeline. Rate limits and budgets reject exactly at their limits; a cached answer stays with its organisation, team and
    request; personal data the engine detects is blocked or replaced exactly, and an engine that fails closes the gate.

  \<^item> \<open>Provider_Api\<close>, \<open>Provider_Clients\<close>, \<open>Client_Properties\<close>, \<open>Client_Pool\<close> (\<^verbatim>\<open>himadri-provider\<close>): errors and their mapping, the registry, the decoder of
    server-sent events, which does not depend on how the bytes are cut, the Anthropic, Gemini and OpenAI-compatible clients with their
    translations, and the pool of HTTP clients with its time bounds.

  \<^item> \<open>Usage_Store\<close>, \<open>Key_Store\<close>, \<open>Key_Backends\<close>, \<open>Key_Lifecycle\<close>, \<open>Sqlite_Rows\<close>, \<open>Model_Store\<close>, \<open>Model_Catalogue\<close>, \<open>Postgres_Log\<close> (\<^verbatim>\<open>himadri-admin\<close>): usage
    and request logs as bounded rings; gateway keys in memory, in Postgres and in SQLite behind the interface \<open>key_store\<close>, all three refining
    one abstract specification of issuing, updating, revoking, rotating and validating; the SQLite store again on the texts it keeps,
    simulating the typed table; the model catalogue on both databases behind the interface \<open>model_stores\<close>; the asynchronous Postgres log.

  \<^item> \<open>Authentication\<close>, \<open>Auth_Properties\<close> (\<^verbatim>\<open>himadri-auth\<close>, \<^verbatim>\<open>himadri-admin/src/middleware.rs\<close>, \<^verbatim>\<open>himadri/src/combined_auth.rs\<close>): keys, OIDC tokens and the
    break-glass login; only valid credentials get in and every refusal is audited.

  \<^item> \<open>Request_Audit\<close>, \<open>Audit_Files\<close>, \<open>Redaction\<close>, \<open>Telemetry\<close> (\<^verbatim>\<open>himadri-observability\<close>): the audit queue and its files, the redactor, whose output holds no match
    of its patterns, metrics and tracing.

  \<^item> \<open>Routing_Strategy\<close>, \<open>Gateway_Policy\<close>, \<open>Gateway_State\<close>, \<open>Failover\<close>, \<open>Gateway_Route\<close>, \<open>Gateway_Stream\<close> (\<^verbatim>\<open>himadri/src/strategy.rs\<close>, \<^verbatim>\<open>himadri/src/gateway\<close>): the
    target order, the checks before a request, configuration versions and the rebuild of the routing table, failover, the request path and
    the streaming path with every early return. A response is returned only past every check, accounted exactly once, and comes from a
    granted target.

  \<^item> \<open>Http_Api\<close>, \<open>Http_Properties\<close>, \<open>Boot\<close>, \<open>Boot_Properties\<close> (\<^verbatim>\<open>himadri/src/handlers.rs\<close>, \<^verbatim>\<open>main.rs\<close>, \<^verbatim>\<open>wire\<close>): the handlers over the application state, the
    router and the start-up, and \<open>End_To_End\<close>, which puts one request through all of them. An admin change takes effect in the routing
    table at once, provider keys stay inside, admin handlers run for administrators only, and a started gateway never bypasses an
    authentication it requires.

  \<^bold>\<open>How the parts meet.\<close> \<open>Gateway_Route.route\<close> composes the policy, the plugin pipeline, the strategy, \<open>Failover.failover_loop\<close> with the breakers and
  the auditor over one record \<open>Gateway\<close>; \<open>Gateway_Stream\<close> shares its prologue. The HTTP handlers call both and the admin stores over one application
  state, \<open>Boot.serve\<close> puts them behind the middleware of \<open>Authentication\<close>, and \<open>Boot.main\<close> builds that state from command line, environment and
  stores. Clients of an interface prove their lemmas once in its locale; every locale is interpreted on the model's own operations in the theory
  that provides them.

  \<^bold>\<open>Loops.\<close> Every loop of the source is a total function: structural recursion, or a measure (the ring that evicts, the scanner of the
  redactor, the lines of a file). No fuel is used. The infinite loops of background tasks are modelled as sequences of turns: the log
  writer, the audit sinks and the threads of the bucket.

  \<^bold>\<open>Properties.\<close> The numbered properties stand beside the theories they are about, each with a witness where it has hypotheses. Lemmas under the
  heading of findings, or named in the manifest, show where the code departs from what it says: among them a discovery failure that opens the
  gateway, a persistent request log that receives no entries, a listing that ignores the stage it is asked for, and expiries compared as text.

  \<^bold>\<open>Not modelled.\<close> The web interface, the load-test sink, deployment scripts, SQL migrations and the tests. Of third-party code: HTTP and TLS, the
  databases' engines, SHA-256, AES-GCM, signed tokens, regular expressions supplied by the configuration, JSON and time text, the concurrent cache and
  the detection engine are arguments. Log lines, trace spans, signal handling, the periodic refresh of signing keys, the text encoding of metrics and
  the delay after a failed login are left out. Two operations on different locks do not interleave inside one request's functions; where that
  matters (rotation of keys in memory, admission) the steps are split.
\<close>

end
